(* ===== verification/Prelude.thy ===== *)
theory Prelude
  imports Complex_Main "HOL-Library.Word" "HOL-Library.Multiset"
begin

text \<open>
  Prelude of the development: the machine-integer types of the Rust sources, the
  saturating and checked arithmetic the sources use, the collections that carry the
  automation of the component theories, and generic lemmas on lists.

  Rust's \<open>u8\<close>, \<open>u32\<close>, \<open>u64\<close> are words of that width. \<open>usize\<close> values that are lengths
  of collections are \<open>nat\<close>. \<open>f32\<close>/\<open>f64\<close> fields are the rational numbers they denote: every
  float of an \<open>AgentReport\<close> is finite (it is computed from counts or read from JSON, which has
  no NaN and no infinity) and the modelled code only compares or prints them.
\<close>

unbundle bit_operations_syntax

type_synonym u8 = "8 word"
type_synonym u16 = "16 word"
type_synonym u32 = "32 word"
type_synonym u64 = "64 word"

named_theorems rule_wf \<open>every scoring rule emits well-formed findings\<close>
named_theorems rule_ids \<open>the identifiers and sources a scoring rule can emit\<close>

section \<open>Saturating and checked arithmetic\<close>

definition sat_add_u8 :: "u8 \<Rightarrow> u8 \<Rightarrow> u8" where
  "sat_add_u8 a b = (if unat a + unat b < 256 then a + b else 255)"

definition sat_add_u32 :: "u32 \<Rightarrow> u32 \<Rightarrow> u32" where
  "sat_add_u32 a b = (if unat a + unat b < 2 ^ 32 then a + b else 4294967295)"

definition sat_sub_u32 :: "u32 \<Rightarrow> u32 \<Rightarrow> u32" where
  "sat_sub_u32 a b = (if b \<le> a then a - b else 0)"

definition sat_mul_u64 :: "u64 \<Rightarrow> u64 \<Rightarrow> u64" where
  "sat_mul_u64 a b = (if unat a * unat b < 2 ^ 64 then a * b else 18446744073709551615)"

definition sat_add_u64 :: "u64 \<Rightarrow> u64 \<Rightarrow> u64" where
  "sat_add_u64 a b = (if unat a + unat b < 2 ^ 64 then a + b else 18446744073709551615)"

lemma unat_sat_add_u8: "unat (sat_add_u8 a b) = min 255 (unat a + unat b)"
  by (auto simp: sat_add_u8_def unat_word_ariths min_def)

lemma unat_sat_add_u32: "unat (sat_add_u32 a b) = min 4294967295 (unat a + unat b)"
  by (auto simp: sat_add_u32_def unat_word_ariths min_def)

lemma unat_sat_sub_u32: "unat (sat_sub_u32 a b) = unat a - unat b"
  by (auto simp: sat_sub_u32_def unat_sub word_le_nat_alt)

lemma unat_sat_mul_u64: "unat (sat_mul_u64 a b) = min 18446744073709551615 (unat a * unat b)"
  by (auto simp: sat_mul_u64_def unat_word_ariths min_def)

lemma unat_sat_add_u64: "unat (sat_add_u64 a b) = min 18446744073709551615 (unat a + unat b)"
  by (auto simp: sat_add_u64_def unat_word_ariths min_def)

lemma unat_min_word: "unat (min a b) = min (unat a) (unat (b :: 'a::len word))"
  by (simp add: min_def word_le_nat_alt)

section \<open>Lists\<close>

lemma concat_map_singleton_if:
  "concat (map (\<lambda>x. if P x then [f x] else []) xs) = map f (filter P xs)"
  by (induction xs) auto

lemma find_None_filter: "find P xs = None \<longleftrightarrow> filter P xs = []"
  by (induction xs) auto

lemma find_SomeD: "find P xs = Some x \<Longrightarrow> x \<in> set xs \<and> P x"
  by (induction xs) (auto split: if_splits)

lemma sum_list_map_nat_le:
  "(\<And>x. x \<in> set xs \<Longrightarrow> f x \<le> g x) \<Longrightarrow> sum_list (map f xs) \<le> (sum_list (map g xs) :: nat)"
  by (induction xs) (auto intro: add_mono)

lemma filter_partition_mset:
  "mset (filter P xs) + mset (filter (\<lambda>x. \<not> P x) xs) = mset xs"
  by (induction xs) auto

text \<open>\<open>v.iter().max()\<close> of a list of weights, \<open>unwrap_or(0)\<close> on the empty one.\<close>

definition max_or_0 :: "u8 list \<Rightarrow> u8" where
  "max_or_0 ws = foldr max ws 0"

lemma max_or_0_ge: "w \<in> set ws \<Longrightarrow> w \<le> max_or_0 ws"
  by (induction ws) (auto simp: max_or_0_def le_max_iff_disj)

lemma max_or_0_le: "(\<And>w. w \<in> set ws \<Longrightarrow> w \<le> b) \<Longrightarrow> max_or_0 ws \<le> b"
  by (induction ws) (auto simp: max_or_0_def)

end
