(* ===== verification/RustStr.thy ===== *)
theory RustStr
  imports Prelude
begin

text \<open>
  The part of Rust's \<open>str\<close>, \<open>String\<close> and \<open>fmt\<close> library that the sources use. A Rust string is
  its UTF-8 bytes, so a string of the model is a list of 8-bit characters and its length counts
  bytes, as \<open>len()\<close> does. Characters outside ASCII are written as their bytes.
\<close>

section \<open>Searching and splitting\<close>

fun strip_prefix :: "string \<Rightarrow> string \<Rightarrow> string option" where
  "strip_prefix [] s = Some s"
| "strip_prefix (c # p) [] = None"
| "strip_prefix (c # p) (d # s) = (if c = d then strip_prefix p s else None)"

definition starts_with :: "string \<Rightarrow> string \<Rightarrow> bool" where
  "starts_with s p = (strip_prefix p s \<noteq> None)"

definition strip_suffix :: "string \<Rightarrow> string \<Rightarrow> string option" where
  "strip_suffix p s = map_option rev (strip_prefix (rev p) (rev s))"

definition ends_with :: "string \<Rightarrow> string \<Rightarrow> bool" where
  "ends_with s p = starts_with (rev s) (rev p)"

fun contains :: "string \<Rightarrow> string \<Rightarrow> bool" where
  "contains [] p = (p = [])"
| "contains (c # s) p = (starts_with (c # s) p \<or> contains s p)"

text \<open>\<open>s.split(c)\<close>: never empty; an empty piece between two adjacent separators.\<close>

fun split_char :: "char \<Rightarrow> string \<Rightarrow> string list" where
  "split_char c [] = [[]]"
| "split_char c (d # s) =
     (if d = c then [] # split_char c s
      else (case split_char c s of [] \<Rightarrow> [[d]] | w # ws \<Rightarrow> (d # w) # ws))"

text \<open>\<open>s.split_once(c)\<close>: the parts before and after the first \<open>c\<close>.\<close>

fun split_once :: "char \<Rightarrow> string \<Rightarrow> (string \<times> string) option" where
  "split_once c [] = None"
| "split_once c (d # s) =
     (if d = c then Some ([], s)
      else (case split_once c s of None \<Rightarrow> None | Some (a, b) \<Rightarrow> Some (d # a, b)))"

definition rsplit_once :: "char \<Rightarrow> string \<Rightarrow> (string \<times> string) option" where
  "rsplit_once c s = map_option (\<lambda>(a, b). (rev b, rev a)) (split_once c (rev s))"

text \<open>\<open>v.join(sep)\<close>.\<close>

fun join :: "string \<Rightarrow> string list \<Rightarrow> string" where
  "join sep [] = []"
| "join sep [x] = x"
| "join sep (x # y # xs) = x @ sep @ join sep (y # xs)"

lemma strip_prefix_Some_iff: "strip_prefix p s = Some r \<longleftrightarrow> s = p @ r"
  by (induction p s rule: strip_prefix.induct) auto

lemma starts_with_iff: "starts_with s p \<longleftrightarrow> (\<exists>r. s = p @ r)"
  unfolding starts_with_def not_None_eq strip_prefix_Some_iff ..

lemma starts_with_Nil [simp]: "starts_with s []"
  by (simp add: starts_with_def)

lemma starts_with_Cons [simp]:
  "starts_with [] (c # p) = False"
  "starts_with (d # s) (c # p) = (d = c \<and> starts_with s p)"
  by (auto simp: starts_with_def)

lemma starts_with_append [simp]: "starts_with (p @ s) p"
  by (auto simp: starts_with_iff)

lemma starts_with_weaken: "starts_with s (p @ q) \<Longrightarrow> starts_with s p"
  by (auto simp: starts_with_iff)

lemma ends_with_iff: "ends_with s p \<longleftrightarrow> (\<exists>r. s = r @ p)"
proof -
  have "(\<exists>r. rev s = rev p @ r) \<longleftrightarrow> (\<exists>r. s = r @ p)"
    by (metis rev_append rev_rev_ident)
  then show ?thesis by (simp add: ends_with_def starts_with_iff)
qed

lemma contains_iff: "contains s p \<longleftrightarrow> (\<exists>a b. s = a @ p @ b)"
proof (induction s p rule: contains.induct)
  case (1 p)
  then show ?case by simp
next
  case (2 c s p)
  show ?case
  proof
    assume "contains (c # s) p"
    then consider "starts_with (c # s) p" | "contains s p" by auto
    then show "\<exists>a b. c # s = a @ p @ b"
    proof cases
      case 1
      then obtain r where "c # s = [] @ p @ r" by (auto simp: starts_with_iff)
      then show ?thesis by blast
    next
      case 2
      then obtain a b where "c # s = (c # a) @ p @ b" using "2.IH" by auto
      then show ?thesis by blast
    qed
  next
    assume "\<exists>a b. c # s = a @ p @ b"
    then obtain a b where ab: "c # s = a @ p @ b" by blast
    show "contains (c # s) p"
    proof (cases a)
      case Nil
      with ab have "starts_with (c # s) p" by (metis append_Nil starts_with_iff)
      then show ?thesis by simp
    next
      case (Cons d a')
      with ab have "s = a' @ p @ b" by simp
      then show ?thesis using "2.IH" by auto
    qed
  qed
qed

lemma starts_with_contains: "starts_with s p \<Longrightarrow> contains s p"
  by (metis append_Nil contains_iff starts_with_iff)

lemma split_char_not_Nil [simp]: "split_char c s \<noteq> []"
  by (induction s) (auto split: list.splits)

lemma join_split_char: "join [c] (split_char c s) = s"
proof (induction s)
  case (Cons d s)
  show ?case
  proof (cases "split_char c s")
    case Nil
    then show ?thesis by simp
  next
    case (Cons w ws)
    with Cons.IH show ?thesis by (cases ws) auto
  qed
qed simp

lemma split_char_no_sep: "w \<in> set (split_char c s) \<Longrightarrow> c \<notin> set w"
  by (induction s arbitrary: w) (auto split: if_splits list.splits)

lemma split_once_Some: "split_once c s = Some (a, b) \<Longrightarrow> s = a @ c # b \<and> c \<notin> set a"
  by (induction s arbitrary: a) (auto split: if_splits option.splits)

lemma split_once_append: "c \<notin> set a \<Longrightarrow> split_once c (a @ c # b) = Some (a, b)"
  by (induction a) auto

section \<open>Case and white space\<close>

definition ascii_lower :: "char \<Rightarrow> char" where
  "ascii_lower c = (let n = of_char c :: nat in if 65 \<le> n \<and> n \<le> 90 then char_of (n + 32) else c)"

definition eq_ignore_ascii_case :: "string \<Rightarrow> string \<Rightarrow> bool" where
  "eq_ignore_ascii_case a b = (map ascii_lower a = map ascii_lower b)"

text \<open>
  \<open>char::is_whitespace\<close> on UTF-8 bytes: the scalar values with the Unicode White_Space property,
  each as its encoding. \<open>trim\<close> removes them at both ends, \<open>trim_ascii\<close> the ASCII ones
  (space, tab, line feed, form feed, carriage return: \<open>u8::is_ascii_whitespace\<close>).
\<close>

definition white_space :: "string list" where
  "white_space =
     map (\<lambda>n. [char_of (n :: nat)]) [9, 10, 11, 12, 13, 32]
     @ [[CHR 0xC2, CHR 0x85], [CHR 0xC2, CHR 0xA0], [CHR 0xE1, CHR 0x9A, CHR 0x80]]
     @ map (\<lambda>n. [CHR 0xE2, CHR 0x80, char_of (n :: nat)])
         [128, 129, 130, 131, 132, 133, 134, 135, 136, 137, 138, 168, 169, 175]
     @ [[CHR 0xE2, CHR 0x81, CHR 0x9F], [CHR 0xE3, CHR 0x80, CHR 0x80]]"

lemma white_space_nonempty: "w \<in> set white_space \<Longrightarrow> w \<noteq> []"
  by (auto simp: white_space_def)

fun strip_one :: "string list \<Rightarrow> string \<Rightarrow> string option" where
  "strip_one [] s = None"
| "strip_one (w # ws) s = (case strip_prefix w s of Some r \<Rightarrow> Some r | None \<Rightarrow> strip_one ws s)"

lemma strip_one_shorter:
  "strip_one ws s = Some r \<Longrightarrow> (\<And>w. w \<in> set ws \<Longrightarrow> w \<noteq> []) \<Longrightarrow> length r < length s"
  by (induction ws s rule: strip_one.induct) (auto simp: strip_prefix_Some_iff split: option.splits)

function trim_by :: "string list \<Rightarrow> string \<Rightarrow> string" where
  "trim_by ws s =
     (case strip_one (filter (\<lambda>w. w \<noteq> []) ws) s of None \<Rightarrow> s | Some r \<Rightarrow> trim_by ws r)"
  by pat_completeness auto
termination
  by (relation "measure (\<lambda>(ws, s). length s)") (auto dest: strip_one_shorter)

declare trim_by.simps [simp del]

definition trim :: "string \<Rightarrow> string" where
  "trim s = rev (trim_by (map rev white_space) (rev (trim_by white_space s)))"

text \<open>Trimming leaves a string alone that begins and ends with a visible ASCII character.\<close>

lemma white_space_literals:
  "white_space =
     [[CHR 0x09], [CHR 0x0A], [CHR 0x0B], [CHR 0x0C], [CHR 0x0D], [CHR 0x20],
      [CHR 0xC2, CHR 0x85], [CHR 0xC2, CHR 0xA0], [CHR 0xE1, CHR 0x9A, CHR 0x80],
      [CHR 0xE2, CHR 0x80, CHR 0x80], [CHR 0xE2, CHR 0x80, CHR 0x81], [CHR 0xE2, CHR 0x80, CHR 0x82],
      [CHR 0xE2, CHR 0x80, CHR 0x83], [CHR 0xE2, CHR 0x80, CHR 0x84], [CHR 0xE2, CHR 0x80, CHR 0x85],
      [CHR 0xE2, CHR 0x80, CHR 0x86], [CHR 0xE2, CHR 0x80, CHR 0x87], [CHR 0xE2, CHR 0x80, CHR 0x88],
      [CHR 0xE2, CHR 0x80, CHR 0x89], [CHR 0xE2, CHR 0x80, CHR 0x8A], [CHR 0xE2, CHR 0x80, CHR 0xA8],
      [CHR 0xE2, CHR 0x80, CHR 0xA9], [CHR 0xE2, CHR 0x80, CHR 0xAF], [CHR 0xE2, CHR 0x81, CHR 0x9F],
      [CHR 0xE3, CHR 0x80, CHR 0x80]]"
  by code_simp

definition visible :: "char \<Rightarrow> bool" where
  "visible c = (let n = of_char c :: nat in 33 \<le> n \<and> n \<le> 126)"

lemma visible_no_space:
  "list_all (\<lambda>w. w \<noteq> [] \<and> \<not> visible (hd w)) white_space"
  "list_all (\<lambda>w. w \<noteq> [] \<and> \<not> visible (hd w)) (map rev white_space)"
  by (simp_all add: white_space_literals visible_def)

lemma strip_one_visible:
  "list_all (\<lambda>w. w \<noteq> [] \<and> \<not> visible (hd w)) ws \<Longrightarrow> visible c \<Longrightarrow> strip_one ws (c # s) = None"
proof (induction ws)
  case (Cons w ws)
  then show ?case by (cases w) auto
qed simp

lemma trim_by_visible:
  "list_all (\<lambda>w. w \<noteq> [] \<and> \<not> visible (hd w)) ws \<Longrightarrow> visible (hd s) \<Longrightarrow> s \<noteq> [] \<Longrightarrow> trim_by ws s = s"
proof -
  assume a: "list_all (\<lambda>w. w \<noteq> [] \<and> \<not> visible (hd w)) ws" "visible (hd s)" "s \<noteq> []"
  then have "list_all (\<lambda>w. w \<noteq> [] \<and> \<not> visible (hd w)) (filter (\<lambda>w. w \<noteq> []) ws)"
    by (simp add: list_all_iff)
  then show ?thesis
    using a strip_one_visible [of "filter (\<lambda>w. w \<noteq> []) ws" "hd s" "tl s"]
    by (simp add: trim_by.simps [of ws s])
qed

lemma trim_visible: "s \<noteq> [] \<Longrightarrow> visible (hd s) \<Longrightarrow> visible (last s) \<Longrightarrow> trim s = s"
  by (simp add: trim_def trim_by_visible [OF visible_no_space(1)] trim_by_visible [OF visible_no_space(2)]
      hd_rev)

definition is_ascii_ws :: "char \<Rightarrow> bool" where
  "is_ascii_ws c = ((of_char c :: nat) \<in> {9, 10, 12, 13, 32})"

definition trim_ascii :: "string \<Rightarrow> string" where
  "trim_ascii s = rev (dropWhile is_ascii_ws (rev (dropWhile is_ascii_ws s)))"

section \<open>Formatting\<close>

definition digit_char :: "nat \<Rightarrow> char" where
  "digit_char d = char_of (if d < 10 then 48 + d else 87 + d)"

fun show_base :: "nat \<Rightarrow> nat \<Rightarrow> string" where
  "show_base b n =
     (if n < b \<or> b < 2 then [digit_char n] else show_base b (n div b) @ [digit_char (n mod b)])"

declare show_base.simps [simp del]

text \<open>\<open>{}\<close> and \<open>{:o}\<close> on unsigned integers.\<close>

definition show_nat :: "nat \<Rightarrow> string" where
  "show_nat n = show_base 10 n"

definition show_word :: "'a::len word \<Rightarrow> string" where
  "show_word w = show_nat (unat w)"

definition show_octal :: "'a::len word \<Rightarrow> string" where
  "show_octal w = show_base 8 (unat w)"

definition show_bool :: "bool \<Rightarrow> string" where
  "show_bool b = (if b then ''true'' else ''false'')"

text \<open>\<open>{:.1}\<close> of a finite float: one decimal, ties to even on the exact value.\<close>

definition round_half_even :: "rat \<Rightarrow> int" where
  "round_half_even q =
     (let f = \<lfloor>q\<rfloor>; d = q - of_int f in
      if d < 1 / 2 then f else if d > 1 / 2 then f + 1 else if even f then f else f + 1)"

definition show_fixed1 :: "rat \<Rightarrow> string" where
  "show_fixed1 q =
     (let t = nat (round_half_even (10 * \<bar>q\<bar>)) in
      (if q < 0 then ''-'' else '''') @ show_nat (t div 10) @ ''.'' @ show_nat (t mod 10))"

text \<open>The characters outside ASCII that occur in the modelled messages.\<close>

definition em_dash :: string where
  "em_dash = [CHR 0xE2, CHR 0x80, CHR 0x94]"

definition en_dash :: string where
  "en_dash = [CHR 0xE2, CHR 0x80, CHR 0x93]"

definition arrow :: string where
  "arrow = [CHR 0xE2, CHR 0x86, CHR 0x92]"

text \<open>A \<open>char\<close> is a Unicode scalar value; \<open>utf8_encode\<close> is its UTF-8 form in a string.\<close>

type_synonym uchar = nat

definition utf8_encode :: "uchar \<Rightarrow> string" where
  "utf8_encode n =
     (if n < 128 then [char_of n]
      else if n < 2048 then [char_of (192 + n div 64), char_of (128 + n mod 64)]
      else if n < 65536 then
        [char_of (224 + n div 4096), char_of (128 + (n div 64) mod 64), char_of (128 + n mod 64)]
      else [char_of (240 + n div 262144), char_of (128 + (n div 4096) mod 64),
            char_of (128 + (n div 64) mod 64), char_of (128 + n mod 64)])"

section \<open>Parsing numbers\<close>

definition digit_value :: "nat \<Rightarrow> char \<Rightarrow> nat option" where
  "digit_value b c =
     (let n = of_char c :: nat;
          v = (if 48 \<le> n \<and> n \<le> 57 then Some (n - 48)
               else if 97 \<le> n \<and> n \<le> 122 then Some (n - 87)
               else if 65 \<le> n \<and> n \<le> 90 then Some (n - 55) else None)
      in case v of Some d \<Rightarrow> if d < b then Some d else None | None \<Rightarrow> None)"

fun parse_digits :: "nat \<Rightarrow> nat \<Rightarrow> string \<Rightarrow> nat option" where
  "parse_digits b acc [] = Some acc"
| "parse_digits b acc (c # s) =
     (case digit_value b c of None \<Rightarrow> None | Some d \<Rightarrow> parse_digits b (acc * b + d) s)"

text \<open>
  \<open>uN::from_str_radix\<close>: one leading \<open>+\<close> is allowed, at least one digit is required, and a value
  of \<open>2^N\<close> or more is an error.
\<close>

definition from_str_radix :: "nat \<Rightarrow> nat \<Rightarrow> string \<Rightarrow> nat option" where
  "from_str_radix N b s =
     (let ds = (case s of c # r \<Rightarrow> if c = CHR ''+'' then r else s | [] \<Rightarrow> [])
      in if ds = [] then None
         else case parse_digits b 0 ds of
           None \<Rightarrow> None
         | Some n \<Rightarrow> if n < 2 ^ N then Some n else None)"

lemma parse_digits_append:
  "parse_digits b acc (s @ t) =
     (case parse_digits b acc s of None \<Rightarrow> None | Some a \<Rightarrow> parse_digits b a t)"
  by (induction s arbitrary: acc) (auto split: option.splits)

lemma digit_value_digit_char: "d < b \<Longrightarrow> b \<le> 16 \<Longrightarrow> digit_value b (digit_char d) = Some d"
  by (auto simp: digit_value_def digit_char_def Let_def)

lemma parse_show_base:
  assumes "2 \<le> b" and "b \<le> 16"
  shows "parse_digits b 0 (show_base b n) = Some n"
  using assms
proof (induction b n rule: show_base.induct)
  case (1 b n)
  then show ?case
    by (cases "n < b")
      (simp_all add: show_base.simps [of b n] parse_digits_append digit_value_digit_char)
qed

lemma show_base_inj: "2 \<le> b \<Longrightarrow> b \<le> 16 \<Longrightarrow> show_base b m = show_base b n \<Longrightarrow> m = n"
  by (metis option.inject parse_show_base)

lemma show_base_not_Nil [simp]: "show_base b n \<noteq> []"
  by (subst show_base.simps) simp

end
