(* ===== verification/Models.thy ===== *)
theory Models
  imports RustStr
begin

text \<open>
  The data model of \<open>src/models.rs\<close>: every struct of the scan report is a record with the
  struct's fields in the struct's order, every enum a datatype with its variants. A field is
  prefixed with the initials of its struct, because record fields share one name space.
  \<open>default_\<dots>\<close> is the struct's \<open>Default::default()\<close>. Reading and writing JSON (serde) is not
  modelled: a report is its deserialised value.
\<close>

section \<open>Report structures\<close>

record self_integrity_report =
  sir_compromised :: "bool"
  sir_warnings :: "string list"

definition default_self_integrity_report :: self_integrity_report where
  "default_self_integrity_report =
    \<lparr>sir_compromised = False, sir_warnings = []\<rparr>"

datatype cron_severity = CronOk | CronWarning | CronCritical

record cron_job =
  cj_command :: "string"
  cj_severity :: "cron_severity"

definition default_cron_job :: cron_job where
  "default_cron_job =
    \<lparr>cj_command = '''', cj_severity = CronOk\<rparr>"

record process_info =
  pri_name :: "string"
  pri_pid :: "u32"
  pri_memory_mb :: "u64"
  pri_instances :: "u32"

definition default_process_info :: process_info where
  "default_process_info =
    \<lparr>pri_name = '''', pri_pid = 0, pri_memory_mb = 0, pri_instances = 0\<rparr>"

record zombie_info =
  zi_pid :: "u32"
  zi_name :: "string"
  zi_ppid :: "u32"
  zi_parent_name :: "string"

definition default_zombie_info :: zombie_info where
  "default_zombie_info =
    \<lparr>zi_pid = 0, zi_name = '''', zi_ppid = 0, zi_parent_name = ''''\<rparr>"

record host_info =
  hi_hostname :: "string"
  hi_external_ipv4 :: "string"
  hi_hosting_provider :: "string"
  hi_os_install_date :: "string"
  hi_os_version :: "string"
  hi_kernel :: "string"
  hi_uptime_days :: "u64"
  hi_reboot_required :: "bool"
  hi_cpu_cores :: "nat"
  hi_total_ram_mb :: "u64"
  hi_swap_total_mb :: "u64"
  hi_swap_used_mb :: "u64"
  hi_load_average :: "rat \<times> rat \<times> rat"
  hi_open_files_limit :: "string"
  hi_oom_kills :: "nat"
  hi_zombie_processes :: "nat"
  hi_security_modules :: "string list"
  hi_dmesg_errors :: "string list"
  hi_gpu_devices :: "string list"
  hi_native_services :: "string list"
  hi_cron_jobs :: "cron_job list"
  hi_systemd_timers :: "string list"
  hi_tech_stack :: "string list"
  hi_top_memory_processes :: "process_info list"
  hi_failed_services :: "string list"
  hi_backup_tools :: "string list"
  hi_last_restic_snapshot :: "string option"
  hi_ntp_synchronized :: "bool"
  hi_time_offset_ms :: "rat option"
  hi_reboot_required_pkgs :: "string list"
  hi_zombie_details :: "zombie_info list"

definition default_host_info :: host_info where
  "default_host_info =
    \<lparr>hi_hostname = '''', hi_external_ipv4 = '''', hi_hosting_provider = '''',
     hi_os_install_date = '''', hi_os_version = '''', hi_kernel = '''', hi_uptime_days = 0,
     hi_reboot_required = False, hi_cpu_cores = 0, hi_total_ram_mb = 0, hi_swap_total_mb = 0,
     hi_swap_used_mb = 0, hi_load_average = (0, 0, 0), hi_open_files_limit = '''',
     hi_oom_kills = 0, hi_zombie_processes = 0, hi_security_modules = [], hi_dmesg_errors = [],
     hi_gpu_devices = [], hi_native_services = [], hi_cron_jobs = [], hi_systemd_timers = [],
     hi_tech_stack = [], hi_top_memory_processes = [], hi_failed_services = [],
     hi_backup_tools = [], hi_last_restic_snapshot = None, hi_ntp_synchronized = False,
     hi_time_offset_ms = None, hi_reboot_required_pkgs = [], hi_zombie_details = []\<rparr>"

record database_info =
  dbi_engine :: "string"
  dbi_version :: "string"
  dbi_data_dir :: "string"
  dbi_size_mb :: "u64"

definition default_database_info :: database_info where
  "default_database_info =
    \<lparr>dbi_engine = '''', dbi_version = '''', dbi_data_dir = '''', dbi_size_mb = 0\<rparr>"

record ssl_cert_info =
  ssl_domain :: "string"
  ssl_expiry_date :: "string"
  ssl_days_remaining :: "int option"
  ssl_is_critical :: "bool"
  ssl_is_warning :: "bool"

definition default_ssl_cert_info :: ssl_cert_info where
  "default_ssl_cert_info =
    \<lparr>ssl_domain = '''', ssl_expiry_date = '''', ssl_days_remaining = None,
     ssl_is_critical = False, ssl_is_warning = False\<rparr>"

record port_info =
  pi_protocol :: "string"
  pi_port :: "string"
  pi_process :: "string"
  pi_bind_address :: "string"
  pi_pid :: "u32 option"
  pi_exe_path :: "string option"

definition default_port_info :: port_info where
  "default_port_info =
    \<lparr>pi_protocol = '''', pi_port = '''', pi_process = '''', pi_bind_address = '''',
     pi_pid = None, pi_exe_path = None\<rparr>"

record foreign_netns_listener =
  fnl_netns :: "string"
  fnl_protocol :: "string"
  fnl_bind_address :: "string"
  fnl_port :: "string"
  fnl_example_process :: "string option"
  fnl_container :: "string option"
  fnl_runtime_infrastructure :: "bool"

definition default_foreign_netns_listener :: foreign_netns_listener where
  "default_foreign_netns_listener =
    \<lparr>fnl_netns = '''', fnl_protocol = '''', fnl_bind_address = '''', fnl_port = '''',
     fnl_example_process = None, fnl_container = None, fnl_runtime_infrastructure = False\<rparr>"

record network_info =
  ni_firewall_active :: "bool"
  ni_dns_resolvers :: "string list"
  ni_custom_host_overrides :: "string list"
  ni_ssl_certificates :: "ssl_cert_info list"
  ni_listening_ports :: "port_info list"
  ni_dns_upstreams :: "string list"
  ni_foreign_netns_listeners :: "foreign_netns_listener list"

definition default_network_info :: network_info where
  "default_network_info =
    \<lparr>ni_firewall_active = False, ni_dns_resolvers = [], ni_custom_host_overrides = [],
     ni_ssl_certificates = [], ni_listening_ports = [], ni_dns_upstreams = [],
     ni_foreign_netns_listeners = []\<rparr>"

record disk_info =
  di_mount_point :: "string"
  di_total_mb :: "u64"
  di_used_mb :: "u64"
  di_usage_pct :: "rat"
  di_inode_usage_percent :: "string option"

definition default_disk_info :: disk_info where
  "default_disk_info =
    \<lparr>di_mount_point = '''', di_total_mb = 0, di_used_mb = 0, di_usage_pct = 0,
     di_inode_usage_percent = None\<rparr>"

record storage_info =
  sti_disks :: "disk_info list"

definition default_storage_info :: storage_info where
  "default_storage_info =
    \<lparr>sti_disks = []\<rparr>"

record dangling_image_info =
  dii_id :: "string"
  dii_size_mb :: "u64"

definition default_dangling_image_info :: dangling_image_info where
  "default_dangling_image_info =
    \<lparr>dii_id = '''', dii_size_mb = 0\<rparr>"

record container_info =
  ci_name :: "string"
  ci_image :: "string"
  ci_state :: "string"
  ci_status :: "string"
  ci_size_mb :: "u64"
  ci_log_size_mb :: "u64"
  ci_ports :: "string list"
  ci_mounts :: "string list"
  ci_privileged :: "bool"
  ci_memory_limit_mb :: "u64 option"
  ci_cpu_limit :: "rat option"
  ci_cap_add :: "string list"
  ci_sensitive_mounts :: "string list"
  ci_restart_count :: "u64"
  ci_oom_killed :: "bool"
  ci_health_status :: "string option"
  ci_rw_size_mb :: "u64"
  ci_runtime_bounding_caps :: "u64 option"
  ci_image_id :: "string option"

definition default_container_info :: container_info where
  "default_container_info =
    \<lparr>ci_name = '''', ci_image = '''', ci_state = '''', ci_status = '''', ci_size_mb = 0,
     ci_log_size_mb = 0, ci_ports = [], ci_mounts = [], ci_privileged = False,
     ci_memory_limit_mb = None, ci_cpu_limit = None, ci_cap_add = [], ci_sensitive_mounts = [],
     ci_restart_count = 0, ci_oom_killed = False, ci_health_status = None, ci_rw_size_mb = 0,
     ci_runtime_bounding_caps = None, ci_image_id = None\<rparr>"

record container_netns_mapping =
  cnm_name :: "string"
  cnm_netns :: "string option"
  cnm_pid :: "u32 option"
  cnm_mnt_ns :: "string option"

definition default_container_netns_mapping :: container_netns_mapping where
  "default_container_netns_mapping =
    \<lparr>cnm_name = '''', cnm_netns = None, cnm_pid = None, cnm_mnt_ns = None\<rparr>"

record topology_info =
  ti_runtime_active :: "bool"
  ti_runtime_name :: "string"
  ti_images_count :: "nat"
  ti_dangling_images_count :: "nat"
  ti_total_images_size_mb :: "u64"
  ti_total_dangling_size_mb :: "u64"
  ti_dangling_volumes_count :: "nat"
  ti_dangling_images :: "dangling_image_info list"
  ti_containers :: "container_info list"
  ti_images_reclaimable_mb :: "u64"
  ti_build_cache_reclaimable_mb :: "u64"
  ti_container_netns :: "container_netns_mapping list"

definition default_topology_info :: topology_info where
  "default_topology_info =
    \<lparr>ti_runtime_active = False, ti_runtime_name = '''', ti_images_count = 0,
     ti_dangling_images_count = 0, ti_total_images_size_mb = 0, ti_total_dangling_size_mb = 0,
     ti_dangling_volumes_count = 0, ti_dangling_images = [], ti_containers = [],
     ti_images_reclaimable_mb = 0, ti_build_cache_reclaimable_mb = 0, ti_container_netns = []\<rparr>"

record user_info =
  ui_username :: "string"
  ui_last_login :: "string"
  ui_last_ssh_login :: "string"
  ui_authorized_keys_count :: "nat"

definition default_user_info :: user_info where
  "default_user_info =
    \<lparr>ui_username = '''', ui_last_login = '''', ui_last_ssh_login = '''',
     ui_authorized_keys_count = 0\<rparr>"

record ssh_key_audit =
  ska_user :: "string"
  ska_algorithm :: "string"
  ska_bits :: "u32"
  ska_comment :: "string"
  ska_compliant :: "bool"
  ska_reason :: "string option"
  ska_options :: "string list"

definition default_ssh_key_audit :: ssh_key_audit where
  "default_ssh_key_audit =
    \<lparr>ska_user = '''', ska_algorithm = '''', ska_bits = 0, ska_comment = '''',
     ska_compliant = False, ska_reason = None, ska_options = []\<rparr>"

record sudoers_entry =
  se_principal :: "string"
  se_source_file :: "string"
  se_scope :: "string"

definition default_sudoers_entry :: sudoers_entry where
  "default_sudoers_entry =
    \<lparr>se_principal = '''', se_source_file = '''', se_scope = ''''\<rparr>"

record root_equivalent_group =
  reg_group :: "string"
  reg_members :: "string list"
  reg_reason :: "string"
  reg_bypasses_sudo :: "bool"

definition default_root_equivalent_group :: root_equivalent_group where
  "default_root_equivalent_group =
    \<lparr>reg_group = '''', reg_members = [], reg_reason = '''', reg_bypasses_sudo = False\<rparr>"

record access_audit_result =
  aar_keys :: "ssh_key_audit list"
  aar_coverage_warnings :: "string list"
  aar_sudoers_nopasswd_all :: "sudoers_entry list"
  aar_root_equivalent_groups :: "root_equivalent_group list"

definition default_access_audit_result :: access_audit_result where
  "default_access_audit_result =
    \<lparr>aar_keys = [], aar_coverage_warnings = [], aar_sudoers_nopasswd_all = [],
     aar_root_equivalent_groups = []\<rparr>"

record secret_leak =
  sl_pid :: "u32"
  sl_process :: "string"
  sl_source :: "string"
  sl_matched_key :: "string"
  sl_self_attributed :: "string option"
  sl_age_secs :: "u64 option"

definition default_secret_leak :: secret_leak where
  "default_secret_leak =
    \<lparr>sl_pid = 0, sl_process = '''', sl_source = '''', sl_matched_key = '''',
     sl_self_attributed = None, sl_age_secs = None\<rparr>"

datatype cap_reason = AmbientCapsNoNewPrivs

record proc_cap_finding =
  pcf_pid :: "u32"
  pcf_comm :: "string"
  pcf_euid :: "u32"
  pcf_effective :: "u64"
  pcf_permitted :: "u64"
  pcf_inheritable :: "u64"
  pcf_bounding :: "u64"
  pcf_ambient :: "u64"
  pcf_no_new_privs :: "bool option"
  pcf_seccomp :: "u8 option"
  pcf_critical_caps :: "string list"
  pcf_reason :: "cap_reason option"

definition default_proc_cap_finding :: proc_cap_finding where
  "default_proc_cap_finding =
    \<lparr>pcf_pid = 0, pcf_comm = '''', pcf_euid = 0, pcf_effective = 0, pcf_permitted = 0,
     pcf_inheritable = 0, pcf_bounding = 0, pcf_ambient = 0, pcf_no_new_privs = None,
     pcf_seccomp = None, pcf_critical_caps = [], pcf_reason = None\<rparr>"

record suspicious_process =
  sp_pid :: "u32"
  sp_name :: "string"
  sp_exe_path :: "string option"
  sp_is_deleted :: "bool"
  sp_euid :: "u32"
  sp_is_mimic :: "bool"
  sp_self_attributed :: "string option"

definition default_suspicious_process :: suspicious_process where
  "default_suspicious_process =
    \<lparr>sp_pid = 0, sp_name = '''', sp_exe_path = None, sp_is_deleted = False, sp_euid = 0,
     sp_is_mimic = False, sp_self_attributed = None\<rparr>"

record mount_masking_finding =
  mmf_target_path :: "string"
  mmf_mount_source :: "string"
  mmf_fstype :: "string"
  mmf_reason :: "string"

definition default_mount_masking_finding :: mount_masking_finding where
  "default_mount_masking_finding =
    \<lparr>mmf_target_path = '''', mmf_mount_source = '''', mmf_fstype = '''', mmf_reason = ''''\<rparr>"

record reverse_shell_finding =
  rsf_pid :: "u32"
  rsf_process :: "string"
  rsf_exe_path :: "string option"
  rsf_remote_address :: "string"
  rsf_stdio_fd :: "u8 option"

definition default_reverse_shell_finding :: reverse_shell_finding where
  "default_reverse_shell_finding =
    \<lparr>rsf_pid = 0, rsf_process = '''', rsf_exe_path = None, rsf_remote_address = '''',
     rsf_stdio_fd = None\<rparr>"

datatype origin = FfiClosure | GObjectCallback | JitCode | RuntimeTrampoline | HotSpot | Pcre2Jit | UnknownPayload | Inconclusive | ManagedJit | ReservedBuffer | GhostCleanImage | GhostSuspectImage | GhostInconclusive

datatype prologue = Endbr64 | PushRbp

datatype pointer_kind = LibText | JitCluster | LibData | Unmapped

record resolved_pointer =
  rp_value :: "string"
  rp_target :: "string"
  rp_kind :: "pointer_kind"

definition default_resolved_pointer :: resolved_pointer where
  "default_resolved_pointer =
    \<lparr>rp_value = '''', rp_target = '''', rp_kind = Unmapped\<rparr>"

record deep_memory_analysis =
  dma_origin :: "origin"
  dma_confidence :: "u8"
  dma_entropy :: "rat"
  dma_prologue :: "prologue option"
  dma_resolved_pointers :: "resolved_pointer list"
  dma_bytes_examined :: "nat"
  dma_image_header :: "bool"

definition default_deep_memory_analysis :: deep_memory_analysis where
  "default_deep_memory_analysis =
    \<lparr>dma_origin = Inconclusive, dma_confidence = 0, dma_entropy = 0, dma_prologue = None,
     dma_resolved_pointers = [], dma_bytes_examined = 0, dma_image_header = False\<rparr>"

record library_injection_finding =
  lif_pid :: "u32"
  lif_process :: "string"
  lif_object_path :: "string"
  lif_source :: "string"
  lif_is_deleted :: "bool"
  lif_region_addr :: "string option"
  lif_deep_forensics :: "deep_memory_analysis option"
  lif_deep_unavailable :: "string option"
  lif_exe_path :: "string option"

definition default_library_injection_finding :: library_injection_finding where
  "default_library_injection_finding =
    \<lparr>lif_pid = 0, lif_process = '''', lif_object_path = '''', lif_source = '''',
     lif_is_deleted = False, lif_region_addr = None, lif_deep_forensics = None,
     lif_deep_unavailable = None, lif_exe_path = None\<rparr>"

record ghost_pid_finding =
  gpf_pid :: "u32"
  gpf_state :: "string option"
  gpf_age_secs :: "u64 option"
  gpf_confirmed_via :: "string"
  gpf_confirmed_ioc :: "bool"
  gpf_holds_socket :: "bool"

definition default_ghost_pid_finding :: ghost_pid_finding where
  "default_ghost_pid_finding =
    \<lparr>gpf_pid = 0, gpf_state = None, gpf_age_secs = None, gpf_confirmed_via = '''',
     gpf_confirmed_ioc = False, gpf_holds_socket = False\<rparr>"

record file_cap_finding =
  fcf_path :: "string"
  fcf_capabilities :: "string list"
  fcf_reason :: "string option"
  fcf_permitted :: "u64"
  fcf_inheritable :: "u64"
  fcf_effective :: "bool"
  fcf_revision :: "u8"
  fcf_rootid :: "u32 option"
  fcf_package :: "string option"

definition default_file_cap_finding :: file_cap_finding where
  "default_file_cap_finding =
    \<lparr>fcf_path = '''', fcf_capabilities = [], fcf_reason = None, fcf_permitted = 0,
     fcf_inheritable = 0, fcf_effective = False, fcf_revision = 0, fcf_rootid = None,
     fcf_package = None\<rparr>"

record bpf_prog_info =
  bpi_prog_id :: "u32"
  bpi_prog_type :: "string"
  bpi_prog_name :: "string option"
  bpi_prog_tag :: "string"
  bpi_pid :: "u32"
  bpi_comm :: "string"

definition default_bpf_prog_info :: bpf_prog_info where
  "default_bpf_prog_info =
    \<lparr>bpi_prog_id = 0, bpi_prog_type = '''', bpi_prog_name = None, bpi_prog_tag = '''',
     bpi_pid = 0, bpi_comm = ''''\<rparr>"

record bpf_map_info =
  bmi_map_id :: "u32"
  bmi_map_type :: "string"
  bmi_pid :: "u32"
  bmi_comm :: "string"

definition default_bpf_map_info :: bpf_map_info where
  "default_bpf_map_info =
    \<lparr>bmi_map_id = 0, bmi_map_type = '''', bmi_pid = 0, bmi_comm = ''''\<rparr>"

record bpf_pin_info =
  bni_path :: "string"
  bni_obj_type :: "string"
  bni_obj_id :: "u32"

definition default_bpf_pin_info :: bpf_pin_info where
  "default_bpf_pin_info =
    \<lparr>bni_path = '''', bni_obj_type = '''', bni_obj_id = 0\<rparr>"

record bpf_link_info =
  bli_link_id :: "u32"
  bli_prog_id :: "u32"
  bli_attach_type :: "string"
  bli_pid :: "u32"
  bli_comm :: "string"

definition default_bpf_link_info :: bpf_link_info where
  "default_bpf_link_info =
    \<lparr>bli_link_id = 0, bli_prog_id = 0, bli_attach_type = '''', bli_pid = 0, bli_comm = ''''\<rparr>"

record ebpf_inventory =
  ebi_programs :: "bpf_prog_info list"
  ebi_maps :: "bpf_map_info list"
  ebi_pins :: "bpf_pin_info list"
  ebi_links :: "bpf_link_info list"
  ebi_prog_tags :: "string list"

definition default_ebpf_inventory :: ebpf_inventory where
  "default_ebpf_inventory =
    \<lparr>ebi_programs = [], ebi_maps = [], ebi_pins = [], ebi_links = [], ebi_prog_tags = []\<rparr>"

record setuid_finding =
  suf_path :: "string"
  suf_setuid :: "bool"
  suf_setgid :: "bool"
  suf_root_owner :: "bool"
  suf_package :: "string option"

definition default_setuid_finding :: setuid_finding where
  "default_setuid_finding =
    \<lparr>suf_path = '''', suf_setuid = False, suf_setgid = False, suf_root_owner = False,
     suf_package = None\<rparr>"

datatype provenance_source = Dpkg | Apk | PartialApk | Rpm | ProvUnavailable

record taint_flag =
  tf_bit :: "u8"
  tf_code :: "uchar"
  tf_name :: "string"
  tf_security_relevant :: "bool"

definition default_taint_flag :: taint_flag where
  "default_taint_flag =
    \<lparr>tf_bit = 0, tf_code = 0, tf_name = '''', tf_security_relevant = False\<rparr>"

record kernel_taint =
  kt_raw :: "u64"
  kt_flags :: "taint_flag list"
  kt_unavailable :: "bool"

definition default_kernel_taint :: kernel_taint where
  "default_kernel_taint =
    \<lparr>kt_raw = 0, kt_flags = [], kt_unavailable = False\<rparr>"

record complain_proc =
  cp_pid :: "u32"
  cp_comm :: "string"
  cp_profile :: "string"

definition default_complain_proc :: complain_proc where
  "default_complain_proc =
    \<lparr>cp_pid = 0, cp_comm = '''', cp_profile = ''''\<rparr>"

record confinement_report =
  cr_lsms :: "string list"
  cr_selinux_permissive :: "bool"
  cr_complain_profiles :: "complain_proc list"
  cr_attr_read_incomplete :: "bool"

definition default_confinement_report :: confinement_report where
  "default_confinement_report =
    \<lparr>cr_lsms = [], cr_selinux_permissive = False, cr_complain_profiles = [],
     cr_attr_read_incomplete = False\<rparr>"

record hidden_module =
  hm_name :: "string"
  hm_seen_in :: "string list"

definition default_hidden_module :: hidden_module where
  "default_hidden_module =
    \<lparr>hm_name = '''', hm_seen_in = []\<rparr>"

record kernel_module_inventory =
  kmi_proc_modules :: "string list"
  kmi_sysfs_modules :: "string list"
  kmi_hidden_candidates :: "hidden_module list"
  kmi_kallsyms_checked :: "bool"

definition default_kernel_module_inventory :: kernel_module_inventory where
  "default_kernel_module_inventory =
    \<lparr>kmi_proc_modules = [], kmi_sysfs_modules = [], kmi_hidden_candidates = [],
     kmi_kallsyms_checked = False\<rparr>"

record ftrace_hook =
  fh_function :: "string"
  fh_ops_count :: "u32"
  fh_callback :: "string"

definition default_ftrace_hook :: ftrace_hook where
  "default_ftrace_hook =
    \<lparr>fh_function = '''', fh_ops_count = 0, fh_callback = ''''\<rparr>"

record kprobe_entry =
  kpe_kind :: "uchar"
  kpe_group_name :: "string"
  kpe_symbol :: "string"

definition default_kprobe_entry :: kprobe_entry where
  "default_kprobe_entry =
    \<lparr>kpe_kind = 0, kpe_group_name = '''', kpe_symbol = ''''\<rparr>"

record ftrace_hook_inventory =
  fhi_unattributed_syscall_hooks :: "ftrace_hook list"
  fhi_syscall_kprobes :: "kprobe_entry list"
  fhi_attributed_hook_count :: "nat"
  fhi_live_tracer_active :: "bool"
  fhi_attribution_degraded :: "bool"
  fhi_tracefs_available :: "bool"

definition default_ftrace_hook_inventory :: ftrace_hook_inventory where
  "default_ftrace_hook_inventory =
    \<lparr>fhi_unattributed_syscall_hooks = [], fhi_syscall_kprobes = [],
     fhi_attributed_hook_count = 0, fhi_live_tracer_active = False,
     fhi_attribution_degraded = False, fhi_tracefs_available = False\<rparr>"

record preload_finding =
  plf_path :: "string"
  plf_volatile :: "bool"
  plf_package :: "string option"
  plf_mapped_by_pids :: "nat option"

definition default_preload_finding :: preload_finding where
  "default_preload_finding =
    \<lparr>plf_path = '''', plf_volatile = False, plf_package = None, plf_mapped_by_pids = None\<rparr>"

datatype exec_writability = RootOnly | NonRootWritable | Missing | WUnknown

record exec_start_finding =
  esf_source :: "string"
  esf_unit_name :: "string"
  esf_unit_path :: "string"
  esf_unit_package :: "string option"
  esf_exec_path :: "string"
  esf_volatile :: "bool"
  esf_writability :: "exec_writability"
  esf_package :: "string option"
  esf_runs_as_root :: "bool"

definition default_exec_start_finding :: exec_start_finding where
  "default_exec_start_finding =
    \<lparr>esf_source = '''', esf_unit_name = '''', esf_unit_path = '''', esf_unit_package = None,
     esf_exec_path = '''', esf_volatile = False, esf_writability = RootOnly,
     esf_package = None, esf_runs_as_root = False\<rparr>"

record ld_so_conf_injection =
  lsc_path :: "string"
  lsc_volatile :: "bool"
  lsc_writable_by_non_root :: "bool"
  lsc_mode :: "u32 option"
  lsc_uid :: "u32"
  lsc_gid :: "u32"

definition default_ld_so_conf_injection :: ld_so_conf_injection where
  "default_ld_so_conf_injection =
    \<lparr>lsc_path = '''', lsc_volatile = False, lsc_writable_by_non_root = False, lsc_mode = None,
     lsc_uid = 0, lsc_gid = 0\<rparr>"

datatype generator_kind = GkExecutable | GkSearchDir

datatype generator_origin = GoVendor | GoLocalAdmin | GoAdmin | GoRuntime

record generator_finding =
  gf_path :: "string"
  gf_kind :: "generator_kind"
  gf_origin :: "generator_origin"
  gf_package :: "string option"
  gf_writability :: "exec_writability"
  gf_symlink_target :: "string option"
  gf_resolved_path :: "string option"
  gf_uid :: "u32"
  gf_gid :: "u32"

definition default_generator_finding :: generator_finding where
  "default_generator_finding =
    \<lparr>gf_path = '''', gf_kind = GkExecutable, gf_origin = GoVendor, gf_package = None,
     gf_writability = RootOnly, gf_symlink_target = None, gf_resolved_path = None, gf_uid = 0,
     gf_gid = 0\<rparr>"

record pam_module =
  pm_module_path :: "string"

definition default_pam_module :: pam_module where
  "default_pam_module =
    \<lparr>pm_module_path = ''''\<rparr>"

datatype pam_target_kind = PamModuleKind | ExecScript | Config

record pam_finding =
  paf_services :: "string list"
  paf_module :: "pam_module"
  paf_writability :: "exec_writability"
  paf_volatile :: "bool"
  paf_package :: "string option"
  paf_uid :: "u32 option"
  paf_gid :: "u32 option"
  paf_parent_takeable :: "bool"
  paf_target_kind :: "pam_target_kind"
  paf_declared_as :: "string option"

definition default_pam_finding :: pam_finding where
  "default_pam_finding =
    \<lparr>paf_services = [], paf_module = default_pam_module, paf_writability = RootOnly,
     paf_volatile = False, paf_package = None, paf_uid = None, paf_gid = None,
     paf_parent_takeable = False, paf_target_kind = PamModuleKind, paf_declared_as = None\<rparr>"

record mount_namespace_anomaly =
  mna_pid :: "u32"
  mna_comm :: "string"
  mna_exe_path :: "string option"
  mna_mnt_ns :: "string"
  mna_systemd_unit :: "string option"
  mna_system_path :: "bool"
  mna_container :: "string option"

definition default_mount_namespace_anomaly :: mount_namespace_anomaly where
  "default_mount_namespace_anomaly =
    \<lparr>mna_pid = 0, mna_comm = '''', mna_exe_path = None, mna_mnt_ns = '''',
     mna_systemd_unit = None, mna_system_path = False, mna_container = None\<rparr>"

record cpu_vulnerability =
  cv_name :: "string"
  cv_status :: "string"
  cv_vulnerable :: "bool"

definition default_cpu_vulnerability :: cpu_vulnerability where
  "default_cpu_vulnerability =
    \<lparr>cv_name = '''', cv_status = '''', cv_vulnerable = False\<rparr>"

record sshd_directive =
  sd_directive :: "string"
  sd_value :: "string"
  sd_target :: "string option"
  sd_writability :: "exec_writability option"

definition default_sshd_directive :: sshd_directive where
  "default_sshd_directive =
    \<lparr>sd_directive = '''', sd_value = '''', sd_target = None, sd_writability = None\<rparr>"

record immutable_flag =
  imf_path :: "string"
  imf_resolved :: "string"
  imf_immutable :: "bool"
  imf_append_only :: "bool"

definition default_immutable_flag :: immutable_flag where
  "default_immutable_flag =
    \<lparr>imf_path = '''', imf_resolved = '''', imf_immutable = False, imf_append_only = False\<rparr>"

record firewall_bypass_finding =
  fbf_container :: "string"
  fbf_published :: "string"
  fbf_host_port :: "u16"
  fbf_container_port :: "u16"
  fbf_protocol :: "string"
  fbf_sensitive :: "bool"
  fbf_firewall_was_active :: "bool"

definition default_firewall_bypass_finding :: firewall_bypass_finding where
  "default_firewall_bypass_finding =
    \<lparr>fbf_container = '''', fbf_published = '''', fbf_host_port = 0, fbf_container_port = 0,
     fbf_protocol = '''', fbf_sensitive = False, fbf_firewall_was_active = False\<rparr>"

record weak_hash_finding =
  whf_username :: "string"
  whf_hash_type :: "string"
  whf_description :: "string"

definition default_weak_hash_finding :: weak_hash_finding where
  "default_weak_hash_finding =
    \<lparr>whf_username = '''', whf_hash_type = '''', whf_description = ''''\<rparr>"

record credential_file_issue =
  cfi_path :: "string"
  cfi_mode :: "string"
  cfi_owner_uid :: "u32"
  cfi_owner_gid :: "u32"
  cfi_reason :: "string"

definition default_credential_file_issue :: credential_file_issue where
  "default_credential_file_issue =
    \<lparr>cfi_path = '''', cfi_mode = '''', cfi_owner_uid = 0, cfi_owner_gid = 0, cfi_reason = ''''\<rparr>"

record private_key_finding =
  pkf_user :: "string"
  pkf_path :: "string"
  pkf_mode :: "string"

definition default_private_key_finding :: private_key_finding where
  "default_private_key_finding =
    \<lparr>pkf_user = '''', pkf_path = '''', pkf_mode = ''''\<rparr>"

record account_hygiene_info =
  ah_weak_password_hashes :: "weak_hash_finding list"
  ah_empty_password_users :: "string list"
  ah_duplicate_uid_zero :: "string list"
  ah_system_accounts_with_shell :: "string list"
  ah_file_permission_issues :: "credential_file_issue list"
  ah_ssh_private_key_readable :: "private_key_finding list"
  ah_authorized_keys_writable :: "string list"
  ah_root_dotfiles_readable :: "credential_file_issue list"

definition default_account_hygiene_info :: account_hygiene_info where
  "default_account_hygiene_info =
    \<lparr>ah_weak_password_hashes = [], ah_empty_password_users = [], ah_duplicate_uid_zero = [],
     ah_system_accounts_with_shell = [], ah_file_permission_issues = [],
     ah_ssh_private_key_readable = [], ah_authorized_keys_writable = [],
     ah_root_dotfiles_readable = []\<rparr>"

record hardening_finding =
  hf_unit :: "string"
  hf_missing :: "string list"
  hf_raw_weight :: "u8"
  hf_user :: "string"
  hf_fragment_path :: "string"

definition default_hardening_finding :: hardening_finding where
  "default_hardening_finding =
    \<lparr>hf_unit = '''', hf_missing = [], hf_raw_weight = 0, hf_user = '''', hf_fragment_path = ''''\<rparr>"

record security_info =
  si_ssh_password_auth_enabled :: "bool"
  si_ssh_root_login_enabled :: "bool"
  si_ssh_permit_root_login_detail :: "string option"
  si_shell_users :: "user_info list"
  si_fail2ban_active :: "bool"
  si_auditd_active :: "bool"
  si_ssh_config_source :: "string"
  si_sudo_nopasswd_entries :: "string list"
  si_sudoers_mode :: "u32 option"
  si_sysctl_issues :: "string list"
  si_access_alignment :: "access_audit_result"
  si_secret_hygiene :: "secret_leak list"
  si_capability_audit :: "proc_cap_finding list"
  si_suspicious_processes :: "suspicious_process list"
  si_mount_masking :: "mount_masking_finding list"
  si_reverse_shells :: "reverse_shell_finding list"
  si_library_injections :: "library_injection_finding list"
  si_ghost_pids :: "ghost_pid_finding list"
  si_file_capabilities :: "file_cap_finding list"
  si_ebpf_inventory :: "ebpf_inventory"
  si_setuid_files :: "setuid_finding list"
  si_provenance_source :: "provenance_source"
  si_kernel_taint :: "kernel_taint"
  si_confinement :: "confinement_report"
  si_kernel_modules :: "kernel_module_inventory"
  si_ftrace_hooks :: "ftrace_hook_inventory"
  si_preload_injections :: "preload_finding list"
  si_core_pattern :: "string option"
  si_modules_disabled :: "bool option"
  si_lockdown :: "string option"
  si_exec_start_injections :: "exec_start_finding list"
  si_ld_so_conf_injections :: "ld_so_conf_injection list"
  si_generators :: "generator_finding list"
  si_one_way_switches :: "(string \<times> u8 option) list"
  si_pam_injections :: "pam_finding list"
  si_mount_namespace_anomalies :: "mount_namespace_anomaly list"
  si_cpu_vulnerabilities :: "cpu_vulnerability list"
  si_sshd_sensitive_directives :: "sshd_directive list"
  si_immutable_anchors :: "immutable_flag list"
  si_firewall_bypass_findings :: "firewall_bypass_finding list"
  si_account_hygiene :: "account_hygiene_info"
  si_systemd_hardening :: "hardening_finding list"

definition default_security_info :: security_info where
  "default_security_info =
    \<lparr>si_ssh_password_auth_enabled = False, si_ssh_root_login_enabled = False,
     si_ssh_permit_root_login_detail = None, si_shell_users = [], si_fail2ban_active = False,
     si_auditd_active = False, si_ssh_config_source = '''', si_sudo_nopasswd_entries = [],
     si_sudoers_mode = None, si_sysctl_issues = [],
     si_access_alignment = default_access_audit_result, si_secret_hygiene = [],
     si_capability_audit = [], si_suspicious_processes = [], si_mount_masking = [],
     si_reverse_shells = [], si_library_injections = [], si_ghost_pids = [],
     si_file_capabilities = [], si_ebpf_inventory = default_ebpf_inventory,
     si_setuid_files = [], si_provenance_source = ProvUnavailable,
     si_kernel_taint = default_kernel_taint, si_confinement = default_confinement_report,
     si_kernel_modules = default_kernel_module_inventory,
     si_ftrace_hooks = default_ftrace_hook_inventory, si_preload_injections = [],
     si_core_pattern = None, si_modules_disabled = None, si_lockdown = None,
     si_exec_start_injections = [], si_ld_so_conf_injections = [], si_generators = [],
     si_one_way_switches = [], si_pam_injections = [], si_mount_namespace_anomalies = [],
     si_cpu_vulnerabilities = [], si_sshd_sensitive_directives = [], si_immutable_anchors = [],
     si_firewall_bypass_findings = [], si_account_hygiene = default_account_hygiene_info,
     si_systemd_hardening = []\<rparr>"

datatype package_manager = Apt | Dnf | Yum | Pacman | Zypper | PmUnknown

record upgradable_package =
  up_name :: "string"
  up_current_version :: "string"
  up_new_version :: "string"
  up_is_security :: "bool"

definition default_upgradable_package :: upgradable_package where
  "default_upgradable_package =
    \<lparr>up_name = '''', up_current_version = '''', up_new_version = '''', up_is_security = False\<rparr>"

record packages_info =
  pk_manager :: "package_manager"
  pk_installed_count :: "nat"
  pk_upgradable :: "upgradable_package list"
  pk_cache_refreshed :: "bool"

definition default_packages_info :: packages_info where
  "default_packages_info =
    \<lparr>pk_manager = PmUnknown, pk_installed_count = 0, pk_upgradable = [],
     pk_cache_refreshed = False\<rparr>"

record agent_report =
  ar_scan_id :: "string"
  ar_timestamp :: "string"
  ar_version :: "string"
  ar_duration_secs :: "rat"
  ar_risk_score :: "u8"
  ar_is_root_execution :: "bool"
  ar_scan_warnings :: "string list"
  ar_coverage_warnings :: "string list"
  ar_failed_scanners :: "string list"
  ar_remote_privileged :: "bool option"
  ar_scoring_version :: "u8"
  ar_self_integrity :: "self_integrity_report option"
  ar_host :: "host_info"
  ar_databases :: "database_info list"
  ar_network :: "network_info"
  ar_storage :: "storage_info"
  ar_topology :: "topology_info"
  ar_security :: "security_info"
  ar_packages :: "packages_info"
  ar_input_address :: "string option"

datatype injection_class = ClassicInjection | MemoryAnomaly | JitAdvisory

section \<open>Methods and constants of the model\<close>

text \<open>\<open>AgentReport::default()\<close> is written by hand: \<open>scoring_version\<close> is 1.\<close>

definition default_agent_report :: agent_report where
  "default_agent_report =
    \<lparr>ar_scan_id = '''', ar_timestamp = '''', ar_version = '''', ar_duration_secs = 0,
     ar_risk_score = 0, ar_is_root_execution = False, ar_scan_warnings = [],
     ar_coverage_warnings = [], ar_failed_scanners = [], ar_remote_privileged = None,
     ar_scoring_version = 1, ar_self_integrity = None, ar_host = default_host_info,
     ar_databases = [], ar_network = default_network_info, ar_storage = default_storage_info,
     ar_topology = default_topology_info, ar_security = default_security_info,
     ar_packages = default_packages_info, ar_input_address = None\<rparr>"

definition scan_was_privileged :: "agent_report \<Rightarrow> bool" where
  "scan_was_privileged r =
     (ar_is_root_execution r \<and> (case ar_remote_privileged r of Some b \<Rightarrow> b | None \<Rightarrow> True))"

definition privilege_claim_disagrees :: "agent_report \<Rightarrow> bool" where
  "privilege_claim_disagrees r =
     (case ar_remote_privileged r of
        Some True \<Rightarrow> \<not> ar_is_root_execution r
      | Some False \<Rightarrow> ar_is_root_execution r
      | None \<Rightarrow> False)"

definition SUDO_PRIVESC_MARKER :: string where
  "SUDO_PRIVESC_MARKER = ''[PRIVESC:''"

definition SUDO_ALL_MARKER :: string where
  "SUDO_ALL_MARKER = ''[GRANTS:ALL]''"

text \<open>\<open>ContainerInfo::security_issues\<close>\<close>

definition security_issues :: "container_info \<Rightarrow> string list" where
  "security_issues c =
     (if ci_privileged c then [''PRIVILEGED''] else [])
     @ (if ci_memory_limit_mb c = None then [''NoMemLimit''] else [])
     @ (if ci_cpu_limit c = None then [''NoCpuLimit''] else [])
     @ (if ''SYS_ADMIN'' \<in> set (ci_cap_add c) then [''SYS_ADMIN''] else [])
     @ (if ''NET_ADMIN'' \<in> set (ci_cap_add c) then [''NET_ADMIN''] else [])"

text \<open>\<open>LibraryInjectionFinding::classify\<close>\<close>

definition classify_injection :: "library_injection_finding \<Rightarrow> injection_class" where
  "classify_injection f =
     (let s = lif_source f in
      if s = ''maps'' \<or> starts_with s ''LD_'' then ClassicInjection
      else if starts_with s ''maps-rwx-jit'' \<or> starts_with s ''maps-rx-jit''
        \<or> s = ''maps-so-jit-extract'' \<or> s = ''maps-so-tmp-unverified''
        \<or> s = ''maps-so-unlink-on-load'' \<or> s = ''maps-rwx-cached-clean''
        \<or> s = ''maps-rwx-provisional'' \<or> s = ''maps-rwx-runtime-allowlist''
        \<or> s = ''maps-rwx-stale-after-upgrade'' \<or> ends_with s ''-jit''
      then JitAdvisory
      else MemoryAnomaly)"

text \<open>
  A report whose privilege claim disagrees with its own root flag never counts as a
  privileged scan.
\<close>

lemma disagreement_not_privileged:
  "privilege_claim_disagrees r \<Longrightarrow> \<not> scan_was_privileged r"
  by (auto simp: privilege_claim_disagrees_def scan_was_privileged_def
      split: option.splits bool.splits)

end
