(* ===== verification/RustPath.thy ===== *)
theory RustPath
  imports RustStr
begin

text \<open>
  The part of \<open>std::path::Path\<close> the sources use: \<open>parent\<close>, \<open>ancestors\<close> and \<open>file_name\<close> of a Unix
  path. They work on components: repeated slashes and \<open>.\<close> components are skipped, except for a
  leading \<open>.\<close>. A path is kept as its bytes; \<open>body_start\<close> is the length of what precedes the
  components (the root slash, or a leading \<open>.\<close>).
\<close>

definition body_start :: "string \<Rightarrow> nat" where
  "body_start p =
     (if starts_with p ''/'' then 1
      else if p = ''.'' \<or> starts_with p ''./'' then 1 else 0)"

text \<open>On a reversed body: drop trailing empty and \<open>.\<close> components.\<close>

function trim_back :: "string \<Rightarrow> string" where
  "trim_back rb =
     (let comp = takeWhile (\<lambda>c. c \<noteq> CHR ''/'') rb; rest = dropWhile (\<lambda>c. c \<noteq> CHR ''/'') rb in
      if comp = [] \<or> comp = ''.'' then (case rest of [] \<Rightarrow> [] | _ # r \<Rightarrow> trim_back r) else rb)"
  by pat_completeness auto
termination
proof (relation "measure length", goal_cases)
  case 1
  then show ?case by simp
next
  case (2 rb comp rest c r)
  have "length (dropWhile (\<lambda>c. c \<noteq> CHR ''/'') rb) \<le> length rb"
    by (rule length_dropWhile_le)
  moreover have "dropWhile (\<lambda>c. c \<noteq> CHR ''/'') rb = c # r" using 2 by simp
  ultimately show ?case by simp
qed

declare trim_back.simps [simp del]

definition drop_last_component :: "string \<Rightarrow> string" where
  "drop_last_component rb = trim_back (drop 1 (dropWhile (\<lambda>c. c \<noteq> CHR ''/'') rb))"

definition path_parent :: "string \<Rightarrow> string option" where
  "path_parent p =
     (let n = body_start p; rb = trim_back (rev (drop n p)) in
      if rb \<noteq> [] then Some (take n p @ rev (drop_last_component rb))
      else if starts_with p ''/'' then None
      else if n = 1 then Some '''' else None)"

definition path_file_name :: "string \<Rightarrow> string option" where
  "path_file_name p =
     (let rb = trim_back (rev (drop (body_start p) p)) in
      if rb = [] then None
      else (let comp = rev (takeWhile (\<lambda>c. c \<noteq> CHR ''/'') rb) in
            if comp = ''..'' then None else Some comp))"

lemma length_trim_back: "length (trim_back rb) \<le> length rb"
proof (induction rb rule: trim_back.induct)
  case (1 rb)
  let ?comp = "takeWhile (\<lambda>c. c \<noteq> CHR ''/'') rb" and ?rest = "dropWhile (\<lambda>c. c \<noteq> CHR ''/'') rb"
  have len: "length ?rest \<le> length rb" by (rule length_dropWhile_le)
  show ?case
  proof (cases "?comp = [] \<or> ?comp = ''.''")
    case True
    show ?thesis
    proof (cases ?rest)
      case Nil
      then have "trim_back rb = []"
        using True by (subst trim_back.simps) (simp only: Let_def if_True list.case)
      then show ?thesis by simp
    next
      case (Cons c r)
      then have "length (trim_back r) \<le> length r" using "1.IH" True by simp
      moreover have "Suc (length r) \<le> length rb" using len Cons by simp
      moreover have "trim_back rb = trim_back r"
        using True Cons by (subst trim_back.simps) (simp only: Let_def if_True list.case)
      ultimately show ?thesis by simp
    qed
  next
    case False
    then have "trim_back rb = rb"
      by (subst trim_back.simps) (simp only: Let_def if_False)
    then show ?thesis by simp
  qed
qed

lemma length_drop_last_component: "rb \<noteq> [] \<Longrightarrow> length (drop_last_component rb) < length rb"
proof -
  assume ne: "rb \<noteq> []"
  let ?rest = "dropWhile (\<lambda>c. c \<noteq> CHR ''/'') rb"
  have "length ?rest \<le> length rb" by (rule length_dropWhile_le)
  moreover have "length (drop 1 ?rest) < length ?rest \<or> ?rest = []" by (cases ?rest) auto
  ultimately have "length (drop 1 ?rest) < length rb" using ne by (cases rb) auto
  then show ?thesis
    using length_trim_back [of "drop 1 ?rest"] by (simp add: drop_last_component_def)
qed

text \<open>A parent is shorter than its path, so the walk over the ancestors ends.\<close>

lemma path_parent_shorter: "path_parent p = Some q \<Longrightarrow> length q < length p"
proof -
  assume parent: "path_parent p = Some q"
  define n where "n = body_start p"
  define rb where "rb = trim_back (rev (drop n p))"
  have n_le: "n \<le> length p"
    by (auto simp: n_def body_start_def starts_with_iff)
  show ?thesis
  proof (cases "rb = []")
    case False
    then have "length (drop_last_component rb) < length rb"
      by (rule length_drop_last_component)
    moreover have "length rb \<le> length p - n"
      using length_trim_back [of "rev (drop n p)"] by (simp add: rb_def)
    moreover have "q = take n p @ rev (drop_last_component rb)"
      using parent False by (simp add: path_parent_def n_def rb_def Let_def split: if_splits)
    ultimately show ?thesis using n_le by simp
  next
    case True
    then have "q = []" and "n = 1"
      using parent by (auto simp: path_parent_def n_def rb_def Let_def split: if_splits)
    then show ?thesis using n_le by (cases p) auto
  qed
qed

function ancestors :: "string \<Rightarrow> string list" where
  "ancestors p = p # (case path_parent p of None \<Rightarrow> [] | Some q \<Rightarrow> ancestors q)"
  by pat_completeness auto
termination
  by (relation "measure length") (auto dest: path_parent_shorter)

declare ancestors.simps [simp del]

lemma ancestors_not_Nil [simp]: "ancestors p \<noteq> []"
  by (subst ancestors.simps) simp

lemma hd_ancestors [simp]: "hd (ancestors p) = p"
  by (subst ancestors.simps) simp

end
