(* ===== verification/Utils.thy ===== *)
theory Utils
  imports Models RustPath
begin

text \<open>
  The decision logic of \<open>src/utils.rs\<close>: which executables the scanner may run, what it may
  conclude from a path, the structural provenance of an executable and the tiers of listening
  ports. What these functions read from the operating system (\<open>readlink\<close>, \<open>stat\<close>, \<open>readdir\<close>)
  is the record \<open>os_view\<close>, an argument of the functions that consult it.
\<close>

section \<open>Trusted executables\<close>

record exec_meta =
  em_uid :: u32
  em_mode :: u32
  em_is_file :: bool

text \<open>The masks \<open>0o022\<close> (group and other write) and \<open>0o111\<close> (execute) are \<open>0x12\<close> and \<open>0x49\<close>.\<close>

definition owned_ok :: "u32 \<Rightarrow> exec_meta \<Rightarrow> bool" where
  "owned_ok euid m = ((em_uid m = 0 \<or> em_uid m = euid) \<and> em_mode m AND 0x12 = 0)"

definition is_trusted_exec_with ::
  "string \<Rightarrow> string \<Rightarrow> u32 \<Rightarrow> (string \<Rightarrow> exec_meta option) \<Rightarrow> bool" where
  "is_trusted_exec_with lexical rpath euid meta =
     (case meta rpath of
        None \<Rightarrow> False
      | Some file \<Rightarrow>
          em_is_file file \<and> em_mode file AND 0x49 \<noteq> 0 \<and> owned_ok euid file
          \<and> list_all (\<lambda>d. case meta d of None \<Rightarrow> False | Some m \<Rightarrow> owned_ok euid m)
              (tl (ancestors lexical) @ tl (ancestors rpath)))"

text \<open>\<open>canonicalize\<close> is the file system's resolution of a path; a path it cannot resolve is refused.\<close>

definition is_trusted_exec ::
  "u32 \<Rightarrow> (string \<Rightarrow> string option) \<Rightarrow> (string \<Rightarrow> exec_meta option) \<Rightarrow> string \<Rightarrow> bool" where
  "is_trusted_exec euid canonicalize meta path =
     (case canonicalize path of
        None \<Rightarrow> False
      | Some rpath \<Rightarrow> is_trusted_exec_with path rpath euid meta)"

text \<open>
  \<open>resolve_tool_uncached\<close>: the first standard directory whose candidate is a trusted executable
  file; a candidate that exists but is not trusted is disclosed (second component).
  \<open>trusted\<close> stands for \<open>is_trusted_exec\<close>.
\<close>

definition tool_dirs :: "string list" where
  "tool_dirs =
     [''/usr/local/sbin'', ''/usr/local/bin'', ''/usr/sbin'', ''/usr/bin'', ''/sbin'', ''/bin'']"

fun resolve_tool_in ::
  "(string \<Rightarrow> exec_meta option) \<Rightarrow> (string \<Rightarrow> bool) \<Rightarrow> string \<Rightarrow> string list
   \<Rightarrow> string option \<times> string list" where
  "resolve_tool_in meta trusted tool [] = (None, [])"
| "resolve_tool_in meta trusted tool (dir # dirs) =
     (let candidate = dir @ ''/'' @ tool in
      case meta candidate of
        None \<Rightarrow> resolve_tool_in meta trusted tool dirs
      | Some md \<Rightarrow>
          if \<not> em_is_file md \<or> em_mode md AND 0x49 = 0
          then resolve_tool_in meta trusted tool dirs
          else if trusted candidate then (Some candidate, [])
          else (let (found, notes) = resolve_tool_in meta trusted tool dirs in
                (found, (''tool resolution: '' @ candidate
                   @ '' (or a directory on its path) is writable by a non-root principal ''
                   @ em_dash @ '' NOT executed; trying the next standard directory'') # notes)))"

definition resolve_tool_uncached ::
  "(string \<Rightarrow> exec_meta option) \<Rightarrow> (string \<Rightarrow> bool) \<Rightarrow> string \<Rightarrow> string option \<times> string list" where
  "resolve_tool_uncached meta trusted tool = resolve_tool_in meta trusted tool tool_dirs"

text \<open>
  \<open>resolve_tool\<close> consults the cache of resolutions and refusals first; the cache is the state.
\<close>

definition resolve_tool ::
  "(string \<Rightarrow> exec_meta option) \<Rightarrow> (string \<Rightarrow> bool) \<Rightarrow> (string \<rightharpoonup> string option) \<Rightarrow> string
   \<Rightarrow> string option \<times> string list \<times> (string \<rightharpoonup> string option)" where
  "resolve_tool meta trusted cache tool =
     (case cache tool of
        Some hit \<Rightarrow> (hit, [], cache)
      | None \<Rightarrow>
          (let (found, notes) = resolve_tool_uncached meta trusted tool in
           (found, notes, cache(tool \<mapsto> found))))"

text \<open>\<open>exec_target\<close>: a bare name is resolved, an absolute path is verified in place.\<close>

definition exec_target ::
  "(string \<Rightarrow> exec_meta option) \<Rightarrow> (string \<Rightarrow> bool) \<Rightarrow> (string \<rightharpoonup> string option) \<Rightarrow> string
   \<Rightarrow> string option \<times> string list \<times> (string \<rightharpoonup> string option)" where
  "exec_target meta trusted cache program =
     (if \<not> starts_with program ''/'' then resolve_tool meta trusted cache program
      else if trusted program then (Some program, [], cache)
      else (None, [''tool resolution: '' @ program
             @ '' (or a directory on its path) is writable by a non-root principal ''
             @ em_dash @ '' NOT executed''], cache))"

definition host_budget_secs :: "u64 \<Rightarrow> u64" where
  "host_budget_secs t = sat_add_u64 (sat_mul_u64 t 2) 60"

section \<open>Network and path predicates\<close>

definition is_wildcard_bind :: "string \<Rightarrow> bool" where
  "is_wildcard_bind addr = (addr \<in> {''0.0.0.0'', ''::'', ''::ffff:0.0.0.0''})"

definition is_ascii_digit :: "char \<Rightarrow> bool" where
  "is_ascii_digit c = (48 \<le> (of_char c :: nat) \<and> (of_char c :: nat) \<le> 57)"

definition v4_loopback :: "string \<Rightarrow> bool" where
  "v4_loopback s =
     (case strip_prefix ''127.'' s of
        None \<Rightarrow> False
      | Some rest \<Rightarrow> rest \<noteq> [] \<and> list_all (\<lambda>b. is_ascii_digit b \<or> b = CHR ''.'') rest)"

definition is_loopback_bind :: "string \<Rightarrow> bool" where
  "is_loopback_bind addr =
     (addr = ''::1'' \<or> v4_loopback addr
      \<or> (case strip_prefix ''::ffff:'' addr of None \<Rightarrow> False | Some r \<Rightarrow> v4_loopback r))"

definition HOME_BASES :: "string list" where
  "HOME_BASES = [''/home/'', ''/var/home/'', ''/root/'']"

definition is_ephemeral_exec_path :: "string \<Rightarrow> bool" where
  "is_ephemeral_exec_path path =
     (if starts_with path ''/run/wrappers/'' then False
      else starts_with path ''/tmp/'' \<or> starts_with path ''/var/tmp/''
        \<or> starts_with path ''/dev/shm/'' \<or> starts_with path ''/run/''
        \<or> list_ex (\<lambda>b. starts_with path b) HOME_BASES
        \<or> starts_with path ''/memfd:'')"

definition is_volatile_exec_path :: "string \<Rightarrow> bool" where
  "is_volatile_exec_path path =
     (if starts_with path ''/run/wrappers/'' then False
      else starts_with path ''/tmp/'' \<or> starts_with path ''/var/tmp/''
        \<or> starts_with path ''/dev/shm/'' \<or> starts_with path ''/run/''
        \<or> starts_with path ''/memfd:'')"

text \<open>The number of non-empty components of a path tail.\<close>

definition components_of :: "string \<Rightarrow> string list" where
  "components_of rest = filter (\<lambda>s. s \<noteq> []) (split_char (CHR ''/'') rest)"

definition home_relative_depth :: "string \<Rightarrow> nat option" where
  "home_relative_depth dir =
     (case strip_prefix ''/home/'' dir of
        Some rest \<Rightarrow> Some (length (drop 1 (components_of rest)))
      | None \<Rightarrow>
     (case strip_prefix ''/var/home/'' dir of
        Some rest \<Rightarrow> Some (length (drop 1 (components_of rest)))
      | None \<Rightarrow>
      if dir = ''/root'' then Some 0
      else (case strip_prefix ''/root/'' dir of
              Some rest \<Rightarrow> Some (length (components_of rest))
            | None \<Rightarrow> None)))"

definition INSTALL_ROOTS :: "string list" where
  "INSTALL_ROOTS =
     [''/.local/share/'', ''/.local/lib/'', ''/.vscode/'', ''/.vscode-server/'', ''/.config/'',
      ''/.var/app/'', ''/.cache/'', ''/opt/'', ''/snap/'', ''/usr/lib/'', ''/usr/share/'',
      ''/var/lib/flatpak/'', ''/nix/store/'']"

definition trim_end_slashes :: "string \<Rightarrow> string" where
  "trim_end_slashes s = rev (dropWhile (\<lambda>c. c = CHR ''/'') (rev s))"

definition is_container_dir :: "string \<Rightarrow> bool" where
  "is_container_dir dir =
     (list_ex (\<lambda>r. dir = r \<or> ends_with dir r) (map trim_end_slashes INSTALL_ROOTS)
      \<or> dir \<in> {''/'', ''/home'', ''/var/home'', ''/root''}
      \<or> (case home_relative_depth dir of None \<Rightarrow> False | Some d \<Rightarrow> d \<le> 1))"

definition merged_prefixes :: "string list" where
  "merged_prefixes = [''/bin/'', ''/sbin/'', ''/lib/'', ''/lib64/'']"

definition canon_path :: "string \<Rightarrow> string" where
  "canon_path path =
     (if list_ex (\<lambda>p. starts_with path p) merged_prefixes then ''/usr'' @ path else path)"

section \<open>Known malware names\<close>

definition KNOWN_MALWARE :: "string list" where
  "KNOWN_MALWARE = [''kdevtmpfsi'', ''kinsing'', ''xmrig'', ''sysupdate'']"

definition AMBIGUOUS_MALWARE :: "string list" where
  "AMBIGUOUS_MALWARE = [''networkservice'']"

definition is_known_malware :: "string \<Rightarrow> bool" where
  "is_known_malware comm = list_ex (\<lambda>m. eq_ignore_ascii_case (trim comm) m) KNOWN_MALWARE"

definition is_ambiguous_malware :: "string \<Rightarrow> bool" where
  "is_ambiguous_malware comm =
     list_ex (\<lambda>m. eq_ignore_ascii_case (trim comm) m) AMBIGUOUS_MALWARE"

section \<open>Structural provenance of an executable\<close>

datatype exe_provenance = Deleted | LoneDropped | NestedUserInstall | InstalledApp

definition SYSTEM_BIN :: "string list" where
  "SYSTEM_BIN =
     [''/usr/bin/'', ''/usr/sbin/'', ''/bin/'', ''/sbin/'', ''/usr/libexec/'',
      ''/usr/local/bin/'', ''/usr/local/sbin/'']"

definition is_system_managed_path :: "string \<Rightarrow> bool" where
  "is_system_managed_path exe =
     list_ex (\<lambda>p. starts_with exe p)
       [''/usr/'', ''/bin/'', ''/sbin/'', ''/opt/'', ''/nix/store/'', ''/app/'', ''/snap/'',
        ''/var/lib/flatpak/'', ''/run/wrappers/'']"

definition RUNTIME_MANAGER_ROOTS :: "string list" where
  "RUNTIME_MANAGER_ROOTS =
     [''/.nvm/'', ''/.fnm/'', ''/.volta/'', ''/.asdf/'', ''/.pyenv/'', ''/.rbenv/'', ''/.bun/'',
      ''/.deno/'', ''/linuxbrew/'', ''/usr/lib/node_modules/'', ''/node_modules/'']"

definition INSTALL_TREE_MIN_FILES :: nat where
  "INSTALL_TREE_MIN_FILES = 8"

definition MAX_UPWARD_DEPTH :: nat where
  "MAX_UPWARD_DEPTH = 6"

definition is_standard_install_path :: "string \<Rightarrow> bool" where
  "is_standard_install_path p =
     (list_ex (\<lambda>s. starts_with p s) SYSTEM_BIN
      \<or> list_ex (\<lambda>r. contains p r) RUNTIME_MANAGER_ROOTS
      \<or> list_ex (\<lambda>r. contains p r) INSTALL_ROOTS)"

text \<open>
  What the process reads from the machine it runs on: \<open>std::fs::read_link\<close>, the owner in
  \<open>std::fs::metadata\<close>, and the number of entries \<open>std::fs::read_dir\<close> yields (\<open>None\<close>: error).
\<close>

record os_view =
  os_read_link :: "string \<Rightarrow> string option"
  os_metadata_uid :: "string \<Rightarrow> u32 option"
  os_read_dir_count :: "string \<Rightarrow> nat option"

definition in_foreign_mnt_ns :: "('a os_view_scheme) \<Rightarrow> u32 \<Rightarrow> bool" where
  "in_foreign_mnt_ns os pid =
     (case (os_read_link os (''/proc/'' @ show_word pid @ ''/ns/mnt''),
            os_read_link os ''/proc/1/ns/mnt'') of
        (Some a, Some b) \<Rightarrow> a \<noteq> b
      | _ \<Rightarrow> False)"

definition populated_tree_within_with :: "string \<Rightarrow> (string \<Rightarrow> nat option) \<Rightarrow> bool" where
  "populated_tree_within_with exe count_entries =
     list_ex (\<lambda>dir. case count_entries dir of None \<Rightarrow> False | Some n \<Rightarrow> INSTALL_TREE_MIN_FILES \<le> n)
       (takeWhile (\<lambda>dir. \<not> is_container_dir dir)
         (take MAX_UPWARD_DEPTH (drop 1 (ancestors exe))))"

definition populated_tree_within :: "('a os_view_scheme) \<Rightarrow> string \<Rightarrow> bool" where
  "populated_tree_within os exe =
     populated_tree_within_with exe
       (\<lambda>dir. map_option (min (INSTALL_TREE_MIN_FILES + 1)) (os_read_dir_count os dir))"

definition pinned_root_owned :: "('a os_view_scheme) \<Rightarrow> u32 \<Rightarrow> bool" where
  "pinned_root_owned os pid =
     (case os_metadata_uid os (''/proc/'' @ show_word pid @ ''/exe'') of
        Some uid \<Rightarrow> uid = 0 | None \<Rightarrow> False)"

definition exe_provenance :: "('a os_view_scheme) \<Rightarrow> string \<Rightarrow> u32 \<Rightarrow> exe_provenance" where
  "exe_provenance os exe pid =
     (if ends_with exe '' (deleted)'' \<or> starts_with exe ''/memfd:'' then Deleted
      else if in_foreign_mnt_ns os pid then
        (if is_standard_install_path exe then NestedUserInstall else LoneDropped)
      else
        (let root_owned = pinned_root_owned os pid in
         if list_ex (\<lambda>p. starts_with exe p) SYSTEM_BIN then
           (if root_owned then InstalledApp else LoneDropped)
         else if starts_with exe ''/nix/store/'' then
           (if root_owned then InstalledApp else LoneDropped)
         else if is_volatile_exec_path exe then LoneDropped
         else if list_ex (\<lambda>r. contains exe r) RUNTIME_MANAGER_ROOTS then NestedUserInstall
         else if \<not> populated_tree_within os exe then LoneDropped
         else if root_owned then InstalledApp else NestedUserInstall))"

section \<open>Tiers of listening ports\<close>

record listener_tiers =
  lt_suspicious :: "string list"
  lt_devtool :: "string list"
  lt_provisional :: "string list"

definition listener_label :: "port_info \<Rightarrow> string \<Rightarrow> string" where
  "listener_label port exe =
     pi_port port @ ''/'' @ pi_protocol port @ '' on '' @ pi_bind_address port
     @ '' ('' @ exe @ '')''"

definition listener_step ::
  "('a os_view_scheme) \<Rightarrow> port_info \<Rightarrow> listener_tiers \<Rightarrow> listener_tiers" where
  "listener_step os port t =
     (case pi_exe_path port of
        None \<Rightarrow> t
      | Some exe \<Rightarrow>
          if \<not> is_ephemeral_exec_path exe then t
          else
            (let label = listener_label port exe;
                 prov = (case pi_pid port of
                           Some p \<Rightarrow> exe_provenance os exe p | None \<Rightarrow> LoneDropped) in
             case (is_loopback_bind (pi_bind_address port), prov) of
               (True, InstalledApp) \<Rightarrow> t\<lparr>lt_devtool := lt_devtool t @ [label]\<rparr>
             | (True, NestedUserInstall) \<Rightarrow> t\<lparr>lt_provisional := lt_provisional t @ [label]\<rparr>
             | _ \<Rightarrow> t\<lparr>lt_suspicious := lt_suspicious t @ [label]\<rparr>))"

definition classify_listeners :: "('a os_view_scheme) \<Rightarrow> port_info list \<Rightarrow> listener_tiers" where
  "classify_listeners os ports =
     fold (listener_step os) ports \<lparr>lt_suspicious = [], lt_devtool = [], lt_provisional = []\<rparr>"

section \<open>Lemmas\<close>

lemma volatile_is_ephemeral: "is_volatile_exec_path p \<Longrightarrow> is_ephemeral_exec_path p"
  by (auto simp: is_volatile_exec_path_def is_ephemeral_exec_path_def split: if_splits)

lemma wildcard_not_loopback: "is_wildcard_bind a \<Longrightarrow> \<not> is_loopback_bind a"
  by (auto simp: is_wildcard_bind_def is_loopback_bind_def v4_loopback_def)

text \<open>No system prefix is a volatile one.\<close>

lemma volatile_not_system:
  "is_volatile_exec_path p \<Longrightarrow> \<not> list_ex (starts_with p) SYSTEM_BIN \<and> \<not> starts_with p ''/nix/store/''"
  by (auto simp: is_volatile_exec_path_def SYSTEM_BIN_def starts_with_iff split: if_splits)

end
