(* ===== verification/Findings.thy ===== *)
theory Findings
  imports Utils
begin

text \<open>
  The finding model of \<open>src/scoring.rs\<close>: findings, their scanners and categories, the score, the
  security verdict and the flags behind it. The rules that produce findings from a report are in
  the theories \<open>Rules\<dots>\<close>; \<open>Scoring\<close> composes them to \<open>evaluate\<close>.
\<close>

section \<open>Findings\<close>

datatype category = SecurityCat | ReliabilityCat | HygieneCat

datatype scanner = HostScanner | NetworkScanner | StorageScanner | SecurityScanner
  | PersistenceScanner | PackagesScanner | DatabasesScanner | DockerScanner
  | MountNamespaceScanner | Orchestrator

definition scanner_from_name :: "string \<Rightarrow> scanner option" where
  "scanner_from_name name =
     (if name = ''host'' then Some HostScanner
      else if name = ''network'' then Some NetworkScanner
      else if name = ''storage'' then Some StorageScanner
      else if name = ''security'' then Some SecurityScanner
      else if name = ''persistence'' then Some PersistenceScanner
      else if name = ''packages'' then Some PackagesScanner
      else if name = ''databases'' then Some DatabasesScanner
      else if name = ''docker'' then Some DockerScanner
      else if name = ''mount_namespace'' then Some MountNamespaceScanner
      else None)"

record finding =
  f_id :: string
  f_source :: scanner
  f_title :: string
  f_category :: category
  f_weight :: u8
  f_evidence :: string
  f_suppressed :: "string option"
  f_cis_ref :: "string option"

text \<open>
  What \<open>evaluate\<close> consults besides the report: the operating system it runs on (through
  \<open>exe_provenance\<close>), the order in which the standard library iterates the hash map of a finding
  (the keys in insertion order, as it yields them), and whether the crate is built with the
  \<open>local-scan\<close> feature.
\<close>

record eval_env = os_view +
  ee_hash_order :: "string \<Rightarrow> string list \<Rightarrow> string list"
  ee_local_scan :: bool

text \<open>A struct literal \<open>Finding { id, source, title, category, weight, evidence, suppressed, cis_ref }\<close>.\<close>

definition mk_finding ::
  "string \<Rightarrow> scanner \<Rightarrow> string \<Rightarrow> category \<Rightarrow> u8 \<Rightarrow> string \<Rightarrow> string option \<Rightarrow> string option
   \<Rightarrow> finding" where
  "mk_finding i src title cat w ev supp cref =
     \<lparr>f_id = i, f_source = src, f_title = title, f_category = cat, f_weight = w,
      f_evidence = ev, f_suppressed = supp, f_cis_ref = cref\<rparr>"

lemma mk_finding_sel [simp]:
  "f_id (mk_finding i src title cat w ev supp cref) = i"
  "f_source (mk_finding i src title cat w ev supp cref) = src"
  "f_title (mk_finding i src title cat w ev supp cref) = title"
  "f_category (mk_finding i src title cat w ev supp cref) = cat"
  "f_weight (mk_finding i src title cat w ev supp cref) = w"
  "f_evidence (mk_finding i src title cat w ev supp cref) = ev"
  "f_suppressed (mk_finding i src title cat w ev supp cref) = supp"
  "f_cis_ref (mk_finding i src title cat w ev supp cref) = cref"
  by (simp_all add: mk_finding_def)

text \<open>\<open>evidence_list\<close>: at most \<open>limit\<close> items, then the number left out.\<close>

definition evidence_list :: "string list \<Rightarrow> nat \<Rightarrow> string" where
  "evidence_list items limit =
     (if length items \<le> limit then join ''; '' items
      else join ''; '' (take limit items) @ ''; +'' @ show_nat (length items - limit) @ '' more'')"

definition finding_from_failed_scanner :: "agent_report \<Rightarrow> finding \<Rightarrow> bool" where
  "finding_from_failed_scanner report f =
     list_ex (\<lambda>name. scanner_from_name name = Some (f_source f)) (ar_failed_scanners report)"

section \<open>Score\<close>

record scored_report =
  sr_total :: u8
  sr_security :: u8
  sr_reliability :: u8
  sr_hygiene :: u8
  sr_findings :: "finding list"

definition score_step :: "finding \<Rightarrow> u8 \<times> u8 \<times> u8 \<Rightarrow> u8 \<times> u8 \<times> u8" where
  "score_step f acc =
     (case acc of (sec, rel, hyg) \<Rightarrow>
        if f_suppressed f \<noteq> None then (sec, rel, hyg)
        else case f_category f of
          SecurityCat \<Rightarrow> (sat_add_u8 sec (f_weight f), rel, hyg)
        | ReliabilityCat \<Rightarrow> (sec, sat_add_u8 rel (f_weight f), hyg)
        | HygieneCat \<Rightarrow> (sec, rel, sat_add_u8 hyg (f_weight f)))"

definition score :: "finding list \<Rightarrow> scored_report" where
  "score findings =
     (let (sec, rel, hyg) = fold score_step findings (0, 0, 0) in
      \<lparr>sr_total = min (min sec 60 + min rel 30 + min hyg 10) 100,
       sr_security = min sec 60, sr_reliability = min rel 30, sr_hygiene = min hyg 10,
       sr_findings = findings\<rparr>)"

section \<open>Verdict\<close>

datatype security_verdict = Clean | Critical | Compromised

fun verdict_rank :: "security_verdict \<Rightarrow> u8" where
  "verdict_rank Clean = 0"
| "verdict_rank Critical = 1"
| "verdict_rank Compromised = 2"

definition worse :: "security_verdict \<Rightarrow> security_verdict \<Rightarrow> security_verdict" where
  "worse v w = (if verdict_rank w \<le> verdict_rank v then v else w)"

definition live :: "finding list \<Rightarrow> finding list" where
  "live findings = filter (\<lambda>f. f_suppressed f = None) findings"

definition COMPROMISE_IDS :: "string list" where
  "COMPROMISE_IDS =
     [''SEC-015'', ''SEC-016'', ''SEC-017'', ''SEC-019'', ''SEC-020'', ''SEC-021'', ''SEC-022'',
      ''SEC-023'', ''SEC-024'', ''SEC-028'', ''SEC-040'', ''DOCK-010'', ''SEC-042'', ''SEC-043'',
      ''SEC-052'', ''SEC-055'']"

definition SYSCTL_CRITICAL_THRESHOLD :: nat where
  "SYSCTL_CRITICAL_THRESHOLD = 3"

record critical_flags =
  cf_firewall_disabled :: bool
  cf_ssh_root_login :: bool
  cf_security_updates :: bool
  cf_critical_ssl :: bool
  cf_failed_services :: bool
  cf_no_backups :: bool
  cf_sudo_nopasswd :: bool
  cf_ntp_not_synced :: bool
  cf_sysctl_issues_count :: nat
  cf_compromised_host :: bool

definition has_id :: "finding list \<Rightarrow> string \<Rightarrow> bool" where
  "has_id findings i = list_ex (\<lambda>f. f_id f = i \<and> f_suppressed f = None) findings"

text \<open>The \<open>debug_assert!\<close> of \<open>from_findings\<close>: every live compromise finding weighs 55 or more.\<close>

definition ioc_weights_ok :: "finding list \<Rightarrow> bool" where
  "ioc_weights_ok findings =
     list_all (\<lambda>f. \<not> (f_id f \<in> set COMPROMISE_IDS \<and> f_suppressed f = None) \<or> 55 \<le> f_weight f)
       findings"

definition flags_from_findings :: "finding list \<Rightarrow> critical_flags" where
  "flags_from_findings findings =
     \<lparr>cf_firewall_disabled = has_id findings ''SEC-001'',
      cf_ssh_root_login = has_id findings ''SEC-002'',
      cf_security_updates = has_id findings ''SEC-003'',
      cf_critical_ssl = has_id findings ''SEC-004'',
      cf_failed_services = has_id findings ''REL-001'',
      cf_no_backups = has_id findings ''REL-002'',
      cf_sudo_nopasswd = (has_id findings ''SEC-005'' \<or> has_id findings ''SEC-012''),
      cf_ntp_not_synced = has_id findings ''HYG-001'',
      cf_sysctl_issues_count =
        length (filter (\<lambda>f. f_id f = ''SEC-007'' \<and> f_suppressed f = None) findings),
      cf_compromised_host = list_ex (has_id findings) COMPROMISE_IDS\<rparr>"

definition has_critical :: "critical_flags \<Rightarrow> bool" where
  "has_critical c =
     (cf_firewall_disabled c \<or> cf_ssh_root_login c \<or> cf_security_updates c \<or> cf_critical_ssl c
      \<or> cf_failed_services c \<or> cf_no_backups c \<or> cf_sudo_nopasswd c \<or> cf_ntp_not_synced c
      \<or> SYSCTL_CRITICAL_THRESHOLD \<le> cf_sysctl_issues_count c)"

definition security_verdict_from_findings :: "finding list \<Rightarrow> security_verdict" where
  "security_verdict_from_findings findings =
     (let flags = flags_from_findings (live findings) in
      if cf_compromised_host flags then Compromised
      else if has_critical flags then Critical
      else Clean)"

section \<open>The contract of a scoring rule\<close>

text \<open>
  What the scoring code assumes of every finding a rule pushes: a live finding of the compromise
  class weighs at least 55 (the \<open>debug_assert!\<close>), a suppressed one weighs nothing (with the one
  exception the code has, IP forwarding on a container host), no weight exceeds 60, and only
  \<open>evaluate\<close> itself speaks for the orchestrator.
\<close>

definition rule_finding :: "finding \<Rightarrow> bool" where
  "rule_finding f \<longleftrightarrow>
     (f_id f \<in> set COMPROMISE_IDS \<and> f_suppressed f = None \<longrightarrow> 55 \<le> f_weight f)
     \<and> (f_suppressed f \<noteq> None \<longrightarrow> f_weight f = 0 \<or> f_id f = ''SEC-007'' \<and> f_weight f = 5)
     \<and> f_weight f \<le> 60 \<and> f_source f \<noteq> Orchestrator \<and> f_id f \<noteq> ''COV-001''"

text \<open>Some live finding with identifier \<open>i\<close> from scanner \<open>s\<close>.\<close>

definition emits :: "finding list \<Rightarrow> string \<Rightarrow> scanner \<Rightarrow> bool" where
  "emits fs i s \<longleftrightarrow> (\<exists>f \<in> set fs. f_id f = i \<and> f_source f = s \<and> f_suppressed f = None)"

text \<open>The findings of a rule keep the contract and bear one of the rule's identifiers.\<close>

definition rule_ok :: "string list \<Rightarrow> finding list \<Rightarrow> bool" where
  "rule_ok ids fs \<longleftrightarrow> list_all (\<lambda>f. rule_finding f \<and> f_id f \<in> set ids) fs"

lemma rule_ok_append: "rule_ok ids (xs @ ys) \<longleftrightarrow> rule_ok ids xs \<and> rule_ok ids ys"
  by (simp add: rule_ok_def)

lemma rule_ok_if: "rule_ok ids xs \<Longrightarrow> rule_ok ids (if c then xs else [])"
  by (simp add: rule_ok_def)

lemma rule_ok_single: "rule_finding f \<Longrightarrow> f_id f \<in> set ids \<Longrightarrow> rule_ok ids [f]"
  by (simp add: rule_ok_def)

lemma rule_ok_finding: "rule_ok ids fs \<Longrightarrow> f \<in> set fs \<Longrightarrow> rule_finding f"
  by (simp add: rule_ok_def list_all_iff)

lemma rule_ok_all: "rule_ok ids fs \<Longrightarrow> list_all rule_finding fs"
  by (simp add: rule_ok_def list_all_iff)

lemma rule_ok_id: "rule_ok ids fs \<Longrightarrow> f \<in> set fs \<Longrightarrow> f_id f \<in> set ids"
  by (simp add: rule_ok_def list_all_iff)

lemma rule_ok_filter_Nil:
  "rule_ok ids fs \<Longrightarrow> set ids \<inter> B = {} \<Longrightarrow> filter (\<lambda>f. f_id f \<in> B \<and> P f) fs = []"
  by (auto simp: rule_ok_def list_all_iff filter_empty_conv)

lemma rule_ok_not_emits: "rule_ok ids fs \<Longrightarrow> i \<notin> set ids \<Longrightarrow> \<not> emits fs i s"
  by (auto simp: rule_ok_def list_all_iff emits_def)

lemma emits_Nil [simp]: "\<not> emits [] i s"
  by (simp add: emits_def)

lemma emits_Cons [simp]:
  "emits (f # fs) i s \<longleftrightarrow>
     f_id f = i \<and> f_source f = s \<and> f_suppressed f = None \<or> emits fs i s"
  by (auto simp: emits_def)

lemma emits_append [simp]: "emits (fs @ gs) i s \<longleftrightarrow> emits fs i s \<or> emits gs i s"
  by (auto simp: emits_def)

lemma emits_If [simp]: "emits (if c then fs else gs) i s \<longleftrightarrow> (if c then emits fs i s else emits gs i s)"
  by simp

lemma emits_concat: "emits (concat fss) i s \<longleftrightarrow> (\<exists>fs \<in> set fss. emits fs i s)"
  by (auto simp: emits_def)

lemma has_id_iff: "has_id fs i \<longleftrightarrow> (\<exists>f \<in> set fs. f_id f = i \<and> f_suppressed f = None)"
  by (auto simp: has_id_def list_ex_iff)

lemma has_id_emits: "has_id fs i \<longleftrightarrow> (\<exists>s. emits fs i s)"
  by (auto simp: has_id_iff emits_def)

end
