(* ===== verification/RulesAccess.thy ===== *)
theory RulesAccess
  imports Findings
begin

text \<open>
  Scoring rules of \<open>evaluate\<close> (\<open>src/scoring.rs\<close>), part 1: firewall, updates, certificates,
  sudo, sysctl, ssh and access (SEC-001 to SEC-012, SEC-061 to SEC-063). A rule is the list of
  findings its block pushes, in order; the report is its argument.
\<close>

abbreviation sec :: "agent_report \<Rightarrow> security_info" where "sec r \<equiv> ar_security r"
abbreviation net :: "agent_report \<Rightarrow> network_info" where "net r \<equiv> ar_network r"
abbreviation hst :: "agent_report \<Rightarrow> host_info" where "hst r \<equiv> ar_host r"
abbreviation topo :: "agent_report \<Rightarrow> topology_info" where "topo r \<equiv> ar_topology r"

definition RISK_NO_FIREWALL :: u8 where "RISK_NO_FIREWALL = 30"
definition RISK_SSH_ROOT_LOGIN :: u8 where "RISK_SSH_ROOT_LOGIN = 25"
definition RISK_SECURITY_UPDATES :: u8 where "RISK_SECURITY_UPDATES = 20"
definition RISK_CRITICAL_SSL_MAX :: u8 where "RISK_CRITICAL_SSL_MAX = 15"
definition RISK_FAILED_SERVICES :: u8 where "RISK_FAILED_SERVICES = 10"
definition RISK_SSH_PASSWORD_AUTH :: u8 where "RISK_SSH_PASSWORD_AUTH = 10"
definition RISK_OOM_KILLS :: u8 where "RISK_OOM_KILLS = 10"
definition RISK_NO_BACKUP :: u8 where "RISK_NO_BACKUP = 20"
definition RISK_NTP_NOT_SYNCED :: u8 where "RISK_NTP_NOT_SYNCED = 10"
definition RISK_SUDOERS_MODE :: u8 where "RISK_SUDOERS_MODE = 5"
definition RISK_SYSCTL_PER_ISSUE :: u8 where "RISK_SYSCTL_PER_ISSUE = 5"
definition RISK_PASSWORDLESS_ROOT :: u8 where "RISK_PASSWORDLESS_ROOT = 15"

lemmas risk_defs =
  RISK_NO_FIREWALL_def RISK_SSH_ROOT_LOGIN_def RISK_SECURITY_UPDATES_def
  RISK_CRITICAL_SSL_MAX_def RISK_FAILED_SERVICES_def RISK_SSH_PASSWORD_AUTH_def
  RISK_OOM_KILLS_def RISK_NO_BACKUP_def RISK_NTP_NOT_SYNCED_def RISK_SUDOERS_MODE_def
  RISK_SYSCTL_PER_ISSUE_def RISK_PASSWORDLESS_ROOT_def

section \<open>SEC-001 to SEC-004\<close>

definition rule_sec_001 :: "agent_report \<Rightarrow> finding list" where
  "rule_sec_001 r =
     (if \<not> ni_firewall_active (net r) then
        [mk_finding ''SEC-001'' NetworkScanner ''Firewall inactive'' SecurityCat RISK_NO_FIREWALL
           ''No active firewall (ufw/firewalld/nftables/iptables)'' None (Some ''CIS 3.5.1.1'')]
      else [])"

definition root_login_detail :: "agent_report \<Rightarrow> string" where
  "root_login_detail r =
     (case si_ssh_permit_root_login_detail (sec r) of Some d \<Rightarrow> d | None \<Rightarrow> '''')"

definition rule_sec_002 :: "agent_report \<Rightarrow> finding list" where
  "rule_sec_002 r =
     (if si_ssh_root_login_enabled (sec r) then
        (let detail = root_login_detail r;
             weight = (if eq_ignore_ascii_case detail ''prohibit-password''
                       then RISK_SSH_ROOT_LOGIN div 2 else RISK_SSH_ROOT_LOGIN) in
         [mk_finding ''SEC-002'' SecurityScanner ''SSH root login allowed'' SecurityCat weight
            (''PermitRootLogin '' @ detail) None (Some ''CIS 5.2.10'')])
      else [])"

definition security_updates :: "agent_report \<Rightarrow> nat" where
  "security_updates r = length (filter up_is_security (pk_upgradable (ar_packages r)))"

definition rule_sec_003 :: "agent_report \<Rightarrow> finding list" where
  "rule_sec_003 r =
     (if list_ex up_is_security (pk_upgradable (ar_packages r)) then
        (let count = security_updates r;
             weight = (if 20 < count then RISK_SECURITY_UPDATES else if 5 < count then 15 else 10) in
         [mk_finding ''SEC-003'' PackagesScanner ''Pending security updates'' SecurityCat weight
            (show_nat count @ '' security update(s) available'') None (Some ''CIS 1.9'')])
      else [])"

definition rule_sec_004 :: "agent_report \<Rightarrow> finding list" where
  "rule_sec_004 r =
     (if list_ex ssl_is_critical (ni_ssl_certificates (net r)) then
        [mk_finding ''SEC-004'' NetworkScanner ''SSL certificate expiring'' SecurityCat
           RISK_CRITICAL_SSL_MAX ''One or more SSL certificates expire within 7 days'' None None]
      else [])"

section \<open>The passwordless-root class: SEC-005, SEC-012, SEC-061\<close>

definition is_root_path :: "string \<Rightarrow> bool" where
  "is_root_path entry = (contains entry SUDO_ALL_MARKER \<or> contains entry SUDO_PRIVESC_MARKER)"

definition prp_sec012 :: "agent_report \<Rightarrow> bool" where
  "prp_sec012 r = (aar_sudoers_nopasswd_all (si_access_alignment (sec r)) \<noteq> [])"

definition prp_sec005 :: "agent_report \<Rightarrow> bool" where
  "prp_sec005 r = list_ex is_root_path (si_sudo_nopasswd_entries (sec r))"

definition sec_005_weight :: "bool \<Rightarrow> bool \<Rightarrow> bool \<Rightarrow> u8 \<times> string option" where
  "sec_005_weight p005 p012 has_plain =
     (case (p005, p012, has_plain) of
        (False, _, _) \<Rightarrow> (5, None)
      | (True, False, _) \<Rightarrow> (RISK_PASSWORDLESS_ROOT, None)
      | (True, True, True) \<Rightarrow> (5, None)
      | (True, True, False) \<Rightarrow>
          (0, Some (''Every NOPASSWD entry is a passwordless-root path already weighted ''
                    @ ''by SEC-012 for the same sudoers input (R34-01).'')))"

definition rule_sec_005 :: "agent_report \<Rightarrow> finding list" where
  "rule_sec_005 r =
     (let entries = si_sudo_nopasswd_entries (sec r) in
      if entries \<noteq> [] then
        (let has_plain = list_ex (\<lambda>e. \<not> is_root_path e) entries;
             (weight, suppressed) = sec_005_weight (prp_sec005 r) (prp_sec012 r) has_plain in
         [mk_finding ''SEC-005'' SecurityScanner ''Sudo NOPASSWD entries found'' SecurityCat weight
            (show_nat (length entries) @ '' NOPASSWD entries in sudoers'') suppressed
            (Some ''CIS 5.4.2'')])
      else [])"

definition rule_sec_012 :: "agent_report \<Rightarrow> finding list" where
  "rule_sec_012 r =
     (let principals = aar_sudoers_nopasswd_all (si_access_alignment (sec r)) in
      if principals \<noteq> [] then
        [mk_finding ''SEC-012'' SecurityScanner ''Passwordless sudo to ALL commands'' SecurityCat
           RISK_PASSWORDLESS_ROOT
           (show_nat (length principals) @ '' principal(s) with NOPASSWD: ALL'') None
           (Some ''CIS 5.3'')]
      else [])"

definition group_escalations :: "agent_report \<Rightarrow> string list" where
  "group_escalations r =
     map (\<lambda>g. reg_group g @ '': '' @ join '', '' (reg_members g))
       (filter reg_bypasses_sudo (aar_root_equivalent_groups (si_access_alignment (sec r))))"

definition sec_061_carrier :: "agent_report \<Rightarrow> string option" where
  "sec_061_carrier r =
     (if prp_sec012 r then Some ''SEC-012'' else if prp_sec005 r then Some ''SEC-005'' else None)"

definition rule_sec_061 :: "agent_report \<Rightarrow> finding list" where
  "rule_sec_061 r =
     (let escalations = group_escalations r in
      if escalations \<noteq> [] then
        (let (weight, suppressed) =
               (case sec_061_carrier r of
                  None \<Rightarrow> (RISK_PASSWORDLESS_ROOT, None)
                | Some i \<Rightarrow>
                    (0, Some (''Passwordless-root class already weighted by '' @ i
                          @ '' on this host (R34-01); members listed for review, ''
                          @ ''additions tracked as drift.''))) in
         [mk_finding ''SEC-061'' SecurityScanner
            ''Passwordless root via group membership (bypasses sudo auth)'' SecurityCat weight
            (evidence_list escalations 6 @ '' '' @ em_dash
             @ '' members get root through the group's socket/device without ''
             @ ''sudo authentication'')
            suppressed None])
      else [])"

section \<open>SEC-006, SEC-007\<close>

text \<open>Mode \<open>0o440\<close> is \<open>0x120\<close>.\<close>

definition rule_sec_006 :: "agent_report \<Rightarrow> finding list" where
  "rule_sec_006 r =
     (case si_sudoers_mode (sec r) of
        None \<Rightarrow> []
      | Some mode \<Rightarrow>
          if mode \<noteq> 0x120 then
            [mk_finding ''SEC-006'' SecurityScanner ''Sudoers permissions not 0440'' SecurityCat
               RISK_SUDOERS_MODE (''sudoers mode is '' @ show_octal mode) None
               (Some ''CIS 1.8.2'')]
          else [])"

definition container_host :: "agent_report \<Rightarrow> bool" where
  "container_host r =
     (ti_runtime_active (topo r) \<or> ''kubelet'' \<in> set (hi_native_services (hst r)))"

definition sysctl_cis :: "string \<Rightarrow> string option" where
  "sysctl_cis title =
     (if title = ''kernel.randomize_va_space'' then Some ''CIS 1.6.2''
      else if title = ''net.ipv4.tcp_syncookies'' then Some ''CIS 3.3.8''
      else if title = ''kernel.dmesg_restrict'' then Some ''CIS 1.6.2''
      else if title = ''net.ipv4.conf.all.accept_redirects'' then Some ''CIS 3.3.2''
      else None)"

definition sysctl_finding :: "agent_report \<Rightarrow> string \<Rightarrow> finding" where
  "sysctl_finding r issue =
     (if starts_with issue ''net.ipv4.ip_forward='' then
        mk_finding ''SEC-007'' SecurityScanner ''IP forwarding enabled'' SecurityCat
          RISK_SYSCTL_PER_ISSUE issue
          (if container_host r then Some ''expected on Docker/kubelet host'' else None)
          (Some ''CIS 3.3.1'')
      else
        (let title = hd (split_char (CHR ''='') issue) in
         mk_finding ''SEC-007'' SecurityScanner title SecurityCat RISK_SYSCTL_PER_ISSUE issue None
           (sysctl_cis title)))"

definition rule_sec_007 :: "agent_report \<Rightarrow> finding list" where
  "rule_sec_007 r = map (sysctl_finding r) (si_sysctl_issues (sec r))"

section \<open>SEC-008, SEC-009, SEC-011\<close>

definition rule_sec_008 :: "agent_report \<Rightarrow> finding list" where
  "rule_sec_008 r =
     (if si_ssh_password_auth_enabled (sec r) then
        [mk_finding ''SEC-008'' SecurityScanner ''SSH password authentication enabled'' SecurityCat
           RISK_SSH_PASSWORD_AUTH ''PasswordAuthentication yes'' None (Some ''CIS 5.2.4'')]
      else [])"

definition rule_sec_009 :: "agent_report \<Rightarrow> finding list" where
  "rule_sec_009 r =
     (if si_ssh_password_auth_enabled (sec r) \<and> si_ssh_root_login_enabled (sec r) then
        [mk_finding ''SEC-009'' SecurityScanner ''Root login with password allowed'' SecurityCat 5
           ''PermitRootLogin enabled AND PasswordAuthentication yes'' None
           (Some ''CIS 5.2.10/5.2.4'')]
      else [])"

definition noncompliant_keys :: "agent_report \<Rightarrow> nat" where
  "noncompliant_keys r =
     length (filter (\<lambda>k. \<not> ska_compliant k) (aar_keys (si_access_alignment (sec r))))"

definition rule_sec_011 :: "agent_report \<Rightarrow> finding list" where
  "rule_sec_011 r =
     (if 0 < noncompliant_keys r then
        [mk_finding ''SEC-011'' SecurityScanner ''SSH keys violate key-strength policy'' SecurityCat
           10 (show_nat (noncompliant_keys r)
               @ '' authorized key(s) below policy (e.g. RSA<3072, DSA, ECDSA)'') None
           (Some ''CIS 5.2'')]
      else [])"

section \<open>SEC-062, SEC-063\<close>

definition sshd_replaceable :: "sshd_directive \<Rightarrow> bool" where
  "sshd_replaceable d =
     (case sd_writability d of
        Some NonRootWritable \<Rightarrow> True
      | Some Missing \<Rightarrow> sd_directive d = ''authorizedkeyscommand''
      | _ \<Rightarrow> False)"

definition sshd_line :: "sshd_directive \<Rightarrow> string" where
  "sshd_line d = sd_directive d @ '' '' @ sd_value d"

definition rule_sec_062 :: "agent_report \<Rightarrow> finding list" where
  "rule_sec_062 r =
     (let ds = si_sshd_sensitive_directives (sec r);
          replaceable = map sshd_line (filter sshd_replaceable ds);
          present = map sshd_line (filter (\<lambda>d. \<not> sshd_replaceable d) ds) in
      (if replaceable \<noteq> [] then
         [mk_finding ''SEC-062'' SecurityScanner
            ''sshd executes or trusts a target replaceable by a non-root user'' SecurityCat 30
            (evidence_list replaceable 4) None None]
       else [])
      @ (if present \<noteq> [] then
         [mk_finding ''SEC-062'' SecurityScanner
            ''sshd login-path directives present (inventory)'' SecurityCat 0
            (evidence_list present 4)
            (Some (''Root-only targets. AuthorizedKeysCommand/TrustedUserCAKeys are normal ''
                   @ ''with SSO or an SSH CA; review that the operator expects them.''))
            None]
       else []))"

definition permit_user_environment :: "agent_report \<Rightarrow> bool" where
  "permit_user_environment r =
     list_ex (\<lambda>d. sd_directive d = ''permituserenvironment''
                 \<and> \<not> eq_ignore_ascii_case (sd_value d) ''no'')
       (si_sshd_sensitive_directives (sec r))"

definition env_keys :: "agent_report \<Rightarrow> string list" where
  "env_keys r =
     map (\<lambda>k. ska_user k @ '' ('' @ ska_comment k @ '')'')
       (filter (\<lambda>k. list_ex (\<lambda>opt. starts_with opt ''environment='') (ska_options k))
         (aar_keys (si_access_alignment (sec r))))"

definition rule_sec_063 :: "agent_report \<Rightarrow> finding list" where
  "rule_sec_063 r =
     (if env_keys r \<noteq> [] then
        (let (weight, suppressed) =
               (if permit_user_environment r then (20, None)
                else (0, Some (''PermitUserEnvironment is off: sshd ignores environment= today; ''
                               @ ''it becomes live the moment that directive flips.''))) in
         [mk_finding ''SEC-063'' SecurityScanner
            ''authorized_keys sets environment= (LD_PRELOAD at login)'' SecurityCat weight
            (evidence_list (env_keys r) 6) suppressed None])
      else [])"

section \<open>Contracts\<close>

lemma compromise_ids_access:
  "''SEC-001'' \<notin> set COMPROMISE_IDS" "''SEC-002'' \<notin> set COMPROMISE_IDS"
  "''SEC-003'' \<notin> set COMPROMISE_IDS" "''SEC-004'' \<notin> set COMPROMISE_IDS"
  "''SEC-005'' \<notin> set COMPROMISE_IDS" "''SEC-006'' \<notin> set COMPROMISE_IDS"
  "''SEC-007'' \<notin> set COMPROMISE_IDS" "''SEC-008'' \<notin> set COMPROMISE_IDS"
  "''SEC-009'' \<notin> set COMPROMISE_IDS" "''SEC-011'' \<notin> set COMPROMISE_IDS"
  "''SEC-012'' \<notin> set COMPROMISE_IDS" "''SEC-061'' \<notin> set COMPROMISE_IDS"
  "''SEC-062'' \<notin> set COMPROMISE_IDS" "''SEC-063'' \<notin> set COMPROMISE_IDS"
  by (simp_all add: COMPROMISE_IDS_def)

lemma access_rules_wf [rule_wf]:
  "rule_ok [''SEC-001''] (rule_sec_001 r)"
  "rule_ok [''SEC-002''] (rule_sec_002 r)"
  "rule_ok [''SEC-003''] (rule_sec_003 r)"
  "rule_ok [''SEC-004''] (rule_sec_004 r)"
  "rule_ok [''SEC-005''] (rule_sec_005 r)"
  "rule_ok [''SEC-006''] (rule_sec_006 r)"
  "rule_ok [''SEC-007''] (rule_sec_007 r)"
  "rule_ok [''SEC-008''] (rule_sec_008 r)"
  "rule_ok [''SEC-009''] (rule_sec_009 r)"
  "rule_ok [''SEC-011''] (rule_sec_011 r)"
  "rule_ok [''SEC-012''] (rule_sec_012 r)"
  "rule_ok [''SEC-061''] (rule_sec_061 r)"
  "rule_ok [''SEC-062''] (rule_sec_062 r)"
  "rule_ok [''SEC-063''] (rule_sec_063 r)"
  by (auto simp: rule_sec_001_def rule_sec_002_def rule_sec_003_def rule_sec_004_def
      rule_sec_005_def rule_sec_006_def rule_sec_007_def rule_sec_008_def rule_sec_009_def
      rule_sec_011_def rule_sec_012_def rule_sec_061_def rule_sec_062_def rule_sec_063_def
      sysctl_finding_def sec_005_weight_def rule_ok_def rule_finding_def risk_defs compromise_ids_access
      Let_def list_all_iff split: option.splits bool.splits)

end
