(* ===== verification/RulesProcess.thy ===== *)
theory RulesProcess
  imports RulesAccess
begin

text \<open>
  Scoring rules of \<open>evaluate\<close>, part 2: listening processes (SEC-013, SEC-030, SEC-031, SEC-015),
  suspicious processes (SEC-016, SEC-017, SEC-032, SEC-019, SEC-020), bind-mount masking
  (SEC-021) and reverse shells (SEC-022).
\<close>

section \<open>Listeners\<close>

definition rule_listeners :: "eval_env \<Rightarrow> agent_report \<Rightarrow> finding list" where
  "rule_listeners env r =
     (let tiers = classify_listeners env (ni_listening_ports (net r)) in
      (if lt_suspicious tiers \<noteq> [] then
         [mk_finding ''SEC-013'' NetworkScanner
            ''Suspicious process listening on network port (Shadow IT)'' SecurityCat 20
            (show_nat (length (lt_suspicious tiers)) @ '' suspicious listener(s): ''
             @ join '', '' (lt_suspicious tiers)) None None]
       else [])
      @ (if lt_devtool tiers \<noteq> [] then
         [mk_finding ''SEC-030'' NetworkScanner
            (''Developer tool listening on loopback (IPC) '' @ em_dash @ '' informational'')
            SecurityCat 0
            (show_nat (length (lt_devtool tiers))
             @ '' loopback-only listener(s) from root-owned installed applications: ''
             @ join '', '' (lt_devtool tiers))
            (Some ''Loopback-only bind from a populated ROOT-OWNED install tree.'') None]
       else [])
      @ (if lt_provisional tiers \<noteq> [] then
         [mk_finding ''SEC-031'' NetworkScanner
            (''User-space tool listening on loopback (IPC) '' @ em_dash @ '' PROVISIONAL'')
            SecurityCat 0
            (show_nat (length (lt_provisional tiers))
             @ '' loopback-only listener(s) nested under user-writable install tree ''
             @ ''(parentage unverified): '' @ join '', '' (lt_provisional tiers))
            (Some (''Loopback-only bind from a user-writable directory. Trust is PROVISIONAL ''
                   @ ''until parentage is verified.'')) None]
       else []))"

text \<open>The first audit entry of a process that holds critical capabilities.\<close>

definition critical_audit :: "agent_report \<Rightarrow> u32 \<Rightarrow> proc_cap_finding option" where
  "critical_audit r pid =
     find (\<lambda>c. pcf_pid c = pid \<and> pcf_critical_caps c \<noteq> []) (si_capability_audit (sec r))"

definition implant_of :: "agent_report \<Rightarrow> port_info \<Rightarrow> string option" where
  "implant_of r port =
     (if \<not> is_wildcard_bind (pi_bind_address port) then None
      else case pi_exe_path port of
        None \<Rightarrow> None
      | Some exe \<Rightarrow>
          if \<not> is_ephemeral_exec_path exe then None
          else case pi_pid port of
            None \<Rightarrow> None
          | Some pid \<Rightarrow>
              (case critical_audit r pid of
                 None \<Rightarrow> None
               | Some cap \<Rightarrow>
                   Some (''pid '' @ show_word (pcf_pid cap) @ '' ('' @ pcf_comm cap @ '') exe ''
                         @ exe @ '' listening on '' @ pi_bind_address port @ '' holds [''
                         @ join '', '' (pcf_critical_caps cap) @ '']'')))"

definition sec_015_evidence :: "agent_report \<Rightarrow> string list" where
  "sec_015_evidence r = List.map_filter (implant_of r) (ni_listening_ports (net r))"

definition rule_sec_015 :: "agent_report \<Rightarrow> finding list" where
  "rule_sec_015 r =
     (let ioc_evidence = sec_015_evidence r in
      if ioc_evidence \<noteq> [] then
        [mk_finding ''SEC-015'' SecurityScanner
           (''ACTIVE COMPROMISE: privileged non-root process on ephemeral path listening ''
            @ ''on network'') SecurityCat 60
           (show_nat (length ioc_evidence) @ '' reachable implant(s): '' @ join ''; '' ioc_evidence)
           None None]
      else [])"

section \<open>Suspicious processes\<close>

definition proc_pid :: "suspicious_process \<Rightarrow> string" where
  "proc_pid p = sp_name p @ '' (pid '' @ show_word (sp_pid p)"

definition name_hits :: "agent_report \<Rightarrow> suspicious_process list" where
  "name_hits r =
     filter (\<lambda>p. is_known_malware (sp_name p) \<or> is_ambiguous_malware (sp_name p))
       (si_suspicious_processes (sec r))"

definition rule_sec_016 :: "agent_report \<Rightarrow> finding list" where
  "rule_sec_016 r =
     (if name_hits r \<noteq> [] then
        [mk_finding ''SEC-016'' SecurityScanner
           ''ACTIVE COMPROMISE: known malicious process detected'' SecurityCat 60
           (show_nat (length (name_hits r)) @ '' known-bad process(es): ''
            @ join '', '' (map (\<lambda>p. case sp_exe_path p of
                  Some exe \<Rightarrow> proc_pid p @ '', '' @ exe @ '')''
                | None \<Rightarrow> proc_pid p @ '')'') (name_hits r))) None None]
      else [])"

definition deleted_procs :: "agent_report \<Rightarrow> suspicious_process list" where
  "deleted_procs r = filter sp_is_deleted (si_suspicious_processes (sec r))"

definition fileless_self :: "agent_report \<Rightarrow> suspicious_process list" where
  "fileless_self r = filter (\<lambda>p. sp_self_attributed p \<noteq> None) (deleted_procs r)"

definition fileless :: "agent_report \<Rightarrow> suspicious_process list" where
  "fileless r = filter (\<lambda>p. sp_self_attributed p = None) (deleted_procs r)"

definition fileless_where :: "suspicious_process \<Rightarrow> string" where
  "fileless_where p =
     (case sp_exe_path p of
        Some exe \<Rightarrow> (if starts_with exe ''/memfd:'' then ''executing in-memory (memfd)''
                     else ''deleted from '' @ exe)
      | None \<Rightarrow> ''deleted'')"

definition rule_sec_017 :: "agent_report \<Rightarrow> finding list" where
  "rule_sec_017 r =
     (if fileless r \<noteq> [] then
        [mk_finding ''SEC-017'' SecurityScanner
           ''ACTIVE COMPROMISE: fileless malware executing from ephemeral path'' SecurityCat 60
           (show_nat (length (fileless r)) @ '' fileless process(es): ''
            @ join '', '' (map (\<lambda>p. proc_pid p @ '', '' @ fileless_where p @ '')'') (fileless r)))
           None None]
      else [])"

definition rule_sec_032 :: "agent_report \<Rightarrow> finding list" where
  "rule_sec_032 r =
     (if fileless_self r \<noteq> [] then
        [mk_finding ''SEC-032'' SecurityScanner
           ''Scanner self-image: ephemeral privileged execution (attributed)'' SecurityCat 0
           (show_nat (length (fileless_self r))
            @ '' process(es) attributed to this scanner by a PID identity established inside ''
            @ ''the process: ''
            @ join ''; '' (map (\<lambda>p. case sp_exe_path p of
                  Some exe \<Rightarrow> proc_pid p @ '', deleted from '' @ exe @ '')''
                | None \<Rightarrow> proc_pid p @ '', deleted)'') (fileless_self r))
            @ ''. Injection-class findings (SEC-023/026/028/029) against these ''
            @ ''PIDs are NOT suppressed. See self_integrity for exec-image provenance.'')
           (Some (''Unlink-on-exec is this scanner's own deployment footprint. Identity anchored ''
                  @ ''on an unforgeable PID, never on comm/argv. Footprint class only ''
                  @ em_dash @ '' self address space remains under full injection scrutiny.''))
           None]
      else [])"

definition fileless_priv_of :: "agent_report \<Rightarrow> suspicious_process \<Rightarrow> string option" where
  "fileless_priv_of r p =
     (if sp_self_attributed p \<noteq> None then None
      else if sp_euid p = 0 then
        Some (proc_pid p @ '', '' @ fileless_where p
              @ '') (root-run fileless implant, full kernel capabilities by default)'')
      else case critical_audit r (sp_pid p) of
        Some c \<Rightarrow> Some (proc_pid p @ '', '' @ fileless_where p @ '') holds [''
                       @ join '', '' (pcf_critical_caps c) @ '']'')
      | None \<Rightarrow> None)"

definition fileless_priv :: "agent_report \<Rightarrow> string list" where
  "fileless_priv r = List.map_filter (fileless_priv_of r) (deleted_procs r)"

definition rule_sec_019 :: "agent_report \<Rightarrow> finding list" where
  "rule_sec_019 r =
     (if fileless_priv r \<noteq> [] then
        [mk_finding ''SEC-019'' SecurityScanner
           ''ACTIVE COMPROMISE: fileless malware holds critical kernel capabilities'' SecurityCat 60
           (show_nat (length (fileless_priv r)) @ '' privileged fileless process(es): ''
            @ join ''; '' (fileless_priv r)) None None]
      else [])"

definition mimics :: "agent_report \<Rightarrow> suspicious_process list" where
  "mimics r = filter sp_is_mimic (si_suspicious_processes (sec r))"

definition rule_sec_020 :: "agent_report \<Rightarrow> finding list" where
  "rule_sec_020 r =
     (if mimics r \<noteq> [] then
        [mk_finding ''SEC-020'' SecurityScanner
           ''ACTIVE COMPROMISE: process masquerading as kernel thread'' SecurityCat 60
           (show_nat (length (mimics r)) @ '' masquerading process(es): ''
            @ join ''; '' (map (\<lambda>p. case sp_exe_path p of
                  Some exe \<Rightarrow> proc_pid p @ '', real exe '' @ exe @ '')''
                | None \<Rightarrow> proc_pid p @ '', kernel-thread name with userspace cmdline)'')
                (mimics r))) None None]
      else [])"

section \<open>Mount masking and reverse shells\<close>

definition rule_sec_021 :: "agent_report \<Rightarrow> finding list" where
  "rule_sec_021 r =
     (let masks = si_mount_masking (sec r) in
      if masks \<noteq> [] then
        [mk_finding ''SEC-021'' SecurityScanner
           ''ACTIVE COMPROMISE: Bind-mount masking detected'' SecurityCat 60
           (show_nat (length masks) @ '' masking mount(s): ''
            @ join ''; '' (map (\<lambda>m. mmf_target_path m @ '' ['' @ mmf_fstype m @ ''] '' @ em_dash
                                  @ '' '' @ mmf_reason m) masks)) None None]
      else [])"

definition stdio_name :: "u8 option \<Rightarrow> string" where
  "stdio_name fd =
     (if fd = Some 0 then '' (stdin)'' else if fd = Some 1 then '' (stdout)''
      else if fd = Some 2 then '' (stderr)'' else '''')"

definition rule_sec_022 :: "agent_report \<Rightarrow> finding list" where
  "rule_sec_022 r =
     (let shells = si_reverse_shells (sec r) in
      if shells \<noteq> [] then
        [mk_finding ''SEC-022'' SecurityScanner
           ''ACTIVE COMPROMISE: Reverse shell / C2 connection detected'' SecurityCat 60
           (show_nat (length shells)
            @ '' interpreter(s) with outbound socket to a public host: ''
            @ join ''; '' (map (\<lambda>s. rsf_process s @ '' (pid '' @ show_word (rsf_pid s) @ '') ''
                                  @ arrow @ '' '' @ rsf_remote_address s
                                  @ stdio_name (rsf_stdio_fd s)) shells)) None None]
      else [])"

section \<open>Contracts\<close>

lemma process_rules_wf [rule_wf]:
  "rule_ok [''SEC-013'', ''SEC-030'', ''SEC-031''] (rule_listeners env r)"
  "rule_ok [''SEC-015''] (rule_sec_015 r)"
  "rule_ok [''SEC-016''] (rule_sec_016 r)"
  "rule_ok [''SEC-017''] (rule_sec_017 r)"
  "rule_ok [''SEC-032''] (rule_sec_032 r)"
  "rule_ok [''SEC-019''] (rule_sec_019 r)"
  "rule_ok [''SEC-020''] (rule_sec_020 r)"
  "rule_ok [''SEC-021''] (rule_sec_021 r)"
  "rule_ok [''SEC-022''] (rule_sec_022 r)"
  by (simp_all add: rule_listeners_def rule_sec_015_def rule_sec_016_def rule_sec_017_def
      rule_sec_032_def rule_sec_019_def rule_sec_020_def rule_sec_021_def rule_sec_022_def
      rule_ok_def rule_finding_def COMPROMISE_IDS_def Let_def)

text \<open>A privileged fileless process is a fileless process.\<close>

lemma fileless_priv_fileless: "fileless_priv r \<noteq> [] \<Longrightarrow> fileless r \<noteq> []"
  by (auto simp: fileless_priv_def fileless_def map_filter_def fileless_priv_of_def
      filter_empty_conv split: if_splits)

end
