(* ===== verification/RulesMemory.thy ===== *)
theory RulesMemory
  imports RulesProcess
begin

text \<open>
  Scoring rules of \<open>evaluate\<close>, part 3: injected libraries and executable memory. Every finding of
  the memory scanner is put into one bucket (\<open>mem_bucket\<close>), and the buckets feed SEC-023, SEC-028,
  SEC-026, SEC-029, SEC-033 and SEC-027.
\<close>

section \<open>Buckets\<close>

definition DEEP_ESCALATE_MIN :: u8 where "DEEP_ESCALATE_MIN = 60"
definition DEEP_DEMOTE_MIN :: u8 where "DEEP_DEMOTE_MIN = 70"

definition is_trumping_malice :: "deep_memory_analysis \<Rightarrow> bool" where
  "is_trumping_malice d = (7 \<le> dma_entropy d \<or> dma_image_header d)"

definition is_benign_shape :: "deep_memory_analysis \<Rightarrow> bool" where
  "is_benign_shape d =
     (dma_prologue d \<noteq> None \<and> dma_entropy d < 13 / 2
      \<and> list_ex (\<lambda>p. rp_kind p = LibText \<or> rp_kind p = JitCluster) (dma_resolved_pointers d))"

definition reputable_exe :: "eval_env \<Rightarrow> library_injection_finding \<Rightarrow> bool" where
  "reputable_exe env f =
     (contains (lif_source f) ''cached-clean'' \<or> contains (lif_source f) ''provisional''
      \<or> contains (lif_source f) ''allowlist''
      \<or> (case lif_exe_path f of
           None \<Rightarrow> False
         | Some exe_path \<Rightarrow>
             exe_provenance env exe_path (lif_pid f) \<in> {InstalledApp, NestedUserInstall}))"

definition KNOWN_RUNTIME_COMMS :: "string list" where
  "KNOWN_RUNTIME_COMMS =
     [''php-fpm'', ''php'', ''nginx'', ''hestia-nginx'', ''node'', ''next-server'', ''gjs'',
      ''telegram'']"

definition comm_asserts_runtime :: "string \<Rightarrow> bool" where
  "comm_asserts_runtime proc =
     list_ex (\<lambda>k. proc = k \<or> starts_with proc (k @ ''.'') \<or> starts_with proc (k @ '':'')
                  \<or> starts_with proc (k @ '' '')) KNOWN_RUNTIME_COMMS"

definition process_behavior_clean :: "u32 \<Rightarrow> agent_report \<Rightarrow> bool" where
  "process_behavior_clean pid r =
     (\<not> list_ex (\<lambda>p. pi_pid p = Some pid \<and> \<not> is_loopback_bind (pi_bind_address p))
          (ni_listening_ports (net r))
      \<and> \<not> list_ex (\<lambda>f. lif_pid f = pid \<and> contains (lif_source f) ''ptrace'')
          (si_library_injections (sec r)))"

datatype mem_bucket = ClassicB | DeepCriticalB | AnomalyB | AdvisoryB | TrustedUnverifiedB
  | UnlinkGhostB

text \<open>The second \<open>if let\<close>: what the deep analysis alone decides, if it decides.\<close>

definition deep_verdict ::
  "eval_env \<Rightarrow> agent_report \<Rightarrow> library_injection_finding \<Rightarrow> deep_memory_analysis
   \<Rightarrow> mem_bucket option" where
  "deep_verdict env r f d =
     (if dma_origin d = UnknownPayload \<and> DEEP_ESCALATE_MIN \<le> dma_confidence d
      then Some DeepCriticalB
      else if dma_origin d \<in> {FfiClosure, GObjectCallback, HotSpot, Pcre2Jit, JitCode, ManagedJit,
                              ReservedBuffer, RuntimeTrampoline}
           \<and> DEEP_DEMOTE_MIN \<le> dma_confidence d
      then Some AdvisoryB
      else if dma_origin d = Inconclusive \<and> process_behavior_clean (lif_pid f) r
           \<and> (reputable_exe env f
              \<or> lif_exe_path f = None \<and> comm_asserts_runtime (lif_process f))
      then Some TrustedUnverifiedB
      else None)"

definition unlink_bucket :: "deep_memory_analysis option \<Rightarrow> mem_bucket" where
  "unlink_bucket deep =
     (case deep of
        None \<Rightarrow> UnlinkGhostB
      | Some d \<Rightarrow>
          if dma_origin d = GhostCleanImage \<and> DEEP_DEMOTE_MIN \<le> dma_confidence d then AdvisoryB
          else if dma_origin d = GhostSuspectImage \<and> DEEP_ESCALATE_MIN \<le> dma_confidence d
          then DeepCriticalB
          else if dma_origin d = GhostInconclusive then UnlinkGhostB
          else if is_benign_shape d then AdvisoryB
          else UnlinkGhostB)"

definition mem_bucket :: "eval_env \<Rightarrow> library_injection_finding \<Rightarrow> agent_report \<Rightarrow> mem_bucket" where
  "mem_bucket env f r =
     (let deep = lif_deep_forensics f in
      if (case deep of Some d \<Rightarrow> is_trumping_malice d | None \<Rightarrow> False) then DeepCriticalB
      else case Option.bind deep (deep_verdict env r f) of
        Some b \<Rightarrow> b
      | None \<Rightarrow>
          if lif_source f = ''maps-so-unlink-on-load'' then unlink_bucket deep
          else if lif_source f = ''maps-rwx-provisional''
            \<or> lif_source f = ''maps-rwx-runtime-allowlist''
            \<or> lif_source f = ''maps-rwx-cached-clean''
            \<or> lif_source f = ''maps-so-tmp-unverified'' then
            (case deep of
               Some d \<Rightarrow> if is_benign_shape d then AdvisoryB else TrustedUnverifiedB
             | None \<Rightarrow> TrustedUnverifiedB)
          else case classify_injection f of
            ClassicInjection \<Rightarrow> ClassicB
          | MemoryAnomaly \<Rightarrow> AnomalyB
          | JitAdvisory \<Rightarrow> AdvisoryB)"

definition TRAMPOLINE_MAX_BYTES :: nat where
  "TRAMPOLINE_MAX_BYTES = 4096"

definition is_trampoline_page :: "library_injection_finding \<Rightarrow> bool" where
  "is_trampoline_page f =
     (if \<not> starts_with (lif_source f) ''maps-anon-rx'' \<and> \<not> contains (lif_source f) ''r-xp''
      then False
      else case Option.bind (lif_region_addr f) (split_once (CHR ''-'')) of
        None \<Rightarrow> False
      | Some (start, stop) \<Rightarrow>
          (case (from_str_radix 64 16 start, from_str_radix 64 16 stop) of
             (Some s, Some e) \<Rightarrow> s \<le> e \<and> e - s = TRAMPOLINE_MAX_BYTES
           | _ \<Rightarrow> False))"

definition in_bucket :: "eval_env \<Rightarrow> agent_report \<Rightarrow> mem_bucket \<Rightarrow> library_injection_finding list" where
  "in_bucket env r b = filter (\<lambda>f. mem_bucket env f r = b) (si_library_injections (sec r))"

definition memory_anomalies :: "eval_env \<Rightarrow> agent_report \<Rightarrow> library_injection_finding list" where
  "memory_anomalies env r = filter (\<lambda>f. \<not> is_trampoline_page f) (in_bucket env r AnomalyB)"

definition provisional_regions :: "eval_env \<Rightarrow> agent_report \<Rightarrow> library_injection_finding list" where
  "provisional_regions env r =
     filter (\<lambda>f. mem_bucket env f r = AnomalyB \<and> is_trampoline_page f
                 \<or> mem_bucket env f r = TrustedUnverifiedB) (si_library_injections (sec r))"

section \<open>Rules\<close>

definition lif_pid_str :: "library_injection_finding \<Rightarrow> string" where
  "lif_pid_str f = lif_process f @ '' (pid '' @ show_word (lif_pid f) @ '')''"

definition region_or_q :: "library_injection_finding \<Rightarrow> string" where
  "region_or_q f = (case lif_region_addr f of Some a \<Rightarrow> a | None \<Rightarrow> ''?'')"

definition rule_sec_023 :: "eval_env \<Rightarrow> agent_report \<Rightarrow> finding list" where
  "rule_sec_023 env r =
     (let classic = in_bucket env r ClassicB in
      if classic \<noteq> [] then
        [mk_finding ''SEC-023'' SecurityScanner
           ''ACTIVE COMPROMISE: Userspace rootkit or code injection detected'' SecurityCat 60
           (show_nat (length classic) @ '' injected object(s): ''
            @ join ''; '' (map (\<lambda>l. lif_pid_str l @ '': '' @ lif_object_path l @ '' via ''
                  @ lif_source l @ (if lif_is_deleted l then '' (deleted)'' else '''')) classic))
           None None]
      else [])"

definition rule_sec_028 :: "eval_env \<Rightarrow> agent_report \<Rightarrow> finding list" where
  "rule_sec_028 env r =
     (let deep_critical = in_bucket env r DeepCriticalB in
      if deep_critical \<noteq> [] then
        [mk_finding ''SEC-028'' SecurityScanner
           ''ACTIVE COMPROMISE: unattributed executable payload in memory'' SecurityCat 60
           (show_nat (length deep_critical) @ '' region(s): ''
            @ join ''; '' (map (\<lambda>l.
                 (let (ent, conf) = (case lif_deep_forensics l of
                        Some d \<Rightarrow> (dma_entropy d, dma_confidence d) | None \<Rightarrow> (0, 0)) in
                  lif_pid_str l @ '' @ '' @ region_or_q l
                  @ '': unattributed RWX payload (entropy '' @ show_fixed1 ent @ '', ''
                  @ show_word conf @ ''% conf)'')) deep_critical))
           None None]
      else [])"

text \<open>
  Grouping by process: the map's keys in order of first insertion, then in the iteration order of
  the hash map.
\<close>

definition first_keys :: "string list \<Rightarrow> string list" where
  "first_keys ks = rev (remdups (rev ks))"

definition group_keys :: "eval_env \<Rightarrow> string \<Rightarrow> library_injection_finding list \<Rightarrow> string list" where
  "group_keys env map_name fs = ee_hash_order env map_name (first_keys (map lif_pid_str fs))"

definition group_of :: "library_injection_finding list \<Rightarrow> string \<Rightarrow> library_injection_finding list"
where
  "group_of fs k = filter (\<lambda>f. lif_pid_str f = k) fs"

definition first_region :: "library_injection_finding list \<Rightarrow> string" where
  "first_region fs =
     (case List.map_filter lif_region_addr fs of a # _ \<Rightarrow> a | [] \<Rightarrow> ''?'')"

definition rule_sec_026 :: "eval_env \<Rightarrow> agent_report \<Rightarrow> finding list" where
  "rule_sec_026 env r =
     (let anomalies = memory_anomalies env r in
      if anomalies \<noteq> [] then
        (let listing = join ''; '' (map (\<lambda>k.
                 k @ '' (first @ '' @ first_region (group_of anomalies k) @ ''): ''
                 @ show_nat (length (group_of anomalies k)) @ '' anomalous region(s)'')
               (group_keys env ''SEC-026'' anomalies));
             weight = (if list_ex (\<lambda>l. contains (lif_source l) ''exec''
                                      \<or> contains (lif_source l) ''rwx'') anomalies
                       then 20 else 10) in
         [mk_finding ''SEC-026'' SecurityScanner
            ''Suspicious executable memory mapping (anon/rwx/stack/heap)'' SecurityCat weight
            (show_nat (length anomalies) @ '' process(es) with anomalous memory mappings: ''
             @ listing) None None])
      else [])"

definition rule_sec_029 :: "eval_env \<Rightarrow> agent_report \<Rightarrow> finding list" where
  "rule_sec_029 env r =
     (let regions = provisional_regions env r in
      if regions \<noteq> [] then
        [mk_finding ''SEC-029'' SecurityScanner
           ''Provisional memory regions (trampolines, unverified, etc.)'' SecurityCat 0
           (show_nat (length regions)
            @ '' region(s) in allowlisted or low-risk patterns (e.g. single-page r-x ''
            @ ''trampolines): ''
            @ join ''; '' (map (\<lambda>k. k @ '': '' @ show_nat (length (group_of regions k))
                                  @ '' region(s)'') (group_keys env ''SEC-029'' regions)))
           (Some (''These regions match known benign patterns (trampoline pages, unverified JIT). ''
                  @ ''Trust is PROVISIONAL; a new region between snapshots is surfaced as drift.''))
           None]
      else [])"

definition rule_sec_033 :: "eval_env \<Rightarrow> agent_report \<Rightarrow> finding list" where
  "rule_sec_033 env r =
     (let ghosts = in_bucket env r UnlinkGhostB in
      if ghosts \<noteq> [] then
        [mk_finding ''SEC-033'' SecurityScanner
           (''Deleted temp-extract .so '' @ em_dash
            @ '' unlink-on-load pattern (UNVERIFIED ghost inode)'') SecurityCat 0
           (show_nat (length ghosts)
            @ '' deleted .so mapping(s) matching the JVM unlink-on-load extract profile ''
            @ ''(trusted runtime, ld.so segment family, W^X across family, no LD_* ''
            @ ''co-occurrence): ''
            @ join ''; '' (map (\<lambda>f. lif_pid_str f @ '': '' @ lif_object_path f @ '' '' @ em_dash
                  @ '' recover: /proc/'' @ show_word (lif_pid f) @ ''/map_files/''
                  @ region_or_q f) ghosts)
            @ ''. The inode is alive while mapped '' @ em_dash @ '' run --deep to ''
            @ ''verify its content.'')
           (Some (''Structural profile matches Netty/JNA-style unlink-after-dlopen extraction ''
                  @ ''in a trusted runtime. Trust is PROVISIONAL: the on-disk file no longer ''
                  @ ''exists and the ghost inode content has not been verified. A clean-ELF ''
                  @ ''implant loaded the same way is indistinguishable at this tier.''))
           None]
      else [])"

definition rule_sec_027 :: "eval_env \<Rightarrow> agent_report \<Rightarrow> finding list" where
  "rule_sec_027 env r =
     (let advisories = in_bucket env r AdvisoryB in
      if advisories \<noteq> [] then
        [mk_finding ''SEC-027'' SecurityScanner
           (''Writable JIT code cache '' @ em_dash @ '' hardening opportunity'') SecurityCat 0
           (show_nat (length advisories) @ '' process(es) using writable JIT arenas: ''
            @ join ''; '' (map (\<lambda>k. k @ '': '' @ show_nat (length (group_of advisories k))
                                  @ '' JIT regions'') (group_keys env ''SEC-027'' advisories)))
           (Some ''JIT topology verified; structural pattern matches expected runtime behavior.'')
           None]
      else [])"

section \<open>Contracts\<close>

lemma memory_rules_wf [rule_wf]:
  "rule_ok [''SEC-023''] (rule_sec_023 env r)"
  "rule_ok [''SEC-028''] (rule_sec_028 env r)"
  "rule_ok [''SEC-026''] (rule_sec_026 env r)"
  "rule_ok [''SEC-029''] (rule_sec_029 env r)"
  "rule_ok [''SEC-033''] (rule_sec_033 env r)"
  "rule_ok [''SEC-027''] (rule_sec_027 env r)"
  by (simp_all add: rule_sec_023_def rule_sec_028_def rule_sec_026_def rule_sec_029_def
      rule_sec_033_def rule_sec_027_def rule_ok_def rule_finding_def COMPROMISE_IDS_def Let_def)

text \<open>
  Malice found in the memory itself is never demoted: whatever the trust sources say, the region is
  critical.
\<close>

lemma trumping_malice_critical:
  "lif_deep_forensics f = Some d \<Longrightarrow> is_trumping_malice d \<Longrightarrow> mem_bucket env f r = DeepCriticalB"
  by (simp add: mem_bucket_def)

text \<open>The six buckets split the findings of the memory scanner among the six rules.\<close>

lemma buckets_partition:
  "mset (in_bucket env r ClassicB) + mset (in_bucket env r DeepCriticalB)
   + mset (memory_anomalies env r) + mset (provisional_regions env r)
   + mset (in_bucket env r AdvisoryB) + mset (in_bucket env r UnlinkGhostB)
   = mset (si_library_injections (sec r))"
proof -
  have "mset (filter (\<lambda>f. mem_bucket env f r = ClassicB) fs)
      + mset (filter (\<lambda>f. mem_bucket env f r = DeepCriticalB) fs)
      + mset (filter (\<lambda>f. \<not> is_trampoline_page f) (filter (\<lambda>f. mem_bucket env f r = AnomalyB) fs))
      + mset (filter (\<lambda>f. mem_bucket env f r = AnomalyB \<and> is_trampoline_page f
                          \<or> mem_bucket env f r = TrustedUnverifiedB) fs)
      + mset (filter (\<lambda>f. mem_bucket env f r = AdvisoryB) fs)
      + mset (filter (\<lambda>f. mem_bucket env f r = UnlinkGhostB) fs) = mset fs" for fs
  proof (induction fs)
    case (Cons f fs)
    then show ?case by (cases "mem_bucket env f r") (auto simp: ac_simps)
  qed simp
  then show ?thesis
    by (simp add: in_bucket_def memory_anomalies_def provisional_regions_def)
qed

end
