(* ===== verification/RulesKernel.thy ===== *)
theory RulesKernel
  imports RulesProcess
begin

text \<open>
  Scoring rules of \<open>evaluate\<close>, part 4: file capabilities and setuid files (SEC-034, SEC-036,
  SEC-037), eBPF (SEC-035), kernel taint (SEC-038), CPU mitigations (SEC-060), confinement
  (SEC-039), hidden modules (SEC-040) and ftrace hooks (SEC-041).
\<close>

section \<open>Classification of file capabilities and setuid files\<close>

definition KNOWN_CAP_BINARIES :: "(string \<times> string list) list" where
  "KNOWN_CAP_BINARIES =
     [(''ping'', [''CAP_NET_RAW'']), (''ping4'', [''CAP_NET_RAW'']), (''ping6'', [''CAP_NET_RAW'']),
      (''mtr'', [''CAP_NET_RAW'']), (''mtr-packet'', [''CAP_NET_ADMIN'', ''CAP_NET_RAW'']),
      (''dumpcap'', [''CAP_NET_ADMIN'', ''CAP_NET_RAW''])]"

definition bare_cap :: "string \<Rightarrow> string" where
  "bare_cap c = (case strip_suffix ''(inh)'' c of Some b \<Rightarrow> b | None \<Rightarrow> c)"

definition unattributable :: "provenance_source \<Rightarrow> bool" where
  "unattributable p = (p = ProvUnavailable \<or> p = PartialApk)"

definition classify_cap_binary ::
  "file_cap_finding \<Rightarrow> provenance_source \<Rightarrow> u8 \<times> string" where
  "classify_cap_binary fc prov =
     (if fcf_package fc \<noteq> None then (0, ''owned by installed package'')
      else
        (let basename = (case path_file_name (fcf_path fc) of Some n \<Rightarrow> n | None \<Rightarrow> '''') in
         case find (\<lambda>(name, _). basename = name) KNOWN_CAP_BINARIES of
           Some (name, allowed) \<Rightarrow>
             (if list_all (\<lambda>c. bare_cap c \<in> set allowed) (fcf_capabilities fc)
              then (0, ''known binary with expected capabilities'')
              else (8, ''known binary carrying capabilities beyond its baseline''))
         | None \<Rightarrow>
             (if unattributable prov then (2, ''package DB unattributable; no structural match'')
              else (8, ''file not owned by any package''))))"

definition system_binary_dirs :: "string list" where
  "system_binary_dirs =
     [''/usr/bin/'', ''/usr/sbin/'', ''/usr/local/bin/'', ''/usr/local/sbin/'', ''/bin/'',
      ''/sbin/'', ''/usr/lib/'', ''/usr/libexec/'', ''/usr/local/lib/'', ''/usr/lib64/'']"

definition classify_setuid :: "setuid_finding \<Rightarrow> provenance_source \<Rightarrow> u8 \<times> string" where
  "classify_setuid f prov =
     (if suf_package f \<noteq> None then (0, ''owned by installed package'')
      else
        (let in_system_dir = list_ex (\<lambda>d. starts_with (suf_path f) d) system_binary_dirs in
         if unattributable prov then
           (if in_system_dir then
              (if suf_root_owner f then (2, ''package DB unattributable; structural fallback'')
               else (10, ''non-root setuid in system dir, DB unattributable''))
            else (14, ''setuid outside system dirs, DB unattributable''))
         else
           (if in_system_dir then
              (if suf_root_owner f then (6, ''root-owned setuid in system dir, owned by NO package'')
               else (12, ''non-root setuid in a system dir''))
            else (14, ''setuid outside system binary directories''))))"

section \<open>SEC-034, SEC-036, SEC-037, SEC-035\<close>

definition rule_file_caps :: "agent_report \<Rightarrow> finding list" where
  "rule_file_caps r =
     (let cls = map (\<lambda>fc. (fc, classify_cap_binary fc (si_provenance_source (sec r))))
                  (si_file_capabilities (sec r));
          suppressed_caps = filter (\<lambda>(_, w, _). w = 0) cls;
          active_caps = filter (\<lambda>(_, w, _). w \<noteq> 0) cls;
          caps = (\<lambda>f. ''['' @ join '', '' (fcf_capabilities f) @ '']'') in
      (if suppressed_caps \<noteq> [] then
         [mk_finding ''SEC-034'' SecurityScanner
            (''Files with capabilities (setcap) '' @ en_dash @ '' expected'') SecurityCat 0
            (show_nat (length suppressed_caps) @ '' file(s) with known capability attributes: ''
             @ join ''; '' (map (\<lambda>(f, _, reason). fcf_path f @ '': '' @ caps f @ '' '' @ em_dash
                                    @ '' '' @ reason) suppressed_caps))
            (Some ''These capabilities are expected for standard system tools (e.g. ping, mtr).'')
            None]
       else [])
      @ (if active_caps \<noteq> [] then
         [mk_finding ''SEC-036'' SecurityScanner
            (''Unexpected file capabilities (setcap) '' @ en_dash @ '' review required'')
            SecurityCat (max_or_0 (map (\<lambda>(_, w, _). w) active_caps))
            (show_nat (length active_caps)
             @ '' file(s) with unexpected or unknown capability attributes: ''
             @ join ''; '' (map (\<lambda>(f, w, reason). fcf_path f @ '': '' @ caps f @ '' (weight ''
                                    @ show_word w @ '', '' @ reason @ '')'') active_caps))
            None None]
       else []))"

definition setuid_label :: "setuid_finding \<Rightarrow> string" where
  "setuid_label f =
     suf_path f @ '' (suid:'' @ show_bool (suf_setuid f) @ '', sgid:'' @ show_bool (suf_setgid f)
     @ '')''"

definition rule_setuid :: "agent_report \<Rightarrow> finding list" where
  "rule_setuid r =
     (let cls = map (\<lambda>f. (f, classify_setuid f (si_provenance_source (sec r))))
                  (si_setuid_files (sec r));
          suppressed_su = filter (\<lambda>(_, w, _). w = 0) cls;
          active_su = filter (\<lambda>(_, w, _). w \<noteq> 0) cls in
      (if suppressed_su \<noteq> [] then
         [mk_finding ''SEC-037'' SecurityScanner
            (''Setuid/setgid files '' @ en_dash @ '' expected'') SecurityCat 0
            (show_nat (length suppressed_su) @ '' file(s) with expected setuid/setgid bits: ''
             @ join ''; '' (map (\<lambda>(f, _, reason). setuid_label f @ '' '' @ em_dash @ '' ''
                                    @ reason) suppressed_su))
            (Some (''These setuid/setgid binaries are owned by known packages or in standard ''
                   @ ''system directories.'')) None]
       else [])
      @ (if active_su \<noteq> [] then
         [mk_finding ''SEC-037'' SecurityScanner
            (''Unexpected setuid/setgid files '' @ en_dash @ '' review required'') SecurityCat
            (max_or_0 (map (\<lambda>(_, w, _). w) active_su))
            (show_nat (length active_su) @ '' file(s) with unexpected setuid/setgid bits: ''
             @ join ''; '' (map (\<lambda>(f, w, reason). setuid_label f @ '' weight '' @ show_word w
                                    @ '': '' @ reason) active_su))
            None None]
       else []))"

definition rule_sec_035 :: "agent_report \<Rightarrow> finding list" where
  "rule_sec_035 r =
     (let ebpf = si_ebpf_inventory (sec r);
          total = length (ebi_programs ebpf) + length (ebi_maps ebpf) + length (ebi_links ebpf)
                  + length (ebi_pins ebpf) in
      if 0 < total then
        [mk_finding ''SEC-035'' SecurityScanner
           ''eBPF programs, maps, links, and pins (informational)'' SecurityCat 0
           (show_nat (length (ebi_programs ebpf)) @ '' BPF programs, ''
            @ show_nat (length (ebi_maps ebpf)) @ '' maps, ''
            @ show_nat (length (ebi_links ebpf)) @ '' links (active attachments), ''
            @ show_nat (length (ebi_pins ebpf)) @ '' pinned objects (total: '' @ show_nat total
            @ '')'')
           (Some (''Routine systemd/container BPF usage is expected. Review unknown programs ''
                  @ ''manually.'')) None]
      else [])"

section \<open>SEC-038, SEC-060, SEC-039\<close>

definition has_taint :: "agent_report \<Rightarrow> char \<Rightarrow> bool" where
  "has_taint r c = list_ex (\<lambda>f. tf_code f = of_char c) (kt_flags (si_kernel_taint (sec r)))"

definition taint_forced :: "agent_report \<Rightarrow> bool" where
  "taint_forced r = (has_taint r (CHR ''F'') \<or> has_taint r (CHR ''R'') \<or> has_taint r (CHR ''N''))"

definition taint_unsigned_or_oot :: "agent_report \<Rightarrow> bool" where
  "taint_unsigned_or_oot r = (has_taint r (CHR ''E'') \<or> has_taint r (CHR ''O''))"

definition modules_hidden :: "agent_report \<Rightarrow> bool" where
  "modules_hidden r = (kmi_hidden_candidates (si_kernel_modules (sec r)) \<noteq> [])"

definition taint_flags_str :: "agent_report \<Rightarrow> string" where
  "taint_flags_str r =
     join '', '' (map (\<lambda>f. tf_name f @ '' ('' @ utf8_encode (tf_code f) @ '')'')
       (filter (\<lambda>f. tf_security_relevant f \<or> tf_code f = of_char (CHR ''O''))
         (kt_flags (si_kernel_taint (sec r)))))"

definition rule_sec_038 :: "agent_report \<Rightarrow> finding list" where
  "rule_sec_038 r =
     (let raw = show_word (kt_raw (si_kernel_taint (sec r)));
          correlated = taint_unsigned_or_oot r \<and> modules_hidden r in
      if taint_forced r \<or> correlated then
        (let (weight, note) =
               (if correlated then
                  (25, '' CORRELATED with a module hidden from /proc/modules (SEC-040) ''
                       @ em_dash @ '' strong LKM-rootkit signal.'')
                else
                  (10, '' Force-loaded/-unloaded or test module '' @ em_dash
                       @ '' unusual on a server.'')) in
         [mk_finding ''SEC-038'' SecurityScanner ''Kernel taint indicates module tampering''
            SecurityCat weight
            (''/proc/sys/kernel/tainted = '' @ raw @ '': '' @ taint_flags_str r @ ''.'' @ note)
            None None])
      else if taint_unsigned_or_oot r then
        [mk_finding ''SEC-038'' SecurityScanner
           ''Kernel tainted by unsigned/out-of-tree module (informational)'' SecurityCat 0
           (''/proc/sys/kernel/tainted = '' @ raw @ '': '' @ taint_flags_str r)
           (Some (''Unsigned or out-of-tree modules are normal for third-party drivers ''
                  @ ''(nvidia, dkms, virtualbox). This escalates to a weighted finding only when ''
                  @ ''correlated with a hidden module (SEC-040) or when it appears as drift.''))
           None]
      else [])"

definition unmitigated :: "agent_report \<Rightarrow> string list" where
  "unmitigated r =
     map (\<lambda>v. cv_name v @ '': '' @ cv_status v)
       (filter cv_vulnerable (si_cpu_vulnerabilities (sec r)))"

definition rule_sec_060 :: "agent_report \<Rightarrow> finding list" where
  "rule_sec_060 r =
     (if unmitigated r \<noteq> [] then
        [mk_finding ''SEC-060'' SecurityScanner
           ''CPU speculative-execution mitigations disabled or absent'' SecurityCat 0
           (show_nat (length (unmitigated r)) @ '' unmitigated: ''
            @ evidence_list (unmitigated r) 6)
           (Some (''Informational: `mitigations=off` is a deliberate performance trade on ''
                  @ ''some fleets. Escalates only as drift (a mitigation that was on and went ''
                  @ ''off).'')) None]
      else [])"

definition rule_sec_039 :: "agent_report \<Rightarrow> finding list" where
  "rule_sec_039 r =
     (let c = si_confinement (sec r) in
      (if cr_selinux_permissive c then
         [mk_finding ''SEC-039'' SecurityScanner
            ''SELinux running in permissive mode (not enforcing)'' SecurityCat 15
            (''SELinux is loaded but in permissive mode '' @ em_dash
             @ '' policy violations are logged, not blocked.'') None None]
       else [])
      @ (if cr_complain_profiles c \<noteq> [] then
         [mk_finding ''SEC-039'' SecurityScanner
            ''AppArmor profiles in complain mode (informational)'' SecurityCat 0
            (show_nat (length (cr_complain_profiles c))
             @ '' profile(s) defined but not enforcing: ''
             @ join ''; '' (map (\<lambda>p. cp_comm p @ '' (pid '' @ show_word (cp_pid p) @ '', profile ''
                                   @ cp_profile p @ '')'') (cr_complain_profiles c)))
            (Some (''Complain mode is frequently an intentional baseline for services whose ''
                   @ ''vendor profile is too strict (e.g. named/BIND under a control panel). A ''
                   @ ''regression from enforce'' @ arrow
                   @ ''complain is surfaced as drift by `compare`.'')) None]
       else []))"

section \<open>SEC-040, SEC-041\<close>

definition rule_sec_040 :: "agent_report \<Rightarrow> finding list" where
  "rule_sec_040 r =
     (let hidden = kmi_hidden_candidates (si_kernel_modules (sec r)) in
      if hidden \<noteq> [] then
        [mk_finding ''SEC-040'' SecurityScanner
           ''ACTIVE COMPROMISE: kernel module hidden from /proc/modules'' SecurityCat 55
           (show_nat (length hidden)
            @ '' module(s) live in sysfs/kallsyms but scrubbed from /proc/modules ''
            @ ''(module_list unlink '' @ em_dash @ '' Diamorphine-class LKM rootkit): ''
            @ join ''; '' (map (\<lambda>h. hm_name h @ '' (seen in '' @ join ''+'' (hm_seen_in h) @ '')'')
                            hidden)) None None]
      else [])"

definition describe_hooks :: "ftrace_hook list \<Rightarrow> string" where
  "describe_hooks hooks =
     join ''; '' (map (\<lambda>h. fh_function h @ '' (via '' @ fh_callback h @ '')'') hooks)"

definition syscall_hooks :: "agent_report \<Rightarrow> ftrace_hook list" where
  "syscall_hooks r = fhi_unattributed_syscall_hooks (si_ftrace_hooks (sec r))"

definition correlated_hooks :: "agent_report \<Rightarrow> ftrace_hook list" where
  "correlated_hooks r =
     filter (\<lambda>h. case strip_prefix ''module:'' (fh_callback h) of
               Some m \<Rightarrow> m \<in> set (map hm_name (kmi_hidden_candidates (si_kernel_modules (sec r))))
             | None \<Rightarrow> False) (syscall_hooks r)"

definition module_backed :: "agent_report \<Rightarrow> bool" where
  "module_backed r =
     list_ex (\<lambda>h. starts_with (fh_callback h) ''module:'' \<and> \<not> contains (fh_callback h) ''unresolved'')
       (syscall_hooks r)"

definition rule_sec_041 :: "agent_report \<Rightarrow> finding list" where
  "rule_sec_041 r =
     (let inv = si_ftrace_hooks (sec r); hooks = syscall_hooks r; correlated = correlated_hooks r in
      if \<not> fhi_live_tracer_active inv \<and> hooks \<noteq> [] then
        (if correlated \<noteq> [] then
           [mk_finding ''SEC-041'' SecurityScanner
              ''ACTIVE COMPROMISE: syscall ftrace-hooked by a hidden module'' SecurityCat 55
              (show_nat (length correlated)
               @ '' syscall entry point(s) ftrace-hooked by a module hidden from ''
               @ ''/proc/modules (SEC-040 correlated '' @ em_dash @ '' ftrace-rootkit): ''
               @ describe_hooks correlated) None None]
         else if fhi_attribution_degraded inv \<and> \<not> module_backed r then
           [mk_finding ''SEC-041'' SecurityScanner
              ''Unattributed ftrace hooks on syscalls (attribution degraded)'' SecurityCat 0
              (show_nat (length hooks)
               @ '' syscall entry point(s) carry an ftrace_ops whose callback could not ''
               @ ''be resolved (kptr_restrict): '' @ describe_hooks hooks)
              (Some (''kptr_restrict hides the ftrace callback, so a legitimate BPF/kprobe source ''
                     @ ''cannot be ruled out. Lower kptr_restrict for attribution, or rely on ''
                     @ ''drift (a NEW hook between snapshots is weighted regardless).'')) None]
         else
           [mk_finding ''SEC-041'' SecurityScanner
              ''Unexplained ftrace hook on a syscall entry point'' SecurityCat 30
              (show_nat (length hooks)
               @ '' syscall entry point(s) ftrace-hooked with no BPF/kprobe/livepatch source ''
               @ ''and no active tracer '' @ em_dash
               @ '' verify the owning module (EDR?) or investigate: '' @ describe_hooks hooks)
              None None])
      else [])"

section \<open>Contracts\<close>

lemma classify_cap_binary_weight: "fst (classify_cap_binary fc prov) \<le> 8"
  by (auto simp: classify_cap_binary_def Let_def split: option.splits)

lemma classify_setuid_weight: "fst (classify_setuid f prov) \<le> 14"
  by (simp add: classify_setuid_def Let_def)

lemma active_weight_le:
  assumes "\<And>x. fst (g x) \<le> (b :: u8)"
  shows "max_or_0 (map (\<lambda>(_, w, _). w) (filter P (map (\<lambda>x. (x, g x)) xs))) \<le> b"
  by (rule max_or_0_le) (use assms in \<open>auto simp: split_beta\<close>)

lemma file_caps_weight_le:
  "max_or_0 (map (\<lambda>(_, w, _). w) (filter P (map (\<lambda>fc. (fc, classify_cap_binary fc prov)) xs))) \<le> 60"
  by (rule order_trans [OF active_weight_le [OF classify_cap_binary_weight]]) simp

lemma setuid_weight_le:
  "max_or_0 (map (\<lambda>(_, w, _). w) (filter P (map (\<lambda>fc. (fc, classify_setuid fc prov)) xs))) \<le> 60"
  by (rule order_trans [OF active_weight_le [OF classify_setuid_weight]]) simp

lemma kernel_rules_wf [rule_wf]:
  "rule_ok [''SEC-034'', ''SEC-036''] (rule_file_caps r)"
  "rule_ok [''SEC-037''] (rule_setuid r)"
  "rule_ok [''SEC-035''] (rule_sec_035 r)"
  "rule_ok [''SEC-038''] (rule_sec_038 r)"
  "rule_ok [''SEC-060''] (rule_sec_060 r)"
  "rule_ok [''SEC-039''] (rule_sec_039 r)"
  "rule_ok [''SEC-040''] (rule_sec_040 r)"
  "rule_ok [''SEC-041''] (rule_sec_041 r)"
  by (simp_all add: rule_file_caps_def rule_setuid_def rule_sec_035_def rule_sec_038_def
      rule_sec_060_def rule_sec_039_def rule_sec_040_def rule_sec_041_def rule_ok_def rule_finding_def
      COMPROMISE_IDS_def Let_def file_caps_weight_le setuid_weight_le)

end
