(* ===== verification/Generators.thy ===== *)
theory Generators
  imports Utils
begin

text \<open>
  The pure decision layer of \<open>src/scanners/generators.rs\<close> (systemd generators, SEC-052/053/054).
  The directory walk that fills the findings is I/O and not modelled.
\<close>

datatype generator_verdict = GenIoc | GenUnpackaged | GenUnverifiable | GenBenign

definition is_volatile_escape :: "string \<Rightarrow> bool" where
  "is_volatile_escape resolved =
     (is_volatile_exec_path resolved \<and> \<not> starts_with resolved ''/run/systemd/'')"

definition classify_generator ::
  "generator_kind \<Rightarrow> generator_origin \<Rightarrow> exec_writability \<Rightarrow> bool \<Rightarrow> string option
   \<Rightarrow> provenance_source \<Rightarrow> generator_verdict" where
  "classify_generator kind origin writability volatile_escape package provenance =
     (if kind = GkSearchDir then GenIoc
      else case writability of
        NonRootWritable \<Rightarrow> GenIoc
      | Missing \<Rightarrow> GenIoc
      | WUnknown \<Rightarrow> GenUnverifiable
      | RootOnly \<Rightarrow>
          (if volatile_escape then GenIoc
           else if origin = GoVendor \<or> package \<noteq> None then GenBenign
           else if provenance = ProvUnavailable then GenUnverifiable
           else GenUnpackaged))"

definition generator_describe :: "generator_finding \<Rightarrow> string" where
  "generator_describe g =
     gf_path g
     @ (case gf_symlink_target g of Some t \<Rightarrow> '' '' @ arrow @ '' '' @ t | None \<Rightarrow> [])
     @ (if gf_writability g = NonRootWritable
        then '' (writable, uid '' @ show_word (gf_uid g) @ '')'' else [])
     @ (if gf_writability g = Missing
        then '' (dangling link '' @ em_dash @ '' target can be created)'' else [])
     @ (if gf_writability g = WUnknown
        then '' (target unresolvable '' @ em_dash @ '' not verified)'' else [])"

text \<open>The verdict of one finding, as \<open>evaluate\<close> asks for it.\<close>

definition generator_verdict_of :: "provenance_source \<Rightarrow> generator_finding \<Rightarrow> generator_verdict" where
  "generator_verdict_of prov g =
     classify_generator (gf_kind g) (gf_origin g) (gf_writability g)
       (case gf_resolved_path g of Some r \<Rightarrow> is_volatile_escape r | None \<Rightarrow> False)
       (gf_package g) prov"

text \<open>
  A generator is benign only when it is an executable that nobody but root controls, that does
  not resolve into volatile storage, and that a vendor directory or a package vouches for.
\<close>

lemma generator_benign_iff:
  "classify_generator kind origin w esc package prov = GenBenign \<longleftrightarrow>
     kind = GkExecutable \<and> w = RootOnly \<and> \<not> esc \<and> (origin = GoVendor \<or> package \<noteq> None)"
  by (cases kind; cases w) (auto simp: classify_generator_def)

lemma generator_ioc_iff:
  "classify_generator kind origin w esc package prov = GenIoc \<longleftrightarrow>
     kind = GkSearchDir \<or> w = NonRootWritable \<or> w = Missing \<or> w = RootOnly \<and> esc"
  by (cases kind; cases w) (auto simp: classify_generator_def)

end
