(* ===== verification/RulesPersistence.thy ===== *)
theory RulesPersistence
  imports RulesProcess Generators
begin

text \<open>
  Scoring rules of \<open>evaluate\<close>, part 5: persistence. \<open>/etc/ld.so.preload\<close> (SEC-042, SEC-049,
  SEC-050), \<open>ld.so.conf\<close> (SEC-051), systemd generators (SEC-052 to SEC-054), PAM (SEC-055 to
  SEC-057), units and cron targets (SEC-043, SEC-045 to SEC-048), core pattern and lockdown
  (SEC-044).
\<close>

section \<open>System-wide preload: SEC-042, SEC-050, SEC-049\<close>

datatype preload_class = PreVolatile | PreUnverifiable | PreMapped | PreUnmapped | PrePackaged

definition preload_class_of :: "provenance_source \<Rightarrow> preload_finding \<Rightarrow> preload_class" where
  "preload_class_of prov f =
     (if plf_volatile f then PreVolatile
      else if plf_package f = None \<and> prov = ProvUnavailable then PreUnverifiable
      else if plf_package f = None then
        (if (case plf_mapped_by_pids f of Some n \<Rightarrow> 0 < n | None \<Rightarrow> False)
         then PreMapped else PreUnmapped)
      else PrePackaged)"

definition preload_mapped :: "preload_finding \<Rightarrow> string" where
  "preload_mapped f =
     plf_path f @ '' (mapped by ''
     @ (case plf_mapped_by_pids f of None \<Rightarrow> ''?'' | Some n \<Rightarrow> show_nat n) @ '')''"

definition preloads :: "agent_report \<Rightarrow> preload_class \<Rightarrow> preload_finding list" where
  "preloads r k =
     filter (\<lambda>f. preload_class_of (si_provenance_source (sec r)) f = k)
       (si_preload_injections (sec r))"

definition rule_preload :: "agent_report \<Rightarrow> finding list" where
  "rule_preload r =
     (let pre_volatile = map plf_path (preloads r PreVolatile);
          pre_unverifiable = map plf_path (preloads r PreUnverifiable);
          pre_mapped = map preload_mapped (preloads r PreMapped);
          pre_unmapped = map preload_mapped (preloads r PreUnmapped) in
      (if pre_volatile \<noteq> [] \<or> pre_mapped \<noteq> [] then
         (let weight = (if pre_volatile \<noteq> [] then 60 else 55);
              entries = pre_volatile @ pre_mapped in
          [mk_finding ''SEC-042'' PersistenceScanner
             ''ACTIVE COMPROMISE: system-wide LD_PRELOAD injected'' SecurityCat weight
             (show_nat (length entries) @ '' entr(ies) in /etc/ld.so.preload: ''
              @ evidence_list entries 10) None None])
       else [])
      @ (if pre_unmapped \<noteq> [] then
         [mk_finding ''SEC-050'' PersistenceScanner
            ''System-wide LD_PRELOAD injected (unpackaged, not yet mapped)'' SecurityCat 30
            (show_nat (length pre_unmapped) @ '' entr(ies): '' @ evidence_list pre_unmapped 10)
            None None]
       else [])
      @ (if pre_unverifiable \<noteq> [] then
         [mk_finding ''SEC-049'' PersistenceScanner
            ''System-wide LD_PRELOAD present (ownership unverifiable)'' SecurityCat 20
            (show_nat (length pre_unverifiable)
             @ '' entr(ies) in /etc/ld.so.preload; package database unavailable: ''
             @ evidence_list pre_unverifiable 10) None None]
       else []))"

definition rule_sec_051 :: "agent_report \<Rightarrow> finding list" where
  "rule_sec_051 r =
     (let injections = si_ld_so_conf_injections (sec r) in
      if injections \<noteq> [] then
        [mk_finding ''SEC-051'' PersistenceScanner
           ''ld.so.conf paths allow unprivileged library injection'' SecurityCat 30
           (evidence_list (map (\<lambda>f. lsc_path f @ '' (uid '' @ show_word (lsc_uid f) @ '', mode ''
                 @ show_octal (case lsc_mode f of Some m \<Rightarrow> m | None \<Rightarrow> 0)
                 @ '', volatile:'' @ show_bool (lsc_volatile f) @ '')'') injections) 10)
           None None]
      else [])"

section \<open>Generators: SEC-052, SEC-053, SEC-054\<close>

definition generators_with :: "agent_report \<Rightarrow> generator_verdict \<Rightarrow> string list" where
  "generators_with r v =
     map generator_describe
       (filter (\<lambda>g. generator_verdict_of (si_provenance_source (sec r)) g = v)
         (si_generators (sec r)))"

text \<open>The block is compiled with the feature \<open>local-scan\<close> only.\<close>

definition rule_generators :: "eval_env \<Rightarrow> agent_report \<Rightarrow> finding list" where
  "rule_generators env r =
     (if \<not> ee_local_scan env then [] else
      let ioc = generators_with r GenIoc; unpackaged = generators_with r GenUnpackaged;
          unverifiable = generators_with r GenUnverifiable in
      (if ioc \<noteq> [] then
         [mk_finding ''SEC-052'' PersistenceScanner
            ''ACTIVE COMPROMISE: systemd generator controlled by a non-root principal''
            SecurityCat 55
            (show_nat (length ioc)
             @ '' generator target(s) executed as root at every boot and daemon-reload, ''
             @ ''writable by non-root or resolving off the systemd hierarchy: ''
             @ evidence_list ioc 10) None None]
       else [])
      @ (if unpackaged \<noteq> [] then
         [mk_finding ''SEC-053'' PersistenceScanner
            ''Unpackaged systemd generator outside the vendor hierarchy'' SecurityCat 30
            (show_nat (length unpackaged)
             @ '' generator(s) belong to no installed package and do not live in ''
             @ ''/usr/lib/systemd/*-generators: '' @ evidence_list unpackaged 10) None None]
       else [])
      @ (if unverifiable \<noteq> [] then
         [mk_finding ''SEC-054'' PersistenceScanner
            ''systemd generator present (origin or target unverifiable)'' SecurityCat 20
            (show_nat (length unverifiable)
             @ '' non-vendor generator(s); package database unavailable '' @ em_dash
             @ '' origin cannot be verified: '' @ evidence_list unverifiable 10) None None]
       else []))"

section \<open>PAM: SEC-055, SEC-056, SEC-057\<close>

definition pam_evidence :: "pam_finding \<Rightarrow> string" where
  "pam_evidence f =
     (let services_count = length (paf_services f);
          services_str = (if services_count \<le> 3 then join '', '' (paf_services f)
                          else join '', '' (take 3 (paf_services f)) @ ''...'');
          path = pm_module_path (paf_module f) in
      if services_count \<le> 3 then
        path @ '' ('' @ show_nat services_count @ '' service''
        @ (if services_count = 1 then '''' else ''s'') @ ''): '' @ em_dash @ '' used by: ''
        @ services_str
      else
        path @ '' ('' @ show_nat services_count @ '' services): '' @ em_dash @ '' used by: ''
        @ services_str)"

datatype pam_class = PamIoc | PamUnpackaged | PamUnverifiable | PamQuiet

definition pam_class_of :: "pam_finding \<Rightarrow> pam_class" where
  "pam_class_of f =
     (if paf_target_kind f = Config \<and> paf_writability f \<noteq> RootOnly then PamIoc
      else case paf_writability f of
        NonRootWritable \<Rightarrow> PamIoc
      | Missing \<Rightarrow> (if paf_parent_takeable f then PamIoc else PamQuiet)
      | WUnknown \<Rightarrow> PamUnverifiable
      | RootOnly \<Rightarrow>
          (if paf_volatile f then PamIoc
           else if paf_package f = None then PamUnpackaged else PamQuiet))"

definition pam_with :: "agent_report \<Rightarrow> pam_class \<Rightarrow> string list" where
  "pam_with r k = map pam_evidence (filter (\<lambda>f. pam_class_of f = k) (si_pam_injections (sec r)))"

definition rule_pam :: "agent_report \<Rightarrow> finding list" where
  "rule_pam r =
     (let ioc = pam_with r PamIoc; unpackaged = pam_with r PamUnpackaged;
          unverifiable = pam_with r PamUnverifiable;
          text = (\<lambda>xs. show_nat (length xs) @ '' PAM line(s): '' @ evidence_list xs 10) in
      (if ioc \<noteq> [] then
         [mk_finding ''SEC-055'' PersistenceScanner
            (''ACTIVE COMPROMISE: PAM module/config writable or volatile ''
             @ ''(authentication bypass)'') SecurityCat 55 (text ioc) None None]
       else [])
      @ (if unpackaged \<noteq> [] then
         [mk_finding ''SEC-056'' PersistenceScanner
            ''Unpackaged PAM module outside trusted directories'' SecurityCat 30
            (text unpackaged) None None]
       else [])
      @ (if unverifiable \<noteq> [] then
         [mk_finding ''SEC-057'' PersistenceScanner
            ''PAM module present (ownership unverifiable)'' SecurityCat 20
            (text unverifiable) None None]
       else []))"

section \<open>Unit and cron targets: SEC-043, SEC-047, SEC-048, SEC-046, SEC-045\<close>

definition unit_is_vendor_shipped :: "exec_start_finding \<Rightarrow> bool" where
  "unit_is_vendor_shipped f =
     (esf_unit_package f \<noteq> None \<or> starts_with (esf_unit_path f) ''/usr/lib/systemd/system/''
      \<or> starts_with (esf_unit_path f) ''/lib/systemd/system/'')"

definition exec_line :: "exec_start_finding \<Rightarrow> string" where
  "exec_line f = esf_source f @ '' '' @ arrow @ '' '' @ esf_exec_path f"

definition sel :: "agent_report \<Rightarrow> (exec_start_finding \<Rightarrow> bool) \<Rightarrow> string list" where
  "sel r p = map exec_line (filter p (si_exec_start_injections (sec r)))"

definition live_volatile :: "exec_start_finding \<Rightarrow> bool" where
  "live_volatile f =
     (esf_volatile f \<and> (esf_writability f = RootOnly \<or> esf_writability f = NonRootWritable))"

definition live_rogue :: "agent_report \<Rightarrow> string list" where
  "live_rogue r = sel r (\<lambda>f. live_volatile f \<and> \<not> unit_is_vendor_shipped f)"

definition live_vendor :: "agent_report \<Rightarrow> string list" where
  "live_vendor r = sel r (\<lambda>f. live_volatile f \<and> unit_is_vendor_shipped f)"

definition dormant_targets :: "agent_report \<Rightarrow> exec_start_finding list" where
  "dormant_targets r =
     filter (\<lambda>f. esf_volatile f \<and> esf_writability f = Missing) (si_exec_start_injections (sec r))"

definition rule_exec_start :: "agent_report \<Rightarrow> finding list" where
  "rule_exec_start r =
     (let rogue = list_ex (\<lambda>f. \<not> unit_is_vendor_shipped f) (dormant_targets r);
          weak = sel r (\<lambda>f. esf_runs_as_root f \<and> \<not> esf_volatile f
                          \<and> esf_writability f = NonRootWritable);
          unpackaged = sel r (\<lambda>f. \<not> esf_volatile f \<and> esf_writability f = RootOnly
                          \<and> esf_package f = None) in
      (if live_rogue r \<noteq> [] then
         [mk_finding ''SEC-043'' PersistenceScanner
            ''ACTIVE COMPROMISE: unpackaged unit executes a live target on tmpfs'' SecurityCat 55
            (show_nat (length (live_rogue r))
             @ '' entr(ies) where an unpackaged unit/cron file points at an EXISTING ''
             @ ''executable on a volatile filesystem: '' @ evidence_list (live_rogue r) 10)
            None None]
       else [])
      @ (if live_vendor r \<noteq> [] then
         [mk_finding ''SEC-047'' PersistenceScanner
            ''Vendor unit executes from a runtime-provisioned path'' SecurityCat 0
            (show_nat (length (live_vendor r)) @ '' entr(ies): ''
             @ evidence_list (live_vendor r) 10)
            (Some (''The unit file belongs to an installed package and the target is placed on ''
                   @ ''tmpfs by the runtime by design (LXD/Incus agent, cloud-init, dracut). ''
                   @ ''A change of unit provenance is surfaced as drift by `compare`.'')) None]
       else [])
      @ (if dormant_targets r \<noteq> [] then
         [mk_finding ''SEC-048'' PersistenceScanner
            ''Unit references a volatile path that does not exist'' SecurityCat
            (if rogue then 20 else 0)
            (show_nat (length (dormant_targets r)) @ '' dormant entr(ies): ''
             @ evidence_list (map exec_line
                 (filter (\<lambda>f. \<not> rogue \<or> \<not> unit_is_vendor_shipped f) (dormant_targets r))) 10)
            (if \<not> rogue then
               Some (''All declaring units are package-owned: this is the standard ''
                     @ ''runtime-provisioned agent pattern on a host where that runtime is not ''
                     @ ''active (e.g. lxd-agent.service on a VM not managed by LXD). Nothing is ''
                     @ ''executing '' @ em_dash @ '' the target is absent.'')
             else None) None]
       else [])
      @ (if weak \<noteq> [] then
         [mk_finding ''SEC-046'' PersistenceScanner
            ''Root-executed unit/cron target is writable by a non-root principal'' SecurityCat 25
            (show_nat (length weak)
             @ '' entr(ies) where the executable or its parent directory is non-root-owned ''
             @ ''or group/other-writable '' @ em_dash
             @ '' anyone with that access controls what root runs: '' @ evidence_list weak 10)
            None None]
       else [])
      @ (if unpackaged \<noteq> [] then
         [mk_finding ''SEC-045'' PersistenceScanner
            ''Unit/cron targets with no package owner (inventory)'' SecurityCat 0
            (show_nat (length unpackaged) @ '' root-owned target(s) unresolved: ''
             @ evidence_list unpackaged 10)
            (Some (''Root-owned, non-writable and outside any volatile filesystem: only root ''
                   @ ''could have placed these. Package databases miss locally built software, ''
                   @ ''vendor packages and alternatives symlinks, so absence of an owner is not ''
                   @ ''evidence. A target that BECOMES unpackaged between snapshots is surfaced ''
                   @ ''as drift by `compare`.'')) None]
       else []))"

section \<open>SEC-044\<close>

text \<open>\<open>split_whitespace().next().unwrap_or("")\<close> on the bytes of a string.\<close>

definition ws_width :: "string \<Rightarrow> nat" where
  "ws_width s = (case find (\<lambda>w. starts_with s w) white_space of Some w \<Rightarrow> length w | None \<Rightarrow> 0)"

fun until_ws :: "string \<Rightarrow> string" where
  "until_ws [] = []"
| "until_ws (c # s) = (if ws_width (c # s) \<noteq> 0 then [] else c # until_ws s)"

definition first_word :: "string \<Rightarrow> string" where
  "first_word s = until_ws (trim s)"

definition core_pattern_is_trusted :: "string \<Rightarrow> bool" where
  "core_pattern_is_trusted cp =
     (case strip_prefix ''|'' cp of
        None \<Rightarrow> True
      | Some handler \<Rightarrow>
          (let bin = first_word handler; basename = last (split_char (CHR ''/'') bin) in
           basename \<in> {''systemd-coredump'', ''abrt-hook-ccpp'', ''apport''}
           \<and> \<not> is_volatile_exec_path bin))"

definition rule_core_pattern :: "agent_report \<Rightarrow> finding list" where
  "rule_core_pattern r =
     (case si_core_pattern (sec r) of
        None \<Rightarrow> []
      | Some cp \<Rightarrow>
          if \<not> core_pattern_is_trusted cp then
            [mk_finding ''SEC-044'' PersistenceScanner
               ''Suspicious core_pattern (piped to unknown handler)'' SecurityCat 25
               (''core_pattern = '' @ cp) None None]
          else [])"

definition rule_lockdown :: "agent_report \<Rightarrow> finding list" where
  "rule_lockdown r =
     (if si_lockdown (sec r) = Some ''none'' then
        [mk_finding ''SEC-044'' PersistenceScanner ''Kernel lockdown is inactive'' SecurityCat 0
           ''lockdown = none''
           (Some (''Kernel lockdown is not enabled. Consider setting lockdown=integrity ''
                  @ ''in kernel command line to restrict userspace access to kernel memory.''))
           None]
      else [])"

section \<open>Contracts\<close>

lemma persistence_rules_wf [rule_wf]:
  "rule_ok [''SEC-042'', ''SEC-050'', ''SEC-049''] (rule_preload r)"
  "rule_ok [''SEC-051''] (rule_sec_051 r)"
  "rule_ok [''SEC-052'', ''SEC-053'', ''SEC-054''] (rule_generators env r)"
  "rule_ok [''SEC-055'', ''SEC-056'', ''SEC-057''] (rule_pam r)"
  "rule_ok [''SEC-043'', ''SEC-047'', ''SEC-048'', ''SEC-046'', ''SEC-045''] (rule_exec_start r)"
  "rule_ok [''SEC-044''] (rule_core_pattern r)"
  "rule_ok [''SEC-044''] (rule_lockdown r)"
proof -
  note defs = rule_ok_def rule_finding_def COMPROMISE_IDS_def Let_def
  show "rule_ok [''SEC-042'', ''SEC-050'', ''SEC-049''] (rule_preload r)"
    by (simp add: rule_preload_def defs)
  show "rule_ok [''SEC-051''] (rule_sec_051 r)"
    by (simp add: rule_sec_051_def defs)
  show "rule_ok [''SEC-052'', ''SEC-053'', ''SEC-054''] (rule_generators env r)"
    by (simp add: rule_generators_def defs)
  show "rule_ok [''SEC-055'', ''SEC-056'', ''SEC-057''] (rule_pam r)"
    by (simp add: rule_pam_def defs)
  show "rule_ok [''SEC-043'', ''SEC-047'', ''SEC-048'', ''SEC-046'', ''SEC-045''] (rule_exec_start r)"
    unfolding rule_exec_start_def Let_def rule_ok_append
    by (intro conjI rule_ok_if rule_ok_single) (simp_all add: rule_finding_def COMPROMISE_IDS_def)
  show "rule_ok [''SEC-044''] (rule_core_pattern r)"
    by (simp add: rule_core_pattern_def defs split: option.split)
  show "rule_ok [''SEC-044''] (rule_lockdown r)"
    by (simp add: rule_lockdown_def defs)
qed

end
