(* ===== verification/Capabilities.thy ===== *)
theory Capabilities
  imports Models
begin

text \<open>
  The pure part of \<open>src/scanners/capabilities.rs\<close>: capability names and masks, the delta between
  a container's live bounding set and its declared configuration (DOCK-010), and the parsers of
  \<open>/proc/<pid>/status\<close>. The walk over \<open>/proc\<close> itself is I/O and not modelled.
\<close>

section \<open>Names and masks\<close>

definition CAP_NAMES :: "string list" where
  "CAP_NAMES =
     [''CAP_CHOWN'', ''CAP_DAC_OVERRIDE'', ''CAP_DAC_READ_SEARCH'', ''CAP_FOWNER'', ''CAP_FSETID'',
      ''CAP_KILL'', ''CAP_SETGID'', ''CAP_SETUID'', ''CAP_SETPCAP'', ''CAP_LINUX_IMMUTABLE'',
      ''CAP_NET_BIND_SERVICE'', ''CAP_NET_BROADCAST'', ''CAP_NET_ADMIN'', ''CAP_NET_RAW'',
      ''CAP_IPC_LOCK'', ''CAP_IPC_OWNER'', ''CAP_SYS_MODULE'', ''CAP_SYS_RAWIO'',
      ''CAP_SYS_CHROOT'', ''CAP_SYS_PTRACE'', ''CAP_SYS_PACCT'', ''CAP_SYS_ADMIN'',
      ''CAP_SYS_BOOT'', ''CAP_SYS_NICE'', ''CAP_SYS_RESOURCE'', ''CAP_SYS_TIME'',
      ''CAP_SYS_TTY_CONFIG'', ''CAP_MKNOD'', ''CAP_LEASE'', ''CAP_AUDIT_WRITE'',
      ''CAP_AUDIT_CONTROL'', ''CAP_SETFCAP'', ''CAP_MAC_OVERRIDE'', ''CAP_MAC_ADMIN'',
      ''CAP_SYSLOG'', ''CAP_WAKE_ALARM'', ''CAP_BLOCK_SUSPEND'', ''CAP_AUDIT_READ'',
      ''CAP_PERFMON'', ''CAP_BPF'', ''CAP_CHECKPOINT_RESTORE'']"

definition CRITICAL_CAPS :: "(nat \<times> string) list" where
  "CRITICAL_CAPS =
     [(21, ''CAP_SYS_ADMIN''), (19, ''CAP_SYS_PTRACE''), (1, ''CAP_DAC_OVERRIDE''),
      (13, ''CAP_NET_RAW'')]"

definition MOBY_DEFAULT_CAPS :: u64 where
  "MOBY_DEFAULT_CAPS = 0xa80425fb"

definition CONTAINER_ESCAPE_CAPS :: "(nat \<times> string) list" where
  "CONTAINER_ESCAPE_CAPS =
     [(2, ''CAP_DAC_READ_SEARCH''), (16, ''CAP_SYS_MODULE''), (17, ''CAP_SYS_RAWIO''),
      (19, ''CAP_SYS_PTRACE''), (21, ''CAP_SYS_ADMIN''), (39, ''CAP_BPF''),
      (40, ''CAP_CHECKPOINT_RESTORE'')]"

definition cap_bit :: "nat \<Rightarrow> u64" where
  "cap_bit cap = push_bit cap 1"

text \<open>\<open>s.get(..n)\<close>: \<open>None\<close> past the end or inside a UTF-8 sequence.\<close>

definition get_to :: "nat \<Rightarrow> string \<Rightarrow> string option" where
  "get_to n s =
     (if n = length s then Some s
      else if n < length s \<and> \<not> (128 \<le> (of_char (s ! n) :: nat) \<and> (of_char (s ! n) :: nat) < 192)
      then Some (take n s) else None)"

definition strip_cap :: "string \<Rightarrow> string" where
  "strip_cap n =
     (case get_to 4 n of
        Some p \<Rightarrow> if eq_ignore_ascii_case p ''CAP_'' then drop 4 n else n
      | None \<Rightarrow> n)"

fun position :: "('a \<Rightarrow> bool) \<Rightarrow> 'a list \<Rightarrow> nat option" where
  "position P [] = None"
| "position P (x # xs) = (if P x then Some 0 else map_option Suc (position P xs))"

definition cap_name_to_bit :: "string \<Rightarrow> nat option" where
  "cap_name_to_bit name =
     (let bare = strip_cap (trim name) in
      position (\<lambda>full. eq_ignore_ascii_case (drop 4 full) bare) CAP_NAMES)"

fun cap_add_loop :: "u64 \<Rightarrow> string list \<Rightarrow> u64" where
  "cap_add_loop msk [] = msk"
| "cap_add_loop msk (entry # rest) =
     (let e = trim entry in
      if eq_ignore_ascii_case (strip_cap e) ''ALL'' then - 1
      else (case cap_name_to_bit e of
              Some b \<Rightarrow> cap_add_loop (msk OR cap_bit b) rest
            | None \<Rightarrow> cap_add_loop msk rest))"

definition cap_add_to_mask :: "string list \<Rightarrow> u64" where
  "cap_add_to_mask cap_add = cap_add_loop 0 cap_add"

definition undeclared_escape_caps :: "u64 \<Rightarrow> string list \<Rightarrow> string list" where
  "undeclared_escape_caps runtime_bounding cap_add =
     (let declared = MOBY_DEFAULT_CAPS OR cap_add_to_mask cap_add;
          undeclared = runtime_bounding AND NOT declared
      in map snd (filter (\<lambda>(b, _). undeclared AND cap_bit b \<noteq> 0) CONTAINER_ESCAPE_CAPS))"

definition cap_display_name :: "nat \<Rightarrow> string" where
  "cap_display_name b = (if b < length CAP_NAMES then CAP_NAMES ! b else ''CAP_'' @ show_nat b)"

definition decode_mask :: "u64 \<Rightarrow> string list" where
  "decode_mask msk = map cap_display_name (filter (\<lambda>b. msk AND cap_bit b \<noteq> 0) [0..<64])"

section \<open>Parsing \<open>/proc/<pid>/status\<close>\<close>

record capability_sets =
  cs_inheritable :: u64
  cs_permitted :: u64
  cs_effective :: u64
  cs_bounding :: u64
  cs_ambient :: u64

record proc_status =
  ps_name :: string
  ps_euid :: u32
  ps_caps :: capability_sets
  ps_no_new_privs :: "bool option"
  ps_seccomp :: "u8 option"

definition all_digits :: "nat \<Rightarrow> string \<Rightarrow> bool" where
  "all_digits b s = list_all (\<lambda>c. digit_value b c \<noteq> None) s"

definition parse_u8_field :: "string \<Rightarrow> u8 option" where
  "parse_u8_field value =
     (let v = trim_ascii value in
      if v = [] \<or> \<not> all_digits 10 v then None
      else map_option of_nat (from_str_radix 8 10 v))"

definition parse_hex_mask :: "string \<Rightarrow> u64 option" where
  "parse_hex_mask value =
     (let hex = trim_ascii value in
      if hex = [] \<or> 16 < length hex \<or> \<not> all_digits 16 hex then None
      else map_option of_nat (from_str_radix 64 16 hex))"

text \<open>\<open>str::lines\<close>: split at line feeds, a carriage return before one removed, no last empty line.\<close>

definition strip_cr :: "string \<Rightarrow> string" where
  "strip_cr l = (case rev l of c # r \<Rightarrow> if c = CHR 0x0D then rev r else l | [] \<Rightarrow> l)"

fun lines :: "string \<Rightarrow> string list" where
  "lines s =
     (if s = [] then []
      else case split_once (CHR 0x0A) s of
        None \<Rightarrow> [s]
      | Some (l, r) \<Rightarrow> strip_cr l # (if length r < length s then lines r else []))"

declare lines.simps [simp del]

text \<open>\<open>split_ascii_whitespace\<close>\<close>

fun ascii_words_acc :: "string \<Rightarrow> string \<Rightarrow> string list" where
  "ascii_words_acc cur [] = (if cur = [] then [] else [rev cur])"
| "ascii_words_acc cur (c # s) =
     (if is_ascii_ws c
      then (if cur = [] then ascii_words_acc [] s else rev cur # ascii_words_acc [] s)
      else ascii_words_acc (c # cur) s)"

definition split_ascii_whitespace :: "string \<Rightarrow> string list" where
  "split_ascii_whitespace s = ascii_words_acc [] s"

definition parse_u32 :: "string \<Rightarrow> u32 option" where
  "parse_u32 s = map_option of_nat (from_str_radix 32 10 s)"

definition nth_field :: "nat \<Rightarrow> string list \<Rightarrow> string option" where
  "nth_field n xs = (if n < length xs then Some (xs ! n) else None)"

definition uid_field :: "string \<Rightarrow> u32 option" where
  "uid_field value = Option.bind (nth_field 1 (split_ascii_whitespace value)) parse_u32"

record status_acc =
  sa_name :: "string option"
  sa_euid :: "u32 option"
  sa_caps :: capability_sets
  sa_seen :: u8
  sa_no_new_privs :: "bool option"
  sa_seccomp :: "u8 option"

definition status_line :: "string \<Rightarrow> status_acc \<Rightarrow> status_acc" where
  "status_line line a =
     (case split_once (CHR '':'') line of
        None \<Rightarrow> a
      | Some (key, value) \<Rightarrow>
          if key = ''Name'' then a\<lparr>sa_name := Some (trim_ascii value)\<rparr>
          else if key = ''Uid'' then a\<lparr>sa_euid := uid_field value\<rparr>
          else if key = ''CapInh'' then
            (case parse_hex_mask value of None \<Rightarrow> a
             | Some m \<Rightarrow> a\<lparr>sa_caps := (sa_caps a)\<lparr>cs_inheritable := m\<rparr>, sa_seen := sa_seen a OR 1\<rparr>)
          else if key = ''CapPrm'' then
            (case parse_hex_mask value of None \<Rightarrow> a
             | Some m \<Rightarrow> a\<lparr>sa_caps := (sa_caps a)\<lparr>cs_permitted := m\<rparr>, sa_seen := sa_seen a OR 2\<rparr>)
          else if key = ''CapEff'' then
            (case parse_hex_mask value of None \<Rightarrow> a
             | Some m \<Rightarrow> a\<lparr>sa_caps := (sa_caps a)\<lparr>cs_effective := m\<rparr>, sa_seen := sa_seen a OR 4\<rparr>)
          else if key = ''CapBnd'' then
            (case parse_hex_mask value of None \<Rightarrow> a
             | Some m \<Rightarrow> a\<lparr>sa_caps := (sa_caps a)\<lparr>cs_bounding := m\<rparr>, sa_seen := sa_seen a OR 8\<rparr>)
          else if key = ''CapAmb'' then
            (case parse_hex_mask value of None \<Rightarrow> a
             | Some m \<Rightarrow> a\<lparr>sa_caps := (sa_caps a)\<lparr>cs_ambient := m\<rparr>\<rparr>)
          else if key = ''NoNewPrivs'' then
            a\<lparr>sa_no_new_privs :=
               (case parse_u8_field value of
                  Some v \<Rightarrow> if v = 0 then Some False else if v = 1 then Some True else None
                | None \<Rightarrow> None)\<rparr>
          else if key = ''Seccomp'' then a\<lparr>sa_seccomp := parse_u8_field value\<rparr>
          else a)"

definition status_acc_init :: status_acc where
  "status_acc_init =
     \<lparr>sa_name = None, sa_euid = None,
      sa_caps = \<lparr>cs_inheritable = 0, cs_permitted = 0, cs_effective = 0, cs_bounding = 0,
                 cs_ambient = 0\<rparr>,
      sa_seen = 0, sa_no_new_privs = None, sa_seccomp = None\<rparr>"

definition parse_status :: "string \<Rightarrow> proc_status option" where
  "parse_status content =
     (let a = fold status_line (lines content) status_acc_init in
      if sa_seen a \<noteq> 0b1111 then None
      else case (sa_name a, sa_euid a) of
        (Some name, Some euid) \<Rightarrow>
          Some \<lparr>ps_name = name, ps_euid = euid, ps_caps = sa_caps a,
                ps_no_new_privs = sa_no_new_privs a, ps_seccomp = sa_seccomp a\<rparr>
      | _ \<Rightarrow> None)"

definition identity_line :: "string \<Rightarrow> string option \<times> u32 option \<Rightarrow> string option \<times> u32 option"
where
  "identity_line line a =
     (case split_once (CHR '':'') line of
        None \<Rightarrow> a
      | Some (key, value) \<Rightarrow>
          if key = ''Name'' then (Some (trim_ascii value), snd a)
          else if key = ''Uid'' then (fst a, uid_field value)
          else a)"

definition parse_status_identity :: "string \<Rightarrow> (string \<times> u32) option" where
  "parse_status_identity content =
     (case fold identity_line (lines content) (None, None) of
        (Some name, Some euid) \<Rightarrow> Some (name, euid)
      | _ \<Rightarrow> None)"

section \<open>Lemmas\<close>

lemma bit_cap_bit: "bit (cap_bit b) n \<longleftrightarrow> b = n \<and> n < 64"
  by (auto simp: cap_bit_def bit_simps)

lemma and_cap_bit: "b < 64 \<Longrightarrow> msk AND cap_bit b \<noteq> 0 \<longleftrightarrow> bit msk b"
proof -
  assume b: "b < 64"
  have "bit (msk AND cap_bit b) n \<longleftrightarrow> bit msk b \<and> n = b" for n
    using b by (auto simp: bit_and_iff bit_cap_bit)
  then show ?thesis
    by (metis bit_0_eq bit_eqI bot_apply bot_bool_def)
qed

lemma length_CAP_NAMES: "length CAP_NAMES = 41"
  by (simp add: CAP_NAMES_def)

lemma position_bound: "position P xs = Some i \<Longrightarrow> i < length xs"
  by (induction xs arbitrary: i) (auto split: if_splits)

lemma cap_name_to_bit_bound: "cap_name_to_bit n = Some b \<Longrightarrow> b < 41"
  using position_bound [of _ CAP_NAMES b] by (auto simp: cap_name_to_bit_def Let_def length_CAP_NAMES)

text \<open>The loop only adds declared bits to the mask it starts from, unless \<open>ALL\<close> was declared.\<close>

definition declares_all :: "string list \<Rightarrow> bool" where
  "declares_all cap_add \<longleftrightarrow>
     list_ex (\<lambda>e. eq_ignore_ascii_case (strip_cap (trim e)) ''ALL'') cap_add"

lemma cap_add_loop_bits:
  "n < 64 \<Longrightarrow> bit (cap_add_loop msk cap_add) n \<longleftrightarrow>
     declares_all cap_add \<or> bit msk n
     \<or> (\<exists>e \<in> set cap_add. cap_name_to_bit (trim e) = Some n)"
proof (induction msk cap_add rule: cap_add_loop.induct)
  case (1 msk)
  then show ?case by (simp add: declares_all_def)
next
  case (2 msk entry rest)
  show ?case
  proof (cases "eq_ignore_ascii_case (strip_cap (trim entry)) ''ALL''")
    case True
    with 2 show ?thesis by (simp add: declares_all_def)
  next
    case False
    then show ?thesis
      using 2 by (auto simp: declares_all_def bit_or_iff bit_cap_bit split: option.splits)
  qed
qed

end
