(* ===== verification/RulesRuntime.thy ===== *)
theory RulesRuntime
  imports RulesProcess Capabilities
begin

text \<open>
  Scoring rules of \<open>evaluate\<close>, part 6: ghost PIDs (SEC-024, SEC-025), cron (SEC-018), secrets in
  process memory (SEC-014, SEC-059, SEC-058), process capabilities (CAP-001, CAP-002), container
  limits and privileges (DOCK-001 to DOCK-004, DOCK-010) and published ports (SEC-065, SEC-066).
\<close>

section \<open>Ghost PIDs and cron\<close>

definition ghost_describe :: "ghost_pid_finding \<Rightarrow> string" where
  "ghost_describe g =
     ''pid '' @ show_word (gpf_pid g) @ '' (state ''
     @ (case gpf_state g of Some s \<Rightarrow> s | None \<Rightarrow> ''?'') @ '', ''
     @ (case gpf_age_secs g of Some a \<Rightarrow> show_word a @ ''s'' | None \<Rightarrow> ''age?'') @ '', via ''
     @ gpf_confirmed_via g @ (if gpf_holds_socket g then '', holds socket'' else '''') @ '')''"

definition hard_ghosts :: "agent_report \<Rightarrow> ghost_pid_finding list" where
  "hard_ghosts r = filter gpf_confirmed_ioc (si_ghost_pids (sec r))"

definition soft_ghosts :: "agent_report \<Rightarrow> ghost_pid_finding list" where
  "soft_ghosts r = filter (\<lambda>g. \<not> gpf_confirmed_ioc g) (si_ghost_pids (sec r))"

definition rule_ghosts :: "agent_report \<Rightarrow> finding list" where
  "rule_ghosts r =
     (if hard_ghosts r \<noteq> [] then
        [mk_finding ''SEC-024'' SecurityScanner
           ''ACTIVE COMPROMISE: Hidden process (LKM rootkit) detected'' SecurityCat 60
           (show_nat (length (hard_ghosts r)) @ '' PID(s) live but hidden from /proc listing: ''
            @ join ''; '' (map ghost_describe (hard_ghosts r))) None None]
      else [])
     @ (if soft_ghosts r \<noteq> [] then
        [mk_finding ''SEC-025'' SecurityScanner
           ''Suspicious transient PID visibility mismatch'' SecurityCat 20
           (show_nat (length (soft_ghosts r))
            @ '' PID(s) with a readdir/stat mismatch, downgraded (young or unconfirmable): ''
            @ join ''; '' (map ghost_describe (soft_ghosts r))) None None]
      else [])"

definition critical_jobs :: "agent_report \<Rightarrow> string list" where
  "critical_jobs r =
     map cj_command (filter (\<lambda>c. cj_severity c = CronCritical) (hi_cron_jobs (hst r)))"

definition rule_sec_018 :: "agent_report \<Rightarrow> finding list" where
  "rule_sec_018 r =
     (if list_ex (\<lambda>c. cj_severity c = CronCritical) (hi_cron_jobs (hst r)) then
        [mk_finding ''SEC-018'' HostScanner
           ''Suspicious cron job detected (possible persistence)'' SecurityCat 20
           (show_nat (length (critical_jobs r)) @ '' suspicious cron job(s): ''
            @ join ''; '' (critical_jobs r)) None (Some ''CIS 5.1.8'')]
      else [])"

section \<open>Secrets in process memory\<close>

definition DLP_SHORT_LIVED_AGE_SECS :: u64 where
  "DLP_SHORT_LIVED_AGE_SECS = 300"

definition self_leaks :: "agent_report \<Rightarrow> secret_leak list" where
  "self_leaks r = filter (\<lambda>l. sl_self_attributed l \<noteq> None) (si_secret_hygiene (sec r))"

definition host_leaks :: "agent_report \<Rightarrow> secret_leak list" where
  "host_leaks r = filter (\<lambda>l. sl_self_attributed l = None) (si_secret_hygiene (sec r))"

definition leak_short_lived :: "secret_leak \<Rightarrow> bool" where
  "leak_short_lived l =
     (case sl_age_secs l of Some a \<Rightarrow> a < DLP_SHORT_LIVED_AGE_SECS | None \<Rightarrow> False)"

definition leak_line :: "secret_leak \<Rightarrow> string" where
  "leak_line l =
     [CHR 0x27] @ sl_matched_key l @ [CHR 0x27] @ '' in '' @ sl_source l @ '' of ''
     @ sl_process l @ '' (pid '' @ show_word (sl_pid l) @ '')''"

definition leak_evidence :: "secret_leak list \<Rightarrow> string" where
  "leak_evidence ls =
     join '', '' (map leak_line (take 3 ls))
     @ (if 3 < length ls then '' and '' @ show_nat (length ls - 3) @ '' more...'' else '''')"

definition rule_leaks :: "agent_report \<Rightarrow> finding list" where
  "rule_leaks r =
     (let short_lived = filter leak_short_lived (host_leaks r);
          long_lived = filter (\<lambda>l. \<not> leak_short_lived l) (host_leaks r) in
      (if long_lived \<noteq> [] then
         [mk_finding ''SEC-014'' SecurityScanner ''Cleartext secrets exposed in process memory''
            SecurityCat 25
            (''Found '' @ show_nat (length long_lived) @ '' leak(s): '' @ leak_evidence long_lived)
            None None]
       else [])
      @ (if short_lived \<noteq> [] then
         [mk_finding ''SEC-059'' SecurityScanner
            ''Cleartext secrets in short-lived processes (informational)'' SecurityCat 0
            (''Found '' @ show_nat (length short_lived)
             @ '' leak(s) in process(es) younger than '' @ show_word DLP_SHORT_LIVED_AGE_SECS
             @ ''s: '' @ leak_evidence short_lived)
            (Some (''Short-lived process secrets are unlikely to be exploited; surfacing for ''
                   @ ''Raw Truth only.'')) None]
       else []))"

definition rule_sec_058 :: "agent_report \<Rightarrow> finding list" where
  "rule_sec_058 r =
     (if self_leaks r \<noteq> [] then
        [mk_finding ''SEC-058'' SecurityScanner
           ''Scanner's own process carries a secret in its environment'' SecurityCat 0
           (show_nat (length (self_leaks r))
            @ '' key(s) in owlzops-mapper's own environ/cmdline: ''
            @ join '', '' (map sl_matched_key (self_leaks r))
            @ ''. The startup scrub (R27-13) only removes OWLZOPS_SUDO_PASS; anything else was ''
            @ ''inherited from the invoking shell.'') None None]
      else [])"

section \<open>Process capabilities\<close>

definition cap_findings :: "agent_report \<Rightarrow> proc_cap_finding list" where
  "cap_findings r = filter (\<lambda>f. pcf_critical_caps f \<noteq> []) (si_capability_audit (sec r))"

definition nnp_open :: "agent_report \<Rightarrow> nat" where
  "nnp_open r = length (filter (\<lambda>f. pcf_no_new_privs f = Some False) (cap_findings r))"

text \<open>
  The inner loop over the ports of one process: it breaks at the first wildcard bind. The result
  says whether the process listens at all and whether it listens globally.
\<close>

fun port_scan :: "u32 \<Rightarrow> port_info list \<Rightarrow> bool \<times> bool" where
  "port_scan pid [] = (False, False)"
| "port_scan pid (p # ps) =
     (if pi_pid p = Some pid then
        (if is_wildcard_bind (pi_bind_address p) then (True, True)
         else (True, snd (port_scan pid ps)))
      else port_scan pid ps)"

definition listening_exposed :: "agent_report \<Rightarrow> nat \<times> nat" where
  "listening_exposed r =
     fold (\<lambda>f (l, e).
         let (on_net, global) = port_scan (pcf_pid f) (ni_listening_ports (net r)) in
         (l + of_bool on_net, e + of_bool global))
       (cap_findings r) (0, 0)"

definition rule_cap_001 :: "agent_report \<Rightarrow> finding list" where
  "rule_cap_001 r =
     (if cap_findings r \<noteq> [] then
        (let (listening, exposed) = listening_exposed r;
             evidence =
               show_nat (length (cap_findings r))
               @ '' non-root process(es) with SYS_ADMIN/SYS_PTRACE/DAC_OVERRIDE/NET_RAW ''
               @ ''capability sets''
               @ (if 0 < nnp_open r then
                    ''; '' @ show_nat (nnp_open r) @ '' of them with NoNewPrivs=0 '' @ em_dash
                    @ '' setuid execve escalation path open''
                  else '''')
               @ (if 0 < listening then
                    (if 0 < exposed then
                       ''; WARNING: '' @ show_nat listening
                       @ '' of these listening on the network ('' @ show_nat exposed
                       @ '' exposed globally on 0.0.0.0/::)''
                     else
                       ''; WARNING: '' @ show_nat listening
                       @ '' of these listening on the network (none exposed globally)'')
                  else '''');
             weight = (if 0 < exposed then 20 else 8) in
         [mk_finding ''CAP-001'' SecurityScanner
            ''Non-root processes hold critical kernel capabilities'' SecurityCat weight evidence
            None None])
      else [])"

definition AMBIENT_BENIGN :: u64 where
  "AMBIENT_BENIGN = cap_bit 10 OR cap_bit 14 OR cap_bit 15 OR cap_bit 23 OR cap_bit 25 OR cap_bit 35"

definition AMBIENT_MODERATE :: u64 where
  "AMBIENT_MODERATE = cap_bit 13"

definition ambient_escalation_weight :: "u64 \<Rightarrow> u8" where
  "ambient_escalation_weight ambient =
     (if ambient AND NOT AMBIENT_BENIGN AND NOT AMBIENT_MODERATE \<noteq> 0 then 12
      else if ambient AND AMBIENT_MODERATE \<noteq> 0 then 5
      else 0)"

definition ambient_findings :: "agent_report \<Rightarrow> proc_cap_finding list" where
  "ambient_findings r =
     filter (\<lambda>f. pcf_reason f = Some AmbientCapsNoNewPrivs) (si_capability_audit (sec r))"

definition ambient_describe :: "proc_cap_finding \<Rightarrow> string" where
  "ambient_describe f =
     pcf_comm f @ '' (pid '' @ show_word (pcf_pid f) @ '', euid '' @ show_word (pcf_euid f)
     @ ''): ambient ['' @ join '', '' (decode_mask (pcf_ambient f)) @ '']''"

definition rule_cap_002 :: "agent_report \<Rightarrow> finding list" where
  "rule_cap_002 r =
     (let active = filter (\<lambda>f. 0 < ambient_escalation_weight (pcf_ambient f)) (ambient_findings r);
          benign = filter (\<lambda>f. \<not> 0 < ambient_escalation_weight (pcf_ambient f))
                     (ambient_findings r) in
      (if active \<noteq> [] then
         [mk_finding ''CAP-002'' SecurityScanner
            ''Escalation-capable ambient capabilities with NoNewPrivs disabled'' SecurityCat
            (max_or_0 (map (\<lambda>f. ambient_escalation_weight (pcf_ambient f)) active))
            (show_nat (length active)
             @ '' non-root process(es) hold escalation-primitive ambient capabilities ''
             @ ''while NoNewPrivs is off '' @ em_dash
             @ '' the set survives execve of a non-setuid binary: ''
             @ join ''; '' (map ambient_describe active)) None None]
       else [])
      @ (if benign \<noteq> [] then
         [mk_finding ''CAP-002'' SecurityScanner ''Benign ambient capabilities (informational)''
            SecurityCat 0
            (show_nat (length benign)
             @ '' non-root process(es) hold only non-escalation ambient capabilities: ''
             @ join ''; '' (map ambient_describe benign))
            (Some (''These ambient capabilities are not privilege-escalation primitives and are ''
                   @ ''commonly granted intentionally via systemd AmbientCapabilities (e.g. a ''
                   @ ''database holding CAP_IPC_LOCK for memory locking).'')) None]
       else []))"

section \<open>Containers\<close>

definition any_issue :: "agent_report \<Rightarrow> string list \<Rightarrow> bool" where
  "any_issue r issues =
     list_ex (\<lambda>c. list_ex (\<lambda>i. i \<in> set issues) (security_issues c)) (ti_containers (topo r))"

definition rule_container_limits :: "agent_report \<Rightarrow> finding list" where
  "rule_container_limits r =
     (if any_issue r [''NoMemLimit''] then
        [mk_finding ''DOCK-001'' DockerScanner ''Docker containers without memory limits''
           SecurityCat 5 ''At least one container lacks a memory limit'' None (Some ''CIS 5.2.3'')]
      else [])
     @ (if any_issue r [''NoCpuLimit''] then
        [mk_finding ''DOCK-002'' DockerScanner ''Docker containers without CPU limits''
           SecurityCat 3 ''At least one container lacks a CPU limit'' None (Some ''CIS 5.2.2'')]
      else [])
     @ (if any_issue r [''PRIVILEGED''] then
        [mk_finding ''DOCK-003'' DockerScanner ''Privileged Docker containers detected''
           SecurityCat 10 ''At least one container is running in privileged mode'' None
           (Some ''CIS 5.2.4'')]
      else [])
     @ (if any_issue r [''SYS_ADMIN'', ''NET_ADMIN''] then
        [mk_finding ''DOCK-004'' DockerScanner ''Docker containers with dangerous capabilities''
           SecurityCat 10
           (''At least one container has elevated kernel capabilities (SYS_ADMIN/NET_ADMIN)'')
           None (Some ''CIS 5.2.5'')]
      else [])"

definition tampered_of :: "container_info \<Rightarrow> string option" where
  "tampered_of c =
     (if ci_privileged c then None
      else case ci_runtime_bounding_caps c of
        None \<Rightarrow> None
      | Some bnd \<Rightarrow>
          (let undeclared = undeclared_escape_caps bnd (ci_cap_add c) in
           if undeclared \<noteq> [] then
             Some (ci_name c @ '' holds undeclared ['' @ join '', '' undeclared @ '']'')
           else None))"

definition tampered :: "agent_report \<Rightarrow> string list" where
  "tampered r = List.map_filter tampered_of (ti_containers (topo r))"

definition rule_dock_010 :: "agent_report \<Rightarrow> finding list" where
  "rule_dock_010 r =
     (if tampered r \<noteq> [] then
        [mk_finding ''DOCK-010'' DockerScanner
           ''ACTIVE COMPROMISE: container runtime capabilities exceed declared config''
           SecurityCat 60
           (show_nat (length (tampered r)) @ '' container(s) with runtime cap tampering: ''
            @ join ''; '' (tampered r)) None (Some ''CIS 5.2.5'')]
      else [])"

definition bypass_entry :: "firewall_bypass_finding \<Rightarrow> string" where
  "bypass_entry b =
     fbf_container b @ '' '' @ fbf_published b @ '' (host port '' @ show_word (fbf_host_port b)
     @ '', '' @ fbf_protocol b @ '')''"

definition rule_firewall_bypass :: "agent_report \<Rightarrow> finding list" where
  "rule_firewall_bypass r =
     (let active = filter fbf_firewall_was_active (si_firewall_bypass_findings (sec r));
          no_fw = filter (\<lambda>b. \<not> fbf_firewall_was_active b) (si_firewall_bypass_findings (sec r)) in
      (if active \<noteq> [] then
         [mk_finding ''SEC-065'' NetworkScanner
            ''Docker published port bypasses active host firewall'' SecurityCat
            (if list_ex fbf_sensitive active then 35 else 20)
            (show_nat (length active)
             @ '' port(s) published on a non-loopback host address while the host firewall is ''
             @ ''active. Docker writes iptables rules that precede the INPUT chain, ''
             @ ''so the firewall does not filter these ports: ''
             @ evidence_list (map bypass_entry active) 8) None None]
       else [])
      @ (if no_fw \<noteq> [] then
         [mk_finding ''SEC-066'' NetworkScanner
            ''Docker published port exposed without any host firewall'' SecurityCat
            (if list_ex fbf_sensitive no_fw then 25 else 15)
            (show_nat (length no_fw)
             @ '' port(s) published on a non-loopback host address on a host with no active ''
             @ ''firewall '' @ em_dash @ '' reachable from the network: ''
             @ evidence_list (map bypass_entry no_fw) 8) None None]
       else []))"

section \<open>Contracts\<close>

lemma ambient_weight_le: "max_or_0 (map (\<lambda>f. ambient_escalation_weight (g f)) fs) \<le> 60"
  by (rule max_or_0_le) (auto simp: ambient_escalation_weight_def)

lemma runtime_rules_wf [rule_wf]:
  "rule_ok [''SEC-024'', ''SEC-025''] (rule_ghosts r)"
  "rule_ok [''SEC-018''] (rule_sec_018 r)"
  "rule_ok [''SEC-014'', ''SEC-059''] (rule_leaks r)"
  "rule_ok [''SEC-058''] (rule_sec_058 r)"
  "rule_ok [''CAP-001''] (rule_cap_001 r)"
  "rule_ok [''CAP-002''] (rule_cap_002 r)"
  "rule_ok [''DOCK-001'', ''DOCK-002'', ''DOCK-003'', ''DOCK-004''] (rule_container_limits r)"
  "rule_ok [''DOCK-010''] (rule_dock_010 r)"
  "rule_ok [''SEC-065'', ''SEC-066''] (rule_firewall_bypass r)"
  by (simp_all add: rule_ghosts_def rule_sec_018_def rule_leaks_def rule_sec_058_def
      rule_cap_001_def rule_cap_002_def rule_container_limits_def rule_dock_010_def
      rule_firewall_bypass_def rule_ok_def rule_finding_def COMPROMISE_IDS_def Let_def ambient_weight_le
      split_beta)

text \<open>The interrupted port loop computes the two existential facts it stands for.\<close>

lemma port_scan_spec:
  "port_scan pid ps =
     (list_ex (\<lambda>p. pi_pid p = Some pid) ps,
      list_ex (\<lambda>p. pi_pid p = Some pid \<and> is_wildcard_bind (pi_bind_address p)) ps)"
  by (induction ps) auto

end
