(* ===== verification/RulesHygiene.thy ===== *)
theory RulesHygiene
  imports RulesProcess
begin

text \<open>
  Scoring rules of \<open>evaluate\<close>, part 7: account and credential hygiene (SEC-070 to SEC-079),
  systemd hardening (SEC-081), container mounts and reliability (DOCK-005 to DOCK-009), host
  reliability (REL-001 to REL-003) and time (HYG-001).
\<close>

abbreviation acct :: "agent_report \<Rightarrow> account_hygiene_info" where
  "acct r \<equiv> si_account_hygiene (sec r)"

text \<open>The shape most of these rules have: no finding for an empty list.\<close>

definition rule_sec_070 :: "agent_report \<Rightarrow> finding list" where
  "rule_sec_070 r =
     (let hashes = ah_weak_password_hashes (acct r) in
      if hashes \<noteq> [] then
        (let weight = (if list_ex (\<lambda>h. starts_with (whf_hash_type h) ''DES''
                                       \<or> starts_with (whf_hash_type h) ''$1$'') hashes
                       then 20 else 10) in
         [mk_finding ''SEC-070'' SecurityScanner ''Weak password hash algorithm in /etc/shadow''
            SecurityCat weight
            (show_nat (length hashes) @ '' user(s): ''
             @ evidence_list (map (\<lambda>h. whf_username h @ '': '' @ whf_hash_type h) (take 6 hashes)) 6)
            None (Some ''CIS 5.4.4'')])
      else [])"

definition rule_sec_071 :: "agent_report \<Rightarrow> finding list" where
  "rule_sec_071 r =
     (let users = ah_empty_password_users (acct r) in
      if users \<noteq> [] then
        [mk_finding ''SEC-071'' SecurityScanner ''Account with no password (empty shadow field)''
           SecurityCat 40
           (show_nat (length users) @ '' user(s): '' @ evidence_list users 8) None
           (Some ''CIS 5.4.2'')]
      else [])"

definition rule_sec_072 :: "agent_report \<Rightarrow> finding list" where
  "rule_sec_072 r =
     (let users = ah_duplicate_uid_zero (acct r) in
      if users \<noteq> [] then
        [mk_finding ''SEC-072'' SecurityScanner ''Non-root account with UID 0'' SecurityCat 25
           (show_nat (length users) @ '' user(s): '' @ evidence_list users 6) None
           (Some ''CIS 5.5.2'')]
      else [])"

definition rule_sec_073 :: "agent_report \<Rightarrow> finding list" where
  "rule_sec_073 r =
     (let accounts = ah_system_accounts_with_shell (acct r) in
      if accounts \<noteq> [] then
        [mk_finding ''SEC-073'' SecurityScanner ''System account with interactive shell''
           SecurityCat 5
           (show_nat (length accounts) @ '' account(s): '' @ evidence_list accounts 8) None
           (Some ''CIS 5.4.2'')]
      else [])"

datatype perm_class = PermShadow | PermGshadow | PermSudoers | PermOther

definition perm_class_of :: "credential_file_issue \<Rightarrow> perm_class" where
  "perm_class_of f =
     (if cfi_path f = ''/etc/shadow'' then PermShadow
      else if cfi_path f = ''/etc/gshadow'' then PermGshadow
      else if starts_with (cfi_path f) ''/etc/sudoers.d/'' then PermSudoers
      else PermOther)"

definition file_issue_line :: "credential_file_issue \<Rightarrow> string" where
  "file_issue_line f = cfi_path f @ '' (mode '' @ cfi_mode f @ '', '' @ cfi_reason f @ '')''"

definition perms :: "agent_report \<Rightarrow> perm_class \<Rightarrow> string list" where
  "perms r k =
     map file_issue_line (filter (\<lambda>f. perm_class_of f = k) (ah_file_permission_issues (acct r)))"

definition rule_file_perms :: "agent_report \<Rightarrow> finding list" where
  "rule_file_perms r =
     (if perms r PermShadow \<noteq> [] then
        [mk_finding ''SEC-074'' SecurityScanner ''/etc/shadow readable by non-root'' SecurityCat 15
           (evidence_list (perms r PermShadow) 4) None (Some ''CIS 1.8.1'')]
      else [])
     @ (if perms r PermGshadow \<noteq> [] then
        [mk_finding ''SEC-075'' SecurityScanner ''/etc/gshadow readable by non-root'' SecurityCat 10
           (evidence_list (perms r PermGshadow) 4) None None]
      else [])
     @ (if perms r PermSudoers \<noteq> [] then
        [mk_finding ''SEC-076'' SecurityScanner ''sudoers.d file has unsafe permissions''
           SecurityCat 15 (evidence_list (perms r PermSudoers) 6) None (Some ''CIS 1.8.2'')]
      else [])"

definition rule_sec_077 :: "agent_report \<Rightarrow> finding list" where
  "rule_sec_077 r =
     (let ks = ah_ssh_private_key_readable (acct r) in
      if ks \<noteq> [] then
        [mk_finding ''SEC-077'' SecurityScanner ''SSH private key readable by group or other''
           SecurityCat 20
           (show_nat (length ks) @ '' key(s): ''
            @ evidence_list (map (\<lambda>k. pkf_path k @ '' (mode '' @ pkf_mode k @ '')'') (take 6 ks)) 6)
           None None]
      else [])"

definition rule_sec_078 :: "agent_report \<Rightarrow> finding list" where
  "rule_sec_078 r =
     (let ks = ah_authorized_keys_writable (acct r) in
      if ks \<noteq> [] then
        [mk_finding ''SEC-078'' SecurityScanner ''authorized_keys writable by non-owner''
           SecurityCat 25 (evidence_list ks 6) None None]
      else [])"

definition rule_sec_079 :: "agent_report \<Rightarrow> finding list" where
  "rule_sec_079 r =
     (let fs = ah_root_dotfiles_readable (acct r) in
      if fs \<noteq> [] then
        [mk_finding ''SEC-079'' SecurityScanner ''/root dotfile readable by non-root''
           SecurityCat 10 (evidence_list (map file_issue_line fs) 6) None None]
      else [])"

definition rule_sec_081 :: "agent_report \<Rightarrow> finding list" where
  "rule_sec_081 r =
     (case si_systemd_hardening (sec r) of
        [] \<Rightarrow> []
      | worst # others \<Rightarrow>
          [mk_finding ''SEC-081'' SecurityScanner
             ''systemd services run with hardening posture below baseline'' SecurityCat 5
             (show_nat (length (worst # others))
              @ '' running service(s) below hardening baseline. Worst: '' @ hf_unit worst @ '' ''
              @ em_dash @ '' missing '' @ evidence_list (hf_missing worst) 6) None None])"

section \<open>Container mounts and reliability\<close>

definition mounts_all :: "agent_report \<Rightarrow> string list" where
  "mounts_all r = concat (map ci_sensitive_mounts (ti_containers (topo r)))"

definition socket_or_root :: "string \<Rightarrow> bool" where
  "socket_or_root m = (m = ''DOCKER_SOCKET'' \<or> m = ''HOST_ROOT'')"

definition rule_container_mounts :: "agent_report \<Rightarrow> finding list" where
  "rule_container_mounts r =
     (if list_ex socket_or_root (mounts_all r) then
        [mk_finding ''DOCK-005'' DockerScanner
           ''Container mounts runtime control socket or host root'' SecurityCat 15
           (''A container bind-mounts the ''
            @ (if ti_runtime_name (topo r) = '''' then ''container runtime''
               else ti_runtime_name (topo r))
            @ '' control socket or / (host takeover primitive)'') None (Some ''CIS 5.31'')]
      else [])
     @ (if list_ex (\<lambda>m. \<not> socket_or_root m \<and> ends_with m ''(rw)'') (mounts_all r) then
        [mk_finding ''DOCK-006'' DockerScanner
           ''Container mounts sensitive host path (writable)'' SecurityCat 10
           ''A container has a writable bind-mount of a sensitive host directory'' None
           (Some ''CIS 5.7'')]
      else [])"

text \<open>Names are sorted by their bytes (\<open>sort_unstable\<close> on \<open>&str\<close>).\<close>

definition byte_values :: "string \<Rightarrow> nat list" where
  "byte_values s = map of_char s"

fun bytes_le :: "nat list \<Rightarrow> nat list \<Rightarrow> bool" where
  "bytes_le [] ys = True"
| "bytes_le (x # xs) [] = False"
| "bytes_le (x # xs) (y # ys) = (x < y \<or> x = y \<and> bytes_le xs ys)"

fun insert_name :: "string \<Rightarrow> string list \<Rightarrow> string list" where
  "insert_name x [] = [x]"
| "insert_name x (y # ys) =
     (if bytes_le (byte_values x) (byte_values y) then x # y # ys else y # insert_name x ys)"

definition sort_names :: "string list \<Rightarrow> string list" where
  "sort_names xs = foldr insert_name xs []"

definition RISK_CONTAINER_OOM :: u8 where "RISK_CONTAINER_OOM = 10"
definition RISK_CONTAINER_RESTART_LOOP :: u8 where "RISK_CONTAINER_RESTART_LOOP = 5"
definition RISK_CONTAINER_UNHEALTHY :: u8 where "RISK_CONTAINER_UNHEALTHY = 10"

definition RESTART_LOOP_THRESHOLD :: u64 where
  "RESTART_LOOP_THRESHOLD = 3"

definition names_where :: "agent_report \<Rightarrow> (container_info \<Rightarrow> bool) \<Rightarrow> string list" where
  "names_where r p = map ci_name (filter p (ti_containers (topo r)))"

definition restart_looping :: "container_info \<Rightarrow> bool" where
  "restart_looping c =
     (RESTART_LOOP_THRESHOLD \<le> ci_restart_count c \<or> ci_state c = ''restarting'')"

definition unhealthy :: "container_info \<Rightarrow> bool" where
  "unhealthy c = (ci_health_status c = Some ''unhealthy'')"

definition rule_container_reliability :: "agent_report \<Rightarrow> finding list" where
  "rule_container_reliability r =
     (let oom = names_where r ci_oom_killed; looping = names_where r restart_looping;
          sick = names_where r unhealthy in
      (if oom \<noteq> [] then
         [mk_finding ''DOCK-007'' DockerScanner ''Containers killed by OOM'' ReliabilityCat
            RISK_CONTAINER_OOM (''OOMKilled: '' @ join '', '' (sort_names oom)) None None]
       else [])
      @ (if looping \<noteq> [] then
         [mk_finding ''DOCK-008'' DockerScanner ''Containers in restart loop'' ReliabilityCat
            RISK_CONTAINER_RESTART_LOOP
            (''restart_count >= '' @ show_word RESTART_LOOP_THRESHOLD
             @ '' or currently restarting: '' @ join '', '' (sort_names looping)) None None]
       else [])
      @ (if sick \<noteq> [] then
         [mk_finding ''DOCK-009'' DockerScanner ''Unhealthy containers (failing healthcheck)''
            ReliabilityCat RISK_CONTAINER_UNHEALTHY (''unhealthy: '' @ join '', '' (sort_names sick)) None None]
       else []))"

definition rule_reliability :: "agent_report \<Rightarrow> finding list" where
  "rule_reliability r =
     (if list_ex (\<lambda>s. contains s ''.service'') (hi_failed_services (hst r)) then
        [mk_finding ''REL-001'' HostScanner ''Failed systemd services'' ReliabilityCat
           RISK_FAILED_SERVICES
           (show_nat (length (hi_failed_services (hst r))) @ '' failed service(s)'') None None]
      else [])
     @ (if hi_backup_tools (hst r) = [] then
        [mk_finding ''REL-002'' HostScanner ''No backup tools detected'' ReliabilityCat
           RISK_NO_BACKUP ''No automated backup tools found'' None None]
      else [])
     @ (if 0 < hi_oom_kills (hst r) then
        [mk_finding ''REL-003'' HostScanner ''OOM kills present'' ReliabilityCat RISK_OOM_KILLS
           (show_nat (hi_oom_kills (hst r)) @ '' OOM kill(s) detected'') None None]
      else [])"

definition rule_hyg_001 :: "agent_report \<Rightarrow> finding list" where
  "rule_hyg_001 r =
     (if \<not> hi_ntp_synchronized (hst r) then
        [mk_finding ''HYG-001'' HostScanner ''NTP not synchronized'' HygieneCat
           RISK_NTP_NOT_SYNCED ''Time not synchronized'' None (Some ''CIS 2.2.1.1'')]
      else [])"

section \<open>Contracts\<close>

lemma hygiene_rules_wf [rule_wf]:
  "rule_ok [''SEC-070''] (rule_sec_070 r)"
  "rule_ok [''SEC-071''] (rule_sec_071 r)"
  "rule_ok [''SEC-072''] (rule_sec_072 r)"
  "rule_ok [''SEC-073''] (rule_sec_073 r)"
  "rule_ok [''SEC-074'', ''SEC-075'', ''SEC-076''] (rule_file_perms r)"
  "rule_ok [''SEC-077''] (rule_sec_077 r)"
  "rule_ok [''SEC-078''] (rule_sec_078 r)"
  "rule_ok [''SEC-079''] (rule_sec_079 r)"
  "rule_ok [''SEC-081''] (rule_sec_081 r)"
  "rule_ok [''DOCK-005'', ''DOCK-006''] (rule_container_mounts r)"
  "rule_ok [''DOCK-007'', ''DOCK-008'', ''DOCK-009''] (rule_container_reliability r)"
  "rule_ok [''REL-001'', ''REL-002'', ''REL-003''] (rule_reliability r)"
  "rule_ok [''HYG-001''] (rule_hyg_001 r)"
  by (simp_all add: rule_sec_070_def rule_sec_071_def rule_sec_072_def rule_sec_073_def
      rule_file_perms_def rule_sec_077_def rule_sec_078_def rule_sec_079_def rule_sec_081_def
      rule_container_mounts_def rule_container_reliability_def rule_reliability_def
      rule_hyg_001_def rule_ok_def rule_finding_def COMPROMISE_IDS_def Let_def risk_defs
      RISK_CONTAINER_OOM_def RISK_CONTAINER_RESTART_LOOP_def RISK_CONTAINER_UNHEALTHY_def
      split: list.split)

text \<open>The sort is a sort: it permutes the names and leaves them in byte order.\<close>

lemma mset_insert_name: "mset (insert_name x xs) = add_mset x (mset xs)"
  by (induction xs) auto

lemma mset_sort_names: "mset (sort_names xs) = mset xs"
  by (induction xs) (auto simp: sort_names_def mset_insert_name)

lemma bytes_le_total: "\<not> bytes_le x y \<Longrightarrow> bytes_le y x"
  by (induction x y rule: bytes_le.induct) auto

lemma bytes_le_trans: "bytes_le x y \<Longrightarrow> bytes_le y z \<Longrightarrow> bytes_le x z"
  by (induction x y arbitrary: z rule: bytes_le.induct) (auto elim: bytes_le.elims)

abbreviation name_le :: "string \<Rightarrow> string \<Rightarrow> bool" where
  "name_le x y \<equiv> bytes_le (byte_values x) (byte_values y)"

lemma sorted_insert_name:
  "sorted_wrt name_le xs \<Longrightarrow> sorted_wrt name_le (insert_name x xs)"
proof (induction xs)
  case (Cons y ys)
  have "set (insert_name x ys) = insert x (set ys)"
    by (metis mset_insert_name set_mset_add_mset_insert set_mset_mset)
  with Cons show ?case by (auto intro: bytes_le_trans bytes_le_total)
qed simp

lemma sorted_sort_names: "sorted_wrt name_le (sort_names xs)"
  by (induction xs) (auto simp: sort_names_def intro: sorted_insert_name)

end
