(* ===== verification/Scoring.thy ===== *)
theory Scoring
  imports RulesMemory RulesKernel RulesPersistence RulesRuntime RulesHygiene
begin

text \<open>
  \<open>evaluate\<close> of \<open>src/scoring.rs\<close>, the composition of the rules in the order of the source, and
  what it guarantees: the contract of the rules lifted to a whole report, the score as capped sums,
  the verdict as an order, and what suppressing findings can do to both.
\<close>

section \<open>Evaluation of a report\<close>

definition raw_findings :: "eval_env \<Rightarrow> agent_report \<Rightarrow> finding list" where
  "raw_findings env r =
     concat
       [rule_sec_001 r, rule_sec_002 r, rule_sec_003 r, rule_sec_004 r, rule_sec_005 r,
        rule_sec_006 r, rule_sec_007 r, rule_sec_008 r, rule_sec_009 r, rule_sec_011 r,
        rule_sec_012 r, rule_sec_061 r, rule_sec_062 r, rule_sec_063 r, rule_listeners env r,
        rule_sec_015 r, rule_sec_016 r, rule_sec_017 r, rule_sec_032 r, rule_sec_019 r,
        rule_sec_020 r, rule_sec_021 r, rule_sec_022 r, rule_sec_023 env r, rule_sec_028 env r,
        rule_sec_026 env r, rule_sec_029 env r, rule_sec_033 env r, rule_file_caps r,
        rule_setuid r, rule_sec_035 r, rule_sec_038 r, rule_sec_060 r, rule_sec_039 r,
        rule_sec_040 r, rule_sec_041 r, rule_preload r, rule_sec_051 r, rule_generators env r,
        rule_pam r, rule_exec_start r, rule_core_pattern r, rule_lockdown r, rule_sec_027 env r,
        rule_ghosts r, rule_sec_018 r, rule_leaks r, rule_sec_058 r, rule_cap_001 r,
        rule_cap_002 r, rule_container_limits r, rule_dock_010 r, rule_firewall_bypass r,
        rule_sec_070 r, rule_sec_071 r, rule_sec_072 r, rule_sec_073 r, rule_file_perms r,
        rule_sec_077 r, rule_sec_078 r, rule_sec_079 r, rule_sec_081 r, rule_container_mounts r,
        rule_container_reliability r, rule_reliability r, rule_hyg_001 r]"

definition cov_finding :: "string \<Rightarrow> finding" where
  "cov_finding name =
     mk_finding ''COV-001'' Orchestrator ''Scanner panicked; verdict incomplete'' HygieneCat 0
       (''scanner `'' @ name @ ''` panicked; findings derived from it were withheld '' @ em_dash
        @ '' this host's verdict is INCOMPLETE, not clean'') None None"

definition evaluate :: "eval_env \<Rightarrow> agent_report \<Rightarrow> finding list" where
  "evaluate env r =
     filter (\<lambda>f. \<not> finding_from_failed_scanner r f) (raw_findings env r)
     @ map cov_finding (ar_failed_scanners r)"

definition warn_unmapped_scanners :: "string list \<Rightarrow> string list" where
  "warn_unmapped_scanners failed =
     map (\<lambda>name. ''scoring: failed scanner `'' @ name @ ''` has no Scanner variant '' @ em_dash
              @ '' findings derived from it were NOT withheld from the verdict'')
       (filter (\<lambda>name. scanner_from_name name = None) failed)"

definition warn_evaluate_side_effects :: "exec_start_finding list \<Rightarrow> string list" where
  "warn_evaluate_side_effects fs =
     (let unknown = length (filter (\<lambda>f. esf_writability f = WUnknown) fs) in
      if 0 < unknown then
        [''exec_provenance: '' @ show_nat unknown @ '' target(s) could not be stat'ed (EACCES) ''
         @ em_dash @ '' writability UNVERIFIED, not assumed safe'']
      else [])"

section \<open>The rules as an engine\<close>

text \<open>
  The interface between the rules and the code that consumes findings: whatever a run produces
  keeps \<open>rule_finding\<close>. The consumers' facts are proved from that alone.
\<close>

locale rule_engine =
  fixes run :: "'i \<Rightarrow> finding list"
  assumes run_finding: "f \<in> set (run i) \<Longrightarrow> rule_finding f"
begin

lemma ioc_weights: "ioc_weights_ok (filter P (run i))"
  by (auto simp: ioc_weights_ok_def list_all_iff rule_finding_def dest!: run_finding)

lemma suppressed_weight:
  "f \<in> set (run i) \<Longrightarrow> f_suppressed f \<noteq> None \<Longrightarrow> f_id f \<noteq> ''SEC-007'' \<Longrightarrow> f_weight f = 0"
  by (auto simp: rule_finding_def dest!: run_finding)

lemma weight_bound: "f \<in> set (run i) \<Longrightarrow> f_weight f \<le> 60"
  by (auto simp: rule_finding_def dest!: run_finding)

lemma not_orchestrator: "f \<in> set (run i) \<Longrightarrow> f_source f \<noteq> Orchestrator \<and> f_id f \<noteq> ''COV-001''"
  by (auto simp: rule_finding_def dest!: run_finding)

end

lemmas rules_all = rule_wf [THEN rule_ok_all]

lemma raw_findings_finding: "f \<in> set (raw_findings env r) \<Longrightarrow> rule_finding f"
proof -
  have "list_all rule_finding (raw_findings env r)"
    unfolding raw_findings_def concat.simps list_all_append by (simp only: rules_all list.pred_inject simp_thms)
  then show "f \<in> set (raw_findings env r) \<Longrightarrow> rule_finding f"
    by (simp add: list_all_iff)
qed

interpretation rules: rule_engine "\<lambda>(env, r). raw_findings env r"
  by unfold_locales (auto intro: raw_findings_finding)

section \<open>Verdicts are ordered\<close>

instantiation security_verdict :: linorder
begin

definition less_eq_security_verdict :: "security_verdict \<Rightarrow> security_verdict \<Rightarrow> bool" where
  "less_eq_security_verdict v w = (verdict_rank v \<le> verdict_rank w)"

definition less_security_verdict :: "security_verdict \<Rightarrow> security_verdict \<Rightarrow> bool" where
  "less_security_verdict v w = (verdict_rank v < verdict_rank w)"

instance
proof
  fix v w :: security_verdict
  show "v \<le> w \<Longrightarrow> w \<le> v \<Longrightarrow> v = w"
    by (cases v; cases w) (simp_all add: less_eq_security_verdict_def word_le_nat_alt)
qed (auto simp: less_eq_security_verdict_def less_security_verdict_def)

end

lemma worse_eq_max: "worse v w = max v w"
  by (cases v; cases w)
    (simp_all add: worse_def max_def less_eq_security_verdict_def word_le_nat_alt)

lemma verdict_order:
  "Clean \<le> v" "v \<le> Compromised" "Compromised \<le> v \<longleftrightarrow> v = Compromised" "v \<le> Clean \<longleftrightarrow> v = Clean"
  by (cases v; simp add: less_eq_security_verdict_def word_le_nat_alt)+

section \<open>The score as capped sums\<close>

definition live_sum :: "category \<Rightarrow> finding list \<Rightarrow> nat" where
  "live_sum cat fs =
     sum_list (map (\<lambda>f. unat (f_weight f))
       (filter (\<lambda>f. f_suppressed f = None \<and> f_category f = cat) fs))"

lemma live_sum_Cons:
  "live_sum cat (f # fs) =
     (if f_suppressed f = None \<and> f_category f = cat then unat (f_weight f) else 0) + live_sum cat fs"
  by (simp add: live_sum_def)

lemma live_sum_Nil [simp]: "live_sum cat [] = 0"
  by (simp add: live_sum_def)

text \<open>Saturating on the way and capping at the end lose nothing against the true sum.\<close>

fun acc_of :: "category \<Rightarrow> u8 \<times> u8 \<times> u8 \<Rightarrow> u8" where
  "acc_of SecurityCat (a, b, c) = a"
| "acc_of ReliabilityCat (a, b, c) = b"
| "acc_of HygieneCat (a, b, c) = c"

lemma score_step_acc:
  "unat (acc_of cat (score_step f acc)) =
     (if f_suppressed f = None \<and> f_category f = cat
      then min 255 (unat (acc_of cat acc) + unat (f_weight f)) else unat (acc_of cat acc))"
  by (cases acc; cases cat; cases "f_category f") (simp_all add: score_step_def unat_sat_add_u8)

lemma min_add_min: "min (k :: nat) (min k x + y) = min k (x + y)"
  by (simp add: min_def)

lemma score_fold_acc:
  "unat (acc_of cat (fold score_step fs acc)) = min 255 (unat (acc_of cat acc) + live_sum cat fs)"
proof (induction fs arbitrary: acc)
  case Nil
  have "min 255 (unat x) = unat x" for x :: u8
    using unsigned_less [of x, where 'a = nat] by simp
  then show ?case by simp
next
  case (Cons f fs)
  have "unat (acc_of cat (fold score_step (f # fs) acc))
      = min 255 (unat (acc_of cat (score_step f acc)) + live_sum cat fs)"
    by (simp add: Cons.IH)
  also have "\<dots> = min 255 (unat (acc_of cat acc) + live_sum cat (f # fs))"
    by (simp add: score_step_acc live_sum_Cons min_add_min add.assoc)
  finally show ?case .
qed

lemma score_fold:
  "fold score_step fs (0, 0, 0) = (s, t, u) \<Longrightarrow>
     unat s = min 255 (live_sum SecurityCat fs)
     \<and> unat t = min 255 (live_sum ReliabilityCat fs)
     \<and> unat u = min 255 (live_sum HygieneCat fs)"
  using score_fold_acc [of SecurityCat fs "(0, 0, 0)"]
    score_fold_acc [of ReliabilityCat fs "(0, 0, 0)"]
    score_fold_acc [of HygieneCat fs "(0, 0, 0)"]
  by simp

lemma unat_min_u8: "unat (min s n) = min (unat s) (unat (n :: u8))"
  by (rule unat_min_word)

lemma score_spec:
  "unat (sr_security (score fs)) = min 60 (live_sum SecurityCat fs)
   \<and> unat (sr_reliability (score fs)) = min 30 (live_sum ReliabilityCat fs)
   \<and> unat (sr_hygiene (score fs)) = min 10 (live_sum HygieneCat fs)
   \<and> unat (sr_total (score fs)) =
       min 60 (live_sum SecurityCat fs) + min 30 (live_sum ReliabilityCat fs)
       + min 10 (live_sum HygieneCat fs)"
proof -
  obtain s t u where stu: "fold score_step fs (0, 0, 0) = (s, t, u)"
    using prod_cases3 by blast
  have caps: "unat (min s 60) = min 60 (live_sum SecurityCat fs)"
    "unat (min t 30) = min 30 (live_sum ReliabilityCat fs)"
    "unat (min u 10) = min 10 (live_sum HygieneCat fs)"
    using score_fold [OF stu] by (simp_all add: unat_min_u8)
  then have total: "unat (min s 60 + min t 30 + min u 10) =
      min 60 (live_sum SecurityCat fs) + min 30 (live_sum ReliabilityCat fs)
      + min 10 (live_sum HygieneCat fs)"
    by (simp add: unat_word_ariths)
  have capped: "unat (min (min s 60 + min t 30 + min u 10) 100) =
      unat (min s 60 + min t 30 + min u 10)"
    unfolding unat_min_u8 total by simp
  have sel: "sr_security (score fs) = min s 60" "sr_reliability (score fs) = min t 30"
    "sr_hygiene (score fs) = min u 10"
    "sr_total (score fs) = min (min s 60 + min t 30 + min u 10) 100"
    by (simp_all only: score_def stu Let_def prod.case scored_report.select_convs)
  show ?thesis
    unfolding sel capped total by (simp only: caps simp_thms)
qed

section \<open>A machine without files\<close>

text \<open>The environment in which every lookup fails, for evaluating examples.\<close>

definition bare_env :: eval_env where
  "bare_env =
     \<lparr>os_read_link = (\<lambda>p. None), os_metadata_uid = (\<lambda>p. None), os_read_dir_count = (\<lambda>p. None),
      ee_hash_order = (\<lambda>i keys. keys), ee_local_scan = True\<rparr>"

end
