(* ===== verification/Overlay.thy ===== *)
theory Overlay
  imports Scoring
begin

text \<open>
  What hiding findings does to the score and the verdict. An overlay may set \<open>suppressed\<close> on live
  findings, except on those with a protected identifier, and may do nothing else; \<open>Acceptance\<close>
  shows that the acceptance policy of \<open>src/acceptance.rs\<close> is one. The facts here are proved from
  that interface alone.
\<close>

section \<open>Hiding one finding\<close>

definition hides :: "(string \<Rightarrow> bool) \<Rightarrow> finding \<Rightarrow> finding \<Rightarrow> bool" where
  "hides keep f g \<longleftrightarrow>
     g = f \<or> f_suppressed f = None \<and> \<not> keep (f_id f)
             \<and> (\<exists>reason. g = f\<lparr>f_suppressed := Some reason\<rparr>)"

lemma hides_refl [simp]: "hides keep f f"
  by (simp add: hides_def)

lemma hides_same:
  "hides keep f g \<Longrightarrow> f_id g = f_id f \<and> f_source g = f_source f \<and> f_weight g = f_weight f
     \<and> f_category g = f_category f \<and> f_evidence g = f_evidence f"
  by (auto simp: hides_def)

lemma hides_live: "hides keep f g \<Longrightarrow> f_suppressed g = None \<Longrightarrow> g = f"
  by (auto simp: hides_def)

lemma hides_keep: "hides keep f g \<Longrightarrow> keep (f_id f) \<Longrightarrow> g = f"
  by (auto simp: hides_def)

section \<open>Hiding in a report\<close>

abbreviation hides_all :: "(string \<Rightarrow> bool) \<Rightarrow> finding list \<Rightarrow> finding list \<Rightarrow> bool" where
  "hides_all keep fs gs \<equiv> list_all2 (hides keep) fs gs"

lemma has_id_live: "has_id (live fs) i = has_id fs i"
  by (auto simp: has_id_iff live_def)

lemma sysctl_live:
  "filter (\<lambda>f. f_id f = i \<and> f_suppressed f = None) (live fs) =
     filter (\<lambda>f. f_id f = i \<and> f_suppressed f = None) fs"
  by (induction fs) (auto simp: live_def)

lemma flags_live: "flags_from_findings (live fs) = flags_from_findings fs"
proof -
  have "has_id (live fs) = has_id fs" by (simp add: has_id_live fun_eq_iff)
  then show ?thesis by (simp add: flags_from_findings_def sysctl_live)
qed

lemma has_id_hides:
  "hides_all keep fs gs \<Longrightarrow> has_id gs i \<Longrightarrow> has_id fs i"
  by (induction rule: list_all2_induct) (auto simp: has_id_def dest: hides_live)

lemma has_id_hides_keep:
  "hides_all keep fs gs \<Longrightarrow> keep i \<Longrightarrow> has_id gs i = has_id fs i"
proof (induction rule: list_all2_induct)
  case (Cons f fs g gs)
  have "(f_id g = i \<and> f_suppressed g = None) = (f_id f = i \<and> f_suppressed f = None)"
    using Cons.hyps Cons.prems hides_keep [of keep f g] by (auto simp: hides_def)
  with Cons show ?case by (simp add: has_id_def)
qed simp

lemma count_hides:
  "hides_all keep fs gs \<Longrightarrow>
     length (filter (\<lambda>f. f_id f = i \<and> f_suppressed f = None) gs)
       \<le> length (filter (\<lambda>f. f_id f = i \<and> f_suppressed f = None) fs)"
  by (induction rule: list_all2_induct) (auto dest: hides_live)

lemma live_sum_hides:
  "hides_all keep fs gs \<Longrightarrow> live_sum cat gs \<le> live_sum cat fs"
  by (induction rule: list_all2_induct) (auto simp: live_sum_Cons dest: hides_live)

text \<open>The verdict in terms of the identifiers of live findings.\<close>

definition live_ids :: "string list" where
  "live_ids = [''SEC-001'', ''SEC-002'', ''SEC-003'', ''SEC-004'', ''REL-001'', ''REL-002'',
               ''SEC-005'', ''SEC-012'', ''HYG-001'']"

lemma verdict_cases:
  "security_verdict_from_findings fs =
     (if \<exists>i \<in> set COMPROMISE_IDS. has_id fs i then Compromised
      else if (\<exists>i \<in> set live_ids. has_id fs i)
              \<or> 3 \<le> length (filter (\<lambda>f. f_id f = ''SEC-007'' \<and> f_suppressed f = None) fs)
      then Critical else Clean)"
  unfolding security_verdict_from_findings_def Let_def flags_live has_critical_def
  by (simp add: flags_from_findings_def list_ex_iff live_ids_def SYSCTL_CRITICAL_THRESHOLD_def
      disj_ac)

lemma compromised_iff:
  "security_verdict_from_findings fs = Compromised \<longleftrightarrow> (\<exists>i \<in> set COMPROMISE_IDS. has_id fs i)"
  unfolding verdict_cases by simp

lemma clean_no_findings: "security_verdict_from_findings [] = Clean"
  by (simp add: verdict_cases has_id_def)

lemma verdict_hides:
  assumes "hides_all keep fs gs"
  shows "security_verdict_from_findings gs \<le> security_verdict_from_findings fs"
proof -
  have ids: "\<And>i. has_id gs i \<Longrightarrow> has_id fs i" by (rule has_id_hides [OF assms])
  have n: "length (filter (\<lambda>f. f_id f = ''SEC-007'' \<and> f_suppressed f = None) gs)
         \<le> length (filter (\<lambda>f. f_id f = ''SEC-007'' \<and> f_suppressed f = None) fs)"
    by (rule count_hides [OF assms])
  show ?thesis
  proof (cases "security_verdict_from_findings gs")
    case Clean
    then show ?thesis by (simp add: verdict_order)
  next
    case Compromised
    then have "security_verdict_from_findings fs = Compromised"
      using ids by (auto simp: compromised_iff)
    then show ?thesis by (simp add: verdict_order)
  next
    case Critical
    then have "security_verdict_from_findings fs \<noteq> Clean"
      using ids n unfolding verdict_cases by (auto split: if_splits)
    then show ?thesis
      using Critical by (cases "security_verdict_from_findings fs")
        (simp_all add: less_eq_security_verdict_def)
  qed
qed

lemma verdict_hides_compromised:
  assumes "hides_all keep fs gs" "\<And>i. i \<in> set COMPROMISE_IDS \<Longrightarrow> keep i"
  shows "security_verdict_from_findings gs = Compromised
         \<longleftrightarrow> security_verdict_from_findings fs = Compromised"
  unfolding compromised_iff using has_id_hides_keep [OF assms(1)] assms(2) by blast

lemma score_hides:
  assumes "hides_all keep fs gs"
  shows "sr_total (score gs) \<le> sr_total (score fs)"
    "sr_security (score gs) \<le> sr_security (score fs)"
  using live_sum_hides [OF assms, of SecurityCat] live_sum_hides [OF assms, of ReliabilityCat]
    live_sum_hides [OF assms, of HygieneCat]
  by (simp_all add: word_le_nat_alt score_spec add_mono min.coboundedI2 min.mono)

section \<open>The interface of an overlay\<close>

locale overlay =
  fixes admitted :: "'p \<Rightarrow> bool"
    and over :: "'p \<Rightarrow> finding list \<Rightarrow> finding list"
    and keep :: "string \<Rightarrow> bool"
  assumes over_hides: "admitted p \<Longrightarrow> hides_all keep fs (over p fs)"
    and keep_compromise: "i \<in> set COMPROMISE_IDS \<Longrightarrow> keep i"
begin

lemma same_length: "admitted p \<Longrightarrow> length (over p fs) = length fs"
  by (rule list_all2_lengthD [OF over_hides, symmetric])

lemma verdict_le:
  "admitted p \<Longrightarrow> security_verdict_from_findings (over p fs) \<le> security_verdict_from_findings fs"
  by (rule verdict_hides [OF over_hides])

lemma compromised_stays:
  "admitted p \<Longrightarrow> security_verdict_from_findings (over p fs) = Compromised
     \<longleftrightarrow> security_verdict_from_findings fs = Compromised"
  by (rule verdict_hides_compromised [OF over_hides keep_compromise])

lemma score_le: "admitted p \<Longrightarrow> sr_total (score (over p fs)) \<le> sr_total (score fs)"
  by (rule score_hides [OF over_hides])

lemma kept_ids: "admitted p \<Longrightarrow> keep i \<Longrightarrow> has_id (over p fs) i = has_id fs i"
  by (rule has_id_hides_keep [OF over_hides])

lemma kept_findings:
  "admitted p \<Longrightarrow> filter (\<lambda>f. keep (f_id f)) (over p fs) = filter (\<lambda>f. keep (f_id f)) fs"
proof -
  have "list_all2 (hides keep) fs gs \<Longrightarrow>
      filter (\<lambda>f. keep (f_id f)) gs = filter (\<lambda>f. keep (f_id f)) fs" for gs
    by (induction rule: list_all2_induct) (auto dest: hides_keep hides_same)
  then show "admitted p \<Longrightarrow> ?thesis" by (blast intro: over_hides)
qed

end

end
