(* ===== verification/Acceptance.thy ===== *)
theory Acceptance
  imports Overlay
begin

text \<open>
  Accepted risks, \<open>src/acceptance.rs\<close>: the rules of a policy file, what loading refuses, the glob
  over host names, and \<open>Acceptances::apply\<close>, which hides findings. The JSON parser and the date
  parser of the \<open>chrono\<close> crate are parameters; an instant is its nanoseconds since the epoch.
\<close>

section \<open>Rules\<close>

definition EXTRA_NEVER_ACCEPTABLE :: "string list" where
  "EXTRA_NEVER_ACCEPTABLE = [''SEC-041'', ''COV-001'']"

definition ACCEPTED_MARKER :: string where
  "ACCEPTED_MARKER = ''ACCEPTED:''"

definition is_never_acceptable :: "string \<Rightarrow> bool" where
  "is_never_acceptable i = (i \<in> set COMPROMISE_IDS \<or> i \<in> set EXTRA_NEVER_ACCEPTABLE)"

definition CAP_ACCEPT_FILE :: nat where
  "CAP_ACCEPT_FILE = 1048576"

definition MIN_JUSTIFICATION :: nat where
  "MIN_JUSTIFICATION = 10"

record accept_rule =
  acr_finding_id :: string
  acr_host :: string
  acr_justification :: string
  acr_expires :: string
  acr_ticket :: "string option"

definition default_accept_rule :: accept_rule where
  "default_accept_rule =
     \<lparr>acr_finding_id = [], acr_host = ''*'', acr_justification = [], acr_expires = [],
      acr_ticket = None\<rparr>"

text \<open>
  The two parsers of \<open>chrono\<close> that \<open>parse_expiry\<close> uses: an RFC 3339 instant, and the day number
  (since the epoch) of a \<open>%Y-%m-%d\<close> date. A date expires with its last second.
\<close>

record date_parser =
  dp_rfc3339 :: "string \<Rightarrow> int option"
  dp_naive_date :: "string \<Rightarrow> int option"

definition parse_expiry :: "date_parser \<Rightarrow> string \<Rightarrow> int option" where
  "parse_expiry dp s =
     (case dp_rfc3339 dp s of
        Some t \<Rightarrow> Some t
      | None \<Rightarrow>
          (case dp_naive_date dp s of
             None \<Rightarrow> None
           | Some d \<Rightarrow> Some ((d * 86400 + 23 * 3600 + 59 * 60 + 59) * 1000000000)))"

section \<open>The glob over host names\<close>

fun glob_match :: "string \<Rightarrow> string \<Rightarrow> bool" where
  "glob_match [] [] = True"
| "glob_match [] (d # s) = False"
| "glob_match (c # p) s =
     (if c = CHR ''*'' then
        glob_match p s \<or> (case s of [] \<Rightarrow> False | d # s' \<Rightarrow> glob_match (c # p) s')
      else
        (case s of
           [] \<Rightarrow> False
         | d # s' \<Rightarrow> if c = CHR ''?'' then glob_match p s' else c = d \<and> glob_match p s'))"

text \<open>The language of a pattern: \<open>*\<close> stands for any bytes, \<open>?\<close> for one byte.\<close>

primrec glob_language :: "string \<Rightarrow> string set" where
  "glob_language [] = {[]}"
| "glob_language (c # p) =
     (if c = CHR ''*'' then {u @ v | u v. v \<in> glob_language p}
      else if c = CHR ''?'' then {d # v | d v. v \<in> glob_language p}
      else {c # v | v. v \<in> glob_language p})"

lemma glob_star_Cons:
  "d # s \<in> {u @ v | u v. v \<in> L} \<longleftrightarrow> d # s \<in> L \<or> s \<in> {u @ v | u v. v \<in> L}"
  by (auto simp: Cons_eq_append_conv)

lemma glob_match_language: "glob_match p s \<longleftrightarrow> s \<in> glob_language p"
proof (induction p s rule: glob_match.induct)
  case (3 c p s)
  show ?case
  proof (cases "c = CHR ''*''")
    case True
    note star = this
    show ?thesis
    proof (cases s)
      case Nil
      then show ?thesis using 3 star by simp
    next
      case (Cons d s')
      have "glob_match (c # p) s \<longleftrightarrow> glob_match p s \<or> glob_match (c # p) s'"
        unfolding Cons by (subst glob_match.simps(3)) (simp add: star del: glob_match.simps)
      also have "\<dots> \<longleftrightarrow> s \<in> glob_language p \<or> s' \<in> glob_language (c # p)"
        using "3.IH"(1,2) star Cons by blast
      also have "\<dots> \<longleftrightarrow> s \<in> glob_language (c # p)"
        using glob_star_Cons [of d s' "glob_language p"] star Cons by simp
      finally show ?thesis .
    qed
  next
    case False
    then show ?thesis using 3 by (cases s) auto
  qed
qed simp_all

section \<open>Loading a policy\<close>

datatype accept_error =
    CannotRead string
  | TooLarge
  | InvalidJson string
  | FindingIdRequired nat
  | CannotBeAccepted nat string
  | JustificationTooShort nat
  | BadExpiry nat string

definition check_rule :: "date_parser \<Rightarrow> nat \<Rightarrow> accept_rule \<Rightarrow> accept_error option" where
  "check_rule dp i r =
     (if acr_finding_id r = [] then Some (FindingIdRequired i)
      else if is_never_acceptable (acr_finding_id r) then Some (CannotBeAccepted i (acr_finding_id r))
      else if length (trim (acr_justification r)) < MIN_JUSTIFICATION
        then Some (JustificationTooShort i)
      else if parse_expiry dp (acr_expires r) = None then Some (BadExpiry i (acr_expires r))
      else None)"

text \<open>The loop over \<open>rules.iter().enumerate()\<close>: the first bad rule decides; rules count from 1.\<close>

fun check_rules :: "date_parser \<Rightarrow> nat \<Rightarrow> accept_rule list \<Rightarrow> accept_error option" where
  "check_rules dp i [] = None"
| "check_rules dp i (r # rs) =
     (case check_rule dp (i + 1) r of Some e \<Rightarrow> Some e | None \<Rightarrow> check_rules dp (i + 1) rs)"

text \<open>
  \<open>load\<close>: the file as read (with whether it was cut at \<open>CAP_ACCEPT_FILE\<close> bytes), the parser of the
  JSON list of rules, the checks.
\<close>

definition load_acceptances ::
  "date_parser \<Rightarrow> (string \<Rightarrow> string + accept_rule list) \<Rightarrow> string + string \<times> bool
   \<Rightarrow> accept_error + accept_rule list" where
  "load_acceptances dp from_json file =
     (case file of
        Inl e \<Rightarrow> Inl (CannotRead e)
      | Inr (text, truncated) \<Rightarrow>
          if truncated then Inl TooLarge
          else
            (case from_json text of
               Inl e \<Rightarrow> Inl (InvalidJson e)
             | Inr rules \<Rightarrow>
                 (case check_rules dp 0 rules of Some e \<Rightarrow> Inl e | None \<Rightarrow> Inr rules)))"

definition rule_admitted :: "date_parser \<Rightarrow> accept_rule \<Rightarrow> bool" where
  "rule_admitted dp r =
     (acr_finding_id r \<noteq> [] \<and> \<not> is_never_acceptable (acr_finding_id r)
      \<and> MIN_JUSTIFICATION \<le> length (trim (acr_justification r))
      \<and> parse_expiry dp (acr_expires r) \<noteq> None)"

lemma check_rule_None: "check_rule dp i r = None \<longleftrightarrow> rule_admitted dp r"
  by (auto simp: check_rule_def rule_admitted_def not_less)

lemma check_rules_None: "check_rules dp i rs = None \<longleftrightarrow> list_all (rule_admitted dp) rs"
proof (induction rs arbitrary: i)
  case (Cons r rs)
  then show ?case using check_rule_None [of dp "i + 1" r] by (auto split: option.splits)
qed simp

lemma load_Inr:
  "load_acceptances dp fj file = Inr rules \<longleftrightarrow>
     (\<exists>t. file = Inr (t, False) \<and> fj t = Inr rules \<and> list_all (rule_admitted dp) rules)"
  using check_rules_None [of dp 0 rules]
  by (auto simp: load_acceptances_def split: sum.splits if_splits option.splits)

lemma loaded_admitted: "load_acceptances dp fj file = Inr rules \<Longrightarrow> list_all (rule_admitted dp) rules"
  by (simp add: load_Inr) blast

section \<open>Applying a policy\<close>

text \<open>The text \<open>apply\<close> writes into \<open>suppressed\<close>.\<close>

definition accepted_reason :: "accept_rule \<Rightarrow> string" where
  "accepted_reason r =
     ACCEPTED_MARKER @ '' '' @ trim (acr_justification r) @ '' (until '' @ acr_expires r
     @ (case acr_ticket r of None \<Rightarrow> [] | Some t \<Rightarrow> '', '' @ t) @ '')''"

definition matching_rule :: "accept_rule list \<Rightarrow> string \<Rightarrow> finding \<Rightarrow> accept_rule option" where
  "matching_rule rules hostname f =
     find (\<lambda>r. acr_finding_id r = f_id f \<and> glob_match (acr_host r) hostname) rules"

definition expiry_of :: "date_parser \<Rightarrow> int \<Rightarrow> accept_rule \<Rightarrow> int" where
  "expiry_of dp now r = (case parse_expiry dp (acr_expires r) of None \<Rightarrow> now | Some t \<Rightarrow> t)"

definition apply_one ::
  "date_parser \<Rightarrow> int \<Rightarrow> accept_rule list \<Rightarrow> string \<Rightarrow> finding \<Rightarrow> finding \<times> string list" where
  "apply_one dp now rules hostname f =
     (if f_suppressed f \<noteq> None then (f, [])
      else
        (case matching_rule rules hostname f of
           None \<Rightarrow> (f, [])
         | Some r \<Rightarrow>
             if expiry_of dp now r < now then
               (f, [''acceptance for '' @ f_id f @ '' on '' @ hostname @ '' expired on ''
                    @ acr_expires r @ '' '' @ em_dash @ '' finding is live again''])
             else (f\<lparr>f_suppressed := Some (accepted_reason r)\<rparr>, [])))"

fun apply_acceptances ::
  "date_parser \<Rightarrow> int \<Rightarrow> accept_rule list \<Rightarrow> string \<Rightarrow> finding list
   \<Rightarrow> finding list \<times> string list" where
  "apply_acceptances dp now rules hostname [] = ([], [])"
| "apply_acceptances dp now rules hostname (f # fs) =
     (let (g, notes) = apply_one dp now rules hostname f;
          (gs, more) = apply_acceptances dp now rules hostname fs
      in (g # gs, notes @ more))"

definition accepted_count :: "finding list \<Rightarrow> nat" where
  "accepted_count fs =
     length (filter (\<lambda>f. case f_suppressed f of None \<Rightarrow> False
                         | Some s \<Rightarrow> starts_with s ACCEPTED_MARKER) fs)"

lemma apply_acceptances_map:
  "apply_acceptances dp now rules hostname fs =
     (map (fst \<circ> apply_one dp now rules hostname) fs,
      concat (map (snd \<circ> apply_one dp now rules hostname) fs))"
  by (induction fs) (auto split: prod.splits)

lemma matching_ruleD:
  "matching_rule rules hostname f = Some r \<Longrightarrow>
     r \<in> set rules \<and> acr_finding_id r = f_id f \<and> glob_match (acr_host r) hostname"
  unfolding matching_rule_def by (drule find_SomeD) simp

lemma apply_one_hides:
  "list_all (rule_admitted dp) rules \<Longrightarrow>
     hides is_never_acceptable f (fst (apply_one dp now rules hostname f))"
  by (auto simp: apply_one_def hides_def list_all_iff rule_admitted_def
      dest!: matching_ruleD split: option.splits if_splits)

lemma apply_hides:
  "list_all (rule_admitted dp) rules \<Longrightarrow>
     hides_all is_never_acceptable fs (fst (apply_acceptances dp now rules hostname fs))"
  by (simp add: apply_acceptances_map list.rel_map list.rel_refl_strong apply_one_hides
      list_all2_conv_all_nth)

text \<open>A loaded policy is an overlay that protects the identifiers that can never be accepted.\<close>

interpretation policy: overlay
  "\<lambda>(dp, now, rules, hostname). list_all (rule_admitted dp) rules"
  "\<lambda>(dp, now, rules, hostname) fs. fst (apply_acceptances dp now rules hostname fs)"
  is_never_acceptable
  by unfold_locales (auto simp: apply_hides is_never_acceptable_def split: prod.splits)

section \<open>An example policy\<close>

definition example_rule :: accept_rule where
  "example_rule =
     \<lparr>acr_finding_id = ''SEC-001'', acr_host = ''*'',
      acr_justification = ''cloud SG is the firewall'', acr_expires = ''2099-01-01'',
      acr_ticket = Some ''OPS-1234''\<rparr>"

definition example_dates :: date_parser where
  "example_dates =
     \<lparr>dp_rfc3339 = (\<lambda>s. None),
      dp_naive_date = (\<lambda>s. if s = ''2099-01-01'' then Some 47117 else None)\<rparr>"

lemma example_trim: "trim ''cloud SG is the firewall'' = ''cloud SG is the firewall''"
  by (rule trim_visible) (simp_all add: visible_def)

lemma example_admitted: "list_all (rule_admitted example_dates) [example_rule]"
  by (simp add: rule_admitted_def example_rule_def example_dates_def is_never_acceptable_def
      COMPROMISE_IDS_def EXTRA_NEVER_ACCEPTABLE_def example_trim MIN_JUSTIFICATION_def
      parse_expiry_def)

lemma example_load:
  "load_acceptances example_dates (\<lambda>t. Inr [example_rule]) (Inr (''[]'', False)) = Inr [example_rule]"
  using example_admitted by (simp only: load_Inr) blast

section \<open>Properties\<close>

text \<open>
  A policy file loads exactly when it is read whole, parses, and every rule names a finding that
  may be accepted, gives a justification of at least ten bytes and an expiry that parses; otherwise
  the first rule that fails decides the error, with its position counted from 1 and its own checks
  in order. In particular no rule for a compromise identifier, SEC-041 or COV-001 ever loads.
\<close>

theorem load_policy_spec:
  "load_acceptances dp from_json (Inr (t, False)) =
     (case from_json t of
        Inl e \<Rightarrow> Inl (InvalidJson e)
      | Inr rules \<Rightarrow>
          (case find (\<lambda>(i, r). \<not> rule_admitted dp r) (enumerate 1 rules) of
             None \<Rightarrow> Inr rules
           | Some (i, r) \<Rightarrow>
               Inl (if acr_finding_id r = [] then FindingIdRequired i
                    else if acr_finding_id r \<in> set (COMPROMISE_IDS @ [''SEC-041'', ''COV-001''])
                      then CannotBeAccepted i (acr_finding_id r)
                    else if length (trim (acr_justification r)) < 10 then JustificationTooShort i
                    else BadExpiry i (acr_expires r))))"
proof -
  have "check_rules dp k rules =
      (case find (\<lambda>(i, r). \<not> rule_admitted dp r) (enumerate (Suc k) rules) of
         None \<Rightarrow> None
       | Some (i, r) \<Rightarrow>
           Some (if acr_finding_id r = [] then FindingIdRequired i
                 else if acr_finding_id r \<in> set (COMPROMISE_IDS @ [''SEC-041'', ''COV-001''])
                   then CannotBeAccepted i (acr_finding_id r)
                 else if length (trim (acr_justification r)) < 10 then JustificationTooShort i
                 else BadExpiry i (acr_expires r)))" for k rules
  proof (induction rules arbitrary: k)
    case (Cons r rules)
    show ?case
    proof (cases "rule_admitted dp r")
      case True
      then show ?thesis
        using check_rule_None [of dp "k + 1" r] by (simp add: Cons.IH)
    next
      case False
      then show ?thesis
        by (auto simp: check_rule_def rule_admitted_def is_never_acceptable_def MIN_JUSTIFICATION_def
            EXTRA_NEVER_ACCEPTABLE_def)
    qed
  qed simp
  from this [of 0] show ?thesis
    by (simp add: load_acceptances_def split: sum.splits option.splits)
qed

text \<open>
  The glob over host names is anchored and means what its pattern denotes: a name matches exactly
  when it is in the language in which \<open>*\<close> stands for any bytes, \<open>?\<close> for one byte and every other
  byte for itself.
\<close>

theorem glob_match_spec: "glob_match p s \<longleftrightarrow> s \<in> glob_language p"
  by (rule glob_match_language)

text \<open>
  \<open>apply\<close> decides each finding by the first rule with its identifier whose host glob matches:
  a live finding with an unexpired such rule is hidden under the rule's reason, every other finding
  is returned unchanged and in place, and the notes are exactly one per live finding whose first
  rule has expired. The count of accepted risks grows by exactly the findings hidden.
\<close>

theorem apply_policy_spec:
  "let fs' = fst (apply_acceptances dp now rules host fs);
       decided = (\<lambda>f. if f_suppressed f = None then matching_rule rules host f else None);
       expired = (\<lambda>f. \<exists>r. decided f = Some r \<and> expiry_of dp now r < now);
       hidden = (\<lambda>f. \<exists>r. decided f = Some r \<and> now \<le> expiry_of dp now r)
   in fs' = map (\<lambda>f. if hidden f
                     then f\<lparr>f_suppressed := Some (accepted_reason (the (decided f)))\<rparr> else f) fs
      \<and> length (snd (apply_acceptances dp now rules host fs)) = length (filter expired fs)
      \<and> accepted_count fs' = accepted_count fs + length (filter hidden fs)"
proof -
  define decided where
    "decided = (\<lambda>f. if f_suppressed f = None then matching_rule rules host f else None)"
  define expired where "expired = (\<lambda>f. \<exists>r. decided f = Some r \<and> expiry_of dp now r < now)"
  define hidden where "hidden = (\<lambda>f. \<exists>r. decided f = Some r \<and> now \<le> expiry_of dp now r)"
  have one: "fst (apply_one dp now rules host f) =
      (if hidden f then f\<lparr>f_suppressed := Some (accepted_reason (the (decided f)))\<rparr> else f)"
    "length (snd (apply_one dp now rules host f)) = (if expired f then 1 else 0)"
    "hidden f \<Longrightarrow> f_suppressed f = None" for f
    by (auto simp: apply_one_def decided_def expired_def hidden_def split: option.splits if_splits)
  have noted: "length (concat (map (snd \<circ> apply_one dp now rules host) fs)) = length (filter expired fs)"
    by (induction fs) (simp_all add: one)
  have count: "accepted_count (map (fst \<circ> apply_one dp now rules host) fs) =
      accepted_count fs + length (filter hidden fs)"
    by (induction fs) (auto simp: accepted_count_def one accepted_reason_def split: option.splits)
  have hide: "map (fst \<circ> apply_one dp now rules host) fs =
      map (\<lambda>f. if hidden f
        then f\<lparr>f_suppressed := Some (accepted_reason (the (decided f)))\<rparr> else f) fs"
    by (simp add: one)
  show ?thesis
    unfolding Let_def apply_acceptances_map fst_conv snd_conv
    using conjI [OF hide conjI [OF noted count]]
    unfolding hidden_def expired_def decided_def .
qed

text \<open>
  C11: a policy that loads only ever lowers what a report says, at any clock and for any host: no
  finding is added, removed or reweighted, findings whose identifier can never be accepted are left
  exactly as they were, and neither the score nor the verdict rises.
\<close>

theorem policy_only_lowers:
  assumes "load_acceptances dp from_json file = Inr rules"
  shows "(let fs' = fst (apply_acceptances dp now rules host fs) in
     map f_id fs' = map f_id fs \<and> map f_weight fs' = map f_weight fs
     \<and> filter (is_never_acceptable \<circ> f_id) fs' = filter (is_never_acceptable \<circ> f_id) fs
     \<and> sr_total (score fs') \<le> sr_total (score fs)
     \<and> security_verdict_from_findings fs' \<le> security_verdict_from_findings fs)"
proof -
  let ?p = "(dp, now, rules, host)"
  have adm: "(\<lambda>(dp, now, rules, hostname). list_all (rule_admitted dp) rules) ?p"
    using loaded_admitted [OF assms] by simp
  have "map f_id (fst (apply_acceptances dp now rules host fs)) = map f_id fs"
    "map f_weight (fst (apply_acceptances dp now rules host fs)) = map f_weight fs"
    by (simp_all add: apply_acceptances_map apply_one_def split: option.splits)
  then show ?thesis
    using policy.kept_findings [OF adm, of fs] policy.score_le [OF adm, of fs]
      policy.verdict_le [OF adm, of fs]
    by (simp add: Let_def comp_def)
qed

theorem policy_only_lowers_witness:
  "let fs = [mk_finding ''SEC-001'' NetworkScanner [] SecurityCat 10 [] None None];
       fs' = fst (apply_acceptances example_dates 0 [example_rule] ''web1'' fs)
   in map f_id fs' = [''SEC-001''] \<and> sr_total (score fs') \<le> sr_total (score fs)"
  using policy_only_lowers [OF example_load, of 0 "''web1''"
      "[mk_finding ''SEC-001'' NetworkScanner [] SecurityCat 10 [] None None]"]
  by (simp add: Let_def)

text \<open>
  An expired rule is not skipped in favour of a later one. When the first rule for a live finding
  has expired, the finding stays live and one note is written, whatever rules follow it, also a
  current one for the same finding and host.
\<close>

theorem expired_rule_shadows:
  assumes "f_suppressed f = None" "acr_finding_id r = f_id f" "glob_match (acr_host r) host"
    and "parse_expiry dp (acr_expires r) = Some t" "t < now"
  shows "fst (apply_acceptances dp now (r # rules) host [f]) = [f]
     \<and> length (snd (apply_acceptances dp now (r # rules) host [f])) = 1"
  using assms by (simp add: apply_one_def matching_rule_def expiry_of_def)

theorem expired_rule_shadows_witness:
  "let f = mk_finding ''SEC-001'' NetworkScanner [] SecurityCat 10 [] None None;
       old = example_rule\<lparr>acr_expires := ''2020-01-01''\<rparr>;
       dates = example_dates\<lparr>dp_naive_date :=
         (\<lambda>s. if s = ''2020-01-01'' then Some 18262 else dp_naive_date example_dates s)\<rparr>;
       now = 1700000000000000000
   in fst (apply_acceptances dates now [old, example_rule] ''web1'' [f]) = [f]
      \<and> fst (apply_acceptances dates now [example_rule] ''web1'' [f]) \<noteq> [f]"
proof -
  let ?f = "mk_finding ''SEC-001'' NetworkScanner [] SecurityCat 10 [] None None"
  let ?old = "example_rule\<lparr>acr_expires := ''2020-01-01''\<rparr>"
  let ?dates = "example_dates\<lparr>dp_naive_date :=
         (\<lambda>s. if s = ''2020-01-01'' then Some 18262 else dp_naive_date example_dates s)\<rparr>"
  have "glob_match ''*'' ''web1''" by simp
  then have "fst (apply_acceptances ?dates 1700000000000000000 [?old, example_rule] ''web1'' [?f]) = [?f]"
    using expired_rule_shadows [of ?f ?old "''web1''" ?dates _ 1700000000000000000 "[example_rule]"]
    by (simp add: example_rule_def example_dates_def parse_expiry_def)
  moreover have "fst (apply_acceptances ?dates 1700000000000000000 [example_rule] ''web1'' [?f]) \<noteq> [?f]"
    by (simp add: apply_one_def matching_rule_def expiry_of_def example_rule_def example_dates_def
        parse_expiry_def mk_finding_def)
  ultimately show ?thesis by (simp add: Let_def)
qed

end
