(* ===== verification/Outcome.thy ===== *)
theory Outcome
  imports Acceptance
begin

text \<open>
  The two-axis outcome of \<open>src/main.rs\<close>: what the scan found (the verdict) and what it could see
  (the coverage), how reports are aggregated, the exit code, and the warnings that explain it.
\<close>

section \<open>Coverage and outcome\<close>

record coverage =
  cov_hosts_missing :: nat
  cov_records_lost :: nat
  cov_scanners_failed :: bool
  cov_non_root :: bool
  cov_warnings :: bool
  cov_output_failed :: bool

definition default_coverage :: coverage where
  "default_coverage =
     \<lparr>cov_hosts_missing = 0, cov_records_lost = 0, cov_scanners_failed = False,
      cov_non_root = False, cov_warnings = False, cov_output_failed = False\<rparr>"

definition is_full :: "coverage \<Rightarrow> bool" where
  "is_full c =
     (cov_hosts_missing c = 0 \<and> cov_records_lost c = 0 \<and> \<not> cov_scanners_failed c
      \<and> \<not> cov_non_root c \<and> \<not> cov_warnings c \<and> \<not> cov_output_failed c)"

record outcome =
  oc_verdict :: "security_verdict option"
  oc_coverage :: coverage

record outcome_builder =
  ob_verdict :: "security_verdict option"
  ob_coverage :: coverage
  ob_reports_seen :: nat
  ob_acceptances :: "accept_rule list option"

definition new_builder :: "accept_rule list option \<Rightarrow> outcome_builder" where
  "new_builder acc =
     \<lparr>ob_verdict = None, ob_coverage = default_coverage, ob_reports_seen = 0,
      ob_acceptances = acc\<rparr>"

text \<open>
  What judging one report depends on besides the report: the environment of \<open>evaluate\<close>, the date
  parser, and the clock when the report is added.
\<close>

record judge_env =
  je_eval :: eval_env
  je_dates :: date_parser
  je_now :: int

definition judged_findings ::
  "judge_env \<Rightarrow> accept_rule list option \<Rightarrow> agent_report \<Rightarrow> finding list" where
  "judged_findings env acc r =
     (let findings = evaluate (je_eval env) r in
      case acc of
        None \<Rightarrow> findings
      | Some rules \<Rightarrow>
          fst (apply_acceptances (je_dates env) (je_now env) rules (hi_hostname (ar_host r)) findings))"

definition builder_add :: "judge_env \<Rightarrow> agent_report \<Rightarrow> outcome_builder \<Rightarrow> outcome_builder" where
  "builder_add env r b =
     (let v = security_verdict_from_findings (judged_findings env (ob_acceptances b) r);
          c = ob_coverage b
      in b\<lparr>ob_verdict := Some (case ob_verdict b of None \<Rightarrow> v | Some cur \<Rightarrow> worse cur v),
           ob_coverage :=
             c\<lparr>cov_scanners_failed := cov_scanners_failed c \<or> ar_failed_scanners r \<noteq> [],
               cov_non_root := cov_non_root c \<or> \<not> ar_is_root_execution r,
               cov_warnings := cov_warnings c \<or> ar_scan_warnings r \<noteq> []\<rparr>,
           ob_reports_seen := ob_reports_seen b + 1\<rparr>)"

definition builder_finish :: "outcome_builder \<Rightarrow> nat \<Rightarrow> nat \<Rightarrow> outcome" where
  "builder_finish b hosts_requested records_lost =
     \<lparr>oc_verdict = ob_verdict b,
      oc_coverage = (ob_coverage b)
        \<lparr>cov_hosts_missing := hosts_requested - ob_reports_seen b,
         cov_records_lost := records_lost\<rparr>\<rparr>"

definition outcome_for :: "judge_env \<Rightarrow> accept_rule list option \<Rightarrow> agent_report \<Rightarrow> outcome" where
  "outcome_for env acc r = builder_finish (builder_add env r (new_builder acc)) 1 0"

definition outcome_for_writer_failure :: "outcome_builder \<Rightarrow> nat \<Rightarrow> nat \<Rightarrow> outcome" where
  "outcome_for_writer_failure b hosts_requested records_lost =
     (let oc = builder_finish b hosts_requested records_lost
      in oc\<lparr>oc_coverage := (oc_coverage oc)\<lparr>cov_output_failed := True\<rparr>\<rparr>)"

section \<open>Exit codes\<close>

definition EXIT_CLEAN :: int where "EXIT_CLEAN = 0"
definition EXIT_CRITICAL :: int where "EXIT_CRITICAL = 1"
definition EXIT_DEGRADED :: int where "EXIT_DEGRADED = 2"
definition EXIT_COMPROMISED :: int where "EXIT_COMPROMISED = 3"
definition EXIT_INCOMPLETE :: int where "EXIT_INCOMPLETE = 4"

lemmas exit_codes = EXIT_CLEAN_def EXIT_CRITICAL_def EXIT_DEGRADED_def EXIT_COMPROMISED_def
  EXIT_INCOMPLETE_def

definition exit_code :: "outcome \<Rightarrow> bool \<Rightarrow> int" where
  "exit_code oc fail_on_incomplete =
     (case oc_verdict oc of
        None \<Rightarrow> EXIT_INCOMPLETE
      | Some v \<Rightarrow>
          (let full = is_full (oc_coverage oc) in
           if v = Compromised then EXIT_COMPROMISED
           else if fail_on_incomplete \<and> \<not> full then EXIT_INCOMPLETE
           else if \<not> full then EXIT_DEGRADED
           else if v = Critical then EXIT_CRITICAL
           else EXIT_CLEAN))"

section \<open>Warnings\<close>

datatype coverage_warning =
    ScannersFailed
  | ScanWarnings
  | NonRoot
  | HostsMissing nat "string list"
  | ResultsLost nat bool

definition warn_for_coverage :: "coverage \<Rightarrow> string list \<Rightarrow> coverage_warning list" where
  "warn_for_coverage c missing_hosts =
     (if cov_scanners_failed c then [ScannersFailed] else [])
     @ (if cov_warnings c then [ScanWarnings] else [])
     @ (if cov_non_root c then [NonRoot] else [])
     @ (if 0 < cov_hosts_missing c then
          (if missing_hosts = [] then [HostsMissing (cov_hosts_missing c) []]
           else [HostsMissing (cov_hosts_missing c) missing_hosts])
        else [])
     @ (if 0 < cov_records_lost c \<or> cov_output_failed c
        then [ResultsLost (cov_records_lost c) (cov_output_failed c)] else [])"

datatype outcome_warning =
    ActiveCompromise int
  | NotRootCritical
  | NotRootIncomplete
  | DegradedBy "string list"
  | NoReport int

definition warn_for_outcome :: "outcome \<Rightarrow> agent_report \<Rightarrow> outcome_warning list" where
  "warn_for_outcome oc r =
     (case oc_verdict oc of
        Some Compromised \<Rightarrow> [ActiveCompromise EXIT_COMPROMISED]
      | Some Critical \<Rightarrow> if \<not> ar_is_root_execution r then [NotRootCritical] else []
      | Some Clean \<Rightarrow>
          if \<not> ar_is_root_execution r then [NotRootIncomplete]
          else if ar_scan_warnings r \<noteq> [] then [DegradedBy (ar_scan_warnings r)]
          else []
      | None \<Rightarrow> [NoReport EXIT_INCOMPLETE])"

definition missing_of :: "string list \<Rightarrow> string set \<Rightarrow> string list" where
  "missing_of hosts answered = filter (\<lambda>h. h \<notin> answered) hosts"

section \<open>Aggregation\<close>

text \<open>
  Reports arrive in whatever order the hosts finish. The interface of an aggregator whose order of
  steps does not matter, and what follows for a whole run.
\<close>

locale commuting_steps =
  fixes step :: "'i \<Rightarrow> 's \<Rightarrow> 's"
  assumes step_comm: "step x (step y s) = step y (step x s)"
begin

lemma step_fold: "step x (fold step ys s) = fold step ys (step x s)"
  by (induction ys arbitrary: s) (simp_all add: step_comm)

lemma fold_perm: "mset xs = mset ys \<Longrightarrow> fold step xs s = fold step ys s"
  by (rule fun_cong [OF fold_multiset_equiv]) (simp_all add: fun_eq_iff step_comm)

lemma fold_append_comm: "fold step (xs @ ys) s = fold step (ys @ xs) s"
  by (rule fold_perm) simp

end

lemma builder_add_acceptances [simp]: "ob_acceptances (builder_add env r b) = ob_acceptances b"
  by (simp add: builder_add_def Let_def)

interpretation agg: commuting_steps "\<lambda>(env, r). builder_add env r"
proof
  fix x y :: "judge_env \<times> agent_report" and b :: outcome_builder
  show "(case x of (env, r) \<Rightarrow> builder_add env r) ((case y of (env, r) \<Rightarrow> builder_add env r) b)
      = (case y of (env, r) \<Rightarrow> builder_add env r) ((case x of (env, r) \<Rightarrow> builder_add env r) b)"
    by (cases x; cases y; cases b)
      (auto simp: builder_add_def Let_def worse_eq_max max.commute max.left_commute disj_ac
        split: option.splits)
qed

abbreviation add_all :: "(judge_env \<times> agent_report) list \<Rightarrow> outcome_builder \<Rightarrow> outcome_builder" where
  "add_all rs b \<equiv> fold (\<lambda>(env, r). builder_add env r) rs b"

definition report_verdict ::
  "judge_env \<Rightarrow> accept_rule list option \<Rightarrow> agent_report \<Rightarrow> security_verdict" where
  "report_verdict env acc r = security_verdict_from_findings (judged_findings env acc r)"

lemma add_all_acceptances [simp]: "ob_acceptances (add_all rs b) = ob_acceptances b"
  by (induction rs arbitrary: b) auto

lemma add_all_seen: "ob_reports_seen (add_all rs b) = ob_reports_seen b + length rs"
  by (induction rs arbitrary: b) (auto simp: builder_add_def Let_def)

lemma add_all_verdict:
  "ob_verdict (add_all rs b) =
     (if rs = [] then ob_verdict b
      else Some (Max (set (case ob_verdict b of None \<Rightarrow> [] | Some v \<Rightarrow> [v])
                      \<union> set (map (\<lambda>(env, r). report_verdict env (ob_acceptances b) r) rs))))"
proof (induction rs arbitrary: b)
  case (Cons x rs)
  obtain env r where x: "x = (env, r)" by (cases x)
  have v: "ob_verdict (builder_add env r b) = Some (case ob_verdict b of
        None \<Rightarrow> report_verdict env (ob_acceptances b) r
      | Some cur \<Rightarrow> max cur (report_verdict env (ob_acceptances b) r))"
    by (cases "ob_verdict b")
      (simp_all add: builder_add_def Let_def report_verdict_def worse_eq_max)
  show ?case
    using Cons.IH [of "builder_add env r b"]
    by (cases "rs = []"; cases "ob_verdict b") (simp_all add: x v ac_simps)
qed simp

lemma add_all_coverage:
  "ob_coverage (add_all rs b) = (ob_coverage b)
     \<lparr>cov_scanners_failed := cov_scanners_failed (ob_coverage b)
        \<or> (\<exists>(env, r) \<in> set rs. ar_failed_scanners r \<noteq> []),
      cov_non_root := cov_non_root (ob_coverage b)
        \<or> (\<exists>(env, r) \<in> set rs. \<not> ar_is_root_execution r),
      cov_warnings := cov_warnings (ob_coverage b)
        \<or> (\<exists>(env, r) \<in> set rs. ar_scan_warnings r \<noteq> [])\<rparr>"
  by (induction rs arbitrary: b) (auto simp: builder_add_def Let_def)

text \<open>A judge on the machine without files, with no dates, at the epoch, for evaluating examples.\<close>

definition bare_judge :: judge_env where
  "bare_judge =
     \<lparr>je_eval = bare_env,
      je_dates = \<lparr>dp_rfc3339 = (\<lambda>s. None), dp_naive_date = (\<lambda>s. None)\<rparr>, je_now = 0\<rparr>"

section \<open>Properties\<close>

text \<open>
  C3: the exit code decides between five outcomes, and each code means one thing. 3 is exactly a
  confirmed compromise, whatever the coverage and the flag; 0 is exactly a clean verdict with full
  coverage and 1 a critical one with full coverage, so no gap of coverage can look clean; 4 is no
  report at all, or a gap under \<open>--fail-on-incomplete\<close>; 2 is a gap without the flag.
\<close>

theorem exit_code_contract:
  "(exit_code oc fail = 3 \<longleftrightarrow> oc_verdict oc = Some Compromised)
   \<and> (exit_code oc fail = 0 \<longleftrightarrow> oc_verdict oc = Some Clean \<and> is_full (oc_coverage oc))
   \<and> (exit_code oc fail = 1 \<longleftrightarrow> oc_verdict oc = Some Critical \<and> is_full (oc_coverage oc))
   \<and> (exit_code oc fail = 2 \<longleftrightarrow>
        oc_verdict oc \<in> {Some Clean, Some Critical} \<and> \<not> is_full (oc_coverage oc) \<and> \<not> fail)
   \<and> (exit_code oc fail = 4 \<longleftrightarrow>
        oc_verdict oc = None
        \<or> oc_verdict oc \<in> {Some Clean, Some Critical} \<and> \<not> is_full (oc_coverage oc) \<and> fail)
   \<and> exit_code oc fail \<in> {0, 1, 2, 3, 4}"
proof (cases "oc_verdict oc")
  case (Some v)
  then show ?thesis by (cases v) (simp_all add: exit_code_def exit_codes Let_def)
qed (simp add: exit_code_def exit_codes)

text \<open>
  The warnings about coverage are silent exactly when coverage is full: every field that can
  degrade the exit code is explained by a warning, and nothing else is.
\<close>

theorem coverage_always_explained: "warn_for_coverage c missing = [] \<longleftrightarrow> is_full c"
  by (auto simp: warn_for_coverage_def is_full_def)

text \<open>
  The outcome of a run is a function of its reports alone: the verdict is the worst of the
  reports' verdicts and \<open>None\<close> only without reports; each coverage flag is raised exactly when some
  report raises it; and the hosts missing are those requested beyond the reports seen.
\<close>

theorem aggregation_spec:
  "oc_verdict (builder_finish (add_all rs (new_builder acc)) req lost) =
     (if rs = [] then None else Some (Max ((\<lambda>(env, r). report_verdict env acc r) ` set rs)))
   \<and> oc_coverage (builder_finish (add_all rs (new_builder acc)) req lost) =
       \<lparr>cov_hosts_missing = req - length rs, cov_records_lost = lost,
        cov_scanners_failed = (\<exists>(env, r) \<in> set rs. ar_failed_scanners r \<noteq> []),
        cov_non_root = (\<exists>(env, r) \<in> set rs. \<not> ar_is_root_execution r),
        cov_warnings = (\<exists>(env, r) \<in> set rs. ar_scan_warnings r \<noteq> []),
        cov_output_failed = False\<rparr>"
  by (simp add: builder_finish_def add_all_verdict add_all_coverage add_all_seen new_builder_def
      default_coverage_def)

text \<open>
  C12: aggregation does not depend on the order in which hosts report. Any two orders of the same
  reports, each judged in its own environment and under the same policy, give the same outcome and
  the same exit code.
\<close>

theorem aggregation_order:
  assumes "mset rs' = mset rs"
  shows "builder_finish (add_all rs' b) req lost = builder_finish (add_all rs b) req lost
     \<and> exit_code (builder_finish (add_all rs' b) req lost) fail =
         exit_code (builder_finish (add_all rs b) req lost) fail"
  by (simp only: agg.fold_perm [OF assms] simp_thms)

theorem aggregation_order_witness:
  "builder_finish (add_all [(bare_judge, default_agent_report),
       (bare_judge\<lparr>je_now := 1\<rparr>, default_agent_report)] (new_builder None)) 2 0
   = builder_finish (add_all [(bare_judge\<lparr>je_now := 1\<rparr>, default_agent_report),
       (bare_judge, default_agent_report)] (new_builder None)) 2 0"
  by (rule aggregation_order [THEN conjunct1]) (simp add: add_mset_commute)

text \<open>One report under a loaded policy.\<close>

lemma report_verdict_policy:
  "list_all (rule_admitted (je_dates env)) rules \<Longrightarrow>
     report_verdict env (Some rules) r \<le> report_verdict env None r
     \<and> (report_verdict env (Some rules) r = Compromised \<longleftrightarrow> report_verdict env None r = Compromised)"
  using policy.verdict_le [of "(je_dates env, je_now env, rules, hi_hostname (ar_host r))"]
    policy.compromised_stays [of "(je_dates env, je_now env, rules, hi_hostname (ar_host r))"]
  by (simp add: report_verdict_def judged_findings_def)

lemma Max_image_Compromised:
  "rs \<noteq> [] \<Longrightarrow> Max (f ` set rs) = Compromised \<longleftrightarrow> (\<exists>x \<in> set rs. f x = Compromised)"
  by (subst Max_eq_iff) (auto simp: verdict_order image_iff eq_commute [of Compromised])

text \<open>
  C1: no acceptance policy that loads can hide a compromise. A run exits with 3 under a policy read
  from any file exactly when it exits with 3 without one, for any reports in any environments that
  share the policy's date parser and at any clock.
\<close>

theorem policy_cannot_hide_compromise:
  assumes "load_acceptances dp from_json file = Inr rules"
    and "\<forall>(env, r) \<in> set rs. je_dates env = dp"
  shows "exit_code (builder_finish (add_all rs (new_builder (Some rules))) req lost) fail = 3
     \<longleftrightarrow> exit_code (builder_finish (add_all rs (new_builder None)) req lost) fail = 3"
proof -
  have "report_verdict env (Some rules) r = Compromised \<longleftrightarrow> report_verdict env None r = Compromised"
    if "(env, r) \<in> set rs" for env r
  proof -
    have "list_all (rule_admitted (je_dates env)) rules"
      using loaded_admitted [OF assms(1)] assms(2) that by auto
    then show ?thesis by (simp add: report_verdict_policy)
  qed
  then have "(\<exists>x \<in> set rs. (case x of (env, r) \<Rightarrow> report_verdict env (Some rules) r) = Compromised)
      \<longleftrightarrow> (\<exists>x \<in> set rs. (case x of (env, r) \<Rightarrow> report_verdict env None r) = Compromised)"
    by (intro bex_cong refl) (auto split: prod.splits)
  moreover have "exit_code (builder_finish (add_all rs (new_builder acc)) req lost) fail = 3
      \<longleftrightarrow> (\<exists>x \<in> set rs. (case x of (env, r) \<Rightarrow> report_verdict env acc r) = Compromised)" for acc
  proof -
    have "exit_code oc fail = 3 \<longleftrightarrow> oc_verdict oc = Some Compromised" for oc
      by (cases "oc_verdict oc"; cases "the (oc_verdict oc)")
        (simp_all add: exit_code_def exit_codes Let_def)
    then show ?thesis
      by (simp add: builder_finish_def add_all_verdict new_builder_def Max_image_Compromised)
  qed
  ultimately show ?thesis by simp
qed

theorem policy_cannot_hide_compromise_witness:
  "exit_code (builder_finish (add_all [(bare_judge\<lparr>je_dates := example_dates\<rparr>, default_agent_report)]
       (new_builder (Some [example_rule]))) 1 0) False = 3
   \<longleftrightarrow> exit_code (builder_finish (add_all
         [(bare_judge\<lparr>je_dates := example_dates\<rparr>, default_agent_report)] (new_builder None)) 1 0)
       False = 3"
  by (rule policy_cannot_hide_compromise [OF example_load]) simp

end
