(* ===== verification/Resume.thy ===== *)
theory Resume
  imports Outcome
begin

text \<open>
  The JSONL file of a fleet run, \<open>src/main.rs\<close>: what a run appends to it, how \<open>--resume\<close> reads it
  back, and how \<open>compare\<close> reads it. The JSON parser and printer of serde are parameters on a record
  (one line); a file is its bytes, read line by line as \<open>BufRead::read_line\<close> does.
\<close>

section \<open>Lines\<close>

abbreviation NL :: char where "NL \<equiv> CHR 0x0A"

text \<open>The successive results of \<open>read_line\<close>: each line with its terminator, the last one maybe without.\<close>

fun read_lines :: "string \<Rightarrow> string list" where
  "read_lines [] = []"
| "read_lines (c # s) =
     (if c = NL then [c] # read_lines s
      else (case read_lines s of [] \<Rightarrow> [[c]] | l # ls \<Rightarrow> (c # l) # ls))"

lemma concat_read_lines [simp]: "concat (read_lines s) = s"
  by (induction s) (auto split: list.splits)

lemma read_lines_Nil_iff [simp]: "read_lines s = [] \<longleftrightarrow> s = []"
  by (cases s) (auto split: list.splits)

lemma read_lines_nonempty: "l \<in> set (read_lines s) \<Longrightarrow> l \<noteq> []"
  by (induction s arbitrary: l) (auto split: if_splits list.splits)

lemma read_lines_line: "NL \<notin> set u \<Longrightarrow> read_lines (u @ NL # s) = (u @ [NL]) # read_lines s"
  by (induction u) auto

lemma read_lines_tail: "NL \<notin> set u \<Longrightarrow> u \<noteq> [] \<Longrightarrow> read_lines u = [u]"
proof (induction u)
  case (Cons c u)
  then show ?case by (cases u) auto
qed simp

text \<open>Cutting a file after some of its lines leaves those lines.\<close>

lemma read_lines_take:
  "read_lines s = ls @ l # ms \<Longrightarrow> read_lines (concat ls) = ls"
proof (induction s arbitrary: ls l ms)
  case (Cons c s)
  show ?case
  proof (cases ls)
    case Nil
    then show ?thesis by simp
  next
    case ls: (Cons k ks)
    show ?thesis
    proof (cases "c = NL")
      case True
      with Cons.prems ls have "k = [c]" "read_lines s = ks @ l # ms" by auto
      with Cons.IH True ls show ?thesis by simp
    next
      case False
      with Cons.prems ls obtain k' where k: "k = c # k'" "read_lines s = k' # ks @ l # ms"
        by (auto split: list.splits)
      have "read_lines s = (k' # ks) @ l # ms" using k by simp
      from Cons.IH [OF this] have "read_lines (k' @ concat ks) = k' # ks" by simp
      with False ls k show ?thesis by simp
    qed
  qed
qed simp

lemma read_lines_terminated:
  "read_lines s = ls @ l # ms \<Longrightarrow> ms \<noteq> [] \<Longrightarrow> \<exists>u. l = u @ [NL]"
proof (induction s arbitrary: ls l ms)
  case (Cons c s)
  show ?case
  proof (cases "c = NL")
    case True
    with Cons show ?thesis by (cases ls) auto
  next
    case False
    with Cons.prems obtain k ks where k: "read_lines s = k # ks" "ls @ l # ms = (c # k) # ks"
      by (cases "read_lines s"; cases ls) auto
    show ?thesis
    proof (cases ls)
      case Nil
      with k Cons.IH [of "[]" k ks] Cons.prems show ?thesis by (metis append_Cons append_Nil list.inject)
    next
      case (Cons j js)
      with k have "read_lines s = (k # js) @ l # ms" by simp
      from Cons.IH [OF this] Cons.prems show ?thesis by blast
    qed
  qed
qed simp

section \<open>Resuming\<close>

record resume_state =
  rs_done :: "string set"
  rs_needs_newline :: bool

datatype resume_error =
    ResumeCannotOpen string
  | ResumeReadError nat string
  | ResumeInvalid nat string
  | ResumeTorn nat nat
  | ResumeNoAddress nat

text \<open>
  The loop of \<open>resume_scan\<close>: \<open>n\<close> lines and \<open>offset\<close> bytes are read, \<open>terminated\<close> is whether the last
  of them ended in a newline, \<open>failure\<close> the error that ends the input, if one does. The clock may
  differ from record to record, so the environment is indexed by the line.
\<close>

fun resume_loop ::
  "(string \<Rightarrow> string + agent_report) \<Rightarrow> (nat \<Rightarrow> judge_env) \<Rightarrow> string option
   \<Rightarrow> nat \<Rightarrow> nat \<Rightarrow> bool \<Rightarrow> string set \<Rightarrow> outcome_builder \<Rightarrow> string list
   \<Rightarrow> (resume_error + resume_state) \<times> outcome_builder" where
  "resume_loop from_json env failure n offset terminated dn agg [] =
     (case failure of
        Some e \<Rightarrow> (Inl (ResumeReadError (n + 1) e), agg)
      | None \<Rightarrow>
          (Inr \<lparr>rs_done = dn, rs_needs_newline = 0 < offset \<and> \<not> terminated\<rparr>, agg))"
| "resume_loop from_json env failure n offset terminated dn agg (line # ls) =
     (let terminated' = ends_with line [NL];
          rec = trim line
      in if rec = [] then
           resume_loop from_json env failure (n + 1) (offset + length line) terminated' dn agg ls
         else
           (case from_json rec of
              Inl e \<Rightarrow>
                (Inl (if terminated' then ResumeInvalid (n + 1) e else ResumeTorn (n + 1) offset), agg)
            | Inr report \<Rightarrow>
                (case ar_input_address report of
                   None \<Rightarrow> (Inl (ResumeNoAddress (n + 1)), agg)
                 | Some addr \<Rightarrow>
                     resume_loop from_json env failure (n + 1) (offset + length line) terminated'
                       (insert addr dn) (builder_add (env (n + 1)) report agg) ls)))"

text \<open>
  \<open>resume_scan\<close> of a file: it may not open; the bytes that can be read, and the error after them.
\<close>

definition resume_scan ::
  "(string \<Rightarrow> string + agent_report) \<Rightarrow> (nat \<Rightarrow> judge_env) \<Rightarrow> string + string \<times> string option
   \<Rightarrow> outcome_builder \<Rightarrow> (resume_error + resume_state) \<times> outcome_builder" where
  "resume_scan from_json env file agg =
     (case file of
        Inl e \<Rightarrow> (Inl (ResumeCannotOpen e), agg)
      | Inr (content, failure) \<Rightarrow>
          resume_loop from_json env failure 0 0 True {} agg (read_lines content))"

text \<open>The non-blank lines of a file, numbered, and the records on them.\<close>

definition records_from ::
  "(string \<Rightarrow> string + agent_report) \<Rightarrow> nat \<Rightarrow> string list \<Rightarrow> (nat \<times> (string + agent_report)) list" where
  "records_from from_json k ls =
     map (\<lambda>(i, l). (i, from_json (trim l))) (filter (\<lambda>(i, l). trim l \<noteq> []) (enumerate k ls))"

definition reports_from ::
  "(string \<Rightarrow> string + agent_report) \<Rightarrow> nat \<Rightarrow> string list \<Rightarrow> (nat \<times> agent_report) list" where
  "reports_from from_json k ls =
     concat (map (\<lambda>(i, x). case x of Inl e \<Rightarrow> [] | Inr r \<Rightarrow> [(i, r)]) (records_from from_json k ls))"

lemma records_from_simps [simp]:
  "records_from fj k [] = []"
  "records_from fj k (l # ls) =
     (if trim l = [] then [] else [(k, fj (trim l))]) @ records_from fj (Suc k) ls"
  by (simp_all add: records_from_def)

lemma reports_from_simps [simp]:
  "reports_from fj k [] = []"
  "reports_from fj k (l # ls) =
     (if trim l = [] then [] else case fj (trim l) of Inl e \<Rightarrow> [] | Inr r \<Rightarrow> [(k, r)])
     @ reports_from fj (Suc k) ls"
  by (simp_all add: reports_from_def)

lemma reports_from_append:
  "reports_from fj k (ls @ ms) = reports_from fj k ls @ reports_from fj (k + length ls) ms"
  by (induction ls arbitrary: k) auto

lemma records_from_append:
  "records_from fj k (ls @ ms) = records_from fj k ls @ records_from fj (k + length ls) ms"
  by (induction ls arbitrary: k) auto

text \<open>A record that can be credited: it parses and carries the address it was scanned at.\<close>

definition creditable :: "nat \<times> (string + agent_report) \<Rightarrow> bool" where
  "creditable x = (case snd x of Inl e \<Rightarrow> False | Inr r \<Rightarrow> ar_input_address r \<noteq> None)"

lemma creditable_simps [simp]:
  "creditable (k, Inl e) = False"
  "creditable (k, Inr r) = (ar_input_address r \<noteq> None)"
  by (simp_all add: creditable_def)

abbreviation addresses :: "(nat \<times> agent_report) list \<Rightarrow> string set" where
  "addresses rs \<equiv> {a. \<exists>(i, r) \<in> set rs. ar_input_address r = Some a}"

lemma resume_loop_Ok:
  "list_all creditable (records_from fj (Suc n) ls) \<Longrightarrow>
     resume_loop fj env None n off tm dn agg ls =
       (Inr \<lparr>rs_done = dn \<union> addresses (reports_from fj (Suc n) ls),
             rs_needs_newline = 0 < off + length (concat ls)
               \<and> \<not> (if ls = [] then tm else ends_with (last ls) [NL])\<rparr>,
        fold (\<lambda>(i, r). builder_add (env i) r) (reports_from fj (Suc n) ls) agg)"
proof (induction ls arbitrary: n off tm dn agg)
  case (Cons l ls)
  show ?case
  proof (cases "trim l = []")
    case True
    with Cons show ?thesis by (simp add: Let_def add.assoc)
  next
    case False
    with Cons.prems obtain r a where r: "fj (trim l) = Inr r" "ar_input_address r = Some a"
      by (auto simp: creditable_def split: sum.splits)
    have "list_all creditable (records_from fj (Suc (Suc n)) ls)"
      using Cons.prems False by simp
    note IH = Cons.IH [OF this]
    show ?thesis
      using False r by (auto simp: Let_def IH add.assoc)
  qed
qed simp

lemma resume_loop_Inr_creditable:
  "fst (resume_loop fj env failure n off tm dn agg ls) = Inr st \<Longrightarrow>
     failure = None \<and> list_all creditable (records_from fj (Suc n) ls)"
proof (induction ls arbitrary: n off tm dn agg)
  case (Cons l ls)
  then show ?case
    by (auto simp: Let_def split: if_splits sum.splits option.splits)
qed (auto split: option.splits)

text \<open>A torn record: everything before it is creditable, and the offset is where it starts.\<close>

lemma resume_loop_torn:
  "fst (resume_loop fj env failure n off tm dn agg raw) = Inl (ResumeTorn k start) \<Longrightarrow>
     \<exists>ls l ms. raw = ls @ l # ms \<and> start = off + length (concat ls)
       \<and> k = n + length ls + 1 \<and> \<not> ends_with l [NL]
       \<and> list_all creditable (records_from fj (Suc n) ls)"
proof (induction raw arbitrary: n off tm dn agg)
  case (Cons l ls)
  show ?case
  proof (cases "creditable (0, fj (trim l)) \<or> trim l = []")
    case True
    then obtain off' tm' dn' agg' where
      "fst (resume_loop fj env failure (n + 1) (off + length l) tm' dn' agg' ls)
         = Inl (ResumeTorn k start)"
      using Cons.prems
      by (auto simp: Let_def split: if_splits sum.splits option.splits)
    from Cons.IH [OF this] obtain ks l' ms where *: "ls = ks @ l' # ms"
      "start = off + length l + length (concat ks)" "k = n + 1 + length ks + 1"
      "\<not> ends_with l' [NL]" "list_all creditable (records_from fj (Suc (n + 1)) ks)"
      by blast
    have "list_all creditable (records_from fj (Suc n) (l # ks))"
      using True * by (auto simp: creditable_def)
    with * show ?thesis by (intro exI [of _ "l # ks"] exI [of _ l'] exI [of _ ms]) simp
  next
    case False
    with Cons.prems have "start = off" "k = n + 1" "\<not> ends_with l [NL]"
      by (auto simp: Let_def split: if_splits sum.splits option.splits)
    then show ?thesis by (intro exI [of _ "[]"] exI [of _ l] exI [of _ ls]) simp
  qed
qed (auto split: option.splits)

section \<open>Appending\<close>

text \<open>
  The writer: one line per report, after a newline for a last record that has none. \<open>to_json\<close> is
  serde's printer; a report it cannot print is dropped and counted as lost.
\<close>

fun written_lines :: "(agent_report \<Rightarrow> string option) \<Rightarrow> agent_report list \<Rightarrow> string list \<times> nat" where
  "written_lines to_json [] = ([], 0)"
| "written_lines to_json (r # rs) =
     (case written_lines to_json rs of (ls, lost) \<Rightarrow>
        (case to_json r of None \<Rightarrow> (ls, lost + 1) | Some t \<Rightarrow> ((t @ [NL]) # ls, lost)))"

definition append_records ::
  "(agent_report \<Rightarrow> string option) \<Rightarrow> string \<Rightarrow> bool \<Rightarrow> agent_report list \<Rightarrow> string \<times> nat" where
  "append_records to_json content needs_newline rs =
     (case written_lines to_json rs of (ls, lost) \<Rightarrow>
        (content @ (if needs_newline then [NL] else []) @ concat ls, lost))"

text \<open>What the writer relies on: a record is one line that the parser reads back.\<close>

definition record_codec ::
  "(agent_report \<Rightarrow> string option) \<Rightarrow> (string \<Rightarrow> string + agent_report) \<Rightarrow> agent_report \<Rightarrow> bool" where
  "record_codec to_json from_json r \<longleftrightarrow>
     (\<exists>t. to_json r = Some t \<and> NL \<notin> set t \<and> trim (t @ [NL]) \<noteq> []
          \<and> from_json (trim (t @ [NL])) = Inr r \<and> ar_input_address r \<noteq> None)"

lemma ends_with_NL: "ends_with l [NL] \<longleftrightarrow> (\<exists>u. l = u @ [NL])"
  by (auto simp: ends_with_iff)

lemma read_lines_append_NL:
  "s = [] \<or> last s = NL \<Longrightarrow> read_lines (s @ t) = read_lines s @ read_lines t"
proof (induction s)
  case (Cons c s)
  show ?case
  proof (cases "c = NL")
    case True
    with Cons show ?thesis by (cases s) auto
  next
    case False
    with Cons.prems have "s \<noteq> []" "last s = NL" by (auto split: if_splits)
    with Cons.IH False show ?thesis
      by (cases "read_lines s") auto
  qed
qed simp

lemma read_lines_add_NL:
  "s \<noteq> [] \<Longrightarrow> last s \<noteq> NL \<Longrightarrow>
     read_lines (s @ [NL]) = butlast (read_lines s) @ [last (read_lines s) @ [NL]]"
proof (induction s)
  case (Cons c s)
  show ?case
  proof (cases "s = []")
    case False
    with Cons have IH: "read_lines (s @ [NL]) = butlast (read_lines s) @ [last (read_lines s) @ [NL]]"
      by simp
    obtain l ls where "read_lines s = l # ls" using False by (cases "read_lines s") auto
    with IH show ?thesis by (cases ls) auto
  qed (use Cons in simp)
qed simp

lemma read_lines_written:
  "list_all (record_codec to_json fj) rs \<Longrightarrow>
     read_lines (concat (fst (written_lines to_json rs))) = fst (written_lines to_json rs)
     \<and> snd (written_lines to_json rs) = 0
     \<and> list_all creditable (records_from fj k (fst (written_lines to_json rs)))
     \<and> map snd (reports_from fj k (fst (written_lines to_json rs))) = rs"
proof (induction rs arbitrary: k)
  case (Cons r rs)
  then obtain t where t: "to_json r = Some t" "NL \<notin> set t" "trim (t @ [NL]) \<noteq> []"
    "fj (trim (t @ [NL])) = Inr r" "ar_input_address r \<noteq> None"
    by (auto simp: record_codec_def)
  obtain ls lost where w: "written_lines to_json rs = (ls, lost)" by fastforce
  from Cons.IH [of "Suc k"] Cons.prems w
  have "read_lines (concat ls) = ls" "lost = 0" "list_all creditable (records_from fj (Suc k) ls)"
    "map snd (reports_from fj (Suc k) ls) = rs" by auto
  with t w show ?case using read_lines_line [of t "concat ls"] by simp
qed simp

text \<open>A newline at the end of a line does not change what is on it.\<close>

lemma strip_prefix_snoc:
  "length w \<le> length l \<or> x \<notin> set w \<Longrightarrow>
     strip_prefix w (l @ [x]) = map_option (\<lambda>r. r @ [x]) (strip_prefix w l)"
  by (induction w l rule: strip_prefix.induct) auto

lemma strip_one_snoc:
  "l \<noteq> [] \<Longrightarrow> (\<And>w. w \<in> set ws \<Longrightarrow> w = [x] \<or> x \<notin> set w) \<Longrightarrow>
     strip_one ws (l @ [x]) = map_option (\<lambda>r. r @ [x]) (strip_one ws l)"
proof (induction ws)
  case (Cons w ws)
  have "length w \<le> length l \<or> x \<notin> set w"
    using Cons.prems(1) Cons.prems(2) [of w] by (cases l) auto
  then show ?case
    using Cons by (simp add: strip_prefix_snoc split: option.splits)
qed simp

lemma strip_one_hit:
  "[x] \<in> set ws \<Longrightarrow> list_all (\<lambda>w. w = [x] \<or> w \<noteq> [] \<and> hd w \<noteq> x) ws \<Longrightarrow>
     strip_one ws (x # s) = Some s"
proof (induction ws)
  case (Cons w ws)
  then show ?case by (cases w) auto
qed simp

lemma strip_one_empty: "list_all (\<lambda>w. w \<noteq> []) ws \<Longrightarrow> strip_one ws [] = None"
proof (induction ws)
  case (Cons w ws)
  then show ?case by (cases w) auto
qed simp

lemma white_space_newline:
  "list_all (\<lambda>w. w = [NL] \<or> NL \<notin> set w) white_space"
  "list_all (\<lambda>w. w = [NL] \<or> w \<noteq> [] \<and> hd w \<noteq> NL) (filter (\<lambda>w. w \<noteq> []) white_space)"
  "list_all (\<lambda>w. w = [NL] \<or> w \<noteq> [] \<and> hd w \<noteq> NL)
     (filter (\<lambda>w. w \<noteq> []) (map rev white_space))"
  "[NL] \<in> set (filter (\<lambda>w. w \<noteq> []) white_space)"
  "[NL] \<in> set (filter (\<lambda>w. w \<noteq> []) (map rev white_space))"
  by (simp_all add: white_space_literals)

lemma strip_one_newline: "strip_one (filter (\<lambda>w. w \<noteq> []) white_space) [NL] = Some []"
  by (rule strip_one_hit [OF white_space_newline(4,2)])

lemma trim_left_newline:
  "trim_by white_space (l @ [NL]) =
     (if trim_by white_space l = [] then [] else trim_by white_space l @ [NL])"
proof (induction l rule: length_induct)
  case (1 l)
  let ?ws = "filter (\<lambda>w. w \<noteq> []) white_space"
  show ?case
  proof (cases "l = []")
    case True
    have "strip_one ?ws [] = None" by (rule strip_one_empty) (simp add: list_all_iff)
    then show ?thesis
      using True strip_one_newline by (simp add: trim_by.simps [of _ "[NL]"] trim_by.simps [of _ "[]"])
  next
    case False
    have step: "strip_one ?ws (l @ [NL]) = map_option (\<lambda>r. r @ [NL]) (strip_one ?ws l)"
      by (rule strip_one_snoc [OF False]) (use white_space_newline(1) in \<open>auto simp: list_all_iff\<close>)
    show ?thesis
    proof (cases "strip_one ?ws l")
      case None
      with step False show ?thesis
        by (simp add: trim_by.simps [of _ "l @ [NL]"] trim_by.simps [of _ l])
    next
      case (Some r)
      then have "length r < length l" by (auto dest: strip_one_shorter)
      with 1 have "trim_by white_space (r @ [NL]) =
          (if trim_by white_space r = [] then [] else trim_by white_space r @ [NL])" by blast
      with step Some show ?thesis
        by (simp add: trim_by.simps [of _ "l @ [NL]"] trim_by.simps [of _ l])
    qed
  qed
qed

lemma trim_right_newline:
  "trim_by (map rev white_space) (NL # s) = trim_by (map rev white_space) s"
proof -
  have "strip_one (filter (\<lambda>w. w \<noteq> []) (map rev white_space)) (NL # s) = Some s"
    by (rule strip_one_hit [OF white_space_newline(5,3)])
  then show ?thesis by (simp only: trim_by.simps [of _ "NL # s"] option.case)
qed

lemma trim_newline [simp]: "trim (l @ [NL]) = trim l"
  by (simp add: trim_def trim_left_newline trim_right_newline)

text \<open>The whole of \<open>resume_scan\<close> on a file, by its lines.\<close>

lemma resume_scan_Ok:
  "list_all creditable (records_from fj 1 (read_lines content)) \<Longrightarrow>
     resume_scan fj env (Inr (content, None)) agg =
       (Inr \<lparr>rs_done = addresses (reports_from fj 1 (read_lines content)),
             rs_needs_newline = content \<noteq> [] \<and> \<not> ends_with (last (read_lines content)) [NL]\<rparr>,
        fold (\<lambda>(i, r). builder_add (env i) r) (reports_from fj 1 (read_lines content)) agg)"
  by (simp add: resume_scan_def resume_loop_Ok)

lemma resume_scan_Inr:
  "fst (resume_scan fj env (Inr (content, failure)) agg) = Inr st \<Longrightarrow>
     failure = None \<and> list_all creditable (records_from fj 1 (read_lines content))"
  by (auto simp: resume_scan_def dest: resume_loop_Inr_creditable)

lemma fold_add_seen:
  "ob_reports_seen (fold (\<lambda>(i, r). builder_add (env i) r) rs b) = ob_reports_seen b + length rs"
  by (induction rs arbitrary: b) (auto simp: builder_add_def Let_def)

lemma records_from_last_newline:
  "ls \<noteq> [] \<Longrightarrow> records_from fj k (butlast ls @ [last ls @ [NL]]) = records_from fj k ls"
  by (induction ls arbitrary: k) auto

lemma last_read_lines:
  "content \<noteq> [] \<Longrightarrow> ends_with (last (read_lines content)) [NL] \<longleftrightarrow> last content = NL"
proof -
  assume c: "content \<noteq> []"
  let ?ls = "read_lines content"
  have ne: "?ls \<noteq> []" "last ?ls \<noteq> []"
    using c read_lines_nonempty [of "last ?ls" content] by auto
  have "content = concat (butlast ?ls) @ last ?ls"
    using concat_read_lines [of content] ne(1)
    by (metis append_butlast_last_id concat.simps(1,2) concat_append append_Nil2)
  then have "last content = last (last ?ls)" using ne(2) by (metis last_appendR)
  then show ?thesis
    using ne(2) by (metis append_butlast_last_id ends_with_NL last_snoc)
qed

text \<open>Reading back what was appended to a file that can be resumed.\<close>

lemma read_lines_appended:
  assumes "\<not> nn \<longrightarrow> content = [] \<or> last content = NL" "nn \<longrightarrow> content \<noteq> [] \<and> last content \<noteq> NL"
  shows "read_lines (content @ (if nn then [NL] else []) @ t) =
     (if nn then butlast (read_lines content) @ [last (read_lines content) @ [NL]]
      else read_lines content) @ read_lines t"
proof (cases nn)
  case True
  then have "read_lines ((content @ [NL]) @ t) = read_lines (content @ [NL]) @ read_lines t"
    by (intro read_lines_append_NL) simp
  then show ?thesis using True assms(2) read_lines_add_NL by simp
next
  case False
  then show ?thesis using assms(1) read_lines_append_NL by simp
qed

section \<open>Reading a file to compare\<close>

datatype compare_error =
    CompareCannotOpen string
  | CompareReadFailed string
  | CompareEmpty
  | CompareBadArray string
  | CompareBadFirst string
  | CompareUnreadable "(nat \<times> string) list" nat nat

text \<open>The first line that is not blank, trimmed, and the lines after it.\<close>

fun first_content :: "string list \<Rightarrow> (string \<times> string list) option" where
  "first_content [] = None"
| "first_content (l # ls) = (if trim l = [] then first_content ls else Some (trim l, ls))"

text \<open>
  The loop over the records after the first: the reports read and the bad lines, numbered from the
  counter \<open>line_no\<close>.
\<close>

fun compare_loop ::
  "(string \<Rightarrow> string + agent_report) \<Rightarrow> nat \<Rightarrow> string list
   \<Rightarrow> agent_report list \<times> (nat \<times> string) list" where
  "compare_loop from_json line_no [] = ([], [])"
| "compare_loop from_json line_no (l # ls) =
     (case compare_loop from_json (line_no + 1) ls of (reports, bad) \<Rightarrow>
        if trim l = [] then (reports, bad)
        else
          (case from_json (trim l) of
             Inr r \<Rightarrow> (r # reports, bad)
           | Inl e \<Rightarrow> (reports, (line_no + 1, e) # bad)))"

definition parse_jsonl_strict_path ::
  "(string \<Rightarrow> string + agent_report) \<Rightarrow> (string \<Rightarrow> string + agent_report list)
   \<Rightarrow> string + string \<times> string option \<Rightarrow> compare_error + agent_report list" where
  "parse_jsonl_strict_path from_json array_from_json file =
     (case file of
        Inl e \<Rightarrow> Inl (CompareCannotOpen e)
      | Inr (content, failure) \<Rightarrow>
          (case first_content (read_lines content) of
             None \<Rightarrow> Inl (case failure of Some e \<Rightarrow> CompareReadFailed e | None \<Rightarrow> CompareEmpty)
           | Some (first, ls) \<Rightarrow>
               if starts_with first ''['' then
                 (case failure of
                    Some e \<Rightarrow> Inl (CompareReadFailed e)
                  | None \<Rightarrow>
                      (case array_from_json (first @ concat ls) of
                         Inl e \<Rightarrow> Inl (CompareBadArray e) | Inr reports \<Rightarrow> Inr reports))
               else
                 (case from_json first of
                    Inl e \<Rightarrow> Inl (CompareBadFirst e)
                  | Inr report \<Rightarrow>
                      (case failure of
                         Some e \<Rightarrow> Inl (CompareReadFailed e)
                       | None \<Rightarrow>
                           (case compare_loop from_json 1 ls of (reports, bad) \<Rightarrow>
                              if bad \<noteq> [] then
                                Inl (CompareUnreadable (take 5 bad) (length bad)
                                       (length bad + length (report # reports)))
                              else Inr (report # reports))))))"

lemma compare_loop_good:
  "snd (compare_loop fj n ls) = [] \<longleftrightarrow> (\<forall>l \<in> set ls. trim l \<noteq> [] \<longrightarrow> (\<exists>r. fj (trim l) = Inr r))"
proof (induction ls arbitrary: n)
  case (Cons l ls)
  then show ?case
    using Cons.IH [of "Suc n"] by (cases "compare_loop fj (Suc n) ls") (auto split: sum.splits)
qed simp

lemma compare_loop_reports:
  "snd (compare_loop fj n ls) = [] \<Longrightarrow>
     map Inr (fst (compare_loop fj n ls)) = map (fj \<circ> trim) (filter (\<lambda>l. trim l \<noteq> []) ls)"
proof (induction ls arbitrary: n)
  case (Cons l ls)
  then show ?case
    using Cons.IH [of "Suc n"]
    by (cases "compare_loop fj (Suc n) ls") (auto split: sum.splits if_splits)
qed simp

lemma first_content_filter:
  "first_content ls = Some (t, ms) \<Longrightarrow>
     \<exists>l. t = trim l \<and> t \<noteq> [] \<and> filter (\<lambda>l. trim l \<noteq> []) ls = l # filter (\<lambda>l. trim l \<noteq> []) ms"
  by (induction ls) (auto split: if_splits)

lemma first_content_None: "first_content ls = None \<longleftrightarrow> filter (\<lambda>l. trim l \<noteq> []) ls = []"
  by (induction ls) auto

section \<open>Properties\<close>

text \<open>
  C4: \<open>--resume\<close> credits all of a file or none of it. It succeeds exactly when the file can be read
  to its end and every line that is not blank parses and carries the address it was scanned at;
  then the hosts done are exactly the addresses on the records, every record is aggregated once, in
  order, and a newline is owed exactly when the file does not end in one.
\<close>

theorem resume_all_or_nothing:
  "resume_scan from_json env (Inr (content, failure)) agg = (Inr st, agg') \<longleftrightarrow>
     failure = None
     \<and> list_all creditable (records_from from_json 1 (read_lines content))
     \<and> rs_done st = addresses (reports_from from_json 1 (read_lines content))
     \<and> rs_needs_newline st = (content \<noteq> [] \<and> last content \<noteq> NL)
     \<and> agg' = fold (\<lambda>(i, r). builder_add (env i) r)
         (reports_from from_json 1 (read_lines content)) agg"
  (is "?run = _ \<longleftrightarrow> ?ok")
proof
  assume run: "?run = (Inr st, agg')"
  then have "failure = None \<and> list_all creditable (records_from from_json 1 (read_lines content))"
    using resume_scan_Inr [of from_json env content failure agg st] by simp
  with run show ?ok
    using resume_scan_Ok [of from_json content env agg] last_read_lines [of content] by auto
next
  assume ok: ?ok
  then show "?run = (Inr st, agg')"
    using resume_scan_Ok [of from_json content env agg] last_read_lines [of content]
    by (cases st) auto
qed

text \<open>
  C21: the advice for a torn file repairs it. When \<open>resume_scan\<close> refuses a file because its last
  record is torn and names an offset, truncating the file there loses no complete line and leaves a
  file that can be resumed, with nothing owed.
\<close>

theorem torn_file_repair:
  assumes "fst (resume_scan from_json env (Inr (content, failure)) agg) = Inl (ResumeTorn n start)"
  shows "start < length content
     \<and> NL \<notin> set (drop start content)
     \<and> (\<exists>st agg'. resume_scan from_json env (Inr (take start content, None)) agg = (Inr st, agg')
          \<and> \<not> rs_needs_newline st)"
proof -
  obtain ls l ms where *: "read_lines content = ls @ l # ms" "start = length (concat ls)"
    "\<not> ends_with l [NL]" "list_all creditable (records_from from_json 1 ls)"
    using resume_loop_torn [of from_json env failure 0 0 True "{}" agg "read_lines content" n start]
      assms by (auto simp: resume_scan_def)
  have "ms = []"
    using read_lines_terminated [OF *(1)] *(3) by (auto simp: ends_with_NL)
  then have content: "content = concat ls @ l"
    using concat_read_lines [of content] *(1) by simp
  have l: "l \<noteq> []" using read_lines_nonempty [of l content] *(1) by simp
  have cut: "take start content = concat ls" "drop start content = l"
    using content *(2) by simp_all
  have lines: "read_lines (concat ls) = ls" by (rule read_lines_take [OF *(1)])
  have closed: "concat ls = [] \<or> last (concat ls) = NL"
  proof (cases "ls = []")
    case False
    have "\<exists>u. last ls = u @ [NL]"
      using read_lines_terminated [of content "butlast ls" "last ls" "[l]"] *(1) \<open>ms = []\<close> False by simp
    then show ?thesis
      using False by (metis concat_append append_butlast_last_id concat.simps append_Nil2 last_appendR
          last_snoc snoc_eq_iff_butlast)
  qed simp
  have "read_lines content = ls @ read_lines l"
    using content lines closed read_lines_append_NL [of "concat ls" l] by simp
  then have one: "read_lines l = [l]" using *(1) \<open>ms = []\<close> by simp
  have no_newline: "NL \<notin> set l"
  proof
    assume "NL \<in> set l"
    then obtain u v where "l = u @ NL # v" "NL \<notin> set u" by (meson split_list_first)
    with one read_lines_line [of u v] have "l = u @ [NL]" by (metis list.inject)
    with *(3) show False by (simp add: ends_with_NL)
  qed
  obtain st agg' where "resume_scan from_json env (Inr (concat ls, None)) agg = (Inr st, agg')"
    "rs_needs_newline st = (concat ls \<noteq> [] \<and> \<not> ends_with (last (read_lines (concat ls))) [NL])"
    using resume_scan_Ok [of from_json "concat ls" env agg] lines *(4) by simp
  then show ?thesis
    using cut l no_newline closed last_read_lines [of "concat ls"] content *(2) by auto
qed

text \<open>A parser that knows one record, for evaluating examples.\<close>

definition example_report :: agent_report where
  "example_report = default_agent_report\<lparr>ar_input_address := Some ''10.0.0.7''\<rparr>"

definition example_from_json :: "string \<Rightarrow> string + agent_report" where
  "example_from_json t = (if t = ''r'' then Inr example_report else Inl ''expected value'')"

definition example_to_json :: "agent_report \<Rightarrow> string option" where
  "example_to_json r = Some ''r''"

lemma example_trims:
  "trim ''r'' = ''r''" "trim [CHR ''r'', NL] = ''r''" "trim ''{'' = ''{''" "trim [CHR ''{'', NL] = ''{''"
proof -
  show r: "trim ''r'' = ''r''" by (rule trim_visible) (simp_all add: visible_def)
  then show "trim [CHR ''r'', NL] = ''r''" using trim_newline [of "''r''"] by simp
  show b: "trim ''{'' = ''{''" by (rule trim_visible) (simp_all add: visible_def)
  then show "trim [CHR ''{'', NL] = ''{''" using trim_newline [of "''{''"] by simp
qed

theorem torn_file_repair_witness:
  "fst (resume_scan example_from_json (\<lambda>n. bare_judge) (Inr (''r'' @ NL # ''{'', None))
         (new_builder None)) = Inl (ResumeTorn 2 2)
   \<and> (\<exists>st agg'. resume_scan example_from_json (\<lambda>n. bare_judge) (Inr (''r'' @ [NL], None))
         (new_builder None) = (Inr st, agg'))"
proof -
  have torn: "fst (resume_scan example_from_json (\<lambda>n. bare_judge) (Inr (''r'' @ NL # ''{'', None))
         (new_builder None)) = Inl (ResumeTorn 2 2)"
    by (simp add: resume_scan_def example_trims example_from_json_def example_report_def ends_with_def
        Let_def)
  from torn_file_repair [OF torn] show ?thesis using torn by auto
qed

text \<open>
  C13: what a run appends to a file it resumed is there for the next one. If the file could be
  resumed and the reports serialize to lines that parse back, then nothing is lost, the new file can
  be resumed, the hosts done are the old ones and the new ones, and every record, old or new, is
  counted once. The newline owed for an unterminated last record keeps two records from fusing.
\<close>

theorem append_then_resume:
  assumes "fst (resume_scan from_json env (Inr (content, None)) agg) = Inr st"
    and "list_all (record_codec to_json from_json) rs"
    and "append_records to_json content (rs_needs_newline st) rs = (content', lost)"
  shows "lost = 0
     \<and> (\<exists>st' agg'. resume_scan from_json env' (Inr (content', None)) agg2 = (Inr st', agg')
          \<and> rs_done st' = rs_done st \<union> {a. \<exists>r \<in> set rs. ar_input_address r = Some a}
          \<and> ob_reports_seen agg' =
              ob_reports_seen agg2 + length (reports_from from_json 1 (read_lines content)) + length rs)"
proof -
  let ?old = "read_lines content"
  obtain ws where w: "written_lines to_json rs = (ws, lost)"
    "content' = content @ (if rs_needs_newline st then [NL] else []) @ concat ws"
    using assms(3) by (auto simp: append_records_def split: prod.splits)
  have written: "read_lines (concat ws) = ws" "lost = 0"
    "list_all creditable (records_from from_json k ws)" "map snd (reports_from from_json k ws) = rs" for k
    using read_lines_written [OF assms(2), of k] w(1) by simp_all
  have old: "list_all creditable (records_from from_json 1 ?old)"
    using resume_scan_Inr [OF assms(1)] by simp
  have st_is: "st = \<lparr>rs_done = addresses (reports_from from_json 1 ?old),
      rs_needs_newline = content \<noteq> [] \<and> \<not> ends_with (last ?old) [NL]\<rparr>"
    using resume_scan_Ok [OF old, of env agg] assms(1) by simp
  have st: "rs_done st = addresses (reports_from from_json 1 ?old)" by (subst st_is) (simp only: resume_state.select_convs)
  have st2: "rs_needs_newline st \<longleftrightarrow> content \<noteq> [] \<and> last content \<noteq> NL"
    unfolding st_is using last_read_lines [of content] by auto
  define new where "new = (if rs_needs_newline st then butlast ?old @ [last ?old @ [NL]] else ?old)"
  have len: "length new = length ?old" and rec: "records_from from_json 1 new = records_from from_json 1 ?old"
    using st2 records_from_last_newline [of ?old] by (auto simp: new_def)
  then have rep: "reports_from from_json 1 new = reports_from from_json 1 ?old"
    by (simp add: reports_from_def)
  have lines': "read_lines content' = new @ ws"
    unfolding w(2) new_def using st2 by (subst read_lines_appended) (auto simp: written(1))
  have good: "list_all creditable (records_from from_json 1 (read_lines content'))"
    by (simp only: lines' records_from_append rec old written(3) list_all_append simp_thms)
  have "{a. \<exists>(i, r) \<in> set (reports_from from_json k ws). ar_input_address r = Some a}
      = {a. \<exists>r \<in> set rs. ar_input_address r = Some a}" for k
    unfolding written(4) [of k, symmetric] by (force simp: case_prod_beta)
  then have "addresses (reports_from from_json 1 (read_lines content'))
      = rs_done st \<union> {a. \<exists>r \<in> set rs. ar_input_address r = Some a}"
    by (simp only: lines' reports_from_append rep st set_append bex_Un Collect_disj_eq)
  moreover have "length (reports_from from_json 1 (read_lines content'))
      = length (reports_from from_json 1 ?old) + length rs"
    using written(4) by (metis length_append length_map lines' reports_from_append rep)
  ultimately show ?thesis
    using resume_scan_Ok [OF good, of env' agg2] written(2) by (simp add: fold_add_seen)
qed

theorem append_then_resume_witness:
  "append_records example_to_json ''r'' True [example_report] = (''r'' @ NL # ''r'' @ [NL], 0)
   \<and> (\<exists>st' agg'. resume_scan example_from_json (\<lambda>n. bare_judge)
         (Inr (''r'' @ NL # ''r'' @ [NL], None)) (new_builder None) = (Inr st', agg')
       \<and> ob_reports_seen agg' = 2)"
proof -
  have run: "fst (resume_scan example_from_json (\<lambda>n. bare_judge) (Inr (''r'', None)) (new_builder None))
      = Inr \<lparr>rs_done = {''10.0.0.7''}, rs_needs_newline = True\<rparr>"
    by (simp add: resume_scan_def example_trims example_from_json_def example_report_def ends_with_def
        Let_def)
  have codec: "list_all (record_codec example_to_json example_from_json) [example_report]"
    by (simp add: record_codec_def example_to_json_def example_from_json_def example_trims
        example_report_def)
  have app: "append_records example_to_json ''r''
      (rs_needs_newline \<lparr>rs_done = {''10.0.0.7''}, rs_needs_newline = True\<rparr>) [example_report]
      = (''r'' @ NL # ''r'' @ [NL], 0)"
    by (simp add: append_records_def example_to_json_def)
  have "length (reports_from example_from_json 1 (read_lines ''r'')) = 1"
    by (simp add: example_trims example_from_json_def)
  then show ?thesis
    using append_then_resume [OF run codec app, of "\<lambda>n. bare_judge" "new_builder None"] app
    by (auto simp: new_builder_def)
qed

text \<open>
  \<open>compare\<close> never drops a record of a JSONL file. For a file whose first line with content does
  not open an array, the reader returns reports exactly when the file can be read to its end, has
  content, and every line with content parses; and then it returns one report per such line, in
  order.
\<close>

theorem compare_reads_every_record:
  "let contents = map trim (filter (\<lambda>l. trim l \<noteq> []) (read_lines content)) in
   \<not> (contents \<noteq> [] \<and> starts_with (hd contents) ''['') \<longrightarrow>
     (parse_jsonl_strict_path from_json array_from_json (Inr (content, failure)) = Inr reports
      \<longleftrightarrow> failure = None \<and> contents \<noteq> [] \<and> map from_json contents = map Inr reports)"
proof (cases "first_content (read_lines content)")
  case None
  then show ?thesis
    by (simp add: parse_jsonl_strict_path_def first_content_None [symmetric])
next
  case (Some p)
  obtain t ls where p: "p = (t, ls)" by (cases p)
  obtain l where l: "t = trim l" "t \<noteq> []"
    "filter (\<lambda>l. trim l \<noteq> []) (read_lines content) = l # filter (\<lambda>l. trim l \<noteq> []) ls"
    using first_content_filter Some p by blast
  obtain rs bad where c: "compare_loop from_json 1 ls = (rs, bad)" by fastforce
  have good: "bad = [] \<longleftrightarrow> (\<forall>l \<in> set ls. trim l \<noteq> [] \<longrightarrow> (\<exists>r. from_json (trim l) = Inr r))"
    using compare_loop_good [of from_json 1 ls] c by simp
  have all: "bad = [] \<Longrightarrow> map Inr rs = map (from_json \<circ> trim) (filter (\<lambda>l. trim l \<noteq> []) ls)"
    using compare_loop_reports [of from_json 1 ls] c by simp
  have inj: "map Inr xs = (map Inr ys :: (string + agent_report) list) \<longleftrightarrow> xs = ys" for xs ys
    by (simp add: inj_map_eq_map)
  have parsed: "map (from_json \<circ> trim) (filter (\<lambda>l. trim l \<noteq> []) ls) = map Inr qs \<Longrightarrow> bad = []" for qs
  proof -
    assume eq: "map (from_json \<circ> trim) (filter (\<lambda>l. trim l \<noteq> []) ls) = map Inr qs"
    have "from_json (trim l) \<in> Inr ` set qs" if "l \<in> set ls" "trim l \<noteq> []" for l
    proof -
      have "from_json (trim l) \<in> set (map (from_json \<circ> trim) (filter (\<lambda>l. trim l \<noteq> []) ls))"
        using that by simp
      then show ?thesis unfolding eq by simp
    qed
    then show "bad = []" unfolding good by blast
  qed
  show ?thesis
  proof (cases "from_json t")
    case (Inl e)
    then show ?thesis
      using Some p l by (auto simp: parse_jsonl_strict_path_def Let_def Cons_eq_map_conv)
  next
    case (Inr r)
    show ?thesis
      using Some p l Inr c all parsed inj
      by (cases reports; cases failure; cases "bad = []")
        (auto simp: parse_jsonl_strict_path_def Let_def)
  qed
qed

lemma example_blank: "trim [NL] = []"
  using trim_newline [of "[]"] by (simp add: trim_def trim_by.simps [of _ "[]"] strip_one_empty list_all_iff)

theorem compare_reads_every_record_witness:
  "parse_jsonl_strict_path example_from_json (\<lambda>t. Inl ''no array'')
     (Inr (NL # ''r'' @ NL # ''r'', None)) = Inr [example_report, example_report]"
  using compare_reads_every_record [of "NL # ''r'' @ NL # ''r''" example_from_json
      "\<lambda>t. Inl ''no array''" None "[example_report, example_report]"]
  by (simp add: example_trims example_blank example_from_json_def)

text \<open>
  A report written over several lines is refused. When the first line of a file holds only the
  opening brace of an object, as in the indented JSON that \<open>src/output.rs\<close> writes for one host, the
  reader parses that line alone and fails, whatever follows; although the whole file may be a valid
  report.
\<close>

theorem indented_report_refused:
  assumes "from_json ''{'' = Inl e"
  shows "parse_jsonl_strict_path from_json array_from_json (Inr (''{'' @ NL # rest, failure))
     = Inl (CompareBadFirst e)"
  using assms by (simp add: parse_jsonl_strict_path_def example_trims)

theorem indented_report_refused_witness:
  "parse_jsonl_strict_path example_from_json (\<lambda>t. Inl ''no array'')
     (Inr (''{'' @ NL # ''}'', None)) = Inl (CompareBadFirst ''expected value'')"
  by (rule indented_report_refused) (simp add: example_from_json_def)

text \<open>
  The numbers in the list of unreadable lines count from the first line with content, so blank
  lines before it shift them: the third line of this file is reported as line 2.
\<close>

theorem compare_line_numbers_shift:
  "parse_jsonl_strict_path example_from_json (\<lambda>t. Inl ''no array'')
     (Inr (NL # ''r'' @ NL # ''{'', None)) = Inl (CompareUnreadable [(2, ''expected value'')] 1 2)
   \<and> read_lines (NL # ''r'' @ NL # ''{'') ! 2 = ''{''"
  by (simp add: parse_jsonl_strict_path_def example_trims example_blank example_from_json_def)

end
