(* ===== verification/Fleet.thy ===== *)
theory Fleet
  imports Resume
begin

text \<open>
  The fleet loop of \<open>run_command\<close> in \<open>src/main.rs\<close>: the list of hosts, the split into local and
  remote ones, the bounded scheduler of remote scans with its teardown, the accounting of hosts
  without a report, and the retries of one host.
\<close>

section \<open>Hosts\<close>

text \<open>\<open>hosts.retain(|h| seen.insert(h))\<close>: the first occurrence of each host.\<close>

fun retain_first :: "string set \<Rightarrow> string list \<Rightarrow> string list" where
  "retain_first seen [] = []"
| "retain_first seen (h # hs) =
     (if h \<in> seen then retain_first seen hs else h # retain_first (insert h seen) hs)"

text \<open>The lines of a hosts file that name a host.\<close>

definition host_lines :: "string list \<Rightarrow> string list" where
  "host_lines ls = filter (\<lambda>h. h \<noteq> [] \<and> \<not> starts_with h ''#'') (map trim ls)"

definition requested_hosts :: "string list \<Rightarrow> string list \<Rightarrow> string list" where
  "requested_hosts args ls = retain_first {} (args @ host_lines ls)"

record host_split =
  hs_local :: "string list"
  hs_local_aliases :: "string list"
  hs_remote :: "string list"

definition split_step :: "(string \<Rightarrow> bool) \<Rightarrow> string \<Rightarrow> host_split \<times> bool \<Rightarrow> host_split \<times> bool" where
  "split_step is_local h acc =
     (case acc of (sp, local_seen) \<Rightarrow>
        if is_local h then
          (sp\<lparr>hs_local_aliases := hs_local_aliases sp @ [h],
              hs_local := (if \<not> local_seen then hs_local sp @ [h] else hs_local sp)\<rparr>, True)
        else (sp\<lparr>hs_remote := hs_remote sp @ [h]\<rparr>, local_seen))"

definition split_hosts :: "(string \<Rightarrow> bool) \<Rightarrow> string list \<Rightarrow> host_split" where
  "split_hosts is_local hosts =
     fst (fold (split_step is_local) hosts
       (\<lparr>hs_local = [], hs_local_aliases = [], hs_remote = []\<rparr>, False))"

lemma retain_first_set: "set (retain_first seen hs) = set hs - seen"
  by (induction seen hs rule: retain_first.induct) auto

lemma retain_first_distinct: "distinct (retain_first seen hs)"
  by (induction seen hs rule: retain_first.induct) (auto simp: retain_first_set)

lemma split_hosts_fold:
  "fold (split_step is_local) hosts (sp, seen) =
     (\<lparr>hs_local = hs_local sp @ (if seen then [] else take 1 (filter is_local hosts)),
       hs_local_aliases = hs_local_aliases sp @ filter is_local hosts,
       hs_remote = hs_remote sp @ filter (\<lambda>h. \<not> is_local h) hosts\<rparr>,
      seen \<or> (\<exists>h \<in> set hosts. is_local h))"
  by (induction hosts arbitrary: sp seen) (auto simp: split_step_def)

lemma split_hosts_eq:
  "split_hosts is_local hosts =
     \<lparr>hs_local = take 1 (filter is_local hosts), hs_local_aliases = filter is_local hosts,
      hs_remote = filter (\<lambda>h. \<not> is_local h) hosts\<rparr>"
  by (simp add: split_hosts_def split_hosts_fold)

section \<open>The scheduler of remote scans\<close>

text \<open>
  The state of the loop: the hosts not spawned yet (\<open>remote_iter\<close>), the tasks in the \<open>JoinSet\<close>, the
  free permits of the semaphore, the aggregate, \<open>successful_hosts\<close>, the reports handed on (to the
  writer, or to \<open>reports\<close>), and where the control is. A task that ends frees its permit.
\<close>

datatype fleet_phase = Running | Draining | Ended

record fleet_state =
  fl_queue :: "string list"
  fl_running :: "string list"
  fl_permits :: nat
  fl_agg :: outcome_builder
  fl_successful :: "string set"
  fl_reports :: "agent_report list"
  fl_phase :: fleet_phase

text \<open>
  The initial fill: one spawn per permit while hosts remain and no shutdown is requested. \<open>spawned\<close>
  is the number of rounds before the shutdown flag is seen (\<open>max_concurrent\<close> without one).
\<close>

definition fleet_start ::
  "nat \<Rightarrow> nat \<Rightarrow> string list \<Rightarrow> outcome_builder \<Rightarrow> string set \<Rightarrow> fleet_state" where
  "fleet_start max_concurrent spawned remote agg successful =
     (let k = min spawned max_concurrent;
          started = take k remote
      in \<lparr>fl_queue = drop k remote, fl_running = started,
          fl_permits = max_concurrent - length started, fl_agg = agg,
          fl_successful = successful, fl_reports = [], fl_phase = Running\<rparr>)"

text \<open>A task ends: its result is recorded and its permit is free.\<close>

definition task_joined ::
  "judge_env \<Rightarrow> string \<Rightarrow> agent_report option \<Rightarrow> fleet_state \<Rightarrow> fleet_state" where
  "task_joined env host result s =
     (let s = s\<lparr>fl_running := remove1 host (fl_running s), fl_permits := fl_permits s + 1\<rparr> in
      case result of
        None \<Rightarrow> s
      | Some r \<Rightarrow>
          s\<lparr>fl_agg := builder_add env r (fl_agg s),
            fl_successful := insert host (fl_successful s),
            fl_reports := fl_reports s @ [r]\<rparr>)"

text \<open>
  The slot is free: spawn the next host, unless a shutdown is requested. A host for which no permit
  can be acquired would be dropped.
\<close>

definition spawn_next :: "bool \<Rightarrow> fleet_state \<Rightarrow> fleet_state" where
  "spawn_next shutdown s =
     (if shutdown then s
      else
        (case fl_queue s of
           [] \<Rightarrow> s
         | h # hs \<Rightarrow>
             if fl_permits s = 0 then s\<lparr>fl_queue := hs\<rparr>
             else s\<lparr>fl_queue := hs, fl_running := fl_running s @ [h],
                    fl_permits := fl_permits s - 1\<rparr>))"

text \<open>
  One turn of the loop. The result of a task is arbitrary (\<open>None\<close>: no report, a panic, or a failed
  task); so is the moment of an interrupt and of the end of the grace period.
\<close>

inductive fleet_step :: "fleet_state \<Rightarrow> fleet_state \<Rightarrow> bool" where
  joined: "\<lbrakk>fl_phase s = Running; host \<in> set (fl_running s)\<rbrakk>
    \<Longrightarrow> fleet_step s (spawn_next shutdown (task_joined env host result s))"
| finished: "\<lbrakk>fl_phase s = Running; fl_running s = []\<rbrakk>
    \<Longrightarrow> fleet_step s (s\<lparr>fl_phase := Ended\<rparr>)"
| interrupted: "fl_phase s = Running \<Longrightarrow> fleet_step s (s\<lparr>fl_phase := Draining\<rparr>)"
| drained_one: "\<lbrakk>fl_phase s = Draining; host \<in> set (fl_running s)\<rbrakk>
    \<Longrightarrow> fleet_step s (task_joined env host result s)"
| drained: "\<lbrakk>fl_phase s = Draining; fl_running s = []\<rbrakk>
    \<Longrightarrow> fleet_step s (s\<lparr>fl_phase := Ended\<rparr>)"
| aborted: "fl_phase s = Draining
    \<Longrightarrow> fleet_step s (s\<lparr>fl_running := [], fl_permits := fl_permits s + length (fl_running s),
                          fl_phase := Ended\<rparr>)"

inductive_cases fleet_stepE: "fleet_step s t"

text \<open>The turns of a run nobody interrupts: no shutdown is requested.\<close>

inductive quiet_step :: "fleet_state \<Rightarrow> fleet_state \<Rightarrow> bool" where
  quiet_joined: "\<lbrakk>fl_phase s = Running; host \<in> set (fl_running s)\<rbrakk>
    \<Longrightarrow> quiet_step s (spawn_next False (task_joined env host result s))"
| quiet_finished: "\<lbrakk>fl_phase s = Running; fl_running s = []\<rbrakk>
    \<Longrightarrow> quiet_step s (s\<lparr>fl_phase := Ended\<rparr>)"

inductive_cases quiet_stepE: "quiet_step s t"

lemma quiet_is_fleet: "quiet_step s t \<Longrightarrow> fleet_step s t"
  by (erule quiet_stepE) (blast intro: fleet_step.intros)+

lemmas fleet_ops = task_joined_def spawn_next_def Let_def

section \<open>Invariants of the scheduler\<close>

text \<open>
  For the remote hosts \<open>remote\<close> and the hosts credited before: the permits and the running tasks
  make up the limit, no host is both queued and running or twice in either, and every report stands
  for one answered host.
\<close>

definition fleet_inv ::
  "nat \<Rightarrow> string list \<Rightarrow> nat \<Rightarrow> string set \<Rightarrow> fleet_state \<Rightarrow> bool" where
  "fleet_inv max_concurrent remote seen0 credited s \<longleftrightarrow>
     fl_permits s + length (fl_running s) = max_concurrent
     \<and> distinct (fl_queue s @ fl_running s)
     \<and> set (fl_queue s) \<union> set (fl_running s) \<subseteq> set remote
     \<and> credited \<subseteq> fl_successful s \<and> fl_successful s \<subseteq> credited \<union> set remote
     \<and> fl_successful s \<inter> (set (fl_queue s) \<union> set (fl_running s)) = {}
     \<and> ob_reports_seen (fl_agg s) = seen0 + length (fl_reports s)
     \<and> card (fl_successful s - credited) = length (fl_reports s)"

lemma fleet_start_inv:
  "distinct remote \<Longrightarrow> set remote \<inter> credited = {} \<Longrightarrow> finite credited \<Longrightarrow>
     fleet_inv m remote (ob_reports_seen agg) credited (fleet_start m k remote agg credited)"
  by (auto simp: fleet_inv_def fleet_start_def Let_def distinct_append
      dest: in_set_takeD in_set_dropD set_take_disj_set_drop_if_distinct [of remote "min k m" "min k m"])

lemma builder_add_seen [simp]: "ob_reports_seen (builder_add env r b) = ob_reports_seen b + 1"
  by (simp add: builder_add_def Let_def)

lemma task_joined_inv:
  assumes inv: "fleet_inv m remote n credited s" and host: "host \<in> set (fl_running s)"
    and fin: "finite credited"
  shows "fleet_inv m remote n credited (task_joined env host result s)"
proof -
  have len: "length (remove1 host (fl_running s)) = length (fl_running s) - 1" "fl_running s \<noteq> []"
    using host by (auto simp: length_remove1)
  have d: "distinct (fl_running s)" "distinct (fl_queue s)" "set (fl_queue s) \<inter> set (fl_running s) = {}"
    using inv by (auto simp: fleet_inv_def)
  have new: "host \<notin> fl_successful s" "host \<in> set remote" "host \<notin> credited"
    using inv host by (auto simp: fleet_inv_def)
  have "finite (fl_successful s)"
    using inv fin by (auto simp: fleet_inv_def intro: finite_subset [of _ "credited \<union> set remote"])
  then have card: "card (insert host (fl_successful s) - credited) = Suc (card (fl_successful s - credited))"
    using new by (simp add: insert_Diff_if)
  show ?thesis
    using inv host len d new card
    by (cases result) (auto simp: fleet_inv_def task_joined_def Let_def set_remove1_eq Suc_diff_Suc)
qed

lemma spawn_next_inv:
  "fleet_inv m remote n credited s \<Longrightarrow> fleet_inv m remote n credited (spawn_next sd s)"
  by (cases "fl_queue s") (auto simp: fleet_inv_def spawn_next_def)

lemma fleet_step_inv:
  "fleet_step s t \<Longrightarrow> finite credited \<Longrightarrow> fleet_inv m remote n credited s \<Longrightarrow>
     fleet_inv m remote n credited t"
  by (erule fleet_stepE)
    (auto intro: task_joined_inv spawn_next_inv, auto simp: fleet_inv_def)

text \<open>Each turn uses up a task, or a host to spawn, or a phase.\<close>

fun phase_left :: "fleet_phase \<Rightarrow> nat" where
  "phase_left Running = 2"
| "phase_left Draining = 1"
| "phase_left Ended = 0"

definition fleet_measure :: "fleet_state \<Rightarrow> nat" where
  "fleet_measure s = length (fl_queue s) + length (fl_running s) + phase_left (fl_phase s)"

lemma joined_measure:
  "host \<in> set (fl_running s) \<Longrightarrow>
     length (fl_queue (task_joined env host res s)) + length (fl_running (task_joined env host res s))
       < length (fl_queue s) + length (fl_running s)
     \<and> fl_phase (task_joined env host res s) = fl_phase s"
  using length_pos_if_in_set [of host "fl_running s"]
  by (cases res) (auto simp: task_joined_def Let_def length_remove1)

lemma spawn_next_measure:
  "length (fl_queue (spawn_next sd s)) + length (fl_running (spawn_next sd s))
     \<le> length (fl_queue s) + length (fl_running s)
   \<and> fl_phase (spawn_next sd s) = fl_phase s"
  by (cases "fl_queue s") (auto simp: spawn_next_def)

lemma fleet_step_measure: "fleet_step s t \<Longrightarrow> fleet_measure t < fleet_measure s"
proof (erule fleet_stepE)
  fix host shutdown env result
  assume t: "t = spawn_next shutdown (task_joined env host result s)"
    and h: "fl_phase s = Running" "host \<in> set (fl_running s)"
  show ?thesis
    using spawn_next_measure [of shutdown "task_joined env host result s"]
      joined_measure [OF h(2), of env result]
    unfolding t fleet_measure_def by auto
next
  fix host env result
  assume t: "t = task_joined env host result s" and h: "host \<in> set (fl_running s)"
  show ?thesis
    using joined_measure [OF h, of env result] unfolding t fleet_measure_def by auto
qed (auto simp: fleet_measure_def)

lemma fleet_run_measure: "(fleet_step ^^ n) s0 s \<Longrightarrow> fleet_measure s + n \<le> fleet_measure s0"
proof (induction n arbitrary: s)
  case (Suc n)
  then obtain t where "(fleet_step ^^ n) s0 t" "fleet_step t s" by auto
  with Suc.IH [of t] fleet_step_measure [of t s] show ?case by simp
qed simp

lemma fleet_start_measure:
  "fleet_measure (fleet_start max_concurrent spawned remote agg credited) = length remote + 2"
  by (simp add: fleet_measure_def fleet_start_def Let_def min_def split: if_splits)

text \<open>Without an interrupt no permit is left idle while hosts wait.\<close>

definition busy :: "fleet_state \<Rightarrow> bool" where
  "busy s \<longleftrightarrow> (fl_queue s \<noteq> [] \<longrightarrow> fl_permits s = 0)
     \<and> (fl_phase s = Ended \<longrightarrow> fl_running s = []) \<and> fl_phase s \<noteq> Draining"

lemma fleet_start_busy: "m \<le> k \<Longrightarrow> busy (fleet_start m k remote agg credited)"
  by (auto simp: busy_def fleet_start_def Let_def min_def)

lemma joined_fields:
  "fl_queue (task_joined env host res s) = fl_queue s"
  "fl_permits (task_joined env host res s) = fl_permits s + 1"
  "fl_phase (task_joined env host res s) = fl_phase s"
  by (cases res; simp add: task_joined_def Let_def)+

lemma quiet_step_busy: "quiet_step s t \<Longrightarrow> busy s \<Longrightarrow> busy t"
  by (erule quiet_stepE)
    (auto simp: busy_def spawn_next_def joined_fields split: list.splits)

lemma steps_inv:
  "fleet_step\<^sup>*\<^sup>* s t \<Longrightarrow> finite credited \<Longrightarrow> fleet_inv m remote n credited s \<Longrightarrow>
     fleet_inv m remote n credited t"
  by (induction rule: rtranclp_induct) (auto intro: fleet_step_inv)

lemma quiet_steps: "quiet_step\<^sup>*\<^sup>* s t \<Longrightarrow> fleet_step\<^sup>*\<^sup>* s t \<and> (busy s \<longrightarrow> busy t)"
  by (induction rule: rtranclp_induct)
    (auto intro: rtranclp.rtrancl_into_rtrancl quiet_is_fleet quiet_step_busy)

section \<open>Accounting\<close>

text \<open>
  Before the remote scans: resumed hosts are credited, a resumed local host credits every alias and
  skips the local scan, the local scan credits every alias, and remote hosts that are resumed are not
  scanned. \<open>local_result\<close> is the report of the local scan, \<open>None\<close> if it is interrupted.
\<close>

definition fleet_prelude ::
  "judge_env \<Rightarrow> host_split \<Rightarrow> string set \<Rightarrow> agent_report option \<Rightarrow> outcome_builder
   \<Rightarrow> outcome_builder \<times> string set \<times> string list" where
  "fleet_prelude env sp resumed local_result agg =
     (let skip = (\<exists>h \<in> set (hs_local sp). h \<in> resumed);
          successful = (if skip then resumed \<union> set (hs_local_aliases sp) else resumed);
          local = (if skip then [] else hs_local sp);
          remote = filter (\<lambda>h. h \<notin> resumed) (hs_remote sp)
      in case (local, local_result) of
           (h # hs, Some r) \<Rightarrow>
             (builder_add env r agg, successful \<union> set (hs_local_aliases sp), remote)
         | _ \<Rightarrow> (agg, successful, remote))"

lemma length_missing:
  "distinct hosts \<Longrightarrow> length (missing_of hosts answered) = length hosts - card (set hosts \<inter> answered)"
proof -
  assume d: "distinct hosts"
  have "length (missing_of hosts answered) = card (set hosts - answered)"
    using d distinct_card [of "missing_of hosts answered"]
    by (simp add: missing_of_def set_diff_eq Collect_conj_eq [symmetric])
  also have "\<dots> = card (set hosts) - card (set hosts \<inter> answered)"
    by (metis Diff_Int_distrib2 Diff_Int card_Diff_subset_Int finite_Int List.finite_set)
  finally show ?thesis using d by (simp add: distinct_card)
qed

section \<open>Properties\<close>

text \<open>
  The list of requested hosts keeps the first occurrence of each host, and splits into at most
  one local scan, all aliases of it, and the remote hosts, in order; every requested host is either
  an alias or remote, and the split is the same as filtering.
\<close>

theorem host_list_spec:
  "distinct (requested_hosts args ls)
   \<and> set (requested_hosts args ls) = set args \<union> set (host_lines ls)
   \<and> split_hosts is_local hosts =
       \<lparr>hs_local = take 1 (filter is_local hosts), hs_local_aliases = filter is_local hosts,
        hs_remote = filter (\<lambda>h. \<not> is_local h) hosts\<rparr>"
  by (simp add: requested_hosts_def retain_first_distinct retain_first_set split_hosts_eq)

text \<open>
  C5: in every state the scheduler can reach, from any start, with any results and any interrupts,
  at most \<open>max_concurrent\<close> scans run, no host is queued or running twice or after it has answered,
  every report counted stands for one answered host, and the branch that would drop a host for want
  of a permit is never taken: when a task has ended, a permit is free.
\<close>

theorem scheduler_safety:
  assumes "distinct remote" "set remote \<inter> credited = {}" "finite credited"
    and "fleet_step\<^sup>*\<^sup>* (fleet_start max_concurrent spawned remote agg credited) s"
  shows "length (fl_running s) \<le> max_concurrent
     \<and> distinct (fl_queue s @ fl_running s)
     \<and> fl_successful s \<inter> set (fl_queue s @ fl_running s) = {}
     \<and> ob_reports_seen (fl_agg s) = ob_reports_seen agg + card (fl_successful s - credited)
     \<and> (\<forall>env host result. 0 < fl_permits (task_joined env host result s))"
proof -
  have "fleet_inv max_concurrent remote (ob_reports_seen agg) credited s"
    by (rule steps_inv [OF assms(4,3) fleet_start_inv [OF assms(1-3)]])
  then show ?thesis by (auto simp: fleet_inv_def joined_fields)
qed

theorem scheduler_safety_witness:
  "fleet_step\<^sup>*\<^sup>* (fleet_start 1 1 [''a'', ''b''] (new_builder None) {})
     (spawn_next False (task_joined bare_judge ''a'' None
       (fleet_start 1 1 [''a'', ''b''] (new_builder None) {})))
   \<and> length (fl_running (spawn_next False (task_joined bare_judge ''a'' None
       (fleet_start 1 1 [''a'', ''b''] (new_builder None) {})))) \<le> 1"
proof -
  let ?s = "fleet_start 1 1 [''a'', ''b''] (new_builder None) {}"
  have "fleet_step ?s (spawn_next False (task_joined bare_judge ''a'' None ?s))"
    by (rule fleet_step.joined) (simp_all add: fleet_start_def)
  then have run: "fleet_step\<^sup>*\<^sup>* ?s (spawn_next False (task_joined bare_judge ''a'' None ?s))" by simp
  from scheduler_safety [OF _ _ _ run] run show ?thesis by simp
qed

text \<open>
  A run that nobody interrupts scans every remote host: when the loop ends nothing is queued or
  running. And in every reachable state, interrupted or not, the number of missing hosts that
  \<open>finish\<close> computes from the count of reports is the number of hosts that \<open>missing_of\<close> lists,
  provided each credited host was requested and stands for one report.
\<close>

theorem missing_hosts_agree:
  assumes "distinct hosts" "credited \<subseteq> set hosts" "ob_reports_seen agg = card credited"
    and "fleet_step\<^sup>*\<^sup>*
      (fleet_start max_concurrent spawned (filter (\<lambda>h. h \<notin> credited) hosts) agg credited) s"
  shows "cov_hosts_missing (oc_coverage (builder_finish (fl_agg s) (length hosts) lost))
       = length (missing_of hosts (fl_successful s))
     \<and> (quiet_step\<^sup>*\<^sup>* (fleet_start max_concurrent max_concurrent
           (filter (\<lambda>h. h \<notin> credited) hosts) agg credited) s
        \<and> fl_phase s = Ended \<and> 0 < max_concurrent \<longrightarrow> fl_queue s = [] \<and> fl_running s = [])"
proof -
  let ?remote = "filter (\<lambda>h. h \<notin> credited) hosts"
  have fin: "finite credited" by (rule finite_subset [OF assms(2)]) simp
  have inv0: "fleet_inv max_concurrent ?remote (ob_reports_seen agg) credited
      (fleet_start max_concurrent k ?remote agg credited)" for k
    by (rule fleet_start_inv) (use assms(1) fin in auto)
  have inv: "fleet_inv max_concurrent ?remote (ob_reports_seen agg) credited s"
    by (rule steps_inv [OF assms(4) fin inv0])
  have sub: "fl_successful s \<subseteq> set hosts" "credited \<subseteq> fl_successful s"
    using inv assms(2) by (auto simp: fleet_inv_def)
  have "ob_reports_seen (fl_agg s) = card credited + card (fl_successful s - credited)"
    using inv assms(3) by (simp add: fleet_inv_def)
  also have "\<dots> = card (fl_successful s)"
    using sub fin by (simp add: card_Diff_subset card_mono finite_subset [OF sub(1)])
  also have "\<dots> = card (set hosts \<inter> fl_successful s)"
    using sub(1) by (simp add: Int_absorb1)
  finally have "cov_hosts_missing (oc_coverage (builder_finish (fl_agg s) (length hosts) lost))
      = length (missing_of hosts (fl_successful s))"
    by (simp add: builder_finish_def length_missing [OF assms(1)])
  moreover have "fl_queue s = [] \<and> fl_running s = []"
    if "quiet_step\<^sup>*\<^sup>* (fleet_start max_concurrent max_concurrent ?remote agg credited) s"
      "fl_phase s = Ended" "0 < max_concurrent"
  proof -
    have "busy s" using quiet_steps [OF that(1)] fleet_start_busy by simp
    then show ?thesis using inv that(2,3) by (auto simp: busy_def fleet_inv_def)
  qed
  ultimately show ?thesis by blast
qed

theorem missing_hosts_agree_witness:
  "cov_hosts_missing (oc_coverage (builder_finish (new_builder None) 2 0))
     = length (missing_of [''a'', ''b''] {})"
  using missing_hosts_agree [of "[''a'', ''b'']" "{}" "new_builder None" 1 1
      "fleet_start 1 1 [''a'', ''b''] (new_builder None) {}" 0]
  by (simp add: fleet_start_def new_builder_def numeral_2_eq_2)

text \<open>
  C24: a record of a host that was not requested hides one that was. When the file that is resumed
  holds as many records as hosts are requested, but for other hosts, then even if no requested host
  answers, no host is counted missing, coverage is as full as the old records', and the exit code is
  that of the old records; although \<open>missing_of\<close> lists every requested host.
\<close>

theorem stale_resume_hides_missing:
  assumes "resume_scan from_json env (Inr (content, None)) (new_builder acc) = (Inr st, agg)"
    and "set hosts \<inter> rs_done st = {}"
    and "length hosts \<le> length (reports_from from_json 1 (read_lines content))"
  shows "cov_hosts_missing (oc_coverage (builder_finish agg (length hosts) 0)) = 0
     \<and> missing_of hosts (rs_done st) = hosts
     \<and> exit_code (builder_finish agg (length hosts) 0) fail = exit_code (builder_finish agg 0 0) fail"
proof -
  have "list_all creditable (records_from from_json 1 (read_lines content))"
    using resume_scan_Inr [of from_json env content None "new_builder acc" st] assms(1) by simp
  from resume_scan_Ok [OF this, of env "new_builder acc"] assms(1)
  have agg: "agg = fold (\<lambda>(i, r). builder_add (env i) r)
      (reports_from from_json 1 (read_lines content)) (new_builder acc)" by simp
  have "ob_reports_seen agg = length (reports_from from_json 1 (read_lines content))"
    unfolding agg fold_add_seen by (simp add: new_builder_def)
  then have "length hosts - ob_reports_seen agg = 0" using assms(3) by simp
  moreover have "missing_of hosts (rs_done st) = hosts"
    using assms(2) by (auto simp: missing_of_def filter_id_conv)
  ultimately show ?thesis by (simp add: builder_finish_def)
qed

theorem stale_resume_hides_missing_witness:
  "\<exists>agg. fst (resume_scan example_from_json (\<lambda>n. bare_judge) (Inr (''r'', None)) (new_builder None))
        = Inr \<lparr>rs_done = {''10.0.0.7''}, rs_needs_newline = True\<rparr>
     \<and> cov_hosts_missing (oc_coverage (builder_finish agg 1 0)) = 0
     \<and> missing_of [''10.0.0.9''] {''10.0.0.7''} = [''10.0.0.9'']"
proof -
  have run: "resume_scan example_from_json (\<lambda>n. bare_judge) (Inr (''r'', None)) (new_builder None)
      = (Inr \<lparr>rs_done = {''10.0.0.7''}, rs_needs_newline = True\<rparr>,
         builder_add bare_judge example_report (new_builder None))"
    by (simp add: resume_scan_def example_trims example_from_json_def example_report_def ends_with_def
        Let_def)
  have len: "length (reports_from example_from_json 1 (read_lines ''r'')) = 1"
    by (simp add: example_trims example_from_json_def)
  show ?thesis
    using stale_resume_hides_missing [OF run, of "[''10.0.0.9'']" False] len run
    by (intro exI [of _ "builder_add bare_judge example_report (new_builder None)"]) simp
qed

text \<open>
  A second name of the local machine is counted as a missing host. One local scan answers for
  all its aliases, and \<open>missing_of\<close> knows it, but \<open>finish\<close> subtracts reports from requested hosts:
  with the local machine requested under \<open>k + 1\<close> names and no other host, a run in which everything
  answered reports \<open>k\<close> missing hosts and its exit code can be neither 0 nor 1 if \<open>k > 0\<close>.
\<close>

theorem local_alias_counted_missing:
  assumes "hosts \<noteq> []" "list_all is_local hosts"
    and "fleet_prelude env (split_hosts is_local hosts) {} (Some r) (new_builder acc)
       = (agg, successful, remote)"
  shows "remote = [] \<and> missing_of hosts successful = []
     \<and> cov_hosts_missing (oc_coverage (builder_finish agg (length hosts) 0)) = length hosts - 1
     \<and> (length hosts \<noteq> 1 \<longrightarrow> exit_code (builder_finish agg (length hosts) 0) fail \<in> {2, 3, 4})"
proof -
  have "filter is_local hosts = hosts" "filter (\<lambda>h. \<not> is_local h) hosts = []"
    using assms(2) by (auto simp: list_all_iff filter_id_conv filter_empty_conv)
  then have run: "agg = builder_add env r (new_builder acc)" "successful = set hosts" "remote = []"
    using assms(1,3) by (cases hosts; auto simp: fleet_prelude_def split_hosts_eq Let_def)+
  have missing: "cov_hosts_missing (oc_coverage (builder_finish agg (length hosts) 0)) = length hosts - 1"
    by (simp add: builder_finish_def run new_builder_def)
  have "exit_code (builder_finish agg (length hosts) 0) fail \<in> {2, 3, 4}" if "length hosts \<noteq> 1"
  proof -
    have "\<not> is_full (oc_coverage (builder_finish agg (length hosts) 0))"
      using missing that assms(1) by (cases hosts) (auto simp: is_full_def)
    then show ?thesis by (auto simp: exit_code_def exit_codes Let_def split: option.splits)
  qed
  then show ?thesis using run missing by (simp add: missing_of_def)
qed

theorem local_alias_counted_missing_witness:
  "let (agg, successful, remote) =
       fleet_prelude bare_judge (split_hosts (\<lambda>h. True) [''localhost'', ''127.0.0.1'']) {}
         (Some default_agent_report) (new_builder None)
   in missing_of [''localhost'', ''127.0.0.1''] successful = []
      \<and> cov_hosts_missing (oc_coverage (builder_finish agg 2 0)) = 1"
  using local_alias_counted_missing [of "[''localhost'', ''127.0.0.1'']" "\<lambda>h. True" bare_judge
      default_agent_report None]
  by (cases "fleet_prelude bare_judge (split_hosts (\<lambda>h. True) [''localhost'', ''127.0.0.1'']) {}
         (Some default_agent_report) (new_builder None)") (simp add: numeral_2_eq_2)

end
