(* ===== verification/Remote.thy ===== *)
theory Remote
  imports Fleet
begin

text \<open>
  One remote host: the validators of \<open>src/runner.rs\<close>, the pure parts of \<open>src/ssh_engine.rs\<close> (budgets,
  the classification of sudo and transport errors, the staging directory and its removal, the facts
  the orchestrator adds to a report), and \<open>scan_remote_host\<close> of \<open>src/main.rs\<close> with its retries. The
  SSH session itself is a parameter: the result of each attempt.
\<close>

section \<open>Validators\<close>

definition is_ascii_alphanumeric :: "char \<Rightarrow> bool" where
  "is_ascii_alphanumeric c =
     (let n = of_char c :: nat in
      48 \<le> n \<and> n \<le> 57 \<or> 65 \<le> n \<and> n \<le> 90 \<or> 97 \<le> n \<and> n \<le> 122)"

definition validate_remote_path :: "string \<Rightarrow> string option" where
  "validate_remote_path path =
     (if list_ex (\<lambda>c. \<not> is_ascii_alphanumeric c \<and> c \<notin> set ''-_./'') path then
        Some (''remote path contains unexpected characters: '' @ [CHR 0x27] @ path @ [CHR 0x27])
      else if \<not> starts_with path ''/'' then Some ''remote path must be absolute''
      else if ''..'' \<in> set (split_char (CHR ''/'') path) then
        Some (''remote path must not contain '' @ [CHR 0x27] @ ''..'' @ [CHR 0x27])
      else
        (let dir = (case rsplit_once (CHR ''/'') path of Some (d, leaf) \<Rightarrow> d | None \<Rightarrow> []) in
         case find (\<lambda>bad. dir = bad \<or> starts_with dir (bad @ ''/''))
                [''/tmp'', ''/var/tmp'', ''/dev/shm''] of
           Some bad \<Rightarrow>
             Some (''--remote-path '' @ path @ '' lives under '' @ bad
               @ '' (mode 1777): anyone on the target could replace the binary between upload''
               @ '' and the sudo exec'')
         | None \<Rightarrow> None))"

definition validate_ssh_user :: "string \<Rightarrow> string option" where
  "validate_ssh_user user =
     (if user = [] \<or> starts_with user ''-''
         \<or> list_ex (\<lambda>c. \<not> is_ascii_alphanumeric c \<and> c \<noteq> CHR ''-'' \<and> c \<noteq> CHR ''_'') user
      then Some (''invalid ssh user: '' @ [CHR 0x27] @ user @ [CHR 0x27]) else None)"

definition validate_host :: "string \<Rightarrow> string option" where
  "validate_host host =
     (if host = [] \<or> starts_with host ''-'' then
        Some (''invalid host: '' @ [CHR 0x27] @ host @ [CHR 0x27])
      else if list_ex (\<lambda>c. \<not> is_ascii_alphanumeric c \<and> c \<notin> set ''-_.:[]'') host then
        Some (''host contains unexpected characters: '' @ [CHR 0x27] @ host @ [CHR 0x27])
      else None)"

section \<open>Budgets\<close>

text \<open>
  A \<open>Duration\<close> is its nanoseconds: at most \<open>u64::MAX\<close> seconds and 999999999 nanoseconds.
  \<open>saturating_add\<close> stops there.
\<close>

type_synonym duration = nat

definition duration_max :: duration where
  "duration_max = 18446744073709551615 * 1000000000 + 999999999"

definition from_secs :: "u64 \<Rightarrow> duration" where
  "from_secs s = unat s * 1000000000"

definition dur_sat_add :: "duration \<Rightarrow> duration \<Rightarrow> duration" where
  "dur_sat_add a b = min duration_max (a + b)"

definition CONNECT_BUDGET :: duration where "CONNECT_BUDGET = from_secs 15"
definition HANDSHAKE_AUTH_BUDGET :: duration where "HANDSHAKE_AUTH_BUDGET = from_secs 30"
definition CLEANUP_BUDGET :: duration where "CLEANUP_BUDGET = from_secs 10"
definition CEILING_MARGIN :: duration where "CEILING_MARGIN = from_secs 5"

lemmas budgets = CONNECT_BUDGET_def HANDSHAKE_AUTH_BUDGET_def CLEANUP_BUDGET_def CEILING_MARGIN_def

definition scan_budget :: "u64 \<Rightarrow> duration" where
  "scan_budget remote_timeout_secs = from_secs (sat_add_u64 (host_budget_secs remote_timeout_secs) 5)"

definition host_ceiling :: "u64 \<Rightarrow> duration" where
  "host_ceiling remote_timeout_secs =
     dur_sat_add (dur_sat_add (dur_sat_add (dur_sat_add CONNECT_BUDGET HANDSHAKE_AUTH_BUDGET)
       (scan_budget remote_timeout_secs)) CLEANUP_BUDGET) CEILING_MARGIN"

section \<open>Sudo\<close>

datatype sudo_outcome =
  SudoOk | PasswordRequired | BadPassword | NeedsTty | NotPermitted | NotInstalled | UnknownOutcome

definition classify_sudo_stderr :: "string \<Rightarrow> sudo_outcome" where
  "classify_sudo_stderr se =
     (if contains se ''no tty present'' \<or> contains se ''you must have a tty'' then NeedsTty
      else if contains se ''sudo: not found'' \<or> contains se ''sudo: command not found''
        \<or> contains se ''command not found: sudo'' then NotInstalled
      else if contains se ''is not allowed to execute''
        \<or> contains se ''is not in the sudoers file'' then NotPermitted
      else if contains se ''incorrect password'' \<or> contains se ''Sorry, try again'' then BadPassword
      else if contains se ''a password is required''
        \<or> contains se ''a terminal is required to read the password'' then PasswordRequired
      else if trim se = [] then SudoOk
      else UnknownOutcome)"

datatype sudo_error_kind = AuthKind | TtyKind | NotPermittedKind

definition sudo_error_kind :: "bool \<Rightarrow> string \<Rightarrow> sudo_error_kind option" where
  "sudo_error_kind use_sudo se =
     (if \<not> use_sudo then None
      else
        (case classify_sudo_stderr se of
           BadPassword \<Rightarrow> Some AuthKind
         | PasswordRequired \<Rightarrow> Some AuthKind
         | NeedsTty \<Rightarrow> Some TtyKind
         | NotPermitted \<Rightarrow> Some NotPermittedKind
         | SudoOk \<Rightarrow> None
         | NotInstalled \<Rightarrow> None
         | UnknownOutcome \<Rightarrow> None))"

section \<open>Errors of a session\<close>

text \<open>
  The kinds of \<open>std::io::Error\<close> that \<open>is_transient\<close> names, with one for the rest, and of the errors
  of the \<open>russh\<close> crate the two it matches; \<open>OtherRussh\<close> stands for every other one.
\<close>

datatype io_error_kind =
  ConnectionReset | ConnectionRefused | ConnectionAborted | TimedOut | BrokenPipe | UnexpectedEof
  | NotConnected | Interrupted | OtherKind

record io_error =
  ie_kind :: io_error_kind
  ie_raw_os_error :: "int option"

datatype russh_error = RusshDisconnect | RusshIO | OtherRussh

datatype remote_error =
    HostKeyChanged string string string nat
  | HostKeyUnknown string
  | HostKeyCheck string string
  | IoError string io_error
  | SshError string russh_error
  | AuthError string string
  | KeyLoad string string
  | SudoAuth string string
  | SudoNotPermitted string "string option" string
  | SudoAuthTimeout string
  | SudoRequiresTty string "string option"
  | HostTimeout string
  | ConnectTimeout string
  | ChannelClosedEarly string string
  | NonZeroExit string u32 string
  | UploadFailed string string
  | ReportTruncated string nat
  | HostKeyRevoked string
  | HostKeyUnsupportedTrust string string

text \<open>\<open>libc::ENETUNREACH\<close> and \<open>libc::EHOSTUNREACH\<close> on Linux.\<close>

definition ENETUNREACH :: int where "ENETUNREACH = 101"
definition EHOSTUNREACH :: int where "EHOSTUNREACH = 113"

fun is_transient :: "remote_error \<Rightarrow> bool" where
  "is_transient (ConnectTimeout h) = True"
| "is_transient (ChannelClosedEarly h c) = True"
| "is_transient (IoError h e) =
     (ie_kind e \<in> {ConnectionReset, ConnectionRefused, ConnectionAborted, TimedOut, BrokenPipe,
                   UnexpectedEof, NotConnected, Interrupted}
      \<or> ie_raw_os_error e \<in> {Some ENETUNREACH, Some EHOSTUNREACH})"
| "is_transient (SshError h e) = (e \<in> {RusshDisconnect, RusshIO})"
| "is_transient _ = False"

section \<open>Host and port\<close>

definition split_host_port :: "string \<Rightarrow> string \<times> nat" where
  "split_host_port host =
     (case (case strip_prefix ''['' host of
              None \<Rightarrow> None | Some rest \<Rightarrow> split_once (CHR '']'') rest) of
        Some (addr, tail) \<Rightarrow>
          (addr,
           (case (case strip_prefix '':'' tail of
                    None \<Rightarrow> None | Some p \<Rightarrow> from_str_radix 16 10 p) of
              Some port \<Rightarrow> port | None \<Rightarrow> 22))
      | None \<Rightarrow>
          if 2 \<le> length (filter (\<lambda>c. c = CHR '':'') host) then (host, 22)
          else
            (case rsplit_once (CHR '':'') host of
               Some (h, p) \<Rightarrow>
                 if p \<noteq> [] \<and> list_all (\<lambda>c. let n = of_char c :: nat in 48 \<le> n \<and> n \<le> 57) p
                 then (h, (case from_str_radix 16 10 p of Some port \<Rightarrow> port | None \<Rightarrow> 22))
                 else (host, 22)
             | None \<Rightarrow> (host, 22)))"

section \<open>Staging\<close>

datatype remote_artifact =
    OwnedDir string string
  | UploadedFile string string

fun artifact_bin :: "remote_artifact \<Rightarrow> string" where
  "artifact_bin (OwnedDir dir bin) = bin"
| "artifact_bin (UploadedFile bin part) = bin"

fun teardown_cmd :: "remote_artifact \<Rightarrow> bool \<Rightarrow> string" where
  "teardown_cmd (OwnedDir dir bin) replaced = ''rm -rf -- '' @ dir"
| "teardown_cmd (UploadedFile bin part) replaced =
     (if \<not> replaced then ''rm -f -- '' @ part else ''rm -f -- '' @ bin)"

definition STAGING_ROOTS :: "string list" where
  "STAGING_ROOTS = [''/var/tmp'', ''/tmp'']"

text \<open>\<open>split_whitespace\<close>: \<open>skip\<close> bytes of a white-space character remain to be passed over.\<close>

fun split_ws :: "nat \<Rightarrow> string \<Rightarrow> string \<Rightarrow> string list" where
  "split_ws skip word [] = (if word = [] then [] else [word])"
| "split_ws (Suc skip) word (c # s) = split_ws skip word s"
| "split_ws 0 word (c # s) =
     (let w = ws_width (c # s) in
      if w = 0 then split_ws 0 (word @ [c]) s
      else (if word = [] then [] else [word]) @ split_ws (w - 1) [] s)"

definition noexec_step :: "string \<Rightarrow> string \<Rightarrow> nat \<times> bool \<Rightarrow> nat \<times> bool" where
  "noexec_step dir line acc =
     (case acc of (best, noexec) \<Rightarrow>
        (case split_ws 0 [] line of
           dev # mp # fs # opts # rest \<Rightarrow>
             if (mp = ''/'' \<or> dir = mp
                 \<or> starts_with dir mp \<and> length mp < length dir \<and> dir ! length mp = CHR ''/'')
                \<and> best \<le> length mp
             then (length mp, ''noexec'' \<in> set (split_char (CHR '','') opts))
             else (best, noexec)
         | _ \<Rightarrow> (best, noexec)))"

definition mount_is_noexec :: "string \<Rightarrow> string \<Rightarrow> bool" where
  "mount_is_noexec mounts dir = snd (fold (noexec_step dir) (lines mounts) (0, False))"

definition staging_dir_is_sane :: "string \<Rightarrow> string \<Rightarrow> bool" where
  "staging_dir_is_sane dir stem =
     (case (case strip_prefix stem dir of None \<Rightarrow> None | Some r \<Rightarrow> strip_prefix ''/'' r) of
        None \<Rightarrow> False
      | Some leaf \<Rightarrow>
          (case strip_prefix ''owlzops-'' leaf of
             None \<Rightarrow> False
           | Some rand \<Rightarrow> rand \<noteq> [] \<and> length rand \<le> 32 \<and> list_all is_ascii_alphanumeric rand))"

text \<open>
  \<open>make_remote_staging\<close>: the mount table and the output of \<open>mktemp -d\<close> under the chosen root, or the
  error of the command, come from the host; \<open>render\<close> is the sanitized prefix shown of a bad path.
\<close>

definition make_remote_staging ::
  "remote_error + string \<Rightarrow> (string \<Rightarrow> remote_error + string) \<Rightarrow> (string \<Rightarrow> string) \<Rightarrow> string
   \<Rightarrow> remote_error + remote_artifact" where
  "make_remote_staging mounts_result mktemp_result render host =
     (case mounts_result of
        Inl e \<Rightarrow> Inl e
      | Inr mounts \<Rightarrow>
          (case find (\<lambda>r. \<not> mount_is_noexec mounts r) STAGING_ROOTS of
             None \<Rightarrow> Inl (UploadFailed host (''every candidate staging root is mounted noexec (CIS 1.1.2.x): ''
                 @ ''pass --remote-path pointing at an exec-capable directory whose parent is not ''
                 @ ''group/world-writable''))
           | Some stem \<Rightarrow>
               (case mktemp_result stem of
                  Inl e \<Rightarrow> Inl e
                | Inr out \<Rightarrow>
                    (let dir = trim out in
                     if \<not> staging_dir_is_sane dir stem then
                       Inl (UploadFailed host (''mktemp returned an unusable path: '' @ render dir))
                     else Inr (OwnedDir dir (dir @ ''/owlzops-mapper''))))))"

section \<open>Facts added to a report\<close>

record remote_coverage =
  rc_notes :: "string list"
  rc_privileged :: "bool option"

definition coverage_apply_to :: "remote_coverage \<Rightarrow> agent_report \<Rightarrow> agent_report" where
  "coverage_apply_to c report =
     (let r1 = report\<lparr>ar_coverage_warnings := ar_coverage_warnings report @ rc_notes c\<rparr>;
          r2 = (case rc_privileged c of None \<Rightarrow> r1 | Some p \<Rightarrow> r1\<lparr>ar_remote_privileged := Some p\<rparr>)
      in if privilege_claim_disagrees r2 then
           r2\<lparr>ar_coverage_warnings := ar_coverage_warnings r2 @
             [if ar_remote_privileged r2 = Some True then
                ''sudo exited 0 but the scan did not run as root '' @ em_dash
                @ '' the sudoers rule for this path does not grant root''
              else
                ''sudo was reported unavailable but the scan ran as root '' @ em_dash
                @ '' the sudo probe returned a false negative'']\<rparr>
         else r2)"

section \<open>Retries\<close>

text \<open>\<open>retry_delay\<close> in milliseconds; the jitter comes from the clock.\<close>

definition retry_delay :: "u64 \<Rightarrow> u32 \<Rightarrow> nat \<Rightarrow> nat" where
  "retry_delay base_secs attempt subsec_nanos =
     (let factor = push_bit (min (unat (sat_sub_u32 attempt 1)) 4) (1 :: u64)
      in unat (sat_mul_u64 base_secs factor) * 1000 + subsec_nanos mod 1000)"

text \<open>
  The loop over \<open>1..=attempts\<close>: \<open>run\<close> is the session of each attempt, \<open>parse\<close> serde's parser of its
  output, \<open>describe\<close> the rendering of an error, \<open>clock\<close> the clock before each pause. Besides the
  report, the pauses made are returned.
\<close>

fun scan_attempts ::
  "(u32 \<Rightarrow> remote_error + string \<times> remote_coverage) \<Rightarrow> (string \<Rightarrow> string + agent_report)
   \<Rightarrow> (remote_error \<Rightarrow> string) \<Rightarrow> (u32 \<Rightarrow> nat) \<Rightarrow> string \<Rightarrow> u64 \<Rightarrow> u32 \<Rightarrow> string list
   \<Rightarrow> u32 list \<Rightarrow> agent_report option \<times> nat list" where
  "scan_attempts run parse describe clock host base attempts notes [] = (None, [])"
| "scan_attempts run parse describe clock host base attempts notes (attempt # rest) =
     (case run attempt of
        Inr (stdout, cov) \<Rightarrow>
          (case parse stdout of
             Inr report \<Rightarrow>
               (let r = coverage_apply_to cov report in
                (Some (r\<lparr>ar_coverage_warnings := ar_coverage_warnings r @ notes,
                         ar_input_address := Some host\<rparr>), []))
           | Inl e \<Rightarrow> (None, []))
      | Inl e \<Rightarrow>
          if is_transient e \<and> attempt < attempts then
            (let delay = retry_delay base attempt (clock attempt);
                 note' = ''attempt '' @ show_word attempt @ '' failed transiently ('' @ describe e
                         @ ''); retried after '' @ show_nat (delay div 1000) @ ''s'';
                 (result, delays) =
                   scan_attempts run parse describe clock host base attempts (notes @ [note']) rest
             in (result, delay # delays))
          else (None, []))"

definition attempt_numbers :: "u32 \<Rightarrow> u32 list" where
  "attempt_numbers attempts = map word_of_nat [1..<Suc (unat attempts)]"

record remote_args =
  ra_ssh_user :: string
  ra_remote_path :: "string option"
  ra_retries :: u32
  ra_retry_backoff_secs :: u64

text \<open>
  \<open>scan_remote_host\<close>: arguments are checked before anything is tried; \<open>elapsed\<close> is whether the overall
  budget of the host ran out before the loop returned.
\<close>

definition scan_remote_host ::
  "(u32 \<Rightarrow> remote_error + string \<times> remote_coverage) \<Rightarrow> (string \<Rightarrow> string + agent_report)
   \<Rightarrow> (remote_error \<Rightarrow> string) \<Rightarrow> (u32 \<Rightarrow> nat) \<Rightarrow> bool \<Rightarrow> string \<Rightarrow> remote_args
   \<Rightarrow> (string \<times> agent_report) option" where
  "scan_remote_host run parse describe clock elapsed host a =
     (if validate_host host \<noteq> None then None
      else if validate_ssh_user (ra_ssh_user a) \<noteq> None then None
      else if (case ra_remote_path a of
                 None \<Rightarrow> False | Some rp \<Rightarrow> validate_remote_path rp \<noteq> None) then None
      else
        (let attempts = sat_add_u32 (ra_retries a) 1;
             (result, delays) = scan_attempts run parse describe clock host
               (ra_retry_backoff_secs a) attempts [] (attempt_numbers attempts)
         in if elapsed then None
            else case result of None \<Rightarrow> None | Some report \<Rightarrow> Some (host, report)))"

section \<open>Lemmas\<close>

text \<open>Bytes a POSIX shell may treat specially, white space and the bytes beyond ASCII included.\<close>

definition shell_plain :: "char \<Rightarrow> bool" where
  "shell_plain c = (is_ascii_alphanumeric c \<or> c \<in> set ''-_./:'')"

lemma allowed_chars:
  "is_ascii_alphanumeric c \<or> c \<in> set ''-_.:[]'' \<Longrightarrow> shell_plain c \<or> c \<in> set ''[]''"
  "is_ascii_alphanumeric c \<or> c \<in> set ''-_'' \<Longrightarrow> shell_plain c"
  "is_ascii_alphanumeric c \<or> c \<in> set ''-_./'' \<Longrightarrow> shell_plain c"
  by (auto simp: shell_plain_def)

lemma validate_host_iff:
  "validate_host h = None \<longleftrightarrow>
     h \<noteq> [] \<and> hd h \<noteq> CHR ''-'' \<and> list_all (\<lambda>c. is_ascii_alphanumeric c \<or> c \<in> set ''-_.:[]'') h"
  by (cases h) (auto simp: validate_host_def list_ex_iff list_all_iff)

lemma validate_ssh_user_iff:
  "validate_ssh_user u = None \<longleftrightarrow>
     u \<noteq> [] \<and> hd u \<noteq> CHR ''-'' \<and> list_all (\<lambda>c. is_ascii_alphanumeric c \<or> c \<in> set ''-_'') u"
  by (cases u) (auto simp: validate_ssh_user_def list_ex_iff list_all_iff)

lemma validate_remote_path_safe:
  "validate_remote_path p = None \<Longrightarrow>
     starts_with p ''/'' \<and> ''..'' \<notin> set (split_char (CHR ''/'') p)
     \<and> list_all (\<lambda>c. is_ascii_alphanumeric c \<or> c \<in> set ''-_./'') p"
  by (auto simp: validate_remote_path_def list_ex_iff list_all_iff split: if_splits)

lemma strip_prefix_append [simp]: "strip_prefix p (p @ r) = Some r"
  by (simp add: strip_prefix_Some_iff)

lemma staging_dir_is_sane_iff:
  "staging_dir_is_sane dir stem \<longleftrightarrow>
     (\<exists>rand. dir = stem @ ''/owlzops-'' @ rand \<and> 1 \<le> length rand \<and> length rand \<le> 32
        \<and> list_all is_ascii_alphanumeric rand)"
  by (auto simp: staging_dir_is_sane_def strip_prefix_Some_iff Suc_le_eq split: option.splits)

lemma staging_chars_plain:
  "stem \<in> set STAGING_ROOTS \<Longrightarrow> list_all is_ascii_alphanumeric rand \<Longrightarrow>
     list_all shell_plain (stem @ ''/owlzops-'' @ rand)"
proof -
  assume stem: "stem \<in> set STAGING_ROOTS" and "list_all is_ascii_alphanumeric rand"
  then have "list_all shell_plain rand" by (auto simp: list_all_iff shell_plain_def)
  moreover have "list_all shell_plain (stem @ ''/owlzops-'')"
    using stem by (auto simp: STAGING_ROOTS_def shell_plain_def is_ascii_alphanumeric_def)
  ultimately show ?thesis by simp
qed

lemma unat_small_power: "n \<le> 4 \<Longrightarrow> unat (2 ^ n :: u64) = 2 ^ n"
proof -
  assume "n \<le> 4"
  then consider "n = 0" | "n = 1" | "n = 2" | "n = 3" | "n = 4" by linarith
  then show ?thesis by cases simp_all
qed

lemma retry_delay_eq:
  "retry_delay base attempt ns =
     min 18446744073709551615 (unat base * 2 ^ min (unat attempt - 1) 4) * 1000 + ns mod 1000"
  by (simp add: retry_delay_def Let_def unat_sat_mul_u64 unat_sat_sub_u32 unat_small_power push_bit_eq_mult)

text \<open>
  What the loop makes of the tries: those that fail transiently, the last one excepted, are followed
  by a pause and leave a note; the next one decides.
\<close>

definition fails_transiently :: "remote_error + 'a \<Rightarrow> bool" where
  "fails_transiently x = (case x of Inl e \<Rightarrow> is_transient e | Inr _ \<Rightarrow> False)"

definition retry_note ::
  "(u32 \<Rightarrow> remote_error + 'a) \<Rightarrow> (remote_error \<Rightarrow> string) \<Rightarrow> (u32 \<Rightarrow> nat) \<Rightarrow> u64 \<Rightarrow> u32 \<Rightarrow> string" where
  "retry_note run describe clock base b =
     ''attempt '' @ show_word b @ '' failed transiently ('' @ describe (projl (run b))
       @ ''); retried after '' @ show_nat (retry_delay base b (clock b) div 1000) @ ''s''"

definition decided_by ::
  "(string \<Rightarrow> string + agent_report) \<Rightarrow> string \<Rightarrow> string list
   \<Rightarrow> remote_error + string \<times> remote_coverage \<Rightarrow> agent_report option" where
  "decided_by parse host notes answer =
     (case answer of
        Inl e \<Rightarrow> None
      | Inr (out, cov) \<Rightarrow>
          (case parse out of
             Inl e \<Rightarrow> None
           | Inr report \<Rightarrow> Some (report\<lparr>
               ar_coverage_warnings := ar_coverage_warnings (coverage_apply_to cov report) @ notes,
               ar_remote_privileged := (case rc_privileged cov of
                  None \<Rightarrow> ar_remote_privileged report | Some p \<Rightarrow> Some p),
               ar_input_address := Some host\<rparr>)))"

lemma coverage_apply_rest:
  "(coverage_apply_to cov report)\<lparr>ar_coverage_warnings := w, ar_input_address := i\<rparr> =
     report\<lparr>ar_coverage_warnings := w,
       ar_remote_privileged := (case rc_privileged cov of
          None \<Rightarrow> ar_remote_privileged report | Some p \<Rightarrow> Some p), ar_input_address := i\<rparr>"
  by (cases "rc_privileged cov") (simp_all add: coverage_apply_to_def Let_def)

lemma scan_attempts_exact:
  fixes run :: "u32 \<Rightarrow> remote_error + string \<times> remote_coverage"
  assumes "tries \<noteq> []" "\<And>b. b \<in> set (butlast tries) \<Longrightarrow> b < attempts" "\<not> last tries < attempts"
  defines "failed \<equiv> takeWhile (\<lambda>b. fails_transiently (run b)) (butlast tries)"
  shows "scan_attempts run parse describe clock host base attempts acc tries =
     (decided_by parse host (acc @ map (retry_note run describe clock base) failed)
        (run (tries ! length failed)),
      map (\<lambda>b. retry_delay base b (clock b)) failed)"
  using assms(1-3) unfolding failed_def
proof (induction tries arbitrary: acc)
  case (Cons x ts)
  show ?case
  proof (cases "ts \<noteq> [] \<and> fails_transiently (run x)")
    case True
    then obtain e where e: "run x = Inl e" "is_transient e"
      by (auto simp: fails_transiently_def split: sum.splits)
    have below: "x < attempts" "\<And>b. b \<in> set (butlast ts) \<Longrightarrow> b < attempts" "\<not> last ts < attempts"
      using Cons.prems True by simp_all
    note IH = Cons.IH [OF conjunct1 [OF True] below(2,3)]
    show ?thesis using True e below(1) by (simp add: IH Let_def retry_note_def)
  next
    case False
    then have "\<not> (fails_transiently (run x) \<and> x < attempts)" using Cons.prems(3) by auto
    moreover have "takeWhile (\<lambda>b. fails_transiently (run b)) (butlast (x # ts)) = []" using False by auto
    ultimately show ?thesis
      by (auto simp: decided_by_def coverage_apply_rest fails_transiently_def Let_def split: sum.splits)
  qed
qed simp

lemma unat_attempt_numbers: "map unat (attempt_numbers n) = [1..<Suc (unat n)]"
proof -
  have "unat (word_of_nat k :: u32) = k" if "k \<in> set [1..<Suc (unat n)]" for k
  proof -
    have "k < 2 ^ 32" using that unsigned_less [of n, where 'a = nat] by auto
    then show ?thesis by (simp add: unat_of_nat)
  qed
  then show ?thesis unfolding attempt_numbers_def map_map comp_def by (rule map_idI)
qed

lemma length_attempt_numbers [simp]: "length (attempt_numbers n) = unat n"
  by (simp add: attempt_numbers_def)

lemma digits_show_base:
  "b \<le> 10 \<Longrightarrow> 2 \<le> b \<Longrightarrow> c \<in> set (show_base b n) \<Longrightarrow> 48 \<le> (of_char c :: nat) \<and> (of_char c :: nat) \<le> 57"
proof (induction b n rule: show_base.induct)
  case (1 b n)
  have d: "48 \<le> (of_char (digit_char m) :: nat) \<and> (of_char (digit_char m) :: nat) \<le> 57" if "m < b" for m
    using that 1 by (auto simp: digit_char_def)
  show ?case
    using 1 d [of n] d [of "n mod b"] by (auto simp: show_base.simps [of b n] split: if_splits)
qed

lemma from_str_radix_show:
  assumes "n < 2 ^ N"
  shows "from_str_radix N 10 (show_nat n) = Some n"
proof -
  obtain c s where cs: "show_base 10 n = c # s" by (cases "show_base 10 n") auto
  then have "c \<noteq> CHR ''+''" using digits_show_base [of 10 c n] by auto
  then show ?thesis
    using cs parse_show_base [of 10 n] assms by (simp add: from_str_radix_def show_nat_def Let_def)
qed

section \<open>Properties\<close>

text \<open>
  Accepted arguments can be put on a command line. A host, user and remote path that pass the
  validators consist of bytes a shell takes literally (a host may also have brackets), neither host
  nor user can be taken for an option, and the path is absolute and never goes up.
\<close>

theorem accepted_arguments_safe:
  assumes "validate_host h = None" "validate_ssh_user u = None" "validate_remote_path p = None"
  shows "list_all (\<lambda>c. shell_plain c \<or> c \<in> set ''[]'') h \<and> list_all shell_plain (u @ p)
     \<and> h \<noteq> [] \<and> u \<noteq> [] \<and> hd h \<noteq> CHR ''-'' \<and> hd u \<noteq> CHR ''-''
     \<and> starts_with p ''/'' \<and> ''..'' \<notin> set (split_char (CHR ''/'') p)"
proof -
  have "list_all (\<lambda>c. shell_plain c \<or> c \<in> set ''[]'') h"
    using assms(1) allowed_chars(1) unfolding validate_host_iff list_all_iff by blast
  moreover have "list_all shell_plain u" "list_all shell_plain p"
    using assms(2) validate_remote_path_safe [OF assms(3)] allowed_chars(2,3)
    unfolding validate_ssh_user_iff list_all_iff by blast+
  ultimately show ?thesis
    using assms(1,2) validate_remote_path_safe [OF assms(3)]
    unfolding validate_host_iff validate_ssh_user_iff list_all_append by blast
qed

theorem accepted_arguments_safe_witness:
  "list_all (\<lambda>c. shell_plain c \<or> c \<in> set ''[]'') ''[::1]:22''
   \<and> list_all shell_plain (''scan'' @ ''/usr/local/bin/owlzops-mapper'')"
proof -
  have "validate_host ''[::1]:22'' = None"
    by (simp add: validate_host_def is_ascii_alphanumeric_def)
  moreover have "validate_ssh_user ''scan'' = None"
    by (simp add: validate_ssh_user_def is_ascii_alphanumeric_def)
  moreover have "validate_remote_path ''/usr/local/bin/owlzops-mapper'' = None"
    by (simp add: validate_remote_path_def is_ascii_alphanumeric_def rsplit_once_def)
  ultimately show ?thesis using accepted_arguments_safe by blast
qed

text \<open>
  The check against world-writable directories looks at the text of the path only. A doubled
  slash passes it: the path below is accepted although its components are those of a path under
  \<open>/tmp\<close>, which is refused.
\<close>

theorem world_writable_check_bypassed:
  "validate_remote_path ''//tmp/owlzops-mapper'' = None
   \<and> validate_remote_path ''/tmp/owlzops-mapper'' \<noteq> None
   \<and> filter (\<lambda>c. c \<noteq> []) (split_char (CHR ''/'') ''//tmp/owlzops-mapper'')
     = filter (\<lambda>c. c \<noteq> []) (split_char (CHR ''/'') ''/tmp/owlzops-mapper'')"
  by (simp add: validate_remote_path_def is_ascii_alphanumeric_def rsplit_once_def)

text \<open>
  C7: what is removed as root is only what was staged. Whatever a host answers to the mount table
  and to \<open>mktemp\<close>, a staging directory that is accepted is one fresh component
  \<open>owlzops-\<close> with 1 to 32 alphanumeric bytes directly below a staging root that is not mounted
  \<open>noexec\<close>, and the command that removes it names exactly that directory in plain bytes.
\<close>

theorem staging_removal_safe:
  assumes "make_remote_staging (Inr mounts) mktemp render host = Inr artifact"
  shows "\<exists>stem rand. stem \<in> set STAGING_ROOTS \<and> \<not> mount_is_noexec mounts stem
     \<and> 1 \<le> length rand \<and> length rand \<le> 32 \<and> list_all is_ascii_alphanumeric rand
     \<and> teardown_cmd artifact replaced = ''rm -rf -- '' @ stem @ ''/owlzops-'' @ rand
     \<and> list_all shell_plain (stem @ ''/owlzops-'' @ rand)
     \<and> artifact_bin artifact = stem @ ''/owlzops-'' @ rand @ ''/owlzops-mapper''"
proof -
  obtain stem out where *: "find (\<lambda>r. \<not> mount_is_noexec mounts r) STAGING_ROOTS = Some stem"
    "staging_dir_is_sane (trim out) stem"
    "artifact = OwnedDir (trim out) (trim out @ ''/owlzops-mapper'')"
    using assms by (auto simp: make_remote_staging_def Let_def split: option.splits sum.splits if_splits)
  obtain rand where r: "trim out = stem @ ''/owlzops-'' @ rand" "1 \<le> length rand" "length rand \<le> 32"
    "list_all is_ascii_alphanumeric rand"
    using *(2) unfolding staging_dir_is_sane_iff by blast
  have "list_all shell_plain (stem @ ''/owlzops-'' @ rand)"
    by (rule staging_chars_plain [OF _ r(4)]) (use find_SomeD [OF *(1)] in simp)
  then show ?thesis
    using find_SomeD [OF *(1)] r *(3)
    by (rule_tac exI [of _ stem], rule_tac exI [of _ rand]) simp
qed

theorem staging_removal_safe_witness:
  "\<exists>stem rand. teardown_cmd (OwnedDir ''/var/tmp/owlzops-k3Qx9a7B''
       ''/var/tmp/owlzops-k3Qx9a7B/owlzops-mapper'') False = ''rm -rf -- '' @ stem @ ''/owlzops-'' @ rand
     \<and> stem \<in> set STAGING_ROOTS"
proof -
  have "trim ''/var/tmp/owlzops-k3Qx9a7B'' = ''/var/tmp/owlzops-k3Qx9a7B''"
    by (rule trim_visible) (simp_all add: visible_def)
  then have "make_remote_staging (Inr []) (\<lambda>r. Inr ''/var/tmp/owlzops-k3Qx9a7B'') (\<lambda>d. d) ''web1''
      = Inr (OwnedDir ''/var/tmp/owlzops-k3Qx9a7B'' ''/var/tmp/owlzops-k3Qx9a7B/owlzops-mapper'')"
    by (simp add: make_remote_staging_def STAGING_ROOTS_def mount_is_noexec_def lines.simps
        staging_dir_is_sane_def is_ascii_alphanumeric_def)
  from staging_removal_safe [OF this, of False] show ?thesis by blast
qed

text \<open>
  C15: A host is tried at most once and \<open>retries\<close> times more, and the outcome is exact. The tries are
  numbered from 1 to \<open>retries + 1\<close>, or to the largest \<open>u32\<close> where that addition would overflow. The
  sessions that fail transiently before the last try are followed by one pause each and by the next try;
  the first other session decides, and none is run after it. If it gives a report that parses, that
  report is the result, with nothing changed but the notes of the session and one note per failed try
  after its own warnings, the privilege the session knows of, and the requested address. If not, the
  host has no report; nor has it with an argument that is refused, or when its time is up.
\<close>

theorem retries_bounded_and_exact:
  "let attempts = sat_add_u32 (ra_retries a) 1;
       tries = attempt_numbers attempts;
       failed = takeWhile (\<lambda>b. fails_transiently (run b)) (butlast tries);
       deciding = tries ! length failed;
       notes = map (retry_note run describe clock (ra_retry_backoff_secs a)) failed
   in map unat tries = [1..<Suc (min (unat (ra_retries a) + 1) (2 ^ 32 - 1))]
      \<and> length failed \<le> unat (ra_retries a)
      \<and> unat deciding = length failed + 1
      \<and> scan_attempts run parse describe clock host (ra_retry_backoff_secs a) attempts [] tries
        = (decided_by parse host notes (run deciding),
           map (\<lambda>b. retry_delay (ra_retry_backoff_secs a) b (clock b)) failed)
      \<and> scan_remote_host run parse describe clock elapsed host a
        = (if validate_host host = None \<and> validate_ssh_user (ra_ssh_user a) = None
              \<and> (case ra_remote_path a of None \<Rightarrow> True | Some rp \<Rightarrow> validate_remote_path rp = None)
              \<and> \<not> elapsed
           then map_option (Pair host) (decided_by parse host notes (run deciding))
           else None)"
proof -
  define attempts where "attempts = sat_add_u32 (ra_retries a) 1"
  define tries where "tries = attempt_numbers attempts"
  define failed where "failed = takeWhile (\<lambda>b. fails_transiently (run b)) (butlast tries)"
  have sat: "unat attempts = min (unat (ra_retries a) + 1) (2 ^ 32 - 1)"
    by (simp add: attempts_def unat_sat_add_u32)
  then have pos: "1 \<le> unat attempts" by simp
  have nums: "map unat tries = [1..<Suc (unat attempts)]"
    by (simp add: tries_def unat_attempt_numbers)
  have len: "length tries = unat attempts" using arg_cong [OF nums, of length] by simp
  then have ne: "tries \<noteq> []" using pos by auto
  have nth: "unat (tries ! i) = i + 1" if "i < unat attempts" for i
    using arg_cong [OF nums, of "\<lambda>xs. xs ! i"] that len by (simp del: upt_Suc)
  have few: "length failed \<le> unat attempts - 1"
    using length_takeWhile_le [of _ "butlast tries"] len by (simp add: failed_def)
  have below: "b < attempts" if mem: "b \<in> set (butlast tries)" for b
  proof -
    obtain i where i: "i < length (butlast tries)" "b = butlast tries ! i"
      using mem by (auto simp: in_set_conv_nth)
    then have "i < unat attempts - 1" "b = tries ! i" using len by (simp_all add: nth_butlast)
    then show ?thesis using nth [of i] by (simp add: word_less_nat_alt)
  qed
  have "unat (last tries) = unat attempts"
    using nth [of "unat attempts - 1"] ne len pos by (simp add: last_conv_nth)
  then have last: "\<not> last tries < attempts" by (simp add: word_less_nat_alt)
  note exact = scan_attempts_exact [OF ne below last, of run, folded failed_def]
  have "unat (tries ! length failed) = length failed + 1" using nth few pos by simp
  then show ?thesis
    unfolding Let_def attempts_def [symmetric] tries_def [symmetric] failed_def [symmetric]
    using nums few sat exact
    by (auto simp: scan_remote_host_def attempts_def [symmetric] tries_def [symmetric] split: option.splits)
qed

theorem retries_bounded_and_exact_witness:
  "scan_remote_host (\<lambda>b. if b = 1 then Inl (ConnectTimeout ''web1'')
         else Inr (''r'', \<lparr>rc_notes = [], rc_privileged = None\<rparr>))
       example_from_json (\<lambda>e. ''timed out'') (\<lambda>b. 0) False ''web1''
       \<lparr>ra_ssh_user = ''root'', ra_remote_path = None, ra_retries = 2, ra_retry_backoff_secs = 2\<rparr> \<noteq> None"
proof -
  let ?run = "\<lambda>b :: u32. if b = 1 then Inl (ConnectTimeout ''web1'')
         else Inr (''r'', \<lparr>rc_notes = [], rc_privileged = None\<rparr>)"
  have tries: "attempt_numbers 3 = [1, 2, 3]" by (simp add: attempt_numbers_def upt_rec)
  show ?thesis
    using retries_bounded_and_exact [of "\<lparr>ra_ssh_user = ''root'', ra_remote_path = None,
        ra_retries = 2, ra_retry_backoff_secs = 2\<rparr>" ?run "\<lambda>e. ''timed out''" "\<lambda>b. 0"
        example_from_json "''web1''" False]
    by (simp add: tries sat_add_u32_def fails_transiently_def decided_by_def example_from_json_def
        validate_host_def validate_ssh_user_def is_ascii_alphanumeric_def Let_def)
qed

text \<open>
  The pause before a retry doubles from the configured base up to sixteen times it, stops at the
  largest number of seconds instead of wrapping, carries less than a second of jitter, and never
  shrinks from one attempt to the next by more than the jitter.
\<close>

theorem retry_delay_spec:
  "retry_delay base attempt ns =
     min (2 ^ 64 - 1) (unat base * 2 ^ min (unat attempt - 1) 4) * 1000 + ns mod 1000
   \<and> unat base * 1000 \<le> retry_delay base attempt ns
   \<and> retry_delay base attempt ns < unat base * 16000 + 1000
   \<and> retry_delay base attempt ns * 1000000 \<le> duration_max"
proof -
  let ?k = "min (unat attempt - 1) 4"
  have b: "unat base \<le> 18446744073709551615"
    using unsigned_less [of base, where 'a = nat] by simp
  have "(2 :: nat) ^ ?k \<le> 2 ^ 4" by (rule power_increasing) simp_all
  then have hi: "unat base * 2 ^ ?k \<le> unat base * 16" by simp
  have lo: "unat base \<le> unat base * 2 ^ ?k" by simp
  define m where "m = min 18446744073709551615 (unat base * 2 ^ ?k)"
  have m: "unat base \<le> m" "m \<le> unat base * 16" "m \<le> 18446744073709551615"
    using b lo order_trans [OF min.cobounded2 hi] unfolding m_def by simp_all
  define q where "q = ns mod 1000"
  have q: "q < 1000" by (simp add: q_def)
  have eq: "retry_delay base attempt ns = m * 1000 + q"
    by (simp add: retry_delay_eq m_def q_def)
  have "m * 1000 + q < unat base * 16000 + 1000" "unat base * 1000 \<le> m * 1000 + q"
    "(m * 1000 + q) * 1000000 \<le> duration_max"
    using m q by (simp_all add: duration_max_def)
  then show ?thesis unfolding eq by (simp add: m_def q_def)
qed

text \<open>
  The ceiling of a host outlives its stages. It is the exact sum of connecting, authenticating,
  the scan budget, the cleanup and the margin, cut off only at the largest duration; and the scan
  budget is twice the configured seconds plus 65, cut off at the largest number of seconds.
\<close>

theorem host_ceiling_spec:
  "scan_budget t = min (2 ^ 64 - 1) (2 * unat t + 65) * 1000000000
   \<and> host_ceiling t = min duration_max (scan_budget t + 60 * 1000000000)
   \<and> (host_ceiling t = duration_max
      \<or> CONNECT_BUDGET + HANDSHAKE_AUTH_BUDGET + scan_budget t + CLEANUP_BUDGET < host_ceiling t)"
proof -
  have budget: "scan_budget t = min (2 ^ 64 - 1) (2 * unat t + 65) * 1000000000"
    by (simp add: scan_budget_def from_secs_def host_budget_secs_def unat_sat_add_u64
        unat_sat_mul_u64 min_def)
  have vals: "CONNECT_BUDGET = 15000000000" "HANDSHAKE_AUTH_BUDGET = 30000000000"
    "CLEANUP_BUDGET = 10000000000" "CEILING_MARGIN = 5000000000"
    by (simp_all add: budgets from_secs_def)
  have ceiling: "host_ceiling t = min duration_max (scan_budget t + 60 * 1000000000)"
    by (simp add: host_ceiling_def dur_sat_add_def vals duration_max_def min_def)
  show ?thesis using budget ceiling by (simp add: vals min_def)
qed

text \<open>
  What the orchestrator adds to a report only adds: the notes come after the report's own
  warnings, in order; the privilege it learned replaces the old one only if it learned one; and one
  more warning is added exactly when the claim then disagrees with the report, in which case the
  scan does not count as privileged. Nothing else changes.
\<close>

theorem coverage_apply_spec:
  "let r' = coverage_apply_to c r;
       p = (case rc_privileged c of None \<Rightarrow> ar_remote_privileged r | Some b \<Rightarrow> Some b)
   in ar_remote_privileged r' = p
      \<and> (\<exists>extra. ar_coverage_warnings r' = ar_coverage_warnings r @ rc_notes c @ extra
           \<and> length extra = (if p \<noteq> None \<and> p \<noteq> Some (ar_is_root_execution r) then 1 else 0))
      \<and> r' = r\<lparr>ar_coverage_warnings := ar_coverage_warnings r', ar_remote_privileged := p\<rparr>
      \<and> \<not> (privilege_claim_disagrees r' \<and> scan_was_privileged r')"
  by (cases "rc_privileged c"; cases "ar_remote_privileged r")
    (auto simp: coverage_apply_to_def Let_def privilege_claim_disagrees_def scan_was_privileged_def
      split: bool.splits option.splits)

text \<open>
  The addresses an operator can write are split as written. A bracketed address without a
  bracket inside, or a name without a colon and not starting with a bracket, followed by a port in
  decimal, gives that address and that port; an address of two colons or more without brackets is an
  IPv6 address with port 22.
\<close>

theorem split_host_port_roundtrip:
  assumes "port < 65536" "CHR '']'' \<notin> set addr" "CHR '':'' \<notin> set name" "hd name \<noteq> CHR ''[''" "name \<noteq> []"
  shows "split_host_port (''['' @ addr @ '']:'' @ show_nat port) = (addr, port)
     \<and> split_host_port (name @ '':'' @ show_nat port) = (name, port)
     \<and> split_host_port (name @ ''::'' @ addr) = (name @ ''::'' @ addr, 22)"
proof -
  have radix: "from_str_radix 16 10 (show_nat port) = Some port"
    by (rule from_str_radix_show) (use assms(1) in simp)
  have digits: "list_all (\<lambda>c. 48 \<le> (of_char c :: nat) \<and> (of_char c :: nat) \<le> 57) (show_nat port)"
    using digits_show_base [of 10 _ port] by (auto simp: list_all_iff show_nat_def)
  then have no_colon: "CHR '':'' \<notin> set (show_nat port)" by (auto simp: list_all_iff)
  obtain d s where name: "name = d # s" "d \<noteq> CHR ''[''" using assms(4,5) by (cases name) auto
  have none: "filter (\<lambda>c. c = CHR '':'') name = []" "filter (\<lambda>c. c = CHR '':'') (show_nat port) = []"
    using assms(3) no_colon by (auto simp: filter_empty_conv)
  have r: "rsplit_once (CHR '':'') (name @ CHR '':'' # show_nat port) = Some (name, show_nat port)"
    using split_once_append [of "CHR '':''" "rev (show_nat port)" "rev name"] no_colon
    by (simp add: rsplit_once_def)
  have ne: "show_nat port \<noteq> []" by (simp add: show_nat_def)
  have bracket: "split_host_port (''['' @ addr @ '']:'' @ show_nat port) = (addr, port)"
    using split_once_append [of "CHR '']''" addr "CHR '':'' # show_nat port"] assms(2) radix
    by (simp add: split_host_port_def)
  have plain: "split_host_port (name @ '':'' @ show_nat port) = (name, port)"
    using r [unfolded name(1)] radix digits none(1) [unfolded name(1)] none(2) ne name(2)
    unfolding name(1) by (simp add: split_host_port_def Let_def split: if_splits)
  have six: "split_host_port (name @ ''::'' @ addr) = (name @ ''::'' @ addr, 22)"
    using name(2) by (simp add: split_host_port_def name(1))
  from bracket plain six show ?thesis by blast
qed

theorem split_host_port_roundtrip_witness:
  "split_host_port (''['' @ ''fe80::1'' @ '']:'' @ show_nat 2222) = (''fe80::1'', 2222)"
  using split_host_port_roundtrip [of 2222 "''fe80::1''" "''web1''"] by simp

end
