(* ===== verification/Verdict.thy ===== *)
theory Verdict
  imports Overlay
begin

text \<open>
  What the verdict and the score of a report say about the report: which facts make it
  \<open>Compromised\<close>, what a failed scanner withholds, the class of passwordless-root findings, and on
  what besides the report the result depends.
\<close>

section \<open>Withheld findings\<close>

text \<open>A scanner whose name is on the list of failures.\<close>

definition scanner_failed :: "agent_report \<Rightarrow> scanner \<Rightarrow> bool" where
  "scanner_failed r s \<longleftrightarrow> (\<exists>name \<in> set (ar_failed_scanners r). scanner_from_name name = Some s)"

lemma finding_from_failed_scanner_iff:
  "finding_from_failed_scanner r f \<longleftrightarrow> scanner_failed r (f_source f)"
  by (auto simp: finding_from_failed_scanner_def scanner_failed_def list_ex_iff)

lemma scanner_from_name_iff:
  "scanner_from_name name = Some SecurityScanner \<longleftrightarrow> name = ''security''"
  "scanner_from_name name = Some PersistenceScanner \<longleftrightarrow> name = ''persistence''"
  "scanner_from_name name = Some DockerScanner \<longleftrightarrow> name = ''docker''"
  "scanner_from_name name \<noteq> Some Orchestrator"
  by (simp_all add: scanner_from_name_def)

lemma scanner_failed_iff:
  "scanner_failed r SecurityScanner \<longleftrightarrow> ''security'' \<in> set (ar_failed_scanners r)"
  "scanner_failed r PersistenceScanner \<longleftrightarrow> ''persistence'' \<in> set (ar_failed_scanners r)"
  "scanner_failed r DockerScanner \<longleftrightarrow> ''docker'' \<in> set (ar_failed_scanners r)"
  "\<not> scanner_failed r Orchestrator"
  by (auto simp: scanner_failed_def scanner_from_name_iff)

lemma cov_finding_sel [simp]:
  "f_id (cov_finding n) = ''COV-001''" "f_source (cov_finding n) = Orchestrator"
  "f_weight (cov_finding n) = 0" "f_suppressed (cov_finding n) = None"
  by (simp_all add: cov_finding_def)

lemma emits_filter:
  "emits (filter (\<lambda>f. P (f_source f)) fs) i s \<longleftrightarrow> emits fs i s \<and> P s"
  by (auto simp: emits_def)

lemma emits_evaluate:
  "i \<noteq> ''COV-001'' \<Longrightarrow>
     emits (evaluate env r) i s \<longleftrightarrow> emits (raw_findings env r) i s \<and> \<not> scanner_failed r s"
  unfolding evaluate_def finding_from_failed_scanner_iff emits_append emits_filter
  by (auto simp: emits_def)

section \<open>Which rule speaks for an identifier\<close>

lemma emits_rules:
  "emits (raw_findings env r) i s \<longleftrightarrow>
     (\<exists>fs \<in> set [rule_sec_001 r, rule_sec_002 r, rule_sec_003 r, rule_sec_004 r, rule_sec_005 r,
        rule_sec_006 r, rule_sec_007 r, rule_sec_008 r, rule_sec_009 r, rule_sec_011 r,
        rule_sec_012 r, rule_sec_061 r, rule_sec_062 r, rule_sec_063 r, rule_listeners env r,
        rule_sec_015 r, rule_sec_016 r, rule_sec_017 r, rule_sec_032 r, rule_sec_019 r,
        rule_sec_020 r, rule_sec_021 r, rule_sec_022 r, rule_sec_023 env r, rule_sec_028 env r,
        rule_sec_026 env r, rule_sec_029 env r, rule_sec_033 env r, rule_file_caps r,
        rule_setuid r, rule_sec_035 r, rule_sec_038 r, rule_sec_060 r, rule_sec_039 r,
        rule_sec_040 r, rule_sec_041 r, rule_preload r, rule_sec_051 r, rule_generators env r,
        rule_pam r, rule_exec_start r, rule_core_pattern r, rule_lockdown r, rule_sec_027 env r,
        rule_ghosts r, rule_sec_018 r, rule_leaks r, rule_sec_058 r, rule_cap_001 r,
        rule_cap_002 r, rule_container_limits r, rule_dock_010 r, rule_firewall_bypass r,
        rule_sec_070 r, rule_sec_071 r, rule_sec_072 r, rule_sec_073 r, rule_file_perms r,
        rule_sec_077 r, rule_sec_078 r, rule_sec_079 r, rule_sec_081 r, rule_container_mounts r,
        rule_container_reliability r, rule_reliability r, rule_hyg_001 r]. emits fs i s)"
  unfolding raw_findings_def by (rule emits_concat)

lemmas other_rules = rule_wf [THEN rule_ok_not_emits]

lemma emits_compromise_rule:
  "emits (raw_findings env r) ''SEC-015'' s = emits (rule_sec_015 r) ''SEC-015'' s"
  "emits (raw_findings env r) ''SEC-016'' s = emits (rule_sec_016 r) ''SEC-016'' s"
  "emits (raw_findings env r) ''SEC-017'' s = emits (rule_sec_017 r) ''SEC-017'' s"
  "emits (raw_findings env r) ''SEC-019'' s = emits (rule_sec_019 r) ''SEC-019'' s"
  "emits (raw_findings env r) ''SEC-020'' s = emits (rule_sec_020 r) ''SEC-020'' s"
  "emits (raw_findings env r) ''SEC-021'' s = emits (rule_sec_021 r) ''SEC-021'' s"
  "emits (raw_findings env r) ''SEC-022'' s = emits (rule_sec_022 r) ''SEC-022'' s"
  "emits (raw_findings env r) ''SEC-023'' s = emits (rule_sec_023 env r) ''SEC-023'' s"
  "emits (raw_findings env r) ''SEC-024'' s = emits (rule_ghosts r) ''SEC-024'' s"
  "emits (raw_findings env r) ''SEC-028'' s = emits (rule_sec_028 env r) ''SEC-028'' s"
  "emits (raw_findings env r) ''SEC-040'' s = emits (rule_sec_040 r) ''SEC-040'' s"
  "emits (raw_findings env r) ''DOCK-010'' s = emits (rule_dock_010 r) ''DOCK-010'' s"
  "emits (raw_findings env r) ''SEC-042'' s = emits (rule_preload r) ''SEC-042'' s"
  "emits (raw_findings env r) ''SEC-043'' s = emits (rule_exec_start r) ''SEC-043'' s"
  "emits (raw_findings env r) ''SEC-052'' s = emits (rule_generators env r) ''SEC-052'' s"
  "emits (raw_findings env r) ''SEC-055'' s = emits (rule_pam r) ''SEC-055'' s"
  unfolding emits_rules by (simp_all add: other_rules)

section \<open>What compromises a report\<close>

text \<open>
  The specification of an active compromise, over the facts the scanners report and independently of
  findings, weights and identifiers; one predicate for each scanner that can supply one.
\<close>

definition security_compromise :: "eval_env \<Rightarrow> agent_report \<Rightarrow> bool" where
  "security_compromise env r \<longleftrightarrow>
     (\<exists>port \<in> set (ni_listening_ports (net r)). implant_of r port \<noteq> None)
     \<or> (\<exists>p \<in> set (si_suspicious_processes (sec r)).
          is_known_malware (sp_name p) \<or> is_ambiguous_malware (sp_name p) \<or> sp_is_mimic p
          \<or> sp_is_deleted p \<and> sp_self_attributed p = None)
     \<or> si_mount_masking (sec r) \<noteq> [] \<or> si_reverse_shells (sec r) \<noteq> []
     \<or> (\<exists>f \<in> set (si_library_injections (sec r)). mem_bucket env f r \<in> {ClassicB, DeepCriticalB})
     \<or> (\<exists>g \<in> set (si_ghost_pids (sec r)). gpf_confirmed_ioc g)
     \<or> kmi_hidden_candidates (si_kernel_modules (sec r)) \<noteq> []"

definition persistence_compromise :: "eval_env \<Rightarrow> agent_report \<Rightarrow> bool" where
  "persistence_compromise env r \<longleftrightarrow>
     (\<exists>f \<in> set (si_preload_injections (sec r)).
        preload_class_of (si_provenance_source (sec r)) f \<in> {PreVolatile, PreMapped})
     \<or> (\<exists>f \<in> set (si_exec_start_injections (sec r)). live_volatile f \<and> \<not> unit_is_vendor_shipped f)
     \<or> ee_local_scan env
        \<and> (\<exists>g \<in> set (si_generators (sec r)).
              generator_verdict_of (si_provenance_source (sec r)) g = GenIoc)
     \<or> (\<exists>f \<in> set (si_pam_injections (sec r)). pam_class_of f = PamIoc)"

definition docker_compromise :: "agent_report \<Rightarrow> bool" where
  "docker_compromise r \<longleftrightarrow> (\<exists>c \<in> set (ti_containers (topo r)). tampered_of c \<noteq> None)"

lemma map_filter_Nil: "List.map_filter f xs = [] \<longleftrightarrow> (\<forall>x \<in> set xs. f x = None)"
  by (auto simp: map_filter_def filter_empty_conv)

lemma security_rules_emit:
  "emits (rule_sec_015 r) ''SEC-015'' s \<longleftrightarrow> s = SecurityScanner
     \<and> (\<exists>port \<in> set (ni_listening_ports (net r)). implant_of r port \<noteq> None)"
  "emits (rule_sec_016 r) ''SEC-016'' s \<longleftrightarrow> s = SecurityScanner
     \<and> (\<exists>p \<in> set (si_suspicious_processes (sec r)).
          is_known_malware (sp_name p) \<or> is_ambiguous_malware (sp_name p))"
  "emits (rule_sec_017 r) ''SEC-017'' s \<longleftrightarrow> s = SecurityScanner
     \<and> (\<exists>p \<in> set (si_suspicious_processes (sec r)). sp_is_deleted p \<and> sp_self_attributed p = None)"
  "emits (rule_sec_019 r) ''SEC-019'' s \<longleftrightarrow> s = SecurityScanner \<and> fileless_priv r \<noteq> []"
  "emits (rule_sec_020 r) ''SEC-020'' s \<longleftrightarrow> s = SecurityScanner
     \<and> (\<exists>p \<in> set (si_suspicious_processes (sec r)). sp_is_mimic p)"
  "emits (rule_sec_021 r) ''SEC-021'' s \<longleftrightarrow> s = SecurityScanner \<and> si_mount_masking (sec r) \<noteq> []"
  "emits (rule_sec_022 r) ''SEC-022'' s \<longleftrightarrow> s = SecurityScanner \<and> si_reverse_shells (sec r) \<noteq> []"
  "emits (rule_sec_023 env r) ''SEC-023'' s \<longleftrightarrow> s = SecurityScanner
     \<and> (\<exists>f \<in> set (si_library_injections (sec r)). mem_bucket env f r = ClassicB)"
  "emits (rule_sec_028 env r) ''SEC-028'' s \<longleftrightarrow> s = SecurityScanner
     \<and> (\<exists>f \<in> set (si_library_injections (sec r)). mem_bucket env f r = DeepCriticalB)"
  "emits (rule_ghosts r) ''SEC-024'' s \<longleftrightarrow> s = SecurityScanner
     \<and> (\<exists>g \<in> set (si_ghost_pids (sec r)). gpf_confirmed_ioc g)"
  "emits (rule_sec_040 r) ''SEC-040'' s \<longleftrightarrow> s = SecurityScanner
     \<and> kmi_hidden_candidates (si_kernel_modules (sec r)) \<noteq> []"
  by (auto simp: rule_sec_015_def sec_015_evidence_def rule_sec_016_def name_hits_def rule_sec_017_def
      fileless_def deleted_procs_def rule_sec_019_def rule_sec_020_def mimics_def rule_sec_021_def
      rule_sec_022_def rule_sec_023_def rule_sec_028_def in_bucket_def rule_ghosts_def hard_ghosts_def
      rule_sec_040_def map_filter_Nil filter_empty_conv Let_def)

lemma persistence_rules_emit:
  "emits (rule_preload r) ''SEC-042'' s \<longleftrightarrow> s = PersistenceScanner
     \<and> (\<exists>f \<in> set (si_preload_injections (sec r)).
          preload_class_of (si_provenance_source (sec r)) f \<in> {PreVolatile, PreMapped})"
  "emits (rule_exec_start r) ''SEC-043'' s \<longleftrightarrow> s = PersistenceScanner
     \<and> (\<exists>f \<in> set (si_exec_start_injections (sec r)). live_volatile f \<and> \<not> unit_is_vendor_shipped f)"
  "emits (rule_generators env r) ''SEC-052'' s \<longleftrightarrow> s = PersistenceScanner \<and> ee_local_scan env
     \<and> (\<exists>g \<in> set (si_generators (sec r)).
          generator_verdict_of (si_provenance_source (sec r)) g = GenIoc)"
  "emits (rule_pam r) ''SEC-055'' s \<longleftrightarrow> s = PersistenceScanner
     \<and> (\<exists>f \<in> set (si_pam_injections (sec r)). pam_class_of f = PamIoc)"
  by (auto simp: rule_preload_def preloads_def rule_exec_start_def live_rogue_def sel_def
      rule_generators_def generators_with_def rule_pam_def pam_with_def filter_empty_conv Let_def)

lemma docker_rule_emits:
  "emits (rule_dock_010 r) ''DOCK-010'' s \<longleftrightarrow> s = DockerScanner \<and> docker_compromise r"
  by (auto simp: rule_dock_010_def tampered_def docker_compromise_def map_filter_Nil)

text \<open>A privileged fileless process is a fileless one, so SEC-019 adds nothing to SEC-017.\<close>

lemma fileless_priv_is_fileless:
  "fileless_priv r \<noteq> [] \<Longrightarrow>
     \<exists>p \<in> set (si_suspicious_processes (sec r)). sp_is_deleted p \<and> sp_self_attributed p = None"
  using fileless_priv_fileless [of r] by (auto simp: fileless_def deleted_procs_def filter_empty_conv)

lemmas compromise_emits =
  security_rules_emit persistence_rules_emit docker_rule_emits

lemma has_id_evaluate:
  "i \<noteq> ''COV-001'' \<Longrightarrow>
     has_id (evaluate env r) i \<longleftrightarrow> (\<exists>s. emits (raw_findings env r) i s \<and> \<not> scanner_failed r s)"
  by (simp add: has_id_emits emits_evaluate)

lemma one_source: "(\<exists>s. (s = t \<and> c) \<and> \<not> F s) \<longleftrightarrow> c \<and> \<not> F t"
  by blast

lemma split_specs:
  "security_compromise env r \<or> fileless_priv r \<noteq> [] \<longleftrightarrow>
     (\<exists>port \<in> set (ni_listening_ports (net r)). implant_of r port \<noteq> None)
     \<or> (\<exists>p \<in> set (si_suspicious_processes (sec r)).
          is_known_malware (sp_name p) \<or> is_ambiguous_malware (sp_name p))
     \<or> (\<exists>p \<in> set (si_suspicious_processes (sec r)). sp_is_deleted p \<and> sp_self_attributed p = None)
     \<or> fileless_priv r \<noteq> []
     \<or> (\<exists>p \<in> set (si_suspicious_processes (sec r)). sp_is_mimic p)
     \<or> si_mount_masking (sec r) \<noteq> [] \<or> si_reverse_shells (sec r) \<noteq> []
     \<or> (\<exists>f \<in> set (si_library_injections (sec r)). mem_bucket env f r = ClassicB)
     \<or> (\<exists>g \<in> set (si_ghost_pids (sec r)). gpf_confirmed_ioc g)
     \<or> (\<exists>f \<in> set (si_library_injections (sec r)). mem_bucket env f r = DeepCriticalB)
     \<or> kmi_hidden_candidates (si_kernel_modules (sec r)) \<noteq> []"
  unfolding security_compromise_def insert_iff empty_iff
  by (simp only: bex_disj_distrib bex_triv simp_thms disj_ac)

lemma flatten_sources:
  "(a1 \<and> \<not> F \<or> a2 \<and> \<not> F \<or> a3 \<and> \<not> F \<or> a4 \<and> \<not> F \<or> a5 \<and> \<not> F \<or> a6 \<and> \<not> F \<or> a7 \<and> \<not> F
    \<or> a8 \<and> \<not> F \<or> a9 \<and> \<not> F \<or> a10 \<and> \<not> F \<or> a11 \<and> \<not> F \<or> d \<and> \<not> G
    \<or> p1 \<and> \<not> H \<or> p2 \<and> \<not> H \<or> (l \<and> p3) \<and> \<not> H \<or> p4 \<and> \<not> H)
   \<longleftrightarrow> (a1 \<or> a2 \<or> a3 \<or> a4 \<or> a5 \<or> a6 \<or> a7 \<or> a8 \<or> a9 \<or> a10 \<or> a11) \<and> \<not> F
     \<or> (p1 \<or> p2 \<or> l \<and> p3 \<or> p4) \<and> \<not> H \<or> d \<and> \<not> G"
  by argo

lemma compromised_evaluate:
  "security_verdict_from_findings (evaluate env r) = Compromised \<longleftrightarrow>
     security_compromise env r \<and> ''security'' \<notin> set (ar_failed_scanners r)
     \<or> persistence_compromise env r \<and> ''persistence'' \<notin> set (ar_failed_scanners r)
     \<or> docker_compromise r \<and> ''docker'' \<notin> set (ar_failed_scanners r)"
proof -
  have "security_verdict_from_findings (evaluate env r) = Compromised \<longleftrightarrow>
      (\<exists>i \<in> set COMPROMISE_IDS. \<exists>s. emits (raw_findings env r) i s \<and> \<not> scanner_failed r s)"
    unfolding compromised_iff by (intro bex_cong refl has_id_evaluate) (auto simp: COMPROMISE_IDS_def)
  also have "\<dots> \<longleftrightarrow>
      (security_compromise env r \<or> fileless_priv r \<noteq> []) \<and> \<not> scanner_failed r SecurityScanner
      \<or> persistence_compromise env r \<and> \<not> scanner_failed r PersistenceScanner
      \<or> docker_compromise r \<and> \<not> scanner_failed r DockerScanner"
    unfolding COMPROMISE_IDS_def list.set bex_simps(5,7) bex_empty simp_thms emits_compromise_rule
      compromise_emits one_source split_specs persistence_compromise_def
    by (rule flatten_sources)
  also have "security_compromise env r \<or> fileless_priv r \<noteq> [] \<longleftrightarrow> security_compromise env r"
    using fileless_priv_is_fileless [of r] by (auto simp: security_compromise_def)
  finally show ?thesis unfolding scanner_failed_iff by blast
qed

section \<open>The class of passwordless-root findings\<close>

definition PASSWORDLESS_ROOT_IDS :: "string set" where
  "PASSWORDLESS_ROOT_IDS = {''SEC-005'', ''SEC-012'', ''SEC-061''}"

lemma passwordless_literal:
  "(c # s) \<in> PASSWORDLESS_ROOT_IDS \<longleftrightarrow> c # s = ''SEC-005'' \<or> c # s = ''SEC-012'' \<or> c # s = ''SEC-061''"
  by (simp add: PASSWORDLESS_ROOT_IDS_def)

text \<open>Only three rules speak for the class.\<close>

lemma passwordless_rules:
  "filter (\<lambda>f. f_id f \<in> PASSWORDLESS_ROOT_IDS \<and> P f) (raw_findings env r) =
     filter (\<lambda>f. f_id f \<in> PASSWORDLESS_ROOT_IDS \<and> P f)
       (rule_sec_005 r @ rule_sec_012 r @ rule_sec_061 r)"
proof -
  note quiet = rule_wf [THEN rule_ok_filter_Nil, of PASSWORDLESS_ROOT_IDS P]
  show ?thesis
    unfolding raw_findings_def concat.simps filter_append
    by (simp add: quiet passwordless_literal)
qed

lemma passwordless_raw:
  "length (filter (\<lambda>f. f_id f \<in> PASSWORDLESS_ROOT_IDS \<and> f_suppressed f = None \<and> f_weight f = 15)
       (rule_sec_005 r @ rule_sec_012 r @ rule_sec_061 r)) =
     (if prp_sec012 r \<or> prp_sec005 r \<or> group_escalations r \<noteq> [] then 1 else 0)"
proof -
  have p005: "prp_sec005 r \<Longrightarrow> si_sudo_nopasswd_entries (sec r) \<noteq> []"
    by (auto simp: prp_sec005_def)
  have p012: "aar_sudoers_nopasswd_all (si_access_alignment (sec r)) \<noteq> [] \<longleftrightarrow> prp_sec012 r"
    by (simp add: prp_sec012_def)
  show ?thesis
    using p005
    by (cases "prp_sec012 r"; cases "prp_sec005 r"; cases "group_escalations r = []";
        cases "list_ex (\<lambda>e. \<not> is_root_path e) (si_sudo_nopasswd_entries (sec r))")
      (auto simp: rule_sec_005_def rule_sec_012_def rule_sec_061_def sec_005_weight_def
        sec_061_carrier_def p012 Let_def risk_defs passwordless_literal)
qed

section \<open>The order of hash maps\<close>

text \<open>A finding without its evidence text.\<close>

definition without_evidence :: "finding \<Rightarrow> finding" where
  "without_evidence f = f\<lparr>f_evidence := []\<rparr>"

definition reorder :: "(string \<Rightarrow> string list \<Rightarrow> string list) \<Rightarrow> eval_env \<Rightarrow> eval_env" where
  "reorder h env = env\<lparr>ee_hash_order := h\<rparr>"

lemma os_reorder:
  "in_foreign_mnt_ns (reorder h env) pid = in_foreign_mnt_ns env pid"
  "pinned_root_owned (reorder h env) pid = pinned_root_owned env pid"
  "populated_tree_within (reorder h env) exe = populated_tree_within env exe"
  by (simp_all add: in_foreign_mnt_ns_def pinned_root_owned_def populated_tree_within_def reorder_def)

lemma exe_provenance_reorder [simp]: "exe_provenance (reorder h env) exe pid = exe_provenance env exe pid"
  unfolding exe_provenance_def os_reorder ..

lemma classify_listeners_reorder [simp]: "classify_listeners (reorder h env) = classify_listeners env"
proof -
  have "listener_step (reorder h env) port t = listener_step env port t" for port t
    unfolding listener_step_def exe_provenance_reorder ..
  then have eq: "listener_step (reorder h env) = listener_step env" by (intro ext)
  show ?thesis by (intro ext) (simp only: classify_listeners_def eq)
qed

lemma mem_bucket_reorder [simp]: "mem_bucket (reorder h env) = mem_bucket env"
proof -
  have "deep_verdict (reorder h env) r f d = deep_verdict env r f d" for r f d
    unfolding deep_verdict_def reputable_exe_def exe_provenance_reorder ..
  then have eq: "deep_verdict (reorder h env) = deep_verdict env" by (intro ext)
  show ?thesis by (intro ext) (simp only: mem_bucket_def eq)
qed

lemma buckets_reorder [simp]:
  "in_bucket (reorder h env) = in_bucket env"
  "memory_anomalies (reorder h env) = memory_anomalies env"
  "provisional_regions (reorder h env) = provisional_regions env"
  by (simp_all add: fun_eq_iff in_bucket_def memory_anomalies_def provisional_regions_def)

lemma rules_reorder [simp]:
  "rule_listeners (reorder h env) r = rule_listeners env r"
  "rule_sec_023 (reorder h env) r = rule_sec_023 env r"
  "rule_sec_028 (reorder h env) r = rule_sec_028 env r"
  "rule_sec_033 (reorder h env) r = rule_sec_033 env r"
  "rule_generators (reorder h env) r = rule_generators env r"
  "map without_evidence (rule_sec_026 (reorder h env) r) = map without_evidence (rule_sec_026 env r)"
  "map without_evidence (rule_sec_027 (reorder h env) r) = map without_evidence (rule_sec_027 env r)"
  "map without_evidence (rule_sec_029 (reorder h env) r) = map without_evidence (rule_sec_029 env r)"
  by (simp_all add: rule_listeners_def rule_sec_023_def rule_sec_028_def rule_sec_033_def
      rule_generators_def rule_sec_026_def rule_sec_027_def rule_sec_029_def Let_def
      without_evidence_def mk_finding_def) (simp_all add: reorder_def)

lemma raw_findings_reorder:
  "map without_evidence (raw_findings (reorder h env) r) = map without_evidence (raw_findings env r)"
  unfolding raw_findings_def concat.simps map_append by simp

lemma without_evidence_sel [simp]:
  "f_id (without_evidence f) = f_id f" "f_source (without_evidence f) = f_source f"
  "f_weight (without_evidence f) = f_weight f" "f_suppressed (without_evidence f) = f_suppressed f"
  "f_category (without_evidence f) = f_category f"
  by (simp_all add: without_evidence_def)

lemma map_filter_without_evidence:
  "map without_evidence (filter (\<lambda>f. P (f_source f)) fs) =
     filter (\<lambda>f. P (f_source f)) (map without_evidence fs)"
  by (induction fs) simp_all

lemma evaluate_reorder:
  "map without_evidence (evaluate (reorder h env) r) = map without_evidence (evaluate env r)"
  unfolding evaluate_def finding_from_failed_scanner_iff map_append
    map_filter_without_evidence [where P = "\<lambda>s. \<not> scanner_failed r s"] raw_findings_reorder ..

text \<open>Neither score nor verdict reads the evidence.\<close>

lemma verdict_without_evidence:
  "security_verdict_from_findings (map without_evidence fs) = security_verdict_from_findings fs"
proof -
  have "has_id (map without_evidence fs) i = has_id fs i" for i
    by (simp add: has_id_iff)
  moreover have "length (filter (\<lambda>f. f_id f = i \<and> f_suppressed f = None) (map without_evidence fs))
      = length (filter (\<lambda>f. f_id f = i \<and> f_suppressed f = None) fs)" for i
    by (induction fs) simp_all
  ultimately show ?thesis by (simp add: verdict_cases)
qed

lemma live_sum_without_evidence: "live_sum cat (map without_evidence fs) = live_sum cat fs"
  by (induction fs) (simp_all add: live_sum_Cons)

lemma score_eqI:
  "(\<And>cat. live_sum cat fs = live_sum cat gs) \<Longrightarrow> sr_total (score fs) = sr_total (score gs)"
proof -
  assume "\<And>cat. live_sum cat fs = live_sum cat gs"
  then have "unat (sr_total (score fs)) = unat (sr_total (score gs))"
    using score_spec [of fs] score_spec [of gs] by simp
  then show ?thesis by (rule unsigned_word_eqI)
qed

section \<open>Properties\<close>

text \<open>
  C2: a report is judged \<open>Compromised\<close> exactly when a scanner that did not fail supplies one of the
  facts of an active compromise. The right-hand side is stated over the scanned facts alone: a
  privileged listener on an ephemeral path, a known or masquerading or unattributed deleted process,
  a masking mount, a reverse shell, memory classed as injected or critical, a confirmed hidden
  process or kernel module; a live preload, unit, generator or PAM takeover; a container with
  capabilities beyond its declaration. No other finding can reach the verdict, and none of these can
  be lost on the way through findings, identifiers and suppression. (The README is at odds with the code:
  its table of what escalates to exit code 3 also lists SEC-018, SEC-049, SEC-050, SEC-056 and SEC-057,
  which do not; see \<open>listed_findings_do_not_escalate\<close>.)
\<close>

theorem compromised_characterised:
  "security_verdict_from_findings (evaluate env r) = Compromised \<longleftrightarrow>
     security_compromise env r \<and> ''security'' \<notin> set (ar_failed_scanners r)
     \<or> persistence_compromise env r \<and> ''persistence'' \<notin> set (ar_failed_scanners r)
     \<or> docker_compromise r \<and> ''docker'' \<notin> set (ar_failed_scanners r)"
  by (rule compromised_evaluate)

text \<open>
  Five of the findings that the README lists under active compromise, among them the cron job SEC-018 that it
  also counts into SEC-015 to SEC-024, do not make a report compromised, alone or together.
\<close>

lemma listed_findings_do_not_escalate:
  assumes "f_id ` set fs \<subseteq> {''SEC-018'', ''SEC-049'', ''SEC-050'', ''SEC-056'', ''SEC-057''}"
  shows "security_verdict_from_findings fs \<noteq> Compromised"
proof -
  have "f_id ` set fs \<inter> set COMPROMISE_IDS = {}" using assms by (auto simp: COMPROMISE_IDS_def)
  then show ?thesis by (auto simp: compromised_iff has_id_def list_ex_iff)
qed

text \<open>
  C22: the score of a list of findings is the sum of the live weights of each category, capped at 60,
  30 and 10, and their total never needs the cap at 100: saturating 8-bit additions on the way lose
  nothing against the unbounded sums, however many findings there are.
\<close>

theorem score_refines_capped_sums:
  "unat (sr_security (score fs)) = min 60 (live_sum SecurityCat fs)
   \<and> unat (sr_reliability (score fs)) = min 30 (live_sum ReliabilityCat fs)
   \<and> unat (sr_hygiene (score fs)) = min 10 (live_sum HygieneCat fs)
   \<and> unat (sr_total (score fs)) =
       min 60 (live_sum SecurityCat fs) + min 30 (live_sum ReliabilityCat fs)
       + min 10 (live_sum HygieneCat fs)
   \<and> sr_findings (score fs) = fs"
  using score_spec [of fs] by (simp add: score_def Let_def split: prod.split)

text \<open>
  C14: what \<open>evaluate\<close> returns is the raw findings of the rules without those of failed scanners, in
  order, followed by one live COV-001 of weight 0 for each failed scanner; no other COV-001 and no
  other finding of the orchestrator exists, and nothing from a failed scanner is left.
\<close>

theorem evaluate_withholds_failed_scanners:
  "filter (\<lambda>f. f_id f \<noteq> ''COV-001'') (evaluate env r) =
     filter (\<lambda>f. \<not> list_ex (\<lambda>name. scanner_from_name name = Some (f_source f)) (ar_failed_scanners r))
       (raw_findings env r)
   \<and> filter (\<lambda>f. f_id f = ''COV-001'') (evaluate env r) = map cov_finding (ar_failed_scanners r)
   \<and> filter (\<lambda>f. f_source f = Orchestrator) (evaluate env r) = map cov_finding (ar_failed_scanners r)"
proof -
  have raw: "f_id f \<noteq> ''COV-001'' \<and> f_source f \<noteq> Orchestrator" if "f \<in> set (raw_findings env r)" for f
    using rules.not_orchestrator [of f "(env, r)"] that by simp
  have cov: "filter (\<lambda>f. f_id f \<noteq> ''COV-001'') (map cov_finding ns) = []"
    "filter (\<lambda>f. f_id f = ''COV-001'') (map cov_finding ns) = map cov_finding ns"
    "filter (\<lambda>f. f_source f = Orchestrator) (map cov_finding ns) = map cov_finding ns" for ns
    by (induction ns) simp_all
  have "filter (\<lambda>f. f_id f \<noteq> ''COV-001'') (filter P (raw_findings env r)) = filter P (raw_findings env r)" for P
    by (rule filter_True) (use raw in auto)
  moreover have "filter (\<lambda>f. f_id f = ''COV-001'') (filter P (raw_findings env r)) = []"
    "filter (\<lambda>f. f_source f = Orchestrator) (filter P (raw_findings env r)) = []" for P
    by (rule filter_False; use raw in auto)+
  ultimately show ?thesis
    unfolding evaluate_def filter_append cov
    by (simp add: finding_from_failed_scanner_def)
qed

text \<open>
  C23: the assertion in \<open>CriticalFlags::from_findings\<close> can never fail on what \<open>evaluate\<close> returns: every
  live finding of the compromise class weighs at least 55. And every finding weighs at most 60, and
  a suppressed one weighs nothing, except IP forwarding on a container host, which keeps 5.
\<close>

theorem evaluate_weights:
  "ioc_weights_ok (live (evaluate env r))
   \<and> list_all (\<lambda>f. f_weight f \<le> 60) (evaluate env r)
   \<and> list_all (\<lambda>f. f_suppressed f = None \<or> f_weight f = 0 \<or> f_id f = ''SEC-007'' \<and> f_weight f = 5)
       (evaluate env r)"
proof -
  have raw: "rule_finding f \<or> (\<exists>n. f = cov_finding n)" if "f \<in> set (evaluate env r)" for f
    using that raw_findings_finding [of f env r] by (auto simp: evaluate_def)
  have cov: "''COV-001'' \<notin> set COMPROMISE_IDS" by (simp add: COMPROMISE_IDS_def)
  have each: "(f_id f \<in> set COMPROMISE_IDS \<and> f_suppressed f = None \<longrightarrow> 55 \<le> f_weight f)
      \<and> f_weight f \<le> 60
      \<and> (f_suppressed f = None \<or> f_weight f = 0 \<or> f_id f = ''SEC-007'' \<and> f_weight f = 5)"
    if "f \<in> set (evaluate env r)" for f
    using raw [OF that] cov by (auto simp: rule_finding_def)
  have "ioc_weights_ok (live (evaluate env r))"
    unfolding ioc_weights_ok_def list_all_iff live_def using each by simp
  then show ?thesis unfolding list_all_iff using each by blast
qed

text \<open>
  Passwordless root is charged once. Among the findings SEC-005, SEC-012 and SEC-061, which can
  all describe the same privilege, exactly one is live with the class weight of 15 when the host has
  any of the three forms (and the security scanner did not fail), and none otherwise.
\<close>

theorem passwordless_root_charged_once:
  "length (filter (\<lambda>f. f_id f \<in> PASSWORDLESS_ROOT_IDS \<and> f_suppressed f = None \<and> f_weight f = 15)
       (evaluate env r)) =
     (if ''security'' \<notin> set (ar_failed_scanners r)
         \<and> (prp_sec012 r \<or> prp_sec005 r \<or> 0 < length (group_escalations r)) then 1 else 0)"
proof -
  let ?Q = "\<lambda>f. f_id f \<in> PASSWORDLESS_ROOT_IDS \<and> f_suppressed f = None \<and> f_weight f = 15"
  let ?three = "rule_sec_005 r @ rule_sec_012 r @ rule_sec_061 r"
  have source: "f_source f = SecurityScanner" if "f \<in> set ?three" for f
    using that by (auto simp: rule_sec_005_def rule_sec_012_def rule_sec_061_def Let_def
        split: if_splits prod.splits)
  have "filter ?Q (evaluate env r) =
      filter (\<lambda>f. f_id f \<in> PASSWORDLESS_ROOT_IDS \<and> (\<not> scanner_failed r (f_source f)
        \<and> f_suppressed f = None \<and> f_weight f = 15)) (raw_findings env r)"
    unfolding evaluate_def filter_append finding_from_failed_scanner_iff
    by (auto simp: filter_filter filter_empty_conv passwordless_literal intro: filter_cong)
  also have "\<dots> = filter ?Q (if scanner_failed r SecurityScanner then [] else ?three)"
    unfolding passwordless_rules
  proof (cases "scanner_failed r SecurityScanner")
    case True
    have "filter (\<lambda>f. f_id f \<in> PASSWORDLESS_ROOT_IDS \<and> \<not> scanner_failed r (f_source f)
        \<and> f_suppressed f = None \<and> f_weight f = 15) ?three = []"
      by (rule filter_False) (use source True in auto)
    then show "filter (\<lambda>f. f_id f \<in> PASSWORDLESS_ROOT_IDS \<and> \<not> scanner_failed r (f_source f)
        \<and> f_suppressed f = None \<and> f_weight f = 15) ?three =
      filter ?Q (if scanner_failed r SecurityScanner then [] else ?three)" using True by simp
  next
    case False
    then show "filter (\<lambda>f. f_id f \<in> PASSWORDLESS_ROOT_IDS \<and> \<not> scanner_failed r (f_source f)
        \<and> f_suppressed f = None \<and> f_weight f = 15) ?three =
      filter ?Q (if scanner_failed r SecurityScanner then [] else ?three)"
      by (simp only: if_False, intro filter_cong refl) (use source False in auto)
  qed
  finally show ?thesis
    using passwordless_raw [of r] by (auto simp: scanner_failed_iff)
qed

text \<open>
  The order in which the standard library iterates its hash maps reaches only evidence texts: for
  any two orders the findings agree in number, order, identifier, source, category, weight,
  suppression and title, and the score and the verdict are the same.
\<close>

theorem hash_order_irrelevant:
  "map without_evidence (evaluate (env\<lparr>ee_hash_order := h\<rparr>) r) = map without_evidence (evaluate env r)
   \<and> sr_total (score (evaluate (env\<lparr>ee_hash_order := h\<rparr>) r)) = sr_total (score (evaluate env r))
   \<and> security_verdict_from_findings (evaluate (env\<lparr>ee_hash_order := h\<rparr>) r) =
       security_verdict_from_findings (evaluate env r)"
proof -
  have eq: "map without_evidence (evaluate (env\<lparr>ee_hash_order := h\<rparr>) r) =
      map without_evidence (evaluate env r)"
    using evaluate_reorder [of h env r] by (simp add: reorder_def)
  moreover have "sr_total (score (evaluate (env\<lparr>ee_hash_order := h\<rparr>) r)) = sr_total (score (evaluate env r))"
    by (rule score_eqI) (metis eq live_sum_without_evidence)
  moreover have "security_verdict_from_findings (evaluate (env\<lparr>ee_hash_order := h\<rparr>) r) =
      security_verdict_from_findings (evaluate env r)"
    by (metis eq verdict_without_evidence)
  ultimately show ?thesis by blast
qed

text \<open>A report with one injected library in a process that claims to be a system program.\<close>

definition example_injection :: library_injection_finding where
  "example_injection = default_library_injection_finding
     \<lparr>lif_pid := 7, lif_source := ''maps'', lif_exe_path := Some ''/usr/bin/x'',
      lif_deep_forensics := Some default_deep_memory_analysis\<rparr>"

definition example_injected_report :: agent_report where
  "example_injected_report = default_agent_report
     \<lparr>ar_security := default_security_info\<lparr>si_library_injections := [example_injection]\<rparr>\<rparr>"

text \<open>
  \<open>evaluate\<close> is not a function of the report alone. One and the same report, with an injected
  library in process 7, is compromised when judged on a machine without such a process and not
  compromised when judged on one where \<open>/proc/7/exe\<close> belongs to root, although the report may come
  from another host.
\<close>

theorem verdict_depends_on_judging_machine:
  "security_verdict_from_findings (evaluate bare_env example_injected_report) = Compromised
   \<and> security_verdict_from_findings
       (evaluate (bare_env\<lparr>os_metadata_uid := (\<lambda>p. if p = ''/proc/7/exe'' then Some 0 else None)\<rparr>)
          example_injected_report) \<noteq> Compromised"
proof -
  let ?env = "bare_env\<lparr>os_metadata_uid := (\<lambda>p. if p = ''/proc/7/exe'' then Some 0 else None)\<rparr>"
  let ?r = example_injected_report
  have seven: "show_word (7 :: u32) = ''7''"
    using char_of_char [of "CHR ''7''", where 'a = nat]
    by (simp add: show_word_def show_nat_def show_base.simps digit_char_def)
  have prov: "exe_provenance bare_env ''/usr/bin/x'' 7 = LoneDropped"
    "exe_provenance ?env ''/usr/bin/x'' 7 = InstalledApp"
    by (simp_all add: exe_provenance_def ends_with_def starts_with_def in_foreign_mnt_ns_def
        bare_env_def pinned_root_owned_def SYSTEM_BIN_def seven)
  have clean: "process_behavior_clean 7 ?r"
    by (simp add: process_behavior_clean_def example_injected_report_def example_injection_def
        default_agent_report_def default_network_info_def default_library_injection_finding_def)
  have fields: "lif_deep_forensics example_injection = Some default_deep_memory_analysis"
    "lif_source example_injection = ''maps''" "lif_pid example_injection = 7"
    "lif_exe_path example_injection = Some ''/usr/bin/x''"
    by (simp_all add: example_injection_def default_library_injection_finding_def)
  have calm: "\<not> is_trumping_malice default_deep_memory_analysis"
    by (simp add: is_trumping_malice_def default_deep_memory_analysis_def)
  have rep: "reputable_exe e example_injection \<longleftrightarrow>
      exe_provenance e ''/usr/bin/x'' 7 \<in> {InstalledApp, NestedUserInstall}" for e
    by (simp add: reputable_exe_def fields)
  have deep: "deep_verdict e ?r example_injection default_deep_memory_analysis =
      (if reputable_exe e example_injection then Some TrustedUnverifiedB else None)" for e
    by (simp add: deep_verdict_def default_deep_memory_analysis_def fields clean)
  have bucket: "mem_bucket bare_env example_injection ?r = ClassicB"
    "mem_bucket ?env example_injection ?r = TrustedUnverifiedB"
    by (simp_all add: mem_bucket_def fields calm deep rep prov classify_injection_def)
  have only: "si_library_injections (sec ?r) = [example_injection]"
    by (simp add: example_injected_report_def)
  have "security_compromise bare_env ?r"
    unfolding security_compromise_def only by (simp add: bucket)
  moreover have "\<not> security_compromise ?env ?r"
    unfolding security_compromise_def only
    by (simp add: bucket) (simp add: example_injected_report_def default_agent_report_def
        default_network_info_def default_security_info_def default_kernel_module_inventory_def)
  moreover have "\<not> persistence_compromise ?env ?r" "\<not> docker_compromise ?r"
    "ar_failed_scanners ?r = []"
    by (simp_all add: persistence_compromise_def docker_compromise_def example_injected_report_def
        default_agent_report_def default_security_info_def default_topology_info_def)
  ultimately show ?thesis by (simp add: compromised_evaluate)
qed

end
