(* ===== verification/Classifiers.thy ===== *)
theory Classifiers
  imports Scoring
begin

text \<open>
  What the classifiers below the rules guarantee: the structural provenance of an executable and the
  tiers of listeners (\<open>src/utils.rs\<close>), the tools the scanner may run (\<open>src/utils.rs\<close>), the
  capability masks (\<open>src/scanners/capabilities.rs\<close>) and the buckets of memory findings
  (\<open>src/scoring.rs\<close>).
\<close>

section \<open>Tiers of listeners\<close>

text \<open>The tier of one listener: none if its executable is unknown or on a stable path.\<close>

datatype listener_tier = Suspicious | Devtool | Provisional

definition tier_of :: "('a os_view_scheme) \<Rightarrow> port_info \<Rightarrow> listener_tier option" where
  "tier_of os port =
     (case pi_exe_path port of
        None \<Rightarrow> None
      | Some exe \<Rightarrow>
          if \<not> is_ephemeral_exec_path exe then None
          else if \<not> is_loopback_bind (pi_bind_address port) then Some Suspicious
          else
            (case pi_pid port of
               None \<Rightarrow> Some Suspicious
             | Some pid \<Rightarrow>
                 (case exe_provenance os exe pid of
                    InstalledApp \<Rightarrow> Some Devtool
                  | NestedUserInstall \<Rightarrow> Some Provisional
                  | _ \<Rightarrow> Some Suspicious)))"

definition tier_labels ::
  "('a os_view_scheme) \<Rightarrow> listener_tier \<Rightarrow> port_info list \<Rightarrow> string list" where
  "tier_labels os t ports =
     map (\<lambda>p. listener_label p (the (pi_exe_path p))) (filter (\<lambda>p. tier_of os p = Some t) ports)"

lemma listener_step_tier:
  "listener_step os p t =
     (case tier_of os p of
        None \<Rightarrow> t
      | Some Suspicious \<Rightarrow>
          t\<lparr>lt_suspicious := lt_suspicious t @ [listener_label p (the (pi_exe_path p))]\<rparr>
      | Some Devtool \<Rightarrow> t\<lparr>lt_devtool := lt_devtool t @ [listener_label p (the (pi_exe_path p))]\<rparr>
      | Some Provisional \<Rightarrow>
          t\<lparr>lt_provisional := lt_provisional t @ [listener_label p (the (pi_exe_path p))]\<rparr>)"
  by (auto simp: listener_step_def tier_of_def Let_def split: option.splits exe_provenance.splits
      bool.splits)

lemma classify_fold:
  "fold (listener_step os) ports t =
     t\<lparr>lt_suspicious := lt_suspicious t @ tier_labels os Suspicious ports,
       lt_devtool := lt_devtool t @ tier_labels os Devtool ports,
       lt_provisional := lt_provisional t @ tier_labels os Provisional ports\<rparr>"
proof (induction ports arbitrary: t)
  case (Cons p ports)
  show ?case
    unfolding fold_simps Cons.IH
    by (cases "tier_of os p"; cases "the (tier_of os p)")
      (simp_all add: listener_step_tier tier_labels_def)
qed (simp add: tier_labels_def)

section \<open>Trusted tools\<close>

text \<open>The paths a sequence of lookups returns, with the final cache.\<close>

primrec lookups ::
  "((string \<rightharpoonup> string option) \<Rightarrow> string \<Rightarrow> string option \<times> string list \<times> (string \<rightharpoonup> string option))
   \<Rightarrow> (string \<rightharpoonup> string option) \<Rightarrow> string list \<Rightarrow> string option list \<times> (string \<rightharpoonup> string option)" where
  "lookups lookup cache [] = ([], cache)"
| "lookups lookup cache (t # ts) =
     (case lookup cache t of (found, logged, cache') \<Rightarrow>
        (case lookups lookup cache' ts of (fs, c) \<Rightarrow> (found # fs, c)))"

text \<open>
  What the callers of \<open>resolve_tool\<close> rely on: the cache holds only verified paths. It is an
  invariant of every operation that touches the cache.
\<close>

locale tool_cache =
  fixes trusted :: "string \<Rightarrow> bool"
    and lookup :: "(string \<rightharpoonup> string option) \<Rightarrow> string \<Rightarrow>
      string option \<times> string list \<times> (string \<rightharpoonup> string option)"
  assumes lookup_ok:
    "\<lbrakk>\<forall>t p. cache t = Some (Some p) \<longrightarrow> trusted p; lookup cache tool = (found, logged, cache')\<rbrakk>
     \<Longrightarrow> (\<forall>t p. cache' t = Some (Some p) \<longrightarrow> trusted p) \<and> (\<forall>p. found = Some p \<longrightarrow> trusted p)"
begin

lemma lookups_trusted:
  "\<forall>t p. cache t = Some (Some p) \<longrightarrow> trusted p \<Longrightarrow>
     \<forall>p. Some p \<in> set (fst (lookups lookup cache ts)) \<longrightarrow> trusted p"
proof (induction ts arbitrary: cache)
  case (Cons t ts)
  obtain found logged cache' where l: "lookup cache t = (found, logged, cache')"
    by (cases "lookup cache t")
  with lookup_ok [OF Cons.prems l] Cons.IH [of cache'] show ?case
    by (auto split: prod.splits)
qed simp

end

lemma resolve_tool_in_trusted:
  "resolve_tool_in meta trusted tool dirs = (Some p, logged) \<Longrightarrow> trusted p"
  by (induction dirs arbitrary: logged)
    (auto simp: Let_def split: option.splits if_splits prod.splits)

lemma exec_target_ok:
  "\<forall>t p. cache t = Some (Some p) \<longrightarrow> trusted p \<Longrightarrow>
     exec_target meta trusted cache tool = (found, logged, cache') \<Longrightarrow>
     (\<forall>t p. cache' t = Some (Some p) \<longrightarrow> trusted p) \<and> (\<forall>p. found = Some p \<longrightarrow> trusted p)"
proof -
  assume cache: "\<forall>t p. cache t = Some (Some p) \<longrightarrow> trusted p"
    and run: "exec_target meta trusted cache tool = (found, logged, cache')"
  consider "\<not> starts_with tool ''/''" "resolve_tool meta trusted cache tool = (found, logged, cache')"
    | "cache' = cache" "\<forall>p. found = Some p \<longrightarrow> trusted p"
    using run by (auto simp: exec_target_def split: if_splits)
  then show ?thesis
  proof cases
    case 1
    show ?thesis
    proof (cases "cache tool")
      case None
      obtain f l where res: "resolve_tool_in meta trusted tool tool_dirs = (f, l)"
        by (cases "resolve_tool_in meta trusted tool tool_dirs")
      then have new: "found = f" "cache' = cache(tool \<mapsto> f)"
        using 1(2) None by (auto simp: resolve_tool_def resolve_tool_uncached_def)
      have "\<forall>p. f = Some p \<longrightarrow> trusted p"
        using res resolve_tool_in_trusted by blast
      with cache show ?thesis unfolding new by simp
    next
      case (Some hit)
      with 1(2) have "found = hit" "cache' = cache" by (simp_all add: resolve_tool_def)
      with cache Some show ?thesis by metis
    qed
  next
    case 2
    with cache show ?thesis by blast
  qed
qed

interpretation tools: tool_cache trusted "exec_target meta trusted" for meta trusted
  by unfold_locales (rule exec_target_ok)

section \<open>Capability masks\<close>

definition cap_letter :: "char \<Rightarrow> bool" where
  "cap_letter c = (let n = of_char c :: nat in 65 \<le> n \<and> n \<le> 90 \<or> n = 95)"

lemma ascii_lower_inj: "cap_letter c \<Longrightarrow> cap_letter d \<Longrightarrow> ascii_lower c = ascii_lower d \<Longrightarrow> c = d"
proof -
  assume c: "cap_letter c" and d: "cap_letter d" and eq: "ascii_lower c = ascii_lower d"
  have code: "of_char (ascii_lower x) =
      (if of_char x = (95 :: nat) then 95 else (of_char x :: nat) + 32)" if "cap_letter x" for x
    using that by (auto simp: cap_letter_def ascii_lower_def Let_def of_char_of)
  have "(of_char c :: nat) = of_char d"
    using arg_cong [OF eq, of "of_char :: char \<Rightarrow> nat"] c d unfolding code [OF c] code [OF d]
    by (auto simp: cap_letter_def Let_def simp del: of_char_eq_iff split: if_splits)
  then show ?thesis by simp
qed

lemma eq_ignore_cap_letters:
  "list_all cap_letter a \<Longrightarrow> list_all cap_letter b \<Longrightarrow> eq_ignore_ascii_case a b \<longleftrightarrow> a = b"
  unfolding eq_ignore_ascii_case_def
  by (rule inj_on_map_eq_map) (unfold list_all_iff, blast intro: inj_onI ascii_lower_inj)

lemma position_cong: "(\<And>x. x \<in> set xs \<Longrightarrow> P x = Q x) \<Longrightarrow> position P xs = position Q xs"
  by (induction xs) auto

lemma cap_names_letters: "list_all (\<lambda>n. list_all cap_letter n) CAP_NAMES"
  by (simp add: CAP_NAMES_def cap_letter_def)

lemma cap_name_to_bit_literal:
  assumes "list_all cap_letter name" "name \<noteq> []"
  shows "cap_name_to_bit (trim (''CAP_'' @ name)) = position (\<lambda>full. drop 4 full = name) CAP_NAMES"
proof -
  have "visible c" if "cap_letter c" for c
    using that by (auto simp: cap_letter_def visible_def Let_def)
  then have "visible (last name)" using assms by (auto simp: list_all_iff)
  then have trim: "trim (''CAP_'' @ name) = ''CAP_'' @ name"
    using assms(2) by (intro trim_visible) (simp_all add: visible_def)
  have strip: "strip_cap (''CAP_'' @ name) = name"
    using assms by (cases name)
      (auto simp: strip_cap_def get_to_def eq_ignore_ascii_case_def cap_letter_def Let_def)
  have "eq_ignore_ascii_case (drop 4 full) name \<longleftrightarrow> drop 4 full = name" if "full \<in> set CAP_NAMES" for full
  proof (rule eq_ignore_cap_letters [OF _ assms(1)])
    show "list_all cap_letter (drop 4 full)"
      using cap_names_letters that set_drop_subset [of 4 full] unfolding list_all_iff by blast
  qed
  then show ?thesis
    unfolding cap_name_to_bit_def Let_def trim strip by (rule position_cong)
qed

lemma escape_bits:
  "cap_name_to_bit (trim ''CAP_DAC_READ_SEARCH'') = Some 2"
  "cap_name_to_bit (trim ''CAP_SYS_MODULE'') = Some 16"
  "cap_name_to_bit (trim ''CAP_SYS_RAWIO'') = Some 17"
  "cap_name_to_bit (trim ''CAP_SYS_PTRACE'') = Some 19"
  "cap_name_to_bit (trim ''CAP_SYS_ADMIN'') = Some 21"
  "cap_name_to_bit (trim ''CAP_BPF'') = Some 39"
  "cap_name_to_bit (trim ''CAP_CHECKPOINT_RESTORE'') = Some 40"
  using cap_name_to_bit_literal [of "''DAC_READ_SEARCH''"] cap_name_to_bit_literal [of "''SYS_MODULE''"]
    cap_name_to_bit_literal [of "''SYS_RAWIO''"] cap_name_to_bit_literal [of "''SYS_PTRACE''"]
    cap_name_to_bit_literal [of "''SYS_ADMIN''"] cap_name_to_bit_literal [of "''BPF''"]
    cap_name_to_bit_literal [of "''CHECKPOINT_RESTORE''"]
  by (simp_all add: cap_letter_def CAP_NAMES_def)

lemma escape_names:
  "(b, c) \<in> set CONTAINER_ESCAPE_CAPS \<Longrightarrow> cap_name_to_bit (trim c) = Some b"
  unfolding CONTAINER_ESCAPE_CAPS_def by (auto simp only: list.set insert_iff empty_iff prod.inject escape_bits)

lemma bit_unat_u64: "bit (w :: u64) n \<longleftrightarrow> odd (unat w div 2 ^ n)"
  by (simp add: bit_iff_odd [symmetric] bit_unsigned_iff)

lemma moby_defaults_no_escape:
  "(b, c) \<in> set CONTAINER_ESCAPE_CAPS \<Longrightarrow> b < 64 \<and> \<not> bit MOBY_DEFAULT_CAPS b"
  unfolding CONTAINER_ESCAPE_CAPS_def bit_unat_u64 MOBY_DEFAULT_CAPS_def by auto

lemma undeclared_iff:
  "c \<in> set (undeclared_escape_caps bnd cap_add) \<longleftrightarrow>
     (\<exists>b. (b, c) \<in> set CONTAINER_ESCAPE_CAPS \<and> bit bnd b \<and> \<not> declares_all cap_add
        \<and> (\<forall>e \<in> set cap_add. cap_name_to_bit (trim e) \<noteq> Some b))"
proof -
  have "(bnd AND NOT (MOBY_DEFAULT_CAPS OR cap_add_to_mask cap_add)) AND cap_bit b \<noteq> 0 \<longleftrightarrow>
      bit bnd b \<and> \<not> declares_all cap_add \<and> (\<forall>e \<in> set cap_add. cap_name_to_bit (trim e) \<noteq> Some b)"
    if "(b, c) \<in> set CONTAINER_ESCAPE_CAPS" for b
  proof -
    have b: "b < 64" "\<not> bit MOBY_DEFAULT_CAPS b" using moby_defaults_no_escape [OF that] by auto
    have "bit (cap_add_to_mask cap_add) b \<longleftrightarrow>
        declares_all cap_add \<or> (\<exists>e \<in> set cap_add. cap_name_to_bit (trim e) = Some b)"
      by (simp add: cap_add_to_mask_def cap_add_loop_bits [OF b(1)])
    then show ?thesis
      unfolding and_cap_bit [OF b(1)] using b by (auto simp: bit_and_iff bit_not_iff bit_or_iff)
  qed
  then show ?thesis
    by (force simp: undeclared_escape_caps_def Let_def)
qed

section \<open>Properties\<close>

text \<open>
  An executable is believed to be an installed application exactly on evidence its owner cannot
  forge: the image is neither deleted nor in memory, the process lives in the mount namespace of the
  host, the inode pinned by the kernel belongs to root, and the path is under a system directory or
  the Nix store, or in a populated tree outside volatile storage and outside the trees of runtime
  managers. A volatile path in the host's namespace is never more than a dropped file.
\<close>

theorem installed_app_evidence:
  "(exe_provenance os exe pid = InstalledApp \<longleftrightarrow>
      \<not> ends_with exe '' (deleted)'' \<and> \<not> starts_with exe ''/memfd:''
      \<and> \<not> in_foreign_mnt_ns os pid \<and> pinned_root_owned os pid
      \<and> (list_ex (\<lambda>p. starts_with exe p) SYSTEM_BIN \<or> starts_with exe ''/nix/store/''
         \<or> \<not> is_volatile_exec_path exe \<and> \<not> list_ex (\<lambda>r. contains exe r) RUNTIME_MANAGER_ROOTS
           \<and> populated_tree_within os exe))
   \<and> (is_volatile_exec_path exe \<and> \<not> in_foreign_mnt_ns os pid
      \<longrightarrow> exe_provenance os exe pid \<in> {Deleted, LoneDropped})"
proof -
  have "is_volatile_exec_path exe \<Longrightarrow> \<not> list_ex (\<lambda>p. starts_with exe p) SYSTEM_BIN
      \<and> \<not> starts_with exe ''/nix/store/''"
    using volatile_not_system [of exe] by simp
  then show ?thesis by (auto simp: exe_provenance_def Let_def)
qed

theorem installed_app_evidence_witness:
  "exe_provenance bare_env ''/tmp/x'' 7 \<in> {Deleted, LoneDropped}"
proof -
  have "is_volatile_exec_path ''/tmp/x'' \<and> \<not> in_foreign_mnt_ns bare_env 7"
    by (simp add: is_volatile_exec_path_def starts_with_def in_foreign_mnt_ns_def bare_env_def)
  with installed_app_evidence [of bare_env "''/tmp/x''" 7] show ?thesis by blast
qed

text \<open>
  In a foreign mount namespace the volatile check does not come first: a file under \<open>/tmp\<close> whose
  path contains the directory of a runtime manager is taken for a nested user install.
\<close>

theorem foreign_namespace_volatile_install:
  "is_volatile_exec_path ''/tmp/.nvm/payload''
   \<and> exe_provenance (bare_env\<lparr>os_read_link := (\<lambda>p. Some p)\<rparr>) ''/tmp/.nvm/payload'' 7 = NestedUserInstall"
proof -
  have contains: "contains ''/tmp/.nvm/payload'' ''/.nvm/''" by simp
  have "show_word (7 :: u32) = ''7''"
    using char_of_char [of "CHR ''7''", where 'a = nat]
    by (simp add: show_word_def show_nat_def show_base.simps digit_char_def)
  then have "in_foreign_mnt_ns (bare_env\<lparr>os_read_link := (\<lambda>p. Some p)\<rparr>) 7"
    by (simp add: in_foreign_mnt_ns_def)
  moreover have "is_standard_install_path ''/tmp/.nvm/payload''"
    unfolding is_standard_install_path_def RUNTIME_MANAGER_ROOTS_def using contains by simp
  ultimately show ?thesis
    by (simp add: exe_provenance_def is_volatile_exec_path_def ends_with_def)
qed

text \<open>
  Every listening port lands in at most one tier, in the order of the report, and the tiers are
  those of \<open>tier_of\<close>. A listener on an ephemeral path that is reachable from the network, not bound to
  loopback, is always suspicious, whoever owns the executable; only loopback listeners of installed
  or nested applications are ever trusted.
\<close>

theorem listeners_classified:
  "classify_listeners os ports =
     \<lparr>lt_suspicious = tier_labels os Suspicious ports, lt_devtool = tier_labels os Devtool ports,
      lt_provisional = tier_labels os Provisional ports\<rparr>
   \<and> (\<forall>(port :: port_info) exe. pi_exe_path port = Some exe \<and> is_ephemeral_exec_path exe
        \<and> \<not> is_loopback_bind (pi_bind_address port) \<longrightarrow> tier_of os port = Some Suspicious)
   \<and> (\<forall>(port :: port_info). tier_of os port = Some Devtool \<longrightarrow>
        (\<exists>exe pid. pi_exe_path port = Some exe \<and> pi_pid port = Some pid
           \<and> exe_provenance os exe pid = InstalledApp \<and> is_loopback_bind (pi_bind_address port)))"
proof (intro conjI allI impI)
  show "classify_listeners os ports =
     \<lparr>lt_suspicious = tier_labels os Suspicious ports, lt_devtool = tier_labels os Devtool ports,
      lt_provisional = tier_labels os Provisional ports\<rparr>"
    by (simp add: classify_listeners_def classify_fold)
  fix port :: port_info and exe
  assume "pi_exe_path port = Some exe \<and> is_ephemeral_exec_path exe
      \<and> \<not> is_loopback_bind (pi_bind_address port)"
  then show "tier_of os port = Some Suspicious" by (simp add: tier_of_def)
next
  fix port :: port_info
  assume "tier_of os port = Some Devtool"
  then show "\<exists>exe pid. pi_exe_path port = Some exe \<and> pi_pid port = Some pid
      \<and> exe_provenance os exe pid = InstalledApp \<and> is_loopback_bind (pi_bind_address port)"
    by (auto simp: tier_of_def split: option.splits if_splits exe_provenance.splits)
qed

definition example_port :: port_info where
  "example_port = default_port_info
     \<lparr>pi_bind_address := ''0.0.0.0'', pi_exe_path := Some ''/tmp/x''\<rparr>"

theorem listeners_classified_witness: "tier_of bare_env example_port = Some Suspicious"
proof -
  have "pi_exe_path example_port = Some ''/tmp/x'' \<and> is_ephemeral_exec_path ''/tmp/x''
      \<and> \<not> is_loopback_bind (pi_bind_address example_port)"
    by (simp add: example_port_def is_ephemeral_exec_path_def is_loopback_bind_def v4_loopback_def)
  then show ?thesis
    using listeners_classified [of bare_env "[]", THEN conjunct2, THEN conjunct1] by blast
qed

text \<open>
  The mapper only executes programs that no unprivileged user could have replaced. From a cache of
  verified paths, whatever sequence of programs is looked up through \<open>exec_target\<close>, by bare name or
  by absolute path, found in the cache or not, each path it returns resolves to an executable file
  that root or the caller owns and that nobody else may write, and so does every directory above
  the path as it was written and above the resolved path (on a file system that stays as it is).
\<close>

theorem only_trusted_tools:
  assumes "\<forall>t p. cache t = Some (Some p) \<longrightarrow> is_trusted_exec euid canonicalize meta p"
    and "Some p \<in> set (fst (lookups (exec_target meta (is_trusted_exec euid canonicalize meta)) cache programs))"
  shows "\<exists>rpath file. canonicalize p = Some rpath \<and> meta rpath = Some file
     \<and> em_is_file file \<and> em_mode file AND 0x49 \<noteq> 0
     \<and> (em_uid file = 0 \<or> em_uid file = euid) \<and> em_mode file AND 0x12 = 0
     \<and> (\<forall>d \<in> set (tl (ancestors p)) \<union> set (tl (ancestors rpath)).
          \<exists>m. meta d = Some m \<and> (em_uid m = 0 \<or> em_uid m = euid) \<and> em_mode m AND 0x12 = 0)"
proof -
  have "is_trusted_exec euid canonicalize meta p"
    using tools.lookups_trusted [OF assms(1)] assms(2) by blast
  then show ?thesis
    by (fastforce simp: is_trusted_exec_def is_trusted_exec_with_def owned_ok_def list_all_iff
        split: option.splits)
qed

definition root_owned_meta :: "string \<Rightarrow> exec_meta option" where
  "root_owned_meta p = Some \<lparr>em_uid = 0, em_mode = 0x1ED, em_is_file = (p = ''/usr/sbin/ss'')\<rparr>"

theorem only_trusted_tools_witness:
  "fst (lookups (exec_target root_owned_meta (is_trusted_exec 1000 Some root_owned_meta)) Map.empty
     [''ss'', ''/tmp/ss'']) = [Some ''/usr/sbin/ss'', None]
   \<and> list_all (\<lambda>d. \<exists>m. root_owned_meta d = Some m \<and> em_mode m AND 0x12 = 0) (tl (ancestors ''/usr/sbin/ss''))"
proof -
  let ?trusted = "is_trusted_exec 1000 Some root_owned_meta"
  have trusted: "?trusted p = (p = ''/usr/sbin/ss'')" for p
    by (simp add: is_trusted_exec_def is_trusted_exec_with_def owned_ok_def root_owned_meta_def
        list.pred_True)
  have run: "fst (lookups (exec_target root_owned_meta ?trusted) Map.empty [''ss'', ''/tmp/ss''])
      = [Some ''/usr/sbin/ss'', None]"
    by (simp add: exec_target_def resolve_tool_def resolve_tool_uncached_def tool_dirs_def Let_def
        starts_with_def trusted) (simp add: root_owned_meta_def Let_def trusted [unfolded root_owned_meta_def] trusted)
  then have "Some ''/usr/sbin/ss'' \<in> set (fst (lookups (exec_target root_owned_meta ?trusted) Map.empty
      [''ss'', ''/tmp/ss'']))" by simp
  from only_trusted_tools [OF _ this] run show ?thesis by (auto simp: list_all_iff)
qed

text \<open>
  A container is accused of exactly the escape capabilities it holds and did not declare: the
  capability is in the live bounding set, no entry of \<open>cap_add\<close> names it in any spelling the runtime
  accepts, and \<open>ALL\<close> is not declared; Docker's defaults contain none of them. Declaring what is
  reported, on top of what is declared, silences the report.
\<close>

theorem undeclared_caps_exact:
  "(\<forall>c. c \<in> set (undeclared_escape_caps bnd cap_add) \<longleftrightarrow>
      (\<exists>b. (b, c) \<in> set CONTAINER_ESCAPE_CAPS \<and> bit bnd b \<and> \<not> declares_all cap_add
         \<and> (\<forall>e \<in> set cap_add. cap_name_to_bit (trim e) \<noteq> Some b)))
   \<and> undeclared_escape_caps bnd (cap_add @ undeclared_escape_caps bnd cap_add) = []"
proof
  show "\<forall>c. c \<in> set (undeclared_escape_caps bnd cap_add) \<longleftrightarrow>
      (\<exists>b. (b, c) \<in> set CONTAINER_ESCAPE_CAPS \<and> bit bnd b \<and> \<not> declares_all cap_add
         \<and> (\<forall>e \<in> set cap_add. cap_name_to_bit (trim e) \<noteq> Some b))"
    using undeclared_iff by blast
  let ?all = "cap_add @ undeclared_escape_caps bnd cap_add"
  have "c \<notin> set (undeclared_escape_caps bnd ?all)" for c
  proof
    assume "c \<in> set (undeclared_escape_caps bnd ?all)"
    then obtain b where b: "(b, c) \<in> set CONTAINER_ESCAPE_CAPS" "bit bnd b" "\<not> declares_all ?all"
      "\<forall>e \<in> set ?all. cap_name_to_bit (trim e) \<noteq> Some b"
      unfolding undeclared_iff by blast
    then have "c \<in> set (undeclared_escape_caps bnd cap_add)"
      unfolding undeclared_iff by (auto simp: declares_all_def)
    with b(4) escape_names [OF b(1)] show False by simp
  qed
  then show "undeclared_escape_caps bnd ?all = []" by (meson list.set_sel(1))
qed

theorem undeclared_caps_exact_witness:
  "undeclared_escape_caps 0x200000 [] \<noteq> []
   \<and> undeclared_escape_caps 0x200000 ([] @ undeclared_escape_caps 0x200000 []) = []"
proof -
  have "bit (0x200000 :: u64) 21" by (simp add: bit_unat_u64)
  then have "''CAP_SYS_ADMIN'' \<in> set (undeclared_escape_caps 0x200000 [])"
    using undeclared_caps_exact [of "0x200000" "[]"]
    by (auto simp: declares_all_def CONTAINER_ESCAPE_CAPS_def)
  then show ?thesis using undeclared_caps_exact [of "0x200000" "[]"] by auto
qed

text \<open>
  No finding of the memory scanner is lost or counted twice, and none is talked down past what is
  in the memory itself. The six groups that feed the rules are a partition of the scanner's findings;
  and a region with an entropy of 7 or more, or with an executable image in it, is critical whatever
  the process, its path, its provenance or the scanner's tag.
\<close>

theorem memory_findings_partitioned:
  "mset (in_bucket env r ClassicB) + mset (in_bucket env r DeepCriticalB)
   + mset (memory_anomalies env r) + mset (provisional_regions env r)
   + mset (in_bucket env r AdvisoryB) + mset (in_bucket env r UnlinkGhostB)
   = mset (si_library_injections (sec r))
   \<and> list_all (\<lambda>f. case lif_deep_forensics f of
        Some d \<Rightarrow> (7 \<le> dma_entropy d \<or> dma_image_header d) = False \<or> f \<in> set (in_bucket env r DeepCriticalB)
      | None \<Rightarrow> True) (si_library_injections (sec r))"
proof
  show "mset (in_bucket env r ClassicB) + mset (in_bucket env r DeepCriticalB)
   + mset (memory_anomalies env r) + mset (provisional_regions env r)
   + mset (in_bucket env r AdvisoryB) + mset (in_bucket env r UnlinkGhostB)
   = mset (si_library_injections (sec r))" by (rule buckets_partition)
  show "list_all (\<lambda>f. case lif_deep_forensics f of
        Some d \<Rightarrow> (7 \<le> dma_entropy d \<or> dma_image_header d) = False \<or> f \<in> set (in_bucket env r DeepCriticalB)
      | None \<Rightarrow> True) (si_library_injections (sec r))"
    using trumping_malice_critical [of _ _ env r]
    by (auto simp: list_all_iff in_bucket_def is_trumping_malice_def split: option.splits)
qed

end
