(* ===== verification/Drift.thy ===== *)
theory Drift
  imports Scoring "HOL-Library.List_Lexorder" "HOL-Library.Char_ord"
    "HOL-Library.Product_Lexorder" "HOL-Library.Option_ord"
begin

text \<open>
  \<open>src/compare.rs\<close>: the differences between two reports of one host. Each block of
  \<open>compare_reports\<close> is a function from the two reports to the changes it pushes; the last step sorts
  them. Strings are ordered by bytes, lists lexicographically, \<open>None\<close> before \<open>Some\<close>, as Rust's
  \<open>Ord\<close> does.
\<close>

section \<open>Changes\<close>

datatype severity = SevImproved | SevDegraded | SevChanged

record change =
  ch_field :: string
  ch_before :: "string option"
  ch_after :: "string option"
  ch_severity :: severity

record snapshot_meta =
  sm_hostname :: string
  sm_timestamp :: string
  sm_version :: string
  sm_scoring_version :: u8
  sm_risk_score :: u8

record diff_report =
  dr_before :: "snapshot_meta option"
  dr_after :: "snapshot_meta option"
  dr_changes :: "change list"

definition snapshot_of :: "agent_report \<Rightarrow> snapshot_meta" where
  "snapshot_of r =
     \<lparr>sm_hostname = hi_hostname (hst r), sm_timestamp = ar_timestamp r, sm_version = ar_version r,
      sm_scoring_version = ar_scoring_version r, sm_risk_score = ar_risk_score r\<rparr>"

fun sev_rank :: "severity \<Rightarrow> nat" where
  "sev_rank SevDegraded = 0"
| "sev_rank SevChanged = 1"
| "sev_rank SevImproved = 2"

definition chg :: "string \<Rightarrow> string option \<Rightarrow> string option \<Rightarrow> severity \<Rightarrow> change" where
  "chg field b a sev = \<lparr>ch_field = field, ch_before = b, ch_after = a, ch_severity = sev\<rparr>"

lemma chg_sel [simp]:
  "ch_field (chg f b a s) = f" "ch_before (chg f b a s) = b"
  "ch_after (chg f b a s) = a" "ch_severity (chg f b a s) = s"
  by (simp_all add: chg_def)

text \<open>The order of the final \<open>sort_by\<close>: severity, field, before, after.\<close>

definition change_key :: "change \<Rightarrow> nat \<times> string \<times> string option \<times> string option" where
  "change_key c = (sev_rank (ch_severity c), ch_field c, ch_before c, ch_after c)"

section \<open>Hash containers\<close>

text \<open>
  \<open>HashSet\<close> and \<open>HashMap\<close> iterate in an arbitrary order. A key is the list of its strings; \<open>ce_order\<close>
  is the order in which a container iterates over its keys, for each container by its name. Every
  permutation of the keys is possible. \<open>ce_debug\<close> is the \<open>Debug\<close> format of a string, whose escapes
  follow the Unicode tables of the standard library.
\<close>

type_synonym key = "string list"

record compare_env =
  ce_order :: "string \<Rightarrow> key list \<Rightarrow> key list"
  ce_debug :: "string \<Rightarrow> string"

definition order_permutes :: "compare_env \<Rightarrow> bool" where
  "order_permutes env = (\<forall>name ks. mset (ce_order env name ks) = mset ks)"

definition hash_keys :: "compare_env \<Rightarrow> string \<Rightarrow> key list \<Rightarrow> key list" where
  "hash_keys env name ks = ce_order env name (remdups ks)"

text \<open>A map collected from a list of entries: the last entry of a key wins.\<close>

definition last_entry :: "('k \<times> 'v) list \<Rightarrow> 'k \<rightharpoonup> 'v" where
  "last_entry kvs = map_of (rev kvs)"

text \<open>The keys of a \<open>BTreeMap\<close> or \<open>BTreeSet\<close>.\<close>

definition btree_keys :: "string list \<Rightarrow> string list" where
  "btree_keys ks = sort (remdups ks)"

text \<open>
  The two loops over \<open>a.difference(&b)\<close> and \<open>b.difference(&a)\<close>: what is new, then what is gone.
\<close>

definition set_drift ::
  "compare_env \<Rightarrow> string \<Rightarrow> key list \<Rightarrow> key list \<Rightarrow> (key \<Rightarrow> change) \<Rightarrow> (key \<Rightarrow> change) \<Rightarrow> change list"
where
  "set_drift env name b a appeared gone =
     map appeared (filter (\<lambda>k. k \<notin> set b) (hash_keys env (name @ ''.after'') a))
     @ map gone (filter (\<lambda>k. k \<notin> set a) (hash_keys env (name @ ''.before'') b))"

text \<open>A loop over the entries of a map.\<close>

definition map_drift ::
  "compare_env \<Rightarrow> string \<Rightarrow> (key \<times> 'v) list \<Rightarrow> (key \<Rightarrow> 'v \<Rightarrow> change list) \<Rightarrow> change list" where
  "map_drift env name kvs f =
     concat (map (\<lambda>k. case last_entry kvs k of None \<Rightarrow> [] | Some v \<Rightarrow> f k v)
       (hash_keys env name (map fst kvs)))"

definition single :: "string \<Rightarrow> key" where "single s = [s]"

definition diff_str_set :: "compare_env \<Rightarrow> string \<Rightarrow> string list \<Rightarrow> string list \<Rightarrow> change list" where
  "diff_str_set env field b a =
     set_drift env field (map single b) (map single a)
       (\<lambda>k. chg field None (Some (hd k)) SevDegraded) (\<lambda>k. chg field (Some (hd k)) None SevImproved)"

section \<open>Scalar fields\<close>

definition diff_version :: "agent_report \<Rightarrow> agent_report \<Rightarrow> change list" where
  "diff_version b a =
     (if ar_version b \<noteq> ar_version a
      then [chg ''meta.binary_version'' (Some (ar_version b)) (Some (ar_version a)) SevChanged] else [])"

definition diff_risk_score :: "agent_report \<Rightarrow> agent_report \<Rightarrow> change list" where
  "diff_risk_score b a =
     (if ar_risk_score b = ar_risk_score a then []
      else
        (let formula_changed = ar_scoring_version b \<noteq> ar_scoring_version a in
         [chg (if formula_changed
               then ''risk_score (scoring v'' @ show_word (ar_scoring_version b) @ arrow @ ''v''
                    @ show_word (ar_scoring_version a) @ '', not directly comparable)''
               else ''risk_score'')
            (Some (show_word (ar_risk_score b))) (Some (show_word (ar_risk_score a)))
            (if formula_changed then SevChanged
             else if ar_risk_score b < ar_risk_score a then SevDegraded else SevImproved)]))"

text \<open>A text that changed.\<close>

definition diff_text :: "string \<Rightarrow> string \<Rightarrow> string \<Rightarrow> change list" where
  "diff_text field b a = (if b \<noteq> a then [chg field (Some b) (Some a) SevChanged] else [])"

text \<open>The macro \<open>compare_bool\<close>, and the same block written out.\<close>

definition compare_bool :: "string \<Rightarrow> bool \<Rightarrow> bool \<Rightarrow> bool \<Rightarrow> change list" where
  "compare_bool field degraded_when b a =
     (if b \<noteq> a
      then [chg field (Some (show_bool b)) (Some (show_bool a))
              (if a = degraded_when then SevDegraded else SevImproved)]
      else [])"

definition diff_host :: "agent_report \<Rightarrow> agent_report \<Rightarrow> change list" where
  "diff_host b a =
     diff_text ''host.hostname'' (hi_hostname (hst b)) (hi_hostname (hst a))
     @ (if hi_uptime_days (hst b) \<noteq> hi_uptime_days (hst a)
        then [chg ''host.uptime_days'' (Some (show_word (hi_uptime_days (hst b))))
                (Some (show_word (hi_uptime_days (hst a)))) SevChanged] else [])
     @ compare_bool ''host.reboot_required'' True
         (hi_reboot_required (hst b)) (hi_reboot_required (hst a))"

definition diff_switches :: "agent_report \<Rightarrow> agent_report \<Rightarrow> change list" where
  "diff_switches b a =
     compare_bool ''network.firewall_active'' False
       (ni_firewall_active (net b)) (ni_firewall_active (net a))
     @ compare_bool ''security.ssh_root_login_enabled'' True
         (si_ssh_root_login_enabled (sec b)) (si_ssh_root_login_enabled (sec a))
     @ compare_bool ''security.ssh_password_auth_enabled'' True
         (si_ssh_password_auth_enabled (sec b)) (si_ssh_password_auth_enabled (sec a))
     @ compare_bool ''security.fail2ban_active'' False
         (si_fail2ban_active (sec b)) (si_fail2ban_active (sec a))
     @ compare_bool ''security.auditd_active'' False
         (si_auditd_active (sec b)) (si_auditd_active (sec a))
     @ compare_bool ''host.ntp_synchronized'' False
         (hi_ntp_synchronized (hst b)) (hi_ntp_synchronized (hst a))
     @ compare_bool ''scan_privileged'' False (scan_was_privileged b) (scan_was_privileged a)
     @ diff_text ''host.os_version'' (hi_os_version (hst b)) (hi_os_version (hst a))
     @ diff_text ''host.kernel'' (hi_kernel (hst b)) (hi_kernel (hst a))"

section \<open>CPU mitigations, groups, packages, certificates\<close>

definition diff_cpu :: "compare_env \<Rightarrow> agent_report \<Rightarrow> agent_report \<Rightarrow> change list" where
  "diff_cpu env b a =
     (let index = (\<lambda>r. map (\<lambda>v. (single (cv_name v), cv_vulnerable v)) (si_cpu_vulnerabilities (sec r)));
          state = (\<lambda>v. if v then ''vulnerable'' else ''mitigated'')
      in map_drift env ''cpu_vulnerabilities'' (index a)
           (\<lambda>k now.
              case last_entry (index b) k of
                None \<Rightarrow> []
              | Some was \<Rightarrow>
                  if was \<noteq> now
                  then [chg ''security.cpu_vulnerabilities'' (Some (hd k @ '': '' @ state was))
                          (Some (state now)) (if now then SevDegraded else SevImproved)]
                  else []))"

definition group_index :: "agent_report \<Rightarrow> (string \<times> string list) list" where
  "group_index r =
     map (\<lambda>g. (reg_group g, btree_keys (reg_members g)))
       (aar_root_equivalent_groups (si_access_alignment (sec r)))"

definition minus_list :: "string list \<Rightarrow> string list \<Rightarrow> string list" where
  "minus_list xs ys = filter (\<lambda>x. x \<notin> set ys) xs"

definition members_of :: "(string \<times> string list) list \<Rightarrow> string \<Rightarrow> string list" where
  "members_of idx name = (case last_entry idx name of None \<Rightarrow> [] | Some ms \<Rightarrow> ms)"

definition groups_grew :: "agent_report \<Rightarrow> agent_report \<Rightarrow> string list" where
  "groups_grew b a =
     concat (map (\<lambda>name.
        let plus = minus_list (members_of (group_index a) name) (members_of (group_index b) name)
        in if plus \<noteq> [] then [name @ '' +'' @ join '', '' plus] else [])
       (btree_keys (map fst (group_index a))))"

definition groups_lost :: "agent_report \<Rightarrow> agent_report \<Rightarrow> string list" where
  "groups_lost b a =
     concat (map (\<lambda>name.
        let minus = minus_list (members_of (group_index b) name) (members_of (group_index a) name)
        in if minus \<noteq> [] then [name @ '' -'' @ join '', '' minus] else [])
       (btree_keys (map fst (group_index a))))
     @ map (\<lambda>name.
         let was = members_of (group_index b) name
         in if was = [] then name @ '' (group absent)''
            else name @ '' -'' @ join '', '' was @ '' (group absent)'')
        (filter (\<lambda>n. n \<notin> set (map fst (group_index a))) (btree_keys (map fst (group_index b))))"

definition diff_groups :: "agent_report \<Rightarrow> agent_report \<Rightarrow> change list" where
  "diff_groups b a =
     (let field = ''security.access_alignment.root_equivalent_groups'' in
      (if groups_grew b a \<noteq> []
       then [chg field None (Some (join ''; '' (groups_grew b a))) SevDegraded] else [])
      @ (if groups_lost b a \<noteq> []
         then [chg field (Some (join ''; '' (groups_lost b a))) None SevChanged] else []))"

text \<open>
  The addition is on \<open>usize\<close> with overflow checks; where it would overflow is \<open>drift_overflows\<close>
  below.
\<close>

definition diff_package_count :: "agent_report \<Rightarrow> agent_report \<Rightarrow> change list" where
  "diff_package_count b a =
     (let was = pk_installed_count (ar_packages b); now = pk_installed_count (ar_packages a) in
      if was \<noteq> now
      then [chg ''packages.installed_count'' (Some (show_nat was)) (Some (show_nat now))
              (if was + 50 < now then SevDegraded else SevChanged)]
      else [])"

definition cert_drift :: "ssl_cert_info list \<Rightarrow> ssl_cert_info \<Rightarrow> change list" where
  "cert_drift befores c =
     (let field = ''network.ssl_certificates.'' @ ssl_domain c in
      case find (\<lambda>x. ssl_domain x = ssl_domain c) befores of
        None \<Rightarrow> [chg (field @ ''.added'') None (Some (ssl_domain c)) SevDegraded]
      | Some was \<Rightarrow>
          compare_bool (field @ ''.is_critical'') True (ssl_is_critical was) (ssl_is_critical c)
          @ compare_bool (field @ ''.is_warning'') True (ssl_is_warning was) (ssl_is_warning c))"

definition diff_certs :: "agent_report \<Rightarrow> agent_report \<Rightarrow> change list" where
  "diff_certs b a =
     (let befores = ni_ssl_certificates (net b); afters = ni_ssl_certificates (net a) in
      concat (map (cert_drift befores) afters)
      @ map (\<lambda>c. chg (''network.ssl_certificates.'' @ ssl_domain c @ ''.removed'')
               (Some (ssl_domain c)) None SevChanged)
          (filter (\<lambda>c. \<not> list_ex (\<lambda>x. ssl_domain x = ssl_domain c) afters) befores))"

section \<open>Listeners\<close>

definition port_key :: "port_info \<Rightarrow> key" where
  "port_key p = [pi_protocol p, pi_bind_address p, pi_port p]"

definition port_index :: "agent_report \<Rightarrow> (key \<times> port_info) list" where
  "port_index r = map (\<lambda>p. (port_key p, p)) (ni_listening_ports (net r))"

definition diff_port_set :: "compare_env \<Rightarrow> agent_report \<Rightarrow> agent_report \<Rightarrow> change list" where
  "diff_port_set env b a =
     set_drift env ''listening_ports'' (map fst (port_index b)) (map fst (port_index a))
       (\<lambda>k. chg ''network.listening_ports'' None (Some (join '':'' k)) SevDegraded)
       (\<lambda>k. chg ''network.listening_ports'' (Some (join '':'' k)) None SevChanged)"

definition port_field :: "key \<Rightarrow> string \<Rightarrow> string" where
  "port_field k what = ''network.listening_ports.'' @ join ''.'' k @ what"

definition diff_port_process :: "compare_env \<Rightarrow> agent_report \<Rightarrow> agent_report \<Rightarrow> change list" where
  "diff_port_process env b a =
     map_drift env ''listening_ports.after'' (port_index a)
       (\<lambda>k now.
          case last_entry (port_index b) k of
            None \<Rightarrow> []
          | Some was \<Rightarrow>
              if pi_process was \<noteq> pi_process now
              then [chg (port_field k ''.process'') (Some (pi_process was)) (Some (pi_process now))
                      SevDegraded]
              else [])"

text \<open>A fact that may not have been observed: losing or gaining the observation is \<open>Changed\<close>.\<close>

definition diff_observed ::
  "string \<Rightarrow> string \<Rightarrow> ('v \<Rightarrow> string) \<Rightarrow> ('v \<Rightarrow> 'v \<Rightarrow> severity) \<Rightarrow> 'v option \<Rightarrow> 'v option \<Rightarrow> change list"
where
  "diff_observed field unknown text sev was now =
     (case (was, now) of
        (Some x, Some y) \<Rightarrow> if x \<noteq> y then [chg field (Some (text x)) (Some (text y)) (sev x y)] else []
      | (Some x, None) \<Rightarrow> [chg field (Some (text x)) (Some unknown) SevChanged]
      | (None, Some y) \<Rightarrow> [chg field (Some unknown) (Some (text y)) SevChanged]
      | (None, None) \<Rightarrow> [])"

definition diff_port_exe :: "compare_env \<Rightarrow> agent_report \<Rightarrow> agent_report \<Rightarrow> change list" where
  "diff_port_exe env b a =
     map_drift env ''listening_ports.after'' (port_index a)
       (\<lambda>k now.
          case last_entry (port_index b) k of
            None \<Rightarrow> []
          | Some was \<Rightarrow>
              diff_observed (port_field k ''.exe_path'') ''unknown (not observed)'' id
                (\<lambda>_ _. SevDegraded) (pi_exe_path was) (pi_exe_path now))"

definition diff_sshd :: "compare_env \<Rightarrow> agent_report \<Rightarrow> agent_report \<Rightarrow> change list" where
  "diff_sshd env b a =
     (let index = (\<lambda>r. map (\<lambda>d. [sd_directive d, sd_value d]) (si_sshd_sensitive_directives (sec r)));
          field = ''security.sshd_sensitive_directives''
      in set_drift env ''sshd'' (index b) (index a)
           (\<lambda>k. chg field None (Some (join '' '' k)) SevDegraded)
           (\<lambda>k. chg field (Some (join '' '' k)) None SevImproved))"

definition binds_of :: "agent_report \<Rightarrow> key \<Rightarrow> string list" where
  "binds_of r k =
     map pi_bind_address
       (filter (\<lambda>p. [pi_protocol p, pi_port p] = k) (ni_listening_ports (net r)))"

definition exposure_keys :: "agent_report \<Rightarrow> key list" where
  "exposure_keys r = map (\<lambda>p. [pi_protocol p, pi_port p]) (ni_listening_ports (net r))"

definition diff_exposure :: "compare_env \<Rightarrow> agent_report \<Rightarrow> agent_report \<Rightarrow> change list" where
  "diff_exposure env b a =
     map (\<lambda>k. chg (''network.listening_ports.'' @ join ''.'' k @ ''.exposure'') (Some ''local only'')
            (Some ''exposed on wildcard bind'') SevDegraded)
       (filter (\<lambda>k. k \<in> set (exposure_keys a)
            \<and> list_ex is_loopback_bind (binds_of b k)
            \<and> \<not> list_ex is_wildcard_bind (binds_of b k)
            \<and> list_ex is_wildcard_bind (binds_of a k))
          (hash_keys env ''exposure.before'' (exposure_keys b)))"

definition foreign_netns_key :: "foreign_netns_listener \<Rightarrow> key" where
  "foreign_netns_key l = [fnl_netns l, fnl_protocol l, fnl_bind_address l, fnl_port l]"

definition foreign_netns_text :: "key \<Rightarrow> string" where
  "foreign_netns_text k = k ! 0 @ '' '' @ k ! 1 @ '' '' @ k ! 2 @ '':'' @ k ! 3"

definition diff_foreign_netns :: "compare_env \<Rightarrow> agent_report \<Rightarrow> agent_report \<Rightarrow> change list" where
  "diff_foreign_netns env b a =
     (let index = (\<lambda>r. map foreign_netns_key (ni_foreign_netns_listeners (net r)));
          field = ''network.foreign_netns_listeners''
      in set_drift env ''foreign_netns'' (index b) (index a)
           (\<lambda>k. chg field None (Some (foreign_netns_text k)) SevDegraded)
           (\<lambda>k. chg field (Some (foreign_netns_text k)) None SevChanged))"

definition mount_namespace_anomaly_key :: "mount_namespace_anomaly \<Rightarrow> key" where
  "mount_namespace_anomaly_key m =
     [case mna_container m of None \<Rightarrow> ''-'' | Some c \<Rightarrow> c,
      case mna_exe_path m of None \<Rightarrow> ''?'' | Some e \<Rightarrow> e]"

definition diff_mount_namespaces :: "compare_env \<Rightarrow> agent_report \<Rightarrow> agent_report \<Rightarrow> change list" where
  "diff_mount_namespaces env b a =
     (let index = (\<lambda>r. map mount_namespace_anomaly_key (si_mount_namespace_anomalies (sec r)));
          field = ''security.mount_namespace_anomalies'';
          text = (\<lambda>k. ''container='' @ k ! 0 @ '' binary='' @ k ! 1)
      in set_drift env ''mount_namespaces'' (index b) (index a)
           (\<lambda>k. chg field None (Some (text k)) SevDegraded)
           (\<lambda>k. chg field (Some (text k)) None SevChanged))"

section \<open>Packages, users, containers\<close>

definition diff_upgradable :: "compare_env \<Rightarrow> agent_report \<Rightarrow> agent_report \<Rightarrow> change list" where
  "diff_upgradable env b a =
     diff_str_set env ''packages.upgradable'' (map up_name (pk_upgradable (ar_packages b)))
       (map up_name (pk_upgradable (ar_packages a)))"

definition user_index :: "agent_report \<Rightarrow> (key \<times> nat) list" where
  "user_index r = map (\<lambda>u. (single (ui_username u), ui_authorized_keys_count u)) (si_shell_users (sec r))"

definition user_drift :: "agent_report \<Rightarrow> agent_report \<Rightarrow> key \<Rightarrow> change list" where
  "user_drift b a k =
     (let field = ''security.shell_users.'' @ hd k @ ''.authorized_keys_count'';
          was = last_entry (user_index b) k; now = last_entry (user_index a) k
      in case (was, now) of
           (Some n, None) \<Rightarrow> [chg field (Some (show_nat n)) (Some ''unknown (user not enumerated)'') SevChanged]
         | _ \<Rightarrow>
             (let m = (case was of None \<Rightarrow> 0 | Some n \<Rightarrow> n); n = (case now of None \<Rightarrow> 0 | Some n \<Rightarrow> n)
              in if m \<noteq> n
                 then [chg field (Some (show_nat m)) (Some (show_nat n))
                         (if m < n then SevDegraded else SevImproved)]
                 else []))"

definition diff_shell_users :: "compare_env \<Rightarrow> agent_report \<Rightarrow> agent_report \<Rightarrow> change list" where
  "diff_shell_users env b a =
     concat (map (user_drift b a)
       (hash_keys env ''shell_users'' (map fst (user_index b) @ map fst (user_index a))))"

definition container_names :: "agent_report \<Rightarrow> string list" where
  "container_names r = map ci_name (ti_containers (topo r))"

definition diff_container_set :: "compare_env \<Rightarrow> agent_report \<Rightarrow> agent_report \<Rightarrow> change list" where
  "diff_container_set env b a =
     set_drift env ''containers'' (map single (container_names b)) (map single (container_names a))
       (\<lambda>k. chg ''topology.containers'' None (Some (hd k)) SevDegraded)
       (\<lambda>k. chg ''topology.containers'' (Some (hd k)) None SevChanged)"

text \<open>\<open>{:#018x}\<close>\<close>

definition show_hex018 :: "u64 \<Rightarrow> string" where
  "show_hex018 w =
     (let digits = show_base 16 (unat w) in ''0x'' @ replicate (16 - length digits) (CHR ''0'') @ digits)"

definition container_drift :: "compare_env \<Rightarrow> container_info \<Rightarrow> container_info \<Rightarrow> change list" where
  "container_drift env b a =
     (let field = (\<lambda>what. ''topology.containers.'' @ ci_name a @ what) in
      (if ci_image b \<noteq> ci_image a
       then [chg (field ''.image'') (Some (ci_image b)) (Some (ci_image a)) SevDegraded] else [])
      @ diff_observed (field ''.image_id'') ''unknown (not provided)'' id (\<lambda>_ _. SevDegraded)
          (ci_image_id b) (ci_image_id a)
      @ compare_bool (field ''.privileged'') True (ci_privileged b) (ci_privileged a)
      @ diff_str_set env (field ''.cap_add'') (ci_cap_add b) (ci_cap_add a)
      @ diff_str_set env (field ''.sensitive_mounts'') (ci_sensitive_mounts b) (ci_sensitive_mounts a)
      @ diff_observed (field ''.runtime_bounding_caps'') ''unknown (not observed)'' show_hex018
          (\<lambda>x y. if y AND NOT x \<noteq> 0 then SevDegraded else SevImproved)
          (ci_runtime_bounding_caps b) (ci_runtime_bounding_caps a))"

definition diff_containers :: "compare_env \<Rightarrow> agent_report \<Rightarrow> agent_report \<Rightarrow> change list" where
  "diff_containers env b a =
     concat (map (\<lambda>c.
         case find (\<lambda>x. ci_name x = ci_name c) (ti_containers (topo b)) of
           None \<Rightarrow> []
         | Some was \<Rightarrow> container_drift env was c)
       (ti_containers (topo a)))"

section \<open>Issues, services, file privileges, sudo\<close>

definition diff_sysctl :: "compare_env \<Rightarrow> agent_report \<Rightarrow> agent_report \<Rightarrow> change list" where
  "diff_sysctl env b a =
     diff_str_set env ''security.sysctl_issues'' (si_sysctl_issues (sec b)) (si_sysctl_issues (sec a))"

definition diff_failed_services :: "compare_env \<Rightarrow> agent_report \<Rightarrow> agent_report \<Rightarrow> change list" where
  "diff_failed_services env b a =
     diff_str_set env ''host.failed_services'' (hi_failed_services (hst b)) (hi_failed_services (hst a))"

definition diff_backup_tools :: "compare_env \<Rightarrow> agent_report \<Rightarrow> agent_report \<Rightarrow> change list" where
  "diff_backup_tools env b a =
     set_drift env ''backup_tools'' (map single (hi_backup_tools (hst b)))
       (map single (hi_backup_tools (hst a)))
       (\<lambda>k. chg ''host.backup_tools'' None (Some (hd k)) SevImproved)
       (\<lambda>k. chg ''host.backup_tools'' (Some (hd k)) None SevDegraded)"

definition suid_bits :: "bool \<times> bool \<Rightarrow> string" where
  "suid_bits bits =
     (case bits of
        (True, True) \<Rightarrow> ''setuid+setgid'' | (True, False) \<Rightarrow> ''setuid''
      | (False, True) \<Rightarrow> ''setgid'' | (False, False) \<Rightarrow> ''no-bits'')"

definition index_setuid_files :: "agent_report \<Rightarrow> (key \<times> bool \<times> bool) list" where
  "index_setuid_files r =
     map (\<lambda>f. (single (suf_path f), suf_setuid f, suf_setgid f)) (si_setuid_files (sec r))"

definition setuid_gained :: "bool \<times> bool \<Rightarrow> bool \<times> bool \<Rightarrow> bool" where
  "setuid_gained was now = (fst now \<and> \<not> fst was \<or> snd now \<and> \<not> snd was)"

definition diff_setuid :: "compare_env \<Rightarrow> agent_report \<Rightarrow> agent_report \<Rightarrow> change list" where
  "diff_setuid env b a =
     (let field = ''security.setuid_files''; ib = index_setuid_files b; ia = index_setuid_files a in
      map_drift env ''setuid.after'' ia
        (\<lambda>k now.
           case last_entry ib k of
             None \<Rightarrow> [chg field None (Some (hd k @ '' newly '' @ suid_bits now)) SevDegraded]
           | Some was \<Rightarrow>
               if was \<noteq> now
               then [chg field (Some (hd k @ '' was '' @ suid_bits was)) (Some (''now '' @ suid_bits now))
                       (if setuid_gained was now then SevDegraded else SevImproved)]
               else [])
      @ map_drift env ''setuid.before'' ib
          (\<lambda>k was.
             if k \<in> set (map fst ia) then []
             else [chg field (Some (hd k @ '' was '' @ suid_bits was)) None SevImproved]))"

text \<open>\<open>file_capabilities::build_capability_names\<close>\<close>

definition cap_mask_to_names :: "u64 \<Rightarrow> string list" where
  "cap_mask_to_names m =
     map (\<lambda>i. if i < length CAP_NAMES then CAP_NAMES ! i else ''cap_'' @ show_nat i)
       (filter (\<lambda>i. bit m i) [0..<64])"

definition build_capability_names :: "u64 \<Rightarrow> u64 \<Rightarrow> string list" where
  "build_capability_names permitted inheritable =
     cap_mask_to_names permitted
     @ map (\<lambda>n. n @ ''(inh)'') (cap_mask_to_names (inheritable AND NOT permitted))"

definition caps_label :: "u64 \<Rightarrow> u64 \<Rightarrow> string" where
  "caps_label p i =
     (let names = build_capability_names p i in if names = [] then ''none'' else join '', '' names)"

definition index_file_caps :: "agent_report \<Rightarrow> (key \<times> u64 \<times> u64 \<times> bool) list" where
  "index_file_caps r =
     map (\<lambda>f. (single (fcf_path f), fcf_permitted f, fcf_inheritable f, fcf_effective f))
       (si_file_capabilities (sec r))"

definition caps_escalated :: "u64 \<times> u64 \<times> bool \<Rightarrow> u64 \<times> u64 \<times> bool \<Rightarrow> bool" where
  "caps_escalated was now =
     (case (was, now) of
        ((bp, bi, be), (p, i, e)) \<Rightarrow> p AND NOT bp \<noteq> 0 \<or> i AND NOT bi \<noteq> 0 \<or> e \<and> \<not> be)"

definition diff_file_caps :: "compare_env \<Rightarrow> agent_report \<Rightarrow> agent_report \<Rightarrow> change list" where
  "diff_file_caps env b a =
     (let field = ''security.file_capabilities''; ib = index_file_caps b; ia = index_file_caps a;
          label = (\<lambda>c. caps_label (fst c) (fst (snd c)))
      in map_drift env ''file_caps.after'' ia
           (\<lambda>k now.
              case last_entry ib k of
                None \<Rightarrow> [chg field None (Some (hd k @ '' gained caps: '' @ label now)) SevDegraded]
              | Some was \<Rightarrow>
                  if was \<noteq> now
                  then [chg field (Some (hd k @ '': '' @ label was)) (Some (label now))
                          (if caps_escalated was now then SevDegraded else SevImproved)]
                  else [])
         @ map_drift env ''file_caps.before'' ib
             (\<lambda>k was.
                if k \<in> set (map fst ia) then []
                else [chg field (Some (hd k @ '' had caps: '' @ label was)) None SevImproved]))"

definition diff_sudoers :: "compare_env \<Rightarrow> agent_report \<Rightarrow> agent_report \<Rightarrow> change list" where
  "diff_sudoers env b a =
     (let index = (\<lambda>r. map (\<lambda>e. [se_principal e, se_source_file e])
            (aar_sudoers_nopasswd_all (si_access_alignment (sec r))));
          field = ''security.sudoers_nopasswd_all'';
          bn = length (si_sudo_nopasswd_entries (sec b)); an = length (si_sudo_nopasswd_entries (sec a))
      in set_drift env ''sudoers'' (index b) (index a)
           (\<lambda>k. chg field None
              (Some (k ! 0 @ '' gained passwordless sudo to ALL via '' @ k ! 1)) SevDegraded)
           (\<lambda>k. chg field
              (Some (k ! 0 @ '' had passwordless sudo to ALL via '' @ k ! 1)) None SevImproved)
         @ (if bn \<noteq> an
            then [chg ''security.sudo_nopasswd_entries'' (Some (show_nat bn)) (Some (show_nat an))
                    (if bn < an then SevDegraded else SevImproved)]
            else []))"

section \<open>Kernel\<close>

text \<open>The blocks that differ from \<open>diff_str_set\<close> only in the texts.\<close>

definition text_set_drift ::
  "compare_env \<Rightarrow> string \<Rightarrow> string \<Rightarrow> (string \<Rightarrow> string) \<Rightarrow> (string \<Rightarrow> string)
   \<Rightarrow> string list \<Rightarrow> string list \<Rightarrow> change list" where
  "text_set_drift env name field appeared gone b a =
     set_drift env name (map single b) (map single a)
       (\<lambda>k. chg field None (Some (appeared (hd k))) SevDegraded)
       (\<lambda>k. chg field (Some (gone (hd k))) None SevImproved)"

definition diff_ebpf :: "compare_env \<Rightarrow> agent_report \<Rightarrow> agent_report \<Rightarrow> change list" where
  "diff_ebpf env b a =
     (let ib = si_ebpf_inventory (sec b); ia = si_ebpf_inventory (sec a);
          counts = (\<lambda>i. ''maps:'' @ show_nat (length (ebi_maps i)) @ '' links:''
             @ show_nat (length (ebi_links i)) @ '' pins:'' @ show_nat (length (ebi_pins i)))
      in text_set_drift env ''ebpf_tags'' ''security.ebpf_inventory.prog''
           (\<lambda>t. ''new BPF program tag '' @ t) (\<lambda>t. ''BPF program tag '' @ t @ '' gone'')
           (ebi_prog_tags ib) (ebi_prog_tags ia)
         @ (if counts ib \<noteq> counts ia
            then [chg ''security.ebpf_inventory'' (Some (counts ib)) (Some (counts ia)) SevChanged]
            else []))"

definition diff_modules :: "compare_env \<Rightarrow> agent_report \<Rightarrow> agent_report \<Rightarrow> change list" where
  "diff_modules env b a =
     (let mb = si_kernel_modules (sec b); ma = si_kernel_modules (sec a);
          hidden = (\<lambda>m. map (\<lambda>h. single (hm_name h)) (kmi_hidden_candidates m))
      in text_set_drift env ''kernel_modules'' ''security.kernel_modules''
           (\<lambda>m. ''module '' @ m @ '' loaded'') (\<lambda>m. ''module '' @ m @ '' unloaded'')
           (kmi_proc_modules mb) (kmi_proc_modules ma)
         @ map (\<lambda>k. chg ''security.kernel_modules.hidden'' None
                  (Some (''hidden module '' @ hd k @ '' appeared'')) SevDegraded)
             (filter (\<lambda>k. k \<notin> set (hidden mb)) (hash_keys env ''hidden_modules.after'' (hidden ma))))"

definition newly_tainted :: "agent_report \<Rightarrow> agent_report \<Rightarrow> u64" where
  "newly_tainted b a = kt_raw (si_kernel_taint (sec a)) AND NOT (kt_raw (si_kernel_taint (sec b)))"

text \<open>A shift by 64 or more panics; see \<open>drift_overflows\<close> below.\<close>

definition diff_taint :: "agent_report \<Rightarrow> agent_report \<Rightarrow> change list" where
  "diff_taint b a =
     (let newly_set = newly_tainted b a;
          flags = filter (\<lambda>f. newly_set AND push_bit (unat (tf_bit f)) 1 \<noteq> 0)
            (kt_flags (si_kernel_taint (sec a)))
      in if newly_set \<noteq> 0
         then [chg ''security.kernel_taint'' (Some (''tainted='' @ show_word (kt_raw (si_kernel_taint (sec b)))))
                 (Some (''newly tainted: ''
                    @ join '', '' (map (\<lambda>f. tf_name f @ '' ('' @ utf8_encode (tf_code f) @ '')'') flags)))
                 SevDegraded]
         else [])"

definition diff_confinement :: "compare_env \<Rightarrow> agent_report \<Rightarrow> agent_report \<Rightarrow> change list" where
  "diff_confinement env b a =
     (let cb = si_confinement (sec b); ca = si_confinement (sec a) in
      text_set_drift env ''confinement'' ''security.confinement.apparmor''
        (\<lambda>p. ''profile '' @ p @ '' now in complain mode (was enforcing or new)'')
        (\<lambda>p. ''profile '' @ p @ '' was in complain mode'')
        (map cp_profile (cr_complain_profiles cb)) (map cp_profile (cr_complain_profiles ca))
      @ (if cr_selinux_permissive ca \<and> \<not> cr_selinux_permissive cb
         then [chg ''security.confinement.selinux'' (Some ''enforcing'') (Some ''permissive'') SevDegraded]
         else []))"

section \<open>Account hygiene, service hardening\<close>

definition diff_system_shells :: "compare_env \<Rightarrow> agent_report \<Rightarrow> agent_report \<Rightarrow> change list" where
  "diff_system_shells env b a =
     set_drift env ''system_shells'' (map single (ah_system_accounts_with_shell (acct b)))
       (map single (ah_system_accounts_with_shell (acct a)))
       (\<lambda>k. chg ''security.account_hygiene.system_shell_added'' None (Some (hd k)) SevChanged)
       (\<lambda>k. chg ''security.account_hygiene.system_shell_removed'' (Some (hd k)) None SevChanged)"

definition perm_index :: "agent_report \<Rightarrow> (key \<times> credential_file_issue) list" where
  "perm_index r = map (\<lambda>f. (single (cfi_path f), f)) (ah_file_permission_issues (acct r))"

definition diff_file_perms :: "compare_env \<Rightarrow> agent_report \<Rightarrow> agent_report \<Rightarrow> change list" where
  "diff_file_perms env b a =
     (let field = ''security.account_hygiene.file_permissions''; ib = perm_index b; ia = perm_index a in
      map_drift env ''file_perms.after'' ia
        (\<lambda>k f.
           case last_entry ib k of
             None \<Rightarrow> [chg field None (Some (hd k @ '' now mode '' @ cfi_mode f)) SevDegraded]
           | Some prev \<Rightarrow>
               if cfi_mode prev \<noteq> cfi_mode f
               then [chg field (Some (hd k @ '' was '' @ cfi_mode prev))
                       (Some (hd k @ '' now '' @ cfi_mode f)) SevDegraded]
               else [])
      @ map (\<lambda>k. chg field (Some (hd k @ '' unsafe'')) None SevImproved)
          (filter (\<lambda>k. k \<notin> set (map fst ia)) (hash_keys env ''file_perms.before'' (map fst ib))))"

definition diff_accounts :: "compare_env \<Rightarrow> agent_report \<Rightarrow> agent_report \<Rightarrow> change list" where
  "diff_accounts env b a =
     (let field = (\<lambda>what. ''security.account_hygiene.'' @ what);
          weak = (\<lambda>u. u @ '' '' @ em_dash @ '' weak hash'')
      in text_set_drift env ''weak_hashes'' (field ''weak_password_hash'') weak weak
           (map whf_username (ah_weak_password_hashes (acct b)))
           (map whf_username (ah_weak_password_hashes (acct a)))
         @ diff_str_set env (field ''empty_password'')
             (ah_empty_password_users (acct b)) (ah_empty_password_users (acct a))
         @ diff_str_set env (field ''duplicate_uid_zero'')
             (ah_duplicate_uid_zero (acct b)) (ah_duplicate_uid_zero (acct a))
         @ diff_system_shells env b a
         @ diff_file_perms env b a
         @ diff_str_set env (field ''private_key'')
             (map pkf_path (ah_ssh_private_key_readable (acct b)))
             (map pkf_path (ah_ssh_private_key_readable (acct a)))
         @ diff_str_set env (field ''authorized_keys_writable'')
             (ah_authorized_keys_writable (acct b)) (ah_authorized_keys_writable (acct a))
         @ diff_str_set env (field ''root_dotfiles'')
             (map cfi_path (ah_root_dotfiles_readable (acct b)))
             (map cfi_path (ah_root_dotfiles_readable (acct a))))"

definition hardening_index :: "agent_report \<Rightarrow> (string \<times> string list) list" where
  "hardening_index r = map (\<lambda>h. (hf_unit h, btree_keys (hf_missing h))) (si_systemd_hardening (sec r))"

definition missing_text :: "string \<Rightarrow> string \<Rightarrow> string list \<Rightarrow> string" where
  "missing_text unit how ms =
     unit @ how @ '' '' @ em_dash @ '' missing ''
     @ (if ms = [] then ''none'' else join '', '' ms)"

definition diff_hardening :: "agent_report \<Rightarrow> agent_report \<Rightarrow> change list" where
  "diff_hardening b a =
     (let field = ''security.systemd_hardening''; ib = hardening_index b; ia = hardening_index a in
      concat (map (\<lambda>unit.
        let now = members_of ia unit in
        case last_entry ib unit of
          None \<Rightarrow> [chg field None (Some (missing_text unit '' below baseline'' now)) SevDegraded]
        | Some was \<Rightarrow>
            if was \<noteq> now
            then [chg field (Some (missing_text unit [] was)) (Some (missing_text unit [] now))
                    (if \<not> set now \<subseteq> set was then SevDegraded else SevImproved)]
            else []) (btree_keys (map fst ia)))
      @ map (\<lambda>unit. chg field
               (Some (missing_text unit '' was below baseline'' (members_of ib unit))) None SevChanged)
          (filter (\<lambda>u. u \<notin> set (map fst ia)) (btree_keys (map fst ib))))"

section \<open>Hooks, preloads, generators, PAM\<close>

fun show_writability :: "exec_writability \<Rightarrow> string" where
  "show_writability RootOnly = ''RootOnly''"
| "show_writability NonRootWritable = ''NonRootWritable''"
| "show_writability Missing = ''Missing''"
| "show_writability WUnknown = ''Unknown''"

fun show_origin :: "generator_origin \<Rightarrow> string" where
  "show_origin GoVendor = ''Vendor''"
| "show_origin GoLocalAdmin = ''LocalAdmin''"
| "show_origin GoAdmin = ''Admin''"
| "show_origin GoRuntime = ''Runtime''"

definition debug_opt :: "compare_env \<Rightarrow> string option \<Rightarrow> string" where
  "debug_opt env x = (case x of None \<Rightarrow> ''None'' | Some s \<Rightarrow> ''Some('' @ ce_debug env s @ '')'')"

definition diff_ftrace :: "compare_env \<Rightarrow> agent_report \<Rightarrow> agent_report \<Rightarrow> change list" where
  "diff_ftrace env b a =
     (let hooks = (\<lambda>r. map fh_function (fhi_unattributed_syscall_hooks (si_ftrace_hooks (sec r)))) in
      text_set_drift env ''ftrace'' ''security.ftrace_hooks''
        (\<lambda>f. ''syscall '' @ f @ '' newly ftrace-hooked'') (\<lambda>f. ''syscall '' @ f @ '' was ftrace-hooked'')
        (hooks b) (hooks a))"

definition diff_preloads :: "compare_env \<Rightarrow> agent_report \<Rightarrow> agent_report \<Rightarrow> change list" where
  "diff_preloads env b a =
     text_set_drift env ''preloads'' ''security.preload_injections''
       (\<lambda>p. ''ld.so.preload entry '' @ p @ '' appeared'')
       (\<lambda>p. ''ld.so.preload entry '' @ p @ '' was present'')
       (map plf_path (si_preload_injections (sec b))) (map plf_path (si_preload_injections (sec a)))"

definition diff_ld_so_conf :: "compare_env \<Rightarrow> agent_report \<Rightarrow> agent_report \<Rightarrow> change list" where
  "diff_ld_so_conf env b a =
     text_set_drift env ''ld_so_conf'' ''security.ld_so_conf_injections''
       (\<lambda>p. ''ld.so.conf path '' @ p @ '' appeared'') (\<lambda>p. ''ld.so.conf path '' @ p @ '' was present'')
       (map lsc_path (si_ld_so_conf_injections (sec b)))
       (map lsc_path (si_ld_so_conf_injections (sec a)))"

definition generator_index :: "agent_report \<Rightarrow> (key \<times> generator_finding) list" where
  "generator_index r = map (\<lambda>g. (single (gf_path g), g)) (si_generators (sec r))"

definition diff_generators :: "compare_env \<Rightarrow> agent_report \<Rightarrow> agent_report \<Rightarrow> change list" where
  "diff_generators env b a =
     (let field = ''security.generators''; ib = generator_index b; ia = generator_index a in
      map_drift env ''generators.after'' ia
        (\<lambda>k g.
           case last_entry ib k of
             None \<Rightarrow> [chg field None
               (Some (''generator '' @ hd k @ '' appeared ('' @ show_origin (gf_origin g) @ '')'')) SevDegraded]
           | Some prev \<Rightarrow>
               if gf_writability prev \<noteq> gf_writability g
               then [chg field (Some (hd k @ '': '' @ show_writability (gf_writability prev)))
                       (Some (hd k @ '': '' @ show_writability (gf_writability g))) SevDegraded]
               else if gf_symlink_target prev \<noteq> gf_symlink_target g
               then [chg field
                       (Some (hd k @ '' '' @ arrow @ '' '' @ debug_opt env (gf_symlink_target prev)))
                       (Some (hd k @ '' '' @ arrow @ '' '' @ debug_opt env (gf_symlink_target g)))
                       SevDegraded]
               else [])
      @ map (\<lambda>k. chg field (Some (''generator '' @ hd k @ '' was present'')) None SevImproved)
          (filter (\<lambda>k. k \<notin> set (map fst ia)) (hash_keys env ''generators.before'' (map fst ib))))"

definition pam_index :: "agent_report \<Rightarrow> (key \<times> pam_finding) list" where
  "pam_index r = map (\<lambda>f. (single (pm_module_path (paf_module f)), f)) (si_pam_injections (sec r))"

definition diff_pam :: "compare_env \<Rightarrow> agent_report \<Rightarrow> agent_report \<Rightarrow> change list" where
  "diff_pam env b a =
     (let field = ''security.pam_injections''; ib = pam_index b; ia = pam_index a in
      map_drift env ''pam.after'' ia
        (\<lambda>k f.
           case last_entry ib k of
             None \<Rightarrow> [chg field None
               (Some (''PAM module '' @ hd k @ '' appeared ('' @ show_nat (length (paf_services f))
                  @ '' services)'')) SevDegraded]
           | Some prev \<Rightarrow>
               if paf_writability prev \<noteq> paf_writability f
               then [chg field (Some (hd k @ '': '' @ show_writability (paf_writability prev)))
                       (Some (hd k @ '': '' @ show_writability (paf_writability f))) SevDegraded]
               else [])
      @ map (\<lambda>k. chg field (Some (''PAM module '' @ hd k @ '' was present'')) None SevImproved)
          (filter (\<lambda>k. k \<notin> set (map fst ia)) (hash_keys env ''pam.before'' (map fst ib))))"

definition diff_core_pattern :: "agent_report \<Rightarrow> agent_report \<Rightarrow> change list" where
  "diff_core_pattern b a =
     (let was = si_core_pattern (sec b); now = si_core_pattern (sec a);
          text = (\<lambda>x. Some (case x of None \<Rightarrow> ''(unreadable)'' | Some cp \<Rightarrow> cp))
      in if was \<noteq> now
         then [chg ''security.core_pattern'' (text was) (text now)
                 (case now of
                    Some cp \<Rightarrow> if \<not> core_pattern_is_trusted cp then SevDegraded else SevChanged
                  | None \<Rightarrow> SevChanged)]
         else [])"

section \<open>One-way switches and units\<close>

definition show_switch :: "u8 option \<Rightarrow> string" where
  "show_switch v = (case v of None \<Rightarrow> ''unreadable'' | Some x \<Rightarrow> show_word x)"

definition switch_drift :: "string \<Rightarrow> u8 option option \<Rightarrow> u8 option option \<Rightarrow> change list" where
  "switch_drift label was now =
     (let field = ''security.one_way_switches.'' @ label in
      case (was, now) of
        (Some prev, None) \<Rightarrow> [chg field (Some (show_switch prev)) (Some ''absent'') SevDegraded]
      | (None, Some val) \<Rightarrow> [chg field None (Some (show_switch val)) SevChanged]
      | (Some (Some x), Some (Some y)) \<Rightarrow>
          if x \<noteq> y
          then [chg field (Some (show_word x)) (Some (show_word y))
                  (if y < x then SevDegraded else SevImproved)]
          else []
      | (Some (Some x), Some None) \<Rightarrow> [chg field (Some (show_word x)) (Some ''unreadable'') SevDegraded]
      | (Some None, Some (Some y)) \<Rightarrow> [chg field (Some ''unreadable'') (Some (show_word y)) SevChanged]
      | (Some None, Some None) \<Rightarrow> []
      | (None, None) \<Rightarrow> [])"

definition diff_one_way :: "agent_report \<Rightarrow> agent_report \<Rightarrow> change list" where
  "diff_one_way b a =
     (let sb = si_one_way_switches (sec b); sa = si_one_way_switches (sec a) in
      concat (map (\<lambda>label. switch_drift label (last_entry sb label) (last_entry sa label))
        (btree_keys (map fst sb @ map fst sa))))"

definition exec_index :: "agent_report \<Rightarrow> (key \<times> exec_start_finding) list" where
  "exec_index r = map (\<lambda>f. ([esf_unit_path f, esf_exec_path f], f)) (si_exec_start_injections (sec r))"

definition exec_text :: "exec_start_finding \<Rightarrow> string \<Rightarrow> string" where
  "exec_text f what = esf_unit_path f @ '' '' @ arrow @ '' '' @ esf_exec_path f @ '' ('' @ what @ '')''"

definition exec_describe :: "compare_env \<Rightarrow> string \<Rightarrow> exec_start_finding \<Rightarrow> string" where
  "exec_describe env how f =
     exec_text f (how @ show_bool (esf_volatile f) @ '', writability:''
       @ show_writability (esf_writability f) @ '', unit_pkg:'' @ debug_opt env (esf_unit_package f))"

definition exec_changed ::
  "compare_env \<Rightarrow> exec_start_finding \<Rightarrow> exec_start_finding \<Rightarrow> change list" where
  "exec_changed env b a =
     (let field = ''security.exec_start_injections'' in
      (if esf_unit_package b \<noteq> None \<and> esf_unit_package a = None
       then [chg field (Some (exec_text b (''unit_pkg='' @ debug_opt env (esf_unit_package b))))
               (Some (''unit_pkg lost (was '' @ debug_opt env (esf_unit_package b) @ '')'')) SevDegraded]
       else [])
      @ (if esf_writability b = Missing \<and> esf_writability a \<noteq> Missing
         then [chg field (Some (exec_text b ''target was Missing''))
                 (Some (''target now '' @ show_writability (esf_writability a))) SevDegraded]
         else [])
      @ (if \<not> esf_volatile b \<and> esf_volatile a
         then [chg field (Some (exec_text b ''was non-volatile'')) (Some ''now volatile'') SevDegraded]
         else [])
      @ (if esf_package b \<noteq> esf_package a
         then [chg field (Some (exec_text b (''pkg='' @ debug_opt env (esf_package b))))
                 (Some (''pkg='' @ debug_opt env (esf_package a))) SevChanged]
         else []))"

definition diff_exec_start :: "compare_env \<Rightarrow> agent_report \<Rightarrow> agent_report \<Rightarrow> change list" where
  "diff_exec_start env b a =
     (let field = ''security.exec_start_injections''; ib = exec_index b; ia = exec_index a in
      map_drift env ''exec.after'' ia
        (\<lambda>k f. if k \<in> set (map fst ib) then []
               else [chg field None (Some (exec_describe env ''volatile:'' f)) SevDegraded])
      @ map_drift env ''exec.before'' ib
          (\<lambda>k f. if k \<in> set (map fst ia) then []
                 else [chg field (Some (exec_describe env ''was volatile:'' f)) None SevImproved])
      @ map_drift env ''exec.before'' ib
          (\<lambda>k f. case last_entry ia k of None \<Rightarrow> [] | Some now \<Rightarrow> exec_changed env f now))"

section \<open>The whole comparison\<close>

text \<open>Every change in the order it is pushed.\<close>

definition raw_changes :: "compare_env \<Rightarrow> agent_report \<Rightarrow> agent_report \<Rightarrow> change list" where
  "raw_changes env b a =
     concat
       [diff_version b a, diff_risk_score b a, diff_host b a, diff_switches b a, diff_cpu env b a,
        diff_groups b a, diff_package_count b a, diff_certs b a, diff_port_set env b a,
        diff_port_process env b a, diff_sshd env b a, diff_port_exe env b a, diff_exposure env b a,
        diff_foreign_netns env b a, diff_mount_namespaces env b a, diff_upgradable env b a,
        diff_shell_users env b a, diff_container_set env b a, diff_containers env b a,
        diff_sysctl env b a, diff_failed_services env b a, diff_backup_tools env b a,
        diff_setuid env b a, diff_file_caps env b a, diff_sudoers env b a, diff_ebpf env b a,
        diff_modules env b a, diff_taint b a, diff_confinement env b a, diff_accounts env b a,
        diff_hardening b a, diff_ftrace env b a, diff_preloads env b a, diff_ld_so_conf env b a,
        diff_generators env b a, diff_pam env b a, diff_core_pattern b a, diff_one_way b a,
        diff_exec_start env b a]"

text \<open>
  Where the comparison panics: the sum of packages overflows \<open>usize\<close>, or a taint bit is shifted out
  of range. Both come from numbers a report may hold.
\<close>

definition drift_overflows :: "agent_report \<Rightarrow> agent_report \<Rightarrow> bool" where
  "drift_overflows b a =
     (pk_installed_count (ar_packages b) \<noteq> pk_installed_count (ar_packages a)
        \<and> 2 ^ 64 \<le> pk_installed_count (ar_packages b) + 50
      \<or> newly_tainted b a \<noteq> 0
        \<and> list_ex (\<lambda>f. 64 \<le> unat (tf_bit f)) (kt_flags (si_kernel_taint (sec a))))"

text \<open>\<open>None\<close> is a panic.\<close>

definition compare_reports :: "compare_env \<Rightarrow> agent_report \<Rightarrow> agent_report \<Rightarrow> diff_report option" where
  "compare_reports env b a =
     (if drift_overflows b a then None
      else Some \<lparr>dr_before = Some (snapshot_of b), dr_after = Some (snapshot_of a),
                 dr_changes = sort_key change_key (raw_changes env b a)\<rparr>)"

section \<open>Fleets\<close>

datatype host_diff_status = HostCompared | HostAdded | HostRemoved

record multi_host_diff =
  mhd_hostname :: string
  mhd_status :: host_diff_status
  mhd_diff :: diff_report

definition host_index :: "agent_report list \<Rightarrow> (string \<times> agent_report) list" where
  "host_index rs = map (\<lambda>r. (hi_hostname (hst r), r)) rs"

definition compare_host ::
  "compare_env \<Rightarrow> string \<Rightarrow> agent_report option \<Rightarrow> agent_report option \<Rightarrow> multi_host_diff list option"
where
  "compare_host env host before after =
     (case (before, after) of
        (Some b, Some a) \<Rightarrow>
          (case compare_reports env b a of
             None \<Rightarrow> None
           | Some d \<Rightarrow> Some [\<lparr>mhd_hostname = host, mhd_status = HostCompared, mhd_diff = d\<rparr>])
      | (Some b, None) \<Rightarrow>
          Some [\<lparr>mhd_hostname = host, mhd_status = HostRemoved,
                 mhd_diff = \<lparr>dr_before = Some (snapshot_of b), dr_after = None,
                   dr_changes = [chg ''host.removed'' (Some host) None SevDegraded]\<rparr>\<rparr>]
      | (None, Some a) \<Rightarrow>
          Some [\<lparr>mhd_hostname = host, mhd_status = HostAdded,
                 mhd_diff = \<lparr>dr_before = None, dr_after = Some (snapshot_of a),
                   dr_changes = [chg ''host.added'' None
                     (Some (host @ '' (risk '' @ show_word (ar_risk_score a) @ '')'')) SevChanged]\<rparr>\<rparr>]
      | (None, None) \<Rightarrow> Some [])"

definition compare_hostnames :: "agent_report list \<Rightarrow> agent_report list \<Rightarrow> string list" where
  "compare_hostnames before after =
     sort (remdups (map fst (host_index before) @ map fst (host_index after)))"

fun compare_hosts ::
  "compare_env \<Rightarrow> agent_report list \<Rightarrow> agent_report list \<Rightarrow> string list \<Rightarrow> multi_host_diff list option"
where
  "compare_hosts env before after [] = Some []"
| "compare_hosts env before after (h # hs) =
     (case compare_host env h (last_entry (host_index before) h) (last_entry (host_index after) h) of
        None \<Rightarrow> None
      | Some ds \<Rightarrow>
          (case compare_hosts env before after hs of None \<Rightarrow> None | Some es \<Rightarrow> Some (ds @ es)))"

definition compare_multi ::
  "compare_env \<Rightarrow> agent_report list \<Rightarrow> agent_report list \<Rightarrow> multi_host_diff list option" where
  "compare_multi env before after =
     compare_hosts env before after (compare_hostnames before after)"

text \<open>\<open>--fail-on-drift\<close>: the exit code of \<open>compare\<close>, for one report or a fleet.\<close>

definition has_degraded :: "diff_report \<Rightarrow> bool" where
  "has_degraded d = list_ex (\<lambda>c. ch_severity c = SevDegraded) (dr_changes d)"

definition compare_exit :: "bool \<Rightarrow> diff_report list \<Rightarrow> int" where
  "compare_exit fail_on_drift ds = (if fail_on_drift \<and> list_ex has_degraded ds then 1 else 0)"

end
