(* ===== verification/DriftLaws.thy ===== *)
theory DriftLaws
  imports Drift
begin

text \<open>
  The laws of the comparison: it does not depend on the order of hash containers, what each block
  reports, what can be reported as an improvement, and how fleets are matched.
\<close>

section \<open>Independence of the order\<close>

named_theorems drift_mset

definition canonical :: "compare_env \<Rightarrow> compare_env" where
  "canonical env = env\<lparr>ce_order := (\<lambda>_ ks. ks)\<rparr>"

lemma canonical_permutes [simp]: "order_permutes (canonical env)"
  by (simp add: order_permutes_def canonical_def)

lemma canonical_debug [simp]: "debug_opt (canonical env) = debug_opt env"
  by (auto simp: fun_eq_iff debug_opt_def canonical_def split: option.splits)

lemma canonical_exec [simp]:
  "exec_describe (canonical env) = exec_describe env" "exec_changed (canonical env) = exec_changed env"
  by (simp_all only: fun_eq_iff exec_describe_def exec_changed_def canonical_debug simp_thms)

lemma mset_hash_keys: "order_permutes env \<Longrightarrow> mset (hash_keys env name ks) = mset (remdups ks)"
  by (simp add: order_permutes_def hash_keys_def)

lemma set_hash_keys: "order_permutes env \<Longrightarrow> set (hash_keys env name ks) = set ks"
  using mset_hash_keys [of env name ks] by (metis set_mset_mset set_remdups)

lemma mset_concat_map: "mset (concat (map f xs)) = (\<Sum>x\<in>#mset xs. mset (f x))"
  by (induction xs) auto

lemma mset_concat_map_cong:
  "(\<And>x. x \<in> set xs \<Longrightarrow> mset (f x) = mset (g x)) \<Longrightarrow> mset (concat (map f xs)) = mset (concat (map g xs))"
  by (induction xs) auto

lemma mset_set_drift [drift_mset]:
  "order_permutes env \<Longrightarrow> mset (set_drift env name b a f g) = mset (set_drift (canonical env) name b a f g)"
  by (simp add: set_drift_def mset_hash_keys)

lemma mset_map_drift [drift_mset]:
  "order_permutes env \<Longrightarrow> mset (map_drift env name kvs f) = mset (map_drift (canonical env) name kvs f)"
  by (simp add: map_drift_def mset_concat_map mset_hash_keys)

lemma mset_map_keys [drift_mset]:
  "order_permutes env \<Longrightarrow>
     mset (map f (filter P (hash_keys env name ks))) = mset (map f (filter P (hash_keys (canonical env) name ks)))"
  by (simp add: mset_hash_keys)

lemma mset_concat_keys [drift_mset]:
  "order_permutes env \<Longrightarrow>
     mset (concat (map f (hash_keys env name ks))) = mset (concat (map f (hash_keys (canonical env) name ks)))"
  by (simp add: mset_concat_map mset_hash_keys)

lemma mset_diff_str_set [drift_mset]:
  "order_permutes env \<Longrightarrow> mset (diff_str_set env field b a) = mset (diff_str_set (canonical env) field b a)"
  unfolding diff_str_set_def by (rule drift_mset)

lemma mset_text_set_drift [drift_mset]:
  "order_permutes env \<Longrightarrow>
     mset (text_set_drift env name field f g b a) = mset (text_set_drift (canonical env) name field f g b a)"
  unfolding text_set_drift_def by (rule drift_mset)

lemma mset_container_drift [drift_mset]:
  "order_permutes env \<Longrightarrow> mset (container_drift env b a) = mset (container_drift (canonical env) b a)"
  by (simp add: container_drift_def Let_def mset_diff_str_set [of env])

lemma mset_diff_containers [drift_mset]:
  "order_permutes env \<Longrightarrow> mset (diff_containers env b a) = mset (diff_containers (canonical env) b a)"
  unfolding diff_containers_def
  by (rule mset_concat_map_cong) (auto split: option.splits intro: mset_container_drift)

text \<open>Every block, and so the whole list of changes, up to order.\<close>

lemmas drift_blocks = diff_cpu_def diff_port_set_def diff_port_process_def diff_sshd_def
  diff_port_exe_def diff_exposure_def diff_foreign_netns_def diff_mount_namespaces_def
  diff_upgradable_def diff_shell_users_def diff_container_set_def diff_sysctl_def
  diff_failed_services_def diff_backup_tools_def diff_setuid_def diff_file_caps_def diff_sudoers_def
  diff_ebpf_def diff_modules_def diff_confinement_def diff_accounts_def diff_system_shells_def
  diff_file_perms_def diff_ftrace_def diff_preloads_def diff_ld_so_conf_def diff_generators_def
  diff_pam_def diff_exec_start_def

lemma mset_raw_changes:
  "order_permutes env \<Longrightarrow> mset (raw_changes env b a) = mset (raw_changes (canonical env) b a)"
proof -
  assume perm: "order_permutes env"
  note m = drift_mset [OF perm]
  have block: "mset (f env b a) = mset (f (canonical env) b a)"
    if "f \<in> {diff_cpu, diff_port_set, diff_port_process, diff_sshd, diff_port_exe, diff_exposure,
        diff_foreign_netns, diff_mount_namespaces, diff_upgradable, diff_shell_users,
        diff_container_set, diff_containers, diff_sysctl, diff_failed_services, diff_backup_tools,
        diff_setuid, diff_file_caps, diff_sudoers, diff_ebpf, diff_modules, diff_confinement,
        diff_accounts, diff_ftrace, diff_preloads, diff_ld_so_conf, diff_generators, diff_pam,
        diff_exec_start}" for f
    using that
    by (elim insertE; simp only: drift_blocks Let_def mset_append m canonical_debug canonical_exec
        simp_thms empty_iff)
  show ?thesis
    by (simp add: raw_changes_def block)
qed

lemma sev_rank_inj: "sev_rank x = sev_rank y \<Longrightarrow> x = y"
  by (cases x; cases y) auto

lemma change_key_inj: "inj change_key"
  by (rule injI) (auto simp: change_key_def intro: sev_rank_inj change.equality)

lemma sort_changes_cong:
  "mset xs = mset ys \<Longrightarrow> sort_key change_key xs = sort_key change_key ys"
  by (rule sort_key_inj_key_eq) (auto intro: inj_on_subset [OF change_key_inj])

definition sorted_changes :: "compare_env \<Rightarrow> agent_report \<Rightarrow> agent_report \<Rightarrow> change list" where
  "sorted_changes env b a = sort_key change_key (raw_changes env b a)"

lemma sorted_changes_canonical:
  "order_permutes env \<Longrightarrow> sorted_changes env b a = sorted_changes (canonical env) b a"
  unfolding sorted_changes_def by (intro sort_changes_cong mset_raw_changes)

lemma set_sorted_changes [simp]: "set (sorted_changes env b a) = set (raw_changes env b a)"
  by (simp add: sorted_changes_def)

lemma compare_reports_eq:
  "compare_reports env b a =
     (if drift_overflows b a then None
      else Some \<lparr>dr_before = Some (snapshot_of b), dr_after = Some (snapshot_of a),
                 dr_changes = sorted_changes env b a\<rparr>)"
  by (simp add: compare_reports_def sorted_changes_def)

lemma compare_reports_canonical:
  "order_permutes env \<Longrightarrow> compare_reports env b a = compare_reports (canonical env) b a"
  by (simp only: compare_reports_eq sorted_changes_canonical)

lemma compare_host_canonical:
  "order_permutes env \<Longrightarrow> compare_host env h b a = compare_host (canonical env) h b a"
  by (auto simp: compare_host_def compare_reports_canonical [of env] split: option.splits)

lemma compare_hosts_canonical:
  "order_permutes env \<Longrightarrow> compare_hosts env bs as hs = compare_hosts (canonical env) bs as hs"
  by (induction hs) (simp_all only: compare_hosts.simps compare_host_canonical)

section \<open>What is in the changes\<close>

text \<open>
  The blocks of a set-valued field: what is new is reported one way, what is gone another way, and
  what stays is not reported.
\<close>

locale set_valued =
  fixes block :: "compare_env \<Rightarrow> agent_report \<Rightarrow> agent_report \<Rightarrow> change list"
    and index :: "agent_report \<Rightarrow> key list"
    and appeared gone :: "key \<Rightarrow> change"
  assumes block_set: "order_permutes env \<Longrightarrow> set (block env b a) =
      appeared ` (set (index a) - set (index b)) \<union> gone ` (set (index b) - set (index a))"
begin

lemma new_reported:
  "order_permutes env \<Longrightarrow> k \<in> set (index a) \<Longrightarrow> k \<notin> set (index b) \<Longrightarrow> appeared k \<in> set (block env b a)"
  by (simp add: block_set)

lemma gone_reported:
  "order_permutes env \<Longrightarrow> k \<in> set (index b) \<Longrightarrow> k \<notin> set (index a) \<Longrightarrow> gone k \<in> set (block env b a)"
  by (simp add: block_set)

lemma silent_iff:
  "order_permutes env \<Longrightarrow> block env b a = [] \<longleftrightarrow> set (index b) = set (index a)"
  using block_set [of env b a] by (auto simp flip: set_empty)

text \<open>If appearances and disappearances are told apart, the block determines what changed.\<close>

lemma reported_iff:
  assumes "order_permutes env" "inj appeared" "range appeared \<inter> range gone = {}"
  shows "appeared k \<in> set (block env b a) \<longleftrightarrow> k \<in> set (index a) \<and> k \<notin> set (index b)"
  using assms by (auto simp: block_set dest: injD)

end

lemma set_set_drift:
  "order_permutes env \<Longrightarrow> set (set_drift env name b a f g) = f ` (set a - set b) \<union> g ` (set b - set a)"
  by (auto simp: set_drift_def set_hash_keys)

text \<open>The set-valued fields of a report.\<close>

definition sysctl_index :: "agent_report \<Rightarrow> key list" where
  "sysctl_index r = map single (si_sysctl_issues (sec r))"

definition sudoers_index :: "agent_report \<Rightarrow> key list" where
  "sudoers_index r =
     map (\<lambda>e. [se_principal e, se_source_file e]) (aar_sudoers_nopasswd_all (si_access_alignment (sec r)))"

definition preload_index :: "agent_report \<Rightarrow> key list" where
  "preload_index r = map (\<lambda>f. single (plf_path f)) (si_preload_injections (sec r))"

definition container_index :: "agent_report \<Rightarrow> key list" where
  "container_index r = map single (container_names r)"

interpretation ports: set_valued diff_port_set "\<lambda>r. map fst (port_index r)"
    "\<lambda>k. chg ''network.listening_ports'' None (Some (join '':'' k)) SevDegraded"
    "\<lambda>k. chg ''network.listening_ports'' (Some (join '':'' k)) None SevChanged"
  by unfold_locales (simp add: diff_port_set_def set_set_drift)

interpretation containers: set_valued diff_container_set container_index
    "\<lambda>k. chg ''topology.containers'' None (Some (hd k)) SevDegraded"
    "\<lambda>k. chg ''topology.containers'' (Some (hd k)) None SevChanged"
  by unfold_locales (simp add: diff_container_set_def set_set_drift container_index_def)

interpretation sysctls: set_valued diff_sysctl sysctl_index
    "\<lambda>k. chg ''security.sysctl_issues'' None (Some (hd k)) SevDegraded"
    "\<lambda>k. chg ''security.sysctl_issues'' (Some (hd k)) None SevImproved"
  by unfold_locales (simp add: diff_sysctl_def diff_str_set_def set_set_drift sysctl_index_def)

interpretation preloads: set_valued diff_preloads preload_index
    "\<lambda>k. chg ''security.preload_injections'' None
       (Some (''ld.so.preload entry '' @ hd k @ '' appeared'')) SevDegraded"
    "\<lambda>k. chg ''security.preload_injections''
       (Some (''ld.so.preload entry '' @ hd k @ '' was present'')) None SevImproved"
  by unfold_locales
    (simp add: diff_preloads_def text_set_drift_def set_set_drift preload_index_def comp_def)

interpretation foreign: set_valued diff_foreign_netns
    "\<lambda>r. map foreign_netns_key (ni_foreign_netns_listeners (net r))"
    "\<lambda>k. chg ''network.foreign_netns_listeners'' None (Some (foreign_netns_text k)) SevDegraded"
    "\<lambda>k. chg ''network.foreign_netns_listeners'' (Some (foreign_netns_text k)) None SevChanged"
  by unfold_locales (simp add: diff_foreign_netns_def Let_def set_set_drift)

section \<open>A report against itself\<close>

lemma set_drift_self [simp]: "order_permutes env \<Longrightarrow> set_drift env name ks ks f g = []"
  by (simp add: set_drift_def set_hash_keys)

lemma diff_str_set_self [simp]: "order_permutes env \<Longrightarrow> diff_str_set env field xs xs = []"
  by (simp add: diff_str_set_def)

lemma text_set_drift_self [simp]: "order_permutes env \<Longrightarrow> text_set_drift env name field f g xs xs = []"
  by (simp add: text_set_drift_def)

lemma compare_bool_self [simp]: "compare_bool field w x x = []"
  by (simp add: compare_bool_def)

lemma diff_observed_self [simp]: "diff_observed field u t sev x x = []"
  by (simp add: diff_observed_def split: option.splits)

lemma last_entry_Some_key: "last_entry kvs k = Some v \<Longrightarrow> k \<in> set (map fst kvs)"
  by (auto simp: last_entry_def dest!: map_of_SomeD intro: rev_image_eqI)

lemma last_entry_key: "k \<in> set (map fst kvs) \<Longrightarrow> \<exists>v. last_entry kvs k = Some v"
  unfolding last_entry_def by (metis map_of_eq_None_iff not_None_eq set_map set_rev)

lemma last_entry_pair: "(k, v) \<in> set kvs \<Longrightarrow> \<exists>w. last_entry kvs k = Some w"
  by (rule last_entry_key) force

lemma map_drift_Nil:
  "(\<And>k v. last_entry kvs k = Some v \<Longrightarrow> f k v = []) \<Longrightarrow> map_drift env name kvs f = []"
  by (auto simp: map_drift_def split: option.splits)

lemma find_distinct:
  "distinct (map f xs) \<Longrightarrow> x \<in> set xs \<Longrightarrow> find (\<lambda>y. f y = f x) xs = Some x"
  by (induction xs) (auto simp: image_iff)

lemma exec_changed_self [simp]: "exec_changed env x x = []"
  by (cases "esf_unit_package x") (simp_all add: exec_changed_def Let_def)

lemma container_drift_self [simp]: "order_permutes env \<Longrightarrow> container_drift env c c = []"
  by (simp add: container_drift_def Let_def)

lemma hash_keys_filter_self [simp]:
  "order_permutes env \<Longrightarrow> set ks \<subseteq> K \<Longrightarrow> filter (\<lambda>k. k \<notin> K) (hash_keys env name ks) = []"
  by (auto simp: filter_empty_conv set_hash_keys)

lemma self_silent:
  assumes perm: "order_permutes env"
    and "distinct (map ssl_domain (ni_ssl_certificates (net r)))" "distinct (container_names r)"
  shows "raw_changes env r r = []"
proof -
  have maps: "diff_cpu env r r = []" "diff_port_process env r r = []" "diff_port_exe env r r = []"
    "diff_setuid env r r = []" "diff_file_caps env r r = []" "diff_file_perms env r r = []"
    "diff_generators env r r = []" "diff_pam env r r = []" "diff_exec_start env r r = []"
    unfolding diff_cpu_def diff_port_process_def diff_port_exe_def diff_setuid_def diff_file_caps_def
      diff_file_perms_def diff_generators_def diff_pam_def diff_exec_start_def Let_def append_is_Nil_conv
    using perm by (auto intro!: map_drift_Nil dest: last_entry_Some_key simp del: set_map)
  have users: "diff_shell_users env r r = []"
    by (auto simp: diff_shell_users_def user_drift_def Let_def split: option.splits)
  have exposure: "diff_exposure env r r = []" by (auto simp: diff_exposure_def filter_empty_conv)
  have certs: "diff_certs r r = []"
    using find_distinct [OF assms(2)]
    by (auto simp: diff_certs_def cert_drift_def Let_def filter_empty_conv list_ex_iff)
  have conts: "diff_containers env r r = []"
    using find_distinct [OF assms(3) [unfolded container_names_def]] perm
    by (auto simp: diff_containers_def)
  have groups: "diff_groups r r = []"
    by (auto simp: diff_groups_def groups_grew_def groups_lost_def minus_list_def Let_def
        btree_keys_def filter_empty_conv)
  have hard: "diff_hardening r r = []"
    by (auto simp: diff_hardening_def Let_def btree_keys_def filter_empty_conv members_of_def
        dest: last_entry_pair split: option.splits)
  have one: "diff_one_way r r = []"
    by (auto simp: diff_one_way_def switch_drift_def Let_def split: option.splits)
  show ?thesis
    using perm
    by (simp add: raw_changes_def maps users exposure certs conts groups hard one diff_version_def
        diff_risk_score_def diff_host_def diff_text_def diff_switches_def diff_package_count_def
        diff_port_set_def diff_sshd_def diff_foreign_netns_def diff_mount_namespaces_def
        diff_upgradable_def diff_container_set_def diff_sysctl_def diff_failed_services_def
        diff_backup_tools_def diff_sudoers_def diff_ebpf_def diff_modules_def diff_taint_def
        newly_tainted_def diff_confinement_def diff_accounts_def diff_system_shells_def diff_ftrace_def
        diff_preloads_def diff_ld_so_conf_def diff_core_pattern_def Let_def)
qed

section \<open>What degrades\<close>

lemma in_map_drift:
  assumes "order_permutes env" "last_entry kvs k = Some v" "c \<in> set (f k v)"
  shows "c \<in> set (map_drift env name kvs f)"
proof -
  have "k \<in> set (hash_keys env name (map fst kvs))"
    using last_entry_Some_key [OF assms(2)] by (simp only: set_hash_keys [OF assms(1)])
  with assms(2,3) show ?thesis by (auto simp: map_drift_def intro!: bexI [of _ k])
qed

text \<open>
  The ways a host gains privilege or hides something between two reports: a file that is newly
  setuid or setgid, or has gained a bit; a file with a capability it had not; a new unconditional
  NOPASSWD entry; a hidden kernel module; a kernel taint; a container that became privileged; a new
  preload.
\<close>

text \<open>The two gains on their own terms: a mode bit, or a capability by its number, that was not there.\<close>

definition mode_bit_gained :: "bool \<times> bool \<Rightarrow> bool \<times> bool \<Rightarrow> bool" where
  "mode_bit_gained was now = (\<not> ((fst now \<longrightarrow> fst was) \<and> (snd now \<longrightarrow> snd was)))"

definition capability_gained :: "u64 \<times> u64 \<times> bool \<Rightarrow> u64 \<times> u64 \<times> bool \<Rightarrow> bool" where
  "capability_gained was now =
     ((\<exists>n. bit (fst now) n \<and> \<not> bit (fst was) n)
      \<or> (\<exists>n. bit (fst (snd now)) n \<and> \<not> bit (fst (snd was)) n)
      \<or> snd (snd now) \<and> \<not> snd (snd was))"

lemma and_not_zero_iff: "(p :: u64) AND NOT q \<noteq> 0 \<longleftrightarrow> (\<exists>n. bit p n \<and> \<not> bit q n)"
proof -
  have "p AND NOT q = 0 \<longleftrightarrow> (\<forall>n. \<not> bit p n \<or> bit q n)"
    unfolding bit_eq_iff using bit_imp_le_length [of p] by (auto simp: bit_simps)
  then show ?thesis by blast
qed

lemma mode_bit_gained_iff: "mode_bit_gained was now = setuid_gained was now"
  by (auto simp: mode_bit_gained_def setuid_gained_def)

lemma capability_gained_iff: "capability_gained was now = caps_escalated was now"
  by (cases was; cases now) (auto simp: capability_gained_def caps_escalated_def and_not_zero_iff)

definition gained_setuid :: "agent_report \<Rightarrow> agent_report \<Rightarrow> bool" where
  "gained_setuid b a =
     (\<exists>k now. last_entry (index_setuid_files a) k = Some now
       \<and> (case last_entry (index_setuid_files b) k of None \<Rightarrow> True | Some was \<Rightarrow> mode_bit_gained was now))"

definition gained_file_caps :: "agent_report \<Rightarrow> agent_report \<Rightarrow> bool" where
  "gained_file_caps b a =
     (\<exists>k now. last_entry (index_file_caps a) k = Some now
       \<and> (case last_entry (index_file_caps b) k of None \<Rightarrow> True | Some was \<Rightarrow> capability_gained was now))"

definition gained_hidden_module :: "agent_report \<Rightarrow> agent_report \<Rightarrow> bool" where
  "gained_hidden_module b a =
     (\<exists>n. n \<in> set (map hm_name (kmi_hidden_candidates (si_kernel_modules (sec a))))
        \<and> n \<notin> set (map hm_name (kmi_hidden_candidates (si_kernel_modules (sec b)))))"

definition gained_privileged_container :: "agent_report \<Rightarrow> agent_report \<Rightarrow> bool" where
  "gained_privileged_container b a =
     (\<exists>c was. c \<in> set (ti_containers (topo a)) \<and> ci_privileged c
        \<and> find (\<lambda>x. ci_name x = ci_name c) (ti_containers (topo b)) = Some was \<and> \<not> ci_privileged was)"

definition privilege_gained :: "agent_report \<Rightarrow> agent_report \<Rightarrow> bool" where
  "privilege_gained b a =
     (gained_setuid b a \<or> gained_file_caps b a
      \<or> \<not> set (sudoers_index a) \<subseteq> set (sudoers_index b)
      \<or> gained_hidden_module b a \<or> newly_tainted b a \<noteq> 0 \<or> gained_privileged_container b a
      \<or> \<not> set (preload_index a) \<subseteq> set (preload_index b))"

lemma setuid_degrades:
  assumes "order_permutes env" "gained_setuid b a"
  shows "\<exists>c \<in> set (diff_setuid env b a). ch_severity c = SevDegraded"
proof -
  obtain k now where now: "last_entry (index_setuid_files a) k = Some now"
    and gain: "case last_entry (index_setuid_files b) k of None \<Rightarrow> True | Some was \<Rightarrow> setuid_gained was now"
    using assms(2) unfolding gained_setuid_def mode_bit_gained_iff by blast
  show ?thesis
  proof (cases "last_entry (index_setuid_files b) k")
    case None
    show ?thesis
      unfolding diff_setuid_def Let_def
      by (rule bexI [of _ "chg ''security.setuid_files'' None (Some (hd k @ '' newly '' @ suid_bits now)) SevDegraded"])
        (simp_all add: None in_map_drift [OF assms(1) now])
  next
    case (Some was)
    with gain have "setuid_gained was now" "was \<noteq> now" by (auto simp: setuid_gained_def)
    then show ?thesis
      unfolding diff_setuid_def Let_def
      by (intro bexI [of _ "chg ''security.setuid_files'' (Some (hd k @ '' was '' @ suid_bits was))
           (Some (''now '' @ suid_bits now)) SevDegraded"])
        (simp_all add: Some in_map_drift [OF assms(1) now])
  qed
qed

lemma not_caps_escalated_self: "\<not> caps_escalated c c"
  by (cases c) (simp add: caps_escalated_def)

lemma file_caps_degrade:
  assumes "order_permutes env" "gained_file_caps b a"
  shows "\<exists>c \<in> set (diff_file_caps env b a). ch_severity c = SevDegraded"
proof -
  obtain k now where now: "last_entry (index_file_caps a) k = Some now"
    and gain: "case last_entry (index_file_caps b) k of None \<Rightarrow> True | Some was \<Rightarrow> caps_escalated was now"
    using assms(2) unfolding gained_file_caps_def capability_gained_iff by blast
  let ?label = "\<lambda>c :: u64 \<times> u64 \<times> bool. caps_label (fst c) (fst (snd c))"
  show ?thesis
  proof (cases "last_entry (index_file_caps b) k")
    case None
    show ?thesis
      unfolding diff_file_caps_def Let_def
      by (rule bexI [of _ "chg ''security.file_capabilities'' None
           (Some (hd k @ '' gained caps: '' @ ?label now)) SevDegraded"])
        (simp_all add: None in_map_drift [OF assms(1) now])
  next
    case (Some was)
    with gain have "caps_escalated was now" by simp
    moreover from this have "was \<noteq> now" using not_caps_escalated_self by blast
    ultimately show ?thesis
      unfolding diff_file_caps_def Let_def
      by (intro bexI [of _ "chg ''security.file_capabilities'' (Some (hd k @ '': '' @ ?label was))
           (Some (?label now)) SevDegraded"])
        (simp_all add: Some in_map_drift [OF assms(1) now])
  qed
qed

lemma hidden_module_degrades:
  "order_permutes env \<Longrightarrow> gained_hidden_module b a \<Longrightarrow>
     \<exists>c \<in> set (diff_modules env b a). ch_severity c = SevDegraded"
  by (force simp: gained_hidden_module_def diff_modules_def Let_def set_hash_keys single_def)

lemma privileged_degrades:
  assumes "gained_privileged_container b a"
  shows "\<exists>c \<in> set (diff_containers env b a). ch_severity c = SevDegraded"
proof -
  obtain c was where c: "c \<in> set (ti_containers (topo a))" "ci_privileged c"
    "find (\<lambda>x. ci_name x = ci_name c) (ti_containers (topo b)) = Some was" "\<not> ci_privileged was"
    using assms unfolding gained_privileged_container_def by blast
  have "chg (''topology.containers.'' @ ci_name c @ ''.privileged'') (Some (show_bool False))
      (Some (show_bool True)) SevDegraded \<in> set (container_drift env was c)"
    using c(2,4) by (simp add: container_drift_def Let_def compare_bool_def)
  with c(1,3) have "chg (''topology.containers.'' @ ci_name c @ ''.privileged'') (Some (show_bool False))
      (Some (show_bool True)) SevDegraded \<in> set (diff_containers env b a)"
    by (auto simp: diff_containers_def intro!: bexI [of _ c])
  then show ?thesis by (rule bexI [rotated]) simp
qed

lemma sudoers_degrades:
  "order_permutes env \<Longrightarrow> \<not> set (sudoers_index a) \<subseteq> set (sudoers_index b) \<Longrightarrow>
     \<exists>c \<in> set (diff_sudoers env b a). ch_severity c = SevDegraded"
proof -
  assume perm: "order_permutes env" and "\<not> set (sudoers_index a) \<subseteq> set (sudoers_index b)"
  then obtain k where "k \<in> set (sudoers_index a) - set (sudoers_index b)" by blast
  then have "chg ''security.sudoers_nopasswd_all'' None
      (Some (k ! 0 @ '' gained passwordless sudo to ALL via '' @ k ! 1)) SevDegraded
      \<in> set (diff_sudoers env b a)"
    unfolding diff_sudoers_def Let_def sudoers_index_def [symmetric] set_append set_set_drift [OF perm]
    by blast
  then show ?thesis by (rule bexI [rotated]) simp
qed

lemma preload_degrades:
  assumes "order_permutes env" "\<not> set (preload_index a) \<subseteq> set (preload_index b)"
  shows "\<exists>c \<in> set (diff_preloads env b a). ch_severity c = SevDegraded"
  using assms preloads.new_reported by fastforce

lemma privilege_gained_degrades:
  assumes "order_permutes env" "privilege_gained b a"
  shows "\<exists>c \<in> set (raw_changes env b a). ch_severity c = SevDegraded"
proof -
  have taint: "newly_tainted b a \<noteq> 0 \<Longrightarrow> \<exists>c \<in> set (diff_taint b a). ch_severity c = SevDegraded"
    by (simp add: diff_taint_def Let_def)
  have "\<exists>c \<in> set (diff_setuid env b a) \<union> set (diff_file_caps env b a) \<union> set (diff_sudoers env b a)
      \<union> set (diff_modules env b a) \<union> set (diff_taint b a) \<union> set (diff_containers env b a)
      \<union> set (diff_preloads env b a). ch_severity c = SevDegraded"
    using assms(2) unfolding privilege_gained_def bex_Un
    using setuid_degrades [OF assms(1)] file_caps_degrade [OF assms(1)] sudoers_degrades [OF assms(1)]
      hidden_module_degrades [OF assms(1)] taint privileged_degrades preload_degrades [OF assms(1)]
    by metis
  then show ?thesis by (auto simp: raw_changes_def)
qed

section \<open>What cannot improve\<close>

text \<open>
  The fields that list what exists on a host, rather than what is wrong with it. Their entries can
  vanish because a scan could not see them.
\<close>

definition inventory_fields :: "string list" where
  "inventory_fields =
     [''network.listening_ports'', ''network.foreign_netns_listeners'',
      ''security.mount_namespace_anomalies'', ''topology.containers'',
      ''security.access_alignment.root_equivalent_groups'']"

definition no_gain :: "change \<Rightarrow> bool" where
  "no_gain c = (ch_severity c = SevImproved \<longrightarrow> ch_field c \<notin> set inventory_fields)"

lemma no_gain_chg [simp]:
  "no_gain (chg f b a s) \<longleftrightarrow> (s = SevImproved \<longrightarrow> f \<notin> set inventory_fields)"
  by (simp add: no_gain_def)

lemma no_gain_set_drift [intro]:
  "(\<And>k. no_gain (f k)) \<Longrightarrow> (\<And>k. no_gain (g k)) \<Longrightarrow> list_all no_gain (set_drift env n b a f g)"
  by (auto simp: set_drift_def list_all_iff)

lemma no_gain_map_drift [intro]:
  "(\<And>k v. list_all no_gain (f k v)) \<Longrightarrow> list_all no_gain (map_drift env n kvs f)"
  by (auto simp: map_drift_def list_all_iff split: option.splits)

lemma no_gain_str_set [intro]:
  "field \<notin> set inventory_fields \<Longrightarrow> list_all no_gain (diff_str_set env field b a)"
  by (auto simp: diff_str_set_def)

lemma no_gain_text_set [intro]:
  "field \<notin> set inventory_fields \<Longrightarrow> list_all no_gain (text_set_drift env n field f g b a)"
  by (auto simp: text_set_drift_def)

lemma no_gain_bool [intro]:
  "field \<notin> set inventory_fields \<Longrightarrow> list_all no_gain (compare_bool field w b a)"
  by (auto simp: compare_bool_def)

lemma no_gain_observed [intro]:
  "field \<notin> set inventory_fields \<Longrightarrow> list_all no_gain (diff_observed field u t sev b a)"
  by (auto simp: diff_observed_def split: option.splits)

lemma no_gain_concat [intro]:
  "(\<And>x. x \<in> set xs \<Longrightarrow> list_all no_gain (f x)) \<Longrightarrow> list_all no_gain (concat (map f xs))"
  by (auto simp: list_all_iff)

lemma no_gain_map [intro]: "(\<And>x. no_gain (f x)) \<Longrightarrow> list_all no_gain (map f xs)"
  by (auto simp: list_all_iff)

lemma no_gain_blocks:
  "list_all no_gain (diff_host b a)" "list_all no_gain (diff_switches b a)"
  "list_all no_gain (diff_groups b a)" "list_all no_gain (diff_certs b a)"
  "list_all no_gain (diff_port_set env b a)" "list_all no_gain (diff_container_set env b a)"
  "list_all no_gain (diff_foreign_netns env b a)" "list_all no_gain (diff_mount_namespaces env b a)"
  "list_all no_gain (diff_shell_users env b a)" "list_all no_gain (diff_containers env b a)"
  by (auto simp: diff_host_def diff_text_def diff_switches_def diff_groups_def diff_certs_def
      cert_drift_def diff_port_set_def diff_container_set_def diff_foreign_netns_def
      diff_mount_namespaces_def diff_shell_users_def user_drift_def diff_containers_def
      container_drift_def inventory_fields_def Let_def split: option.splits
      intro!: no_gain_set_drift no_gain_concat no_gain_map no_gain_bool no_gain_str_set no_gain_observed)

lemma no_gain_more_blocks:
  "list_all no_gain (diff_cpu env b a)" "list_all no_gain (diff_sshd env b a)"
  "list_all no_gain (diff_port_process env b a)" "list_all no_gain (diff_port_exe env b a)"
  "list_all no_gain (diff_backup_tools env b a)" "list_all no_gain (diff_setuid env b a)"
  "list_all no_gain (diff_file_caps env b a)" "list_all no_gain (diff_sudoers env b a)"
  "list_all no_gain (diff_ebpf env b a)" "list_all no_gain (diff_modules env b a)"
  "list_all no_gain (diff_confinement env b a)" "list_all no_gain (diff_accounts env b a)"
  "list_all no_gain (diff_hardening b a)" "list_all no_gain (diff_generators env b a)"
  "list_all no_gain (diff_pam env b a)" "list_all no_gain (diff_one_way b a)"
  "list_all no_gain (diff_exec_start env b a)"
  by (auto simp: diff_cpu_def diff_sshd_def diff_port_process_def diff_port_exe_def port_field_def
      diff_backup_tools_def diff_setuid_def diff_file_caps_def diff_sudoers_def diff_ebpf_def
      diff_modules_def diff_confinement_def diff_accounts_def diff_system_shells_def
      diff_file_perms_def diff_hardening_def diff_generators_def diff_pam_def diff_one_way_def
      switch_drift_def diff_exec_start_def exec_changed_def inventory_fields_def Let_def
      split: option.splits
      intro!: no_gain_set_drift no_gain_map_drift no_gain_concat no_gain_map no_gain_bool
        no_gain_str_set no_gain_text_set no_gain_observed)

lemma raw_changes_no_gain: "list_all no_gain (raw_changes env b a)"
  unfolding raw_changes_def
  by (simp add: no_gain_blocks no_gain_more_blocks)
    (auto simp: diff_version_def diff_risk_score_def diff_package_count_def diff_exposure_def
      diff_upgradable_def diff_sysctl_def diff_failed_services_def diff_taint_def diff_ftrace_def
      diff_preloads_def diff_ld_so_conf_def diff_core_pattern_def inventory_fields_def Let_def
      split: option.splits intro!: no_gain_map no_gain_str_set no_gain_text_set)

section \<open>Fleets\<close>

lemma compare_host_spec:
  assumes "compare_host env h b a = Some ds" "b \<noteq> None \<or> a \<noteq> None"
  shows "\<exists>d. ds = [d] \<and> mhd_hostname d = h
     \<and> (mhd_status d = HostAdded \<longleftrightarrow> b = None) \<and> (mhd_status d = HostRemoved \<longleftrightarrow> a = None)
     \<and> (mhd_status d = HostCompared \<longrightarrow> compare_reports env (the b) (the a) = Some (mhd_diff d))
     \<and> (mhd_status d = HostRemoved \<longrightarrow> has_degraded (mhd_diff d))"
  using assms by (auto simp: compare_host_def has_degraded_def split: option.splits)

text \<open>What \<open>compare_multi\<close> says of one host.\<close>

definition host_judged ::
  "compare_env \<Rightarrow> agent_report list \<Rightarrow> agent_report list \<Rightarrow> multi_host_diff \<Rightarrow> bool" where
  "host_judged env before after d =
     (let b = last_entry (host_index before) (mhd_hostname d);
          a = last_entry (host_index after) (mhd_hostname d)
      in case (b, a) of
           (Some x, Some y) \<Rightarrow> mhd_status d = HostCompared \<and> compare_reports env x y = Some (mhd_diff d)
         | (Some x, None) \<Rightarrow> mhd_status d = HostRemoved \<and> has_degraded (mhd_diff d)
         | (None, Some y) \<Rightarrow> mhd_status d = HostAdded \<and> \<not> has_degraded (mhd_diff d)
         | (None, None) \<Rightarrow> False)"

lemma compare_host_judged:
  assumes "compare_host env h (last_entry (host_index before) h) (last_entry (host_index after) h) = Some ds"
    and "last_entry (host_index before) h \<noteq> None \<or> last_entry (host_index after) h \<noteq> None"
  shows "\<exists>d. ds = [d] \<and> mhd_hostname d = h \<and> host_judged env before after d"
  using assms by (auto simp: compare_host_def host_judged_def has_degraded_def split: option.splits)

lemma compare_hosts_spec:
  "\<lbrakk>compare_hosts env before after hs = Some ds;
     \<forall>h \<in> set hs. last_entry (host_index before) h \<noteq> None \<or> last_entry (host_index after) h \<noteq> None\<rbrakk>
   \<Longrightarrow> map mhd_hostname ds = hs \<and> list_all (host_judged env before after) ds"
proof (induction hs arbitrary: ds)
  case (Cons h hs)
  then obtain x xs where x: "compare_host env h (last_entry (host_index before) h)
      (last_entry (host_index after) h) = Some x"
    and xs: "compare_hosts env before after hs = Some xs" "ds = x @ xs"
    by (auto split: option.splits)
  from compare_host_judged [OF x] Cons.prems(2) obtain d where "x = [d]" "mhd_hostname d = h"
    "host_judged env before after d" by auto
  with Cons.IH [OF xs(1)] Cons.prems(2) xs(2) show ?case by auto
qed simp

lemma compare_hosts_None:
  "compare_hosts env before after hs = None \<longleftrightarrow>
     (\<exists>h \<in> set hs. compare_host env h (last_entry (host_index before) h)
        (last_entry (host_index after) h) = None)"
  by (induction hs) (auto split: option.splits)

lemma hostnames_known:
  "h \<in> set (compare_hostnames before after) \<Longrightarrow>
     last_entry (host_index before) h \<noteq> None \<or> last_entry (host_index after) h \<noteq> None"
proof -
  assume "h \<in> set (compare_hostnames before after)"
  then have "h \<in> set (map fst (host_index before)) \<or> h \<in> set (map fst (host_index after))"
    by (auto simp: compare_hostnames_def)
  then show ?thesis using last_entry_key by (metis not_None_eq)
qed

section \<open>Properties\<close>

text \<open>
  C9: the output of a comparison does not depend on the order in which the standard library iterates
  its hash maps and sets: for any two orders, two reports give the same list of changes, and two
  fleets the same list of hosts. The sort at the end decides every tie.
\<close>

theorem compare_reproducible:
  assumes "order_permutes (env\<lparr>ce_order := o1\<rparr>)" "order_permutes (env\<lparr>ce_order := o2\<rparr>)"
  shows "compare_reports (env\<lparr>ce_order := o1\<rparr>) b a = compare_reports (env\<lparr>ce_order := o2\<rparr>) b a
     \<and> compare_multi (env\<lparr>ce_order := o1\<rparr>) before after = compare_multi (env\<lparr>ce_order := o2\<rparr>) before after"
proof -
  have "canonical (env\<lparr>ce_order := o1\<rparr>) = canonical (env\<lparr>ce_order := o2\<rparr>)"
    by (simp add: canonical_def)
  then show ?thesis
    using compare_reports_canonical [OF assms(1)] compare_reports_canonical [OF assms(2)]
      compare_hosts_canonical [OF assms(1)] compare_hosts_canonical [OF assms(2)]
    by (simp add: compare_multi_def)
qed

definition list_order :: compare_env where
  "list_order = \<lparr>ce_order = (\<lambda>_ ks. ks), ce_debug = id\<rparr>"

theorem compare_reproducible_witness:
  "compare_reports (list_order\<lparr>ce_order := (\<lambda>_ ks. rev ks)\<rparr>) default_agent_report default_agent_report
   = compare_reports (list_order\<lparr>ce_order := (\<lambda>_ ks. ks)\<rparr>) default_agent_report default_agent_report"
  using compare_reproducible [of "\<lambda>_ ks. rev ks" list_order "\<lambda>_ ks. ks"]
  by (simp add: order_permutes_def)

text \<open>
  A report does not differ from itself. If no two certificates share a domain and no two containers
  a name, comparing a report with itself yields no change, for every order of the hash containers, and
  never panics.
\<close>

theorem compare_with_itself:
  assumes "order_permutes env" "distinct (map ssl_domain (ni_ssl_certificates (ar_network r)))"
    and "distinct (map ci_name (ti_containers (ar_topology r)))"
  shows "\<exists>d. compare_reports env r r = Some d \<and> dr_changes d = [] \<and> compare_exit True [d] = 0"
proof -
  have "raw_changes env r r = []"
    using self_silent [OF assms(1,2)] assms(3) by (simp add: container_names_def)
  moreover have "\<not> drift_overflows r r" by (simp add: drift_overflows_def newly_tainted_def)
  ultimately show ?thesis
    by (simp add: compare_reports_def compare_exit_def has_degraded_def)
qed

theorem compare_with_itself_witness:
  "\<exists>d. compare_reports list_order default_agent_report default_agent_report = Some d \<and> dr_changes d = []"
proof -
  have "order_permutes list_order" by (simp add: order_permutes_def list_order_def)
  moreover have "distinct (map ssl_domain (ni_ssl_certificates (ar_network default_agent_report)))"
    "distinct (map ci_name (ti_containers (ar_topology default_agent_report)))"
    by (simp_all add: default_agent_report_def default_network_info_def default_topology_info_def)
  ultimately show ?thesis using compare_with_itself by blast
qed

text \<open>
  C16: no gain of privilege passes as anything but a degradation. When a file became setuid or gained a
  bit or a capability, a principal gained NOPASSWD for everything, a kernel module is hidden, the
  kernel newly tainted, a container became privileged or a library is preloaded that was not, then the
  comparison, if it does not panic, has a degraded change, and with \<open>--fail-on-drift\<close> exits with 1.
\<close>

theorem privilege_gain_fails_drift:
  assumes "order_permutes env" "compare_reports env b a = Some d" "privilege_gained b a"
  shows "has_degraded d \<and> compare_exit True [d] = 1 \<and> dr_changes d \<noteq> []
     \<and> ch_severity (hd (dr_changes d)) = SevDegraded"
proof -
  have d: "dr_changes d = sort_key change_key (raw_changes env b a)"
    using assms(2) by (auto simp: compare_reports_def split: if_splits)
  obtain c where c: "c \<in> set (dr_changes d)" "ch_severity c = SevDegraded"
    using privilege_gained_degrades [OF assms(1,3)] d by auto
  then obtain x xs where xs: "dr_changes d = x # xs" by (cases "dr_changes d") auto
  have "sorted (map change_key (x # xs))" using d xs by (metis sorted_sort_key)
  then have "change_key x \<le> change_key c" using c(1) xs by auto
  then have "sev_rank (ch_severity x) \<le> 0" using c(2) by (auto simp: change_key_def less_eq_prod_def)
  then have "ch_severity x = SevDegraded" by (cases "ch_severity x") auto
  with xs c show ?thesis by (auto simp: has_degraded_def compare_exit_def list_ex_iff)
qed

definition hidden_report :: agent_report where
  "hidden_report = default_agent_report
     \<lparr>ar_security := default_security_info
        \<lparr>si_kernel_modules := default_kernel_module_inventory
           \<lparr>kmi_hidden_candidates := [\<lparr>hm_name = ''diamorphine'', hm_seen_in = []\<rparr>]\<rparr>\<rparr>\<rparr>"

theorem privilege_gain_fails_drift_witness:
  "\<exists>d. compare_reports list_order default_agent_report hidden_report = Some d \<and> compare_exit True [d] = 1"
proof -
  have "order_permutes list_order" by (simp add: order_permutes_def list_order_def)
  moreover have "privilege_gained default_agent_report hidden_report"
    by (simp add: privilege_gained_def gained_hidden_module_def hidden_report_def
        default_agent_report_def default_security_info_def default_kernel_module_inventory_def)
  moreover have "\<not> drift_overflows default_agent_report hidden_report"
    by (simp add: drift_overflows_def newly_tainted_def hidden_report_def default_agent_report_def
        default_security_info_def default_kernel_taint_def)
  then obtain d where "compare_reports list_order default_agent_report hidden_report = Some d"
    by (simp add: compare_reports_def)
  ultimately show ?thesis using privilege_gain_fails_drift by blast
qed

text \<open>
  What is merely no longer seen is never an improvement. No change of a listener, of a listener in
  a foreign namespace, of a mount namespace, of the set of containers or of a group equivalent to root
  is reported as improved: a listener or container that is gone is neutral, since it may have been
  hidden or not scanned.
\<close>

theorem inventory_never_improves:
  assumes "compare_reports env b a = Some d" "c \<in> set (dr_changes d)" "ch_severity c = SevImproved"
  shows "ch_field c \<notin> {''network.listening_ports'', ''network.foreign_netns_listeners'',
      ''security.mount_namespace_anomalies'', ''topology.containers'',
      ''security.access_alignment.root_equivalent_groups''}"
proof -
  have "c \<in> set (raw_changes env b a)"
    using assms(1,2) by (auto simp: compare_reports_def split: if_splits)
  then have "no_gain c" using raw_changes_no_gain by (auto simp: list_all_iff)
  with assms(3) show ?thesis by (auto simp: no_gain_def inventory_fields_def)
qed

text \<open>
  C17: a fleet comparison judges every host exactly once, in the order of their names: compared when
  both sides have it (the last report of that name on each side), removed when it has no report any
  more, which fails \<open>--fail-on-drift\<close>, and added otherwise. (The README says that a decommissioned host is no
  regression and does not count as degraded by default; the code gives it a degraded change, so the gate fails.)
\<close>

theorem compare_multi_spec:
  assumes "compare_multi env before after = Some ds"
  shows "sorted_wrt (<) (map mhd_hostname ds)
     \<and> set (map mhd_hostname ds)
         = (\<lambda>r. hi_hostname (ar_host r)) ` set before \<union> (\<lambda>r. hi_hostname (ar_host r)) ` set after
     \<and> list_all (host_judged env before after) ds
     \<and> (compare_exit True (map mhd_diff ds) = 0 \<longrightarrow>
          (\<lambda>r. hi_hostname (ar_host r)) ` set before \<subseteq> (\<lambda>r. hi_hostname (ar_host r)) ` set after)"
proof -
  let ?names = "\<lambda>rs. (\<lambda>r. hi_hostname (ar_host r)) ` set rs"
  have ds: "map mhd_hostname ds = compare_hostnames before after" "list_all (host_judged env before after) ds"
    using compare_hosts_spec assms hostnames_known unfolding compare_multi_def by blast+
  have set: "set (compare_hostnames before after) = ?names before \<union> ?names after"
    by (auto simp: compare_hostnames_def host_index_def)
  have sorted: "sorted_wrt (<) (compare_hostnames before after)"
    by (simp add: compare_hostnames_def strict_sorted_iff)
  have "h \<in> ?names after" if "h \<in> ?names before" "compare_exit True (map mhd_diff ds) = 0" for h
  proof (rule ccontr)
    assume gone: "h \<notin> ?names after"
    have keys: "set (map fst (host_index rs)) = ?names rs" for rs by (auto simp: host_index_def)
    have "h \<in> set (map mhd_hostname ds)"
      unfolding ds(1) set using that(1) by blast
    then obtain d where d: "d \<in> set ds" "mhd_hostname d = h" by auto
    have "h \<notin> set (map fst (host_index after))" unfolding keys by (rule gone)
    then have "last_entry (host_index after) h = None"
      using last_entry_Some_key by (metis not_None_eq)
    then have "has_degraded (mhd_diff d)"
      using ds(2) d by (auto simp: list_all_iff host_judged_def Let_def split: option.splits)
    with d(1) that(2) show False by (auto simp: compare_exit_def list_ex_iff split: if_splits)
  qed
  with ds set sorted show ?thesis by auto
qed

theorem compare_multi_spec_witness:
  "\<exists>ds. compare_multi list_order [default_agent_report] [] = Some ds
     \<and> compare_exit True (map mhd_diff ds) \<noteq> 0"
proof -
  have "compare_host list_order h x None \<noteq> None" for h x
    by (cases x) (simp_all add: compare_host_def)
  then have "compare_hosts list_order [default_agent_report] [] hs \<noteq> None" for hs
    by (simp add: compare_hosts_None last_entry_def host_index_def)
  then obtain ds where ds: "compare_multi list_order [default_agent_report] [] = Some ds"
    unfolding compare_multi_def by blast
  from compare_multi_spec [OF this] have "compare_exit True (map mhd_diff ds) \<noteq> 0" by auto
  with ds show ?thesis by blast
qed

text \<open>
  A panic on one pair of reports is a panic of the whole comparison. Comparing two fleets fails
  exactly when for some host the last report of each side makes the sum of packages overflow or shifts
  a taint bit out of range; the numbers come from the reports, which scanned hosts produce.
\<close>

theorem fleet_panics_iff:
  "compare_multi env before after = None \<longleftrightarrow>
     (\<exists>h b a. last_entry (host_index before) h = Some b \<and> last_entry (host_index after) h = Some a
        \<and> (pk_installed_count (ar_packages b) \<noteq> pk_installed_count (ar_packages a)
             \<and> 2 ^ 64 \<le> pk_installed_count (ar_packages b) + 50
           \<or> newly_tainted b a \<noteq> 0
             \<and> list_ex (\<lambda>f. 64 \<le> tf_bit f) (kt_flags (si_kernel_taint (ar_security a)))))"
proof -
  have host: "compare_host env h x y = None \<longleftrightarrow>
      (\<exists>b a. x = Some b \<and> y = Some a \<and> drift_overflows b a)" for h x y
    by (auto simp: compare_host_def compare_reports_def split: option.splits)
  have known: "h \<in> set (compare_hostnames before after)" if "last_entry (host_index before) h = Some b" for h b
    using last_entry_Some_key [OF that] by (auto simp: compare_hostnames_def)
  have bits: "64 \<le> unat (tf_bit f) \<longleftrightarrow> 64 \<le> tf_bit f" for f :: taint_flag
    by (simp add: word_le_nat_alt)
  show ?thesis
    unfolding compare_multi_def compare_hosts_None host drift_overflows_def bits
    using known by blast
qed

text \<open>The parts of a report that are compared.\<close>

definition compared_parts where
  "compared_parts r =
     (ar_version r, ar_risk_score r, ar_scoring_version r, ar_host r, ar_network r, ar_security r,
      ar_topology r, ar_packages r, scan_was_privileged r)"

lemma raw_changes_parts:
  assumes "compared_parts x = compared_parts b" "compared_parts y = compared_parts a"
  shows "raw_changes env x y = raw_changes env b a"
proof -
  have view: "ar_version x = ar_version b" "ar_risk_score x = ar_risk_score b"
    "ar_scoring_version x = ar_scoring_version b" "ar_host x = ar_host b" "ar_network x = ar_network b"
    "ar_security x = ar_security b" "ar_topology x = ar_topology b" "ar_packages x = ar_packages b"
    "scan_was_privileged x = scan_was_privileged b"
    "ar_version y = ar_version a" "ar_risk_score y = ar_risk_score a"
    "ar_scoring_version y = ar_scoring_version a" "ar_host y = ar_host a" "ar_network y = ar_network a"
    "ar_security y = ar_security a" "ar_topology y = ar_topology a" "ar_packages y = ar_packages a"
    "scan_was_privileged y = scan_was_privileged a"
    using assms by (simp_all add: compared_parts_def)
  have users: "user_drift x y = user_drift b a"
    by (simp only: fun_eq_iff user_drift_def user_index_def view simp_thms)
  show ?thesis
    by (simp only: raw_changes_def drift_blocks diff_version_def diff_risk_score_def diff_host_def
        diff_switches_def diff_groups_def groups_grew_def groups_lost_def group_index_def
        diff_package_count_def diff_certs_def port_index_def binds_of_def exposure_keys_def users
        user_index_def container_names_def diff_containers_def index_setuid_files_def
        index_file_caps_def diff_taint_def newly_tainted_def perm_index_def diff_hardening_def
        hardening_index_def generator_index_def pam_index_def diff_core_pattern_def diff_one_way_def
        exec_index_def Let_def view)
qed

definition sysctl_report :: agent_report where
  "sysctl_report = default_agent_report
     \<lparr>ar_security := default_security_info\<lparr>si_sysctl_issues := [''kernel.randomize_va_space=0'']\<rparr>\<rparr>"

lemma list_order_permutes [simp]: "order_permutes list_order"
  by (simp add: order_permutes_def list_order_def)

lemma hash_keys_Nil [simp]: "order_permutes env \<Longrightarrow> hash_keys env name [] = []"
  using set_hash_keys [of env name "[]"] by simp

lemma map_drift_empty [simp]: "order_permutes env \<Longrightarrow> map_drift env name [] f = []"
  by (simp add: map_drift_def)

lemma sysctl_drift:
  "\<exists>d. compare_reports list_order sysctl_report
           (default_agent_report\<lparr>ar_failed_scanners := [''security'']\<rparr>) = Some d
        \<and> dr_changes d
            = [chg ''security.sysctl_issues'' (Some ''kernel.randomize_va_space=0'') None SevImproved]"
proof -
  let ?a = "default_agent_report\<lparr>ar_failed_scanners := [''security'']\<rparr>"
  have fields: "ar_security sysctl_report
      = (ar_security default_agent_report)\<lparr>si_sysctl_issues := [''kernel.randomize_va_space=0'']\<rparr>"
    "ar_security ?a = ar_security default_agent_report"
    "si_sysctl_issues (ar_security default_agent_report) = []"
    "ar_version sysctl_report = ar_version default_agent_report"
    "ar_risk_score sysctl_report = ar_risk_score default_agent_report"
    "ar_host sysctl_report = ar_host default_agent_report"
    "ar_network sysctl_report = ar_network default_agent_report"
    "ar_topology sysctl_report = ar_topology default_agent_report"
    "ar_packages sysctl_report = ar_packages default_agent_report"
    "scan_was_privileged sysctl_report = scan_was_privileged ?a"
    by (simp_all add: sysctl_report_def default_agent_report_def default_security_info_def
        scan_was_privileged_def privilege_claim_disagrees_def)
  have empty: "si_cpu_vulnerabilities s = []" "si_setuid_files s = []" "si_file_capabilities s = []"
    "si_generators s = []" "si_pam_injections s = []" "si_exec_start_injections s = []"
    "si_shell_users s = []" "ah_file_permission_issues (si_account_hygiene s) = []"
    "si_systemd_hardening s = []" "si_one_way_switches s = []"
    "aar_root_equivalent_groups (si_access_alignment s) = []"
    if "s = ar_security default_agent_report" for s
    using that by (simp_all add: default_agent_report_def default_security_info_def
        default_account_hygiene_info_def default_access_audit_result_def)
  have more: "ni_listening_ports (ar_network default_agent_report) = []"
    "ni_ssl_certificates (ar_network default_agent_report) = []"
    "ti_containers (ar_topology default_agent_report) = []"
    by (simp_all add: default_agent_report_def default_network_info_def default_topology_info_def)
  have "raw_changes list_order sysctl_report ?a
      = [chg ''security.sysctl_issues'' (Some ''kernel.randomize_va_space=0'') None SevImproved]"
    by (simp add: raw_changes_def diff_version_def diff_risk_score_def diff_host_def diff_text_def
        diff_switches_def diff_cpu_def diff_groups_def groups_grew_def groups_lost_def group_index_def
        diff_package_count_def diff_certs_def diff_port_set_def diff_port_process_def diff_sshd_def
        diff_port_exe_def diff_exposure_def port_index_def exposure_keys_def diff_foreign_netns_def
        diff_mount_namespaces_def diff_upgradable_def diff_shell_users_def user_index_def
        diff_container_set_def container_names_def diff_containers_def diff_sysctl_def
        diff_failed_services_def diff_backup_tools_def diff_setuid_def index_setuid_files_def
        diff_file_caps_def index_file_caps_def diff_sudoers_def diff_ebpf_def diff_modules_def
        diff_taint_def newly_tainted_def diff_confinement_def diff_accounts_def
        diff_system_shells_def diff_file_perms_def perm_index_def diff_hardening_def
        hardening_index_def diff_ftrace_def diff_preloads_def diff_ld_so_conf_def diff_generators_def
        generator_index_def diff_pam_def pam_index_def diff_core_pattern_def diff_one_way_def
        diff_exec_start_def exec_index_def btree_keys_def fields empty more)
      (simp add: diff_str_set_def set_drift_def list_order_def hash_keys_def single_def)
  moreover have "\<not> drift_overflows sysctl_report ?a"
    by (simp add: drift_overflows_def newly_tainted_def sysctl_report_def default_agent_report_def
        default_security_info_def)
  ultimately show ?thesis
    by (simp add: compare_reports_def)
qed

theorem inventory_never_improves_witness:
  "\<exists>d c. compare_reports list_order sysctl_report
           (default_agent_report\<lparr>ar_failed_scanners := [''security'']\<rparr>) = Some d
     \<and> c \<in> set (dr_changes d) \<and> ch_severity c = SevImproved \<and> ch_field c \<noteq> ''topology.containers''"
proof -
  obtain d where d: "compare_reports list_order sysctl_report
      (default_agent_report\<lparr>ar_failed_scanners := [''security'']\<rparr>) = Some d"
    "dr_changes d = [chg ''security.sysctl_issues'' (Some ''kernel.randomize_va_space=0'') None SevImproved]"
    using sysctl_drift by blast
  let ?c = "chg ''security.sysctl_issues'' (Some ''kernel.randomize_va_space=0'') None SevImproved"
  have c: "?c \<in> set (dr_changes d)" "ch_severity ?c = SevImproved" by (simp_all add: d(2) chg_def)
  from inventory_never_improves [OF d(1) c] d(1) c show ?thesis by auto
qed

text \<open>
  A failed scanner reads as an improvement. The comparison ignores which scanners failed, and the
  section of a failed scanner is empty: a host with an issue, whose next scan failed to look for it,
  shows one improvement and nothing else, and \<open>--fail-on-drift\<close> exits with 0.
\<close>

theorem failed_scanner_reads_as_improvement:
  "compare_reports env (b\<lparr>ar_failed_scanners := fs\<rparr>) (a\<lparr>ar_failed_scanners := gs\<rparr>)
     = compare_reports env b a
   \<and> (\<exists>d. compare_reports list_order sysctl_report
           (default_agent_report\<lparr>ar_failed_scanners := [''security'']\<rparr>) = Some d
        \<and> dr_changes d
            = [chg ''security.sysctl_issues'' (Some ''kernel.randomize_va_space=0'') None SevImproved]
        \<and> compare_exit True [d] = 0)"
proof
  have "compared_parts (r\<lparr>ar_failed_scanners := x\<rparr>) = compared_parts r" for r :: agent_report and x
    by (simp add: compared_parts_def scan_was_privileged_def privilege_claim_disagrees_def)
  then show "compare_reports env (b\<lparr>ar_failed_scanners := fs\<rparr>) (a\<lparr>ar_failed_scanners := gs\<rparr>)
      = compare_reports env b a"
    by (simp add: compare_reports_def drift_overflows_def newly_tainted_def snapshot_of_def
        raw_changes_parts [of "b\<lparr>ar_failed_scanners := fs\<rparr>" b "a\<lparr>ar_failed_scanners := gs\<rparr>" a])
  show "\<exists>d. compare_reports list_order sysctl_report
        (default_agent_report\<lparr>ar_failed_scanners := [''security'']\<rparr>) = Some d
        \<and> dr_changes d
            = [chg ''security.sysctl_issues'' (Some ''kernel.randomize_va_space=0'') None SevImproved]
        \<and> compare_exit True [d] = 0"
  proof -
    obtain d where "compare_reports list_order sysctl_report
        (default_agent_report\<lparr>ar_failed_scanners := [''security'']\<rparr>) = Some d"
      and changes: "dr_changes d
        = [chg ''security.sysctl_issues'' (Some ''kernel.randomize_va_space=0'') None SevImproved]"
      using sysctl_drift by blast
    moreover have "compare_exit True [d] = 0"
      by (simp add: compare_exit_def has_degraded_def changes chg_def)
    ultimately show ?thesis by blast
  qed
qed

end
