(* ===== verification/SafeText.thy ===== *)
theory SafeText
  imports Scoring
begin

text \<open>
  Text from a machine that is not trusted: UTF-8 decoding with replacement, the readers of
  \<open>src/safe_io.rs\<close> and the sanitizers of \<open>src/utils.rs\<close> that stand between a scanned host and a
  terminal, a log or a document. Opening a file and reading from it are parameters: the bytes it holds
  and whether it is a regular file.
\<close>

section \<open>Strings and paths\<close>

definition trim_start :: "string \<Rightarrow> string" where
  "trim_start s = trim_by white_space s"

definition trim_end :: "string \<Rightarrow> string" where
  "trim_end s = rev (trim_by (map rev white_space) (rev s))"

text \<open>\<open>Path::join\<close> with a relative path.\<close>

definition path_join :: "string \<Rightarrow> string \<Rightarrow> string" where
  "path_join p q = (if p = [] \<or> ends_with p ''/'' then p @ q else p @ ''/'' @ q)"

lemma not_visible [simp]: "\<not> visible (CHR '' '')" "\<not> visible (CHR 0x09)"
  by (simp_all add: visible_def)

lemma trim_by_Nil [simp]: "trim_by ws [] = []"
proof -
  have "strip_one vs [] = None" if "[] \<notin> set vs" for vs
    using that
  proof (induction vs)
    case (Cons v vs)
    then show ?case by (cases v) auto
  qed simp
  then show ?thesis by (simp add: trim_by.simps [of ws "[]"])
qed

lemma trim_Nil [simp]: "trim [] = []"
  by (simp add: trim_def)

lemma trim_start_visible: "s = [] \<or> visible (hd s) \<Longrightarrow> trim_start s = s"
  using trim_by_visible [OF visible_no_space(1), of s] by (cases s) (auto simp: trim_start_def)

lemma split_once_None: "c \<notin> set s \<Longrightarrow> split_once c s = None"
  by (induction s) auto

lemma ws_not_visible: "ws_width s \<noteq> 0 \<Longrightarrow> s \<noteq> [] \<and> \<not> visible (hd s)"
proof -
  assume "ws_width s \<noteq> 0"
  then obtain w where w: "w \<in> set white_space" "starts_with s w"
    by (auto simp: ws_width_def dest: find_SomeD split: option.splits)
  then obtain r where "s = w @ r" by (auto simp: starts_with_iff)
  moreover have "w \<noteq> [] \<and> \<not> visible (hd w)"
    using visible_no_space(1) w(1) unfolding list_all_iff by blast
  ultimately show ?thesis by simp
qed

lemma lines_line: "CHR 0x0A \<notin> set l \<Longrightarrow> lines (l @ CHR 0x0A # s) = strip_cr l # lines s"
  by (subst lines.simps) (simp add: split_once_append)

lemma strip_cr_visible: "visible (last l) \<Longrightarrow> l \<noteq> [] \<Longrightarrow> strip_cr l = l"
proof -
  assume "visible (last l)" "l \<noteq> []"
  moreover have "\<not> visible (CHR 0x0D)" by (simp add: visible_def)
  ultimately show ?thesis by (auto simp: strip_cr_def last_rev hd_rev split: list.splits)
qed

section \<open>UTF-8\<close>

text \<open>
  \<open>String::from_utf8_lossy\<close> and \<open>chars\<close>. One step reads a scalar value, or the longest prefix that
  could have begun one (then \<open>None\<close>), and returns what follows.
\<close>

definition byte :: "char \<Rightarrow> nat" where
  "byte c = of_char c"

definition utf8_continuation :: "nat \<Rightarrow> bool" where
  "utf8_continuation b = (128 \<le> b \<and> b \<le> 191)"

definition utf8_width :: "nat \<Rightarrow> nat" where
  "utf8_width b =
     (if b < 128 then 1 else if 0xC2 \<le> b \<and> b \<le> 0xDF then 2 else if 0xE0 \<le> b \<and> b \<le> 0xEF then 3
      else if 0xF0 \<le> b \<and> b \<le> 0xF4 then 4 else 0)"

definition second_byte_ok :: "nat \<Rightarrow> nat \<Rightarrow> bool" where
  "second_byte_ok b0 b1 =
     (utf8_continuation b1 \<and> (b0 = 0xE0 \<longrightarrow> 0xA0 \<le> b1) \<and> (b0 = 0xED \<longrightarrow> b1 \<le> 0x9F)
      \<and> (b0 = 0xF0 \<longrightarrow> 0x90 \<le> b1) \<and> (b0 = 0xF4 \<longrightarrow> b1 \<le> 0x8F))"

fun utf8_step :: "string \<Rightarrow> uchar option \<times> string" where
  "utf8_step [] = (None, [])"
| "utf8_step (c0 # s) =
     (let b0 = byte c0; w = utf8_width b0 in
      if w = 0 then (None, s)
      else if w = 1 then (Some b0, s)
      else
        (case s of
           [] \<Rightarrow> (None, [])
         | c1 # s1 \<Rightarrow>
             if \<not> second_byte_ok b0 (byte c1) then (None, s)
             else if w = 2 then (Some ((b0 mod 32) * 64 + byte c1 mod 64), s1)
             else
               (case s1 of
                  [] \<Rightarrow> (None, [])
                | c2 # s2 \<Rightarrow>
                    if \<not> utf8_continuation (byte c2) then (None, s1)
                    else if w = 3 then
                      (Some ((b0 mod 16) * 4096 + (byte c1 mod 64) * 64 + byte c2 mod 64), s2)
                    else
                      (case s2 of
                         [] \<Rightarrow> (None, [])
                       | c3 # s3 \<Rightarrow>
                           if \<not> utf8_continuation (byte c3) then (None, s2)
                           else (Some ((b0 mod 8) * 262144 + (byte c1 mod 64) * 4096
                                  + (byte c2 mod 64) * 64 + byte c3 mod 64), s3)))))"

lemma utf8_step_shorter: "length (snd (utf8_step (c # s))) < length (c # s)"
  by (auto simp: Let_def split: list.splits)

function utf8_decode :: "string \<Rightarrow> uchar option list" where
  "utf8_decode [] = []"
| "utf8_decode (c # s) = fst (utf8_step (c # s)) # utf8_decode (snd (utf8_step (c # s)))"
  by pat_completeness auto
termination
  using utf8_step_shorter by (relation "measure length") (auto simp del: utf8_step.simps)

declare utf8_decode.simps(2) [simp del] utf8_step.simps(2) [simp del]

definition REPLACEMENT :: uchar where "REPLACEMENT = 0xFFFD"

definition chars_of :: "string \<Rightarrow> uchar list" where
  "chars_of s = map (\<lambda>c. case c of Some n \<Rightarrow> n | None \<Rightarrow> REPLACEMENT) (utf8_decode s)"

definition string_of_chars :: "uchar list \<Rightarrow> string" where
  "string_of_chars cs = concat (map utf8_encode cs)"

definition from_utf8_lossy :: "string \<Rightarrow> string" where
  "from_utf8_lossy s = string_of_chars (chars_of s)"

definition valid_utf8 :: "string \<Rightarrow> bool" where
  "valid_utf8 s = (None \<notin> set (utf8_decode s))"

definition scalar :: "uchar \<Rightarrow> bool" where
  "scalar n = (n < 0xD800 \<or> 0xE000 \<le> n \<and> n < 0x110000)"

lemma byte_less [simp]: "byte c < 256"
proof -
  have "byte c = byte c mod 256" by (simp add: byte_def)
  then show ?thesis by (metis mod_less_divisor zero_less_numeral)
qed

lemma byte_char_of [simp]: "byte (char_of n) = n mod 256"
  by (simp add: byte_def)

lemma mod_shift: "k dvd a \<Longrightarrow> h < k \<Longrightarrow> (a + h) mod k = (h :: nat)"
  by (auto elim!: dvdE)

lemma base64_digits:
  "(n div 4096) * 4096 + ((n div 64) mod 64) * 64 + n mod 64 = (n :: nat)"
  "(n div 262144) * 262144 + ((n div 4096) mod 64) * 4096 + ((n div 64) mod 64) * 64 + n mod 64 = n"
proof -
  define a b c where "a = n div 64" and "b = a div 64" and "c = b div 64"
  have "n div 4096 = b" "n div 262144 = c" by (simp_all add: a_def b_def c_def flip: div_mult2_eq)
  moreover have "n = a * 64 + n mod 64" "a = b * 64 + a mod 64" "b = c * 64 + b mod 64"
    unfolding a_def b_def c_def by (simp_all only: div_mult_mod_eq)
  ultimately have "(n div 4096) * 4096 + (a mod 64) * 64 + n mod 64 = n"
    "(n div 262144) * 262144 + (b mod 64) * 4096 + (a mod 64) * 64 + n mod 64 = n"
    by linarith+
  then show "(n div 4096) * 4096 + ((n div 64) mod 64) * 64 + n mod 64 = n"
    "(n div 262144) * 262144 + ((n div 4096) mod 64) * 4096 + ((n div 64) mod 64) * 64 + n mod 64 = n"
    using \<open>n div 4096 = b\<close> by (simp_all add: a_def)
qed

lemma step_encode: "scalar n \<Longrightarrow> utf8_step (utf8_encode n @ s) = (Some n, s)"
proof -
  assume n: "scalar n"
  consider "n < 128" | "128 \<le> n" "n < 2048" | "2048 \<le> n" "n < 65536" | "65536 \<le> n" by linarith
  then show ?thesis
  proof cases
    case 1
    then show ?thesis by (simp add: utf8_encode_def utf8_step.simps utf8_width_def)
  next
    case 2
    define h l where "h = n div 64" and "l = n mod 64"
    have nhl: "n = h * 64 + l" and l: "l < 64" unfolding h_def l_def by simp_all
    have h: "2 \<le> h" "h < 32" using 2 l nhl by linarith+
    have "(192 + h) mod 256 = 192 + h" "(128 + l) mod 256 = 128 + l" "(192 + h) mod 32 = h" "(128 + l) mod 64 = l"
      using h l by (simp_all add: mod_shift)
    moreover have "utf8_encode n = [char_of (192 + h), char_of (128 + l)]"
      using 2 by (simp add: utf8_encode_def h_def l_def)
    ultimately have "utf8_step (utf8_encode n @ s) = (Some (h * 64 + l), s)"
      using h l by (simp add: utf8_step.simps utf8_width_def second_byte_ok_def utf8_continuation_def Let_def)
    then show ?thesis by (simp only: nhl)
  next
    case 3
    define h m l where "h = n div 4096" and "m = (n div 64) mod 64" and "l = n mod 64"
    have nhl: "n = h * 4096 + m * 64 + l" unfolding h_def m_def l_def by (simp only: base64_digits)
    have ml: "m < 64" "l < 64" by (simp_all add: m_def l_def)
    have h: "h < 16" using 3 nhl by linarith
    have hm: "h = 0 \<Longrightarrow> 32 \<le> m" "h = 13 \<Longrightarrow> m \<le> 31" using 3 n nhl ml by (auto simp: scalar_def)
    have "(224 + h) mod 256 = 224 + h" "(128 + m) mod 256 = 128 + m" "(128 + l) mod 256 = 128 + l"
      "(224 + h) mod 16 = h" "(128 + m) mod 64 = m" "(128 + l) mod 64 = l"
      using h ml by (simp_all add: mod_shift)
    moreover have "utf8_encode n = [char_of (224 + h), char_of (128 + m), char_of (128 + l)]"
      using 3 by (simp add: utf8_encode_def h_def m_def l_def)
    ultimately have "utf8_step (utf8_encode n @ s) = (Some (h * 4096 + m * 64 + l), s)"
      using h hm ml by (simp add: utf8_step.simps utf8_width_def second_byte_ok_def utf8_continuation_def Let_def)
    then show ?thesis by (simp only: nhl)
  next
    case 4
    define h k m l where "h = n div 262144" and "k = (n div 4096) mod 64" and "m = (n div 64) mod 64" and "l = n mod 64"
    have nhl: "n = h * 262144 + k * 4096 + m * 64 + l" unfolding h_def k_def m_def l_def by (simp only: base64_digits)
    have ml: "k < 64" "m < 64" "l < 64" by (simp_all add: k_def m_def l_def)
    have h: "h < 5" using n nhl by (auto simp: scalar_def)
    have hk: "h = 0 \<Longrightarrow> 16 \<le> k" "h = 4 \<Longrightarrow> k \<le> 15" using 4 n nhl ml by (auto simp: scalar_def)
    have "(240 + h) mod 256 = 240 + h" "(128 + k) mod 256 = 128 + k" "(128 + m) mod 256 = 128 + m"
      "(128 + l) mod 256 = 128 + l" "(240 + h) mod 8 = h" "(128 + k) mod 64 = k" "(128 + m) mod 64 = m"
      "(128 + l) mod 64 = l"
      using h ml by (simp_all add: mod_shift)
    moreover have "utf8_encode n = [char_of (240 + h), char_of (128 + k), char_of (128 + m), char_of (128 + l)]"
      using 4 by (simp add: utf8_encode_def h_def k_def m_def l_def)
    ultimately have "utf8_step (utf8_encode n @ s) = (Some (h * 262144 + k * 4096 + m * 64 + l), s)"
      using h hk ml by (simp add: utf8_step.simps utf8_width_def second_byte_ok_def utf8_continuation_def Let_def)
    then show ?thesis by (simp only: nhl)
  qed
qed

lemma utf8_encode_not_Nil [simp]: "utf8_encode n \<noteq> []"
  by (simp add: utf8_encode_def)

lemma decode_encode: "scalar n \<Longrightarrow> utf8_decode (utf8_encode n @ s) = Some n # utf8_decode s"
  using step_encode [of n s] utf8_decode.simps(2) by (cases "utf8_encode n @ s") simp_all

lemma decode_string: "list_all scalar cs \<Longrightarrow> utf8_decode (string_of_chars cs) = map Some cs"
  by (induction cs) (simp_all add: string_of_chars_def decode_encode)

lemma chars_of_string: "list_all scalar cs \<Longrightarrow> chars_of (string_of_chars cs) = cs"
  by (simp add: chars_of_def decode_string comp_def)

lemma scalar_combine:
  "b < 128 \<Longrightarrow> scalar b"
  "0xC2 \<le> b0 \<Longrightarrow> b0 \<le> 0xDF \<Longrightarrow> scalar ((b0 mod 32) * 64 + b1 mod 64)"
  by (auto simp: scalar_def)

lemma scalar_combine3:
  assumes "0xE0 \<le> b0" "b0 \<le> 0xEF" "second_byte_ok b0 b1"
  shows "scalar ((b0 mod 16) * 4096 + (b1 mod 64) * 64 + b2 mod 64)"
proof -
  define h where "h = b0 - 224"
  have h: "b0 = 224 + h" "h < 16" using assms by (simp_all add: h_def)
  define m where "m = b1 - 128"
  have m: "b1 = 128 + m" "m < 64" using assms by (auto simp: m_def second_byte_ok_def utf8_continuation_def)
  have "h = 13 \<Longrightarrow> m < 32" using assms h m by (auto simp: second_byte_ok_def)
  moreover have "b2 mod 64 < 64" by simp
  ultimately have "h * 4096 + m * 64 + b2 mod 64 < 0xD800 \<or> 0xE000 \<le> h * 4096 + m * 64 + b2 mod 64"
    "h * 4096 + m * 64 + b2 mod 64 < 0x110000"
    using h(2) m(2) by (cases "h \<le> 12"; cases "h = 13"; linarith)+
  then show ?thesis using h m by (simp add: scalar_def mod_shift)
qed

lemma scalar_combine4:
  assumes "0xF0 \<le> b0" "b0 \<le> 0xF4" "second_byte_ok b0 b1"
  shows "scalar ((b0 mod 8) * 262144 + (b1 mod 64) * 4096 + (b2 mod 64) * 64 + b3 mod 64)"
proof -
  define h where "h = b0 - 240"
  have h: "b0 = 240 + h" "h < 5" using assms by (simp_all add: h_def)
  define m where "m = b1 - 128"
  have m: "b1 = 128 + m" "m < 64" using assms by (auto simp: m_def second_byte_ok_def utf8_continuation_def)
  have lim: "h = 4 \<Longrightarrow> m < 16" "h = 0 \<Longrightarrow> 16 \<le> m" using assms h m by (auto simp: second_byte_ok_def)
  have low: "b2 mod 64 < 64" "b3 mod 64 < 64" by simp_all
  have "0xE000 \<le> h * 262144 + m * 4096 + (b2 mod 64) * 64 + b3 mod 64"
    using lim(2) by (cases "h = 0"; linarith)
  moreover have "h * 262144 + m * 4096 + (b2 mod 64) * 64 + b3 mod 64 < 0x110000"
    using lim(1) h(2) m(2) low by (cases "h = 4"; linarith)
  ultimately show ?thesis using h m by (simp add: scalar_def mod_shift)
qed

lemma step_scalar: "fst (utf8_step s) = Some n \<Longrightarrow> scalar n"
proof (cases s)
  case (Cons c0 r)
  assume some: "fst (utf8_step s) = Some n"
  consider "utf8_width (byte c0) = 0" | "byte c0 < 128" | "0xC2 \<le> byte c0" "byte c0 \<le> 0xDF"
    | "0xE0 \<le> byte c0" "byte c0 \<le> 0xEF" | "0xF0 \<le> byte c0" "byte c0 \<le> 0xF4"
    by (cases "utf8_width (byte c0) = 0") (auto simp: utf8_width_def split: if_splits)
  then show "scalar n"
  proof cases
    case 3
    then have "utf8_width (byte c0) = 2" by (simp add: utf8_width_def)
    then show ?thesis
      using some Cons 3 scalar_combine(2) by (auto simp: utf8_step.simps Let_def split: list.splits if_splits)
  next
    case 4
    then have "utf8_width (byte c0) = 3" by (simp add: utf8_width_def)
    then show ?thesis
      using some Cons 4 scalar_combine3 by (auto simp: utf8_step.simps Let_def split: list.splits if_splits)
  next
    case 5
    then have "utf8_width (byte c0) = 4" by (simp add: utf8_width_def)
    then show ?thesis
      using some Cons 5 scalar_combine4 by (auto simp: utf8_step.simps Let_def split: list.splits if_splits)
  qed (use some Cons in \<open>auto simp: utf8_step.simps utf8_width_def scalar_def\<close>)
qed simp

lemma chars_scalar: "list_all scalar (chars_of s)"
proof (induction s rule: utf8_decode.induct)
  case (2 c s)
  have "scalar REPLACEMENT" by (simp add: scalar_def REPLACEMENT_def)
  then show ?case
    using 2 step_scalar [of "c # s"]
    by (auto simp: chars_of_def utf8_decode.simps(2) split: option.splits)
qed (simp add: chars_of_def)

lemma chars_of_lossy: "chars_of (from_utf8_lossy s) = chars_of s"
  by (simp add: from_utf8_lossy_def chars_of_string chars_scalar)

lemma lossy_valid: "valid_utf8 (from_utf8_lossy s)"
  by (auto simp: valid_utf8_def from_utf8_lossy_def decode_string chars_scalar)

section \<open>Readers\<close>

text \<open>What \<open>open\<close> and \<open>fstat\<close> say of a path, and the bytes a regular file holds.\<close>

datatype file_kind = RegularFile | SpecialFile

type_synonym ('e) opened = "'e + file_kind \<times> string"

datatype ('e) io_failure = OpenFailed 'e | NotRegularFile | FileTruncated nat | InvalidUtf8

definition capped :: "nat \<Rightarrow> string \<Rightarrow> string \<times> bool" where
  "capped max_bytes bytes =
     (let buf = take (max_bytes + 1) bytes; truncated = max_bytes < length buf in
      (if truncated then take max_bytes buf else buf, truncated))"

definition read_regular_capped :: "'e opened \<Rightarrow> nat \<Rightarrow> 'e io_failure + string \<times> bool" where
  "read_regular_capped opened max_bytes =
     (case opened of
        Inl e \<Rightarrow> Inl (OpenFailed e)
      | Inr (kind, bytes) \<Rightarrow>
          if kind \<noteq> RegularFile then Inl NotRegularFile else Inr (capped max_bytes bytes))"

definition read_procfs_capped :: "'e + string \<Rightarrow> nat \<Rightarrow> 'e + string \<times> bool" where
  "read_procfs_capped opened max_bytes =
     (case opened of
        Inl e \<Rightarrow> Inl e
      | Inr bytes \<Rightarrow> (case capped max_bytes bytes of (buf, truncated) \<Rightarrow> Inr (from_utf8_lossy buf, truncated)))"

definition read_procfs_bytes_capped :: "'e + string \<Rightarrow> nat \<Rightarrow> 'e + string \<times> bool" where
  "read_procfs_bytes_capped opened max_bytes =
     (case opened of Inl e \<Rightarrow> Inl e | Inr bytes \<Rightarrow> Inr (capped max_bytes bytes))"

text \<open>A reader yields its bytes up to an error; the probe after the limit says whether more came.\<close>

definition read_reader_capped :: "string \<Rightarrow> nat \<Rightarrow> string \<times> bool" where
  "read_reader_capped bytes max_bytes = (take max_bytes bytes, drop max_bytes bytes \<noteq> [])"

definition read_file_capped_regular :: "'e opened \<Rightarrow> nat \<Rightarrow> 'e io_failure + string \<times> bool" where
  "read_file_capped_regular opened max_bytes =
     (case read_regular_capped opened max_bytes of
        Inl e \<Rightarrow> Inl e
      | Inr (buf, truncated) \<Rightarrow> Inr (from_utf8_lossy buf, truncated))"

definition read_file_capped_regular_strict :: "'e opened \<Rightarrow> nat \<Rightarrow> 'e io_failure + string" where
  "read_file_capped_regular_strict opened max_bytes =
     (case read_regular_capped opened max_bytes of
        Inl e \<Rightarrow> Inl e
      | Inr (buf, truncated) \<Rightarrow>
          if truncated then Inl (FileTruncated max_bytes)
          else if valid_utf8 buf then Inr buf else Inl InvalidUtf8)"

definition open_regular_streaming :: "'e opened \<Rightarrow> 'e io_failure + string" where
  "open_regular_streaming opened =
     (case opened of
        Inl e \<Rightarrow> Inl (OpenFailed e)
      | Inr (kind, bytes) \<Rightarrow> if kind \<noteq> RegularFile then Inl NotRegularFile else Inr bytes)"

text \<open>Why reading under \<open>/proc\<close> failed; the kinds \<open>proc_miss\<close> names, and the rest.\<close>

datatype proc_error_kind = KindNotFound | KindPermissionDenied | KindOther string

datatype proc_miss = Vanished | Denied | OtherMiss string

definition proc_miss :: "proc_error_kind \<Rightarrow> proc_miss" where
  "proc_miss k =
     (case k of KindNotFound \<Rightarrow> Vanished | KindPermissionDenied \<Rightarrow> Denied | KindOther e \<Rightarrow> OtherMiss e)"

definition split_env_record :: "string \<Rightarrow> (string \<times> string) option" where
  "split_env_record chunk =
     (case split_once (CHR ''='') chunk of
        None \<Rightarrow> None
      | Some (key, value) \<Rightarrow> if valid_utf8 key then Some (key, value) else None)"

section \<open>Sanitizers\<close>

definition ESC :: char where "ESC = CHR 0x1B"

text \<open>The inner loops of \<open>strip_ansi\<close>: what follows a control sequence, or a string up to its terminator.\<close>

fun skip_csi :: "string \<Rightarrow> string" where
  "skip_csi [] = []"
| "skip_csi (c # s) = (if 0x40 \<le> byte c \<and> byte c \<le> 0x7E then s else skip_csi s)"

fun skip_string :: "bool \<Rightarrow> string \<Rightarrow> string" where
  "skip_string bel [] = []"
| "skip_string bel (c # s) =
     (if bel \<and> c = CHR 0x07 then s
      else if c = ESC \<and> starts_with s [CHR 0x5C] then tl s
      else skip_string bel s)"

definition skip_escape :: "string \<Rightarrow> string" where
  "skip_escape s =
     (case s of
        [] \<Rightarrow> []
      | c # r \<Rightarrow>
          if c = CHR ''['' then skip_csi r
          else if c = CHR '']'' then skip_string True r
          else if c \<in> set ''PX^_'' then skip_string False r
          else if 0x30 \<le> byte c \<and> byte c \<le> 0x7E then r
          else s)"

lemma length_skip: "length (skip_csi s) \<le> length s" "length (skip_string b s) \<le> length s"
  by (induction s) (auto simp: le_Suc_eq)

lemma length_skip_escape: "length (skip_escape s) \<le> length s"
  by (auto simp: skip_escape_def le_Suc_eq length_skip split: list.split)

function strip_ansi_bytes :: "string \<Rightarrow> string" where
  "strip_ansi_bytes [] = []"
| "strip_ansi_bytes (c # s) =
     (if c = ESC then strip_ansi_bytes (skip_escape s) else c # strip_ansi_bytes s)"
  by pat_completeness auto
termination
  by (relation "measure length") (auto simp: less_Suc_eq_le length_skip_escape)

definition strip_ansi :: "string \<Rightarrow> string" where
  "strip_ansi s = from_utf8_lossy (strip_ansi_bytes s)"

definition is_control :: "uchar \<Rightarrow> bool" where
  "is_control c = (c \<le> 0x1F \<or> 0x7F \<le> c \<and> c \<le> 0x9F)"

definition is_terminal_unsafe :: "uchar \<Rightarrow> bool" where
  "is_terminal_unsafe c =
     (is_control c
      \<or> c \<in> {0x00AD, 0x061C, 0x180E, 0x115F, 0x1160, 0x3164, 0xFFA0, 0x2028, 0x2029, 0xFEFF}
      \<or> 0x200B \<le> c \<and> c \<le> 0x200F \<or> 0x202A \<le> c \<and> c \<le> 0x202E
      \<or> 0x2060 \<le> c \<and> c \<le> 0x206F \<or> 0xE0000 \<le> c \<and> c \<le> 0xE007F)"

definition sanitize_and_truncate :: "string \<Rightarrow> nat \<Rightarrow> string" where
  "sanitize_and_truncate s max_chars =
     string_of_chars (take max_chars
       (map (\<lambda>c. if is_terminal_unsafe c then 32 else c) (chars_of (strip_ansi s))))"

definition sanitize_for_log :: "string \<Rightarrow> string" where
  "sanitize_for_log s = sanitize_and_truncate s 300"

definition sanitize_for_document :: "string \<Rightarrow> string" where
  "sanitize_for_document s =
     string_of_chars (map (\<lambda>c. if is_terminal_unsafe c then REPLACEMENT else c) (chars_of s))"

lemma replaced_scalar:
  "list_all scalar cs \<Longrightarrow> scalar r \<Longrightarrow> list_all scalar (map (\<lambda>c. if P c then r else c) cs)"
  by (auto simp: list_all_iff)

section \<open>What must not reach a terminal\<close>

text \<open>
  Written down from the Unicode tables and not from the code: control codes, the characters with the
  property Bidi_Control, the line and paragraph separators, the invisible formatting characters, the
  fillers that print as nothing, and the tag characters. Not all that is invisible is among them: the
  combining grapheme joiner and the variation selectors, which change the character before them but
  neither order nor layout, are left alone by the sanitizers.
\<close>

definition control_codes :: "uchar set" where
  "control_codes = {0x00..0x1F} \<union> {0x7F..0x9F}"

definition bidi_controls :: "uchar set" where
  "bidi_controls = {0x061C, 0x200E, 0x200F} \<union> {0x202A..0x202E} \<union> {0x2066..0x2069}"

definition line_separators :: "uchar set" where
  "line_separators = {0x2028, 0x2029}"

definition invisible_formats :: "uchar set" where
  "invisible_formats =
     {0x00AD, 0x180E, 0x200B, 0x200C, 0x200D, 0xFEFF} \<union> {0x2060..0x2065} \<union> {0x206A..0x206F}"

definition blank_fillers :: "uchar set" where
  "blank_fillers = {0x115F, 0x1160, 0x3164, 0xFFA0}"

definition tag_characters :: "uchar set" where
  "tag_characters = {0xE0000..0xE007F}"

definition dangerous :: "uchar set" where
  "dangerous = control_codes \<union> bidi_controls \<union> line_separators \<union> invisible_formats
     \<union> blank_fillers \<union> tag_characters"

lemma unsafe_is_dangerous: "is_terminal_unsafe c \<longleftrightarrow> c \<in> dangerous"
  unfolding is_terminal_unsafe_def is_control_def dangerous_def control_codes_def bidi_controls_def
    line_separators_def invisible_formats_def blank_fillers_def tag_characters_def
    Un_iff insert_iff atLeastAtMost_iff empty_iff
  by presburger

text \<open>The bytes a terminal acts on by itself.\<close>

definition printing_byte :: "char \<Rightarrow> bool" where
  "printing_byte b \<longleftrightarrow> 0x20 \<le> byte b \<and> byte b \<noteq> 0x7F"

lemma scalar_bytes:
  assumes "scalar n"
  shows "n < 2048 \<Longrightarrow> n div 64 < 32" "n < 65536 \<Longrightarrow> n div 4096 < 16" "n div 262144 < 5"
  using assms by (auto simp: scalar_def)

lemma encode_printing: "scalar n \<Longrightarrow> n \<notin> dangerous \<Longrightarrow> list_all printing_byte (utf8_encode n)"
proof -
  assume n: "scalar n" "n \<notin> dangerous"
  then have p: "0x20 \<le> n" "n \<noteq> 0x7F" by (auto simp: dangerous_def control_codes_def)
  show ?thesis
    using p scalar_bytes [OF n(1)] by (auto simp: utf8_encode_def printing_byte_def)
qed

lemma string_printing:
  "list_all scalar cs \<Longrightarrow> set cs \<inter> dangerous = {} \<Longrightarrow> list_all printing_byte (string_of_chars cs)"
  by (induction cs) (auto simp: string_of_chars_def encode_printing)

lemma strip_plain: "ESC \<notin> set a \<Longrightarrow> strip_ansi_bytes (a @ s) = a @ strip_ansi_bytes s"
  by (induction a) auto

lemma skip_parameters:
  "list_all (\<lambda>c. byte c < 0x40) params \<Longrightarrow> 0x40 \<le> byte final \<Longrightarrow> byte final \<le> 0x7E \<Longrightarrow>
     skip_csi (params @ final # s) = s"
  by (induction params) auto

lemma no_escape: "list_all printing_byte s \<Longrightarrow> ESC \<notin> set s"
  by (auto simp: list_all_iff printing_byte_def ESC_def byte_def)

lemma log_chars:
  "chars_of (sanitize_for_log s) =
     take 300 (map (\<lambda>c. if c \<in> dangerous then 0x20 else c) (chars_of (strip_ansi_bytes s)))"
  and document_chars:
  "chars_of (sanitize_for_document s) = map (\<lambda>c. if c \<in> dangerous then 0xFFFD else c) (chars_of s)"
proof -
  have safe: "scalar 32" "scalar REPLACEMENT" by (simp_all add: REPLACEMENT_def scalar_def)
  have "list_all scalar (take 300 (map (\<lambda>c. if c \<in> dangerous then 32 else c) (chars_of (strip_ansi_bytes s))))"
    using chars_scalar [of "strip_ansi_bytes s"] safe by (auto simp: list_all_iff dest!: in_set_takeD)
  then show "chars_of (sanitize_for_log s) =
     take 300 (map (\<lambda>c. if c \<in> dangerous then 0x20 else c) (chars_of (strip_ansi_bytes s)))"
    by (simp add: sanitize_for_log_def sanitize_and_truncate_def chars_of_string strip_ansi_def
        chars_of_lossy unsafe_is_dangerous)
  have "list_all scalar (map (\<lambda>c. if c \<in> dangerous then REPLACEMENT else c) (chars_of s))"
    using chars_scalar safe by (intro replaced_scalar)
  then show "chars_of (sanitize_for_document s) = map (\<lambda>c. if c \<in> dangerous then 0xFFFD else c) (chars_of s)"
    by (simp add: sanitize_for_document_def chars_of_string unsafe_is_dangerous REPLACEMENT_def)
qed

lemma harmless_replacements: "0x20 \<notin> dangerous" "0xFFFD \<notin> dangerous"
  by (simp_all flip: unsafe_is_dangerous add: is_terminal_unsafe_def is_control_def)

lemma log_string: "sanitize_for_log s = string_of_chars (chars_of (sanitize_for_log s))"
  unfolding log_chars
  by (simp add: sanitize_for_log_def sanitize_and_truncate_def strip_ansi_def chars_of_lossy
      unsafe_is_dangerous)

lemma document_string: "sanitize_for_document s = string_of_chars (chars_of (sanitize_for_document s))"
proof -
  have r: "REPLACEMENT = 0xFFFD" by (simp add: REPLACEMENT_def)
  show ?thesis unfolding document_chars by (simp only: sanitize_for_document_def unsafe_is_dangerous r)
qed

lemma nothing_dangerous:
  "set (chars_of (sanitize_for_log s)) \<inter> dangerous = {}"
  "set (chars_of (sanitize_for_document s)) \<inter> dangerous = {}"
  unfolding log_chars document_chars using harmless_replacements by (auto dest!: in_set_takeD)

lemma harmless_unchanged:
  assumes "list_all scalar cs" "set cs \<inter> dangerous = {}"
  shows "length cs \<le> 300 \<Longrightarrow> sanitize_for_log (string_of_chars cs) = string_of_chars cs"
    "sanitize_for_document (string_of_chars cs) = string_of_chars cs"
proof -
  have "map (\<lambda>c. if c \<in> dangerous then r else c) cs = cs" for r
    using assms(2) by (intro map_idI) auto
  moreover have "strip_ansi_bytes (string_of_chars cs) = string_of_chars cs"
    using strip_plain [OF no_escape [OF string_printing [OF assms]], of "[]"] by simp
  ultimately show "length cs \<le> 300 \<Longrightarrow> sanitize_for_log (string_of_chars cs) = string_of_chars cs"
    "sanitize_for_document (string_of_chars cs) = string_of_chars cs"
    by (subst log_string document_string; simp add: log_chars document_chars chars_of_string assms(1))+
qed

text \<open>
  C19: What the sanitizers let through cannot steer a terminal, and what cannot steer one they leave as
  it is. Whatever bytes a scanned host put into the text, the result is valid UTF-8 without a control
  code, a bidirectional control, a line separator, an invisible formatting character, a filler or a tag
  character, as these are listed above, and without a byte below the blank or the byte 0x7F. A log line has at most 300
  characters; a document text is the original with just those characters replaced, one for one. A text
  of at most 300 characters without any of them passes both unchanged, and from a log line a control
  sequence, ESC [ with its parameters and its final byte, goes as a whole.
\<close>

theorem sanitized_text_is_safe:
  assumes "list_all scalar cs" "set cs \<inter> dangerous = {}" "length cs \<le> 300"
    and "ESC \<notin> set before" "list_all (\<lambda>c. byte c < 0x40) params" "byte final \<in> {0x40..0x7E}"
  shows "valid_utf8 (sanitize_for_log s) \<and> valid_utf8 (sanitize_for_document s)
   \<and> set (chars_of (sanitize_for_log s)) \<inter> dangerous = {}
   \<and> set (chars_of (sanitize_for_document s)) \<inter> dangerous = {}
   \<and> list_all printing_byte (sanitize_for_log s) \<and> list_all printing_byte (sanitize_for_document s)
   \<and> length (chars_of (sanitize_for_log s)) \<le> 300
   \<and> chars_of (sanitize_for_document s) = map (\<lambda>c. if c \<in> dangerous then 0xFFFD else c) (chars_of s)
   \<and> sanitize_for_log (string_of_chars cs) = string_of_chars cs
   \<and> sanitize_for_document (string_of_chars cs) = string_of_chars cs
   \<and> sanitize_for_log (before @ [ESC, CHR ''[''] @ params @ [final] @ after)
       = sanitize_for_log (before @ after)"
proof -
  have valid: "valid_utf8 (string_of_chars ds)" "list_all printing_byte (string_of_chars ds)"
    if "list_all scalar ds" "set ds \<inter> dangerous = {}" for ds
    using that by (auto simp: valid_utf8_def decode_string string_printing)
  have "strip_ansi_bytes (before @ [ESC, CHR ''[''] @ params @ [final] @ after)
      = strip_ansi_bytes (before @ after)"
    using skip_parameters [OF assms(5), of final after] assms(6)
    by (simp add: strip_plain [OF assms(4)] skip_escape_def)
  then have "sanitize_for_log (before @ [ESC, CHR ''[''] @ params @ [final] @ after)
      = sanitize_for_log (before @ after)"
    by (simp add: sanitize_for_log_def sanitize_and_truncate_def strip_ansi_def)
  moreover have "length (chars_of (sanitize_for_log s)) \<le> 300" by (simp add: log_chars)
  ultimately show ?thesis
    using valid [OF chars_scalar nothing_dangerous(1), of s, folded log_string]
      valid [OF chars_scalar nothing_dangerous(2), of s, folded document_string]
      nothing_dangerous [of s] harmless_unchanged [OF assms(1,2)] assms(3) document_chars [of s]
    by (simp only: simp_thms)
qed

theorem sanitized_text_is_safe_witness:
  "sanitize_for_log (''ok'' @ [ESC, CHR ''['', CHR ''3'', CHR ''1'', CHR ''m''] @ ''red'') = ''okred''
   \<and> sanitize_for_document ''ok'' = ''ok''"
proof -
  have s: "string_of_chars [0x6F, 0x6B] = ''ok''" "string_of_chars [0x6F, 0x6B, 0x72, 0x65, 0x64] = ''okred''"
    by code_simp+
  have d: "set [0x6F, 0x6B, 0x72, 0x65, 0x64] \<inter> dangerous = {}" "list_all scalar [0x6F, 0x6B, 0x72, 0x65, 0x64]"
    by (auto simp flip: unsafe_is_dangerous simp: is_terminal_unsafe_def is_control_def scalar_def)
  show ?thesis
    using sanitized_text_is_safe [of "[0x6F, 0x6B]" "''ok''" "''31''" "CHR ''m''" "''red''"]
      sanitized_text_is_safe [of "[0x6F, 0x6B, 0x72, 0x65, 0x64]" "''ok''" "''31''" "CHR ''m''" "''red''"]
      d by (simp add: s ESC_def byte_def)
qed

end
