(* ===== verification/Sudoers.thy ===== *)
theory Sudoers
  imports SafeText
begin

text \<open>
  \<open>src/scanners/sudoers.rs\<close>: comments and logical lines of sudoers files, command aliases, the search
  for passwordless grants, and the walk over the files. The file system is a parameter of the walk.
\<close>

section \<open>Comments and lines\<close>

text \<open>\<open>include_target\<close>: the path and whether it is a directory.\<close>

fun include_prefix :: "(string \<times> bool) list \<Rightarrow> string \<Rightarrow> (string \<times> bool) option" where
  "include_prefix [] line = None"
| "include_prefix ((pre, is_dir) # ps) line =
     (case strip_prefix pre line of
        None \<Rightarrow> include_prefix ps line
      | Some rest \<Rightarrow>
          if ws_width rest = 0 then include_prefix ps line
          else if trim rest \<noteq> [] then Some (trim rest, is_dir)
          else include_prefix ps line)"

definition include_target :: "string \<Rightarrow> (string \<times> bool) option" where
  "include_target line =
     include_prefix [(''#includedir'', True), (''@includedir'', True), (''#include'', False),
       (''@include'', False)] line"

definition starts_digit :: "string \<Rightarrow> bool" where
  "starts_digit s = (case s of [] \<Rightarrow> False | c # _ \<Rightarrow> is_ascii_digit c)"

definition token_separator :: "char \<Rightarrow> bool" where
  "token_separator c = (c \<in> {CHR '' '', CHR 0x09, CHR '','', CHR ''('', CHR '':'', CHR ''!'', CHR ''='', CHR ''%''})"

text \<open>
  The byte loop of \<open>strip_comment\<close>: \<open>before\<close> are the bytes passed, in reverse. The result is the text
  before a comment, if there is one.
\<close>

fun comment_loop :: "bool \<Rightarrow> string \<Rightarrow> string \<Rightarrow> string option" where
  "comment_loop in_quotes before [] = None"
| "comment_loop in_quotes before (c # s) =
     (if c = CHR 0x5C
      then (case s of [] \<Rightarrow> None | d # r \<Rightarrow> comment_loop in_quotes (d # c # before) r)
      else if c = CHR 0x22 then comment_loop (\<not> in_quotes) (c # before) s
      else if c = CHR ''#'' \<and> \<not> in_quotes
        \<and> \<not> ((case before of [] \<Rightarrow> True | p # _ \<Rightarrow> token_separator p) \<and> starts_digit s)
      then Some (trim_end (rev before))
      else comment_loop in_quotes (c # before) s)"

definition strip_comment :: "string \<Rightarrow> string" where
  "strip_comment line =
     (if include_target line \<noteq> None then line
      else case comment_loop False [] line of None \<Rightarrow> line | Some l \<Rightarrow> l)"

text \<open>The loop of \<open>logical_lines\<close>: the lines so far and the continuation.\<close>

definition logical_step :: "string \<Rightarrow> string list \<times> string \<Rightarrow> string list \<times> string" where
  "logical_step raw acc =
     (case acc of (result, continuation) \<Rightarrow>
        let trimmed = trim raw;
            line = (if include_target trimmed \<noteq> None then [] else strip_comment trimmed)
        in if line = [] then
             (if continuation \<noteq> [] then (result @ [continuation], []) else (result, continuation))
           else
             (let joined = (if continuation \<noteq> [] then continuation @ '' '' else continuation) @ line in
              if ends_with line [CHR 0x5C]
              then (result, rev (dropWhile (\<lambda>c. c = CHR '' '') (rev (butlast joined))))
              else (result @ [joined], [])))"

definition logical_lines :: "string \<Rightarrow> string list" where
  "logical_lines content =
     (case fold logical_step (lines content) ([], []) of
        (result, continuation) \<Rightarrow> result @ (if continuation \<noteq> [] then [continuation] else []))"

definition contains_icase :: "string \<Rightarrow> string \<Rightarrow> bool" where
  "contains_icase hay needle_lower =
     (needle_lower \<noteq> [] \<and> contains (map ascii_lower hay) needle_lower)"

definition entry_has_nopasswd :: "string \<Rightarrow> bool" where
  "entry_has_nopasswd entry = contains_icase entry ''nopasswd''"

section \<open>Command aliases\<close>

definition MAX_ALIAS_DEPTH :: nat where "MAX_ALIAS_DEPTH = 16"

type_synonym cmnd_aliases = "string \<rightharpoonup> string list"

definition absorb_spec :: "string \<Rightarrow> cmnd_aliases \<Rightarrow> cmnd_aliases" where
  "absorb_spec spec al =
     (case split_once (CHR ''='') spec of
        None \<Rightarrow> al
      | Some (name, members) \<Rightarrow>
          (let ms = filter (\<lambda>t. t \<noteq> []) (map trim (split_char (CHR '','') members)) in
           if trim name = [] \<or> ms = [] then al else al(trim name \<mapsto> ms)))"

definition absorb :: "string \<Rightarrow> cmnd_aliases \<Rightarrow> cmnd_aliases" where
  "absorb entry al =
     (case strip_prefix ''Cmnd_Alias'' entry of
        None \<Rightarrow> al
      | Some rest \<Rightarrow>
          if ws_width rest = 0 then al
          else fold absorb_spec (split_char (CHR '':'') (trim rest)) al)"

text \<open>
  \<open>resolves_to_all\<close> with the number of levels left: one member that resolves is enough, a member that
  could not be followed to its end makes the answer unknown.
\<close>

definition any_resolves :: "bool option list \<Rightarrow> bool option" where
  "any_resolves xs =
     (if Some True \<in> set xs then Some True else if None \<in> set xs then None else Some False)"

primrec resolves_within :: "cmnd_aliases \<Rightarrow> nat \<Rightarrow> string \<Rightarrow> bool option" where
  "resolves_within al 0 token = (if token = ''ALL'' then Some True else None)"
| "resolves_within al (Suc left) token =
     (if token = ''ALL'' then Some True
      else case al token of
        None \<Rightarrow> Some False
      | Some members \<Rightarrow> any_resolves (map (resolves_within al left) members))"

definition resolves_to_all :: "cmnd_aliases \<Rightarrow> string \<Rightarrow> nat \<Rightarrow> bool option" where
  "resolves_to_all al token depth = resolves_within al (MAX_ALIAS_DEPTH - depth) token"

section \<open>Passwordless grants\<close>

definition OTHER_TAGS :: "string list" where
  "OTHER_TAGS =
     [''NOEXEC'', ''EXEC'', ''SETENV'', ''NOSETENV'', ''LOG_INPUT'', ''NOLOG_INPUT'', ''LOG_OUTPUT'',
      ''NOLOG_OUTPUT'', ''FOLLOW'', ''NOFOLLOW'', ''MAIL'', ''NOMAIL'', ''INTERCEPT'', ''NOINTERCEPT'']"

text \<open>\<open>apply_tag\<close>: whether the token is a tag, and the new password state.\<close>

definition apply_tag :: "string \<Rightarrow> bool \<Rightarrow> bool \<times> bool" where
  "apply_tag tok nopasswd =
     (if eq_ignore_ascii_case tok ''NOPASSWD'' then (True, True)
      else if eq_ignore_ascii_case tok ''PASSWD'' then (True, False)
      else (list_ex (\<lambda>t. eq_ignore_ascii_case tok t) OTHER_TAGS, nopasswd))"

text \<open>The tags glued to a command: \<open>while let Some(i) = rest.find(':')\<close>.\<close>

function glued_tags :: "string \<Rightarrow> bool \<Rightarrow> string \<times> bool" where
  "glued_tags rest nopasswd =
     (case split_once (CHR '':'') rest of
        None \<Rightarrow> (rest, nopasswd)
      | Some (tag, r) \<Rightarrow> glued_tags (trim_start r) (snd (apply_tag (trim tag) nopasswd)))"
  by pat_completeness auto

lemma length_trim_by: "length (trim_by ws s) \<le> length s"
proof (induction ws s rule: trim_by.induct)
  case (1 ws s)
  show ?case
  proof (cases "strip_one (filter (\<lambda>w. w \<noteq> []) ws) s")
    case None
    then show ?thesis by (simp add: trim_by.simps [of ws s])
  next
    case (Some r)
    then have "length r < length s" by (rule strip_one_shorter) auto
    with Some "1.IH" [OF Some] show ?thesis by (simp add: trim_by.simps [of ws s])
  qed
qed

termination glued_tags
proof (relation "measure (\<lambda>(rest, nopasswd). length rest)")
  fix rest nopasswd x tag r
  assume "split_once (CHR '':'') rest = Some x" "(tag, r) = x"
  then have "rest = tag @ CHR '':'' # r" using split_once_Some by blast
  then show "((trim_start r, snd (apply_tag (trim tag) nopasswd)), rest, nopasswd)
      \<in> measure (\<lambda>(rest, nopasswd). length rest)"
    using length_trim_by [of white_space r] by (simp add: trim_start_def)
qed simp

declare glued_tags.simps [simp del]

text \<open>
  One token of a command list, for \<open>is_nopasswd_all\<close> and \<open>command_tokens\<close> alike: the command it names,
  if it names one, the password state and the depth of parentheses after it.
\<close>

definition count_char :: "char \<Rightarrow> string \<Rightarrow> int" where
  "count_char c s = int (length (filter (\<lambda>d. d = c) s))"

definition token_step :: "string \<Rightarrow> bool \<Rightarrow> int \<Rightarrow> string option \<times> bool \<times> int" where
  "token_step raw nopasswd paren =
     (let tok = trim raw; opens = count_char (CHR ''('') tok; closes = count_char (CHR '')'') tok in
      if tok = [] then (None, nopasswd, paren)
      else
        (let paren' = max (paren + opens - closes) 0 in
         if 0 < paren \<or> 0 < opens then (None, nopasswd, paren')
         else
           (case glued_tags tok nopasswd of (rest, np) \<Rightarrow>
              if rest = [] then (None, np, paren')
              else (case apply_tag rest np of (is_tag, np') \<Rightarrow>
                if is_tag then (None, np', paren') else (Some rest, np', paren')))))"

fun split_where :: "(char \<Rightarrow> bool) \<Rightarrow> string \<Rightarrow> string list" where
  "split_where P [] = [[]]"
| "split_where P (c # s) =
     (if P c then [] # split_where P s
      else (case split_where P s of [] \<Rightarrow> [[c]] | w # ws \<Rightarrow> (c # w) # ws))"

definition list_separator :: "char \<Rightarrow> bool" where
  "list_separator c = (c \<in> {CHR '','', CHR '' '', CHR 0x09})"

text \<open>The result and the commands whose aliases could not be followed.\<close>

fun grant_loop :: "cmnd_aliases \<Rightarrow> bool \<Rightarrow> int \<Rightarrow> string list \<Rightarrow> bool \<times> string list" where
  "grant_loop al nopasswd paren [] = (False, [])"
| "grant_loop al nopasswd paren (raw # ts) =
     (case token_step raw nopasswd paren of (cmd, np, pn) \<Rightarrow>
        (case cmd of
           None \<Rightarrow> grant_loop al np pn ts
         | Some c \<Rightarrow>
             if starts_with c ''!'' \<or> \<not> np then grant_loop al np pn ts
             else
               (case resolves_to_all al c 0 of
                  Some True \<Rightarrow> (True, [])
                | Some False \<Rightarrow> grant_loop al np pn ts
                | None \<Rightarrow> (case grant_loop al np pn ts of (g, unknown) \<Rightarrow> (g, c # unknown)))))"

definition is_nopasswd_all :: "string \<Rightarrow> cmnd_aliases \<Rightarrow> bool \<times> string list" where
  "is_nopasswd_all entry al =
     (if \<not> entry_has_nopasswd entry then (False, [])
      else case split_once (CHR ''='') entry of
        None \<Rightarrow> (False, [])
      | Some (_, rhs) \<Rightarrow> grant_loop al False 0 (split_where list_separator rhs))"

fun tokens_loop :: "bool \<Rightarrow> int \<Rightarrow> string list \<Rightarrow> string list" where
  "tokens_loop sink paren [] = []"
| "tokens_loop sink paren (raw # ts) =
     (case token_step raw sink paren of (cmd, np, pn) \<Rightarrow>
        (case cmd of None \<Rightarrow> tokens_loop np pn ts | Some c \<Rightarrow> c # tokens_loop np pn ts))"

definition command_tokens :: "string \<Rightarrow> string list" where
  "command_tokens entry =
     (case split_once (CHR ''='') entry of
        None \<Rightarrow> []
      | Some (_, rhs) \<Rightarrow> tokens_loop False 0 (split_where list_separator rhs))"

text \<open>The scope of a \<open>Defaults\<close> line that turns authentication off.\<close>

definition defaults_no_authenticate :: "string \<Rightarrow> string option" where
  "defaults_no_authenticate entry =
     (case strip_prefix ''Defaults'' entry of
        None \<Rightarrow> None
      | Some rest \<Rightarrow>
          (let scope = until_ws rest; params = drop (length scope) rest in
           if length scope = length rest then None
           else if scope \<noteq> [] \<and> hd scope \<notin> set '':@!>'' then None
           else if list_ex (\<lambda>p. eq_ignore_ascii_case (trim p) ''!authenticate'')
                  (split_char (CHR '','') params)
             then Some (if scope = [] then ''ALL'' else scope)
           else None))"

section \<open>The walk over the files\<close>

definition MAX_INCLUDE_DEPTH :: nat where "MAX_INCLUDE_DEPTH = 16"
definition MAX_SUDOERS_FILES :: nat where "MAX_SUDOERS_FILES = 512"

datatype read_error = ReadNotFound | ReadNotRegular | ReadOther string

text \<open>
  The file system: the canonical form of a path (or the path itself), whether it is a directory, the
  entries of a directory as names, paths and whether they are files, and reading a file up to the
  cap, with whether it was cut.
\<close>

record sudo_fs =
  sf_canon :: "string \<Rightarrow> string"
  sf_is_dir :: "string \<Rightarrow> bool"
  sf_entries :: "string \<Rightarrow> (string \<times> string \<times> bool) list"
  sf_read :: "string \<Rightarrow> read_error + string \<times> bool"

datatype sudo_note =
    FileBudgetExhausted
  | IncludeDepthLimit string
  | SudoersTruncated string
  | SudoNotInstalled string
  | IncludeMissing string
  | NotRegular string
  | SudoersUnreadable string string

definition dir_files :: "sudo_fs \<Rightarrow> string \<Rightarrow> string list" where
  "dir_files fs dir =
     map (\<lambda>(name, path, is_file). path)
       (filter (\<lambda>(name, path, is_file). CHR ''.'' \<notin> set name \<and> \<not> ends_with name ''~''
            \<and> is_file \<and> name \<noteq> ''README'') (sf_entries fs dir))"

definition resolve_include :: "string \<Rightarrow> string \<Rightarrow> string" where
  "resolve_include file target =
     (if starts_with target ''/'' then target
      else case path_parent file of Some p \<Rightarrow> path_join p target | None \<Rightarrow> target)"

definition line_includes :: "sudo_fs \<Rightarrow> string \<Rightarrow> string \<Rightarrow> string list" where
  "line_includes fs file raw =
     (case include_target (trim raw) of
        None \<Rightarrow> []
      | Some (target, is_dir) \<Rightarrow>
          (let r = resolve_include file target in if is_dir then dir_files fs r else [r]))"

definition file_includes :: "sudo_fs \<Rightarrow> string \<Rightarrow> string \<Rightarrow> string list" where
  "file_includes fs file content = concat (map (line_includes fs file) (lines content))"

text \<open>What visiting a path yields: the paths it queues, its entries, and notes.\<close>

definition visit ::
  "sudo_fs \<Rightarrow> string \<Rightarrow> nat \<Rightarrow> string list \<times> (string \<times> string) list \<times> sudo_note list" where
  "visit fs file depth =
     (if sf_is_dir fs file then (dir_files fs file, [], [])
      else
        (case sf_read fs file of
           Inr (content, truncated) \<Rightarrow>
             (file_includes fs file content, map (Pair file) (logical_lines content),
              if truncated then [SudoersTruncated file] else [])
         | Inl ReadNotFound \<Rightarrow>
             ([], [], [if depth = 0 then SudoNotInstalled file else IncludeMissing file])
         | Inl ReadNotRegular \<Rightarrow> ([], [], [NotRegular file])
         | Inl (ReadOther e) \<Rightarrow> ([], [], [SudoersUnreadable file e])))"

text \<open>
  The loop of \<open>each_sudoers_entry_from\<close>. The queue is a stack, its top first; \<open>visited\<close> and \<open>seen\<close> as in
  the code. The result is the paths visited, in order, the entries and the notes.
\<close>

function sudoers_walk ::
  "sudo_fs \<Rightarrow> (string \<times> nat) list \<Rightarrow> string set \<Rightarrow> nat
   \<Rightarrow> string list \<times> (string \<times> string) list \<times> sudo_note list" where
  "sudoers_walk fs [] visited seen = ([], [], [])"
| "sudoers_walk fs ((file, depth) # queue) visited seen =
     (if MAX_SUDOERS_FILES \<le> seen then ([], [], [FileBudgetExhausted])
      else if MAX_INCLUDE_DEPTH < depth then
        (case sudoers_walk fs queue visited seen of
           (ps, es, ns) \<Rightarrow> (ps, es, IncludeDepthLimit file # ns))
      else if sf_canon fs file \<in> visited then sudoers_walk fs queue visited seen
      else
        (case visit fs file depth of
           (children, entries, visit_notes) \<Rightarrow>
             (case sudoers_walk fs (rev (map (\<lambda>c. (c, depth + 1)) children) @ queue)
                     (insert (sf_canon fs file) visited) (seen + 1) of
                (ps, es, ns) \<Rightarrow> (file # ps, entries @ es, visit_notes @ ns))))"
  by pat_completeness auto
termination
  by (relation "measures [\<lambda>(fs, queue, visited, seen). MAX_SUDOERS_FILES - seen,
        \<lambda>(fs, queue, visited, seen). length queue]") auto

definition each_sudoers_entry_from ::
  "sudo_fs \<Rightarrow> string list \<Rightarrow> string list \<times> (string \<times> string) list \<times> sudo_note list" where
  "each_sudoers_entry_from fs roots = sudoers_walk fs (rev (map (\<lambda>r. (r, 0)) roots)) {} 0"

text \<open>\<open>scan_sudoers_from\<close>: the aliases of all files, then the entries.\<close>

definition scan_sudoers_from :: "sudo_fs \<Rightarrow> string list \<Rightarrow> cmnd_aliases \<times> (string \<times> string) list" where
  "scan_sudoers_from fs roots =
     (case each_sudoers_entry_from fs roots of (ps, entries, ns) \<Rightarrow>
        (fold (\<lambda>(file, entry). absorb entry) entries Map.empty, entries))"

section \<open>Aliases\<close>

text \<open>What sudo means: a command list grants everything if it names \<open>ALL\<close> through aliases.\<close>

inductive grants_all :: "cmnd_aliases \<Rightarrow> string \<Rightarrow> bool" for al where
  grants_here: "grants_all al ''ALL''"
| grants_via: "\<lbrakk>al t = Some ms; m \<in> set ms; grants_all al m\<rbrakk> \<Longrightarrow> grants_all al t"

inductive_cases grants_allE: "grants_all al t"

primrec alias_chain :: "cmnd_aliases \<Rightarrow> nat \<Rightarrow> string \<Rightarrow> bool" where
  "alias_chain al 0 t = True"
| "alias_chain al (Suc n) t = (\<exists>ms m. al t = Some ms \<and> m \<in> set ms \<and> alias_chain al n m)"

lemma any_resolves_iff:
  "any_resolves xs = Some True \<longleftrightarrow> Some True \<in> set xs"
  "any_resolves xs = None \<longleftrightarrow> Some True \<notin> set xs \<and> None \<in> set xs"
  "any_resolves xs = Some False \<longleftrightarrow> Some True \<notin> set xs \<and> None \<notin> set xs"
  by (simp_all add: any_resolves_def)

lemma resolves_sound: "resolves_within al n t = Some True \<Longrightarrow> grants_all al t"
proof (induction n arbitrary: t)
  case (Suc n)
  then show ?case
    by (auto simp: any_resolves_iff split: if_splits option.splits intro: grants_all.intros)
qed (auto split: if_splits intro: grants_all.intros)

lemma resolves_complete: "resolves_within al n t = Some False \<Longrightarrow> \<not> grants_all al t"
proof (induction n arbitrary: t)
  case (Suc n)
  then have t: "t \<noteq> ''ALL''" by auto
  show ?case
  proof
    assume "grants_all al t"
    with t obtain ms m where "al t = Some ms" "m \<in> set ms" "grants_all al m"
      by (auto elim: grants_allE)
    moreover have "any_resolves (map (resolves_within al n) ms) = Some False"
      using Suc.prems t \<open>al t = Some ms\<close> by simp
    then have "Some True \<notin> resolves_within al n ` set ms" "None \<notin> resolves_within al n ` set ms"
      by (auto simp only: any_resolves_iff set_map)
    then have "resolves_within al n m \<noteq> Some True" "resolves_within al n m \<noteq> None"
      using \<open>m \<in> set ms\<close> by (metis image_eqI)+
    ultimately show False
      using Suc.IH [of m] by (cases "resolves_within al n m") auto
  qed
qed (simp split: if_splits)

lemma resolves_unknown: "resolves_within al n t = None \<Longrightarrow> alias_chain al n t"
proof (induction n arbitrary: t)
  case (Suc n)
  then obtain ms where ms: "al t = Some ms" "None \<in> set (map (resolves_within al n) ms)"
    by (auto simp: any_resolves_iff split: if_splits option.splits)
  then obtain m where "m \<in> set ms" "resolves_within al n m = None" by force
  with ms(1) Suc.IH show ?case by auto
qed simp

section \<open>Walking\<close>

lemma walk_visits:
  "sudoers_walk fs queue visited seen = (ps, es, ns) \<Longrightarrow>
     distinct (map (sf_canon fs) ps) \<and> sf_canon fs ` set ps \<inter> visited = {}
     \<and> length ps \<le> MAX_SUDOERS_FILES - seen
     \<and> es = concat (map (\<lambda>p. fst (snd (visit fs p 0))) ps)"
proof (induction fs queue visited seen arbitrary: ps es ns rule: sudoers_walk.induct)
  case (2 fs f depth queue visited seen)
  consider "MAX_SUDOERS_FILES \<le> seen"
    | "seen < MAX_SUDOERS_FILES" "MAX_INCLUDE_DEPTH < depth \<or> sf_canon fs f \<in> visited"
    | "seen < MAX_SUDOERS_FILES" "\<not> MAX_INCLUDE_DEPTH < depth" "sf_canon fs f \<notin> visited"
    by linarith
  then show ?case
  proof cases
    case 1
    with 2 show ?thesis by auto
  next
    case 2
    with "2.prems" "2.IH"(1,2) show ?thesis
      by (auto split: prod.splits if_splits)
  next
    case 3
    obtain cs vs vn where v: "visit fs f depth = (cs, vs, vn)" by (cases "visit fs f depth")
    let ?rest = "sudoers_walk fs (rev (map (\<lambda>c. (c, depth + 1)) cs) @ queue)
      (insert (sf_canon fs f) visited) (seen + 1)"
    obtain qs fs' ms where r: "?rest = (qs, fs', ms)" by (cases ?rest)
    have out: "ps = f # qs" "es = vs @ fs'"
      using "2.prems" 3 v r by auto
    from "2.IH"(3) 3 v r have "distinct (map (sf_canon fs) qs)
        \<and> sf_canon fs ` set qs \<inter> insert (sf_canon fs f) visited = {}
        \<and> length qs \<le> MAX_SUDOERS_FILES - (seen + 1)
        \<and> fs' = concat (map (\<lambda>p. fst (snd (visit fs p 0))) qs)" by auto
    moreover have "vs = fst (snd (visit fs f 0))"
      using v by (auto simp: visit_def split: if_splits sum.splits read_error.splits)
    ultimately show ?thesis using out 3 by auto
  qed
qed simp

end
