(* ===== verification/SudoersLaws.thy ===== *)
theory SudoersLaws
  imports Sudoers
begin

text \<open>
  What the reader of \<open>src/scanners/sudoers.rs\<close> makes of a file of rules: rules are written from their
  parts, read back line by line, and audited against the meaning sudo gives them.
\<close>

section \<open>Rules\<close>

text \<open>
  One command of a rule: the run-as users (none for no run-as specification), the tags, whether the
  command is glued to the last tag, the command, and the arguments it is limited to.
\<close>

record sudo_item =
  si_runas :: "string list"
  si_tags :: "string list"
  si_glued :: bool
  si_command :: string
  si_args :: "string list"

fun closing :: "string list \<Rightarrow> string list" where
  "closing [] = []"
| "closing [r] = [r @ '')'']"
| "closing (r # s # rs) = r # closing (s # rs)"

definition runas_tokens :: "string list \<Rightarrow> string list" where
  "runas_tokens rs = (case rs of [] \<Rightarrow> [] | r # rs \<Rightarrow> closing ((CHR ''('' # r) # rs))"

definition tags_text :: "string list \<Rightarrow> string" where
  "tags_text ts = concat (map (\<lambda>t. t @ '':'') ts)"

definition item_text :: "sudo_item \<Rightarrow> string" where
  "item_text i =
     (if si_runas i = [] then [] else join '','' (runas_tokens (si_runas i)) @ '' '')
     @ tags_text (si_tags i)
     @ (if si_tags i = [] \<or> si_glued i then [] else '' '')
     @ si_command i
     @ concat (map (\<lambda>a. '' '' @ a) (si_args i))"

definition items_text :: "sudo_item list \<Rightarrow> string" where
  "items_text items = join '', '' (map item_text items)"

record sudo_rule =
  sr_user :: string
  sr_host :: string
  sr_items :: "sudo_item list"

definition rule_text :: "sudo_rule \<Rightarrow> string" where
  "rule_text r = sr_user r @ '' '' @ sr_host r @ ''='' @ items_text (sr_items r)"

text \<open>Words: visible characters, none of those that sudo would read as punctuation, quotes or comments.\<close>

definition word_char :: "char \<Rightarrow> bool" where
  "word_char c = (visible c \<and> c \<notin> set '',:()#='' \<and> c \<noteq> CHR 0x22 \<and> c \<noteq> CHR 0x5C)"

definition is_word :: "string \<Rightarrow> bool" where
  "is_word w = (w \<noteq> [] \<and> list_all word_char w)"

definition is_tag :: "string \<Rightarrow> bool" where
  "is_tag w = fst (apply_tag w False)"

definition arg_ok :: "string \<Rightarrow> bool" where
  "arg_ok a = (is_word a \<and> \<not> is_tag a)"

definition item_ok :: "sudo_item \<Rightarrow> bool" where
  "item_ok i =
     (list_all (\<lambda>r. list_all (\<lambda>c. word_char c \<or> c = CHR '':'') r) (si_runas i) \<and> list_all is_word (si_tags i)
      \<and> arg_ok (si_command i) \<and> list_all arg_ok (si_args i))"

text \<open>A user is a name or a numeric ID.\<close>

definition user_ok :: "string \<Rightarrow> bool" where
  "user_ok u =
     (is_word u \<and> u \<notin> {''@include'', ''@includedir''}
      \<or> (case u of [] \<Rightarrow> False | c # d \<Rightarrow> c = CHR ''#'' \<and> d \<noteq> [] \<and> list_all is_ascii_digit d))"

definition sudoers_rule_ok :: "sudo_rule \<Rightarrow> bool" where
  "sudoers_rule_ok r = (user_ok (sr_user r) \<and> is_word (sr_host r) \<and> sr_items r \<noteq> [] \<and> list_all item_ok (sr_items r))"

text \<open>The meaning of the tags: they hold for the following commands until the opposite tag.\<close>

fun password_free :: "bool \<Rightarrow> string list \<Rightarrow> bool" where
  "password_free np [] = np"
| "password_free np (t # ts) =
     password_free
       (if eq_ignore_ascii_case t ''NOPASSWD'' then True
        else if eq_ignore_ascii_case t ''PASSWD'' then False else np) ts"

fun grants_root :: "cmnd_aliases \<Rightarrow> bool \<Rightarrow> sudo_item list \<Rightarrow> bool" where
  "grants_root al np [] = False"
| "grants_root al np (i # items) =
     (password_free np (si_tags i) \<and> \<not> starts_with (si_command i) ''!'' \<and> grants_all al (si_command i)
      \<or> grants_root al (password_free np (si_tags i)) items)"

section \<open>Tokens\<close>

lemma split_where_not_Nil [simp]: "split_where P s \<noteq> []"
  by (induction s) (auto split: list.splits)

lemma split_where_sep: "P c \<Longrightarrow> split_where P (a @ c # b) = split_where P a @ split_where P b"
proof (induction a)
  case (Cons d a)
  then show ?case
    by (cases "split_where P a") auto
qed simp

lemma split_where_word: "list_all (\<lambda>c. \<not> P c) w \<Longrightarrow> split_where P w = [w]"
  by (induction w) auto

lemma split_where_join:
  "P c \<Longrightarrow> list_all (list_all (\<lambda>c. \<not> P c)) ws \<Longrightarrow> ws \<noteq> [] \<Longrightarrow> split_where P (join [c] ws) = ws"
  by (induction "[c]" ws rule: join.induct) (auto simp: split_where_word split_where_sep)

definition item_tokens :: "sudo_item \<Rightarrow> string list" where
  "item_tokens i =
     runas_tokens (si_runas i)
     @ (if si_tags i = [] \<or> si_glued i then [tags_text (si_tags i) @ si_command i]
        else [tags_text (si_tags i), si_command i])
     @ si_args i"

fun items_tokens :: "sudo_item list \<Rightarrow> string list" where
  "items_tokens [] = []"
| "items_tokens [i] = item_tokens i"
| "items_tokens (i # j # items) = item_tokens i @ [] # items_tokens (j # items)"

lemma separators [simp]:
  "list_separator (CHR '' '')" "list_separator (CHR '','')" "\<not> list_separator (CHR '':'')"
  "\<not> list_separator (CHR ''('')" "\<not> list_separator (CHR '')'')"
  by (simp_all add: list_separator_def)

lemma word_char_sep: "word_char c \<Longrightarrow> \<not> list_separator c"
  unfolding word_char_def list_separator_def by (elim conjE, intro notI) (elim insertE emptyE; simp)

lemma no_separators:
  "list_all word_char w \<Longrightarrow> list_all (\<lambda>c. \<not> list_separator c) w"
  by (auto simp: list_all_iff word_char_sep)

lemma tags_text_no_sep:
  "list_all is_word ts \<Longrightarrow> list_all (\<lambda>c. \<not> list_separator c) (tags_text ts)"
  by (induction ts) (auto simp: tags_text_def is_word_def no_separators)

lemma closing_no_sep:
  "list_all (list_all (\<lambda>c. \<not> list_separator c)) rs \<Longrightarrow>
     list_all (list_all (\<lambda>c. \<not> list_separator c)) (closing rs)"
  by (induction rs rule: closing.induct) auto

lemma closing_not_Nil [simp]: "closing rs = [] \<longleftrightarrow> rs = []"
  by (cases rs rule: closing.cases) auto

lemma runas_no_sep:
  assumes "item_ok i"
  shows "list_all (list_all (\<lambda>c. \<not> list_separator c)) (runas_tokens (si_runas i))"
proof (cases "si_runas i")
  case (Cons r rs)
  have "list_all (\<lambda>c. \<not> list_separator c) s" if "s \<in> set (si_runas i)" for s
  proof -
    have "word_char c \<or> c = CHR '':'' \<Longrightarrow> \<not> list_separator c" for c
      using word_char_sep by auto
    then show ?thesis
      using assms that unfolding item_ok_def list_all_iff by blast
  qed
  then have "list_all (list_all (\<lambda>c. \<not> list_separator c)) ((CHR ''('' # r) # rs)"
    using Cons unfolding list_all_iff by auto
  then show ?thesis
    unfolding runas_tokens_def Cons list.case by (rule closing_no_sep)
qed (simp add: runas_tokens_def)

lemma split_args:
  "list_all is_word args \<Longrightarrow> list_all (\<lambda>c. \<not> list_separator c) w \<Longrightarrow>
     split_where list_separator (w @ concat (map (\<lambda>a. '' '' @ a) args)) = w # args"
proof (induction args arbitrary: w)
  case (Cons a args)
  then have a: "list_all (\<lambda>c. \<not> list_separator c) a" by (simp add: is_word_def no_separators)
  show ?case
    using Cons split_where_sep [of list_separator "CHR '' ''" w "a @ concat (map (\<lambda>a. '' '' @ a) args)"]
      Cons.IH [OF _ a] by (simp add: split_where_word)
qed (simp add: split_where_word)

lemma split_item: "item_ok i \<Longrightarrow> split_where list_separator (item_text i) = item_tokens i"
proof -
  assume ok: "item_ok i"
  let ?sep = "\<lambda>c. \<not> list_separator c"
  let ?args = "concat (map (\<lambda>a. '' '' @ a) (si_args i))"
  let ?body = "tags_text (si_tags i) @ (if si_tags i = [] \<or> si_glued i then [] else '' '') @ si_command i @ ?args"
  let ?tail = "(if si_tags i = [] \<or> si_glued i then [tags_text (si_tags i) @ si_command i]
        else [tags_text (si_tags i), si_command i]) @ si_args i"
  have words: "list_all ?sep (si_command i)" "list_all ?sep (tags_text (si_tags i))" "list_all is_word (si_args i)"
    using ok by (auto simp: item_ok_def arg_ok_def is_word_def no_separators tags_text_no_sep list_all_iff [of _ "si_args i"])
  have body: "split_where list_separator ?body = ?tail"
    using words split_where_sep [of list_separator "CHR '' ''" "tags_text (si_tags i)" "si_command i @ ?args"]
      split_args [OF words(3) words(1)] split_args [OF words(3), of "tags_text (si_tags i) @ si_command i"]
    by (simp add: split_where_word)
  show ?thesis
  proof (cases "si_runas i = []")
    case True
    then show ?thesis using body by (simp add: item_text_def item_tokens_def runas_tokens_def)
  next
    case False
    have "split_where list_separator (join '','' (runas_tokens (si_runas i))) = runas_tokens (si_runas i)"
      using runas_no_sep [OF ok] False
      by (intro split_where_join) (auto simp: runas_tokens_def split: list.splits)
    then show ?thesis
      using False body split_where_sep [of list_separator "CHR '' ''" "join '','' (runas_tokens (si_runas i))" ?body]
      by (simp add: item_text_def item_tokens_def)
  qed
qed

lemma split_items:
  "list_all item_ok items \<Longrightarrow> items \<noteq> [] \<Longrightarrow>
     split_where list_separator (items_text items) = items_tokens items"
proof (induction items rule: items_tokens.induct)
  case (3 i j items)
  have "split_where list_separator (item_text i @ CHR '','' # CHR '' '' # items_text (j # items))
      = item_tokens i @ [[]] @ items_tokens (j # items)"
    using 3 split_where_sep [of list_separator "CHR '' ''" "[]" "items_text (j # items)"]
    by (simp add: split_where_sep split_item)
  then show ?case by (simp add: items_text_def)
qed (simp_all add: items_text_def split_item)

section \<open>Steps of the tokenizer\<close>

lemma word_char_visible: "word_char c \<Longrightarrow> visible c"
  by (simp add: word_char_def)

lemma not_word_char [simp]:
  "\<not> word_char (CHR ''('')" "\<not> word_char (CHR '')'')" "\<not> word_char (CHR '':'')" "\<not> word_char (CHR '','')"
  "\<not> word_char (CHR ''='')" "\<not> word_char (CHR ''#'')" "\<not> word_char (CHR 0x22)" "\<not> word_char (CHR 0x5C)"
  "\<not> word_char (CHR '' '')"
  by (simp_all add: word_char_def)

lemma is_word_ends: "is_word w \<Longrightarrow> w \<noteq> [] \<and> visible (hd w) \<and> visible (last w)"
  unfolding is_word_def list_all_iff by (auto simp: word_char_visible)

lemma trim_word: "is_word w \<Longrightarrow> trim w = w"
  using is_word_ends trim_visible by blast

lemma word_no_colon: "is_word w \<Longrightarrow> CHR '':'' \<notin> set w"
  unfolding is_word_def list_all_iff using not_word_char by blast

lemma glued_tags_text:
  "list_all is_word ts \<Longrightarrow> w = [] \<or> is_word w \<Longrightarrow>
     glued_tags (tags_text ts @ w) np = (w, password_free np ts)"
proof (induction ts arbitrary: np)
  case Nil
  then have "CHR '':'' \<notin> set w" using word_no_colon by auto
  then show ?case
    by (simp add: tags_text_def glued_tags.simps [of w] split_once_None)
next
  case (Cons t ts)
  have rest: "tags_text ts @ w = [] \<or> visible (hd (tags_text ts @ w))"
    using Cons.prems is_word_ends by (cases ts) (auto simp: tags_text_def hd_append)
  have "split_once (CHR '':'') (tags_text (t # ts) @ w) = Some (t, tags_text ts @ w)"
    using Cons.prems split_once_append [of "CHR '':''" t "tags_text ts @ w"]
    by (simp add: tags_text_def word_no_colon)
  moreover have "trim t = t" using Cons.prems by (simp add: trim_word)
  ultimately show ?case
    using Cons.IH Cons.prems rest
    by (subst glued_tags.simps) (simp add: trim_start_visible apply_tag_def)
qed

lemma token_step_Nil [simp]: "token_step [] np paren = (None, np, paren)"
  by (simp add: token_step_def)

lemma count_char_append [simp]:
  "count_char c [] = 0" "count_char c (d # s) = (if d = c then 1 else 0) + count_char c s"
  "count_char c (s @ t) = count_char c s + count_char c t"
  by (simp_all add: count_char_def)

lemma count_char_none: "c \<notin> set s \<Longrightarrow> count_char c s = 0"
  by (induction s) auto

lemma token_step_word:
  assumes "tok \<noteq> []" "visible (hd tok)" "visible (last tok)"
    and "CHR ''('' \<notin> set tok" "CHR '')'' \<notin> set tok"
  shows "token_step tok np 0 =
     (case glued_tags tok np of (rest, np) \<Rightarrow>
        if rest = [] then (None, np, 0)
        else (case apply_tag rest np of (tag, np') \<Rightarrow>
          if tag then (None, np', 0) else (Some rest, np', 0)))"
  using assms by (simp add: token_step_def trim_visible count_char_none split: prod.splits)

lemma visible_punctuation [simp]:
  "visible (CHR '':'')" "visible (CHR ''('')" "visible (CHR '')'')" "visible (CHR ''='')" "visible (CHR ''#'')"
  "visible (CHR '','')"
  by (simp_all add: visible_def)

lemma tags_text_char:
  "list_all is_word ts \<Longrightarrow> c \<in> set (tags_text ts) \<Longrightarrow> word_char c \<or> c = CHR '':''"
  by (induction ts) (auto simp: tags_text_def is_word_def list_all_iff)

lemma tags_text_chars:
  assumes "list_all is_word ts" "c \<in> set (tags_text ts)"
  shows "visible c \<and> c \<noteq> CHR ''('' \<and> c \<noteq> CHR '')''"
  using tags_text_char [OF assms] by (cases "c = CHR '':''") (auto simp: word_char_visible)

lemma word_no_parens: "is_word w \<Longrightarrow> CHR ''('' \<notin> set w \<and> CHR '')'' \<notin> set w"
  unfolding is_word_def list_all_iff using not_word_char by blast

lemma token_step_tags:
  assumes "list_all is_word ts" "ts \<noteq> []"
  shows "token_step (tags_text ts) np 0 = (None, password_free np ts, 0)"
proof -
  have "tags_text ts \<noteq> []" using assms(2) by (cases ts) (simp_all add: tags_text_def)
  then have "token_step (tags_text ts) np 0 =
     (case glued_tags (tags_text ts) np of (rest, np) \<Rightarrow>
        if rest = [] then (None, np, 0)
        else (case apply_tag rest np of (tag, np') \<Rightarrow>
          if tag then (None, np', 0) else (Some rest, np', 0)))"
    using tags_text_chars [OF assms(1)] by (intro token_step_word) auto
  then show ?thesis
    using glued_tags_text [OF assms(1), of "[]" np] by simp
qed

lemma token_step_command:
  assumes ts: "list_all is_word ts" and w: "is_word w" "\<not> is_tag w"
  shows "token_step (tags_text ts @ w) np 0 = (Some w, password_free np ts, 0)"
proof -
  have ends: "tags_text ts @ w \<noteq> []" "visible (hd (tags_text ts @ w))" "visible (last (tags_text ts @ w))"
    using tags_text_chars [OF ts] is_word_ends [OF w(1)] by (auto simp: hd_append)
  have parens: "CHR ''('' \<notin> set (tags_text ts @ w)" "CHR '')'' \<notin> set (tags_text ts @ w)"
    using tags_text_chars [OF ts] word_no_parens [OF w(1)] by auto
  have "apply_tag w np' = (False, np')" for np'
    using w(2) by (auto simp: is_tag_def apply_tag_def split: if_splits)
  then show ?thesis
    using token_step_word [OF ends parens, of np] glued_tags_text [OF ts, of w np] w(1) is_word_ends [OF w(1)]
    by simp
qed

text \<open>Tokens that name no command do not change the answer, only the state.\<close>

lemma grant_loop_skip:
  "token_step tok np paren = (None, np', paren') \<Longrightarrow>
     grant_loop al np paren (tok # ts) = grant_loop al np' paren' ts"
  by simp

lemma tokens_loop_skip:
  "token_step tok np paren = (None, np', paren') \<Longrightarrow> tokens_loop np paren (tok # ts) = tokens_loop np' paren' ts"
  by simp

definition runas_char :: "char \<Rightarrow> bool" where
  "runas_char c = (word_char c \<or> c = CHR '':'')"

lemma runas_char_visible: "runas_char c \<Longrightarrow> visible c"
  by (auto simp: runas_char_def word_char_visible)

lemma token_step_inside:
  assumes "0 < paren + count_char (CHR ''('') tok" "visible (hd tok)" "visible (last tok)" "tok \<noteq> []" "0 \<le> paren"
  shows "token_step tok np paren =
    (None, np, max (paren + count_char (CHR ''('') tok - count_char (CHR '')'') tok) 0)"
  using assms by (auto simp: token_step_def trim_visible Let_def)

lemma runas_no_parens:
  "list_all runas_char r \<Longrightarrow> count_char (CHR ''('') r = 0 \<and> count_char (CHR '')'') r = 0"
  unfolding list_all_iff runas_char_def
  using not_word_char by (intro conjI count_char_none) fastforce+

lemma runas_ends:
  "list_all runas_char r \<Longrightarrow> r \<noteq> [] \<Longrightarrow> visible (hd r) \<and> visible (last r)"
  unfolding list_all_iff using runas_char_visible by auto

lemma closing_skipped:
  assumes "list_all (list_all runas_char) rs" "rs \<noteq> []"
  shows "grant_loop al np 1 (closing rs @ ts) = grant_loop al np 0 ts
    \<and> tokens_loop np 1 (closing rs @ ts) = tokens_loop np 0 ts"
  using assms
proof (induction rs rule: closing.induct)
  case (2 r)
  have "visible (hd (r @ '')'')) \<and> visible (last (r @ '')''))"
    using 2 runas_ends [of r] by (cases r) auto
  then have "token_step (r @ '')'') np 1 = (None, np, 0)"
    using token_step_inside [of 1 "r @ '')''" np] runas_no_parens [of r] 2 by simp
  then show ?case by simp
next
  case (3 r s rs)
  show ?case
  proof (cases "r = []")
    case False
    then have "token_step r np 1 = (None, np, 1)"
      using token_step_inside [of 1 r np] runas_no_parens [of r] runas_ends [of r] 3 by simp
    then show ?thesis using 3 by simp
  qed (use 3 in simp)
qed simp

lemma runas_skipped:
  assumes "list_all (list_all runas_char) rs"
  shows "grant_loop al np 0 (runas_tokens rs @ ts) = grant_loop al np 0 ts
    \<and> tokens_loop np 0 (runas_tokens rs @ ts) = tokens_loop np 0 ts"
proof (cases rs)
  case (Cons r rs')
  have r: "list_all runas_char r" using assms Cons by simp
  show ?thesis
  proof (cases rs')
    case Nil
    have "token_step (CHR ''('' # r @ '')'') np 0 = (None, np, 0)"
      using token_step_inside [of 0 "CHR ''('' # r @ '')''" np] runas_no_parens [OF r] by simp
    then show ?thesis using Cons Nil by (simp add: runas_tokens_def)
  next
    case (Cons q qs)
    have "visible (last (CHR ''('' # r))" using runas_ends [OF r] by (cases r) auto
    then have "token_step (CHR ''('' # r) np 0 = (None, np, 1)"
      using token_step_inside [of 0 "CHR ''('' # r" np] runas_no_parens [OF r] by simp
    then show ?thesis
      using closing_skipped [of rs' al np ts] \<open>rs = r # rs'\<close> Cons assms by (simp add: runas_tokens_def)
  qed
qed (simp add: runas_tokens_def)

text \<open>The tokens of an item set the password state and then name its command.\<close>

lemma item_runas: "item_ok i \<Longrightarrow> list_all (list_all runas_char) (si_runas i)"
  by (simp add: item_ok_def arg_ok_def runas_char_def [abs_def])

text \<open>What one word in command position does to the loops.\<close>

lemma word_step:
  assumes "is_word w" "\<not> is_tag w"
  shows "token_step w np 0 = (Some w, np, 0)"
  using token_step_command [of "[]", OF _ assms] by (simp add: tags_text_def)

definition answer_for :: "cmnd_aliases \<Rightarrow> bool \<Rightarrow> string \<Rightarrow> bool \<times> string list \<Rightarrow> bool \<times> string list" where
  "answer_for al np c later =
     (if starts_with c ''!'' \<or> \<not> np then later
      else case resolves_to_all al c 0 of
             Some True \<Rightarrow> (True, [])
           | Some False \<Rightarrow> later
           | None \<Rightarrow> (case later of (g, unknown) \<Rightarrow> (g, c # unknown)))"

lemma item_step:
  fixes np :: bool
  assumes "item_ok i"
  defines "np' \<equiv> password_free np (si_tags i)"
  shows "grant_loop al np 0 (item_tokens i @ ts) =
     answer_for al np' (si_command i) (grant_loop al np' 0 (si_args i @ ts))"
    and "tokens_loop np 0 (item_tokens i @ ts) = si_command i # tokens_loop np' 0 (si_args i @ ts)"
proof -
  have ok: "list_all is_word (si_tags i)" "is_word (si_command i)" "\<not> is_tag (si_command i)"
    using assms(1) by (simp_all add: item_ok_def arg_ok_def)
  note skip = runas_skipped [OF item_runas [OF assms(1)]]
  note word = word_step [OF ok(2,3)]
  have "si_tags i \<noteq> [] \<Longrightarrow> token_step (tags_text (si_tags i)) np 0 = (None, np', 0)"
    unfolding np'_def by (rule token_step_tags [OF ok(1)])
  moreover have "token_step (tags_text (si_tags i) @ si_command i) np 0 = (Some (si_command i), np', 0)"
    unfolding np'_def by (rule token_step_command [OF ok])
  ultimately show "grant_loop al np 0 (item_tokens i @ ts) =
     answer_for al np' (si_command i) (grant_loop al np' 0 (si_args i @ ts))"
    "tokens_loop np 0 (item_tokens i @ ts) = si_command i # tokens_loop np' 0 (si_args i @ ts)"
    using skip word by (cases "si_tags i = [] \<or> si_glued i"; simp add: item_tokens_def answer_for_def)+
qed

section \<open>What the audit answers\<close>








lemma args_commands:
  "list_all arg_ok args \<Longrightarrow> tokens_loop np 0 (args @ ts) = args @ tokens_loop np 0 ts"
  by (induction args) (auto simp: word_step arg_ok_def)

lemma items_commands:
  "list_all item_ok items \<Longrightarrow>
     tokens_loop np 0 (items_tokens items) = concat (map (\<lambda>i. si_command i # si_args i) items)"
proof (induction items arbitrary: np rule: items_tokens.induct)
  case (2 i)
  then show ?case using item_step(2) [of i np "[]"] args_commands [of "si_args i" _ "[]"] by (simp add: item_ok_def arg_ok_def)
next
  case (3 i j items)
  then show ?case
    using item_step(2) [of i np "[] # items_tokens (j # items)"] args_commands [of "si_args i"]
    by (simp add: item_ok_def arg_ok_def)
qed simp

lemma user_chars: "user_ok u \<Longrightarrow> c \<in> set u \<Longrightarrow> word_char c \<or> is_ascii_digit c \<or> c = CHR ''#''"
  by (auto simp: user_ok_def is_word_def list_all_iff split: list.splits)

lemma split_rule:
  assumes "sudoers_rule_ok r"
  shows "split_once (CHR ''='') (rule_text r)
    = Some (sr_user r @ '' '' @ sr_host r, items_text (sr_items r))"
proof -
  have "CHR ''='' \<notin> set (sr_user r)"
    using assms user_chars [of "sr_user r" "CHR ''=''"] by (auto simp: sudoers_rule_ok_def is_ascii_digit_def)
  moreover have "CHR ''='' \<notin> set (sr_host r)"
    using assms by (auto simp: sudoers_rule_ok_def is_word_def list_all_iff)
  ultimately show ?thesis
    using split_once_append [of "CHR ''=''" "sr_user r @ '' '' @ sr_host r" "items_text (sr_items r)"]
    by (simp add: rule_text_def)
qed

lemma contains_refl [simp]: "contains s s"
  using contains_iff [of s s] by (metis append.right_neutral append_Nil)










text \<open>
  \<open>command_tokens\<close> returns exactly the commands of a rule, in order, each followed by its arguments: no
  run-as user, no tag, and no command lost behind a later tag.
\<close>

theorem command_tokens_roundtrip:
  assumes "sudoers_rule_ok r"
  shows "command_tokens (rule_text r) = concat (map (\<lambda>i. si_command i # si_args i) (sr_items r))"
proof -
  have "split_where list_separator (items_text (sr_items r)) = items_tokens (sr_items r)"
    using assms by (intro split_items) (auto simp: sudoers_rule_ok_def)
  then show ?thesis
    using assms items_commands [of "sr_items r" False]
    by (simp add: command_tokens_def split_rule sudoers_rule_ok_def)
qed

definition sample_rule :: sudo_rule where
  "sample_rule =
     \<lparr>sr_user = ''#1001'', sr_host = ''ALL'',
      sr_items =
        [\<lparr>si_runas = [''root'', ''www:adm''], si_tags = [''NOPASSWD'', ''SETENV''], si_glued = False,
           si_command = ''/bin/ls'', si_args = [''-l'', ''/home'']\<rparr>,
         \<lparr>si_runas = [], si_tags = [], si_glued = False, si_command = ''ALL'', si_args = []\<rparr>]\<rparr>"

lemmas arg_ok_eval = arg_ok_def is_tag_def apply_tag_def OTHER_TAGS_def eq_ignore_ascii_case_def
  ascii_lower_def is_word_def word_char_def visible_def

lemma sample_rule_ok: "sudoers_rule_ok sample_rule"
  by (simp add: sample_rule_def sudoers_rule_ok_def user_ok_def item_ok_def is_ascii_digit_def arg_ok_eval)


theorem command_tokens_roundtrip_witness:
  "command_tokens ''#1001 ALL=(root,www:adm) NOPASSWD:SETENV: /bin/ls -l /home, ALL''
     = [''/bin/ls'', ''-l'', ''/home'', ''ALL'']"
proof -
  have "rule_text sample_rule = ''#1001 ALL=(root,www:adm) NOPASSWD:SETENV: /bin/ls -l /home, ALL''" by code_simp
  moreover have "concat (map (\<lambda>i. si_command i # si_args i) (sr_items sample_rule))
      = [''/bin/ls'', ''-l'', ''/home'', ''ALL'']" by code_simp
  ultimately show ?thesis using command_tokens_roundtrip [OF sample_rule_ok] by simp
qed

text \<open>
  Arguments are read as commands: a rule that lets a user run \<open>printf\<close> on the word \<open>ALL\<close> without a
  password, and nothing else, is reported as a passwordless grant of everything.
\<close>

theorem argument_read_as_command:
  fixes items :: "sudo_item list"
  defines "items \<equiv> [\<lparr>si_runas = [], si_tags = [''NOPASSWD''], si_glued = False,
      si_command = ''/usr/bin/printf'', si_args = [''ALL'']\<rparr>]"
  shows "''alice ALL='' @ items_text items = ''alice ALL=NOPASSWD: /usr/bin/printf ALL''
   \<and> \<not> grants_root Map.empty False items
   \<and> is_nopasswd_all ''alice ALL=NOPASSWD: /usr/bin/printf ALL'' Map.empty = (True, [])"
proof -
  let ?i = "\<lparr>si_runas = [], si_tags = [''NOPASSWD''], si_glued = False,
      si_command = ''/usr/bin/printf'', si_args = [''ALL'']\<rparr>"
  have written: "items_text items = ''NOPASSWD: /usr/bin/printf ALL''" unfolding items_def by code_simp
  have ok: "list_all item_ok items" "items \<noteq> []" "item_ok ?i"
    unfolding items_def by (simp_all add: item_ok_def arg_ok_eval)
  have "\<not> grants_all Map.empty ''/usr/bin/printf''" by (auto elim: grants_all.cases)
  then have none: "\<not> grants_root Map.empty False items" by (simp add: items_def)
  have "split_once (CHR ''='') ''alice ALL=NOPASSWD: /usr/bin/printf ALL'' = Some (''alice ALL'', items_text items)"
    unfolding written by code_simp
  moreover have "entry_has_nopasswd ''alice ALL=NOPASSWD: /usr/bin/printf ALL''" by code_simp
  moreover have "token_step ''ALL'' True 0 = (Some ''ALL'', True, 0)"
    by (rule word_step) (simp_all add: arg_ok_eval)
  then have "grant_loop Map.empty False 0 (item_tokens ?i @ []) = (True, [])"
    unfolding item_step(1) [OF ok(3)]
    by (simp add: answer_for_def eq_ignore_ascii_case_def resolves_to_all_def MAX_ALIAS_DEPTH_def numeral_eq_Suc)
  ultimately show ?thesis
    using none written split_items [OF ok(1,2)] by (simp add: is_nopasswd_all_def items_def)
qed

section \<open>Lines\<close>

definition plain_char :: "char \<Rightarrow> bool" where
  "plain_char c = ((visible c \<or> c = CHR '' '') \<and> c \<noteq> CHR ''#'' \<and> c \<noteq> CHR 0x22 \<and> c \<noteq> CHR 0x5C)"

lemma word_char_plain: "word_char c \<Longrightarrow> plain_char c"
  unfolding plain_char_def using word_char_visible not_word_char by blast

lemma plain_punctuation [simp]:
  "plain_char (CHR '' '')" "plain_char (CHR '','')" "plain_char (CHR '':'')" "plain_char (CHR ''('')"
  "plain_char (CHR '')'')" "plain_char (CHR ''='')" "\<not> plain_char (CHR 0x0A)"
  by (simp_all add: plain_char_def visible_def)

lemma word_plain: "is_word w \<Longrightarrow> list_all plain_char w"
  by (auto simp: is_word_def list_all_iff word_char_plain)

lemma join_plain: "list_all plain_char sep \<Longrightarrow> list_all (list_all plain_char) xs \<Longrightarrow> list_all plain_char (join sep xs)"
  by (induction sep xs rule: join.induct) auto

lemma closing_plain: "list_all (list_all plain_char) rs \<Longrightarrow> list_all (list_all plain_char) (closing rs)"
  by (induction rs rule: closing.induct) auto

lemma item_plain: "item_ok i \<Longrightarrow> list_all plain_char (item_text i)"
proof -
  assume ok: "item_ok i"
  have "list_all (list_all plain_char) (si_runas i)"
    using item_runas [OF ok] word_char_plain unfolding list_all_iff runas_char_def
    using plain_punctuation(3) by blast
  then have "list_all plain_char (join '','' (runas_tokens (si_runas i)))"
    by (intro join_plain) (auto simp: runas_tokens_def closing_plain split: list.splits)
  moreover have "list_all plain_char (tags_text (si_tags i))"
    using ok by (auto simp: item_ok_def arg_ok_def list_all_iff tags_text_def is_word_def word_char_plain)
  moreover have "list_all plain_char (si_command i)"
    using ok by (simp add: item_ok_def arg_ok_def word_plain)
  moreover have "list_all plain_char (concat (map (\<lambda>a. '' '' @ a) (si_args i)))"
    using ok by (auto simp: item_ok_def arg_ok_def list_all_iff is_word_def word_char_plain)
  ultimately show ?thesis by (simp add: item_text_def)
qed

lemma after_user_plain: "sudoers_rule_ok r \<Longrightarrow> list_all plain_char ('' '' @ sr_host r @ ''='' @ items_text (sr_items r))"
  by (auto simp: sudoers_rule_ok_def word_plain items_text_def list_all_iff [of item_ok] item_plain
      intro!: join_plain simp del: join.simps) (auto simp: list_all_iff item_plain [unfolded list_all_iff])

lemma digit_plain: "is_ascii_digit c \<Longrightarrow> plain_char c"
  by (auto simp: is_ascii_digit_def plain_char_def visible_def)

lemma comment_loop_plain: "list_all plain_char s \<Longrightarrow> comment_loop False b s = None"
  by (induction s arbitrary: b) (auto simp: plain_char_def)

text \<open>A user is plain, or the number sign of a numeric ID followed by plain digits.\<close>

lemma user_cases:
  assumes "user_ok u"
  obtains "is_word u" "u \<notin> {''@include'', ''@includedir''}"
  | d ds where "u = CHR ''#'' # d # ds" "is_ascii_digit d" "list_all plain_char ds"
  using assms digit_plain
  by (auto simp: user_ok_def neq_Nil_conv list_all_iff split: list.splits)

lemma rule_not_commented: "sudoers_rule_ok r \<Longrightarrow> comment_loop False [] (rule_text r) = None"
proof -
  assume ok: "sudoers_rule_ok r"
  then have "user_ok (sr_user r)" by (simp add: sudoers_rule_ok_def)
  then show ?thesis
  proof (cases rule: user_cases)
    case 1
    then show ?thesis
      using after_user_plain [OF ok] word_plain by (intro comment_loop_plain) (simp add: rule_text_def)
  next
    case (2 d ds)
    then show ?thesis
      using after_user_plain [OF ok] digit_plain [of d] comment_loop_plain [of "d # ds @ '' '' @ sr_host r @ ''='' @ items_text (sr_items r)"]
      by (simp add: rule_text_def starts_digit_def del: comment_loop.simps(2))
        (simp only: comment_loop.simps(2) [of _ _ "CHR ''#''"] starts_digit_def, simp)
  qed
qed

lemma include_prefix_None:
  "(\<And>pre d. (pre, d) \<in> set ps \<Longrightarrow> list_all visible pre \<and> pre \<noteq> takeWhile visible s) \<Longrightarrow>
     include_prefix ps s = None"
proof (induction ps s rule: include_prefix.induct)
  case (2 pre d ps s)
  have "ws_width rest = 0" if "strip_prefix pre s = Some rest" for rest
  proof (rule ccontr)
    assume "ws_width rest \<noteq> 0"
    then have "takeWhile visible s = pre"
      using that ws_not_visible [of rest] 2(4) [of pre d]
      by (cases rest) (auto simp: strip_prefix_Some_iff list_all_iff takeWhile_append)
    with 2(4) [of pre d] show False by auto
  qed
  moreover have "include_prefix ps s = None" if "strip_prefix pre s = None"
    using 2(1) [OF that] 2(4) by (metis list.set_intros(2))
  moreover have "include_prefix ps s = None" if "strip_prefix pre s = Some rest" "ws_width rest = 0" for rest
    using 2(2) [OF that] 2(4) by (metis list.set_intros(2))
  ultimately show ?case by (auto split: option.splits)
qed simp

lemma visible_prefix: "list_all visible u \<Longrightarrow> takeWhile visible (u @ '' '' @ s) = u"
  by (induction u) auto

lemma rule_not_include: "sudoers_rule_ok r \<Longrightarrow> include_target (rule_text r) = None"
proof -
  assume ok: "sudoers_rule_ok r"
  then have u: "user_ok (sr_user r)" by (simp add: sudoers_rule_ok_def)
  have "is_ascii_digit c \<Longrightarrow> visible c" for c
    by (simp add: is_ascii_digit_def visible_def)
  then have "list_all visible (sr_user r)"
    using user_chars [OF u] word_char_visible visible_punctuation(5) unfolding list_all_iff by blast
  then have "takeWhile visible (rule_text r) = sr_user r"
    unfolding rule_text_def by (rule visible_prefix)
  moreover have "sr_user r \<notin> {''#include'', ''#includedir'', ''@include'', ''@includedir''}"
    using u
  proof (cases rule: user_cases)
    case 1
    then show ?thesis by (auto simp: is_word_def)
  qed (auto simp: is_ascii_digit_def)
  ultimately show ?thesis
    unfolding include_target_def by (intro include_prefix_None) (auto simp: visible_def)
qed

lemma word_last: "is_word w \<Longrightarrow> w \<noteq> [] \<and> word_char (last w)"
  by (simp add: is_word_def list_all_iff)

lemma item_text_ends: "item_ok i \<Longrightarrow> item_text i \<noteq> [] \<and> word_char (last (item_text i))"
proof -
  assume ok: "item_ok i"
  have "w @ concat (map (\<lambda>a. '' '' @ a) args) \<noteq> [] \<and> word_char (last (w @ concat (map (\<lambda>a. '' '' @ a) args)))"
    if "is_word w" "list_all is_word args" for w args
    using that by (induction args rule: rev_induct) (auto simp: word_last)
  from this [of "si_command i" "si_args i"] show ?thesis
    using ok by (auto simp: item_ok_def arg_ok_def item_text_def list_all_iff)
qed

lemma join_ends: "xs \<noteq> [] \<Longrightarrow> last xs \<noteq> [] \<Longrightarrow> join sep xs \<noteq> [] \<and> last (join sep xs) = last (last xs)"
  by (induction sep xs rule: join.induct) auto

lemma rule_text_ends:
  "sudoers_rule_ok r \<Longrightarrow> rule_text r \<noteq> [] \<and> visible (hd (rule_text r)) \<and> word_char (last (rule_text r))"
proof -
  assume ok: "sudoers_rule_ok r"
  then have last: "item_ok (last (sr_items r))" "sr_items r \<noteq> []"
    by (auto simp: sudoers_rule_ok_def list_all_iff)
  then have "items_text (sr_items r) \<noteq> [] \<and> word_char (last (items_text (sr_items r)))"
    using item_text_ends [OF last(1)] join_ends [of "map item_text (sr_items r)" "'', ''"]
    by (simp add: items_text_def last_map)
  moreover have "sr_user r \<noteq> [] \<and> visible (hd (sr_user r))"
    using ok is_word_ends [of "sr_user r"] by (auto simp: sudoers_rule_ok_def user_ok_def split: list.splits)
  ultimately show ?thesis by (simp add: rule_text_def)
qed

lemma rule_text_no_newline: "sudoers_rule_ok r \<Longrightarrow> CHR 0x0A \<notin> set (rule_text r)"
proof -
  assume ok: "sudoers_rule_ok r"
  have "\<not> word_char (CHR 0x0A)" "\<not> is_ascii_digit (CHR 0x0A)"
    by (simp_all add: word_char_def visible_def is_ascii_digit_def)
  then have "CHR 0x0A \<notin> set (sr_user r)"
    using ok user_chars [of "sr_user r" "CHR 0x0A"] by (auto simp: sudoers_rule_ok_def)
  moreover have "CHR 0x0A \<notin> set ('' '' @ sr_host r @ ''='' @ items_text (sr_items r))"
    using after_user_plain [OF ok] plain_punctuation(7) unfolding list_all_iff by blast
  ultimately show ?thesis by (simp add: rule_text_def)
qed

lemma logical_step_rule:
  assumes "sudoers_rule_ok r"
  shows "logical_step (rule_text r) (res, []) = (res @ [rule_text r], [])"
proof -
  note ends = rule_text_ends [OF assms]
  have "\<not> ends_with (rule_text r) [CHR 0x5C]"
  proof
    assume "ends_with (rule_text r) [CHR 0x5C]"
    then have "last (rule_text r) = CHR 0x5C" by (auto simp: ends_with_iff)
    then show False using ends not_word_char by simp
  qed
  then show ?thesis
    using assms ends
    by (simp add: logical_step_def trim_visible word_char_visible rule_not_include strip_comment_def
        rule_not_commented)
qed

text \<open>
  A file of rules, one to a line, is read as exactly those rules: no line is lost to a comment, an
  include or a continuation, numeric user IDs (which begin with the comment character) included.
\<close>

theorem sudoers_file_roundtrip:
  assumes "list_all sudoers_rule_ok rs"
  shows "logical_lines (concat (map (\<lambda>r. rule_text r @ [CHR 0x0A]) rs)) = map rule_text rs"
proof -
  have "fold logical_step (lines (concat (map (\<lambda>r. rule_text r @ [CHR 0x0A]) rs))) (res, [])
      = (res @ map rule_text rs, [])" for res
    using assms
  proof (induction rs arbitrary: res)
    case Nil
    then show ?case by (simp add: lines.simps)
  next
    case (Cons r rs)
    then have ok: "sudoers_rule_ok r" by simp
    then show ?case
      using Cons rule_text_ends [OF ok]
      by (simp add: lines_line rule_text_no_newline strip_cr_visible word_char_visible logical_step_rule)
  qed
  then show ?thesis by (simp add: logical_lines_def)
qed

theorem sudoers_file_roundtrip_witness:
  "logical_lines (rule_text sample_rule @ [CHR 0x0A] @ rule_text sample_rule @ [CHR 0x0A])
   = [rule_text sample_rule, rule_text sample_rule]"
  using sudoers_file_roundtrip [of "[sample_rule, sample_rule]"] sample_rule_ok by simp

section \<open>Aliases and files\<close>

text \<open>
  The alias resolver's answer is right: yes only if the name leads to \<open>ALL\<close>, no only if it does not
  (through cycles, too), and no answer only behind a chain of sixteen aliases.
\<close>

theorem alias_answers_right:
  "case resolves_to_all al t 0 of
     Some True \<Rightarrow> grants_all al t
   | Some False \<Rightarrow> \<not> grants_all al t
   | None \<Rightarrow> alias_chain al 16 t"
  using resolves_sound [of al _ t] resolves_complete [of al _ t] resolves_unknown [of al _ t]
  by (auto simp: resolves_to_all_def MAX_ALIAS_DEPTH_def split: option.splits bool.splits)






text \<open>
  A run-as specification glued to its tag hides the grant: sudo reads \<open>(ALL)NOPASSWD:ALL\<close> as it
  reads \<open>(ALL) NOPASSWD: ALL\<close>, but the tokenizer drops the whole token with its parenthesis.
\<close>

theorem glued_runas_is_missed:
  "is_nopasswd_all ''alice ALL=(ALL) NOPASSWD:ALL'' al = (True, [])
   \<and> is_nopasswd_all ''alice ALL=(ALL)NOPASSWD:ALL'' al = (False, [])
   \<and> command_tokens ''alice ALL=(ALL)NOPASSWD:ALL'' = []"
proof -
  have dropped: "token_step ''(ALL)NOPASSWD:ALL'' np 0 = (None, np, 0)" for np
    using token_step_inside [of 0 "''(ALL)NOPASSWD:ALL''" np] by (simp add: visible_def)
  have word: "split_where list_separator ''(ALL)NOPASSWD:ALL'' = [''(ALL)NOPASSWD:ALL'']"
    by code_simp
  have rhs: "split_once (CHR ''='') ''alice ALL=(ALL)NOPASSWD:ALL'' = Some (''alice ALL'', ''(ALL)NOPASSWD:ALL'')"
    by code_simp
  have "split_where list_separator ''(ALL) NOPASSWD:ALL'' = [''(ALL)'', ''NOPASSWD:ALL'']"
    by code_simp
  moreover have "split_once (CHR ''='') ''alice ALL=(ALL) NOPASSWD:ALL'' = Some (''alice ALL'', ''(ALL) NOPASSWD:ALL'')"
    by code_simp
  moreover have "token_step ''(ALL)'' False 0 = (None, False, 0)"
    using token_step_inside [of 0 "''(ALL)''" False] by simp
  moreover have "token_step (tags_text [''NOPASSWD''] @ ''ALL'') False 0
      = (Some ''ALL'', password_free False [''NOPASSWD''], 0)"
    by (rule token_step_command) code_simp+
  then have "token_step ''NOPASSWD:ALL'' False 0 = (Some ''ALL'', True, 0)"
    by (simp add: tags_text_def eq_ignore_ascii_case_def)
  moreover have "resolves_to_all al ''ALL'' 0 = Some True"
    by (simp add: resolves_to_all_def MAX_ALIAS_DEPTH_def numeral_eq_Suc)
  moreover have "entry_has_nopasswd ''alice ALL=(ALL) NOPASSWD:ALL''" by code_simp
  ultimately show ?thesis
    using dropped word rhs by (simp add: is_nopasswd_all_def command_tokens_def)
qed

end
