(* ===== verification/ScanBase.thy ===== *)
theory ScanBase
  imports Remote Sudoers
begin

text \<open>
  What the scanners share: the kinds of \<open>std::io::Error\<close> they tell apart,
  \<open>splitn\<close>, \<open>split_whitespace\<close> and the number formats they print.
\<close>

section \<open>Errors of the operating system\<close>

text \<open>\<open>ErrorKind\<close>: the kinds a scanner matches on; any other kind carries its \<open>Display\<close> text.\<close>

datatype os_kind = NotFound | PermissionDenied | NotADirectory | InvalidData | OtherOsKind string

fun os_kind_text :: "os_kind \<Rightarrow> string" where
  "os_kind_text NotFound = ''entity not found''"
| "os_kind_text PermissionDenied = ''permission denied''"
| "os_kind_text NotADirectory = ''not a directory''"
| "os_kind_text InvalidData = ''invalid data''"
| "os_kind_text (OtherOsKind t) = t"

text \<open>The kind of an error of the capped readers: all but a failed \<open>open\<close> are \<open>InvalidData\<close>.\<close>

definition failure_kind :: "os_kind io_failure \<Rightarrow> os_kind" where
  "failure_kind f = (case f of OpenFailed k \<Rightarrow> k | _ \<Rightarrow> InvalidData)"

section \<open>Splitting\<close>

text \<open>\<open>str::splitn(n, c)\<close>.\<close>

fun splitn :: "nat \<Rightarrow> char \<Rightarrow> string \<Rightarrow> string list" where
  "splitn 0 c s = []"
| "splitn (Suc 0) c s = [s]"
| "splitn (Suc (Suc n)) c s =
     (case split_once c s of None \<Rightarrow> [s] | Some (a, b) \<Rightarrow> a # splitn (Suc n) c b)"

definition split_whitespace :: "string \<Rightarrow> string list" where
  "split_whitespace s = split_ws 0 [] s"

lemma splitn_field: "c \<notin> set a \<Longrightarrow> splitn (Suc (Suc n)) c (a @ c # s) = a # splitn (Suc n) c s"
  by (simp add: split_once_append)

lemma splitn_last: "c \<notin> set s \<Longrightarrow> splitn (Suc n) c s = [s]"
  by (cases n) (simp_all add: split_once_None)

lemma length_splitn: "length (splitn n c s) \<le> n"
  by (induction n c s rule: splitn.induct) (auto split: option.splits)

lemma join_splitn: "n \<noteq> 0 \<Longrightarrow> join [c] (splitn n c s) = s"
proof (induction n c s rule: splitn.induct)
  case (3 n c s)
  show ?case
  proof (cases "split_once c s")
    case (Some p)
    then obtain a b where p: "split_once c s = Some (a, b)" by (cases p) auto
    then have "s = a @ c # b" by (simp add: split_once_Some)
    moreover have "splitn (Suc n) c b \<noteq> []"
      by (cases n) (auto split: option.splits)
    moreover have "join [c] (splitn (Suc n) c b) = b" using 3 p by simp
    ultimately show ?thesis using p by (cases "splitn (Suc n) c b") simp_all
  qed simp
qed simp_all

lemma ws_width_visible: "visible c \<Longrightarrow> ws_width (c # s) = 0"
  using ws_not_visible [of "c # s"] by auto

lemma ws_width_space: "ws_width (CHR '' '' # s) = 1"
proof -
  have "starts_with (CHR '' '' # s) '' ''" by simp
  then show ?thesis by (simp add: ws_width_def white_space_literals)
qed

lemma split_ws_word: "list_all visible w \<Longrightarrow> split_ws 0 acc (w @ s) = split_ws 0 (acc @ w) s"
  by (induction w arbitrary: acc) (simp_all add: ws_width_visible)

lemma split_ws_space: "split_ws 0 w (CHR '' '' # s) = (if w = [] then [] else [w]) @ split_ws 0 [] s"
  by (simp add: ws_width_space)

lemma split_words:
  "list_all visible w \<Longrightarrow> w \<noteq> [] \<Longrightarrow> split_whitespace (w @ CHR '' '' # s) = w # split_whitespace s"
  by (simp add: split_whitespace_def split_ws_word split_ws_space del: split_ws.simps(3))

lemma split_word: "list_all visible w \<Longrightarrow> w \<noteq> [] \<Longrightarrow> split_whitespace w = [w]"
  using split_ws_word [of w "[]" "[]"] by (simp add: split_whitespace_def)

lemma split_join_words:
  "list_all (\<lambda>w. w \<noteq> [] \<and> list_all visible w) ws \<Longrightarrow> split_whitespace (join '' '' ws) = ws"
proof (induction ws)
  case (Cons w ws)
  then show ?case
    by (cases ws) (simp_all add: split_word split_words)
qed (simp add: split_whitespace_def)

lemma split_whitespace_Nil [simp]: "split_whitespace [] = []"
  by (simp add: split_whitespace_def)

text \<open>A text is terminated if it is empty or ends in a line feed; the lines of an append are its own.\<close>

definition terminated :: "string \<Rightarrow> bool" where
  "terminated s = (s = [] \<or> last s = CHR 0x0A)"

lemma lines_append: "terminated s \<Longrightarrow> lines (s @ t) = lines s @ lines t"
proof (induction s rule: lines.induct)
  case (1 s)
  show ?case
  proof (cases "split_once (CHR 0x0A) s")
    case None
    then have "CHR 0x0A \<notin> set s"
      by (metis option.distinct(1) split_list_first split_once_append)
    then have "s = []" using 1(2) last_in_set [of s] unfolding terminated_def by metis
    then show ?thesis by (simp add: lines.simps [of "[]"])
  next
    case (Some lr)
    obtain l r where lr: "lr = (l, r)" by (cases lr)
    with Some have s: "s = l @ CHR 0x0A # r" "CHR 0x0A \<notin> set l" using split_once_Some by blast+
    have "terminated r" using 1(2) s by (auto simp: terminated_def split: if_splits)
    then have "lines (r @ t) = lines r @ lines t"
      using 1(1) [of "(l, r)" l r] Some lr s by simp
    then show ?thesis using s by (simp add: lines_line)
  qed
qed

lemma lines_Nil [simp]: "lines [] = []"
  by (simp add: lines.simps [of "[]"])

text \<open>A file of complete lines is read back as those lines.\<close>

definition line_text :: "string \<Rightarrow> bool" where
  "line_text l = (CHR 0x0A \<notin> set l \<and> (l = [] \<or> last l \<noteq> CHR 0x0D))"

definition file_of :: "string list \<Rightarrow> string" where
  "file_of ls = concat (map (\<lambda>l. l @ [CHR 0x0A]) ls)"

lemma strip_cr_line: "line_text l \<Longrightarrow> strip_cr l = l"
  by (cases l rule: rev_cases) (auto simp: line_text_def strip_cr_def)

lemma lines_file: "list_all line_text ls \<Longrightarrow> lines (file_of ls) = ls"
proof (induction ls)
  case (Cons l ls)
  then have "CHR 0x0A \<notin> set l" "strip_cr l = l" by (auto simp: line_text_def strip_cr_line)
  then show ?case using Cons lines_line [of l "file_of ls"] by (simp add: file_of_def)
qed (simp add: file_of_def)

lemma ascii_lossy: "list_all (\<lambda>c. byte c < 128) s \<Longrightarrow> from_utf8_lossy s = s"
proof -
  assume a: "list_all (\<lambda>c. byte c < 128) s"
  then have "s = string_of_chars (map byte s)"
    by (induction s) (simp_all add: string_of_chars_def utf8_encode_def byte_def)
  moreover have "list_all scalar (map byte s)" using a by (auto simp: list_all_iff scalar_def)
  ultimately show ?thesis using chars_of_string by (metis from_utf8_lossy_def)
qed

section \<open>Formats\<close>

text \<open>\<open>{:04o}\<close>: at least four octal digits.\<close>

definition octal4 :: "'a::len word \<Rightarrow> string" where
  "octal4 w = (let s = show_octal w in replicate (4 - length s) CHR ''0'' @ s)"

section \<open>Printed numbers\<close>

lemma show_nat_digits: "list_all (\<lambda>c. 48 \<le> byte c \<and> byte c \<le> 57) (show_nat n)"
  unfolding show_nat_def
proof (induction "10 :: nat" n rule: show_base.induct)
  case (1 n)
  have "n mod 10 < 10" by simp
  then have "n mod 10 \<le> 9" by linarith
  with 1 show ?case by (subst show_base.simps) (simp add: digit_char_def)
qed

lemma show_nat_visible: "show_nat n \<noteq> []" "list_all visible (show_nat n)" "hd (show_nat n) \<noteq> CHR ''+''"
proof -
  note d = show_nat_digits [of n]
  show ne: "show_nat n \<noteq> []" by (simp add: show_nat_def)
  show "list_all visible (show_nat n)"
    using d by (auto simp: list_all_iff visible_def byte_def Let_def)
  have "48 \<le> byte (hd (show_nat n))" using d ne by (simp add: list_all_iff)
  then show "hd (show_nat n) \<noteq> CHR ''+''" by (auto simp: byte_def)
qed

lemma parse_show_nat: "n < 2 ^ N \<Longrightarrow> from_str_radix N 10 (show_nat n) = Some n"
  using show_nat_visible(1,3) [of n] parse_show_base [of 10 n]
  by (cases "show_nat n") (auto simp: from_str_radix_def show_nat_def)

end
