(* ===== verification/KnownHosts.thy ===== *)
theory KnownHosts
  imports ScanBase
begin

text \<open>
  \<open>src/known_hosts.rs\<close>: the two trust stores, which of their lines speak for a host, and the decision
  about the key a server presents, with the pin it may write. Parameters are base64 decoding and
  HMAC-SHA1 (crates), the text of the presented key (the SSH library), and what the operating system
  answers when a store is read or the pin is appended.
\<close>

section \<open>Host patterns\<close>

text \<open>
  \<open>glob_match\<close>: positions \<open>i\<close> (\<open>pi\<close>) in the pattern and \<open>ti = st + k\<close> in the text, where \<open>st\<close> is
  \<open>star_t\<close>, the text position of the last star, and \<open>k\<close> counts what was matched since.
\<close>

function kh_glob_loop :: "string \<Rightarrow> string \<Rightarrow> nat \<Rightarrow> nat option \<Rightarrow> nat \<Rightarrow> nat \<Rightarrow> bool" where
  "kh_glob_loop p t i star st k =
     (let ti = st + k in
      if ti < length t then
        (if i < length p \<and> (p ! i = CHR ''?'' \<or> p ! i = t ! ti)
         then kh_glob_loop p t (i + 1) star st (k + 1)
         else if i < length p \<and> p ! i = CHR ''*''
         then kh_glob_loop p t (i + 1) (Some i) ti 0
         else
           (case star of
              Some sp \<Rightarrow> kh_glob_loop p t (sp + 1) star (st + 1) 0
            | None \<Rightarrow> False))
      else dropWhile (\<lambda>c. c = CHR ''*'') (drop i p) = [])"
  by pat_completeness auto
termination
  by (relation "measures [\<lambda>(p, t, i, star, st, k). length t - st,
        \<lambda>(p, t, i, star, st, k). length t - (st + k), \<lambda>(p, t, i, star, st, k). length p - i]") auto

declare kh_glob_loop.simps [simp del]

definition kh_glob_match :: "string \<Rightarrow> string \<Rightarrow> bool" where
  "kh_glob_match pattern text = kh_glob_loop pattern text 0 None 0 0"

record kh_crypto =
  kc_base64 :: "string \<Rightarrow> string option"
  kc_hmac_sha1 :: "string \<Rightarrow> string \<Rightarrow> string option"

definition hashed_matches :: "kh_crypto \<Rightarrow> string \<Rightarrow> string \<Rightarrow> string \<Rightarrow> bool" where
  "hashed_matches cr salt_b64 mac_b64 host =
     (case (kc_base64 cr salt_b64, kc_base64 cr mac_b64) of
        (Some salt, Some mac_expected) \<Rightarrow> kc_hmac_sha1 cr salt host = Some mac_expected
      | _ \<Rightarrow> False)"

definition host_candidates :: "string \<Rightarrow> u16 \<Rightarrow> string list" where
  "host_candidates host port =
     (if port = 22 then [host] else [''['' @ host @ '']:'' @ show_word port])"

definition host_field_matches :: "kh_crypto \<Rightarrow> string \<Rightarrow> string list \<Rightarrow> bool" where
  "host_field_matches cr host_field candidates =
     (case strip_prefix ''|1|'' host_field of
        Some rest \<Rightarrow>
          (case split_once (CHR ''|'') rest of
             None \<Rightarrow> False
           | Some (salt, mac) \<Rightarrow> list_ex (hashed_matches cr salt mac) candidates)
      | None \<Rightarrow>
          list_ex (\<lambda>pattern. list_ex (kh_glob_match pattern) candidates) (split_char (CHR '','') host_field))"

section \<open>The stores\<close>

datatype trust_store = SystemStore | PinStore

record kh_entry =
  kh_host_field :: string
  kh_key_type :: string
  kh_key_data :: string
  kh_store :: trust_store
  kh_revoked :: bool
  kh_line_number :: nat

definition as_line :: "kh_entry \<Rightarrow> string" where
  "as_line e =
     (if kh_revoked e then ''@revoked '' else []) @ kh_host_field e @ '' '' @ kh_key_type e @ '' ''
     @ kh_key_data e"

text \<open>One line of a store: nothing for this host, a marker that cannot be evaluated, or an entry.\<close>

datatype kh_line = NoEntry | UnsupportedMarker string | StoreEntry kh_entry

text \<open>\<open>split_once(char::is_whitespace)\<close>\<close>

definition split_once_ws :: "string \<Rightarrow> (string \<times> string) option" where
  "split_once_ws s =
     (let w = until_ws s; r = drop (length w) s in
      if r = [] then None else Some (w, drop (ws_width r) r))"

definition marker_and_rest :: "string \<Rightarrow> (string option \<times> string) option" where
  "marker_and_rest line =
     (case strip_prefix ''@'' line of
        Some r \<Rightarrow> (case split_once_ws r of None \<Rightarrow> None | Some (m, rest) \<Rightarrow> Some (Some m, trim_start rest))
      | None \<Rightarrow> Some (None, line))"

definition classify_store_line ::
  "kh_crypto \<Rightarrow> string list \<Rightarrow> trust_store \<Rightarrow> nat \<Rightarrow> string \<Rightarrow> kh_line" where
  "classify_store_line cr candidates store line_number raw_line =
     (let line = trim raw_line in
      if line = [] \<or> starts_with line ''#'' then NoEntry
      else
        (case marker_and_rest line of
           None \<Rightarrow> NoEntry
         | Some (marker, rest) \<Rightarrow>
             (case split_ws 0 [] rest of
                hf # kt # kd # _ \<Rightarrow>
                  if \<not> host_field_matches cr hf candidates then NoEntry
                  else if marker = Some ''cert-authority'' then UnsupportedMarker ''cert-authority''
                  else if marker \<noteq> None \<and> marker \<noteq> Some ''revoked'' then
                    UnsupportedMarker (sanitize_for_log (the marker))
                  else StoreEntry
                    \<lparr>kh_host_field = hf, kh_key_type = kt, kh_key_data = kd, kh_store = store,
                     kh_revoked = (marker = Some ''revoked''), kh_line_number = line_number\<rparr>
              | _ \<Rightarrow> NoEntry)))"

definition store_lines :: "kh_crypto \<Rightarrow> string list \<Rightarrow> trust_store \<Rightarrow> string \<Rightarrow> kh_line list" where
  "store_lines cr candidates store content =
     map (\<lambda>(n, raw). classify_store_line cr candidates store n raw)
       (zip [1..<Suc (length (lines content))] (lines content))"

definition line_entries :: "kh_line list \<Rightarrow> kh_entry list" where
  "line_entries ls = concat (map (\<lambda>l. case l of StoreEntry e \<Rightarrow> [e] | _ \<Rightarrow> []) ls)"

definition line_markers :: "kh_line list \<Rightarrow> string list" where
  "line_markers ls = concat (map (\<lambda>l. case l of UnsupportedMarker m \<Rightarrow> [m] | _ \<Rightarrow> []) ls)"

definition first_opt :: "'a list \<Rightarrow> 'a option" where
  "first_opt xs = (case xs of [] \<Rightarrow> None | x # _ \<Rightarrow> Some x)"

text \<open>What reading a store yields: its text, that there is none, or an error with its text.\<close>

datatype store_read = StoreText string | StoreMissing | StoreError string

definition load_entries ::
  "kh_crypto \<Rightarrow> (string \<Rightarrow> store_read) \<Rightarrow> string \<Rightarrow> string \<Rightarrow> string list
   \<Rightarrow> string \<times> string + kh_entry list \<times> string option" where
  "load_entries cr read system_file pin_file candidates =
     (let text = (\<lambda>r. case r of StoreText t \<Rightarrow> t | _ \<Rightarrow> []) in
      case (read system_file, read pin_file) of
        (StoreError e, _) \<Rightarrow> Inl (system_file, e)
      | (_, StoreError e) \<Rightarrow> Inl (pin_file, e)
      | (s, p) \<Rightarrow>
          (let ls = store_lines cr candidates SystemStore (text s)
                    @ store_lines cr candidates PinStore (text p)
           in Inr (line_entries ls, first_opt (line_markers ls))))"

record known_hosts_checker =
  kc_host :: string
  kc_port :: u16
  kc_system_file :: string
  kc_pin_file :: string
  kc_entries :: "kh_entry list"
  kc_unsupported_marker :: "string option"

definition known_hosts_new ::
  "kh_crypto \<Rightarrow> (string \<Rightarrow> store_read) \<Rightarrow> string option \<Rightarrow> string \<Rightarrow> u16
   \<Rightarrow> remote_error + known_hosts_checker" where
  "known_hosts_new cr read home_dir host port =
     (case home_dir of
        None \<Rightarrow> Inl (HostKeyCheck host (''HOME unset '' @ em_dash @ '' cannot locate known_hosts trust store''))
      | Some home \<Rightarrow>
          (let system_file = path_join home ''.ssh/known_hosts'';
               pin_file = path_join home ''.owlzops/known_hosts'' in
           case load_entries cr read system_file pin_file (host_candidates host port) of
             Inl (path, e) \<Rightarrow>
               Inl (HostKeyCheck host
                 (''trust store '' @ path @ '' is unreadable ('' @ e @ '') '' @ em_dash
                  @ '' refusing to fall back to trust-on-first-use, which would pin whatever the server presents''))
           | Inr (entries, marker) \<Rightarrow>
               Inr \<lparr>kc_host = host, kc_port = port, kc_system_file = system_file,
                    kc_pin_file = pin_file, kc_entries = entries, kc_unsupported_marker = marker\<rparr>))"

section \<open>Key algorithms\<close>

datatype hash_alg = Sha256 | Sha512
datatype ecdsa_curve = NistP256 | NistP384 | NistP521
datatype key_algorithm = Ed25519 | Rsa "hash_alg option" | Ecdsa ecdsa_curve

definition algorithms_from_openssh_name :: "string \<Rightarrow> key_algorithm list \<times> string option" where
  "algorithms_from_openssh_name name =
     (if name = ''ssh-ed25519'' then ([Ed25519], None)
      else if name = ''ssh-rsa'' then ([Rsa (Some Sha512), Rsa (Some Sha256), Rsa None], None)
      else if name = ''ecdsa-sha2-nistp256'' then ([Ecdsa NistP256], None)
      else if name = ''ecdsa-sha2-nistp384'' then ([Ecdsa NistP384], None)
      else if name = ''ecdsa-sha2-nistp521'' then ([Ecdsa NistP521], None)
      else ([], Some name))"

definition add_new :: "'a \<Rightarrow> 'a list \<Rightarrow> 'a list" where
  "add_new x xs = (if x \<in> set xs then xs else xs @ [x])"

definition pinned_algorithms :: "known_hosts_checker \<Rightarrow> string list \<Rightarrow> key_algorithm list \<times> string list" where
  "pinned_algorithms c notes =
     fold (\<lambda>e (out, ns).
         case algorithms_from_openssh_name (kh_key_type e) of (algs, unknown) \<Rightarrow>
           (fold add_new algs out,
            ns @ (case unknown of
                    None \<Rightarrow> []
                  | Some u \<Rightarrow> [''known_hosts: unmapped host key type `'' @ sanitize_for_log u @ ''` for host ''
                               @ kc_host c @ '' '' @ em_dash @ '' offer not pinned''])))
       (filter (\<lambda>e. \<not> kh_revoked e) (kc_entries c)) ([], notes)"

definition canonical_key_type :: "string \<Rightarrow> string" where
  "canonical_key_type t = (if t = ''rsa-sha2-256'' \<or> t = ''rsa-sha2-512'' then ''ssh-rsa'' else t)"

section \<open>The decision\<close>

definition same_key :: "string \<Rightarrow> string \<Rightarrow> kh_entry \<Rightarrow> bool" where
  "same_key ptype pdata e =
     (canonical_key_type (kh_key_type e) = canonical_key_type ptype \<and> kh_key_data e = pdata)"

text \<open>What becomes of the append to the pin store: an error, with how many bytes were written before it.\<close>

datatype pin_io = PinWritten | PinWriteFailed nat string | PinOpenFailed string

definition pin_failure_note :: "string \<Rightarrow> string \<Rightarrow> string" where
  "pin_failure_note host kind =
     ''host key for '' @ host @ '' was NOT pinned ('' @ kind @ '') '' @ em_dash
     @ '' every subsequent scan of this host will trust-on-first-use again''"

text \<open>
  \<open>verify\<close>: \<open>presented\<close> is the key in OpenSSH's form, or the error of rendering it. Besides the answer,
  the bytes appended to the pin store and the note of a pin that failed are returned.
\<close>

definition verify ::
  "known_hosts_checker \<Rightarrow> string + string \<Rightarrow> pin_io
   \<Rightarrow> (remote_error + bool) \<times> string \<times> string option" where
  "verify c presented io =
     (case presented of
        Inl e \<Rightarrow> (Inl (HostKeyCheck (kc_host c) e), [], None)
      | Inr text \<Rightarrow>
          (case split_ws 0 [] text of
             ptype # pdata # _ \<Rightarrow>
               if list_ex (same_key ptype pdata) (filter kh_revoked (kc_entries c))
               then (Inl (HostKeyRevoked (kc_host c)), [], None)
               else
                 (let plain = filter (\<lambda>e. \<not> kh_revoked e) (kc_entries c) in
                  if list_ex (same_key ptype pdata) plain then (Inr True, [], None)
                  else
                    (case plain of
                       e # _ \<Rightarrow>
                         (Inl (HostKeyChanged (kc_host c)
                           (case kh_store e of SystemStore \<Rightarrow> kc_system_file c | PinStore \<Rightarrow> kc_pin_file c)
                           (sanitize_for_log (as_line e)) (kh_line_number e)), [], None)
                     | [] \<Rightarrow>
                         (case kc_unsupported_marker c of
                            Some m \<Rightarrow> (Inl (HostKeyUnsupportedTrust (kc_host c) m), [], None)
                          | None \<Rightarrow>
                              (let entry = hd (host_candidates (kc_host c) (kc_port c)) @ '' ''
                                     @ canonical_key_type ptype @ '' '' @ pdata @ [CHR 0x0A]
                               in
                               case io of
                                 PinWritten \<Rightarrow> (Inr True, entry, None)
                               | PinWriteFailed n kind \<Rightarrow>
                                   (Inr True, take n entry, Some (pin_failure_note (kc_host c) kind))
                               | PinOpenFailed kind \<Rightarrow>
                                   (Inr True, [], Some (pin_failure_note (kc_host c) kind))))))
           | _ \<Rightarrow> (Inl (HostKeyCheck (kc_host c) ''invalid key format''), [], None)))"

section \<open>Words\<close>

lemma split_three_words:
  assumes "list_all (\<lambda>w. w \<noteq> [] \<and> list_all visible w) [a, b, c]"
  shows "split_ws 0 [] (a @ '' '' @ b @ '' '' @ c) = [a, b, c]"
  using assms split_ws_word [of c] split_ws_word [of c _ "[]"]
  by (simp add: split_ws_word split_ws_space del: split_ws.simps(3))

end
