(* ===== verification/ScanText.thy ===== *)
theory ScanText
  imports ScanBase "HOL-Library.List_Lexorder" "HOL-Library.Char_ord" "HOL-Library.Product_Lexorder"
begin

text \<open>
  Splitting by a text (\<open>split_once("->")\<close>, \<open>split("\n\n")\<close>), \<open>chunks\<close>, a \<open>BTreeSet\<close> of texts, and the output of a
  child process, for the scanners that read tools and tables.
\<close>

fun split_once_str :: "string \<Rightarrow> string \<Rightarrow> (string \<times> string) option" where
  "split_once_str p [] = (if p = [] then Some ([], []) else None)"
| "split_once_str p (c # s) =
     (case strip_prefix p (c # s) of
        Some r \<Rightarrow> Some ([], r)
      | None \<Rightarrow> (case split_once_str p s of None \<Rightarrow> None | Some (a, b) \<Rightarrow> Some (c # a, b)))"

lemma split_once_str_Some: "split_once_str p s = Some (a, b) \<Longrightarrow> s = a @ p @ b"
proof (induction p s arbitrary: a rule: split_once_str.induct)
  case (2 p c s)
  then show ?case
    by (cases "strip_prefix p (c # s)") (auto simp: strip_prefix_Some_iff split: option.splits prod.splits)
qed (simp split: if_splits)

text \<open>The first occurrence is found if the first character of the separator does not occur before it.\<close>

lemma split_once_str_append:
  "d \<notin> set a \<Longrightarrow> split_once_str (d # p) (a @ (d # p) @ b) = Some (a, b)"
proof (induction a)
  case Nil
  have "strip_prefix p (p @ b) = Some b" by (simp add: strip_prefix_Some_iff)
  then show ?case by simp
qed simp

lemma split_once_str_none: "d \<notin> set s \<Longrightarrow> split_once_str (d # p) s = None"
  by (induction s) auto

function split_str :: "string \<Rightarrow> string \<Rightarrow> string list" where
  "split_str p s =
     (if p = [] then [s]
      else (case split_once_str p s of None \<Rightarrow> [s] | Some (a, b) \<Rightarrow> a # split_str p b))"
  by pat_completeness auto
termination
  by (relation "measure (\<lambda>(p, s). length s)") (auto dest!: split_once_str_Some)

declare split_str.simps [simp del]

fun chunks :: "nat \<Rightarrow> 'a list \<Rightarrow> 'a list list" where
  "chunks 0 xs = []"
| "chunks (Suc n) [] = []"
| "chunks (Suc n) (x # xs) = (x # take n xs) # chunks (Suc n) (drop n xs)"

lemma concat_chunks: "0 < n \<Longrightarrow> concat (chunks n xs) = xs"
  by (induction n xs rule: chunks.induct) auto

lemma chunks_single: "0 < n \<Longrightarrow> chunks n [x] = [[x]]"
  by (cases n) simp_all

lemma chunks_Nil: "chunks n [] = []"
  by (cases n) simp_all

lemma ascii_words_word:
  "list_all (\<lambda>c. \<not> is_ascii_ws c) w \<Longrightarrow> ascii_words_acc cur (w @ s) = ascii_words_acc (rev w @ cur) s"
  by (induction w arbitrary: cur) auto

lemma visible_not_ascii_ws: "visible c \<Longrightarrow> \<not> is_ascii_ws c"
  by (auto simp: visible_def is_ascii_ws_def Let_def)

lemma ascii_split_join:
  "list_all (\<lambda>w. w \<noteq> [] \<and> list_all visible w) ws \<Longrightarrow> split_ascii_whitespace (join '' '' ws) = ws"
proof (induction ws)
  case (Cons w ws)
  have w: "list_all (\<lambda>c. \<not> is_ascii_ws c) w"
    using Cons.prems visible_not_ascii_ws by (auto simp: list_all_iff)
  show ?case
  proof (cases ws)
    case Nil
    then show ?thesis
      using Cons.prems ascii_words_word [OF w, of "[]" "[]"] by (simp add: split_ascii_whitespace_def)
  next
    case (Cons v vs)
    have "is_ascii_ws (CHR '' '')" by (simp add: is_ascii_ws_def)
    then show ?thesis
      using Cons.IH Cons.prems Cons ascii_words_word [OF w, of "[]" "CHR '' '' # join '' '' ws"]
      by (simp add: split_ascii_whitespace_def)
  qed
qed (simp add: split_ascii_whitespace_def)

lemma parse_u32_show: "parse_u32 (show_word w) = Some w"
  using parse_show_nat [of "unat w" 32] unsigned_less [of w, where 'a = nat] by (simp add: parse_u32_def show_word_def)

lemma split_char_append: "split_char c (s @ c # t) = split_char c s @ split_char c t"
proof (induction s)
  case (Cons a s)
  obtain w ws where "split_char c s = w # ws" by (cases "split_char c s") auto
  then show ?case using Cons by auto
qed simp

lemma split_char_none: "c \<notin> set s \<Longrightarrow> split_char c s = [s]"
  by (induction s) auto

lemma trim_by_blank: "c = CHR '' '' \<or> c = CHR 0x09 \<Longrightarrow> trim_by white_space (c # s) = trim_by white_space s"
proof -
  assume c: "c = CHR '' '' \<or> c = CHR 0x09"
  have "strip_one (filter (\<lambda>w. w \<noteq> []) white_space) (c # s) = Some s"
    using c by (auto simp: white_space_literals)
  then show ?thesis by (subst trim_by.simps) simp
qed

lemma trim_blank: "c = CHR '' '' \<or> c = CHR 0x09 \<Longrightarrow> trim (c # s) = trim s"
  by (simp add: trim_def trim_by_blank)

lemma trim_trailing_blank: "s \<noteq> [] \<Longrightarrow> visible (hd s) \<Longrightarrow> visible (last s) \<Longrightarrow> trim (s @ '' '') = s"
proof -
  assume s: "s \<noteq> []" "visible (hd s)" "visible (last s)"
  have "strip_one (filter (\<lambda>w. w \<noteq> []) (map rev white_space)) (CHR '' '' # rev s) = Some (rev s)"
    by (simp add: white_space_literals)
  then have "trim_by (map rev white_space) (CHR '' '' # rev s) = trim_by (map rev white_space) (rev s)"
    by (subst trim_by.simps) simp
  also have "\<dots> = rev s" using s by (intro trim_by_visible [OF visible_no_space(2)]) (simp_all add: hd_rev)
  finally have "trim_by (map rev white_space) (CHR '' '' # rev s) = rev s" .
  moreover have "trim_by white_space (s @ '' '') = s @ '' ''"
    using s by (intro trim_by_visible [OF visible_no_space(1)]) simp_all
  ultimately show ?thesis by (simp add: trim_def)
qed

text \<open>Words: texts of visible characters, as the kernel's tables are made of.\<close>

definition plain_word :: "string \<Rightarrow> bool" where
  "plain_word w = (w \<noteq> [] \<and> list_all visible w)"

lemma visible_words: "list_all plain_word ws \<Longrightarrow> list_all (\<lambda>w. w \<noteq> [] \<and> list_all visible w) ws"
  by (simp add: plain_word_def list_all_iff)

lemma not_visible_ctrl: "\<not> visible (CHR 0x0A)" "\<not> visible (CHR 0x0D)"
  by (simp_all add: visible_def)

lemma visible_line: "list_all visible s \<Longrightarrow> line_text s"
  using not_visible_ctrl by (cases s rule: rev_cases) (auto simp: line_text_def list_all_iff)

lemma join_line: "list_all plain_word ws \<Longrightarrow> line_text (join '' '' ws)"
proof (induction ws)
  case (Cons w ws)
  have w: "line_text w" "w \<noteq> []" using Cons.prems visible_line by (simp_all add: plain_word_def)
  have "line_text (join '' '' ws)" using Cons by simp
  then show ?case using w by (cases ws) (auto simp: line_text_def)
qed (simp add: line_text_def)

lemma trim_plain_word: "plain_word w \<Longrightarrow> trim w = w"
  by (simp add: plain_word_def trim_visible list_all_iff)

section \<open>Rows of a table\<close>

text \<open>
  A row as the kernel prints it: its words, each after a gap of blanks and tabs of any length, and
  blanks at the end. Only the first gap may be empty.
\<close>

definition blank_char :: "char \<Rightarrow> bool" where
  "blank_char c = (c = CHR '' '' \<or> c = CHR 0x09)"

fun table_row :: "string list \<Rightarrow> string list \<Rightarrow> string \<Rightarrow> string" where
  "table_row (g # gs) (w # ws) trail = g @ w @ table_row gs ws trail"
| "table_row _ _ trail = trail"

definition gaps_ok :: "string list \<Rightarrow> string \<Rightarrow> string list \<Rightarrow> bool" where
  "gaps_ok gaps trail ws =
     (length gaps = length ws \<and> list_all (list_all blank_char) gaps \<and> list_all blank_char trail
      \<and> list_all (\<lambda>g. g \<noteq> []) (tl gaps))"

lemma blank_is_ws: "blank_char c \<Longrightarrow> is_ascii_ws c" "blank_char c \<Longrightarrow> ws_width (c # s) = 1"
proof -
  assume "blank_char c"
  then consider "c = CHR '' ''" | "c = CHR 0x09" by (auto simp: blank_char_def)
  then show "is_ascii_ws c" "ws_width (c # s) = 1"
    by (cases; simp add: is_ascii_ws_def ws_width_def white_space_literals)+
qed

lemma ascii_words_blanks:
  "list_all blank_char g \<Longrightarrow> ascii_words_acc [] (g @ s) = ascii_words_acc [] s"
  by (induction g) (simp_all add: blank_is_ws)

lemma split_ws_blanks: "list_all blank_char g \<Longrightarrow> split_ws 0 [] (g @ s) = split_ws 0 [] s"
  by (induction g) (simp_all add: blank_is_ws)

lemma row_tail_cases:
  assumes "gaps_ok (g # gs) trail (w # ws)"
  obtains "gs = []" "ws = []" "table_row gs ws trail = trail"
  | h hs v vs where "gs = h # hs" "ws = v # vs" "h \<noteq> []" "list_all blank_char h" "gaps_ok gs trail ws"
  using assms by (cases gs; cases ws) (auto simp: gaps_ok_def)

lemma ascii_split_row:
  "list_all plain_word ws \<Longrightarrow> gaps_ok gaps trail ws \<Longrightarrow>
     split_ascii_whitespace (table_row gaps ws trail) = ws"
proof (induction ws arbitrary: gaps)
  case Nil
  then show ?case
    using ascii_words_blanks [of trail "[]"] by (simp add: gaps_ok_def split_ascii_whitespace_def)
next
  case (Cons w ws)
  then obtain g gs where gaps: "gaps = g # gs" by (cases gaps) (auto simp: gaps_ok_def)
  have g: "list_all blank_char g" using Cons.prems(2) by (simp add: gaps gaps_ok_def)
  have w: "list_all (\<lambda>c. \<not> is_ascii_ws c) w" "w \<noteq> []"
    using Cons.prems(1) visible_not_ascii_ws by (auto simp: list_all_iff plain_word_def)
  have word: "split_ascii_whitespace (table_row gaps (w # ws) trail) = ascii_words_acc (rev w) (table_row gs ws trail)"
    by (simp add: gaps split_ascii_whitespace_def ascii_words_blanks [OF g] ascii_words_word [OF w(1)])
  from Cons.prems(2) [unfolded gaps] show ?case
  proof (cases rule: row_tail_cases)
    case 1
    have "list_all blank_char trail" using Cons.prems(2) by (simp add: gaps_ok_def)
    then show ?thesis
      using word 1 w(2) ascii_words_blanks [of _ "[]"] by (cases trail) (auto simp: blank_is_ws)
  next
    case (2 h hs v vs)
    have "split_ascii_whitespace (table_row gs ws trail) = ws" using Cons.IH Cons.prems(1) 2(5) by simp
    then show ?thesis
      using word 2 w(2) by (cases h) (auto simp: split_ascii_whitespace_def blank_is_ws)
  qed
qed

lemma split_row:
  "list_all plain_word ws \<Longrightarrow> gaps_ok gaps trail ws \<Longrightarrow> split_whitespace (table_row gaps ws trail) = ws"
proof (induction ws arbitrary: gaps)
  case Nil
  then show ?case
    using split_ws_blanks [of trail "[]"] by (simp add: gaps_ok_def split_whitespace_def)
next
  case (Cons w ws)
  then obtain g gs where gaps: "gaps = g # gs" by (cases gaps) (auto simp: gaps_ok_def)
  have g: "list_all blank_char g" using Cons.prems(2) by (simp add: gaps gaps_ok_def)
  have w: "list_all visible w" "w \<noteq> []" using Cons.prems(1) by (simp_all add: plain_word_def)
  have word: "split_whitespace (table_row gaps (w # ws) trail) = split_ws 0 w (table_row gs ws trail)"
    by (simp add: gaps split_whitespace_def split_ws_blanks [OF g] split_ws_word [OF w(1)])
  from Cons.prems(2) [unfolded gaps] show ?case
  proof (cases rule: row_tail_cases)
    case 1
    have "list_all blank_char trail" using Cons.prems(2) by (simp add: gaps_ok_def)
    then show ?thesis
      using word 1 w(2) split_ws_blanks [of _ "[]"] by (cases trail) (auto simp: blank_is_ws)
  next
    case (2 h hs v vs)
    have "split_whitespace (table_row gs ws trail) = ws" using Cons.IH Cons.prems(1) 2(5) by simp
    then show ?thesis
      using word 2 w(2) by (cases h) (auto simp: split_whitespace_def blank_is_ws)
  qed
qed

lemma row_chars:
  "list_all plain_word ws \<Longrightarrow> list_all (list_all blank_char) gaps \<Longrightarrow> list_all blank_char trail \<Longrightarrow>
     list_all (\<lambda>c. visible c \<or> blank_char c) (table_row gaps ws trail)"
  by (induction gaps ws trail rule: table_row.induct) (auto simp: list_all_iff plain_word_def)

lemma row_line: "list_all plain_word ws \<Longrightarrow> gaps_ok gaps trail ws \<Longrightarrow> line_text (table_row gaps ws trail)"
proof -
  assume "list_all plain_word ws" "gaps_ok gaps trail ws"
  then have "list_all (\<lambda>c. visible c \<or> blank_char c) (table_row gaps ws trail)"
    by (intro row_chars) (simp_all add: gaps_ok_def)
  then have c: "\<And>c. c \<in> set (table_row gaps ws trail) \<Longrightarrow> visible c \<or> blank_char c"
    by (simp add: list_all_iff)
  have "\<not> blank_char (CHR 0x0A)" "\<not> blank_char (CHR 0x0D)" by (simp_all add: blank_char_def)
  then have "CHR 0x0A \<notin> set (table_row gaps ws trail)" "CHR 0x0D \<notin> set (table_row gaps ws trail)"
    using c not_visible_ctrl by auto
  then show ?thesis unfolding line_text_def by (metis last_in_set)
qed

lemma map_filter_set: "y \<in> set (List.map_filter f xs) \<longleftrightarrow> (\<exists>x\<in>set xs. f x = Some y)"
  by (induction xs) (auto simp: List.map_filter_simps split: option.splits)

lemma join_words: "xs \<noteq> [] \<Longrightarrow> ys \<noteq> [] \<Longrightarrow> join '' '' (xs @ ys) = join '' '' xs @ '' '' @ join '' '' ys"
proof (induction xs)
  case (Cons x xs)
  then show ?case by (cases xs; cases ys) simp_all
qed simp

lemma read_short: "list_all (\<lambda>c. byte c < 128) s \<Longrightarrow> length s \<le> n \<Longrightarrow> read_procfs_capped (Inr s) n = Inr (s, False)"
  by (simp add: read_procfs_capped_def capped_def ascii_lossy Let_def)

definition btree :: "string list \<Rightarrow> string list" where
  "btree xs = sort (remdups xs)"

lemma btree_set [simp]: "set (btree xs) = set xs" "distinct (btree xs)" "sorted (btree xs)"
  by (simp_all add: btree_def)

text \<open>\<open>Output\<close> of a child that ended in time: its status, what it printed, and the status as text.\<close>

record child_output =
  co_success :: bool
  co_stdout :: string
  co_stderr :: string
  co_status :: string

end
