(* ===== verification/KnownHostsLaws.thy ===== *)
theory KnownHostsLaws
  imports KnownHosts ScanText
begin

text \<open>
  Laws of \<open>src/known_hosts.rs\<close>: its pattern matcher agrees with the declarative one, the decision about a
  key is a function of what the stores say of the host, and a pin that was written is found again.
\<close>

section \<open>The pattern matcher\<close>

lemma glob_Nil: "glob_match p [] \<longleftrightarrow> dropWhile (\<lambda>c. c = CHR ''*'') p = []"
  by (induction p) auto

lemma glob_star: "glob_match (CHR ''*'' # p) s \<longleftrightarrow> (\<exists>j\<le>length s. glob_match p (drop j s))"
proof (induction s)
  case (Cons d s)
  have "glob_match (CHR ''*'' # p) (d # s) \<longleftrightarrow> glob_match p (d # s) \<or> glob_match (CHR ''*'' # p) s"
    by (subst glob_match.simps(3)) simp
  also have "\<dots> \<longleftrightarrow> (\<exists>j\<le>length (d # s). glob_match p (drop j (d # s)))"
    unfolding Cons.IH by (auto simp: Suc_le_eq) (metis Suc_le_mono drop_Suc_Cons not0_implies_Suc drop0)+
  finally show ?case .
qed (auto simp: glob_star_Cons)

lemma glob_segment:
  "CHR ''*'' \<notin> set seg \<Longrightarrow> glob_match (seg @ r) s \<Longrightarrow> length seg \<le> length s \<and> glob_match r (drop (length seg) s)"
proof (induction seg arbitrary: s)
  case (Cons c seg)
  then show ?case by (cases s) (auto split: if_splits)
qed simp

text \<open>What the state of the loop promises: the star's segment was matched, and holds no other star.\<close>

definition glob_inv :: "string \<Rightarrow> nat \<Rightarrow> nat option \<Rightarrow> nat \<Rightarrow> bool" where
  "glob_inv p i star k =
     (i \<le> length p
      \<and> (case star of None \<Rightarrow> True
         | Some sp \<Rightarrow> i = sp + 1 + k \<and> CHR ''*'' \<notin> set (take k (drop (sp + 1) p))))"

definition later_match :: "string \<Rightarrow> string \<Rightarrow> nat option \<Rightarrow> nat \<Rightarrow> bool" where
  "later_match p t star st =
     (case star of None \<Rightarrow> False
      | Some sp \<Rightarrow> \<exists>j. st < j \<and> j \<le> length t \<and> glob_match (drop (sp + 1) p) (drop j t))"

lemma glob_inv_segment:
  assumes "glob_inv p i (Some sp) k" "glob_match (drop (sp + 1) p) s"
  shows "k \<le> length s \<and> glob_match (drop i p) (drop k s)"
proof -
  have i: "i = sp + 1 + k" "i \<le> length p" "CHR ''*'' \<notin> set (take k (drop (sp + 1) p))"
    using assms(1) by (auto simp: glob_inv_def)
  have "drop (sp + 1) p = take k (drop (sp + 1) p) @ drop i p"
    using i(1) by (metis add.commute append_take_drop_id drop_drop)
  moreover have "length (take k (drop (sp + 1) p)) = k" using i by simp
  ultimately show ?thesis
    using glob_segment [OF i(3), of "drop i p" s] assms(2) by metis
qed

lemma drop_nth: "i < length xs \<Longrightarrow> drop i xs = xs ! i # drop (i + 1) xs"
  by (simp add: Cons_nth_drop_Suc)

lemma glob_star_at:
  "i < length p \<Longrightarrow> p ! i = CHR ''*'' \<Longrightarrow>
     glob_match (drop i p) s \<longleftrightarrow> (\<exists>j\<le>length s. glob_match (drop (i + 1) p) (drop j s))"
  by (simp only: drop_nth glob_star)

lemma glob_loop_correct:
  assumes "CHR ''*'' \<notin> set t" "glob_inv p i star k" "st + k \<le> length t"
  shows "kh_glob_loop p t i star st k \<longleftrightarrow> glob_match (drop i p) (drop (st + k) t) \<or> later_match p t star st"
  using assms
proof (induction p t i star st k rule: kh_glob_loop.induct)
  case (1 p t i star st k)
  let ?ti = "st + k"
  consider (fin) "length t \<le> ?ti"
    | (char) "?ti < length t" "i < length p" "p ! i = CHR ''?'' \<or> p ! i = t ! ?ti"
    | (star) "?ti < length t" "i < length p" "\<not> (p ! i = CHR ''?'' \<or> p ! i = t ! ?ti)" "p ! i = CHR ''*''"
    | (miss) "?ti < length t" "\<not> (i < length p \<and> (p ! i = CHR ''?'' \<or> p ! i = t ! ?ti))"
        "\<not> (i < length p \<and> p ! i = CHR ''*'')"
    by force
  then show ?case
  proof cases
    case fin
    have "\<not> later_match p t star st"
    proof
      assume "later_match p t star st"
      then obtain sp j where sp: "star = Some sp" "st < j" "j \<le> length t" "glob_match (drop (sp + 1) p) (drop j t)"
        by (auto simp: later_match_def split: option.splits)
      then have "k \<le> length (drop j t)"
        using glob_inv_segment [OF "1.prems"(2) [unfolded sp(1)] sp(4)] by simp
      with fin sp show False by simp
    qed
    then show ?thesis
      using fin "1.prems" by (simp add: kh_glob_loop.simps [of p t i] glob_Nil)
  next
    case char
    have "t ! ?ti \<noteq> CHR ''*''" using nth_mem [OF char(1)] "1.prems"(1) by metis
    then have ns: "p ! i \<noteq> CHR ''*''" using char(3) by auto
    have inv: "glob_inv p (i + 1) star (k + 1)"
    proof (cases star)
      case (Some sp)
      then have i: "i = sp + 1 + k" "CHR ''*'' \<notin> set (take k (drop (sp + 1) p))"
        using "1.prems"(2) by (auto simp: glob_inv_def)
      then have "take (k + 1) (drop (sp + 1) p) = take k (drop (sp + 1) p) @ [p ! i]"
        using char by (simp add: take_Suc_conv_app_nth)
      then show ?thesis using i Some char ns by (simp add: glob_inv_def)
    qed (use char in \<open>simp add: glob_inv_def\<close>)
    have "kh_glob_loop p t i star st k = kh_glob_loop p t (i + 1) star st (k + 1)"
      using char by (simp add: kh_glob_loop.simps [of p t i])
    also have "\<dots> \<longleftrightarrow> glob_match (drop (i + 1) p) (drop (st + (k + 1)) t) \<or> later_match p t star st"
      using "1.IH"(1) [OF refl char(1) _ "1.prems"(1) inv] char by simp
    also have "glob_match (drop (i + 1) p) (drop (st + (k + 1)) t) \<longleftrightarrow> glob_match (drop i p) (drop ?ti t)"
      using char ns by (auto simp: drop_nth [of i p] drop_nth [of ?ti t])
    finally show ?thesis .
  next
    case star
    have inv: "glob_inv p (i + 1) (Some i) 0" using star by (simp add: glob_inv_def)
    have "kh_glob_loop p t i star st k = kh_glob_loop p t (i + 1) (Some i) ?ti 0"
      using star by (simp add: kh_glob_loop.simps [of p t i])
    also have "\<dots> \<longleftrightarrow> glob_match (drop (i + 1) p) (drop ?ti t) \<or> later_match p t (Some i) ?ti"
      using "1.IH"(2) [OF refl star(1) _ _ "1.prems"(1) inv] star by simp
    also have "\<dots> \<longleftrightarrow> (\<exists>j\<ge>?ti. j \<le> length t \<and> glob_match (drop (i + 1) p) (drop j t))"
      using star by (auto simp: later_match_def le_less)
    also have "\<dots> \<longleftrightarrow> glob_match (drop i p) (drop ?ti t)"
    proof -
      have "glob_match (drop i p) (drop ?ti t) \<longleftrightarrow>
          (\<exists>j\<le>length t - ?ti. glob_match (drop (i + 1) p) (drop (?ti + j) t))"
        unfolding glob_star_at [OF star(2,4)] by (simp add: ac_simps)
      also have "\<dots> \<longleftrightarrow> (\<exists>j\<ge>?ti. j \<le> length t \<and> glob_match (drop (i + 1) p) (drop j t))"
        using star(1) by (metis add_diff_inverse_nat le_add1 le_diff_conv2 less_imp_le_nat linorder_not_le add.commute)
      finally show ?thesis by simp
    qed
    finally have eq: "kh_glob_loop p t i star st k \<longleftrightarrow> glob_match (drop i p) (drop ?ti t)" .
    have "later_match p t star st \<Longrightarrow> glob_match (drop i p) (drop ?ti t)"
    proof -
      assume "later_match p t star st"
      then obtain sp j where sp: "star = Some sp" "st < j" "j \<le> length t" "glob_match (drop (sp + 1) p) (drop j t)"
        by (auto simp: later_match_def split: option.splits)
      then have "k \<le> length (drop j t)" "glob_match (drop i p) (drop k (drop j t))"
        using glob_inv_segment "1.prems"(2) by blast+
      then obtain m where "m \<le> length (drop (j + k) t)" "glob_match (drop (i + 1) p) (drop m (drop (j + k) t))"
        unfolding glob_star_at [OF star(2,4)] by (auto simp: ac_simps)
      then have "j + k + m - ?ti \<le> length (drop ?ti t)" "glob_match (drop (i + 1) p) (drop (j + k + m - ?ti) (drop ?ti t))"
        using sp \<open>k \<le> length (drop j t)\<close> by (auto simp: ac_simps)
      then show ?thesis unfolding glob_star_at [OF star(2,4)] by blast
    qed
    with eq show ?thesis by blast
  next
    case miss
    have no: "\<not> glob_match (drop i p) (drop ?ti t)"
      using miss by (cases "i < length p") (auto simp: drop_nth [of i p] drop_nth [of ?ti t])
    show ?thesis
    proof (cases star)
      case None
      then show ?thesis
        using miss no by (simp add: kh_glob_loop.simps [of p t i] later_match_def)
    next
      case (Some sp)
      have inv: "glob_inv p (sp + 1) (Some sp) 0"
        using Some "1.prems"(2) by (auto simp: glob_inv_def)
      have "kh_glob_loop p t i star st k = kh_glob_loop p t (sp + 1) star (st + 1) 0"
        using miss Some by (subst kh_glob_loop.simps) (auto simp: Let_def)
      also have "\<dots> \<longleftrightarrow> glob_match (drop (sp + 1) p) (drop (st + 1) t) \<or> later_match p t star (st + 1)"
        using "1.IH"(3) [OF refl miss(1) _ _ Some] miss "1.prems"(1) inv Some by simp
      also have "\<dots> \<longleftrightarrow> later_match p t star st"
        using Some miss(1) by (auto simp: later_match_def) (metis Suc_lessD, metis Suc_lessI)
      finally show ?thesis using no by blast
    qed
  qed
qed

text \<open>
  The iterative matcher with one remembered star, used for the host patterns of \<open>known_hosts\<close>, decides
  the same relation as the recursive one of the acceptance policy, on every text without a star.
\<close>

theorem known_hosts_glob_equivalent:
  assumes "CHR ''*'' \<notin> set t"
  shows "kh_glob_match p t = glob_match p t"
  using glob_loop_correct [OF assms, of p 0 None 0 0]
  by (simp add: kh_glob_match_def glob_inv_def later_match_def)

theorem known_hosts_glob_equivalent_witness:
  "\<not> kh_glob_match ''*.corp.example.com'' ''web1.example.com''
   \<and> kh_glob_match ''w*b?.corp.*'' ''web1.corp.example.com''"
proof -
  have "\<not> glob_match ''*.corp.example.com'' ''web1.example.com''"
    "glob_match ''w*b?.corp.*'' ''web1.corp.example.com''" by code_simp+
  then show ?thesis
    using known_hosts_glob_equivalent [of "''web1.example.com''" "''*.corp.example.com''"]
      known_hosts_glob_equivalent [of "''web1.corp.example.com''" "''w*b?.corp.*''"] by simp
qed

section \<open>The decision\<close>

definition presented_words :: "string \<Rightarrow> (string \<times> string) option" where
  "presented_words text = (case split_ws 0 [] text of p # d # _ \<Rightarrow> Some (p, d) | _ \<Rightarrow> None)"

definition revoked_for :: "known_hosts_checker \<Rightarrow> string \<times> string \<Rightarrow> bool" where
  "revoked_for c k = list_ex (\<lambda>e. kh_revoked e \<and> same_key (fst k) (snd k) e) (kc_entries c)"

definition pinned_for :: "known_hosts_checker \<Rightarrow> string \<times> string \<Rightarrow> bool" where
  "pinned_for c k = list_ex (\<lambda>e. \<not> kh_revoked e \<and> same_key (fst k) (snd k) e) (kc_entries c)"

definition unknown_host :: "known_hosts_checker \<Rightarrow> bool" where
  "unknown_host c = (list_all kh_revoked (kc_entries c) \<and> kc_unsupported_marker c = None)"

lemma verify_cases:
  assumes "presented_words text = Some k"
  shows "revoked_for c k \<Longrightarrow> verify c (Inr text) io = (Inl (HostKeyRevoked (kc_host c)), [], None)"
    and "\<not> revoked_for c k \<Longrightarrow> pinned_for c k \<Longrightarrow> verify c (Inr text) io = (Inr True, [], None)"
    and "\<not> revoked_for c k \<Longrightarrow> \<not> pinned_for c k \<Longrightarrow> \<not> list_all kh_revoked (kc_entries c) \<Longrightarrow>
      \<exists>file line n. verify c (Inr text) io = (Inl (HostKeyChanged (kc_host c) file line n), [], None)"
    and "\<not> revoked_for c k \<Longrightarrow> list_all kh_revoked (kc_entries c) \<Longrightarrow> kc_unsupported_marker c = Some m \<Longrightarrow>
      verify c (Inr text) io = (Inl (HostKeyUnsupportedTrust (kc_host c) m), [], None)"
    and "\<not> revoked_for c k \<Longrightarrow> unknown_host c \<Longrightarrow>
      verify c (Inr text) io =
        (let entry = hd (host_candidates (kc_host c) (kc_port c)) @ '' ''
               @ canonical_key_type (fst k) @ '' '' @ snd k @ [CHR 0x0A]
         in case io of
              PinWritten \<Rightarrow> (Inr True, entry, None)
            | PinWriteFailed n kind \<Rightarrow> (Inr True, take n entry, Some (pin_failure_note (kc_host c) kind))
            | PinOpenFailed kind \<Rightarrow> (Inr True, [], Some (pin_failure_note (kc_host c) kind)))"
proof -
  obtain p d r where w: "split_ws 0 [] text = p # d # r" and k: "k = (p, d)"
    using assms by (auto simp: presented_words_def split: list.splits)
  have sets: "list_ex (same_key p d) (filter kh_revoked (kc_entries c)) \<longleftrightarrow> revoked_for c k"
    "list_ex (same_key p d) (filter (\<lambda>e. \<not> kh_revoked e) (kc_entries c)) \<longleftrightarrow> pinned_for c k"
    "filter (\<lambda>e. \<not> kh_revoked e) (kc_entries c) = [] \<longleftrightarrow> list_all kh_revoked (kc_entries c)"
    by (auto simp: revoked_for_def pinned_for_def k list_ex_iff list_all_iff filter_empty_conv)
  note v = verify_def [of c "Inr text" io] w sets
  show "revoked_for c k \<Longrightarrow> verify c (Inr text) io = (Inl (HostKeyRevoked (kc_host c)), [], None)"
    and "\<not> revoked_for c k \<Longrightarrow> pinned_for c k \<Longrightarrow> verify c (Inr text) io = (Inr True, [], None)"
    using v by simp_all
  show "\<exists>file line n. verify c (Inr text) io = (Inl (HostKeyChanged (kc_host c) file line n), [], None)"
    if a: "\<not> revoked_for c k" "\<not> pinned_for c k" "\<not> list_all kh_revoked (kc_entries c)"
  proof -
    obtain e es where "filter (\<lambda>e. \<not> kh_revoked e) (kc_entries c) = e # es"
      using a(3) sets(3) by (cases "filter (\<lambda>e. \<not> kh_revoked e) (kc_entries c)") auto
    then show ?thesis using a v by simp
  qed
  have none: "\<not> pinned_for c k" if "list_all kh_revoked (kc_entries c)"
    using that by (auto simp: pinned_for_def list_ex_iff list_all_iff)
  show "verify c (Inr text) io = (Inl (HostKeyUnsupportedTrust (kc_host c) m), [], None)"
    if "\<not> revoked_for c k" "list_all kh_revoked (kc_entries c)" "kc_unsupported_marker c = Some m"
    using that none v by simp
  show "verify c (Inr text) io =
        (let entry = hd (host_candidates (kc_host c) (kc_port c)) @ '' ''
               @ canonical_key_type (fst k) @ '' '' @ snd k @ [CHR 0x0A]
         in case io of
              PinWritten \<Rightarrow> (Inr True, entry, None)
            | PinWriteFailed n kind \<Rightarrow> (Inr True, take n entry, Some (pin_failure_note (kc_host c) kind))
            | PinOpenFailed kind \<Rightarrow> (Inr True, [], Some (pin_failure_note (kc_host c) kind)))"
    if "\<not> revoked_for c k" "unknown_host c"
    using that none v by (simp add: unknown_host_def k)
qed

text \<open>When a key is accepted, and when anything is written.\<close>

lemma verify_accepts:
  assumes "presented_words text = Some k"
  shows "(fst (verify c (Inr text) io) = Inr True \<longleftrightarrow> \<not> revoked_for c k \<and> (pinned_for c k \<or> unknown_host c))
    \<and> (\<not> (unknown_host c \<and> \<not> revoked_for c k) \<longrightarrow> snd (verify c (Inr text) io) = ([], None))"
proof -
  consider "revoked_for c k" | "\<not> revoked_for c k" "pinned_for c k"
    | "\<not> revoked_for c k" "\<not> pinned_for c k" "\<not> list_all kh_revoked (kc_entries c)"
    | m where "\<not> revoked_for c k" "list_all kh_revoked (kc_entries c)" "kc_unsupported_marker c = Some m"
    | "\<not> revoked_for c k" "unknown_host c"
    by (cases "kc_unsupported_marker c") (auto simp: unknown_host_def)
  then show ?thesis
  proof cases
    case 3
    then show ?thesis
      using verify_cases(3) [OF assms 3, of io] by (auto simp: unknown_host_def)
  next
    case 4
    then have "\<not> pinned_for c k" by (auto simp: pinned_for_def list_ex_iff list_all_iff)
    then show ?thesis using verify_cases(4) [OF assms 4] 4 by (simp add: unknown_host_def)
  next
    case 5
    then show ?thesis using verify_cases(5) [OF assms 5] by (simp add: Let_def split: pin_io.splits)
  qed (use verify_cases(1,2) [OF assms] in simp_all)
qed

section \<open>Pins\<close>

lemma glob_literal: "CHR ''*'' \<notin> set p \<Longrightarrow> CHR ''?'' \<notin> set p \<Longrightarrow> glob_match p s \<longleftrightarrow> p = s"
proof (induction p arbitrary: s)
  case Nil
  then show ?case by (cases s) auto
next
  case (Cons c p)
  then show ?case by (cases s) auto
qed

text \<open>The characters of a host that the argument validator accepts, and of its bracketed form.\<close>

definition host_char :: "char \<Rightarrow> bool" where
  "host_char c = (is_ascii_alphanumeric c \<or> c \<in> set ''-_.:[]'')"

lemma host_char_visible: "host_char c \<Longrightarrow> visible c"
  by (auto simp: host_char_def is_ascii_alphanumeric_def visible_def Let_def)

lemma not_host_char [simp]:
  "\<not> host_char (CHR ''*'')" "\<not> host_char (CHR ''?'')" "\<not> host_char (CHR '','')" "\<not> host_char (CHR ''|'')"
  "\<not> host_char (CHR ''#'')" "\<not> host_char (CHR ''@'')"
  by (simp_all add: host_char_def is_ascii_alphanumeric_def)

lemma validated_host: "validate_host host = None \<Longrightarrow> host \<noteq> [] \<and> list_all host_char host"
  by (auto simp: validate_host_def host_char_def list_all_iff list_ex_iff split: if_splits)

lemma candidate_chars:
  assumes "validate_host host = None"
  obtains cand where "host_candidates host port = [cand]" "cand \<noteq> []" "list_all host_char cand"
proof -
  have d: "list_all host_char (show_word port)"
    using digits_show_base [of 10 _ "unat port"]
    by (simp add: show_word_def show_nat_def list_all_iff host_char_def is_ascii_alphanumeric_def Let_def)
  show ?thesis
  proof (cases "port = 22")
    case True
    then show ?thesis using that [of host] validated_host [OF assms] by (simp add: host_candidates_def)
  next
    case False
    have "host_char (CHR ''['')" "host_char (CHR '']'')" "host_char (CHR '':'')" by (simp_all add: host_char_def)
    then show ?thesis
      using that [of "''['' @ host @ '']:'' @ show_word port"] False d validated_host [OF assms]
      by (simp add: host_candidates_def)
  qed
qed

lemma literal_field:
  assumes "cand \<noteq> []" "list_all host_char cand" "CHR ''*'' \<notin> set d"
  shows "host_field_matches cr cand [d] \<longleftrightarrow> cand = d"
proof -
  have no: "c \<notin> set cand" if "\<not> host_char c" for c
    using assms(2) that by (auto simp: list_all_iff)
  have "strip_prefix ''|1|'' cand = None"
    using no [of "CHR ''|''"] by (cases cand) auto
  then show ?thesis
    using assms(3) no by (simp add: host_field_matches_def split_char_none known_hosts_glob_equivalent glob_literal)
qed

definition key_words :: "string \<times> string \<Rightarrow> bool" where
  "key_words k = (fst k \<noteq> [] \<and> snd k \<noteq> [] \<and> list_all visible (fst k) \<and> list_all visible (snd k))"

definition key_text :: "string \<times> string \<Rightarrow> string" where
  "key_text k = fst k @ '' '' @ snd k"

lemma presented_key: "key_words k \<Longrightarrow> presented_words (key_text k) = Some k"
  using split_ws_word [of "snd k" _ "[]"]
  by (simp add: presented_words_def key_text_def key_words_def split_ws_word split_ws_space del: split_ws.simps(3))

definition pin_line :: "string \<Rightarrow> string \<times> string \<Rightarrow> string" where
  "pin_line cand k = cand @ '' '' @ canonical_key_type (fst k) @ '' '' @ snd k"

lemma canonical_visible: "key_words k \<Longrightarrow> canonical_key_type (fst k) \<noteq> [] \<and> list_all visible (canonical_key_type (fst k))"
  by (auto simp: key_words_def canonical_key_type_def visible_def)

lemma canonical_idem [simp]: "canonical_key_type (canonical_key_type t) = canonical_key_type t"
  by (simp add: canonical_key_type_def)

lemma pin_line_shape:
  assumes "cand \<noteq> []" "list_all host_char cand" "key_words k"
  shows "pin_line cand k \<noteq> []" "visible (hd (pin_line cand k))" "visible (last (pin_line cand k))"
    "CHR 0x0A \<notin> set (pin_line cand k)" "\<not> starts_with (pin_line cand k) ''#''" "\<not> starts_with (pin_line cand k) ''@''"
    "split_ws 0 [] (pin_line cand k) = [cand, canonical_key_type (fst k), snd k]"
proof -
  have v: "list_all visible cand" using assms(2) host_char_visible by (auto simp: list_all_iff)
  have k: "snd k \<noteq> []" "list_all visible (snd k)" using assms(3) by (simp_all add: key_words_def)
  note c = canonical_visible [OF assms(3)]
  obtain h cs where cand: "cand = h # cs" "host_char h" using assms(1,2) by (cases cand) auto
  have nl: "\<not> visible (CHR 0x0A)" by (simp add: visible_def)
  show "pin_line cand k \<noteq> []" "visible (hd (pin_line cand k))"
    "\<not> starts_with (pin_line cand k) ''#''" "\<not> starts_with (pin_line cand k) ''@''"
    using cand host_char_visible by (auto simp: pin_line_def)
  show "visible (last (pin_line cand k))" using k by (simp add: pin_line_def list_all_iff)
  show "CHR 0x0A \<notin> set (pin_line cand k)" using v k c nl by (auto simp: pin_line_def list_all_iff)
  show "split_ws 0 [] (pin_line cand k) = [cand, canonical_key_type (fst k), snd k]"
    unfolding pin_line_def using v k c assms(1) by (intro split_three_words) simp
qed

lemma pin_line_classified:
  assumes "cand \<noteq> []" "list_all host_char cand" "key_words k" "CHR ''*'' \<notin> set d"
  shows "classify_store_line cr [d] store n (pin_line cand k) =
    (if cand = d then StoreEntry
       \<lparr>kh_host_field = cand, kh_key_type = canonical_key_type (fst k), kh_key_data = snd k, kh_store = store,
        kh_revoked = False, kh_line_number = n\<rparr> else NoEntry)"
proof -
  note shape = pin_line_shape [OF assms(1-3)]
  have "trim (pin_line cand k) = pin_line cand k" using shape by (simp add: trim_visible)
  moreover have "marker_and_rest (pin_line cand k) = Some (None, pin_line cand k)"
    using shape(6) by (simp add: marker_and_rest_def starts_with_def split: option.splits)
  ultimately show ?thesis
    using shape literal_field [OF assms(1,2,4)]
    by (simp add: classify_store_line_def Let_def)
qed

lemma store_lines_append:
  assumes "terminated s" "CHR 0x0A \<notin> set l" "l \<noteq> []" "visible (last l)"
  shows "store_lines cr cands store (s @ l @ [CHR 0x0A]) =
     store_lines cr cands store s @ [classify_store_line cr cands store (Suc (length (lines s))) l]"
proof -
  have "lines (s @ l @ [CHR 0x0A]) = lines s @ [l]"
    using assms lines_line [of l "[]"] by (simp add: lines_append strip_cr_visible lines.simps [of "[]"])
  moreover have "[1..<Suc (length (lines s @ [l]))] = [1..<Suc (length (lines s))] @ [Suc (length (lines s))]"
    by simp
  ultimately show ?thesis
    unfolding store_lines_def by (simp only: zip_append length_upt) simp
qed

lemma store_lines_Nil [simp]: "store_lines cr cands store [] = []"
  by (simp add: store_lines_def lines.simps [of "[]"])

lemma line_parts_append [simp]:
  "line_entries (xs @ ys) = line_entries xs @ line_entries ys"
  "line_markers (xs @ ys) = line_markers xs @ line_markers ys"
  by (simp_all add: line_entries_def line_markers_def)

lemma line_parts_one [simp]:
  "line_entries [] = []" "line_markers [] = []"
  "line_entries [StoreEntry e] = [e]" "line_entries [NoEntry] = []"
  "line_markers [StoreEntry e] = []" "line_markers [NoEntry] = []"
  by (simp_all add: line_entries_def line_markers_def)

lemma store_files_differ: "path_join home ''.ssh/known_hosts'' \<noteq> path_join home ''.owlzops/known_hosts''"
  by (simp add: path_join_def)

definition store_text :: "store_read \<Rightarrow> string" where
  "store_text r = (case r of StoreText t \<Rightarrow> t | _ \<Rightarrow> [])"

lemma load_entries_texts:
  "load_entries cr read sf pf cands = Inr x \<longleftrightarrow>
     (\<nexists>e. read sf = StoreError e) \<and> (\<nexists>e. read pf = StoreError e)
     \<and> (let ls = store_lines cr cands SystemStore (store_text (read sf))
               @ store_lines cr cands PinStore (store_text (read pf))
        in x = (line_entries ls, first_opt (line_markers ls)))"
  by (auto simp: load_entries_def store_text_def Let_def split: store_read.splits)

text \<open>Appending a line to a terminated pin store adds exactly what that line says.\<close>

lemma new_after_append:
  assumes new: "known_hosts_new cr read (Some home) host port = Inr c"
    and line: "CHR 0x0A \<notin> set l" "l \<noteq> []" "visible (last l)"
    and pin: "terminated (store_text (read (kc_pin_file c)))"
    and cls: "\<And>n. line_markers [classify_store_line cr (host_candidates host port) PinStore n l] = []"
  obtains n where
    "known_hosts_new cr (read(kc_pin_file c := StoreText (store_text (read (kc_pin_file c)) @ l @ [CHR 0x0A])))
       (Some home) host port
     = Inr (c\<lparr>kc_entries := kc_entries c @
                 line_entries [classify_store_line cr (host_candidates host port) PinStore n l]\<rparr>)"
proof -
  let ?sf = "path_join home ''.ssh/known_hosts''" and ?pf = "path_join home ''.owlzops/known_hosts''"
  let ?cands = "host_candidates host port"
  let ?read = "read(?pf := StoreText (store_text (read ?pf) @ l @ [CHR 0x0A]))"
  obtain x where load: "load_entries cr read ?sf ?pf ?cands = Inr x"
    and c: "c = \<lparr>kc_host = host, kc_port = port, kc_system_file = ?sf, kc_pin_file = ?pf,
                 kc_entries = fst x, kc_unsupported_marker = snd x\<rparr>"
    using new by (auto simp: known_hosts_new_def Let_def split: sum.splits prod.splits)
  let ?n = "Suc (length (lines (store_text (read ?pf))))"
  have texts: "store_text (?read ?sf) = store_text (read ?sf)" "?read ?sf = read ?sf"
    "store_text (?read ?pf) = store_text (read ?pf) @ l @ [CHR 0x0A]"
    using store_files_differ [of home] by (simp_all add: store_text_def)
  have "store_lines cr ?cands PinStore (store_text (?read ?pf))
      = store_lines cr ?cands PinStore (store_text (read ?pf)) @ [classify_store_line cr ?cands PinStore ?n l]"
    using store_lines_append [OF _ line, of "store_text (read ?pf)"] pin c texts(3) by simp
  then have "load_entries cr ?read ?sf ?pf ?cands =
      Inr (fst x @ line_entries [classify_store_line cr ?cands PinStore ?n l], snd x)"
    using load cls [of ?n] texts unfolding load_entries_texts Let_def by simp
  then have "known_hosts_new cr ?read (Some home) host port
      = Inr (c\<lparr>kc_entries := kc_entries c @ line_entries [classify_store_line cr ?cands PinStore ?n l]\<rparr>)"
    by (simp add: known_hosts_new_def Let_def c)
  then show ?thesis using that [of ?n] by (simp add: c)
qed

lemma new_fields:
  assumes "known_hosts_new cr read (Some home) host port = Inr c"
  shows "kc_host c = host" "kc_port c = port"
  using assms by (auto simp: known_hosts_new_def Let_def split: sum.splits prod.splits)

text \<open>Whether a checker made from the stores accepts a key, and what it writes.\<close>

definition accepts ::
  "kh_crypto \<Rightarrow> (string \<Rightarrow> store_read) \<Rightarrow> string \<Rightarrow> string \<Rightarrow> u16 \<Rightarrow> string \<times> string \<Rightarrow> pin_io \<Rightarrow> bool \<times> string" where
  "accepts cr read home host port k io =
     (case known_hosts_new cr read (Some home) host port of
        Inl e \<Rightarrow> (False, [])
      | Inr c \<Rightarrow> (case verify c (Inr (key_text k)) io of (r, written, note) \<Rightarrow> (r = Inr True, written)))"

definition same_host_key :: "string \<times> string \<Rightarrow> string \<times> string \<Rightarrow> bool" where
  "same_host_key k k' = (canonical_key_type (fst k) = canonical_key_type (fst k') \<and> snd k = snd k')"

lemma written_pin:
  assumes host: "validate_host host = None"
    and new: "known_hosts_new cr read (Some home) host port = Inr c"
    and key: "key_words k" "unknown_host c"
    and first: "verify c (Inr (key_text k)) PinWritten = (Inr True, written, None)"
  shows "\<not> revoked_for c k" "written = pin_line (hd (host_candidates host port)) k @ [CHR 0x0A]"
proof -
  note presented = presented_key [OF key(1)]
  show "\<not> revoked_for c k"
    using first verify_cases(1) [OF presented, of c PinWritten] by auto
  then show "written = pin_line (hd (host_candidates host port)) k @ [CHR 0x0A]"
    using first verify_cases(5) [OF presented _ key(2), of PinWritten] new_fields [OF new]
    by (simp add: pin_line_def Let_def)
qed

text \<open>
  C10: Trust on first use is trust once. When a validated host is unknown and its key was pinned in full
  to a terminated store, the next checker for that host accepts exactly this key, and writes nothing.
\<close>

theorem pin_is_remembered:
  assumes host: "validate_host host = None"
    and new: "known_hosts_new cr read (Some home) host port = Inr c"
    and key: "key_words k" "unknown_host c" "key_words k'"
    and pin: "terminated (store_text (read (kc_pin_file c)))"
    and first: "verify c (Inr (key_text k)) PinWritten = (Inr True, written, None)"
  shows "accepts cr (read(kc_pin_file c := StoreText (store_text (read (kc_pin_file c)) @ written)))
     home host port k' io = (same_host_key k k', [])"
proof -
  obtain cand where cand: "host_candidates host port = [cand]" "cand \<noteq> []" "list_all host_char cand"
    using candidate_chars [OF host] by blast
  have no_star: "CHR ''*'' \<notin> set cand" using cand(3) by (auto simp: list_all_iff)
  note shape = pin_line_shape [OF cand(2,3) key(1)]
  note cls = pin_line_classified [OF cand(2,3) key(1) no_star, of cr PinStore]
  note w = written_pin [OF host new key(1,2) first]
  obtain n where new': "known_hosts_new cr
       (read(kc_pin_file c := StoreText (store_text (read (kc_pin_file c)) @ pin_line cand k @ [CHR 0x0A])))
       (Some home) host port
     = Inr (c\<lparr>kc_entries := kc_entries c @
                 line_entries [classify_store_line cr (host_candidates host port) PinStore n (pin_line cand k)]\<rparr>)"
    by (rule new_after_append [OF new shape(4,1,3) pin]) (simp_all add: cand cls)
  define e where "e = \<lparr>kh_host_field = cand, kh_key_type = canonical_key_type (fst k), kh_key_data = snd k,
    kh_store = PinStore, kh_revoked = False, kh_line_number = n\<rparr>"
  define c' where "c' = c\<lparr>kc_entries := kc_entries c @ [e]\<rparr>"
  have revoked: "list_all kh_revoked (kc_entries c)" using key(2) by (simp add: unknown_host_def)
  have pinned: "pinned_for c' k' \<longleftrightarrow> same_host_key k k'"
    using revoked by (auto simp: pinned_for_def c'_def e_def same_key_def same_host_key_def list_ex_iff list_all_iff)
  have rev': "revoked_for c' k' \<longleftrightarrow> revoked_for c k'"
    by (simp add: revoked_for_def c'_def e_def)
  have "same_host_key k k' \<Longrightarrow> revoked_for c k' = revoked_for c k"
    by (simp add: revoked_for_def same_key_def same_host_key_def)
  then have no_rev: "same_host_key k k' \<Longrightarrow> \<not> revoked_for c' k'" using rev' w(1) by simp
  have known: "\<not> unknown_host c'" by (simp add: unknown_host_def c'_def e_def)
  have "fst (verify c' (Inr (key_text k')) io) = Inr True \<longleftrightarrow> same_host_key k k'"
    "fst (snd (verify c' (Inr (key_text k')) io)) = []"
    using verify_accepts [OF presented_key [OF key(3)], of c' io] known pinned no_rev by auto
  then show ?thesis
    using new' w(2) by (auto simp: accepts_def cand cls c'_def e_def split: prod.splits)
qed

text \<open>
  A pin speaks for one host only: after it, every other validated host, and every other port, has
  the trust it had before.
\<close>

theorem pins_are_separate:
  assumes host: "validate_host host = None" "validate_host other = None"
    and new: "known_hosts_new cr read (Some home) host port = Inr c"
    and key: "key_words k" "unknown_host c"
    and pin: "terminated (store_text (read (kc_pin_file c)))"
    and first: "verify c (Inr (key_text k)) PinWritten = (Inr True, written, None)"
    and differ: "host_candidates other oport \<noteq> host_candidates host port"
  shows "accepts cr (read(kc_pin_file c := StoreText (store_text (read (kc_pin_file c)) @ written)))
     home other oport k' io = accepts cr read home other oport k' io"
proof -
  obtain cand where cand: "host_candidates host port = [cand]" "cand \<noteq> []" "list_all host_char cand"
    using candidate_chars [OF host(1)] by blast
  obtain oc where oc: "host_candidates other oport = [oc]" "list_all host_char oc"
    using candidate_chars [OF host(2)] by blast
  have no_star: "CHR ''*'' \<notin> set oc" using oc(2) by (auto simp: list_all_iff)
  note shape = pin_line_shape [OF cand(2,3) key(1)]
  have cls: "classify_store_line cr [oc] PinStore n (pin_line cand k) = NoEntry" for n
    using pin_line_classified [OF cand(2,3) key(1) no_star] differ cand(1) oc(1) by simp
  note w = written_pin [OF host(1) new key first]
  obtain c0 where c0: "known_hosts_new cr read (Some home) other oport = Inr c0" "kc_pin_file c0 = kc_pin_file c"
    using new by (auto simp: known_hosts_new_def load_entries_def Let_def
        split: sum.splits prod.splits store_read.splits)
  obtain n where "known_hosts_new cr
       (read(kc_pin_file c0 := StoreText (store_text (read (kc_pin_file c0)) @ pin_line cand k @ [CHR 0x0A])))
       (Some home) other oport
     = Inr (c0\<lparr>kc_entries := kc_entries c0 @
                 line_entries [classify_store_line cr (host_candidates other oport) PinStore n (pin_line cand k)]\<rparr>)"
    by (rule new_after_append [OF c0(1) shape(4,1,3)]) (simp_all add: oc(1) cls pin c0(2))
  then show ?thesis
    using c0 w(2) by (simp add: accepts_def cand oc(1) cls)
qed

definition sample_crypto :: kh_crypto where
  "sample_crypto = \<lparr>kc_base64 = (\<lambda>_. None), kc_hmac_sha1 = (\<lambda>_ _. None)\<rparr>"

definition sample_checker :: known_hosts_checker where
  "sample_checker = \<lparr>kc_host = ''web1'', kc_port = 22, kc_system_file = ''/root/.ssh/known_hosts'',
     kc_pin_file = ''/root/.owlzops/known_hosts'', kc_entries = [], kc_unsupported_marker = None\<rparr>"

lemma sample_new: "known_hosts_new sample_crypto (\<lambda>_. StoreMissing) (Some ''/root'') ''web1'' 22 = Inr sample_checker"
  by (simp add: known_hosts_new_def load_entries_def line_entries_def line_markers_def first_opt_def
      sample_checker_def path_join_def ends_with_def)

text \<open>
  C6: A server key is accepted in two cases only: a plain entry for the host has exactly this key, or
  the stores hold no plain entry and no unevaluated marker for the host at all; never when the key is
  revoked for it. In every other case nothing is written and no note is left. In the second case what
  is written is the one line that pins this key to this host, or, when the append does not succeed, a
  beginning of it; and a note is left exactly when it did not succeed, so a pin that was not written
  in full always leaves one.
\<close>

theorem accepted_keys:
  assumes "presented_words text = Some k"
    and "verify c (Inr text) io = (answer, written, note)"
    and "pin = pin_line (hd (host_candidates (kc_host c) (kc_port c))) k @ [CHR 0x0A]"
  shows "(answer = Inr True \<longleftrightarrow> \<not> revoked_for c k \<and> (pinned_for c k \<or> unknown_host c))
    \<and> (if \<not> revoked_for c k \<and> unknown_host c
       then (\<exists>lost. pin = written @ lost) \<and> (note = None \<longleftrightarrow> io = PinWritten)
            \<and> (written \<noteq> pin \<longrightarrow> note \<noteq> None)
       else written = [] \<and> note = None)"
proof (cases "\<not> revoked_for c k \<and> unknown_host c")
  case True
  have "\<exists>lost. pin = take n pin @ lost" for n by (metis append_take_drop_id)
  then show ?thesis
    using verify_cases(5) [OF assms(1), of c io] verify_accepts [OF assms(1), of c io] True assms(2,3)
    by (auto simp: Let_def pin_line_def split: pin_io.splits)
next
  case False
  then show ?thesis using verify_accepts [OF assms(1), of c io] assms(2) by auto
qed

theorem accepted_keys_witness:
  "fst (verify sample_checker (Inr ''ssh-ed25519 AAAA'') PinWritten) = Inr True
   \<and> fst (verify (sample_checker\<lparr>kc_unsupported_marker := Some ''cert-authority''\<rparr>)
        (Inr ''ssh-ed25519 AAAA'') PinWritten) \<noteq> Inr True
   \<and> snd (snd (verify sample_checker (Inr ''ssh-ed25519 AAAA'') (PinWriteFailed 3 ''storage full''))) \<noteq> None"
proof -
  let ?marked = "sample_checker\<lparr>kc_unsupported_marker := Some ''cert-authority''\<rparr>"
  have words: "presented_words ''ssh-ed25519 AAAA'' = Some (''ssh-ed25519'', ''AAAA'')"
    using presented_key [of "(''ssh-ed25519'', ''AAAA'')"]
    by (simp add: key_words_def key_text_def visible_def)
  have "fst (verify sample_checker (Inr ''ssh-ed25519 AAAA'') PinWritten) = Inr True"
    "snd (snd (verify sample_checker (Inr ''ssh-ed25519 AAAA'') (PinWriteFailed 3 ''storage full''))) \<noteq> None"
    "fst (verify ?marked (Inr ''ssh-ed25519 AAAA'') PinWritten) \<noteq> Inr True"
    using accepted_keys [OF words _ refl, of sample_checker PinWritten]
      accepted_keys [OF words _ refl, of sample_checker "PinWriteFailed 3 ''storage full''"]
      accepted_keys [OF words _ refl, of ?marked PinWritten]
    by (cases "verify sample_checker (Inr ''ssh-ed25519 AAAA'') PinWritten";
      cases "verify sample_checker (Inr ''ssh-ed25519 AAAA'') (PinWriteFailed 3 ''storage full'')";
      cases "verify ?marked (Inr ''ssh-ed25519 AAAA'') PinWritten";
      simp add: sample_checker_def unknown_host_def revoked_for_def pinned_for_def)+
  then show ?thesis by blast
qed

lemma sample_first:
  "verify sample_checker (Inr (key_text (''ssh-ed25519'', ''AAAA''))) PinWritten
     = (Inr True, ''web1 ssh-ed25519 AAAA'' @ [CHR 0x0A], None)"
proof -
  have "key_words (''ssh-ed25519'', ''AAAA'')" by code_simp
  then show ?thesis
    using verify_cases(5) [OF presented_key, of "(''ssh-ed25519'', ''AAAA'')" sample_checker PinWritten]
    by (simp add: sample_checker_def revoked_for_def unknown_host_def host_candidates_def canonical_key_type_def)
qed

theorem pin_is_remembered_witness:
  "accepts sample_crypto
     ((\<lambda>_. StoreMissing)(''/root/.owlzops/known_hosts'' := StoreText (''web1 ssh-ed25519 AAAA'' @ [CHR 0x0A])))
     ''/root'' ''web1'' 22 (''ssh-rsa'', ''BBBB'') PinWritten = (False, [])"
proof -
  have "validate_host ''web1'' = None" "key_words (''ssh-ed25519'', ''AAAA'')" "key_words (''ssh-rsa'', ''BBBB'')"
    by code_simp+
  then show ?thesis
    using pin_is_remembered [OF _ sample_new _ _ _ _ sample_first, of "(''ssh-rsa'', ''BBBB'')" PinWritten]
    by (simp add: sample_checker_def unknown_host_def store_text_def terminated_def same_host_key_def canonical_key_type_def)
qed

theorem pins_are_separate_witness:
  "accepts sample_crypto
     ((\<lambda>_. StoreMissing)(''/root/.owlzops/known_hosts'' := StoreText (''web1 ssh-ed25519 AAAA'' @ [CHR 0x0A])))
     ''/root'' ''web1'' 2222 (''ssh-rsa'', ''BBBB'') PinWritten
   = accepts sample_crypto (\<lambda>_. StoreMissing) ''/root'' ''web1'' 2222 (''ssh-rsa'', ''BBBB'') PinWritten"
proof -
  have "validate_host ''web1'' = None" "key_words (''ssh-ed25519'', ''AAAA'')" by code_simp+
  moreover have "host_candidates ''web1'' 2222 \<noteq> host_candidates ''web1'' 22" by (simp add: host_candidates_def)
  ultimately show ?thesis
    using pins_are_separate [OF _ _ sample_new _ _ _ sample_first, of "''web1''" 2222 "(''ssh-rsa'', ''BBBB'')" PinWritten]
    by (simp add: sample_checker_def unknown_host_def store_text_def terminated_def)
qed

text \<open>
  A torn pin breaks the next one. When the append for one host was cut short (a full disk), the store
  is not terminated, the pin of the next host is glued to the torn line, and that host is unknown again:
  a different key is then trusted on first use.
\<close>

theorem torn_pin_loses_the_next:
  "snd (accepts cr (\<lambda>_. StoreMissing) ''/root'' ''web1'' 22 (''ssh-ed25519'', ''AAAA'') (PinWriteFailed 18 e))
     = ''web1 ssh-ed25519 A''
   \<and> accepts cr
       (\<lambda>f. if f = ''/root/.owlzops/known_hosts''
            then StoreText (''web1 ssh-ed25519 A'' @ ''web2 ssh-ed25519 BBBB'' @ [CHR 0x0A]) else StoreMissing)
       ''/root'' ''web2'' 22 (''ssh-ed25519'', ''EVIL'') PinWritten
     = (True, ''web2 ssh-ed25519 EVIL'' @ [CHR 0x0A])"
proof -
  let ?glued = "''web1 ssh-ed25519 Aweb2 ssh-ed25519 BBBB''"
  have missing: "known_hosts_new cr (\<lambda>_. StoreMissing) (Some ''/root'') ''web1'' 22 = Inr sample_checker"
    by (simp add: known_hosts_new_def load_entries_def line_entries_def line_markers_def
        first_opt_def sample_checker_def path_join_def ends_with_def)
  have "key_words (''ssh-ed25519'', ''AAAA'')" "key_words (''ssh-ed25519'', ''EVIL'')" by code_simp+
  note keys = this [THEN presented_key]
  have "\<not> host_field_matches cr ''web1'' [''web2'']"
    using literal_field [of "''web1''" "''web2''" cr] by (simp add: host_char_def is_ascii_alphanumeric_def)
  moreover have "split_ws 0 [] (''web1'' @ '' '' @ ''ssh-ed25519 Aweb2 ssh-ed25519 BBBB'') =
      ''web1'' # split_ws 0 [] ''ssh-ed25519 Aweb2 ssh-ed25519 BBBB''"
    using split_ws_word [of "''web1''" "[]" "'' '' @ ''ssh-ed25519 Aweb2 ssh-ed25519 BBBB''"]
      split_ws_space [of "''web1''" "''ssh-ed25519 Aweb2 ssh-ed25519 BBBB''"]
    by (simp add: visible_def del: split_ws.simps)
  moreover have "trim ?glued = ?glued" by (rule trim_visible) (simp_all add: visible_def)
  ultimately have "classify_store_line cr [''web2''] PinStore n ?glued = NoEntry" for n
    by (simp add: classify_store_line_def marker_and_rest_def del: split_ws.simps split: list.splits)
  then have "store_lines cr [''web2''] PinStore (?glued @ [CHR 0x0A]) = [NoEntry]"
    using store_lines_append [of "[]" ?glued cr "[''web2'']" PinStore]
    by (simp add: terminated_def visible_def)
  then have glued: "known_hosts_new cr
       (\<lambda>f. if f = ''/root/.owlzops/known_hosts''
            then StoreText (''web1 ssh-ed25519 A'' @ ''web2 ssh-ed25519 BBBB'' @ [CHR 0x0A]) else StoreMissing)
       (Some ''/root'') ''web2'' 22 = Inr (sample_checker\<lparr>kc_host := ''web2''\<rparr>)"
    by (simp add: known_hosts_new_def load_entries_def line_entries_def line_markers_def
        first_opt_def sample_checker_def path_join_def ends_with_def host_candidates_def)
  show ?thesis
    unfolding accepts_def missing glued sum.case
    using verify_cases(5) [OF keys(1), of sample_checker "PinWriteFailed 18 e"]
      verify_cases(5) [OF keys(2), of "sample_checker\<lparr>kc_host := ''web2''\<rparr>" PinWritten]
    by (simp add: sample_checker_def revoked_for_def unknown_host_def host_candidates_def canonical_key_type_def)
qed

end
