(* ===== verification/SshConfig.thy ===== *)
theory SshConfig
  imports KnownHosts
begin

text \<open>
  \<open>src/ssh_config.rs\<close>: the blocks of an SSH client configuration, and the hosts that patterns select
  from them.
\<close>

section \<open>Lines\<close>

definition split_kv :: "string \<Rightarrow> string \<times> string" where
  "split_kv line0 =
     (let line = trim_start line0 in
      case split_once (CHR ''='') line of
        Some (k, v) \<Rightarrow> (trim_end k, v)
      | None \<Rightarrow> (let k = until_ws line in (k, drop (length k) line)))"

record host_block =
  hb_aliases :: "string list"
  hb_host_name :: "string option"

text \<open>The state of the loop over the lines.\<close>

record config_state =
  cs_blocks :: "host_block list"
  cs_current :: "host_block option"
  cs_warnings :: "string list"
  cs_includes :: nat
  cs_matches :: nat

definition flush :: "config_state \<Rightarrow> config_state" where
  "flush s =
     (case cs_current s of
        None \<Rightarrow> s
      | Some b \<Rightarrow> s\<lparr>cs_blocks := cs_blocks s @ [b], cs_current := None\<rparr>)"

definition config_step :: "nat \<times> string \<Rightarrow> config_state \<Rightarrow> config_state" where
  "config_step numbered s =
     (case numbered of (n, raw) \<Rightarrow>
        let line = trim raw in
        if line = [] \<or> starts_with line ''#'' then s
        else
          (case split_kv line of (key, value0) \<Rightarrow>
             let key_lower = map ascii_lower key; value = trim value0 in
             if key_lower = ''host'' then
               (flush s)\<lparr>cs_current := Some \<lparr>hb_aliases = split_ws 0 [] value, hb_host_name = None\<rparr>\<rparr>
             else if key_lower = ''hostname'' then
               (case cs_current s of
                  Some b \<Rightarrow>
                    (if hb_host_name b = None then
                       (case split_ws 0 [] value of
                          [] \<Rightarrow> s
                        | first # _ \<Rightarrow> s\<lparr>cs_current := Some (b\<lparr>hb_host_name := Some first\<rparr>)\<rparr>)
                     else s)
                | None \<Rightarrow>
                    s\<lparr>cs_warnings := cs_warnings s @
                      [''line '' @ show_nat n @ '': HostName outside any Host block '' @ em_dash @ '' ignored'']\<rparr>)
             else if key_lower = ''include'' then s\<lparr>cs_includes := cs_includes s + 1\<rparr>
             else if key_lower = ''match'' then flush (s\<lparr>cs_matches := cs_matches s + 1\<rparr>)
             else s))"

definition parse_config :: "string \<Rightarrow> config_state" where
  "parse_config content =
     flush (fold config_step (zip [0..<length (lines content)] (lines content))
       \<lparr>cs_blocks = [], cs_current = None, cs_warnings = [], cs_includes = 0, cs_matches = 0\<rparr>)"

section \<open>Selection\<close>

text \<open>The alias of a block that a pattern selects, and what the block then contributes.\<close>

definition matched_alias :: "string list \<Rightarrow> host_block \<Rightarrow> string option" where
  "matched_alias patterns b =
     find (\<lambda>a. \<not> starts_with a ''!'' \<and> list_ex (\<lambda>p. glob_match p a) patterns) (hb_aliases b)"

datatype selection = NotSelected | SelectedHost string | GlobWithoutHost

definition select_block :: "string list \<Rightarrow> host_block \<Rightarrow> selection" where
  "select_block patterns b =
     (case matched_alias patterns b of
        None \<Rightarrow> NotSelected
      | Some alias_name \<Rightarrow>
          (case hb_host_name b of
             Some h \<Rightarrow> SelectedHost h
           | None \<Rightarrow>
               if CHR ''*'' \<notin> set alias_name \<and> CHR ''?'' \<notin> set alias_name then SelectedHost alias_name
               else GlobWithoutHost))"

fun keep_first :: "string set \<Rightarrow> string list \<Rightarrow> string list" where
  "keep_first seen [] = []"
| "keep_first seen (h # hs) =
     (if h \<in> seen then keep_first seen hs else h # keep_first (insert h seen) hs)"

definition selected_hosts :: "selection list \<Rightarrow> string list" where
  "selected_hosts ss = concat (map (\<lambda>s. case s of SelectedHost h \<Rightarrow> [h] | _ \<Rightarrow> []) ss)"

definition extract_hosts :: "string \<Rightarrow> string list \<Rightarrow> string list \<times> string list" where
  "extract_hosts content patterns =
     (let s = parse_config content;
          selections = map (select_block patterns) (cs_blocks s);
          skipped = length (filter (\<lambda>x. x = GlobWithoutHost) selections)
      in (keep_first {} (selected_hosts selections),
          cs_warnings s
          @ (if 0 < cs_includes s then
               [''ssh config contains '' @ show_nat (cs_includes s) @ '' Include directive(s); not followed in this version ''
                @ em_dash @ '' hosts from included files are NOT scanned''] else [])
          @ (if 0 < cs_matches s then
               [''ssh config contains '' @ show_nat (cs_matches s) @ '' Match block(s); not evaluated '' @ em_dash
                @ '' hosts conditional on connection context are NOT scanned''] else [])
          @ (if 0 < skipped then
               [show_nat skipped @ '' Host block(s) matched the pattern but had no HostName and a glob alias ''
                @ ''(`Host *`, `Host web-*`) '' @ em_dash @ '' nothing to scan''] else [])))"

definition CAP_SSH_CONFIG :: nat where "CAP_SSH_CONFIG = 1024 * 1024"

text \<open>\<open>load_hosts\<close>: \<open>opened\<close> is the file, \<open>render\<close> the text of an error.\<close>

definition load_hosts ::
  "'e opened \<Rightarrow> ('e io_failure \<Rightarrow> string) \<Rightarrow> string \<Rightarrow> string list \<Rightarrow> string + string list \<times> string list" where
  "load_hosts opened render path patterns =
     (case read_file_capped_regular opened CAP_SSH_CONFIG of
        Inl e \<Rightarrow> Inl (''cannot read '' @ path @ '': '' @ render e)
      | Inr (content, truncated) \<Rightarrow>
          if truncated then
            Inl (path @ '' exceeds '' @ show_nat CAP_SSH_CONFIG @ '' bytes '' @ em_dash
              @ '' refusing (an ssh config this size is a bug, not a policy)'')
          else Inr (extract_hosts content patterns))"

section \<open>Blocks written and read back\<close>

definition config_word :: "string \<Rightarrow> bool" where
  "config_word w = (w \<noteq> [] \<and> list_all (\<lambda>c. visible c \<and> c \<noteq> CHR ''='') w)"

definition block_ok :: "host_block \<Rightarrow> bool" where
  "block_ok b =
     (hb_aliases b \<noteq> [] \<and> list_all config_word (hb_aliases b)
      \<and> (case hb_host_name b of None \<Rightarrow> True | Some h \<Rightarrow> config_word h))"

definition block_text :: "host_block \<Rightarrow> string" where
  "block_text b =
     ''Host'' @ '' '' @ join '' '' (hb_aliases b) @ [CHR 0x0A]
     @ (case hb_host_name b of None \<Rightarrow> [] | Some h \<Rightarrow> ''  '' @ ''HostName'' @ '' '' @ h @ [CHR 0x0A])"

lemma split_ws_join:
  "list_all (\<lambda>w. w \<noteq> [] \<and> list_all visible w) ws \<Longrightarrow> split_ws 0 [] (join '' '' ws) = ws"
proof (induction "'' ''" ws rule: join.induct)
  case (2 x)
  then show ?case using split_ws_word [of x "[]" "[]"] by simp
next
  case (3 x y xs)
  then show ?case
    using split_ws_word [of x "[]"] split_ws_space [of x "join '' '' (y # xs)"]
    by (simp del: split_ws.simps(3))
qed simp

lemma config_word_visible: "config_word w \<Longrightarrow> w \<noteq> [] \<and> list_all visible w"
  by (simp add: config_word_def list_all_iff)

lemma until_ws_word: "list_all visible w \<Longrightarrow> until_ws (w @ CHR '' '' # s) = w"
  by (induction w) (simp_all add: ws_width_visible ws_width_space)

lemma trim_by_space [simp]: "trim_by white_space (CHR '' '' # s) = trim_by white_space s"
proof -
  have "strip_one (filter (\<lambda>w. w \<noteq> []) white_space) (CHR '' '' # s) = Some s"
    by (simp add: white_space_literals)
  then show ?thesis by (simp add: trim_by.simps [of white_space "CHR '' '' # s"])
qed

lemma trim_space [simp]: "trim (CHR '' '' # s) = trim s"
  by (simp add: trim_def)

lemma join_chars: "(\<And>w c. w \<in> set ws \<Longrightarrow> c \<in> set w \<Longrightarrow> P c) \<Longrightarrow> P (CHR '' '') \<Longrightarrow> c \<in> set (join '' '' ws) \<Longrightarrow> P c"
  by (induction "'' ''" ws rule: join.induct) auto

lemma config_word_ends: "config_word w \<Longrightarrow> w \<noteq> [] \<and> visible (hd w) \<and> visible (last w)"
  unfolding config_word_def list_all_iff by auto

lemma join_words_ends:
  "list_all config_word ws \<Longrightarrow> ws \<noteq> [] \<Longrightarrow>
     join '' '' ws \<noteq> [] \<and> visible (hd (join '' '' ws)) \<and> visible (last (join '' '' ws))"
proof (induction "'' ''" ws rule: join.induct)
  case (2 x)
  then show ?case using config_word_ends [of x] by simp
next
  case (3 x y xs)
  then show ?case using config_word_ends [of x] by (simp add: hd_append)
qed simp

lemma words_chars:
  assumes "list_all config_word ws" "c \<in> set (join '' '' ws)"
  shows "c \<noteq> CHR ''='' \<and> c \<noteq> CHR 0x0A"
proof -
  have "\<not> visible (CHR 0x0A)" by (simp add: visible_def)
  then show ?thesis
    using assms(1) join_chars [of ws "\<lambda>c. c \<noteq> CHR ''='' \<and> c \<noteq> CHR 0x0A", OF _ _ assms(2)]
    by (force simp: config_word_def list_all_iff)
qed

lemma split_kv_plain:
  assumes "list_all visible key" "key \<noteq> []" "CHR ''='' \<notin> set (key @ val)"
  shows "split_kv (key @ CHR '' '' # val) = (key, CHR '' '' # val)"
proof -
  have "trim_start (key @ CHR '' '' # val) = key @ CHR '' '' # val"
    using assms(1,2) by (cases key) (simp_all add: trim_start_visible)
  moreover have "split_once (CHR ''='') (key @ CHR '' '' # val) = None"
    using assms(3) by (intro split_once_None) auto
  ultimately show ?thesis
    using until_ws_word [OF assms(1), of val] by (simp add: split_kv_def)
qed

definition block_lines :: "host_block \<Rightarrow> string list" where
  "block_lines b =
     (''Host'' @ '' '' @ join '' '' (hb_aliases b))
     # (case hb_host_name b of None \<Rightarrow> [] | Some h \<Rightarrow> [''  '' @ ''HostName'' @ '' '' @ h])"

lemma config_keys:
  "list_all visible ''Host''" "list_all visible ''HostName''"
  by (simp_all add: visible_def)

lemma config_keys_lower:
  "map ascii_lower ''Host'' = ''host''" "map ascii_lower ''HostName'' = ''hostname''"
  by (simp_all add: ascii_lower_def char_of_def bit_simps)

text \<open>A trimmed line of a keyword and a val.\<close>

lemma config_step_keyword:
  assumes "list_all visible key" "key \<noteq> []" "hd key \<noteq> CHR ''#''" "CHR ''='' \<notin> set (key @ val)"
    and "val \<noteq> []" "visible (hd val)" "visible (last val)"
  shows "trim (key @ '' '' @ val) = key @ '' '' @ val" "split_kv (key @ '' '' @ val) = (key, '' '' @ val)"
    "trim ('' '' @ val) = val" "\<not> starts_with (key @ '' '' @ val) ''#''"
  using assms split_kv_plain [of key val] trim_visible [of "key @ '' '' @ val"] trim_visible [of val]
  by (auto simp: list_all_iff starts_with_def neq_Nil_conv)

lemma host_line_step:
  assumes "list_all config_word ws" "ws \<noteq> []"
  shows "config_step (n, ''Host'' @ '' '' @ join '' '' ws) s
     = (flush s)\<lparr>cs_current := Some \<lparr>hb_aliases = ws, hb_host_name = None\<rparr>\<rparr>"
proof -
  note e = join_words_ends [OF assms]
  have eq: "CHR ''='' \<notin> set (''Host'' @ join '' '' ws)" using words_chars [OF assms(1)] by auto
  have "split_ws 0 [] (join '' '' ws) = ws"
    using assms(1) config_word_visible by (intro split_ws_join) (auto simp: list_all_iff)
  then show ?thesis
    unfolding config_step_def
    using e config_step_keyword [OF config_keys(1) _ _ eq] config_keys_lower(1) by (simp add: Let_def)
qed

lemma host_name_step:
  assumes "config_word h" "cs_current s = Some b" "hb_host_name b = None"
  shows "config_step (n, ''  '' @ ''HostName'' @ '' '' @ h) s = s\<lparr>cs_current := Some (b\<lparr>hb_host_name := Some h\<rparr>)\<rparr>"
proof -
  have h: "h \<noteq> []" "list_all visible h" "CHR ''='' \<notin> set (''HostName'' @ h)"
    using assms(1) by (auto simp: config_word_def list_all_iff)
  then have ends: "visible (hd h)" "visible (last h)" by (simp_all add: list_all_iff)
  have "split_ws 0 [] h = [h]" using split_ws_word [OF h(2), of "[]" "[]"] h(1) by simp
  then show ?thesis
    unfolding config_step_def
    using config_step_keyword [OF config_keys(2) _ _ h(3) h(1) ends] config_keys_lower(2) assms(2,3)
    by (simp add: Let_def)
qed

lemma block_step:
  assumes "block_ok b" "length ns = length (block_lines b)"
  shows "fold config_step (zip ns (block_lines b)) s = (flush s)\<lparr>cs_current := Some b\<rparr>"
proof (cases "hb_host_name b")
  case None
  then obtain n where "ns = [n]" using assms(2) by (auto simp: block_lines_def length_Suc_conv)
  then show ?thesis
    using None assms(1) host_line_step [of "hb_aliases b" n s]
    by (simp add: block_lines_def block_ok_def)
next
  case (Some h)
  then obtain n m where "ns = [n, m]" using assms(2) by (auto simp: block_lines_def length_Suc_conv)
  then show ?thesis
    using Some assms(1) host_line_step [of "hb_aliases b" n s]
      host_name_step [of h "(flush s)\<lparr>cs_current := Some \<lparr>hb_aliases = hb_aliases b, hb_host_name = None\<rparr>\<rparr>" _ m]
    by (simp add: block_lines_def block_ok_def)
qed

lemma flush_flush [simp]: "flush ((flush s)\<lparr>cs_current := Some b\<rparr>) = (flush s)\<lparr>cs_blocks := cs_blocks (flush s) @ [b]\<rparr>"
  by (auto simp: flush_def split: option.splits)

lemma flush_none [simp]: "cs_current (flush s) = None"
  by (auto simp: flush_def split: option.splits)

lemma blocks_step:
  "list_all block_ok bs \<Longrightarrow> length ns = length (concat (map block_lines bs)) \<Longrightarrow>
     flush (fold config_step (zip ns (concat (map block_lines bs))) s) = (flush s)\<lparr>cs_blocks := cs_blocks (flush s) @ bs\<rparr>"
proof (induction bs arbitrary: ns s)
  case (Cons b bs)
  let ?n = "length (block_lines b)"
  have "zip ns (block_lines b @ concat (map block_lines bs))
      = zip (take ?n ns) (block_lines b) @ zip (drop ?n ns) (concat (map block_lines bs))"
    using Cons.prems(2) by (simp add: zip_append2)
  moreover have "length (take ?n ns) = ?n" "length (drop ?n ns) = length (concat (map block_lines bs))"
    using Cons.prems(2) by simp_all
  ultimately show ?case
    using Cons block_step [of b "take ?n ns" s] by simp
qed simp

lemma lines_blocks:
  "list_all block_ok bs \<Longrightarrow> lines (concat (map block_text bs)) = concat (map block_lines bs)"
proof (induction bs)
  case Nil
  then show ?case by (simp add: lines.simps [of "[]"])
next
  case (Cons b bs)
  then have ok: "list_all config_word (hb_aliases b)" "hb_aliases b \<noteq> []" by (auto simp: block_ok_def)
  note e = join_words_ends [OF ok]
  have "CHR 0x0A \<notin> set (''Host'' @ '' '' @ join '' '' (hb_aliases b))" using words_chars [OF ok(1)] by auto
  moreover have "strip_cr (''Host'' @ '' '' @ join '' '' (hb_aliases b)) = ''Host'' @ '' '' @ join '' '' (hb_aliases b)"
    using e by (intro strip_cr_visible) auto
  ultimately have host: "lines ((''Host'' @ '' '' @ join '' '' (hb_aliases b)) @ CHR 0x0A # r)
      = (''Host'' @ '' '' @ join '' '' (hb_aliases b)) # lines r" for r
    by (metis lines_line)
  show ?case
  proof (cases "hb_host_name b")
    case None
    then show ?thesis using Cons host by (simp add: block_text_def block_lines_def)
  next
    case (Some h)
    then have h: "h \<noteq> []" "list_all visible h" using Cons.prems by (auto simp: block_ok_def config_word_def list_all_iff)
    have "\<not> visible (CHR 0x0A)" by (simp add: visible_def)
    then have "CHR 0x0A \<notin> set (''  '' @ ''HostName'' @ '' '' @ h)" using h(2) by (auto simp: list_all_iff)
    moreover have "strip_cr (''  '' @ ''HostName'' @ '' '' @ h) = ''  '' @ ''HostName'' @ '' '' @ h"
      using h by (intro strip_cr_visible) (simp_all add: list_all_iff)
    ultimately have "lines ((''  '' @ ''HostName'' @ '' '' @ h) @ CHR 0x0A # r) = (''  '' @ ''HostName'' @ '' '' @ h) # lines r" for r
      by (metis lines_line)
    then show ?thesis using Cons host Some by (simp add: block_text_def block_lines_def)
  qed
qed

lemma parse_blocks:
  assumes "list_all block_ok bs"
  shows "parse_config (concat (map block_text bs))
     = \<lparr>cs_blocks = bs, cs_current = None, cs_warnings = [], cs_includes = 0, cs_matches = 0\<rparr>"
  unfolding parse_config_def lines_blocks [OF assms]
  using blocks_step [OF assms, of "[0..<length (concat (map block_lines bs))]"]
  by (simp add: flush_def)

lemma keep_first_set: "set (keep_first seen hs) = set hs - seen" "distinct (keep_first seen hs)"
  by (induction hs arbitrary: seen) auto

text \<open>
  A configuration written as blocks is read back as exactly those blocks, and the hosts selected from
  it are those the blocks contribute, each once: the \<open>HostName\<close> of a block with a matching alias, or its
  matching alias if that is a literal.
\<close>

theorem ssh_config_selection:
  assumes "list_all block_ok bs"
  shows "cs_blocks (parse_config (concat (map block_text bs))) = bs
    \<and> distinct (fst (extract_hosts (concat (map block_text bs)) patterns))
    \<and> set (fst (extract_hosts (concat (map block_text bs)) patterns))
        = {h. SelectedHost h \<in> select_block patterns ` set bs}"
proof -
  have "set (selected_hosts ss) = {h. SelectedHost h \<in> set ss}" for ss
    by (induction ss) (auto simp: selected_hosts_def split: selection.splits)
  then show ?thesis
    by (simp add: parse_blocks [OF assms] extract_hosts_def keep_first_set Let_def)
qed

theorem ssh_config_selection_witness:
  "set (fst (extract_hosts
       (concat (map block_text
          [\<lparr>hb_aliases = [''web1'', ''www''], hb_host_name = Some ''10.0.0.1''\<rparr>,
           \<lparr>hb_aliases = [''db''], hb_host_name = None\<rparr>])) [''w*'']))
     = {''10.0.0.1''}"
proof -
  have "list_all block_ok
      [\<lparr>hb_aliases = [''web1'', ''www''], hb_host_name = Some ''10.0.0.1''\<rparr>,
       \<lparr>hb_aliases = [''db''], hb_host_name = None\<rparr>]"
    by (simp add: block_ok_def config_word_def visible_def)
  note ssh_config_selection [OF this, of "[''w*'']"]
  then show ?thesis
    by (auto simp: select_block_def matched_alias_def)
qed

text \<open>
  A block without a \<open>HostName\<close> contributes its first matching alias only: the other hosts such a line
  names, though the patterns select them too, are dropped without a warning.
\<close>

theorem further_aliases_dropped:
  "extract_hosts (block_text \<lparr>hb_aliases = [''web1'', ''web2''], hb_host_name = None\<rparr>) [''web*'']
     = ([''web1''], [])"
proof -
  have "list_all block_ok [\<lparr>hb_aliases = [''web1'', ''web2''], hb_host_name = None\<rparr>]"
    by (simp add: block_ok_def config_word_def visible_def)
  from parse_blocks [OF this] show ?thesis
    by (simp add: extract_hosts_def select_block_def matched_alias_def selected_hosts_def)
qed

lemma match_with_equals: "config_step (n, ''Match exec x=1'') s = s"
proof -
  have "trim ''Match exec x=1'' = ''Match exec x=1''" by (rule trim_visible) (simp_all add: visible_def)
  moreover have "trim_start ''Match exec x=1'' = ''Match exec x=1''"
    by (rule trim_start_visible) (simp add: visible_def)
  moreover have "trim_end ''Match exec x'' = ''Match exec x''"
    using trim_by_visible [OF visible_no_space(2), of "rev ''Match exec x''"] by (simp add: trim_end_def visible_def)
  moreover have "length (map ascii_lower ''Match exec x'') = 12" by simp
  then have "map ascii_lower ''Match exec x'' \<notin> {''host'', ''hostname'', ''include'', ''match''}" by force
  ultimately show ?thesis
    by (simp add: config_step_def split_kv_def Let_def)
qed

text \<open>
  An equals sign in a \<open>Match\<close> line hides it: the key is taken to be everything before the sign, so the
  block before it stays open and takes the \<open>HostName\<close> of the conditional block.
\<close>

theorem conditional_host_name_leaks:
  "extract_hosts (''Host app'' @ [CHR 0x0A] @ ''Match exec x=1'' @ [CHR 0x0A] @ ''  HostName evil'' @ [CHR 0x0A]) [''app'']
     = ([''evil''], [])"
proof -
  have ls: "lines (''Host app'' @ [CHR 0x0A] @ ''Match exec x=1'' @ [CHR 0x0A] @ ''  HostName evil'' @ [CHR 0x0A])
      = [''Host app'', ''Match exec x=1'', ''  HostName evil'']"
    using lines_line [of "''Host app''"] lines_line [of "''Match exec x=1''"] lines_line [of "''  HostName evil''" "[]"]
    by (simp add: strip_cr_def lines.simps [of "[]"])
  have w: "config_word ''app''" "config_word ''evil''" by (simp_all add: config_word_def visible_def)
  have "config_step (n, ''Host app'') s
      = (flush s)\<lparr>cs_current := Some \<lparr>hb_aliases = [''app''], hb_host_name = None\<rparr>\<rparr>" for n s
    using host_line_step [of "[''app'']" n s] w by simp
  moreover have "cs_current s = Some b \<Longrightarrow> hb_host_name b = None \<Longrightarrow>
      config_step (n, ''  HostName evil'') s = s\<lparr>cs_current := Some (b\<lparr>hb_host_name := Some ''evil''\<rparr>)\<rparr>" for n s b
    using host_name_step [OF w(2), of s b n] by simp
  ultimately have "cs_blocks (parse_config (''Host app'' @ [CHR 0x0A] @ ''Match exec x=1'' @ [CHR 0x0A]
        @ ''  HostName evil'' @ [CHR 0x0A])) = [\<lparr>hb_aliases = [''app''], hb_host_name = Some ''evil''\<rparr>]
      \<and> cs_warnings (parse_config (''Host app'' @ [CHR 0x0A] @ ''Match exec x=1'' @ [CHR 0x0A]
        @ ''  HostName evil'' @ [CHR 0x0A])) = []
      \<and> cs_includes (parse_config (''Host app'' @ [CHR 0x0A] @ ''Match exec x=1'' @ [CHR 0x0A]
        @ ''  HostName evil'' @ [CHR 0x0A])) = 0
      \<and> cs_matches (parse_config (''Host app'' @ [CHR 0x0A] @ ''Match exec x=1'' @ [CHR 0x0A]
        @ ''  HostName evil'' @ [CHR 0x0A])) = 0"
    unfolding parse_config_def ls
    by (simp add: match_with_equals flush_def upt_rec)
  then show ?thesis
    by (simp add: extract_hosts_def select_block_def matched_alias_def selected_hosts_def Let_def)
qed

end
