(* ===== verification/FleetLaws.thy ===== *)
theory FleetLaws
  imports Fleet "HOL-Library.Multiset"
begin

text \<open>Liveness of the fleet scheduler: no host that waits is forgotten.\<close>

definition pending :: "fleet_state \<Rightarrow> string set" where
  "pending s = set (fl_queue s) \<union> set (fl_running s)"

text \<open>A state in which the loop has ended with nothing left to do.\<close>

definition all_served :: "fleet_state \<Rightarrow> bool" where
  "all_served s = (fl_phase s = Ended \<and> fl_queue s = [] \<and> fl_running s = [])"

lemma answered_join:
  assumes "host \<in> set (fl_running s)" "distinct (fl_running s)"
    and t_def: "t = spawn_next False (task_joined env host (Some r) s)"
  shows "pending s = insert host (pending t)" "insert host (fl_successful s) = fl_successful t"
    "fl_phase t = fl_phase s"
  using assms(1,2) unfolding t_def pending_def
  by (cases "fl_queue s"; auto simp: task_joined_def spawn_next_def Let_def)+

text \<open>From a state of a run that nobody interrupts, a run that answers every host that is left.\<close>

lemma serve_all:
  assumes "fleet_inv m remote n credited s" "busy s" "finite credited" "0 < m" "fl_phase s \<noteq> Draining"
  shows "\<exists>t. quiet_step\<^sup>*\<^sup>* s t \<and> all_served t \<and> fl_successful s \<union> pending s \<subseteq> fl_successful t"
  using assms
proof (induction "fleet_measure s" arbitrary: s rule: less_induct)
  case less
  show ?case
  proof (cases "fl_phase s = Ended")
    case True
    then have "all_served s" using less.prems by (auto simp: all_served_def busy_def fleet_inv_def)
    then show ?thesis by (intro exI [of _ s]) (simp add: all_served_def pending_def)
  next
    case False
    then have run: "fl_phase s = Running" using less.prems(5) by (cases "fl_phase s") auto
    show ?thesis
    proof (cases "fl_running s")
      case Nil
      let ?t = "s\<lparr>fl_phase := Ended\<rparr>"
      have "fl_queue s = []" using less.prems(1,2,4) Nil by (auto simp: busy_def fleet_inv_def)
      then have "all_served ?t" "pending s = {}" using Nil by (simp_all add: all_served_def pending_def)
      moreover have "quiet_step s ?t" using run Nil by (rule quiet_step.quiet_finished)
      ultimately show ?thesis by (intro exI [of _ ?t]) auto
    next
      case (Cons host rest)
      define t where "t = spawn_next False (task_joined bare_judge host (Some default_agent_report) s)"
      have h: "host \<in> set (fl_running s)" "distinct (fl_running s)"
        using Cons less.prems(1) by (auto simp: fleet_inv_def)
      have step: "quiet_step s t" unfolding t_def using run h(1) by (rule quiet_step.quiet_joined)
      note j = answered_join [OF h t_def]
      have "fleet_inv m remote n credited t" "busy t" "fl_phase t \<noteq> Draining" "fleet_measure t < fleet_measure s"
        using fleet_step_inv [OF quiet_is_fleet [OF step]] quiet_step_busy [OF step]
          fleet_step_measure [OF quiet_is_fleet [OF step]] less.prems j(3) by auto
      with less.hyps [of t] less.prems(3,4) obtain u
        where u: "quiet_step\<^sup>*\<^sup>* t u" "all_served u" "fl_successful t \<union> pending t \<subseteq> fl_successful u" by blast
      have "quiet_step\<^sup>*\<^sup>* s u" using step u(1) by (rule converse_rtranclp_into_rtranclp)
      moreover have "fl_successful s \<union> pending s \<subseteq> fl_successful u" using u(3) j(1,2) by blast
      ultimately show ?thesis using u(2) by blast
    qed
  qed
qed

text \<open>
  C32: No host is left waiting. In every state of a run that nobody interrupts the loop can go on until it
  has ended, and every host that is queued or running can still be answered on the way; and where it cannot
  go on, it has ended, with no host queued and none running.
\<close>

theorem every_host_is_served:
  assumes "distinct remote" "set remote \<inter> credited = {}" "finite credited" "0 < max_concurrent"
    and "quiet_step\<^sup>*\<^sup>* (fleet_start max_concurrent max_concurrent remote agg credited) s"
  shows "(\<exists>t. quiet_step\<^sup>*\<^sup>* s t \<and> all_served t \<and> fl_successful s \<union> pending s \<subseteq> fl_successful t)
     \<and> (all_served s \<or> (\<exists>t. quiet_step s t))"
proof -
  have inv: "fleet_inv max_concurrent remote (ob_reports_seen agg) credited s"
    using quiet_steps [OF assms(5)] steps_inv [OF _ assms(3) fleet_start_inv [OF assms(1-3)]] by blast
  have b: "busy s" using quiet_steps [OF assms(5)] fleet_start_busy by simp
  have ph: "fl_phase s \<noteq> Draining" using b by (simp add: busy_def)
  note run = serve_all [OF inv b assms(3,4) ph]
  then obtain t where t: "quiet_step\<^sup>*\<^sup>* s t" "all_served t" by blast
  then have "all_served s \<or> (\<exists>t. quiet_step s t)" by (cases rule: converse_rtranclpE) auto
  with run show ?thesis by blast
qed

theorem every_host_is_served_witness:
  "\<exists>t. quiet_step\<^sup>*\<^sup>* (fleet_start 1 1 [''a'', ''b''] (new_builder None) {}) t \<and> all_served t
     \<and> {''a'', ''b''} \<subseteq> fl_successful t"
proof -
  let ?s = "fleet_start 1 1 [''a'', ''b''] (new_builder None) {}"
  have p: "pending ?s = {''a'', ''b''}" by (auto simp: pending_def fleet_start_def)
  have "\<exists>t. quiet_step\<^sup>*\<^sup>* ?s t \<and> all_served t \<and> fl_successful ?s \<union> pending ?s \<subseteq> fl_successful t"
    by (rule every_host_is_served [of "[''a'', ''b'']" "{}" 1 "new_builder None", THEN conjunct1]) simp_all
  then show ?thesis unfolding p by blast
qed

section \<open>The scans of a run, in the order they end\<close>

text \<open>
  A run without an interrupt, with the hosts whose tasks have been joined so far. Only the scans
  themselves move it: neither an interrupt nor the end of a grace period is a turn of it.
\<close>

inductive quiet_run :: "fleet_state \<Rightarrow> string list \<Rightarrow> fleet_state \<Rightarrow> bool" where
  run_begin: "quiet_run s [] s"
| run_join: "\<lbrakk>quiet_run s joined t; fl_phase t = Running; host \<in> set (fl_running t)\<rbrakk>
    \<Longrightarrow> quiet_run s (joined @ [host]) (spawn_next False (task_joined env host result t))"

text \<open>What the joined, the running and the waiting hosts make up, and how full the slots are.\<close>

definition all_accounted :: "nat \<Rightarrow> string list \<Rightarrow> string list \<Rightarrow> fleet_state \<Rightarrow> bool" where
  "all_accounted m remote joined s \<longleftrightarrow>
     mset joined + mset (fl_running s) + mset (fl_queue s) = mset remote
     \<and> fl_permits s + length (fl_running s) = m
     \<and> (fl_queue s \<noteq> [] \<longrightarrow> fl_permits s = 0) \<and> fl_phase s = Running"

lemma accounted_start:
  "all_accounted m remote [] (fleet_start m m remote agg credited)"
  by (auto simp: all_accounted_def fleet_start_def Let_def min_def simp flip: mset_append)

lemma accounted_join:
  assumes "all_accounted m remote joined s" "host \<in> set (fl_running s)"
  shows "all_accounted m remote (joined @ [host]) (spawn_next False (task_joined env host result s))"
proof -
  have eq: "mset (fl_running s) = add_mset host (mset (remove1 host (fl_running s)))"
    using assms(2) by (simp add: mset_remove1)
  have run: "fl_running (task_joined env host result s) = remove1 host (fl_running s)"
    by (cases result) (simp_all add: task_joined_def Let_def)
  have len: "Suc (length (remove1 host (fl_running s))) = length (fl_running s)"
    using eq by (metis size_mset size_add_mset)
  show ?thesis
    using assms(1) len unfolding all_accounted_def eq
    by (cases "fl_queue s") (simp_all add: spawn_next_def joined_fields run)
qed

lemma run_accounted:
  "quiet_run s joined t \<Longrightarrow> all_accounted m remote [] s \<Longrightarrow> all_accounted m remote joined t"
  by (induction rule: quiet_run.induct) (auto intro: accounted_join)

text \<open>
  C20: The loop ends, and by its scans alone. However tasks end and interrupts fall, a run takes at
  most two turns more than there are remote hosts. In a run nobody interrupts, each remote host is
  joined at most as often as it is listed; while one has not been joined a scan is running, and
  whichever running scan ends, with whatever result, the loop goes on from there; and when nothing is
  running every remote host has been joined, each as often as it is listed, and none waits in the queue.
\<close>

theorem scheduler_terminates:
  assumes "0 < max_concurrent"
  shows "((fleet_step ^^ n) (fleet_start max_concurrent spawned remote agg credited) s
       \<longrightarrow> n \<le> length remote + 2)
     \<and> (quiet_run (fleet_start max_concurrent max_concurrent remote agg credited) joined t \<longrightarrow>
         mset joined \<subseteq># mset remote
         \<and> (length joined < length remote \<longrightarrow> fl_running t \<noteq> []
             \<and> (\<forall>host \<in> set (fl_running t). \<forall>env result.
                  quiet_run (fleet_start max_concurrent max_concurrent remote agg credited)
                    (joined @ [host]) (spawn_next False (task_joined env host result t))))
         \<and> (fl_running t = [] \<longrightarrow> mset joined = mset remote \<and> fl_queue t = []
             \<and> quiet_step t (t\<lparr>fl_phase := Ended\<rparr>)))"
proof (intro conjI impI)
  assume "(fleet_step ^^ n) (fleet_start max_concurrent spawned remote agg credited) s"
  from fleet_run_measure [OF this] show "n \<le> length remote + 2" by (simp add: fleet_start_measure)
next
  assume run: "quiet_run (fleet_start max_concurrent max_concurrent remote agg credited) joined t"
  have acc: "all_accounted max_concurrent remote joined t"
    by (rule run_accounted [OF run accounted_start])
  then have eq: "mset joined + (mset (fl_running t) + mset (fl_queue t)) = mset remote"
    and ph: "fl_phase t = Running"
    and idle: "fl_running t = [] \<Longrightarrow> fl_queue t = []"
    using assms by (auto simp: all_accounted_def ac_simps)
  show "mset joined \<subseteq># mset remote" using eq mset_subset_eq_add_left by metis
  show "\<forall>host \<in> set (fl_running t). \<forall>env result.
      quiet_run (fleet_start max_concurrent max_concurrent remote agg credited)
        (joined @ [host]) (spawn_next False (task_joined env host result t))"
    using run ph by (blast intro: quiet_run.run_join)
  show all: "mset joined = mset remote" "fl_queue t = []" "quiet_step t (t\<lparr>fl_phase := Ended\<rparr>)"
    if "fl_running t = []"
    using eq idle that ph by (auto intro: quiet_step.quiet_finished)
  show "fl_running t \<noteq> []" if "length joined < length remote"
    using all(1) that by (metis size_mset less_irrefl)
qed

theorem scheduler_terminates_witness:
  "quiet_run (fleet_start 1 1 [''a'', ''b''] (new_builder None) {}) [''a'']
     (spawn_next False (task_joined bare_judge ''a'' None
       (fleet_start 1 1 [''a'', ''b''] (new_builder None) {})))
   \<and> fl_running (spawn_next False (task_joined bare_judge ''a'' None
       (fleet_start 1 1 [''a'', ''b''] (new_builder None) {}))) = [''b'']
   \<and> quiet_run (fleet_start 1 1 [''a'', ''b''] (new_builder None) {}) [''a'', ''b'']
     (spawn_next False (task_joined bare_judge ''b'' None (spawn_next False (task_joined bare_judge ''a'' None
       (fleet_start 1 1 [''a'', ''b''] (new_builder None) {})))))"
proof -
  let ?s = "fleet_start 1 1 [''a'', ''b''] (new_builder None) {}"
  let ?t = "spawn_next False (task_joined bare_judge ''a'' None ?s)"
  have "quiet_run ?s ([] @ [''a'']) ?t"
    by (rule quiet_run.run_join [OF quiet_run.run_begin]) (simp_all add: fleet_start_def)
  then have run: "quiet_run ?s [''a''] ?t" by simp
  have b: "fl_running ?t = [''b'']"
    by (simp add: fleet_start_def task_joined_def spawn_next_def Let_def)
  have "\<forall>env result. quiet_run ?s ([''a''] @ [''b'']) (spawn_next False (task_joined env ''b'' result ?t))"
    using scheduler_terminates [of 1 0 1 "[''a'', ''b'']" "new_builder None" "{}" ?s "[''a'']" ?t] run b
    by simp
  then have "quiet_run ?s [''a'', ''b''] (spawn_next False (task_joined bare_judge ''b'' None ?t))" by simp
  with run b show ?thesis by blast
qed

end
