(* ===== verification/Accounts.thy ===== *)
theory Accounts
  imports ScanBase
begin

text \<open>
  Accounts and credentials: \<open>scanners/account_hygiene.rs\<close> (password fields, shells, the modes of
  credential files; SEC-070 to SEC-079) and \<open>scanners/access.rs\<close> (authorized keys, passwordless sudo,
  groups equivalent to root; SEC-001 to SEC-004, SEC-061). The files, their metadata and the parser of
  public keys are parameters; what \<open>coverage::record\<close> is told is a list of notes in the result.
\<close>

section \<open>The operating system as these scanners see it\<close>

record file_meta =
  fm_mode :: u32
  fm_uid :: u32
  fm_gid :: u32
  fm_is_file :: bool

text \<open>
  \<open>ac_sudoers_d\<close> is the listing of \<open>/etc/sudoers.d\<close>: an entry may fail, and a name that is not UTF-8
  is \<open>None\<close>. \<open>ac_public_key\<close> is \<open>PublicKey::from_openssh\<close>: the algorithm as the code names it, the bits
  and the comment.
\<close>

record account_env =
  ac_open :: "string \<Rightarrow> os_kind opened"
  ac_stat :: "string \<Rightarrow> os_kind + file_meta"
  ac_sudoers_d :: "os_kind + (os_kind + string option) list"
  ac_public_key :: "string \<Rightarrow> (string \<times> u32 \<times> string) option"

section \<open>Password fields and shells\<close>

definition CAP_PASSWD :: nat where "CAP_PASSWD = 4 * 1024 * 1024"
definition CAP_SHADOW :: nat where "CAP_SHADOW = 4 * 1024 * 1024"

definition NON_INTERACTIVE_SHELLS :: "string list" where
  "NON_INTERACTIVE_SHELLS =
     [''/usr/sbin/nologin'', ''/sbin/nologin'', ''/usr/bin/nologin'', ''/bin/nologin'', ''/bin/false'',
      ''/usr/bin/false'', ''/bin/true'', ''/usr/bin/true'', ''/bin/sync'', ''/usr/bin/sync'',
      ''/sbin/shutdown'', ''/usr/sbin/shutdown'', ''/sbin/halt'', ''/usr/sbin/halt'',
      ''/usr/bin/git-shell'', ''/run/current-system/sw/bin/nologin'']"

definition SYSTEM_UID_THRESHOLD :: u32 where "SYSTEM_UID_THRESHOLD = 1000"

definition is_system_uid :: "u32 \<Rightarrow> bool" where
  "is_system_uid uid = (uid < SYSTEM_UID_THRESHOLD)"

definition is_interactive_shell :: "string \<Rightarrow> bool" where
  "is_interactive_shell shell = (trim shell \<notin> set NON_INTERACTIVE_SHELLS)"

definition is_system_account_with_shell :: "u32 \<Rightarrow> string \<Rightarrow> bool" where
  "is_system_account_with_shell uid shell = (uid \<noteq> 0 \<and> is_system_uid uid \<and> is_interactive_shell shell)"

record passwd_entry =
  pw_user :: string
  pw_pw :: string
  pw_uid :: u32
  pw_home :: string
  pw_shell :: string

definition parse_passwd_line :: "string \<Rightarrow> passwd_entry option" where
  "parse_passwd_line raw =
     (let line = trim raw in
      if line = [] \<or> starts_with line ''#'' then None
      else case splitn 7 (CHR '':'') line of
        [user, pw, uid, gid, gecos, home, shell] \<Rightarrow>
          if user = [] then None
          else (case parse_u32 uid of
             None \<Rightarrow> None
           | Some u \<Rightarrow> Some \<lparr>pw_user = user, pw_pw = pw, pw_uid = u, pw_home = home, pw_shell = shell\<rparr>)
      | _ \<Rightarrow> None)"

datatype passwd_pw = Shadowed | EmptyPw | LockedPw | InlinePw string

definition classify_passwd_pw :: "string \<Rightarrow> passwd_pw" where
  "classify_passwd_pw pw =
     (if pw = ''x'' then Shadowed
      else if pw = [] then EmptyPw
      else if starts_with pw ''!'' \<or> starts_with pw ''*'' then LockedPw
      else InlinePw pw)"

definition classify_hash :: "string \<Rightarrow> (string \<times> string) option" where
  "classify_hash hash =
     (if hash = [] then None
      else if starts_with hash ''!'' \<or> starts_with hash ''*'' then None
      else if starts_with hash ''$1$'' then
        Some (''$1$ (MD5-crypt)'', ''MD5-crypt is brute-forceable on a GPU'')
      else if starts_with hash ''$5$'' then
        Some (''$5$ (SHA-256-crypt)'', ''SHA-256-crypt is fast on GPUs; prefer yescrypt or SHA-512'')
      else if \<not> starts_with hash ''$'' \<and> length hash = 13 then
        Some (''DES-crypt'', ''DES-crypt is 56-bit and trivially broken'')
      else None)"

definition parse_shadow_line :: "string \<Rightarrow> (string \<times> string) option" where
  "parse_shadow_line raw =
     (let line = trim raw in
      if line = [] \<or> starts_with line ''#'' then None
      else case splitn 3 (CHR '':'') line of
        user # hash # _ \<Rightarrow> if user = [] then None else Some (user, hash)
      | _ \<Rightarrow> None)"

section \<open>The modes of credential files\<close>

definition SHADOW_FORBIDDEN :: u32 where "SHADOW_FORBIDDEN = 0xE5F"

text \<open>Whether a forbidden bit is set; the name is the source's.\<close>

definition mode_allows :: "u32 \<Rightarrow> u32 \<Rightarrow> bool" where
  "mode_allows mode forbidden_mask = (mode AND forbidden_mask \<noteq> 0)"

definition issue :: "string \<Rightarrow> u32 \<Rightarrow> u32 \<Rightarrow> u32 \<Rightarrow> string \<Rightarrow> credential_file_issue" where
  "issue path mode uid gid reason =
     \<lparr>cfi_path = path, cfi_mode = octal4 mode, cfi_owner_uid = uid, cfi_owner_gid = gid,
      cfi_reason = reason\<rparr>"

record unreadable =
  un_count :: nat
  un_first :: "string option"

definition default_unreadable :: unreadable where
  "default_unreadable = \<lparr>un_count = 0, un_first = None\<rparr>"

definition unread_meta :: "account_env \<Rightarrow> string \<Rightarrow> unreadable \<Rightarrow> file_meta option \<times> unreadable" where
  "unread_meta env path u =
     (case ac_stat env path of
        Inr m \<Rightarrow> (Some m, u)
      | Inl e \<Rightarrow>
          if e = NotFound \<or> e = NotADirectory then (None, u)
          else (None, \<lparr>un_count = un_count u + 1,
                       un_first = (if un_first u = None then Some (path @ '' ('' @ os_kind_text e @ '')'')
                                   else un_first u)\<rparr>))"

definition unread_stat :: "account_env \<Rightarrow> string \<Rightarrow> unreadable \<Rightarrow> (u32 \<times> u32 \<times> u32) option \<times> unreadable" where
  "unread_stat env path u =
     (case unread_meta env path u of
        (None, u') \<Rightarrow> (None, u')
      | (Some m, u') \<Rightarrow> (Some (fm_mode m AND 0xFFF, fm_uid m, fm_gid m), u'))"

text \<open>\<open>filter_map\<close> with a closure that counts what it could not read.\<close>

fun filter_map_unread ::
  "(unreadable \<Rightarrow> 'a \<Rightarrow> 'b option \<times> unreadable) \<Rightarrow> 'a list \<Rightarrow> unreadable \<Rightarrow> 'b list \<times> unreadable" where
  "filter_map_unread f [] u = ([], u)"
| "filter_map_unread f (x # xs) u =
     (case f u x of (r, u') \<Rightarrow>
        (case filter_map_unread f xs u' of
           (ys, v) \<Rightarrow> (case r of None \<Rightarrow> ys | Some y \<Rightarrow> y # ys, v)))"

definition KEY_NAMES :: "string list" where
  "KEY_NAMES = [''id_rsa'', ''id_ed25519'', ''id_ecdsa'', ''id_dsa'', ''id_ecdsa_sk'', ''id_ed25519_sk'']"

definition check_private_key ::
  "account_env \<Rightarrow> string \<Rightarrow> string \<Rightarrow> unreadable \<Rightarrow> string \<Rightarrow> private_key_finding option \<times> unreadable" where
  "check_private_key env user home u name =
     (let path = home @ ''/.ssh/'' @ name in
      case unread_stat env path u of
        (None, u') \<Rightarrow> (None, u')
      | (Some (mode, _, _), u') \<Rightarrow>
          (if mode_allows mode 0x3F
           then Some \<lparr>pkf_user = user, pkf_path = path, pkf_mode = octal4 mode\<rparr> else None, u'))"

definition check_private_keys ::
  "account_env \<Rightarrow> string \<Rightarrow> string \<Rightarrow> unreadable \<Rightarrow> private_key_finding list \<times> unreadable" where
  "check_private_keys env user home = filter_map_unread (check_private_key env user home) KEY_NAMES"

definition check_authorized_keys ::
  "account_env \<Rightarrow> string \<Rightarrow> u32 \<Rightarrow> string \<Rightarrow> unreadable \<Rightarrow> string option \<times> unreadable" where
  "check_authorized_keys env user uid home u =
     (let path = home @ ''/.ssh/authorized_keys'' in
      case unread_stat env path u of
        (None, u') \<Rightarrow> (None, u')
      | (Some (mode, owner, _), u') \<Rightarrow>
          (if mode_allows mode 0x12 then Some (user @ '': '' @ path @ '' mode '' @ octal4 mode)
           else if owner \<noteq> uid \<and> owner \<noteq> 0 \<and> mode_allows mode 0x80
             then Some (user @ '': '' @ path @ '' owned by uid '' @ show_word owner)
           else None, u'))"

definition ROOT_DOTFILES :: "(string \<times> string) list" where
  "ROOT_DOTFILES =
     [(''/root/.bash_history'', ''bash history readable by non-root''),
      (''/root/.zsh_history'', ''zsh history readable by non-root''),
      (''/root/.ssh'', ''~/.ssh directory readable by non-root'')]"

definition check_dotfile ::
  "account_env \<Rightarrow> unreadable \<Rightarrow> string \<times> string \<Rightarrow> credential_file_issue option \<times> unreadable" where
  "check_dotfile env u pr =
     (case pr of (path, reason) \<Rightarrow>
        (case unread_stat env path u of
           (None, u') \<Rightarrow> (None, u')
         | (Some (mode, uid, gid), u') \<Rightarrow>
             (if mode_allows mode 0x3F then Some (issue path mode uid gid reason) else None, u')))"

definition check_root_dotfiles :: "account_env \<Rightarrow> unreadable \<Rightarrow> credential_file_issue list \<times> unreadable" where
  "check_root_dotfiles env = filter_map_unread (check_dotfile env) ROOT_DOTFILES"

text \<open>The issues of \<open>/etc/sudoers.d\<close>, what could not be read and the notes on coverage.\<close>

definition check_sudoers_entry ::
  "account_env \<Rightarrow> unreadable \<Rightarrow> os_kind + string option \<Rightarrow> credential_file_issue option \<times> unreadable" where
  "check_sudoers_entry env u entry =
     (case entry of
        Inl e \<Rightarrow> (None, u\<lparr>un_count := un_count u + 1\<rparr>)
      | Inr None \<Rightarrow> (None, u)
      | Inr (Some name) \<Rightarrow>
          if ends_with name ''~'' \<or> contains name ''.'' then (None, u)
          else (let path = ''/etc/sudoers.d/'' @ name in
            case unread_meta env path u of
              (None, u') \<Rightarrow> (None, u')
            | (Some m, u') \<Rightarrow>
                if \<not> fm_is_file m then (None, u')
                else (let mode = fm_mode m AND 0xFFF in
                  (if mode_allows mode (0x12 OR 0x04 OR 0x49) \<or> fm_uid m \<noteq> 0
                   then Some (issue path mode (fm_uid m) (fm_gid m)
                          ''sudoers.d file must be 0440 (or 0400) root-owned'')
                   else None, u'))))"

definition check_sudoers_d ::
  "account_env \<Rightarrow> unreadable \<Rightarrow> credential_file_issue list \<times> unreadable \<times> string list" where
  "check_sudoers_d env u =
     (case ac_sudoers_d env of
        Inl e \<Rightarrow>
          if e = NotFound then ([], u, [])
          else ([], u, [''/etc/sudoers.d unreadable ('' @ os_kind_text e @ '') '' @ em_dash
                        @ '' SEC-076 NOT evaluated''])
      | Inr entries \<Rightarrow>
          (case filter_map_unread (check_sudoers_entry env) entries u of (out, u') \<Rightarrow> (out, u', [])))"

section \<open>The hygiene scan\<close>

record passwd_scan =
  ps_weak :: "weak_hash_finding list"
  ps_empty :: "string list"
  ps_uid_zero :: "string list"
  ps_shells :: "string list"
  ps_homes :: "string list"
  ps_users :: "(string \<times> u32 \<times> string) list"

definition no_passwd_scan :: passwd_scan where
  "no_passwd_scan = \<lparr>ps_weak = [], ps_empty = [], ps_uid_zero = [], ps_shells = [], ps_homes = [], ps_users = []\<rparr>"

definition inline_hash :: "string \<Rightarrow> string \<Rightarrow> weak_hash_finding" where
  "inline_hash user h =
     (case (case classify_hash h of Some p \<Rightarrow> p
            | None \<Rightarrow> (''inline hash'', ''password hash stored in world-readable /etc/passwd'')) of
        (t, d) \<Rightarrow> \<lparr>whf_username = user, whf_hash_type = t @ '' in /etc/passwd'', whf_description = d\<rparr>)"

definition shell_note :: "passwd_entry \<Rightarrow> string" where
  "shell_note e =
     pw_user e @ '' ('' @ (if pw_shell e = [] then ''<empty> = /bin/sh'' else pw_shell e) @ '')''"

text \<open>One line of \<open>/etc/passwd\<close>.\<close>

definition passwd_step :: "string \<Rightarrow> passwd_scan \<Rightarrow> passwd_scan" where
  "passwd_step line p =
     (case parse_passwd_line line of
        None \<Rightarrow> p
      | Some e \<Rightarrow>
          p\<lparr>ps_uid_zero := ps_uid_zero p
              @ (if pw_uid e = 0 \<and> pw_user e \<noteq> ''root'' then [pw_user e] else []),
            ps_shells := ps_shells p
              @ (if is_system_account_with_shell (pw_uid e) (pw_shell e) then [shell_note e] else []),
            ps_empty := ps_empty p
              @ (case classify_passwd_pw (pw_pw e) of EmptyPw \<Rightarrow> [pw_user e @ '' (/etc/passwd)''] | _ \<Rightarrow> []),
            ps_weak := ps_weak p
              @ (case classify_passwd_pw (pw_pw e) of InlinePw h \<Rightarrow> [inline_hash (pw_user e) h] | _ \<Rightarrow> []),
            ps_homes := (if pw_home e \<noteq> [] \<and> pw_home e \<notin> set (ps_homes p)
                         then pw_home e # ps_homes p else ps_homes p),
            ps_users := ps_users p
              @ (if pw_home e \<noteq> [] \<and> pw_home e \<notin> set (ps_homes p)
                 then [(pw_user e, pw_uid e, pw_home e)] else [])\<rparr>)"

definition shadow_step :: "string \<Rightarrow> weak_hash_finding list \<times> string list \<Rightarrow> weak_hash_finding list \<times> string list" where
  "shadow_step line acc =
     (case acc of (weak, without) \<Rightarrow>
        (case parse_shadow_line line of
           None \<Rightarrow> (weak, without)
         | Some (user, hash) \<Rightarrow>
             if hash = [] then (weak, without @ [user])
             else (case classify_hash hash of
                None \<Rightarrow> (weak, without)
              | Some (t, d) \<Rightarrow>
                  (weak @ [\<lparr>whf_username = user, whf_hash_type = t, whf_description = d\<rparr>], without))))"

definition shadow_note :: "os_kind \<Rightarrow> string list" where
  "shadow_note k =
     (if k = NotFound then []
      else if k = PermissionDenied then
        [''/etc/shadow unreadable (permission denied) '' @ em_dash
         @ '' SEC-070/071 (hash strength, empty passwords) NOT verified; run as root'']
      else if k = InvalidData then
        [''/etc/shadow is NOT a regular file (fifo/device) '' @ em_dash
         @ '' hash audit refused; treat as tampering'']
      else [''/etc/shadow unreadable ('' @ os_kind_text k @ '') '' @ em_dash @ '' hash audit skipped''])"

definition check_shadow_file ::
  "account_env \<Rightarrow> unreadable \<Rightarrow> string \<times> string \<Rightarrow> credential_file_issue option \<times> unreadable" where
  "check_shadow_file env u pr =
     (case pr of (path, reason) \<Rightarrow>
        (case unread_stat env path u of
           (None, u') \<Rightarrow> (None, u')
         | (Some (mode, uid, gid), u') \<Rightarrow>
             (if mode_allows mode SHADOW_FORBIDDEN \<or> uid \<noteq> 0
              then Some (issue path mode uid gid reason) else None, u')))"

definition SHADOW_FILES :: "(string \<times> string) list" where
  "SHADOW_FILES =
     [(''/etc/shadow'', ''exceeds 0640 or not root-owned '' @ em_dash
         @ '' password hashes readable or replaceable''),
      (''/etc/gshadow'', ''exceeds 0640 or not root-owned '' @ em_dash
         @ '' group passwords readable or replaceable'')]"

fun check_users ::
  "account_env \<Rightarrow> (string \<times> u32 \<times> string) list \<Rightarrow> unreadable
   \<Rightarrow> private_key_finding list \<times> string list \<times> unreadable" where
  "check_users env [] u = ([], [], u)"
| "check_users env ((user, uid, home) # us) u =
     (case check_private_keys env user home u of (ks, u1) \<Rightarrow>
        (case check_authorized_keys env user uid home u1 of (a, u2) \<Rightarrow>
           (case check_users env us u2 of
              (kss, as, u3) \<Rightarrow> (ks @ kss, (case a of None \<Rightarrow> as | Some e \<Rightarrow> e # as), u3))))"

definition lower_bound_note :: "unreadable \<Rightarrow> string list" where
  "lower_bound_note u =
     (if un_count u > 0 then
        [''account hygiene: '' @ show_nat (un_count u) @ '' credential path(s) could not be stat()ed (first: ''
         @ (case un_first u of None \<Rightarrow> ''?'' | Some p \<Rightarrow> p) @ '') '' @ em_dash
         @ '' SEC-074'' @ utf8_encode 0x2026 @ ''079 are a LOWER BOUND'']
      else [])"

definition scan_account_hygiene :: "account_env \<Rightarrow> account_hygiene_info \<times> string list" where
  "scan_account_hygiene env =
     (case read_file_capped_regular (ac_open env ''/etc/passwd'') CAP_PASSWD of
        Inl e \<Rightarrow>
          (default_account_hygiene_info,
           [''/etc/passwd unreadable ('' @ os_kind_text (failure_kind e) @ '') '' @ em_dash
            @ '' account hygiene scan SKIPPED''])
      | Inr (content, truncated) \<Rightarrow>
          (let n1 = (if truncated then [''/etc/passwd exceeded cap '' @ em_dash
                       @ '' account inventory PARTIAL''] else []);
               p = fold passwd_step (lines content) no_passwd_scan;
               shadow = read_file_capped_regular (ac_open env ''/etc/shadow'') CAP_SHADOW;
               n2 = (case shadow of
                       Inl e \<Rightarrow> shadow_note (failure_kind e)
                     | Inr (_, partial) \<Rightarrow> if partial then [''/etc/shadow exceeded cap '' @ em_dash
                                          @ '' hash audit PARTIAL''] else []);
               hashes = (case shadow of
                       Inl e \<Rightarrow> (ps_weak p, ps_empty p)
                     | Inr (text, _) \<Rightarrow> fold shadow_step (lines text) (ps_weak p, ps_empty p))
           in case filter_map_unread (check_shadow_file env) SHADOW_FILES default_unreadable of
                (shadow_issues, u1) \<Rightarrow>
              (case check_sudoers_d env u1 of (sudoers_issues, u2, n3) \<Rightarrow>
              (case check_users env (ps_users p) u2 of (keys, writable, u3) \<Rightarrow>
              (case check_root_dotfiles env u3 of (dotfiles, u4) \<Rightarrow>
                (\<lparr>ah_weak_password_hashes = fst hashes,
                  ah_empty_password_users = snd hashes,
                  ah_duplicate_uid_zero = ps_uid_zero p,
                  ah_system_accounts_with_shell = ps_shells p,
                  ah_file_permission_issues = shadow_issues @ sudoers_issues,
                  ah_ssh_private_key_readable = keys,
                  ah_authorized_keys_writable = writable,
                  ah_root_dotfiles_readable = dotfiles\<rparr>,
                 n1 @ n2 @ n3 @ lower_bound_note u4))))))"

section \<open>Authorized keys\<close>

definition KEY_TYPES :: "string list" where
  "KEY_TYPES =
     [''ssh-ed25519'', ''ssh-rsa'', ''ssh-dss'', ''ecdsa-sha2-nistp256'', ''ecdsa-sha2-nistp384'',
      ''ecdsa-sha2-nistp521'', ''sk-ssh-ed25519@openssh.com'', ''sk-ecdsa-sha2-nistp256@openssh.com'']"

definition CAP_AUTHORIZED_KEYS :: nat where "CAP_AUTHORIZED_KEYS = 1024 * 1024"
definition CAP_GROUP_FILE :: nat where "CAP_GROUP_FILE = 1024 * 1024"

definition split_options :: "string \<Rightarrow> (string \<times> string) option" where
  "split_options line =
     (let toks = split_whitespace line; front = takeWhile (\<lambda>t. t \<notin> set KEY_TYPES) toks in
      if length front = length toks then None
      else Some (join '' '' front, join '' '' (drop (length front) toks)))"

text \<open>The loop of \<open>parse_key_options\<close>: the current option, then whether it is quoted and escaped.\<close>

definition flush_option :: "string \<Rightarrow> string list" where
  "flush_option cur = (let t = trim cur in if t = [] then [] else [t])"

fun key_options_loop :: "string \<Rightarrow> bool \<Rightarrow> bool \<Rightarrow> string \<Rightarrow> string list" where
  "key_options_loop cur quoted escaped [] = flush_option cur"
| "key_options_loop cur quoted escaped (c # s) =
     (if c = CHR 0x5C \<and> quoted \<and> \<not> escaped then key_options_loop (cur @ [c]) quoted True s
      else if c = CHR 0x22 \<and> \<not> escaped then key_options_loop (cur @ [c]) (\<not> quoted) escaped s
      else if c = CHR '','' \<and> \<not> quoted then flush_option cur @ key_options_loop [] quoted escaped s
      else key_options_loop (cur @ [c]) quoted False s)"

definition parse_key_options :: "string \<Rightarrow> string list" where
  "parse_key_options text = key_options_loop [] False False text"

record key_policy =
  kp_allow_ed25519 :: bool
  kp_allow_rsa_min_bits :: "u32 option"
  kp_allow_ecdsa :: bool
  kp_allow_sk_hardware :: bool

definition default_key_policy :: key_policy where
  "default_key_policy =
     \<lparr>kp_allow_ed25519 = True, kp_allow_rsa_min_bits = Some 3072, kp_allow_ecdsa = False,
      kp_allow_sk_hardware = True\<rparr>"

definition evaluate_key :: "key_policy \<Rightarrow> string \<Rightarrow> u32 \<Rightarrow> bool \<times> string option" where
  "evaluate_key p algo bits =
     (if algo = ''ed25519'' \<and> kp_allow_ed25519 p then (True, None)
      else if algo = ''rsa'' then
        (case kp_allow_rsa_min_bits p of
           Some least \<Rightarrow>
             if least \<le> bits then (True, None)
             else (False, Some (''RSA '' @ show_word bits @ ''-bit below policy minimum '' @ show_word least))
         | None \<Rightarrow> (False, Some ''RSA not permitted''))
      else if starts_with algo ''sk-'' \<and> kp_allow_sk_hardware p then (True, None)
      else if starts_with algo ''ecdsa'' then
        (if kp_allow_ecdsa p then (True, None) else (False, Some ''ECDSA not permitted by policy''))
      else if algo = ''dsa'' then (False, Some ''DSA (1024-bit, deprecated) not permitted'')
      else (False, Some (algo @ '' not in allowed algorithm set'')))"

definition classify_key :: "account_env \<Rightarrow> string \<Rightarrow> string \<Rightarrow> key_policy \<Rightarrow> ssh_key_audit option" where
  "classify_key env user line policy =
     (case split_options line of
        None \<Rightarrow> None
      | Some (opts, stripped) \<Rightarrow>
          (case ac_public_key env stripped of
             None \<Rightarrow> None
           | Some (algorithm, bits, comment) \<Rightarrow>
               (case evaluate_key policy algorithm bits of
                  (compliant, reason) \<Rightarrow>
                    Some \<lparr>ska_user = user, ska_algorithm = algorithm, ska_bits = bits,
                      ska_comment = comment, ska_compliant = compliant, ska_reason = reason,
                      ska_options = parse_key_options opts\<rparr>)))"

section \<open>Groups equivalent to root\<close>

definition ROOT_EQUIVALENT :: "(string \<times> bool \<times> string) list" where
  "ROOT_EQUIVALENT =
     [(''sudo'', False, ''sudoers policy '' @ em_dash @ '' inventoried, gated by sudoers''),
      (''wheel'', False, ''BSD-style admin group '' @ em_dash @ '' inventoried, gated by sudoers''),
      (''docker'', True, ''docker socket is root-equivalent''),
      (''podman'', True, ''podman socket is root-equivalent''),
      (''lxd'', True, ''lxd daemon is root-equivalent''),
      (''libvirt'', True, ''libvirt/qemu is root-equivalent''),
      (''disk'', True, ''raw block device read/write''),
      (''shadow'', False, ''read access to /etc/shadow (hashes) '' @ em_dash
         @ '' credential exposure, not a root path'')]"

text \<open>The order of strings is that of their bytes.\<close>

definition str_le :: "string \<Rightarrow> string \<Rightarrow> bool" where
  "str_le x y = bytes_le (byte_values x) (byte_values y)"

primrec insert_group :: "root_equivalent_group \<Rightarrow> root_equivalent_group list \<Rightarrow> root_equivalent_group list" where
  "insert_group g [] = [g]"
| "insert_group g (x # xs) =
     (if str_le (reg_group g) (reg_group x) then g # x # xs else x # insert_group g xs)"

text \<open>The stable sort by name.\<close>

definition sort_groups :: "root_equivalent_group list \<Rightarrow> root_equivalent_group list" where
  "sort_groups gs = foldr insert_group gs []"

definition group_line :: "string \<Rightarrow> root_equivalent_group option" where
  "group_line raw =
     (let line = trim raw in
      if line = [] \<or> starts_with line ''#'' then None
      else case splitn 4 (CHR '':'') line of
        [name, pw, gid, tail] \<Rightarrow>
          (case find (\<lambda>(n, _, _). n = name) ROOT_EQUIVALENT of
             None \<Rightarrow> None
           | Some (_, bypasses, _) \<Rightarrow>
               (let members = filter (\<lambda>s. s \<noteq> []) (map trim (split_char (CHR '','') tail)) in
                Some \<lparr>reg_group = name, reg_members = sort_names members, reg_reason = [],
                  reg_bypasses_sudo = (bypasses \<and> members \<noteq> [])\<rparr>))
      | _ \<Rightarrow> None)"

definition root_equivalent_groups_scan ::
  "account_env \<Rightarrow> string \<Rightarrow> root_equivalent_group list \<times> string option" where
  "root_equivalent_groups_scan env path =
     (case read_file_capped_regular (ac_open env path) CAP_GROUP_FILE of
        Inl e \<Rightarrow>
          if failure_kind e = InvalidData then
            ([], Some (path @ '' is NOT a regular file (fifo/device) '' @ em_dash
                 @ '' root-equivalent group inventory refused; treat as tampering''))
          else
            ([], Some (path @ '' unreadable ('' @ os_kind_text (failure_kind e) @ '') '' @ em_dash
                 @ '' root-equivalent group inventory EMPTY; SEC-061 and group drift blind''))
      | Inr (content, truncated) \<Rightarrow>
          (let body = (if truncated then
                         (case rsplit_once (CHR 0x0A) content of None \<Rightarrow> [] | Some (h, _) \<Rightarrow> h)
                       else content);
               note = (if truncated then
                         Some (path @ '' exceeded '' @ show_nat CAP_GROUP_FILE @ '' B '' @ em_dash
                           @ '' root-equivalent group inventory PARTIAL (trailing partial line dropped)'')
                       else None)
           in (sort_groups (List.map_filter group_line (lines body)), note)))"

section \<open>The access scan\<close>

definition user_keys ::
  "account_env \<Rightarrow> key_policy \<Rightarrow> string \<Rightarrow> string \<Rightarrow> ssh_key_audit list \<times> string list" where
  "user_keys env policy user ak =
     (let who = ''user '' @ [CHR 0x27] @ user @ [CHR 0x27] @ '': '' @ ak in
      case read_file_capped_regular (ac_open env ak) CAP_AUTHORIZED_KEYS of
        Inr (content, truncated) \<Rightarrow>
          (List.map_filter (\<lambda>l. classify_key env user l policy)
             (filter (\<lambda>l. l \<noteq> [] \<and> \<not> starts_with l ''#'') (map trim (lines content))),
           if truncated then [who @ '' exceeded '' @ show_nat CAP_AUTHORIZED_KEYS @ '' B '' @ em_dash
                              @ '' key audit PARTIAL''] else [])
      | Inl e \<Rightarrow>
          ([], if failure_kind e = NotFound then []
               else if failure_kind e = PermissionDenied then [who @ '' unreadable (permission denied)'']
               else if failure_kind e = InvalidData then
                 [who @ '' is NOT a regular file (fifo/device/symlink to one) '' @ em_dash
                  @ '' key audit refused; treat as tampering'']
               else [who @ '' unreadable ('' @ os_kind_text (failure_kind e) @ '')'']))"

definition account_keys ::
  "account_env \<Rightarrow> key_policy \<Rightarrow> string \<Rightarrow> ssh_key_audit list \<times> string list" where
  "account_keys env policy line =
     (case split_char (CHR '':'') line of
        user # _ # _ # _ # _ # home # shell # _ \<Rightarrow>
          if ends_with shell ''nologin'' \<or> ends_with shell ''false'' then ([], [])
          else user_keys env policy user (home @ ''/.ssh/authorized_keys'')
      | _ \<Rightarrow> ([], []))"

definition sudo_grants :: "cmnd_aliases \<Rightarrow> string \<times> string \<Rightarrow> sudoers_entry list" where
  "sudo_grants al fe =
     (case fe of (file, entry) \<Rightarrow>
        (if fst (is_nopasswd_all entry al) then
           [\<lparr>se_principal = (case split_whitespace entry of [] \<Rightarrow> ''?'' | w # _ \<Rightarrow> w),
             se_source_file = file, se_scope = ''ALL''\<rparr>]
         else [])
        @ (case defaults_no_authenticate entry of
             None \<Rightarrow> []
           | Some scope \<Rightarrow>
               [\<lparr>se_principal = (if scope = ''ALL'' then ''ALL''
                                else dropWhile (\<lambda>c. c \<in> set '':@!>'') scope),
                 se_source_file = file,
                 se_scope = ''ALL (Defaults'' @ scope @ '' !authenticate)''\<rparr>]))"

definition gather_access_alignment ::
  "account_env \<Rightarrow> cmnd_aliases \<Rightarrow> (string \<times> string) list \<Rightarrow> key_policy \<Rightarrow> access_audit_result" where
  "gather_access_alignment env al entries policy =
     (let accounts =
            (case read_file_capped_regular (ac_open env ''/etc/passwd'') (4 * 1024 * 1024) of
               Inr (passwd, truncated) \<Rightarrow>
                 (let rs = map (account_keys env policy) (lines passwd) in
                  (concat (map fst rs),
                   (if truncated then [''/etc/passwd exceeded cap '' @ em_dash
                      @ '' account enumeration PARTIAL''] else []) @ concat (map snd rs)))
             | Inl e \<Rightarrow>
                 ([], if failure_kind e = InvalidData then
                        [''/etc/passwd is NOT a regular file (fifo/device) '' @ em_dash
                         @ '' account enumeration refused; treat as tampering'']
                      else [''/etc/passwd unreadable ('' @ os_kind_text (failure_kind e) @ '') '' @ em_dash
                            @ '' account enumeration incomplete'']))
      in case root_equivalent_groups_scan env ''/etc/group'' of
           (groups, note) \<Rightarrow>
             \<lparr>aar_keys = fst accounts,
              aar_coverage_warnings = snd accounts @ (case note of None \<Rightarrow> [] | Some n \<Rightarrow> [n]),
              aar_sudoers_nopasswd_all = concat (map (sudo_grants al) entries),
              aar_root_equivalent_groups = groups\<rparr>)"

end
