(* ===== verification/AccountsLaws.thy ===== *)
theory AccountsLaws
  imports Accounts ScanText
begin

text \<open>
  The account scans find what they claim to find: a file of accounts is audited account by account, an
  exposed key is always reported, a path that could not be inspected is always disclosed, and key options
  are read back as they were written.
\<close>

section \<open>Checks that count what they could not read\<close>

text \<open>
  The contract of the closures given to \<open>filter_map\<close>: the result depends on the file alone, and the
  counter grows by one for a path that exists and cannot be inspected.
\<close>

locale counting_check =
  fixes f :: "unreadable \<Rightarrow> 'a \<Rightarrow> 'b option \<times> unreadable"
    and res :: "'a \<Rightarrow> 'b option" and bad :: "'a \<Rightarrow> bool"
  assumes result: "fst (f u x) = res x"
    and count: "un_count (snd (f u x)) = un_count u + (if bad x then 1 else 0)"
begin

lemma results: "fst (filter_map_unread f xs u) = List.map_filter res xs"
proof (induction xs arbitrary: u)
  case (Cons x xs)
  obtain r v ys w where "f u x = (r, v)" "filter_map_unread f xs v = (ys, w)" by fastforce
  then show ?case using result [of u x] Cons.IH [of v] by (auto split: option.split)
qed simp

lemma total: "un_count (snd (filter_map_unread f xs u)) = un_count u + length (filter bad xs)"
proof (induction xs arbitrary: u)
  case (Cons x xs)
  show ?case
    using count [of u x] Cons.IH [of "snd (f u x)"] by (auto split: prod.splits)
qed simp

end

definition cannot_inspect :: "account_env \<Rightarrow> string \<Rightarrow> bool" where
  "cannot_inspect env path =
     (case ac_stat env path of Inl e \<Rightarrow> e \<noteq> NotFound \<and> e \<noteq> NotADirectory | Inr _ \<Rightarrow> False)"

definition stat_of :: "account_env \<Rightarrow> string \<Rightarrow> (u32 \<times> u32 \<times> u32) option" where
  "stat_of env path =
     (case ac_stat env path of Inl e \<Rightarrow> None
      | Inr m \<Rightarrow> Some (fm_mode m AND 0xFFF, fm_uid m, fm_gid m))"

lemma unread_meta_count:
  "un_count (snd (unread_meta env path u)) = un_count u + (if cannot_inspect env path then 1 else 0)"
  by (auto simp: unread_meta_def cannot_inspect_def split: sum.split)

lemma unread_meta_fst: "fst (unread_meta env path u) = (case ac_stat env path of Inl e \<Rightarrow> None | Inr m \<Rightarrow> Some m)"
  by (auto simp: unread_meta_def split: sum.split)

lemma unread_stat_snd: "snd (unread_stat env path u) = snd (unread_meta env path u)"
  by (auto simp: unread_stat_def split: prod.split option.split)

lemma unread_stat_fst: "fst (unread_stat env path u) = stat_of env path"
  using unread_meta_fst [of env path u]
  by (auto simp: unread_stat_def stat_of_def split: prod.split option.split sum.splits)

lemma unread_stat_eq: "unread_stat env path u = (stat_of env path, snd (unread_meta env path u))"
  by (metis prod.collapse unread_stat_fst unread_stat_snd)

lemma unread_meta_eq:
  "unread_meta env path u =
     (case ac_stat env path of Inl e \<Rightarrow> None | Inr m \<Rightarrow> Some m, snd (unread_meta env path u))"
  by (metis prod.collapse unread_meta_fst)

lemmas unread_stat_simps = unread_stat_eq unread_meta_count

interpretation private_key_check: counting_check "check_private_key env user home"
  "\<lambda>name. case stat_of env (home @ ''/.ssh/'' @ name) of None \<Rightarrow> None
     | Some (mode, _, _) \<Rightarrow>
         if mode_allows mode 0x3F
         then Some \<lparr>pkf_user = user, pkf_path = home @ ''/.ssh/'' @ name, pkf_mode = octal4 mode\<rparr> else None"
  "\<lambda>name. cannot_inspect env (home @ ''/.ssh/'' @ name)" for env user home
  by unfold_locales
    (simp_all add: check_private_key_def unread_stat_simps Let_def split: option.split prod.split)

interpretation dotfile_check: counting_check "check_dotfile env"
  "\<lambda>(path, reason). case stat_of env path of None \<Rightarrow> None
     | Some (mode, uid, gid) \<Rightarrow>
         if mode_allows mode 0x3F then Some (issue path mode uid gid reason) else None"
  "\<lambda>(path, reason). cannot_inspect env path" for env
  by unfold_locales (auto simp: check_dotfile_def unread_stat_simps split: option.split prod.split)

interpretation shadow_check: counting_check "check_shadow_file env"
  "\<lambda>(path, reason). case stat_of env path of None \<Rightarrow> None
     | Some (mode, uid, gid) \<Rightarrow>
         if mode_allows mode SHADOW_FORBIDDEN \<or> uid \<noteq> 0 then Some (issue path mode uid gid reason) else None"
  "\<lambda>(path, reason). cannot_inspect env path" for env
  by unfold_locales (auto simp: check_shadow_file_def unread_stat_simps split: option.split prod.split)

definition sudoers_name_read :: "string \<Rightarrow> bool" where
  "sudoers_name_read name = (\<not> ends_with name ''~'' \<and> \<not> contains name ''.'')"

definition sudoers_issue :: "account_env \<Rightarrow> os_kind + string option \<Rightarrow> credential_file_issue option" where
  "sudoers_issue env entry =
     (case entry of Inr (Some name) \<Rightarrow>
        if \<not> sudoers_name_read name then None
        else (case ac_stat env (''/etc/sudoers.d/'' @ name) of Inl e \<Rightarrow> None
          | Inr m \<Rightarrow>
              if fm_is_file m \<and> (mode_allows (fm_mode m AND 0xFFF) 0x5F \<or> fm_uid m \<noteq> 0)
              then Some (issue (''/etc/sudoers.d/'' @ name) (fm_mode m AND 0xFFF) (fm_uid m) (fm_gid m)
                     ''sudoers.d file must be 0440 (or 0400) root-owned'')
              else None)
      | _ \<Rightarrow> None)"

definition sudoers_unread :: "account_env \<Rightarrow> os_kind + string option \<Rightarrow> bool" where
  "sudoers_unread env entry =
     (case entry of Inl e \<Rightarrow> True
      | Inr None \<Rightarrow> False
      | Inr (Some name) \<Rightarrow> sudoers_name_read name \<and> cannot_inspect env (''/etc/sudoers.d/'' @ name))"

lemma sudoers_entry_result:
  "check_sudoers_entry env u x =
     (sudoers_issue env x, snd (check_sudoers_entry env u x))
   \<and> un_count (snd (check_sudoers_entry env u x)) = un_count u + (if sudoers_unread env x then 1 else 0)"
proof (cases "\<exists>name. x = Inr (Some name)")
  case True
  then obtain name where x: "x = Inr (Some name)" by blast
  define path where "path = ''/etc/sudoers.d/'' @ name"
  obtain m v where mv: "unread_meta env path u = (m, v)" by fastforce
  have "m = (case ac_stat env path of Inl e \<Rightarrow> None | Inr m \<Rightarrow> Some m)"
    using unread_meta_fst [of env path u] mv by simp
  moreover have "un_count v = un_count u + (if cannot_inspect env path then 1 else 0)"
    using unread_meta_count [of env path u] mv by simp
  ultimately show ?thesis
    using mv unfolding x path_def
    by (simp add: check_sudoers_entry_def sudoers_issue_def sudoers_unread_def sudoers_name_read_def Let_def
        del: append_Cons split: sum.split)
next
  case False
  then show ?thesis
    by (auto simp: check_sudoers_entry_def sudoers_issue_def sudoers_unread_def split: sum.splits option.splits)
qed

interpretation sudoers_check: counting_check "check_sudoers_entry env" "sudoers_issue env" "sudoers_unread env"
  for env
  by unfold_locales (metis fst_conv sudoers_entry_result, metis sudoers_entry_result)


section \<open>Every account is looked at\<close>

lemma private_keys_exposed:
  "path \<in> pkf_path ` set (fst (check_private_keys env user home u)) \<longleftrightarrow>
     (\<exists>name \<in> set KEY_NAMES. path = home @ ''/.ssh/'' @ name
        \<and> (\<exists>m o' g. stat_of env path = Some (m, o', g) \<and> mode_allows m 0x3F))"
  unfolding check_private_keys_def private_key_check.results
  by (auto simp: map_filter_def image_iff split: option.splits if_splits) force+

lemma check_authorized_keys_count:
  "un_count (snd (check_authorized_keys env user uid home u))
     = un_count u + (if cannot_inspect env (home @ ''/.ssh/authorized_keys'') then 1 else 0)"
  by (simp add: check_authorized_keys_def unread_stat_simps Let_def split: option.split prod.split)

text \<open>The paths under a home that are inspected.\<close>

definition home_paths :: "string \<Rightarrow> string list" where
  "home_paths home = map (\<lambda>name. home @ ''/.ssh/'' @ name) (KEY_NAMES @ [''authorized_keys''])"

lemma check_user_count:
  "check_private_keys env user home u = (ks, u1) \<Longrightarrow> check_authorized_keys env user uid home u1 = (a, u2) \<Longrightarrow>
     un_count u2 = un_count u + length (filter (cannot_inspect env) (home_paths home))"
proof -
  assume k: "check_private_keys env user home u = (ks, u1)"
    and a: "check_authorized_keys env user uid home u1 = (a, u2)"
  have "un_count u1 = un_count u
      + length (filter (\<lambda>name. cannot_inspect env (home @ ''/.ssh/'' @ name)) KEY_NAMES)"
    using private_key_check.total [of env user home KEY_NAMES u] k
    unfolding check_private_keys_def by simp
  then show ?thesis
    using check_authorized_keys_count [of env user uid home u1] a
    by (simp add: home_paths_def filter_map o_def del: filter.simps)
qed

lemma check_users_count:
  "un_count (snd (snd (check_users env us u)))
     = un_count u + length (filter (cannot_inspect env) (concat (map (\<lambda>(_, _, h). home_paths h) us)))"
proof (induction env us u rule: check_users.induct)
  case (2 env user uid home us u)
  obtain ks u1 where k: "check_private_keys env user home u = (ks, u1)" by fastforce
  obtain a u2 where a: "check_authorized_keys env user uid home u1 = (a, u2)" by fastforce
  obtain kss as' u3 where r: "check_users env us u2 = (kss, as', u3)" by (cases "check_users env us u2") auto
  have "un_count u3 = un_count u2
      + length (filter (cannot_inspect env) (concat (map (\<lambda>(_, _, h). home_paths h) us)))"
    using 2 [OF k [symmetric] a [symmetric]] r by simp
  then show ?case using check_user_count [OF k a] k a r by simp
qed simp

lemma check_users_keys:
  "path \<in> pkf_path ` set (fst (check_users env us u)) \<longleftrightarrow>
     (\<exists>(user, uid, home) \<in> set us. \<exists>name \<in> set KEY_NAMES. path = home @ ''/.ssh/'' @ name
        \<and> (\<exists>m o' g. stat_of env path = Some (m, o', g) \<and> mode_allows m 0x3F))"
proof (induction env us u rule: check_users.induct)
  case (2 env user uid home us u)
  obtain ks u1 where k: "check_private_keys env user home u = (ks, u1)" by fastforce
  obtain a u2 where a: "check_authorized_keys env user uid home u1 = (a, u2)" by fastforce
  obtain kss as' u3 where r: "check_users env us u2 = (kss, as', u3)" by (cases "check_users env us u2") auto
  have "ks = fst (check_private_keys env user home u)" using k by simp
  then have "path \<in> pkf_path ` set ks \<longleftrightarrow> (\<exists>name \<in> set KEY_NAMES. path = home @ ''/.ssh/'' @ name
        \<and> (\<exists>m o' g. stat_of env path = Some (m, o', g) \<and> mode_allows m 0x3F))"
    by (simp only: private_keys_exposed)
  then show ?case
    using 2 [OF k [symmetric] a [symmetric]] k a r by (simp add: image_Un)
qed simp

text \<open>The homes examined are those of the accounts, each once.\<close>

definition accounts_of :: "string list \<Rightarrow> passwd_entry list" where
  "accounts_of ls = List.map_filter parse_passwd_line ls"

lemma accounts_of_simps [simp]:
  "accounts_of [] = []" "accounts_of (ls @ ls') = accounts_of ls @ accounts_of ls'"
  by (simp_all add: accounts_of_def map_filter_def)

lemma passwd_homes:
  "set (ps_homes (fold passwd_step ls p)) = set (ps_homes p) \<union> (pw_home ` set (accounts_of ls) - {[]})"
  "set (map (snd \<circ> snd) (ps_users (fold passwd_step ls p)))
     = set (map (snd \<circ> snd) (ps_users p)) \<union> (pw_home ` set (accounts_of ls) - {[]} - set (ps_homes p))"
proof (induction ls arbitrary: p)
  case (Cons l ls)
  {
    case 1
    show ?case using Cons(1) [of "passwd_step l p"]
      by (auto simp: passwd_step_def accounts_of_def split: option.splits)
  next
    case 2
    show ?case using Cons(2) [of "passwd_step l p"]
      by (auto simp: passwd_step_def accounts_of_def split: option.splits)
  }
qed simp_all

lemma homes_examined:
  "(\<exists>user uid. (user, uid, home) \<in> set (ps_users (fold passwd_step ls no_passwd_scan)))
     \<longleftrightarrow> home \<noteq> [] \<and> home \<in> pw_home ` set (accounts_of ls)"
proof -
  have "(\<exists>user uid. (user, uid, home) \<in> set us) \<longleftrightarrow> home \<in> set (map (snd \<circ> snd) us)"
    for us :: "(string \<times> u32 \<times> string) list" by force
  then show ?thesis using passwd_homes(2) [of ls no_passwd_scan] by (auto simp: no_passwd_scan_def)
qed

section \<open>A written account is read back\<close>

definition account_line :: "passwd_entry \<times> string \<times> string \<Rightarrow> string" where
  "account_line a = (case a of (e, gid, gecos) \<Rightarrow>
     pw_user e @ CHR '':'' # pw_pw e @ CHR '':'' # show_word (pw_uid e) @ CHR '':'' # gid @ CHR '':'' # gecos
       @ CHR '':'' # pw_home e @ CHR '':'' # pw_shell e)"

text \<open>No field but the shell holds the separator; the line begins and ends in a visible character.\<close>

definition account_ok :: "passwd_entry \<times> string \<times> string \<Rightarrow> bool" where
  "account_ok a = (case a of (e, gid, gecos) \<Rightarrow>
     list_all (\<lambda>f. CHR '':'' \<notin> set f) [pw_user e, pw_pw e, gid, gecos, pw_home e]
     \<and> list_all (\<lambda>f. CHR 0x0A \<notin> set f) [pw_user e, pw_pw e, gid, gecos, pw_home e, pw_shell e]
     \<and> pw_user e \<noteq> [] \<and> visible (hd (pw_user e)) \<and> hd (pw_user e) \<noteq> CHR ''#''
     \<and> (pw_shell e = [] \<or> visible (last (pw_shell e))))"

lemma show_word_chars: "CHR '':'' \<notin> set (show_word w)" "CHR 0x0A \<notin> set (show_word w)"
  using show_nat_digits [of "unat w"] by (auto simp: show_word_def list_all_iff byte_def)

lemma account_line_ends:
  assumes "account_ok a"
  shows "account_line a \<noteq> []" "visible (hd (account_line a))" "visible (last (account_line a))"
    "\<not> starts_with (account_line a) ''#''" "line_text (account_line a)"
proof -
  obtain e gid gecos where a: "a = (e, gid, gecos)" by (cases a)
  show "account_line a \<noteq> []" by (simp add: a account_line_def)
  show "visible (hd (account_line a))" using assms by (simp add: a account_line_def account_ok_def)
  have c: "visible (CHR '':'')" by (simp add: visible_def)
  show l: "visible (last (account_line a))"
    using assms c by (auto simp: a account_line_def account_ok_def)
  show "\<not> starts_with (account_line a) ''#''"
    using assms by (cases "pw_user e") (auto simp: a account_line_def account_ok_def starts_with_iff)
  have "\<not> visible (CHR 0x0D)" by (simp add: visible_def)
  with l have "last (account_line a) \<noteq> CHR 0x0D" by metis
  then show "line_text (account_line a)"
    using assms show_word_chars(2) by (auto simp: line_text_def a account_line_def account_ok_def)
qed

lemma parse_account_line:
  assumes "account_ok a"
  shows "parse_passwd_line (account_line a) = Some (fst a)"
proof -
  obtain e gid gecos where a: "a = (e, gid, gecos)" by (cases a)
  have "splitn 7 (CHR '':'') (account_line a)
      = [pw_user e, pw_pw e, show_word (pw_uid e), gid, gecos, pw_home e, pw_shell e]"
    using assms show_word_chars(1) [of "pw_uid e"]
    by (simp add: a account_line_def account_ok_def eval_nat_numeral split_once_append)
  moreover have "trim (account_line a) = account_line a"
    using account_line_ends [OF assms] by (simp add: trim_visible)
  ultimately show ?thesis
    using account_line_ends [OF assms] assms
    by (simp add: parse_passwd_line_def Let_def parse_u32_show a account_ok_def)
qed

lemma accounts_of_file:
  "list_all account_ok as' \<Longrightarrow> accounts_of (lines (file_of (map account_line as'))) = map fst as'"
proof -
  assume a: "list_all account_ok as'"
  then have "list_all line_text (map account_line as')"
    using account_line_ends(5) by (simp add: list_all_iff)
  then have "lines (file_of (map account_line as')) = map account_line as'" by (rule lines_file)
  moreover have "accounts_of (map account_line as') = map fst as'"
    using a by (induction as') (simp_all add: accounts_of_def parse_account_line)
  ultimately show ?thesis by simp
qed

section \<open>The hygiene scan as a whole\<close>

text \<open>Everything the scan inspects, given the text of \<open>/etc/passwd\<close>.\<close>

definition credential_paths :: "account_env \<Rightarrow> string \<Rightarrow> string set" where
  "credential_paths env passwd =
     fst ` set SHADOW_FILES \<union> fst ` set ROOT_DOTFILES
     \<union> {''/etc/sudoers.d/'' @ name |name. \<exists>es. ac_sudoers_d env = Inr es \<and> Inr (Some name) \<in> set es
          \<and> sudoers_name_read name}
     \<union> (\<Union>e \<in> set (accounts_of (lines passwd)). if pw_home e = [] then {} else set (home_paths (pw_home e)))"

text \<open>
  What a scan without a note has to have seen besides: \<open>/etc/shadow\<close> to its end unless there is none,
  and the list of \<open>/etc/sudoers.d\<close> with every entry of it, unless there is no such directory.
\<close>

definition shadow_seen :: "account_env \<Rightarrow> bool" where
  "shadow_seen env =
     (case read_file_capped_regular (ac_open env ''/etc/shadow'') CAP_SHADOW of
        Inl e \<Rightarrow> failure_kind e = NotFound
      | Inr (text, truncated) \<Rightarrow> \<not> truncated)"

definition sudoers_d_listed :: "account_env \<Rightarrow> bool" where
  "sudoers_d_listed env =
     (case ac_sudoers_d env of Inl e \<Rightarrow> e = NotFound | Inr es \<Rightarrow> list_all (\<lambda>e. \<not> isl e) es)"

definition shadow_notes :: "account_env \<Rightarrow> string list" where
  "shadow_notes env =
     (case read_file_capped_regular (ac_open env ''/etc/shadow'') CAP_SHADOW of
        Inl e \<Rightarrow> shadow_note (failure_kind e)
      | Inr (_, partial) \<Rightarrow> if partial then [''/etc/shadow exceeded cap '' @ em_dash
                           @ '' hash audit PARTIAL''] else [])"

lemma shadow_notes_silent: "shadow_notes env = [] \<longleftrightarrow> shadow_seen env"
  by (auto simp: shadow_notes_def shadow_seen_def shadow_note_def split: sum.splits)

abbreviation users_of :: "string \<Rightarrow> (string \<times> u32 \<times> string) list" where
  "users_of passwd \<equiv> ps_users (fold passwd_step (lines passwd) no_passwd_scan)"

lemma scan_parts:
  assumes "read_file_capped_regular (ac_open env ''/etc/passwd'') CAP_PASSWD = Inr (passwd, truncated)"
  obtains u1 u2 u3 u4 ks where
    "u1 = snd (filter_map_unread (check_shadow_file env) SHADOW_FILES default_unreadable)"
    "u2 = fst (snd (check_sudoers_d env u1))"
    "ks = fst (check_users env (users_of passwd) u2)"
    "u3 = snd (snd (check_users env (users_of passwd) u2))"
    "u4 = snd (check_root_dotfiles env u3)"
    "ah_ssh_private_key_readable (fst (scan_account_hygiene env)) = ks"
    "\<exists>n1. snd (scan_account_hygiene env)
        = (if truncated then [n1] else []) @ shadow_notes env @ snd (snd (check_sudoers_d env u1)) @ lower_bound_note u4"
proof -
  define us where "us = users_of passwd"
  obtain i1 u1 where p1: "filter_map_unread (check_shadow_file env) SHADOW_FILES default_unreadable = (i1, u1)"
    by fastforce
  obtain i2 u2 n3 where p2: "check_sudoers_d env u1 = (i2, u2, n3)" by (cases "check_sudoers_d env u1") auto
  obtain ks w u3 where p3: "check_users env us u2 = (ks, w, u3)" by (cases "check_users env us u2") auto
  obtain ds u4 where p4: "check_root_dotfiles env u3 = (ds, u4)" by fastforce
  show ?thesis
    by (rule that [of u1 u2 ks u3 u4])
      (simp_all add: scan_account_hygiene_def assms p1 p2 p3 p4 us_def [symmetric] shadow_notes_def Let_def
        split: prod.split)
qed

lemma users_homes:
  "(\<exists>user uid. (user, uid, home) \<in> set (users_of passwd)) \<longleftrightarrow>
     home \<noteq> [] \<and> home \<in> pw_home ` set (accounts_of (lines passwd))"
  by (rule homes_examined)

text \<open>The keys reported, whatever was counted before.\<close>

lemma private_keys_exact:
  "pkf_path ` set (fst (check_users env (users_of passwd) u)) =
     {path. \<exists>e \<in> set (accounts_of (lines passwd)). \<exists>name \<in> set KEY_NAMES.
        pw_home e \<noteq> [] \<and> path = pw_home e @ ''/.ssh/'' @ name
        \<and> (\<exists>m. ac_stat env path = Inr m \<and> fm_mode m AND 0x3F \<noteq> 0)}"
proof (rule set_eqI)
  fix path
  have mode: "(m AND 0xFFF) AND 0x3F = m AND 0x3F" for m :: u32 by (simp add: and.assoc)
  have exposed: "(\<exists>m o' g. stat_of env path = Some (m, o', g) \<and> mode_allows m 0x3F)
      \<longleftrightarrow> (\<exists>m. ac_stat env path = Inr m \<and> fm_mode m AND 0x3F \<noteq> 0)" for path
    by (auto simp: stat_of_def mode_allows_def mode split: sum.splits)
  have "path \<in> pkf_path ` set (fst (check_users env (users_of passwd) u)) \<longleftrightarrow>
      (\<exists>home. (\<exists>user uid. (user, uid, home) \<in> set (users_of passwd))
      \<and> (\<exists>name \<in> set KEY_NAMES. path = home @ ''/.ssh/'' @ name
         \<and> (\<exists>m. ac_stat env path = Inr m \<and> fm_mode m AND 0x3F \<noteq> 0)))"
    unfolding check_users_keys exposed by blast
  then show "path \<in> pkf_path ` set (fst (check_users env (users_of passwd) u)) \<longleftrightarrow>
      path \<in> {path. \<exists>e \<in> set (accounts_of (lines passwd)). \<exists>name \<in> set KEY_NAMES.
        pw_home e \<noteq> [] \<and> path = pw_home e @ ''/.ssh/'' @ name
        \<and> (\<exists>m. ac_stat env path = Inr m \<and> fm_mode m AND 0x3F \<noteq> 0)}"
    unfolding users_homes by blast
qed

text \<open>The count of paths that could not be inspected leaves none of them out.\<close>

lemma nothing_uncounted:
  assumes "u1 = snd (filter_map_unread (check_shadow_file env) SHADOW_FILES default_unreadable)"
    and "u2 = fst (snd (check_sudoers_d env u1))" and "u3 = snd (snd (check_users env us u2))"
    and "un_count (snd (check_root_dotfiles env u3)) = 0"
  shows "filter (\<lambda>(path, r). cannot_inspect env path) ROOT_DOTFILES = []"
    and "filter (\<lambda>(path, r). cannot_inspect env path) SHADOW_FILES = []"
    and "filter (cannot_inspect env) (concat (map (\<lambda>(_, _, h). home_paths h) us)) = []"
    and "ac_sudoers_d env = Inr es \<Longrightarrow> filter (sudoers_unread env) es = []"
proof -
  have c4: "un_count (snd (check_root_dotfiles env u3))
      = un_count u3 + length (filter (\<lambda>(path, r). cannot_inspect env path) ROOT_DOTFILES)"
    using dotfile_check.total [of env ROOT_DOTFILES u3] by (simp add: check_root_dotfiles_def)
  have c3: "un_count u3 = un_count u2
      + length (filter (cannot_inspect env) (concat (map (\<lambda>(_, _, h). home_paths h) us)))"
    using check_users_count [of env us u2] assms(3) by simp
  have c2: "un_count u2 = un_count u1
      + (case ac_sudoers_d env of Inr es \<Rightarrow> length (filter (sudoers_unread env) es) | _ \<Rightarrow> 0)"
    using sudoers_check.total [of env _ u1] assms(2)
    by (simp add: check_sudoers_d_def split: sum.splits prod.splits) (metis snd_conv)
  have c1: "un_count u1 = length (filter (\<lambda>(path, r). cannot_inspect env path) SHADOW_FILES)"
    using shadow_check.total [of env SHADOW_FILES default_unreadable] assms(1)
    by (simp add: default_unreadable_def)
  show "filter (\<lambda>(path, r). cannot_inspect env path) ROOT_DOTFILES = []"
    "filter (\<lambda>(path, r). cannot_inspect env path) SHADOW_FILES = []"
    "filter (cannot_inspect env) (concat (map (\<lambda>(_, _, h). home_paths h) us)) = []"
    "ac_sudoers_d env = Inr es \<Longrightarrow> filter (sudoers_unread env) es = []"
    using assms(4) c1 c2 c3 c4 by auto
qed

lemma credentials_inspected:
  assumes "filter (\<lambda>(path, r). cannot_inspect env path) ROOT_DOTFILES = []"
    and "filter (\<lambda>(path, r). cannot_inspect env path) SHADOW_FILES = []"
    and "filter (cannot_inspect env) (concat (map (\<lambda>(_, _, h). home_paths h) (users_of passwd))) = []"
    and "\<And>es. ac_sudoers_d env = Inr es \<Longrightarrow> filter (sudoers_unread env) es = []"
    and "path \<in> credential_paths env passwd"
  shows "\<not> cannot_inspect env path"
proof -
  from assms(5) consider (fixed) "path \<in> fst ` set SHADOW_FILES \<union> fst ` set ROOT_DOTFILES"
    | (sudoers) name es where "path = ''/etc/sudoers.d/'' @ name" "ac_sudoers_d env = Inr es"
        "Inr (Some name) \<in> set es" "sudoers_name_read name"
    | (home) e where "e \<in> set (accounts_of (lines passwd))" "pw_home e \<noteq> []"
        "path \<in> set (home_paths (pw_home e))"
    unfolding credential_paths_def by (auto split: if_splits)
  then show ?thesis
  proof cases
    case fixed
    then show ?thesis using assms(1,2) by (auto simp: filter_empty_conv)
  next
    case sudoers
    have "\<not> sudoers_unread env (Inr (Some name))"
      using assms(4) [OF sudoers(2)] sudoers(3) by (simp add: filter_empty_conv)
    then show ?thesis using sudoers(1,4) by (simp add: sudoers_unread_def)
  next
    case home
    then obtain user uid where "(user, uid, pw_home e) \<in> set (users_of passwd)" using users_homes by blast
    then show ?thesis using assms(3) home(3) by (fastforce simp: filter_empty_conv)
  qed
qed

lemma sudoers_d_silent:
  assumes "snd (snd (check_sudoers_d env u)) = []"
    and "\<And>es. ac_sudoers_d env = Inr es \<Longrightarrow> filter (sudoers_unread env) es = []"
  shows "sudoers_d_listed env"
proof (cases "ac_sudoers_d env")
  case (Inl e)
  then show ?thesis using assms(1) by (auto simp: check_sudoers_d_def sudoers_d_listed_def split: if_splits)
next
  case (Inr es)
  have "\<not> isl e" if "e \<in> set es" for e
    using assms(2) [OF Inr] that by (cases e) (auto simp: filter_empty_conv sudoers_unread_def)
  then show ?thesis by (simp add: sudoers_d_listed_def Inr list_all_iff)
qed

text \<open>
  C28: The hygiene scan never calls a key clean that is exposed. Whatever else fails, once \<open>/etc/passwd\<close>
  is read the private keys reported are exactly those under the home of some account, shared homes and
  service accounts included, that give any permission to group or other. And if the scan adds no note on
  coverage, then \<open>/etc/passwd\<close> was read to its end; \<open>/etc/shadow\<close> was read to its end, or does not exist;
  \<open>/etc/sudoers.d\<close> was listed without an error, or does not exist; and each credential path, the files
  listed there included, was inspected, or is absent. So silence is never a permission error. (Of the
  files listed, those whose name \<open>sudo\<close> ignores are left out, and one whose name is not UTF-8.)
\<close>

theorem exposed_keys_reported:
  assumes "read_file_capped_regular (ac_open env ''/etc/passwd'') CAP_PASSWD = Inr (passwd, truncated)"
  shows "pkf_path ` set (ah_ssh_private_key_readable (fst (scan_account_hygiene env)))
      = {path. \<exists>e \<in> set (accounts_of (lines passwd)). \<exists>name \<in> set KEY_NAMES.
           pw_home e \<noteq> [] \<and> path = pw_home e @ ''/.ssh/'' @ name
           \<and> (\<exists>m. ac_stat env path = Inr m \<and> fm_mode m AND 0x3F \<noteq> 0)}
    \<and> (snd (scan_account_hygiene env) = [] \<longrightarrow>
         \<not> truncated \<and> shadow_seen env \<and> sudoers_d_listed env
         \<and> (\<forall>path \<in> credential_paths env passwd. \<not> cannot_inspect env path))"
proof -
  obtain u1 u2 u3 u4 ks n1 where parts:
    "u1 = snd (filter_map_unread (check_shadow_file env) SHADOW_FILES default_unreadable)"
    "u2 = fst (snd (check_sudoers_d env u1))" "ks = fst (check_users env (users_of passwd) u2)"
    "u3 = snd (snd (check_users env (users_of passwd) u2))" "u4 = snd (check_root_dotfiles env u3)"
    "ah_ssh_private_key_readable (fst (scan_account_hygiene env)) = ks"
    "snd (scan_account_hygiene env)
        = (if truncated then [n1] else []) @ shadow_notes env @ snd (snd (check_sudoers_d env u1)) @ lower_bound_note u4"
    using scan_parts [OF assms] by metis
  have "\<not> truncated \<and> shadow_seen env \<and> sudoers_d_listed env
      \<and> (\<forall>path \<in> credential_paths env passwd. \<not> cannot_inspect env path)"
    if quiet: "snd (scan_account_hygiene env) = []"
  proof -
    from quiet parts(7) have silent: "\<not> truncated" "shadow_notes env = []"
      "snd (snd (check_sudoers_d env u1)) = []" "un_count u4 = 0"
      by (auto simp: lower_bound_note_def split: if_splits)
    note none = nothing_uncounted [OF parts(1,2,4) silent(4) [unfolded parts(5)]]
    show ?thesis
      using silent(1,2) shadow_notes_silent sudoers_d_silent [OF silent(3) none(4)]
        credentials_inspected [OF none] by blast
  qed
  with private_keys_exact [of env passwd u2] parts(3,6) show ?thesis by simp
qed

text \<open>
  The audit of \<open>/etc/passwd\<close> is exact. For a file that lists any accounts, the scan reports as
  duplicates of root exactly the names other than root with user ID 0, in order; as system accounts with a
  shell exactly those with a user ID from 1 to 999 whose shell is not one of the fixed non-interactive ones,
  an empty shell included; and as accounts without a password first those with an empty password field.
\<close>

theorem passwd_audit_exact:
  assumes "list_all account_ok as'" "ac_open env ''/etc/passwd'' = Inr (RegularFile, file_of (map account_line as'))"
    "list_all (\<lambda>c. byte c < 128) (file_of (map account_line as'))"
    "length (file_of (map account_line as')) \<le> CAP_PASSWD"
  shows "let info = fst (scan_account_hygiene env); es = map fst as' in
    ah_duplicate_uid_zero info = map pw_user (filter (\<lambda>e. pw_uid e = 0 \<and> pw_user e \<noteq> ''root'') es)
    \<and> ah_system_accounts_with_shell info
        = map shell_note (filter (\<lambda>e. 0 < pw_uid e \<and> pw_uid e < 1000
            \<and> trim (pw_shell e) \<notin> set NON_INTERACTIVE_SHELLS) es)
    \<and> (\<exists>more. ah_empty_password_users info
        = map (\<lambda>e. pw_user e @ '' (/etc/passwd)'') (filter (\<lambda>e. pw_pw e = []) es) @ more)"
proof -
  let ?text = "file_of (map account_line as')"
  let ?p = "fold passwd_step (lines ?text) no_passwd_scan"
  have read: "read_file_capped_regular (ac_open env ''/etc/passwd'') CAP_PASSWD = Inr (?text, False)"
    using assms(2-4) by (simp add: read_file_capped_regular_def read_regular_capped_def capped_def ascii_lossy)
  have p: "ps_uid_zero (fold passwd_step ls q) = ps_uid_zero q
        @ map pw_user (filter (\<lambda>e. pw_uid e = 0 \<and> pw_user e \<noteq> ''root'') (accounts_of ls))"
    "ps_shells (fold passwd_step ls q) = ps_shells q
        @ map shell_note (filter (\<lambda>e. is_system_account_with_shell (pw_uid e) (pw_shell e)) (accounts_of ls))"
    "ps_empty (fold passwd_step ls q) = ps_empty q
        @ map (\<lambda>e. pw_user e @ '' (/etc/passwd)'') (filter (\<lambda>e. pw_pw e = []) (accounts_of ls))" for ls q
    by (induction ls arbitrary: q)
      (auto simp: passwd_step_def accounts_of_def classify_passwd_pw_def split: option.split)
  have more: "\<exists>more. snd (fold shadow_step ls acc) = snd acc @ more" for ls acc
  proof (induction ls arbitrary: acc)
    case (Cons l ls)
    have "\<exists>m. snd (shadow_step l acc) = snd acc @ m"
      by (auto simp: shadow_step_def split: prod.split option.split)
    then show ?case using Cons [of "shadow_step l acc"] by auto
  qed simp
  have ps: "ah_duplicate_uid_zero (fst (scan_account_hygiene env)) = ps_uid_zero ?p"
    "ah_system_accounts_with_shell (fst (scan_account_hygiene env)) = ps_shells ?p"
    "\<exists>m. ah_empty_password_users (fst (scan_account_hygiene env)) = ps_empty ?p @ m"
    using more [of _ "(ps_weak ?p, ps_empty ?p)"]
    by (auto simp: scan_account_hygiene_def read Let_def split: prod.split sum.split)
  have sys: "is_system_account_with_shell u sh = (0 < u \<and> u < 1000 \<and> trim sh \<notin> set NON_INTERACTIVE_SHELLS)"
    for u sh
    by (simp add: is_system_account_with_shell_def is_system_uid_def SYSTEM_UID_THRESHOLD_def
        is_interactive_shell_def word_neq_0_conv)
  show ?thesis
    using ps p [of "lines ?text" no_passwd_scan] accounts_of_file [OF assms(1)]
    by (simp add: Let_def sys no_passwd_scan_def)
qed

definition sample_accounts :: "(passwd_entry \<times> string \<times> string) list" where
  "sample_accounts =
     [(\<lparr>pw_user = ''root'', pw_pw = ''x'', pw_uid = 0, pw_home = ''/root'', pw_shell = ''/bin/sh''\<rparr>, ''0'', []),
      (\<lparr>pw_user = ''toor'', pw_pw = [], pw_uid = 0, pw_home = ''/h'', pw_shell = []\<rparr>, ''0'', [])]"

lemma digit_char_0: "digit_char 0 = CHR ''0''"
  by code_simp

lemma sample_accounts_file:
  "list_all account_ok sample_accounts"
  "map account_line sample_accounts = [''root:x:0:0::/root:/bin/sh'', ''toor::0:0::/h:'']"
  by (simp_all add: sample_accounts_def account_ok_def account_line_def visible_def show_word_def show_nat_def
      show_base.simps digit_char_0)

definition sample_env :: account_env where
  "sample_env =
     \<lparr>ac_open = (\<lambda>p. if p = ''/etc/passwd''
                   then Inr (RegularFile, file_of (map account_line sample_accounts)) else Inl NotFound),
      ac_stat = (\<lambda>p. if p = ''/h/.ssh/id_rsa''
                   then Inr \<lparr>fm_mode = 0x1A4, fm_uid = 7, fm_gid = 7, fm_is_file = True\<rparr> else Inl NotFound),
      ac_sudoers_d = Inl NotFound, ac_public_key = (\<lambda>s. None)\<rparr>"

lemma sample_text:
  "list_all (\<lambda>c. byte c < 128) (file_of (map account_line sample_accounts))"
  "length (file_of (map account_line sample_accounts)) \<le> CAP_PASSWD"
  "ac_open sample_env ''/etc/passwd'' = Inr (RegularFile, file_of (map account_line sample_accounts))"
  by (simp_all add: sample_accounts_file(2) file_of_def byte_def CAP_PASSWD_def sample_env_def)

theorem passwd_audit_exact_witness:
  "ah_duplicate_uid_zero (fst (scan_account_hygiene sample_env)) = [''toor'']"
  using passwd_audit_exact [OF sample_accounts_file(1) sample_text(3,1,2)]
  by (simp add: Let_def sample_accounts_def)

theorem exposed_keys_reported_witness:
  "''/h/.ssh/id_rsa'' \<in> pkf_path ` set (ah_ssh_private_key_readable (fst (scan_account_hygiene sample_env)))"
proof -
  have "read_file_capped_regular (ac_open sample_env ''/etc/passwd'') CAP_PASSWD
      = Inr (file_of (map account_line sample_accounts), False)"
    using sample_text
    by (simp add: read_file_capped_regular_def read_regular_capped_def capped_def ascii_lossy)
  from exposed_keys_reported [OF this] show ?thesis
    unfolding accounts_of_file [OF sample_accounts_file(1)]
    by (simp add: sample_accounts_def KEY_NAMES_def sample_env_def)
qed


section \<open>Options of a key\<close>

text \<open>
  An option is a flag, or a name with a quoted value; commas and spaces are allowed in the quotes, which
  hold no quote and no backslash.
\<close>

definition plain_text :: "string \<Rightarrow> bool" where
  "plain_text s = list_all (\<lambda>c. visible c \<and> c \<noteq> CHR 0x22 \<and> c \<noteq> CHR '','') s"

definition key_option_ok :: "string \<Rightarrow> bool" where
  "key_option_ok t =
     (t \<noteq> [] \<and> (plain_text t \<or> (\<exists>name val. t = name @ CHR 0x22 # val @ [CHR 0x22] \<and> name \<noteq> [] \<and> plain_text name
        \<and> CHR 0x22 \<notin> set val \<and> CHR 0x5C \<notin> set val)))"

lemma loop_plain:
  "plain_text w \<Longrightarrow> key_options_loop cur False False (w @ s) = key_options_loop (cur @ w) False False s"
  by (induction w arbitrary: cur) (auto simp: plain_text_def)

lemma loop_quoted:
  "CHR 0x22 \<notin> set w \<Longrightarrow> CHR 0x5C \<notin> set w \<Longrightarrow>
     key_options_loop cur True False (w @ s) = key_options_loop (cur @ w) True False s"
  by (induction w arbitrary: cur) auto

lemma loop_option:
  assumes "key_option_ok t"
  shows "key_options_loop cur False False (t @ s) = key_options_loop (cur @ t) False False s"
proof -
  from assms consider (flag) "plain_text t"
    | (quoted) name val where "t = name @ CHR 0x22 # val @ [CHR 0x22]" "plain_text name"
        "CHR 0x22 \<notin> set val" "CHR 0x5C \<notin> set val"
    by (auto simp: key_option_ok_def)
  then show ?thesis
  proof cases
    case flag
    then show ?thesis by (rule loop_plain)
  next
    case quoted
    have "key_options_loop cur False False (t @ s)
        = key_options_loop (cur @ name) False False ((CHR 0x22 # val @ [CHR 0x22]) @ s)"
      using quoted loop_plain [of name cur] by simp
    also have "\<dots> = key_options_loop ((cur @ name) @ [CHR 0x22]) True False (val @ CHR 0x22 # s)"
      by simp
    also have "\<dots> = key_options_loop (cur @ t) False False s"
      using quoted loop_quoted [of val "(cur @ name) @ [CHR 0x22]" "CHR 0x22 # s"] by simp
    finally show ?thesis .
  qed
qed

lemma flush_key_option: "key_option_ok t \<Longrightarrow> flush_option t = [t]"
proof -
  assume t: "key_option_ok t"
  have q: "visible (CHR 0x22)" by (simp add: visible_def)
  have plain: "w \<noteq> [] \<Longrightarrow> plain_text w \<Longrightarrow> visible (hd w) \<and> visible (last w)" for w
    by (simp add: plain_text_def list_all_iff)
  have "t \<noteq> []" using t by (simp add: key_option_ok_def)
  moreover have "visible (hd t) \<and> visible (last t)"
    using t q plain unfolding key_option_ok_def by (metis hd_append2 last.simps last_append list.distinct(1) snoc_eq_iff_butlast)
  ultimately show ?thesis by (simp add: flush_option_def trim_visible)
qed

text \<open>
  The options of an authorized key are read back as they were written, whatever commas and spaces their
  quoted values hold, so \<open>command="a,b",no-pty\<close> is two options and a forced command is never cut in two.
\<close>

theorem key_options_roundtrip:
  assumes "list_all key_option_ok ts"
  shows "parse_key_options (join '','' ts) = ts"
  unfolding parse_key_options_def
  using assms
proof (induction ts)
  case Nil
  show ?case by (simp add: flush_option_def)
next
  case (Cons t ts)
  show ?case
  proof (cases ts)
    case Nil
    then show ?thesis
      using Cons.prems loop_option [of t "[]" "[]"] flush_key_option [of t] by simp
  next
    case (Cons t' ts')
    have "key_options_loop [] False False (t @ CHR '','' # join '','' ts)
        = flush_option t @ key_options_loop [] False False (join '','' ts)"
      using Cons.prems loop_option [of t "[]"] by simp
    then show ?thesis using Cons.IH Cons.prems flush_key_option [of t] Cons by simp
  qed
qed

theorem key_options_roundtrip_witness:
  "parse_key_options (join '','' [''command='' @ [CHR 0x22] @ ''echo a,b'' @ [CHR 0x22], ''no-pty''])
     = [''command='' @ [CHR 0x22] @ ''echo a,b'' @ [CHR 0x22], ''no-pty'']"
proof -
  have "key_option_ok (''command='' @ [CHR 0x22] @ ''echo a,b'' @ [CHR 0x22])"
    unfolding key_option_ok_def
    by (intro conjI disjI2 exI [of _ "''command=''"] exI [of _ "''echo a,b''"])
      (simp_all add: plain_text_def visible_def)
  moreover have "key_option_ok ''no-pty''" by (simp add: key_option_ok_def plain_text_def visible_def)
  ultimately show ?thesis by (intro key_options_roundtrip) simp
qed

section \<open>What the access scan misses\<close>

text \<open>
  An authorized key can hide from the key audit. Its options end at the first word that is the name of a
  key type, even inside the quotes of \<open>command="..."\<close>; what follows is then no key, and the line, which
  \<open>sshd\<close> accepts, is dropped without a note.
\<close>

definition hidden_key_line :: string where
  "hidden_key_line = ''command='' @ [CHR 0x22] @ ''echo ssh-rsa '' @ [CHR 0x22] @ '' ssh-ed25519 AAAA''"

theorem key_hidden_by_its_command:
  "split_options hidden_key_line
     = Some (''command='' @ [CHR 0x22] @ ''echo'', ''ssh-rsa '' @ [CHR 0x22] @ '' ssh-ed25519 AAAA'')
   \<and> (ac_public_key env (''ssh-rsa '' @ [CHR 0x22] @ '' ssh-ed25519 AAAA'') = None
      \<longrightarrow> classify_key env user hidden_key_line policy = None)"
proof -
  let ?words = "[''command='' @ [CHR 0x22] @ ''echo'', ''ssh-rsa'', [CHR 0x22], ''ssh-ed25519'', ''AAAA'']"
  have "split_whitespace (join '' '' ?words) = ?words"
    by (rule split_join_words) (simp add: visible_def)
  moreover have "join '' '' ?words = hidden_key_line" by (simp add: hidden_key_line_def)
  ultimately have "split_options hidden_key_line
     = Some (''command='' @ [CHR 0x22] @ ''echo'', ''ssh-rsa '' @ [CHR 0x22] @ '' ssh-ed25519 AAAA'')"
    by (simp add: split_options_def KEY_TYPES_def)
  then show ?thesis by (simp add: classify_key_def)
qed

definition keyless_env :: account_env where
  "keyless_env = sample_env\<lparr>ac_public_key := (\<lambda>s. None)\<rparr>"

theorem key_hidden_by_its_command_witness:
  "classify_key keyless_env ''a'' hidden_key_line default_key_policy = None"
  using key_hidden_by_its_command [of keyless_env "''a''" default_key_policy] by (simp add: keyless_env_def)

text \<open>
  \<open>root\<close> itself counts as a member of a group equivalent to root, although the data model says it is
  never listed; and a member's note on why the group matters is lost, the field is always empty.
\<close>

theorem root_counts_as_a_member:
  "\<exists>g. group_line ''docker:x:999:root'' = Some g \<and> reg_members g = [''root''] \<and> reg_bypasses_sudo g"
proof -
  have "trim ''docker:x:999:root'' = ''docker:x:999:root''" "trim ''root'' = ''root''"
    by (simp_all add: trim_visible visible_def)
  then show ?thesis
    by (simp add: group_line_def eval_nat_numeral ROOT_EQUIVALENT_def sort_names_def Let_def)
qed

text \<open>
  \<open>sshd\<close> lets an account in whose shell merely ends like a disabled one, but the key audit skips it: no
  key of such an account is ever listed.
\<close>

theorem shell_suffix_hides_keys:
  "account_keys env policy ''eve:x:1001:1001::/home/eve:/tmp/nologin'' = ([], [])
   \<and> is_interactive_shell ''/tmp/nologin''"
proof -
  have "trim ''/tmp/nologin'' = ''/tmp/nologin''" by (simp add: trim_visible visible_def)
  moreover have "ends_with ''/tmp/nologin'' ''nologin''" by (simp add: ends_with_def strip_suffix_def)
  ultimately show ?thesis
    by (simp add: account_keys_def is_interactive_shell_def NON_INTERACTIVE_SHELLS_def)
qed

text \<open>
  A weak hash of an old scheme passes. Whatever does not begin with a dollar sign and is not of 13
  characters is accepted, extended DES among it, although the comment says such formats fail closed.
\<close>

theorem extended_des_passes:
  "hash \<noteq> [] \<Longrightarrow> hd hash \<notin> set ''!*$'' \<Longrightarrow> length hash \<noteq> 13 \<Longrightarrow> classify_hash hash = None"
  by (cases hash) (auto simp: classify_hash_def starts_with_iff)

theorem extended_des_passes_witness: "classify_hash ''_J9..rasmBYk8r9AiWNc'' = None"
  by (rule extended_des_passes) simp_all

end
