(* ===== verification/ProcNet.thy ===== *)
theory ProcNet
  imports ScanBase "HOL-Library.AList" "HOL-Library.List_Lexorder" "HOL-Library.Char_ord"
    "HOL-Library.Product_Lexorder"
begin

text \<open>
  \<open>scanners/proc_net.rs\<close> and \<open>scanners/network.rs\<close>: the listening sockets of the host and of foreign
  network namespaces, the processes that hold them, the firewall and the name servers. Reading
  \<open>/proc\<close>, running a tool, the certificate dates and the order of hash maps are parameters; what
  \<open>coverage::record\<close> is told is a list of notes.
\<close>

section \<open>The operating system as these scanners see it\<close>

record socket_meta =
  sm_proto :: string
  sm_bind_address :: string
  sm_port :: u16

text \<open>
  \<open>ne_dir\<close> lists the entries of a directory that could be read, a name that is not UTF-8 as \<open>None\<close>;
  \<open>ne_sockets\<close> and \<open>ne_spaces\<close> are the orders in which a map of sockets and the map of namespaces are
  iterated over.
\<close>

record net_env =
  ne_read :: "string \<Rightarrow> os_kind + string"
  ne_link :: "string \<Rightarrow> os_kind + string"
  ne_dir :: "string \<Rightarrow> os_kind + string option list"
  ne_is_root :: bool
  ne_sockets :: "socket_meta list \<Rightarrow> socket_meta list"
  ne_spaces :: "(string \<times> socket_meta list \<times> string) list \<Rightarrow> (string \<times> socket_meta list \<times> string) list"

definition link_text :: "net_env \<Rightarrow> string \<Rightarrow> os_kind + string" where
  "link_text env path =
     (case ne_link env path of
        Inl e \<Rightarrow> Inl e
      | Inr s \<Rightarrow> if valid_utf8 s then Inr s else Inl InvalidData)"

section \<open>Addresses\<close>

definition le_bytes :: "nat \<Rightarrow> nat list" where
  "le_bytes n = [n mod 256, n div 256 mod 256, n div 65536 mod 256, n div 16777216 mod 256]"

text \<open>\<open>Ipv4Addr::to_string\<close>\<close>

definition dotted :: "nat list \<Rightarrow> string" where
  "dotted bs = join ''.'' (map show_nat bs)"

definition decode_v4 :: "string \<Rightarrow> string option" where
  "decode_v4 hex =
     (if length hex \<noteq> 8 then None
      else map_option (\<lambda>n. dotted (le_bytes n)) (from_str_radix 32 16 hex))"

text \<open>\<open>Ipv6Addr::to_string\<close>: the first of the longest runs of zeros, of length two or more, is elided.\<close>

fun zero_run :: "nat list \<Rightarrow> nat" where
  "zero_run (s # ss) = (if s = 0 then Suc (zero_run ss) else 0)"
| "zero_run [] = 0"

fun longest_run :: "nat \<Rightarrow> nat list \<Rightarrow> nat \<times> nat" where
  "longest_run i [] = (0, 0)"
| "longest_run i (s # ss) =
     (let n = zero_run (s # ss); best = longest_run (i + 1) ss in
      if 0 < n \<and> snd best \<le> n then (i, n) else best)"

definition hextets :: "nat list \<Rightarrow> string" where
  "hextets ss = join '':'' (map (show_base 16) ss)"

definition ipv6_text :: "nat list \<Rightarrow> string" where
  "ipv6_text ss =
     (if take 6 ss = [0, 0, 0, 0, 0, 0xFFFF] \<and> length ss = 8 then
        ''::ffff:'' @ dotted [ss ! 6 div 256, ss ! 6 mod 256, ss ! 7 div 256, ss ! 7 mod 256]
      else
        (case longest_run 0 ss of (start, len) \<Rightarrow>
           if 1 < len then hextets (take start ss) @ ''::'' @ hextets (drop (start + len) ss)
           else hextets ss))"

fun pairs_of :: "nat list \<Rightarrow> nat list" where
  "pairs_of (a # b # bs) = (a * 256 + b) # pairs_of bs"
| "pairs_of bs = []"

text \<open>The words are taken by byte index; the kernel writes ASCII, so no index falls inside a character.\<close>

definition decode_v6 :: "string \<Rightarrow> string option" where
  "decode_v6 hex =
     (if length hex \<noteq> 32 then None
      else
        (let ws = map (\<lambda>i. from_str_radix 32 16 (take 8 (drop (i * 8) hex))) [0..<4] in
         if None \<in> set ws then None
         else Some (ipv6_text (pairs_of (concat (map (le_bytes \<circ> the) ws))))))"

definition socket_inode :: "string \<Rightarrow> u64 option" where
  "socket_inode target =
     (case strip_prefix ''socket:['' target of
        None \<Rightarrow> None
      | Some r \<Rightarrow>
          (case strip_suffix '']'' r of
             None \<Rightarrow> None
           | Some d \<Rightarrow> map_option of_nat (from_str_radix 64 10 d)))"

definition parse_local :: "string \<Rightarrow> bool \<Rightarrow> (string \<times> u16) option" where
  "parse_local field v6 =
     (case split_once (CHR '':'') field of
        None \<Rightarrow> None
      | Some (addr_hex, port_hex) \<Rightarrow>
          (case from_str_radix 16 16 port_hex of
             None \<Rightarrow> None
           | Some port \<Rightarrow>
               map_option (\<lambda>addr. (addr, of_nat port)) (if v6 then decode_v6 addr_hex else decode_v4 addr_hex)))"

section \<open>The tables of the kernel\<close>

datatype proto = Tcp | Tcp6 | Udp | Udp6

definition proto_label :: "proto \<Rightarrow> string" where
  "proto_label p = (if p \<in> {Tcp, Tcp6} then ''tcp'' else ''udp'')"

definition is_v6 :: "proto \<Rightarrow> bool" where
  "is_v6 p = (p \<in> {Tcp6, Udp6})"

definition TCP_LISTEN :: nat where "TCP_LISTEN = 0x0A"
definition TCP_CLOSE :: nat where "TCP_CLOSE = 0x07"
definition MAX_FOREIGN_NETNS :: nat where "MAX_FOREIGN_NETNS = 64"
definition CAP_PROC_NET :: nat where "CAP_PROC_NET = 16 * 1024 * 1024"

definition table_name :: "proto \<Rightarrow> string" where
  "table_name p = (case p of Tcp \<Rightarrow> ''tcp'' | Tcp6 \<Rightarrow> ''tcp6'' | Udp \<Rightarrow> ''udp'' | Udp6 \<Rightarrow> ''udp6'')"

definition is_listening :: "proto \<Rightarrow> string \<Rightarrow> string \<Rightarrow> bool" where
  "is_listening p local_field state_hex =
     (let state = (case from_str_radix 8 16 state_hex of None \<Rightarrow> 0 | Some n \<Rightarrow> n) in
      if p \<in> {Tcp, Tcp6} then state = TCP_LISTEN
      else state = TCP_CLOSE
        \<and> (case rsplit_once (CHR '':'') local_field of None \<Rightarrow> False | Some (_, port) \<Rightarrow> port \<noteq> ''0000''))"

text \<open>One line of a table: the socket and its inode.\<close>

definition table_line :: "proto \<Rightarrow> string \<Rightarrow> (u64 \<times> socket_meta) option" where
  "table_line p line =
     (let parts = split_ascii_whitespace line in
      if length parts < 4 \<or> \<not> is_listening p (parts ! 1) (parts ! 3) then None
      else (case parse_local (parts ! 1) (is_v6 p) of
        None \<Rightarrow> None
      | Some (addr, port) \<Rightarrow>
          if length parts < 10 then None
          else (case from_str_radix 64 10 (parts ! 9) of
            None \<Rightarrow> None
          | Some n \<Rightarrow>
              if n = 0 then None
              else Some (of_nat n, \<lparr>sm_proto = proto_label p, sm_bind_address = addr, sm_port = port\<rparr>))))"

type_synonym socket_map = "(u64 \<times> socket_meta) list"

definition insert_line :: "proto \<Rightarrow> string \<Rightarrow> socket_map \<Rightarrow> socket_map" where
  "insert_line p line m = (case table_line p line of None \<Rightarrow> m | Some (k, s) \<Rightarrow> AList.update k s m)"

text \<open>\<open>parse_proc_net\<close>: whether the file was read, the map and the notes.\<close>

definition parse_proc_net :: "net_env \<Rightarrow> proto \<Rightarrow> string \<Rightarrow> socket_map \<Rightarrow> bool \<times> socket_map \<times> string list" where
  "parse_proc_net env p base m =
     (let path = base @ ''/net/'' @ table_name p in
      case read_procfs_capped (ne_read env path) CAP_PROC_NET of
        Inl e \<Rightarrow>
          if e = NotFound then (False, m, [])
          else (False, m, [path @ '' unreadable ('' @ os_kind_text e @ '') '' @ em_dash @ '' listening ''
                           @ proto_label p @ '' sockets NOT enumerated; port inventory INCOMPLETE''])
      | Inr (content, truncated) \<Rightarrow>
          (True, fold (insert_line p) (drop 1 (lines content)) m,
           if truncated then [''/proc/net file '' @ path @ '' exceeded cap and was truncated''] else []))"

definition PROTOS :: "proto list" where "PROTOS = [Tcp, Tcp6, Udp, Udp6]"

text \<open>The four tables under a base directory: whether any was read, the map, the notes.\<close>

definition read_tables :: "net_env \<Rightarrow> string \<Rightarrow> bool \<times> socket_map \<times> string list" where
  "read_tables env base =
     fold (\<lambda>p (any, m, notes).
        case parse_proc_net env p base m of (ok, m', ns) \<Rightarrow> (any \<or> ok, m', notes @ ns))
       PROTOS (False, [], [])"

definition host_net_base :: "net_env \<Rightarrow> string \<times> string list" where
  "host_net_base env =
     (case (ne_link env ''/proc/self/ns/net'', ne_link env ''/proc/1/ns/net'') of
        (Inr me, Inr init) \<Rightarrow> (if me \<noteq> init then ''/proc/1'' else ''/proc'', [])
      | (Inr _, Inl e) \<Rightarrow>
          (''/proc'',
           [''network inventory: /proc/1/ns/net unreadable ('' @ os_kind_text e @ '') '' @ em_dash
            @ '' host listener table read from /proc/self/net; if the scanner is containerised this may be ''
            @ ''the wrong namespace''])
      | _ \<Rightarrow> (''/proc'', []))"

definition collect_listening_sockets_from :: "net_env \<Rightarrow> string \<Rightarrow> socket_map \<times> string list" where
  "collect_listening_sockets_from env proc_root = (case read_tables env proc_root of (_, m, notes) \<Rightarrow> (m, notes))"

definition collect_listening_sockets :: "net_env \<Rightarrow> socket_map \<times> string list" where
  "collect_listening_sockets env =
     (case host_net_base env of (base, n1) \<Rightarrow>
        (case collect_listening_sockets_from env base of (m, n2) \<Rightarrow> (m, n1 @ n2)))"

section \<open>Foreign network namespaces\<close>

definition pids_of :: "string option list \<Rightarrow> nat list" where
  "pids_of entries = sort (List.map_filter (\<lambda>n. Option.bind n (from_str_radix 32 10)) entries)"

definition pid_dir :: "string \<Rightarrow> nat \<Rightarrow> string" where
  "pid_dir proc_root pid = proc_root @ ''/'' @ show_nat pid"

record ns_walk =
  nw_cache :: "(string \<times> socket_meta list \<times> string) list"
  nw_denied :: nat
  nw_over_cap :: nat
  nw_notes :: "string list"

definition comm_of :: "net_env \<Rightarrow> string \<Rightarrow> nat \<Rightarrow> string" where
  "comm_of env proc_root pid =
     (case read_procfs_capped (ne_read env (pid_dir proc_root pid @ ''/comm'')) 4096 of
        Inl _ \<Rightarrow> ''?'' | Inr (c, _) \<Rightarrow> trim c)"

definition ns_step :: "net_env \<Rightarrow> string \<Rightarrow> string \<Rightarrow> nat \<Rightarrow> ns_walk \<Rightarrow> ns_walk" where
  "ns_step env proc_root host_ns pid w =
     (case link_text env (pid_dir proc_root pid @ ''/ns/net'') of
        Inl e \<Rightarrow> if e = NotFound then w else w\<lparr>nw_denied := nw_denied w + 1\<rparr>
      | Inr ns \<Rightarrow>
          if ns = host_ns then w
          else if ns \<in> fst ` set (nw_cache w) then w
          else if MAX_FOREIGN_NETNS \<le> length (nw_cache w) then w\<lparr>nw_over_cap := nw_over_cap w + 1\<rparr>
          else
            (case read_tables env (pid_dir proc_root pid) of (any, m, notes) \<Rightarrow>
               if \<not> any then w\<lparr>nw_notes := nw_notes w @ notes\<rparr>
               else w\<lparr>nw_cache := nw_cache w @ [(ns, ne_sockets env (map snd m), comm_of env proc_root pid)],
                      nw_notes := nw_notes w @ notes\<rparr>))"

definition foreign_listener :: "string \<Rightarrow> string \<Rightarrow> socket_meta \<Rightarrow> foreign_netns_listener" where
  "foreign_listener ns comm m =
     \<lparr>fnl_netns = ns, fnl_protocol = sm_proto m, fnl_bind_address = sm_bind_address m,
      fnl_port = show_word (sm_port m), fnl_example_process = Some comm, fnl_container = None,
      fnl_runtime_infrastructure = (sm_bind_address m = ''127.0.0.11'')\<rparr>"

text \<open>\<open>parse::<u16>().unwrap_or(0)\<close> of a port.\<close>

definition port_number :: "string \<Rightarrow> nat" where
  "port_number s = (case from_str_radix 16 10 s of None \<Rightarrow> 0 | Some n \<Rightarrow> n)"

definition foreign_key :: "foreign_netns_listener \<Rightarrow> string \<times> string \<times> string \<times> nat" where
  "foreign_key l = (fnl_netns l, fnl_protocol l, fnl_bind_address l, port_number (fnl_port l))"

definition walk_notes :: "string \<Rightarrow> ns_walk \<Rightarrow> string list" where
  "walk_notes proc_root w =
     nw_notes w
     @ (if nw_denied w > 0 then
          [''netns visibility: '' @ proc_root @ ''/<pid>/ns/net unreadable for '' @ show_nat (nw_denied w)
           @ '' process(es) (needs root/CAP_SYS_PTRACE) '' @ em_dash
           @ '' foreign-namespace listeners are a LOWER BOUND''] else [])
     @ (if nw_over_cap w > 0 then
          [''netns visibility: cap ('' @ show_nat MAX_FOREIGN_NETNS @ '') reached; ''
           @ show_nat (nw_over_cap w) @ '' further process(es) in unprobed namespaces '' @ em_dash
           @ '' foreign listeners are a LOWER BOUND''] else [])"

definition report_foreign_netns_listeners_from ::
  "net_env \<Rightarrow> string \<Rightarrow> foreign_netns_listener list \<times> string list" where
  "report_foreign_netns_listeners_from env proc_root =
     (case ne_link env (proc_root @ ''/1/ns/net'') of
        Inl e \<Rightarrow>
          ([], [''netns visibility: '' @ proc_root @ ''/1/ns/net unreadable ('' @ os_kind_text e @ '') '' @ em_dash
                @ '' foreign-namespace listeners NOT enumerated; the port inventory may be missing sockets''])
      | Inr init \<Rightarrow>
          (case ne_dir env proc_root of
             Inl e \<Rightarrow>
               ([], [''netns visibility: '' @ proc_root @ '' unreadable ('' @ os_kind_text e @ '') '' @ em_dash
                     @ '' foreign-namespace listeners NOT enumerated''])
           | Inr entries \<Rightarrow>
               (let w = fold (ns_step env proc_root (from_utf8_lossy init)) (pids_of entries)
                          \<lparr>nw_cache = [], nw_denied = 0, nw_over_cap = 0, nw_notes = []\<rparr>;
                    found = concat (map (\<lambda>(ns, ms, comm). map (foreign_listener ns comm) ms)
                              (ne_spaces env (nw_cache w)))
                in (sort_key foreign_key found, walk_notes proc_root w))))"

section \<open>Who holds a socket\<close>

record proc_attr =
  pa_pid :: "nat option"
  pa_exe_path :: "string option"
  pa_comm :: "string option"

definition default_proc_attr :: proc_attr where
  "default_proc_attr = \<lparr>pa_pid = None, pa_exe_path = None, pa_comm = None\<rparr>"

definition MAX_FD_PER_PID :: nat where "MAX_FD_PER_PID = 4096"

definition attr_of :: "net_env \<Rightarrow> string \<Rightarrow> nat \<Rightarrow> proc_attr" where
  "attr_of env proc_root pid =
     \<lparr>pa_pid = Some pid,
      pa_exe_path = (case ne_link env (pid_dir proc_root pid @ ''/exe'') of
                       Inl _ \<Rightarrow> None | Inr p \<Rightarrow> Some (from_utf8_lossy p)),
      pa_comm = (case read_procfs_capped (ne_read env (pid_dir proc_root pid @ ''/comm'')) 4096 of
                   Inl _ \<Rightarrow> None | Inr (c, _) \<Rightarrow> Some (trim c))\<rparr>"

definition comm_truncated :: "net_env \<Rightarrow> string \<Rightarrow> nat \<Rightarrow> bool" where
  "comm_truncated env proc_root pid =
     (case read_procfs_capped (ne_read env (pid_dir proc_root pid @ ''/comm'')) 4096 of
        Inl _ \<Rightarrow> False | Inr (_, t) \<Rightarrow> t)"

text \<open>The sockets among the entries of \<open>/proc/<pid>/fd\<close>, in the order they are listed.\<close>

definition fd_inode :: "net_env \<Rightarrow> string \<Rightarrow> string option \<Rightarrow> u64 option" where
  "fd_inode env dir name =
     (case name of None \<Rightarrow> None
      | Some n \<Rightarrow>
          (case link_text env (dir @ ''/'' @ n) of Inl _ \<Rightarrow> None | Inr t \<Rightarrow> socket_inode t))"

definition attribute_fd ::
  "net_env \<Rightarrow> string \<Rightarrow> socket_map \<Rightarrow> nat \<Rightarrow> string option \<Rightarrow> (u64 \<times> proc_attr) list \<Rightarrow> (u64 \<times> proc_attr) list" where
  "attribute_fd env proc_root wanted pid fd found =
     (case fd_inode env (pid_dir proc_root pid @ ''/fd'') fd of
        None \<Rightarrow> found
      | Some i \<Rightarrow>
          if i \<notin> fst ` set wanted \<or> i \<in> fst ` set found then found
          else found @ [(i, attr_of env proc_root pid)])"

definition attribute_pid ::
  "net_env \<Rightarrow> string \<Rightarrow> socket_map \<Rightarrow> nat \<Rightarrow> (u64 \<times> proc_attr) list
   \<Rightarrow> (u64 \<times> proc_attr) list \<times> nat \<times> string list" where
  "attribute_pid env proc_root wanted pid found =
     (case ne_dir env (pid_dir proc_root pid @ ''/fd'') of
        Inl e \<Rightarrow> (found, if e = NotFound then 0 else 1, [])
      | Inr fds \<Rightarrow>
          (let found' = fold (attribute_fd env proc_root wanted pid) (take MAX_FD_PER_PID fds) found in
           (found', 0,
           (if length found < length found' \<and> comm_truncated env proc_root pid
            then [''/proc/'' @ show_nat pid @ ''/comm truncated''] else [])
           @ (if MAX_FD_PER_PID < length fds then
             [''/proc/'' @ show_nat pid @ ''/fd exceeded '' @ show_nat MAX_FD_PER_PID @ '' entries ''
              @ en_dash @ '' socket attribution for this pid is partial'']
           else []))))"

fun attribute_pids ::
  "net_env \<Rightarrow> string \<Rightarrow> socket_map \<Rightarrow> nat list \<Rightarrow> (u64 \<times> proc_attr) list
   \<Rightarrow> (u64 \<times> proc_attr) list \<times> nat \<times> string list" where
  "attribute_pids env proc_root wanted [] found = (found, 0, [])"
| "attribute_pids env proc_root wanted (pid # pids) found =
     (if length found = length wanted then (found, 0, [])
      else (case attribute_pid env proc_root wanted pid found of (found', d, n) \<Rightarrow>
        (case attribute_pids env proc_root wanted pids found' of (r, ds, ns) \<Rightarrow> (r, d + ds, n @ ns))))"

definition attribute_sockets_from ::
  "net_env \<Rightarrow> string \<Rightarrow> socket_map \<Rightarrow> (u64 \<times> proc_attr) list \<times> string list" where
  "attribute_sockets_from env proc_root wanted =
     (if wanted = [] then ([], [])
      else
        (let pids = (case ne_dir env proc_root of Inl _ \<Rightarrow> [] | Inr entries \<Rightarrow> pids_of entries) in
         case attribute_pids env proc_root wanted pids [] of
           (found, denied, notes) \<Rightarrow>
             (found, notes @
               (if length found < length wanted then
                  [''port attribution incomplete: '' @ show_nat (length found) @ ''/''
                   @ show_nat (length wanted) @ '' sockets attributed, '' @ show_nat denied
                   @ '' /proc/<pid>/fd unreadable''
                   @ (if ne_is_root env then [] else '' '' @ em_dash @ '' run as root for full attribution'')]
                else []))))"

section \<open>The listeners of the report\<close>

definition process_name :: "proc_attr \<Rightarrow> string" where
  "process_name a =
     (case pa_comm a of
        Some c \<Rightarrow> c
      | None \<Rightarrow>
          (case pa_exe_path a of
             Some p \<Rightarrow> last (split_char (CHR ''/'') p)
           | None \<Rightarrow> ''unknown process''))"

definition socket_key :: "socket_meta \<Rightarrow> string \<times> string \<times> string" where
  "socket_key m = (sm_proto m, show_word (sm_port m), sm_bind_address m)"

definition port_entry :: "(u64 \<times> proc_attr) list \<Rightarrow> u64 \<times> socket_meta \<Rightarrow> port_info" where
  "port_entry attrs im =
     (let a = (case map_of attrs (fst im) of None \<Rightarrow> default_proc_attr | Some a \<Rightarrow> a); m = snd im in
      \<lparr>pi_protocol = sm_proto m, pi_port = show_word (sm_port m), pi_process = process_name a,
       pi_bind_address = sm_bind_address m, pi_pid = map_option of_nat (pa_pid a), pi_exe_path = pa_exe_path a\<rparr>)"

text \<open>The loop that keeps the first socket of each tuple.\<close>

fun port_entries ::
  "(u64 \<times> proc_attr) list \<Rightarrow> (string \<times> string \<times> string) set \<Rightarrow> socket_map \<Rightarrow> port_info list" where
  "port_entries attrs seen [] = []"
| "port_entries attrs seen (im # ims) =
     (if socket_key (snd im) \<in> seen then port_entries attrs seen ims
      else port_entry attrs im # port_entries attrs (insert (socket_key (snd im)) seen) ims)"

definition listing_key :: "port_info \<Rightarrow> string \<times> string \<times> nat" where
  "listing_key p = (pi_protocol p, pi_bind_address p, port_number (pi_port p))"

definition listening_ports :: "socket_map \<Rightarrow> (u64 \<times> proc_attr) list \<Rightarrow> port_info list" where
  "listening_ports sockets attrs =
     sort_key listing_key (port_entries attrs {} (sort_key fst sockets))"

section \<open>Firewall, name servers, certificates\<close>

text \<open>
  \<open>ho_run\<close> is \<open>run_with_timeout\<close>; \<open>ho_live\<close> lists \<open>/etc/letsencrypt/live\<close>: for each entry its name, whether
  it is a directory and whether it holds a certificate. \<open>ho_days\<close> parses a date as \<open>chrono\<close> does and
  counts the days to it.
\<close>

record host_env =
  ho_run :: "string \<Rightarrow> string list \<Rightarrow> string option"
  ho_open :: "string \<Rightarrow> os_kind opened"
  ho_live :: "(string \<times> bool \<times> bool) list"
  ho_days :: "string \<Rightarrow> int option"

text \<open>
  \<open>to_lowercase\<close>, searched for words without \<open>k\<close> and \<open>i\<close> with a dot above: no character outside ASCII
  becomes one of their letters.
\<close>

definition lower :: "string \<Rightarrow> string" where
  "lower s = map ascii_lower s"

definition nft_step :: "string \<Rightarrow> bool \<times> bool \<Rightarrow> bool \<times> bool" where
  "nft_step line acc =
     (case acc of (in_filter, has_rules) \<Rightarrow>
        if has_rules then acc
        else (let t = trim line in
          if starts_with t ''table'' then (contains t ''filter'', False)
          else (in_filter,
                in_filter \<and> (contains t ''hook input'' \<or> contains t ''chain INPUT'')
                \<and> \<not> contains t ''DOCKER'' \<and> \<not> contains t ''docker'')))"

definition nft_active :: "string \<Rightarrow> bool" where
  "nft_active out = snd (fold nft_step (lines out) (False, False))"

definition iptables_active :: "string \<Rightarrow> bool" where
  "iptables_active out =
     (list_ex (\<lambda>l. (starts_with l '':INPUT DROP'' \<or> starts_with l '':INPUT REJECT'')
                  \<and> \<not> contains l ''DOCKER'') (lines out)
      \<or> list_ex (\<lambda>l. starts_with l ''-A INPUT'' \<and> \<not> contains l ''DOCKER'' \<and> \<not> contains l ''docker'') (lines out))"

definition firewall_active :: "host_env \<Rightarrow> bool" where
  "firewall_active ho =
     ((case ho_run ho ''ufw'' [''status''] of None \<Rightarrow> False
       | Some out \<Rightarrow> contains (lower out) ''active'' \<and> \<not> contains (lower out) ''inactive'')
      \<or> (case ho_run ho ''firewall-cmd'' [''--state''] of None \<Rightarrow> False
         | Some out \<Rightarrow> contains (lower out) ''running'')
      \<or> (case ho_run ho ''nft'' [''list'', ''ruleset''] of None \<Rightarrow> False | Some out \<Rightarrow> nft_active out)
      \<or> (case ho_run ho ''iptables-save'' [] of None \<Rightarrow> False | Some out \<Rightarrow> iptables_active out))"

definition read_system_file :: "host_env \<Rightarrow> string \<Rightarrow> string \<Rightarrow> string option \<times> string list" where
  "read_system_file ho path label =
     (case read_file_capped_regular (ho_open ho path) (1024 * 1024) of
        Inr (content, truncated) \<Rightarrow>
          (Some content, if truncated then [label @ '' exceeded cap '' @ em_dash @ '' data PARTIAL''] else [])
      | Inl e \<Rightarrow>
          (None, if failure_kind e = NotFound then []
                 else if failure_kind e = InvalidData then
                   [label @ '' is NOT a regular file (fifo/device) '' @ em_dash
                    @ '' parse refused; treat as tampering'']
                 else [label @ '' unreadable ('' @ os_kind_text (failure_kind e) @ '')'']))"

definition name_server :: "string \<Rightarrow> string option" where
  "name_server line =
     (let l = trim line in
      if starts_with l ''nameserver'' then
        (case split_whitespace l of _ # ip # _ \<Rightarrow> Some ip | _ \<Rightarrow> None)
      else None)"

definition host_override :: "string \<Rightarrow> string option" where
  "host_override line =
     (let l = trim line in
      if l = [] \<or> starts_with l ''#'' then None
      else (case split_whitespace l of
        [] \<Rightarrow> None
      | ip # _ \<Rightarrow>
          if ip \<notin> {''127.0.0.1'', ''::1'', ''127.0.1.1''} \<and> \<not> starts_with ip ''ff02'' \<and> \<not> starts_with ip ''fe00''
          then Some l else None))"

fun trim_end_word :: "nat \<Rightarrow> string \<Rightarrow> string \<Rightarrow> string" where
  "trim_end_word 0 w s = s"
| "trim_end_word (Suc n) w s = (case strip_suffix w s of None \<Rightarrow> s | Some r \<Rightarrow> trim_end_word n w r)"

definition parse_openssl_enddate :: "host_env \<Rightarrow> string \<Rightarrow> int option" where
  "parse_openssl_enddate ho raw =
     (let t = trim raw in ho_days ho (trim (trim_end_word (length t) ''GMT'' t)))"

text \<open>\<open>str::replace\<close> of a word by nothing.\<close>

fun remove_word :: "string \<Rightarrow> nat \<Rightarrow> string \<Rightarrow> string" where
  "remove_word w skip [] = []"
| "remove_word w (Suc skip) (c # s) = remove_word w skip s"
| "remove_word w 0 (c # s) =
     (if w \<noteq> [] \<and> starts_with (c # s) w then remove_word w (length w - 1) s else c # remove_word w 0 s)"

definition certificate :: "host_env \<Rightarrow> string \<times> bool \<times> bool \<Rightarrow> ssl_cert_info option" where
  "certificate ho entry =
     (case entry of (name, is_dir, has_cert) \<Rightarrow>
        if \<not> is_dir \<or> name = ''README'' then None
        else
          (let out = (if has_cert then
                        ho_run ho ''openssl'' [''x509'', ''-enddate'', ''-noout'', ''-in'',
                          ''/etc/letsencrypt/live/'' @ name @ ''/cert.pem'']
                      else None);
               date = (case out of None \<Rightarrow> None
                       | Some t \<Rightarrow> if starts_with t ''notAfter='' then Some (trim (remove_word ''notAfter='' 0 t))
                                  else None);
               days = (case date of None \<Rightarrow> None | Some d \<Rightarrow> parse_openssl_enddate ho d);
               critical = (case days of None \<Rightarrow> False | Some d \<Rightarrow> d < 7)
           in Some \<lparr>ssl_domain = name,
                    ssl_expiry_date = (case date of None \<Rightarrow> ''unknown'' | Some d \<Rightarrow> d),
                    ssl_days_remaining = days, ssl_is_critical = critical,
                    ssl_is_warning = (\<not> critical \<and> (case days of None \<Rightarrow> False | Some d \<Rightarrow> d < 30))\<rparr>))"

definition dns_upstreams :: "host_env \<Rightarrow> string list \<Rightarrow> string list" where
  "dns_upstreams ho resolvers =
     (if ''127.0.0.53'' \<in> set resolvers \<or> ''127.0.0.54'' \<in> set resolvers then
        (case read_file_capped_regular (ho_open ho ''/run/systemd/resolve/resolv.conf'') 4096 of
           Inl _ \<Rightarrow> []
         | Inr (content, _) \<Rightarrow>
             filter (\<lambda>ip. ip \<notin> {''127.0.0.53'', ''127.0.0.54''}) (List.map_filter name_server (lines content)))
      else [])"

definition gather_network_info :: "host_env \<Rightarrow> net_env \<Rightarrow> network_info \<times> string list" where
  "gather_network_info ho env =
     (case read_system_file ho ''/etc/resolv.conf'' ''/etc/resolv.conf'' of (resolv, n1) \<Rightarrow>
      (case read_system_file ho ''/etc/hosts'' ''/etc/hosts'' of (hosts, n2) \<Rightarrow>
      (case collect_listening_sockets env of (sockets, n3) \<Rightarrow>
      (case report_foreign_netns_listeners_from env ''/proc'' of (foreign, n4) \<Rightarrow>
      (case attribute_sockets_from env ''/proc'' sockets of (attrs, n5) \<Rightarrow>
        (let resolvers = (case resolv of None \<Rightarrow> [] | Some t \<Rightarrow> List.map_filter name_server (lines t)) in
         (\<lparr>ni_firewall_active = firewall_active ho,
           ni_dns_resolvers = resolvers,
           ni_custom_host_overrides = (case hosts of None \<Rightarrow> [] | Some t \<Rightarrow> List.map_filter host_override (lines t)),
           ni_ssl_certificates = List.map_filter (certificate ho) (ho_live ho),
           ni_listening_ports = listening_ports sockets attrs,
           ni_dns_upstreams = dns_upstreams ho resolvers,
           ni_foreign_netns_listeners = foreign\<rparr>,
          n1 @ n2 @ n3 @ n4 @ n5)))))))"

end
