(* ===== verification/ProcNetLaws.thy ===== *)
theory ProcNetLaws
  imports ProcNet ScanText
begin

text \<open>
  The network scan: tables written as the kernel writes them are read back, sockets in foreign namespaces
  are not overlooked in silence, a socket is attributed to the first process that holds it, and the result
  does not depend on the order of hash maps.
\<close>

section \<open>Hexadecimal fields\<close>

text \<open>A number as \<open>%08X\<close> prints it: in upper case, filled up with zeros.\<close>

definition upper_digit :: "char \<Rightarrow> char" where
  "upper_digit c = (if 97 \<le> byte c \<and> byte c \<le> 102 then char_of (byte c - 32) else c)"

definition hexpad :: "nat \<Rightarrow> nat \<Rightarrow> string" where
  "hexpad k n = replicate (k - length (show_base 16 n)) CHR ''0'' @ map upper_digit (show_base 16 n)"

lemma length_show_hex: "0 < k \<Longrightarrow> n < 16 ^ k \<Longrightarrow> length (show_base 16 n) \<le> k"
proof (induction k arbitrary: n)
  case (Suc k)
  show ?case
  proof (cases "n < 16")
    case False
    then have "0 < k" using Suc.prems by (cases k) auto
    moreover have "n div 16 < 16 ^ k" using Suc.prems by (simp add: less_mult_imp_div_less mult.commute)
    ultimately show ?thesis using Suc.IH False by (subst show_base.simps) simp
  qed (subst show_base.simps, simp)
qed simp

lemma length_hexpad: "0 < k \<Longrightarrow> n < 16 ^ k \<Longrightarrow> length (hexpad k n) = k"
  using length_show_hex [of k n] by (simp add: hexpad_def)

lemma parse_zeros: "parse_digits 16 0 (replicate k CHR ''0'' @ s) = parse_digits 16 0 s"
  by (induction k) (simp_all add: digit_value_def)

lemma show_hex_digits: "list_all (\<lambda>c. 48 \<le> byte c \<and> byte c \<le> 57 \<or> 97 \<le> byte c \<and> byte c \<le> 102) (show_base 16 n)"
proof (induction "16 :: nat" n rule: show_base.induct)
  case (1 n)
  have "n mod 16 < 16" by simp
  then have "n mod 16 \<le> 15" by linarith
  with 1 show ?case by (subst show_base.simps) (simp add: digit_char_def)
qed

lemma upper_digit_byte:
  "48 \<le> byte c \<and> byte c \<le> 57 \<or> 97 \<le> byte c \<and> byte c \<le> 102 \<Longrightarrow>
     48 \<le> byte (upper_digit c) \<and> byte (upper_digit c) \<le> 57 \<or> 65 \<le> byte (upper_digit c) \<and> byte (upper_digit c) \<le> 70"
  by (auto simp: upper_digit_def)

lemma upper_digit_value: "digit_value 16 (upper_digit c) = digit_value 16 c"
proof (cases "97 \<le> byte c \<and> byte c \<le> 102")
  case True
  define n where "n = byte c"
  have n: "97 \<le> n" "n \<le> 102" "of_char c = n" using True by (simp_all add: n_def byte_def)
  have "of_char (upper_digit c) = n - 32"
    using n by (simp add: upper_digit_def n_def [symmetric])
  moreover have "n = 97 \<or> n = 98 \<or> n = 99 \<or> n = 100 \<or> n = 101 \<or> n = 102" using n by linarith
  ultimately show ?thesis using n(3) by (elim disjE) (simp_all add: digit_value_def)
qed (auto simp: upper_digit_def)

lemma parse_upper: "parse_digits 16 acc (map upper_digit s) = parse_digits 16 acc s"
  by (induction s arbitrary: acc) (simp_all add: upper_digit_value split: option.split)

lemma hexpad_digits: "list_all (\<lambda>c. 48 \<le> byte c \<and> byte c \<le> 57 \<or> 65 \<le> byte c \<and> byte c \<le> 70) (hexpad k n)"
proof -
  have "byte (CHR ''0'') = 48" by (simp add: byte_def)
  moreover have "48 \<le> byte d \<and> byte d \<le> 57 \<or> 65 \<le> byte d \<and> byte d \<le> 70"
    if "d \<in> set (map upper_digit (show_base 16 n))" for d
  proof -
    from that obtain c where c: "c \<in> set (show_base 16 n)" "d = upper_digit c" by auto
    then have "48 \<le> byte c \<and> byte c \<le> 57 \<or> 97 \<le> byte c \<and> byte c \<le> 102"
      using show_hex_digits [of n] unfolding list_all_iff by blast
    then show ?thesis unfolding c(2) by (rule upper_digit_byte)
  qed
  ultimately show ?thesis unfolding hexpad_def list_all_iff set_append set_replicate_conv_if by auto
qed

lemma hexpad_not_Nil [simp]: "hexpad k n \<noteq> []"
  by (simp add: hexpad_def)

lemma hexpad_chars: "c \<in> set (hexpad k n) \<Longrightarrow> c \<noteq> CHR '':'' \<and> c \<noteq> CHR ''+'' \<and> \<not> is_ascii_ws c \<and> visible c"
  using hexpad_digits [of k n]
  by (auto simp: list_all_iff byte_def is_ascii_ws_def visible_def Let_def)

lemma parse_hexpad: "n < 2 ^ N \<Longrightarrow> from_str_radix N 16 (hexpad k n) = Some n"
proof -
  assume n: "n < 2 ^ N"
  have "parse_digits 16 0 (hexpad k n) = Some n"
    by (simp add: hexpad_def parse_zeros parse_upper parse_show_base)
  moreover have "\<And>c s. hexpad k n = c # s \<Longrightarrow> c \<noteq> CHR ''+''"
    using hexpad_chars by (metis list.set_intros(1))
  ultimately show ?thesis
    using n by (cases "hexpad k n") (auto simp: from_str_radix_def)
qed

lemma hexpad_inj: "hexpad k m = hexpad k n \<Longrightarrow> m = n"
proof -
  have "parse_digits 16 0 (hexpad k j) = Some j" for j
    by (simp add: hexpad_def parse_zeros parse_upper parse_show_base)
  then show "hexpad k m = hexpad k n \<Longrightarrow> m = n" by (metis option.inject)
qed

section \<open>Tables as the kernel writes them\<close>

text \<open>
  A line of \<open>/proc/net/tcp\<close> or \<open>/proc/net/udp\<close>: the slot, the local address (its four bytes as one number in
  the byte order of the host) and port, the remote end, the state, queues, timer, retransmits, user ID and
  timeout, the inode, and the rest. Addresses, ports and states are in upper case and filled up with zeros,
  and the columns are padded with any number of blanks.
\<close>

record kernel_socket =
  ks_gaps :: "string list"
  ks_slot :: string
  ks_address :: nat
  ks_port :: nat
  ks_remote :: string
  ks_state :: nat
  ks_middle :: "string list"
  ks_inode :: nat
  ks_rest :: "string list"
  ks_trail :: string

definition kernel_words :: "kernel_socket \<Rightarrow> string list" where
  "kernel_words e =
     [ks_slot e, hexpad 8 (ks_address e) @ CHR '':'' # hexpad 4 (ks_port e), ks_remote e, hexpad 2 (ks_state e)]
     @ ks_middle e @ [show_nat (ks_inode e)] @ ks_rest e"

definition kernel_line :: "kernel_socket \<Rightarrow> string" where
  "kernel_line e = table_row (ks_gaps e) (kernel_words e) (ks_trail e)"

definition kernel_socket_ok :: "kernel_socket \<Rightarrow> bool" where
  "kernel_socket_ok e =
     (list_all plain_word (ks_slot e # ks_remote e # ks_middle e @ ks_rest e)
      \<and> gaps_ok (ks_gaps e) (ks_trail e) (kernel_words e)
      \<and> ks_address e < 2 ^ 32 \<and> ks_port e < 2 ^ 16 \<and> ks_state e < 2 ^ 8 \<and> ks_inode e < 2 ^ 64
      \<and> length (ks_middle e) = 5)"

definition ks_listens :: "proto \<Rightarrow> kernel_socket \<Rightarrow> bool" where
  "ks_listens p e =
     (ks_inode e \<noteq> 0 \<and>
      (if p = Tcp then ks_state e = 10 else ks_state e = 7 \<and> ks_port e \<noteq> 0))"

definition ks_meta :: "proto \<Rightarrow> kernel_socket \<Rightarrow> u64 \<times> socket_meta" where
  "ks_meta p e =
     (of_nat (ks_inode e), \<lparr>sm_proto = proto_label p, sm_bind_address = dotted (le_bytes (ks_address e)),
        sm_port = of_nat (ks_port e)\<rparr>)"

lemma kernel_words_ok:
  assumes "kernel_socket_ok e"
  shows "list_all plain_word (kernel_words e)"
proof -
  have "list_all visible (hexpad k n)" for k n
    using hexpad_chars by (auto simp: list_all_iff)
  moreover have "visible (CHR '':'')" by (simp add: visible_def)
  ultimately show ?thesis
    using assms show_nat_visible(1,2) by (simp add: kernel_words_def kernel_socket_ok_def plain_word_def)
qed

lemma kernel_split: "kernel_socket_ok e \<Longrightarrow> split_ascii_whitespace (kernel_line e) = kernel_words e"
  by (simp add: kernel_line_def ascii_split_row kernel_words_ok kernel_socket_ok_def)

lemma kernel_local:
  assumes "kernel_socket_ok e"
  defines "field \<equiv> hexpad 8 (ks_address e) @ CHR '':'' # hexpad 4 (ks_port e)"
  shows "parse_local field False = Some (dotted (le_bytes (ks_address e)), of_nat (ks_port e))"
    "rsplit_once (CHR '':'') field = Some (hexpad 8 (ks_address e), hexpad 4 (ks_port e))"
proof -
  have c: "CHR '':'' \<notin> set (hexpad k n)" for k n using hexpad_chars by blast
  have "length (hexpad 8 (ks_address e)) = 8"
    using assms by (intro length_hexpad) (simp_all add: kernel_socket_ok_def)
  then show "parse_local field False = Some (dotted (le_bytes (ks_address e)), of_nat (ks_port e))"
    using assms c by (simp add: parse_local_def split_once_append parse_hexpad decode_v4_def kernel_socket_ok_def)
  show "rsplit_once (CHR '':'') field = Some (hexpad 8 (ks_address e), hexpad 4 (ks_port e))"
    using c split_once_append [of "CHR '':''" "rev (hexpad 4 (ks_port e))" "rev (hexpad 8 (ks_address e))"]
    by (simp add: rsplit_once_def field_def)
qed

text \<open>A line of a table of IPv4 is read as what it says: a listening socket, or nothing.\<close>

lemma table_line_kernel:
  assumes "kernel_socket_ok e" "p \<in> {Tcp, Udp}"
  shows "table_line p (kernel_line e) = (if ks_listens p e then Some (ks_meta p e) else None)"
proof -
  let ?field = "hexpad 8 (ks_address e) @ CHR '':'' # hexpad 4 (ks_port e)"
  have parts: "kernel_words e ! 1 = ?field" "kernel_words e ! 3 = hexpad 2 (ks_state e)"
    "kernel_words e ! 9 = show_nat (ks_inode e)" "10 \<le> length (kernel_words e)"
    using assms(1) by (simp_all add: kernel_words_def kernel_socket_ok_def nth_append)
  have zero: "hexpad 4 (ks_port e) = ''0000'' \<longleftrightarrow> ks_port e = 0"
  proof -
    have "digit_char 0 = CHR ''0''" by code_simp
    moreover have "upper_digit (CHR ''0'') = CHR ''0''" by (simp add: upper_digit_def byte_def)
    ultimately have "hexpad 4 0 = ''0000''" by (simp add: hexpad_def show_base.simps eval_nat_numeral)
    then show ?thesis by (metis hexpad_inj)
  qed
  have listening: "is_listening p ?field (hexpad 2 (ks_state e)) \<longleftrightarrow>
      (if p = Tcp then ks_state e = 10 else ks_state e = 7 \<and> ks_port e \<noteq> 0)"
    using assms kernel_local(2) [OF assms(1)] parse_hexpad [of "ks_state e" 8 2]
    by (auto simp: is_listening_def TCP_LISTEN_def TCP_CLOSE_def kernel_socket_ok_def zero)
  have "\<not> is_v6 p" using assms(2) by (auto simp: is_v6_def)
  moreover have "from_str_radix 64 10 (show_nat (ks_inode e)) = Some (ks_inode e)"
    using assms(1) by (intro parse_show_nat) (simp add: kernel_socket_ok_def)
  ultimately show ?thesis
    using parts listening kernel_local(1) [OF assms(1)] kernel_split [OF assms(1)]
    by (auto simp: table_line_def Let_def ks_listens_def ks_meta_def)
qed

lemma insert_lines_kernel:
  assumes "list_all kernel_socket_ok es" "p \<in> {Tcp, Udp}"
    "distinct (map fst m @ map (fst \<circ> ks_meta p) (filter (ks_listens p) es))"
  shows "fold (insert_line p) (map kernel_line es) m = m @ map (ks_meta p) (filter (ks_listens p) es)"
  using assms
proof (induction es arbitrary: m)
  case (Cons e es)
  then have line: "table_line p (kernel_line e) = (if ks_listens p e then Some (ks_meta p e) else None)"
    by (simp add: table_line_kernel)
  show ?case
  proof (cases "ks_listens p e")
    case True
    obtain k s where ks: "ks_meta p e = (k, s)" by fastforce
    have "k \<notin> set (map fst m)" using Cons.prems True ks by auto
    then have "AList.update k s m = m @ [(k, s)]" by (induction m) auto
    then have "insert_line p (kernel_line e) m = m @ [ks_meta p e]"
      using line True ks by (simp add: insert_line_def)
    then show ?thesis using Cons.IH [of "m @ [ks_meta p e]"] Cons.prems True ks by simp
  next
    case False
    then have "insert_line p (kernel_line e) m = m" using line by (simp add: insert_line_def)
    then show ?thesis using Cons False by simp
  qed
qed simp

lemma parse_kernel_table:
  assumes "list_all kernel_socket_ok es" "p \<in> {Tcp, Udp}"
    "distinct (map (fst \<circ> ks_meta p) (filter (ks_listens p) es))"
    "line_text header" "list_all (\<lambda>c. byte c < 128) (file_of (header # map kernel_line es))"
    "length (file_of (header # map kernel_line es)) \<le> CAP_PROC_NET"
    "ne_read env (base @ ''/net/'' @ table_name p) = Inr (file_of (header # map kernel_line es))"
  shows "parse_proc_net env p base [] = (True, map (ks_meta p) (filter (ks_listens p) es), [])"
proof -
  have "line_text (kernel_line e)" if "kernel_socket_ok e" for e
    using that unfolding kernel_line_def by (intro row_line kernel_words_ok) (simp_all add: kernel_socket_ok_def)
  then have "list_all line_text (header # map kernel_line es)"
    using assms(1,4) by (auto simp: list_all_iff)
  then have "lines (file_of (header # map kernel_line es)) = header # map kernel_line es"
    by (rule lines_file)
  then show ?thesis
    using assms(5-7) insert_lines_kernel [OF assms(1,2), of "[]"] assms(3)
    by (simp add: parse_proc_net_def read_procfs_capped_def capped_def ascii_lossy)
qed

text \<open>
  C29: No listener of the kernel's table is lost and none is invented. For a table of TCP or UDP (over IPv4)
  below the cap and written as the kernel writes it, hexadecimal in upper case and the columns padded in any
  way, with one inode per listening socket, the sockets found are exactly those that listen (TCP state 10;
  UDP unconnected and bound to a port) and have an inode, in order, each with its address in dotted form and
  its port.
\<close>

theorem listeners_found:
  assumes "list_all kernel_socket_ok es" "p \<in> {Tcp, Udp}"
    "distinct (map (fst \<circ> ks_meta p) (filter (ks_listens p) es))"
    "line_text header" "list_all (\<lambda>c. byte c < 128) (file_of (header # map kernel_line es))"
    "length (file_of (header # map kernel_line es)) \<le> CAP_PROC_NET"
    "ne_read env (base @ ''/net/'' @ table_name p) = Inr (file_of (header # map kernel_line es))"
  shows "parse_proc_net env p base [] = (True, map (ks_meta p) (filter (ks_listens p) es), [])"
  using assms by (rule parse_kernel_table)

text \<open>A row of the repository's tests.\<close>

definition sample_socket :: kernel_socket where
  "sample_socket =
     \<lparr>ks_gaps = [''   '', '' '', '' '', '' '', '' '', '' '', '' '', ''     '', ''        '', '' '', '' ''],
      ks_slot = ''0:'', ks_address = 0x0100007F, ks_port = 22, ks_remote = ''00000000:0000'',
      ks_state = 10, ks_middle = [''00000000:00000000'', ''00:00000000'', ''00000000'', ''0'', ''0''],
      ks_inode = 7, ks_rest = [''1''], ks_trail = ''   ''\<rparr>"

definition sample_net :: net_env where
  "sample_net =
     \<lparr>ne_read = (\<lambda>p. Inr (file_of [''sl'', kernel_line sample_socket])), ne_link = (\<lambda>p. Inl NotFound),
      ne_dir = (\<lambda>p. Inl NotFound), ne_is_root = True, ne_sockets = (\<lambda>x. x), ne_spaces = (\<lambda>x. x)\<rparr>"

lemma sample_words:
  "kernel_words sample_socket = [''0:'', ''0100007F:0016'', ''00000000:0000'', ''0A'', ''00000000:00000000'',
     ''00:00000000'', ''00000000'', ''0'', ''0'', ''7'', ''1'']"
proof -
  have d: "digit_char 0 = CHR ''0''" "digit_char (Suc 0) = CHR ''1''" "digit_char 6 = CHR ''6''"
    "digit_char 7 = CHR ''7''" "digit_char 10 = CHR ''a''" "digit_char 15 = CHR ''f''"
    by code_simp+
  have u: "upper_digit (CHR ''0'') = CHR ''0''" "upper_digit (CHR ''1'') = CHR ''1''"
    "upper_digit (CHR ''6'') = CHR ''6''" "upper_digit (CHR ''7'') = CHR ''7''"
    "upper_digit (CHR ''a'') = CHR ''A''" "upper_digit (CHR ''f'') = CHR ''F''"
    by code_simp+
  have b: "show_base 16 0x0100007F = ''100007f''" "show_base 16 22 = ''16''" "show_base 16 10 = ''a''"
    by (simp_all add: show_base.simps d)
  have "hexpad 8 0x0100007F = ''0100007F''" "hexpad 4 22 = ''0016''" "hexpad 2 10 = ''0A''"
    unfolding hexpad_def b by (simp_all add: numeral_2_eq_2 u)
  moreover have "show_nat 7 = ''7''" by (simp add: show_nat_def show_base.simps d)
  ultimately show ?thesis by (simp add: kernel_words_def sample_socket_def)
qed

lemma sample_line:
  "kernel_line sample_socket = ''   0: 0100007F:0016 00000000:0000 0A 00000000:00000000 00:00000000 00000000     0        0 7 1   ''"
  unfolding kernel_line_def sample_words by (simp add: sample_socket_def)

theorem listeners_found_witness:
  "parse_proc_net sample_net Tcp ''/proc'' [] = (True, [ks_meta Tcp sample_socket], [])"
proof -
  have "kernel_socket_ok sample_socket" unfolding kernel_socket_ok_def sample_words
    by (simp add: sample_socket_def gaps_ok_def blank_char_def plain_word_def visible_def)
  moreover have "ks_listens Tcp sample_socket" by (simp add: ks_listens_def sample_socket_def)
  moreover have "list_all (\<lambda>c. byte c < 128) (file_of [''sl'', kernel_line sample_socket])"
    "length (file_of [''sl'', kernel_line sample_socket]) \<le> CAP_PROC_NET"
    by (simp_all add: sample_line file_of_def byte_def CAP_PROC_NET_def)
  ultimately show ?thesis
    using listeners_found [of "[sample_socket]" Tcp "''sl''" sample_net "''/proc''"]
    by (simp add: line_text_def sample_net_def)
qed

section \<open>Foreign namespaces\<close>

text \<open>The orders of the hash maps permute.\<close>

definition net_orders :: "net_env \<Rightarrow> bool" where
  "net_orders env =
     ((\<forall>ms. mset (ne_sockets env ms) = mset ms) \<and> (\<forall>ns. mset (ne_spaces env ns) = mset ns))"

definition tables_of :: "net_env \<Rightarrow> string \<Rightarrow> nat \<Rightarrow> socket_meta list" where
  "tables_of env proc_root pid = map snd (fst (snd (read_tables env (pid_dir proc_root pid))))"

definition has_tables :: "net_env \<Rightarrow> string \<Rightarrow> nat \<Rightarrow> bool" where
  "has_tables env proc_root pid = fst (read_tables env (pid_dir proc_root pid))"

definition netns_of :: "net_env \<Rightarrow> string \<Rightarrow> nat \<Rightarrow> os_kind + string" where
  "netns_of env proc_root pid = link_text env (pid_dir proc_root pid @ ''/ns/net'')"

text \<open>What holds after the processes \<open>done\<close>, if nothing was denied and the cap was not reached.\<close>

definition ns_covered :: "net_env \<Rightarrow> string \<Rightarrow> string \<Rightarrow> nat \<Rightarrow> ns_walk \<Rightarrow> bool" where
  "ns_covered env proc_root host_ns pid w =
     (case netns_of env proc_root pid of
        Inl e \<Rightarrow> e = NotFound
      | Inr ns \<Rightarrow> ns = host_ns \<or> ns \<in> fst ` set (nw_cache w) \<or> \<not> has_tables env proc_root pid)"

definition ns_entry_ok :: "net_env \<Rightarrow> string \<Rightarrow> string \<Rightarrow> nat list \<Rightarrow> string \<times> socket_meta list \<times> string \<Rightarrow> bool" where
  "ns_entry_ok env proc_root host_ns pids c =
     (\<exists>pid \<in> set pids. netns_of env proc_root pid = Inr (fst c) \<and> fst c \<noteq> host_ns \<and> has_tables env proc_root pid
        \<and> snd c = (ne_sockets env (tables_of env proc_root pid), comm_of env proc_root pid))"

lemma ns_step_mono:
  "fst ` set (nw_cache w) \<subseteq> fst ` set (nw_cache (ns_step env proc_root host_ns pid w))"
  "nw_denied w \<le> nw_denied (ns_step env proc_root host_ns pid w)"
  "nw_over_cap w \<le> nw_over_cap (ns_step env proc_root host_ns pid w)"
  by (auto simp: ns_step_def split: sum.split prod.split)

lemma ns_step_covers:
  "nw_denied (ns_step env proc_root host_ns pid w) = 0 \<Longrightarrow> nw_over_cap (ns_step env proc_root host_ns pid w) = 0 \<Longrightarrow>
     ns_covered env proc_root host_ns pid (ns_step env proc_root host_ns pid w)"
  by (auto simp: ns_step_def ns_covered_def netns_of_def has_tables_def split: sum.splits prod.splits if_splits)

lemma ns_step_entries:
  "c \<in> set (nw_cache (ns_step env proc_root host_ns pid w)) \<Longrightarrow>
     c \<in> set (nw_cache w) \<or> ns_entry_ok env proc_root host_ns [pid] c"
  by (auto simp: ns_step_def ns_entry_ok_def netns_of_def has_tables_def tables_of_def
      split: sum.splits prod.splits if_splits)

lemma ns_walk_mono:
  "fst ` set (nw_cache w) \<subseteq> fst ` set (nw_cache (fold (ns_step env proc_root host_ns) pids w))
   \<and> nw_denied w \<le> nw_denied (fold (ns_step env proc_root host_ns) pids w)
   \<and> nw_over_cap w \<le> nw_over_cap (fold (ns_step env proc_root host_ns) pids w)"
proof (induction pids arbitrary: w)
  case (Cons pid pids)
  show ?case
    using Cons [of "ns_step env proc_root host_ns pid w"] ns_step_mono [of w env proc_root host_ns pid]
    by (auto intro: order_trans)
qed simp

lemma ns_covered_mono:
  "fst ` set (nw_cache w) \<subseteq> fst ` set (nw_cache v) \<Longrightarrow> ns_covered env r h pid w \<Longrightarrow> ns_covered env r h pid v"
  by (auto simp: ns_covered_def split: sum.splits)

lemma ns_walk_covers:
  "nw_denied (fold (ns_step env proc_root host_ns) pids w) = 0 \<Longrightarrow>
   nw_over_cap (fold (ns_step env proc_root host_ns) pids w) = 0 \<Longrightarrow> pid \<in> set pids \<Longrightarrow>
     ns_covered env proc_root host_ns pid (fold (ns_step env proc_root host_ns) pids w)"
proof (induction pids arbitrary: w)
  case (Cons p pids)
  let ?w = "ns_step env proc_root host_ns p w"
  have "nw_denied ?w = 0" "nw_over_cap ?w = 0"
    using Cons.prems ns_walk_mono [of ?w env proc_root host_ns pids] by auto
  then have "ns_covered env proc_root host_ns p (fold (ns_step env proc_root host_ns) pids ?w)"
    using ns_walk_mono [of ?w env proc_root host_ns pids] ns_covered_mono ns_step_covers by metis
  then show ?case using Cons.IH [of ?w] Cons.prems by auto
qed simp

lemma ns_walk_entries:
  "c \<in> set (nw_cache (fold (ns_step env proc_root host_ns) pids w)) \<Longrightarrow>
     c \<in> set (nw_cache w) \<or> ns_entry_ok env proc_root host_ns pids c"
proof (induction pids arbitrary: w)
  case (Cons p pids)
  then consider "c \<in> set (nw_cache (ns_step env proc_root host_ns p w))" | "ns_entry_ok env proc_root host_ns pids c"
    by fastforce
  then show ?case
  proof cases
    case 1
    then show ?thesis using ns_step_entries [of c] by (fastforce simp: ns_entry_ok_def)
  next
    case 2
    then show ?thesis by (auto simp: ns_entry_ok_def)
  qed
qed simp

text \<open>
  C30: no foreign namespace is skipped in silence. If the walk over the processes adds no note on coverage,
  then the namespace of PID 1 was read and for every process with a namespace of its own, unless it vanished
  or none of its tables could be read any more, the namespace was entered through some process, and each
  socket that listens in the tables of that process is in the report, a socket with the address and port of
  one of the host included. And nothing is reported that is not such a socket.
\<close>

theorem foreign_listeners_complete:
  assumes "net_orders env" "report_foreign_netns_listeners_from env proc_root = (found, [])"
  shows "\<exists>host entries. ne_link env (proc_root @ ''/1/ns/net'') = Inr host \<and> ne_dir env proc_root = Inr entries
    \<and> (\<forall>pid \<in> set (pids_of entries). \<forall>ns. netns_of env proc_root pid = Inr ns \<and> ns \<noteq> from_utf8_lossy host
          \<and> has_tables env proc_root pid \<longrightarrow>
        (\<exists>pid' \<in> set (pids_of entries). netns_of env proc_root pid' = Inr ns \<and> has_tables env proc_root pid'
          \<and> foreign_listener ns (comm_of env proc_root pid') ` set (tables_of env proc_root pid') \<subseteq> set found))
    \<and> (\<forall>pid \<in> set (pids_of entries). \<forall>e. netns_of env proc_root pid = Inl e \<longrightarrow> e = NotFound)
    \<and> (\<forall>l \<in> set found. \<exists>pid \<in> set (pids_of entries). \<exists>ns m. netns_of env proc_root pid = Inr ns
          \<and> ns \<noteq> from_utf8_lossy host \<and> m \<in> set (tables_of env proc_root pid)
          \<and> l = foreign_listener ns (comm_of env proc_root pid) m)"
proof -
  obtain host entries where he: "ne_link env (proc_root @ ''/1/ns/net'') = Inr host" "ne_dir env proc_root = Inr entries"
    using assms(2) by (auto simp: report_foreign_netns_listeners_from_def split: sum.splits)
  define w where "w = fold (ns_step env proc_root (from_utf8_lossy host)) (pids_of entries)
                        \<lparr>nw_cache = [], nw_denied = 0, nw_over_cap = 0, nw_notes = []\<rparr>"
  have r: "found = sort_key foreign_key (concat (map (\<lambda>(ns, ms, comm). map (foreign_listener ns comm) ms)
        (ne_spaces env (nw_cache w))))" "walk_notes proc_root w = []"
    using assms(2) he by (simp_all add: report_foreign_netns_listeners_from_def w_def Let_def)
  have quiet: "nw_denied w = 0" "nw_over_cap w = 0" using r(2) by (auto simp: walk_notes_def split: if_splits)
  have spaces: "set (ne_spaces env xs) = set xs" "set (ne_sockets env ms) = set ms" for xs ms
    using assms(1) unfolding net_orders_def by (metis set_mset_mset)+
  have set_found: "l \<in> set found \<longleftrightarrow> (\<exists>ns ms comm. (ns, ms, comm) \<in> set (nw_cache w) \<and> l \<in> foreign_listener ns comm ` set ms)" for l
    using r(1) by (force simp: spaces)
  have covered: "ns_covered env proc_root (from_utf8_lossy host) pid w" if "pid \<in> set (pids_of entries)" for pid
    using ns_walk_covers that quiet unfolding w_def by blast
  have entries_ok: "ns_entry_ok env proc_root (from_utf8_lossy host) (pids_of entries) c" if "c \<in> set (nw_cache w)" for c
    using ns_walk_entries [of c] that unfolding w_def by fastforce
  have 1: "\<exists>pid' \<in> set (pids_of entries). netns_of env proc_root pid' = Inr ns \<and> has_tables env proc_root pid'
      \<and> foreign_listener ns (comm_of env proc_root pid') ` set (tables_of env proc_root pid') \<subseteq> set found"
    if pid: "pid \<in> set (pids_of entries)" "netns_of env proc_root pid = Inr ns" "ns \<noteq> from_utf8_lossy host"
      "has_tables env proc_root pid" for pid ns
  proof -
    have "ns \<in> fst ` set (nw_cache w)" using covered [OF pid(1)] pid by (simp add: ns_covered_def)
    then obtain ms comm where c: "(ns, ms, comm) \<in> set (nw_cache w)" by force
    then obtain pid' where p': "pid' \<in> set (pids_of entries)" "netns_of env proc_root pid' = Inr ns"
      "has_tables env proc_root pid'" "ms = ne_sockets env (tables_of env proc_root pid')"
      "comm = comm_of env proc_root pid'"
      using entries_ok by (fastforce simp: ns_entry_ok_def)
    moreover have "foreign_listener ns comm ` set ms \<subseteq> set found" using c set_found by fastforce
    ultimately show ?thesis by (auto simp: spaces)
  qed
  have 2: "e = NotFound" if "pid \<in> set (pids_of entries)" "netns_of env proc_root pid = Inl e" for pid e
    using covered that by (fastforce simp: ns_covered_def)
  have 3: "\<exists>pid \<in> set (pids_of entries). \<exists>ns m. netns_of env proc_root pid = Inr ns \<and> ns \<noteq> from_utf8_lossy host
      \<and> m \<in> set (tables_of env proc_root pid) \<and> l = foreign_listener ns (comm_of env proc_root pid) m"
    if "l \<in> set found" for l
  proof -
    obtain ns ms comm where c: "(ns, ms, comm) \<in> set (nw_cache w)" "l \<in> foreign_listener ns comm ` set ms"
      using \<open>l \<in> set found\<close> set_found by auto
    obtain pid where p: "pid \<in> set (pids_of entries)" "netns_of env proc_root pid = Inr ns"
      "ns \<noteq> from_utf8_lossy host" "ms = ne_sockets env (tables_of env proc_root pid)"
      "comm = comm_of env proc_root pid"
      using entries_ok [OF c(1)] by (auto simp: ns_entry_ok_def)
    moreover obtain m where "m \<in> set ms" "l = foreign_listener ns comm m" using c(2) by auto
    ultimately show ?thesis using spaces(2) by blast
  qed
  show ?thesis using he 1 2 3 by blast
qed

text \<open>A host with one process in a namespace of its own, in which the sample socket listens.\<close>

definition two_spaces :: net_env where
  "two_spaces =
     \<lparr>ne_read = (\<lambda>p. if p = ''/proc/2/net/tcp'' then Inr (file_of [''sl'', kernel_line sample_socket]) else Inl NotFound),
      ne_link = (\<lambda>p. if p = ''/proc/1/ns/net'' then Inr ''net:[1]''
                   else if p = ''/proc/2/ns/net'' then Inr ''net:[2]'' else Inl NotFound),
      ne_dir = (\<lambda>p. Inr [Some ''2'']), ne_is_root = True,
      ne_sockets = (\<lambda>x. x), ne_spaces = (\<lambda>x. x)\<rparr>"

lemma sample_table:
  "ne_read env (base @ ''/net/'' @ table_name Tcp) = Inr (file_of [''sl'', kernel_line sample_socket]) \<Longrightarrow>
     parse_proc_net env Tcp base [] = (True, [ks_meta Tcp sample_socket], [])"
proof -
  assume r: "ne_read env (base @ ''/net/'' @ table_name Tcp) = Inr (file_of [''sl'', kernel_line sample_socket])"
  have "kernel_socket_ok sample_socket" unfolding kernel_socket_ok_def sample_words
    by (simp add: sample_socket_def gaps_ok_def blank_char_def plain_word_def visible_def)
  moreover have "ks_listens Tcp sample_socket" by (simp add: ks_listens_def sample_socket_def)
  moreover have "list_all (\<lambda>c. byte c < 128) (file_of [''sl'', kernel_line sample_socket])"
    "length (file_of [''sl'', kernel_line sample_socket]) \<le> CAP_PROC_NET"
    by (simp_all add: sample_line file_of_def byte_def CAP_PROC_NET_def)
  ultimately show ?thesis
    using parse_kernel_table [of "[sample_socket]" Tcp "''sl''" env base] r by (simp add: line_text_def)
qed

lemma two_spaces_facts:
  "pid_dir ''/proc'' 2 = ''/proc/2''"
  "pids_of [Some ''2''] = [2]"
  "link_text two_spaces ''/proc/2/ns/net'' = Inr ''net:[2]''"
  "from_utf8_lossy ''net:[1]'' = ''net:[1]''"
  "read_tables two_spaces ''/proc/2'' = (True, [ks_meta Tcp sample_socket], [])"
proof -
  have "digit_char 2 = CHR ''2''" by code_simp
  then show "pid_dir ''/proc'' 2 = ''/proc/2''"
    by (simp add: pid_dir_def show_nat_def show_base.simps)
  show "pids_of [Some ''2''] = [2]"
    by (simp add: pids_of_def from_str_radix_def digit_value_def)
  have v: "valid_utf8 ''net:[2]''"
    using lossy_valid [of "''net:[2]''"] ascii_lossy [of "''net:[2]''"] by (simp add: byte_def)
  show "link_text two_spaces ''/proc/2/ns/net'' = Inr ''net:[2]''"
    using v by (simp add: link_text_def two_spaces_def)
  show "from_utf8_lossy ''net:[1]'' = ''net:[1]''" by (rule ascii_lossy) (simp add: byte_def)
  have "parse_proc_net two_spaces Tcp ''/proc/2'' [] = (True, [ks_meta Tcp sample_socket], [])"
    by (rule sample_table) (simp add: two_spaces_def table_name_def)
  then show "read_tables two_spaces ''/proc/2'' = (True, [ks_meta Tcp sample_socket], [])"
    by (simp add: read_tables_def PROTOS_def parse_proc_net_def [of _ Tcp6] parse_proc_net_def [of _ Udp]
        parse_proc_net_def [of _ Udp6] two_spaces_def table_name_def read_procfs_capped_def)
qed

theorem foreign_listeners_complete_witness:
  "foreign_listener ''net:[2]'' ''?'' (snd (ks_meta Tcp sample_socket))
     \<in> set (fst (report_foreign_netns_listeners_from two_spaces ''/proc''))"
proof -
  have p2: "ns_step two_spaces ''/proc'' ''net:[1]'' 2 \<lparr>nw_cache = [], nw_denied = 0, nw_over_cap = 0, nw_notes = []\<rparr>
      = \<lparr>nw_cache = [(''net:[2]'', [snd (ks_meta Tcp sample_socket)], comm_of two_spaces ''/proc'' 2)],
         nw_denied = 0, nw_over_cap = 0, nw_notes = []\<rparr>"
    by (simp add: ns_step_def two_spaces_facts MAX_FOREIGN_NETNS_def) (simp add: two_spaces_def)
  have link: "ne_link two_spaces (''/proc'' @ ''/1/ns/net'') = Inr ''net:[1]''"
    "ne_dir two_spaces ''/proc'' = Inr [Some ''2'']" by (simp_all add: two_spaces_def)
  have "snd (report_foreign_netns_listeners_from two_spaces ''/proc'') = []"
    unfolding report_foreign_netns_listeners_from_def link two_spaces_facts(2,4) sum.case
    by (simp add: p2 walk_notes_def Let_def)
  then obtain found where f: "report_foreign_netns_listeners_from two_spaces ''/proc'' = (found, [])"
    by (metis prod.collapse)
  have orders: "net_orders two_spaces" by (simp add: net_orders_def two_spaces_def)
  have n2: "netns_of two_spaces ''/proc'' 2 = Inr ''net:[2]''"
    by (simp add: netns_of_def two_spaces_facts)
  have t2: "has_tables two_spaces ''/proc'' 2" "tables_of two_spaces ''/proc'' 2 = [snd (ks_meta Tcp sample_socket)]"
    by (simp_all add: has_tables_def tables_of_def two_spaces_facts)
  have c2: "comm_of two_spaces ''/proc'' 2 = ''?''"
    unfolding comm_of_def two_spaces_facts(1) by (simp add: two_spaces_def read_procfs_capped_def)
  have "\<exists>host entries. ne_link two_spaces (''/proc'' @ ''/1/ns/net'') = Inr host
    \<and> ne_dir two_spaces ''/proc'' = Inr entries
    \<and> (\<forall>pid \<in> set (pids_of entries). \<forall>ns. netns_of two_spaces ''/proc'' pid = Inr ns \<and> ns \<noteq> from_utf8_lossy host
          \<and> has_tables two_spaces ''/proc'' pid \<longrightarrow>
        (\<exists>pid' \<in> set (pids_of entries). netns_of two_spaces ''/proc'' pid' = Inr ns \<and> has_tables two_spaces ''/proc'' pid'
          \<and> foreign_listener ns (comm_of two_spaces ''/proc'' pid') ` set (tables_of two_spaces ''/proc'' pid') \<subseteq> set found))"
    using foreign_listeners_complete [OF orders f]
    by (elim exE conjE) (rule exI, rule exI, intro conjI; assumption)
  then obtain host entries where he: "ne_link two_spaces (''/proc'' @ ''/1/ns/net'') = Inr host"
    "ne_dir two_spaces ''/proc'' = Inr entries"
    and all: "\<forall>pid \<in> set (pids_of entries). \<forall>ns. netns_of two_spaces ''/proc'' pid = Inr ns \<and> ns \<noteq> from_utf8_lossy host
          \<and> has_tables two_spaces ''/proc'' pid \<longrightarrow>
        (\<exists>pid' \<in> set (pids_of entries). netns_of two_spaces ''/proc'' pid' = Inr ns \<and> has_tables two_spaces ''/proc'' pid'
          \<and> foreign_listener ns (comm_of two_spaces ''/proc'' pid') ` set (tables_of two_spaces ''/proc'' pid') \<subseteq> set found)"
    by (elim exE conjE)
  have "host = ''net:[1]''" "entries = [Some ''2'']" using he link by simp_all
  then have "\<exists>pid' \<in> {2}. netns_of two_spaces ''/proc'' pid' = Inr ''net:[2]''
      \<and> foreign_listener ''net:[2]'' (comm_of two_spaces ''/proc'' pid') ` set (tables_of two_spaces ''/proc'' pid') \<subseteq> set found"
    using all n2 t2(1) two_spaces_facts(2,4) by simp
  then show ?thesis using n2 t2 c2 f by auto
qed

section \<open>Attribution\<close>

definition held :: "net_env \<Rightarrow> string \<Rightarrow> nat \<Rightarrow> u64 set" where
  "held env proc_root pid =
     (case ne_dir env (pid_dir proc_root pid @ ''/fd'') of Inl _ \<Rightarrow> {}
      | Inr fds \<Rightarrow> {i. Some i \<in> fd_inode env (pid_dir proc_root pid @ ''/fd'') ` set (take MAX_FD_PER_PID fds)})"

definition keys_of :: "('k \<times> 'v) list \<Rightarrow> 'k set" where
  "keys_of m = fst ` set m"

lemma attribute_fds:
  "set (fold (attribute_fd env r wanted pid) fds found)
     = set found \<union> {(i, attr_of env r pid) |i. Some i \<in> fd_inode env (pid_dir r pid @ ''/fd'') ` set fds
         \<and> i \<in> keys_of wanted \<and> i \<notin> keys_of found}
   \<and> (distinct (map fst found) \<longrightarrow> distinct (map fst (fold (attribute_fd env r wanted pid) fds found)))"
proof (induction fds arbitrary: found)
  case (Cons fd fds)
  let ?i = "fd_inode env (pid_dir r pid @ ''/fd'') fd"
  show ?case
  proof (cases "\<exists>i. ?i = Some i \<and> i \<in> keys_of wanted \<and> i \<notin> keys_of found")
    case True
    then obtain i where i: "?i = Some i" "i \<in> keys_of wanted" "i \<notin> keys_of found" by blast
    then have "attribute_fd env r wanted pid fd found = found @ [(i, attr_of env r pid)]"
      by (simp add: attribute_fd_def keys_of_def)
    then show ?thesis
      using Cons [of "found @ [(i, attr_of env r pid)]"] i by (auto simp: keys_of_def)
  next
    case False
    then have "attribute_fd env r wanted pid fd found = found"
      by (auto simp: attribute_fd_def keys_of_def split: option.split)
    then show ?thesis using Cons [of found] False by auto
  qed
qed simp

lemma attribute_pid_found:
  "set (fst (attribute_pid env r wanted pid found))
     = set found \<union> {(i, attr_of env r pid) |i. i \<in> held env r pid \<and> i \<in> keys_of wanted \<and> i \<notin> keys_of found}"
  "distinct (map fst found) \<Longrightarrow> distinct (map fst (fst (attribute_pid env r wanted pid found)))"
  using attribute_fds [of env r wanted pid _ found]
  by (auto simp: attribute_pid_def held_def Let_def split: sum.splits)

text \<open>The first process that holds a socket.\<close>

definition first_holder :: "net_env \<Rightarrow> string \<Rightarrow> nat list \<Rightarrow> u64 \<Rightarrow> nat option" where
  "first_holder env r pids i = find (\<lambda>pid. i \<in> held env r pid) pids"

lemma attribute_pids_found:
  assumes "distinct (map fst wanted)" "distinct (map fst found)" "keys_of found \<subseteq> keys_of wanted"
  shows "set (fst (attribute_pids env r wanted pids found))
     = set found \<union> {(i, attr_of env r pid) |i pid. i \<in> keys_of wanted \<and> i \<notin> keys_of found
         \<and> first_holder env r pids i = Some pid}"
  using assms(2,3)
proof (induction pids arbitrary: found)
  case Nil
  then show ?case by (simp add: first_holder_def)
next
  case (Cons pid pids)
  show ?case
  proof (cases "length found = length wanted")
    case True
    have card: "distinct (map fst m) \<Longrightarrow> card (keys_of m) = length m" for m :: "(u64 \<times> 'b) list"
      using distinct_card [of "map fst m"] by (simp add: keys_of_def)
    have "card (keys_of found) = length found" "card (keys_of wanted) = length wanted"
      using Cons.prems(1) assms(1) card by blast+
    then have "keys_of found = keys_of wanted"
      using True Cons.prems(2) by (intro card_subset_eq) (simp_all add: keys_of_def)
    then show ?thesis using True by auto
  next
    case False
    define found' where "found' = fst (attribute_pid env r wanted pid found)"
    have f': "set found' = set found \<union> {(i, attr_of env r pid) |i. i \<in> held env r pid \<and> i \<in> keys_of wanted
        \<and> i \<notin> keys_of found}" "distinct (map fst found')"
      using attribute_pid_found Cons.prems(1) unfolding found'_def by blast+
    then have k': "keys_of found' = keys_of found \<union> (held env r pid \<inter> keys_of wanted)"
      by (auto simp: keys_of_def image_Un) force+
    have "fst (attribute_pids env r wanted (pid # pids) found) = fst (attribute_pids env r wanted pids found')"
      using False by (simp add: found'_def split: prod.split)
    also have "set \<dots> = set found' \<union> {(i, attr_of env r p) |i p. i \<in> keys_of wanted \<and> i \<notin> keys_of found'
         \<and> first_holder env r pids i = Some p}"
      using Cons.prems(2) k' by (intro Cons.IH f'(2)) auto
    also have "\<dots> = set found \<union> {(i, attr_of env r p) |i p. i \<in> keys_of wanted \<and> i \<notin> keys_of found
         \<and> first_holder env r (pid # pids) i = Some p}"
      unfolding f'(1) k' by (auto simp: first_holder_def split: if_splits)
    finally show ?thesis .
  qed
qed

lemma find_least:
  "sorted pids \<Longrightarrow> find P pids = Some p \<longleftrightarrow> p \<in> set pids \<and> P p \<and> (\<forall>q \<in> set pids. q < (p :: nat) \<longrightarrow> \<not> P q)"
proof (induction pids)
  case (Cons x xs)
  then show ?case by (auto dest: leD)
qed simp

text \<open>
  Each listener is attributed to the process that holds it and to the one with the least process ID among
  several, so a worker never takes the place of its master and a second run names the same process. A
  listener that some process holds within the budget of descriptors is always attributed, although the walk
  stops early once every socket has an owner.
\<close>

theorem attributed_to_least_holder:
  assumes "distinct (map fst wanted)" "ne_dir env proc_root = Inr entries"
  shows "set (fst (attribute_sockets_from env proc_root wanted))
    = {(i, attr_of env proc_root pid) |i pid. i \<in> fst ` set wanted \<and> pid \<in> set (pids_of entries)
         \<and> i \<in> held env proc_root pid
         \<and> (\<forall>q \<in> set (pids_of entries). q < pid \<longrightarrow> i \<notin> held env proc_root q)}"
proof (cases "wanted = []")
  case False
  have s: "sorted (pids_of entries)" by (simp add: pids_of_def)
  have "fst (attribute_sockets_from env proc_root wanted) = fst (attribute_pids env proc_root wanted (pids_of entries) [])"
    using False assms(2) by (simp add: attribute_sockets_from_def split: prod.split)
  then show ?thesis
    using attribute_pids_found [OF assms(1), of "[]" env proc_root "pids_of entries"] find_least [OF s]
    by (auto simp: keys_of_def first_holder_def)
qed (simp add: attribute_sockets_from_def)

definition one_holder :: net_env where
  "one_holder =
     \<lparr>ne_read = (\<lambda>p. Inl NotFound),
      ne_link = (\<lambda>p. if p = ''/proc/2/fd/3'' then Inr ''socket:[7]'' else Inl NotFound),
      ne_dir = (\<lambda>p. if p = ''/proc'' then Inr [Some ''2''] else if p = ''/proc/2/fd'' then Inr [Some ''3''] else Inl NotFound),
      ne_is_root = True, ne_sockets = (\<lambda>x. x), ne_spaces = (\<lambda>x. x)\<rparr>"

theorem attributed_to_least_holder_witness:
  "set (fst (attribute_sockets_from one_holder ''/proc'' [(7, snd (ks_meta Tcp sample_socket))])) = {(7, attr_of one_holder ''/proc'' 2)}"
proof -
  have dir: "ne_dir one_holder ''/proc'' = Inr [Some ''2'']" "ne_dir one_holder ''/proc/2/fd'' = Inr [Some ''3'']"
    "ne_link one_holder ''/proc/2/fd/3'' = Inr ''socket:[7]''"
    by (simp_all add: one_holder_def)
  have "valid_utf8 ''socket:[7]''"
    using lossy_valid [of "''socket:[7]''"] ascii_lossy [of "''socket:[7]''"] by (simp add: byte_def)
  moreover have "socket_inode ''socket:[7]'' = Some 7"
    by (simp add: socket_inode_def strip_suffix_def from_str_radix_def digit_value_def)
  ultimately have "fd_inode one_holder ''/proc/2/fd'' (Some ''3'') = Some 7"
    using dir by (simp add: fd_inode_def link_text_def)
  then have "held one_holder ''/proc'' 2 = {7}"
    using dir two_spaces_facts(1) by (auto simp: held_def MAX_FD_PER_PID_def)
  then show ?thesis
    using attributed_to_least_holder [of "[(7, snd (ks_meta Tcp sample_socket))]" one_holder "''/proc''", OF _ dir(1)]
    by (simp add: two_spaces_facts(2))
qed

text \<open>
  Of the sockets that listen on one protocol, address and port only the one with the least inode is in the
  inventory. Port sharing lets several processes listen on one tuple, and a tuple is no identity, as the
  comment on this very scan says: whoever joins a port later is not listed.
\<close>

theorem shared_port_lists_one:
  "listening_ports [(i, m), (j, m)] attrs = [port_entry attrs (min i j, m)]"
  by (simp add: listening_ports_def min_def)

end
