(* ===== verification/Provenance.thy ===== *)
theory Provenance
  imports ScanBase
begin

text \<open>
  \<open>scanners/integrity.rs\<close> and \<open>scanners/provenance.rs\<close>: who controls the bytes of a file, and which
  package owns it, with the memo that serves every scanner of a run. The file system and the output of
  \<open>rpm\<close> are parameters; what \<open>coverage::record\<close> is told is a list of notes.
\<close>

section \<open>The file system\<close>

record fs_meta =
  fs_mode :: u32
  fs_uid :: u32
  fs_gid :: u32
  fs_is_dir :: bool
  fs_is_file :: bool

text \<open>
  \<open>fe_meta\<close> follows links, \<open>fe_link\<close> reads one; \<open>fe_dir\<close> lists the names in a directory, one that is
  not UTF-8 as \<open>None\<close>; \<open>fe_canon\<close> is \<open>canonicalize\<close>; \<open>fe_proc\<close> reads under \<open>/proc\<close>; \<open>fe_rpm\<close> is the
  output and exit code of \<open>rpm -qf\<close> for a path, if it ended in time; \<open>fe_error_text\<close> prints an error.
\<close>

record fs_env =
  fe_meta :: "string \<Rightarrow> os_kind + fs_meta"
  fe_open :: "string \<Rightarrow> os_kind opened"
  fe_dir :: "string \<Rightarrow> os_kind + string option list"
  fe_canon :: "string \<Rightarrow> string option"
  fe_link :: "string \<Rightarrow> os_kind + string"
  fe_proc :: "string \<Rightarrow> os_kind + string"
  fe_has_rpm :: bool
  fe_rpm :: "string \<Rightarrow> (string \<times> int) option"
  fe_is_root :: bool
  fe_error_text :: "os_kind io_failure \<Rightarrow> string"

definition is_dir :: "('a fs_env_scheme) \<Rightarrow> string \<Rightarrow> bool" where
  "is_dir env path = (case fe_meta env path of Inl _ \<Rightarrow> False | Inr m \<Rightarrow> fs_is_dir m)"

definition is_file :: "('a fs_env_scheme) \<Rightarrow> string \<Rightarrow> bool" where
  "is_file env path = (case fe_meta env path of Inl _ \<Rightarrow> False | Inr m \<Rightarrow> fs_is_file m)"

section \<open>Who controls a file\<close>

definition unsafe_mode :: "u32 \<Rightarrow> u32 \<Rightarrow> u32 \<Rightarrow> bool" where
  "unsafe_mode mode uid gid =
     (mode AND 0x02 \<noteq> 0 \<or> (uid \<noteq> 0 \<and> mode AND 0x80 \<noteq> 0) \<or> (gid \<noteq> 0 \<and> mode AND 0x10 \<noteq> 0))"

definition unsafe_meta :: "fs_meta \<Rightarrow> bool" where
  "unsafe_meta m = unsafe_mode (fs_mode m) (fs_uid m) (fs_gid m)"

definition writability_from_error :: "os_kind \<Rightarrow> exec_writability" where
  "writability_from_error k = (if k = NotFound then Missing else WUnknown)"

definition parent_unsafe :: "('a fs_env_scheme) \<Rightarrow> string \<Rightarrow> bool option" where
  "parent_unsafe env path =
     (case path_parent path of None \<Rightarrow> None
      | Some p \<Rightarrow> (case fe_meta env p of Inl _ \<Rightarrow> None | Inr m \<Rightarrow> Some (unsafe_meta m)))"

definition assess_writability :: "('a fs_env_scheme) \<Rightarrow> string \<Rightarrow> exec_writability" where
  "assess_writability env path =
     (case fe_meta env path of
        Inl e \<Rightarrow> writability_from_error e
      | Inr m \<Rightarrow>
          if unsafe_meta m \<or> parent_unsafe env path = Some True then NonRootWritable
          else if parent_unsafe env path = Some False then RootOnly
          else WUnknown)"

section \<open>The package databases\<close>

definition MAX_LIST_BYTES :: nat where "MAX_LIST_BYTES = 8 * 1024 * 1024"

type_synonym owners = "string \<rightharpoonup> string"

definition base_name :: "string \<Rightarrow> string" where
  "base_name path = last (split_char (CHR ''/'') path)"

definition record_owner :: "string list \<Rightarrow> string \<Rightarrow> string \<Rightarrow> owners \<Rightarrow> owners" where
  "record_owner candidates pkg path owned =
     (if base_name path \<in> base_name ` set candidates \<and> canon_path path \<in> set candidates
      then owned(canon_path path \<mapsto> pkg) else owned)"

text \<open>The extension and the stem of a file name.\<close>

definition split_extension :: "string \<Rightarrow> (string \<times> string) option" where
  "split_extension name =
     (case rsplit_once (CHR ''.'') name of
        None \<Rightarrow> None
      | Some (stem, ext) \<Rightarrow> if stem = [] \<or> name = ''..'' then None else Some (stem, ext))"

definition list_package :: "string option \<Rightarrow> (string \<times> string) option" where
  "list_package name =
     (case name of None \<Rightarrow> None
      | Some n \<Rightarrow>
          (case split_extension n of
             Some (stem, ext) \<Rightarrow>
               if ext = ''list''
               then Some (n, case split_once (CHR '':'') stem of None \<Rightarrow> stem | Some (p, _) \<Rightarrow> p) else None
           | None \<Rightarrow> None))"

record dpkg_walk =
  dw_owned :: owners
  dw_read :: nat
  dw_skipped :: nat
  dw_notes :: "string list"

definition dpkg_file :: "('a fs_env_scheme) \<Rightarrow> string list \<Rightarrow> string \<times> string \<Rightarrow> dpkg_walk \<Rightarrow> dpkg_walk" where
  "dpkg_file env candidates np w =
     (case np of (name, pkg) \<Rightarrow>
       (let path = ''/var/lib/dpkg/info/'' @ name in
        case read_file_capped_regular (fe_open env path) MAX_LIST_BYTES of
          Inl e \<Rightarrow>
            w\<lparr>dw_skipped := dw_skipped w + 1,
              dw_notes := dw_notes w @
                (if failure_kind e = InvalidData then
                   [''provenance: '' @ path @ '' is NOT a regular file (fifo/device) '' @ em_dash
                    @ '' dpkg list parse refused; treat as tampering. Attribution for its package may be INCOMPLETE'']
                 else [])\<rparr>
        | Inr (content, truncated) \<Rightarrow>
            w\<lparr>dw_read := dw_read w + 1,
              dw_owned := fold (record_owner candidates pkg) (map trim_end (lines content)) (dw_owned w),
              dw_notes := dw_notes w @
                (if truncated then
                   [''provenance: '' @ path @ '' truncated at '' @ show_nat MAX_LIST_BYTES @ '' B '' @ em_dash
                    @ '' attribution partial for '' @ pkg]
                 else [])\<rparr>))"

text \<open>
  The loop over the lists ends once every candidate has an owner: only candidates are given one, and they
  are distinct, so the code compares the two lengths.
\<close>

fun dpkg_loop :: "('a fs_env_scheme) \<Rightarrow> string list \<Rightarrow> (string \<times> string) list \<Rightarrow> dpkg_walk \<Rightarrow> dpkg_walk" where
  "dpkg_loop env candidates [] w = w"
| "dpkg_loop env candidates (np # nps) w =
     (let w' = dpkg_file env candidates np w in
      if (case read_file_capped_regular (fe_open env (''/var/lib/dpkg/info/'' @ fst np)) MAX_LIST_BYTES of
            Inl _ \<Rightarrow> False | Inr _ \<Rightarrow> list_all (\<lambda>c. dw_owned w' c \<noteq> None) candidates)
      then w' else dpkg_loop env candidates nps w')"

definition resolve_dpkg :: "('a fs_env_scheme) \<Rightarrow> string list \<Rightarrow> owners option \<times> string list" where
  "resolve_dpkg env candidates =
     (if candidates = [] then (Some Map.empty, [])
      else (case fe_dir env ''/var/lib/dpkg/info'' of
        Inl _ \<Rightarrow> (None, [])
      | Inr names \<Rightarrow>
          (let w = dpkg_loop env candidates (List.map_filter list_package names)
                     \<lparr>dw_owned = Map.empty, dw_read = 0, dw_skipped = 0, dw_notes = []\<rparr>
           in (if dw_read w > 0 then Some (dw_owned w) else None,
               dw_notes w @
               (if dw_skipped w > 0 then
                  [''provenance: '' @ show_nat (dw_skipped w) @ '' of '' @ show_nat (dw_read w + dw_skipped w)
                   @ '' dpkg .list file(s) unreadable '' @ em_dash
                   @ '' files owned by those packages will be reported as unpackaged'']
                else [])))))"

text \<open>One line of the database of \<open>apk\<close>: the package, the directory and the owners so far.\<close>

definition apk_step :: "string list \<Rightarrow> string \<Rightarrow> string \<times> string \<times> owners \<Rightarrow> string \<times> string \<times> owners" where
  "apk_step candidates line acc =
     (case acc of (pkg, dir, owned) \<Rightarrow>
        if line = [] then ([], [], owned)
        else (case split_once (CHR '':'') line of
          None \<Rightarrow> acc
        | Some (k, v) \<Rightarrow>
            if k = ''P'' then (v, dir, owned)
            else if k = ''F'' then (pkg, v, owned)
            else if k = ''R'' then
              (pkg, dir, record_owner candidates pkg (if dir = [] then ''/'' @ v else ''/'' @ dir @ ''/'' @ v) owned)
            else acc))"

definition resolve_apk :: "('a fs_env_scheme) \<Rightarrow> string list \<Rightarrow> (owners \<times> bool) option \<times> string list" where
  "resolve_apk env candidates =
     (if candidates = [] then (Some (Map.empty, False), [])
      else (case read_file_capped_regular (fe_open env ''/lib/apk/db/installed'') MAX_LIST_BYTES of
        Inl e \<Rightarrow>
          (None, [if failure_kind e = InvalidData then
              ''provenance: /lib/apk/db/installed is NOT a regular file (fifo/device) '' @ em_dash
              @ '' apk attribution refused; treat as tampering. Provenance is UNAVAILABLE''
            else ''provenance: /lib/apk/db/installed unreadable ('' @ os_kind_text (failure_kind e) @ '') '' @ em_dash
              @ '' apk attribution unavailable''])
      | Inr (content, truncated) \<Rightarrow>
          (case fold (apk_step candidates) (lines content) ([], [], Map.empty) of
             (_, _, owned) \<Rightarrow>
               (Some (owned, truncated),
                if truncated then [''provenance: apk DB truncated at cap '' @ em_dash
                  @ '' attribution PARTIAL, unresolved files may be misreported as unpackaged''] else []))))"

datatype rpm_query_result = Owned string | NotOwned | RpmError

definition parse_rpm_qf_output :: "string \<Rightarrow> int \<Rightarrow> rpm_query_result" where
  "parse_rpm_qf_output out code =
     (if code = 0 then
        (case find (\<lambda>l. l \<noteq> [] \<and> \<not> starts_with l ''file '' \<and> \<not> starts_with l ''error:'') (map trim (lines out)) of
           Some p \<Rightarrow> Owned p | None \<Rightarrow> RpmError)
      else if code = 1 then NotOwned else RpmError)"

definition rpm_answer :: "('a fs_env_scheme) \<Rightarrow> string \<Rightarrow> rpm_query_result" where
  "rpm_answer env path =
     (case fe_rpm env path of None \<Rightarrow> RpmError | Some (out, code) \<Rightarrow> parse_rpm_qf_output out code)"

definition resolve_rpm :: "('a fs_env_scheme) \<Rightarrow> string list \<Rightarrow> owners option \<times> string list" where
  "resolve_rpm env candidates =
     (if candidates = [] then (Some Map.empty, [])
      else if \<not> is_dir env ''/var/lib/rpm'' \<and> \<not> is_dir env ''/usr/lib/sysimage/rpm'' then
        (None, [''provenance: rpm binary present but no rpmdb '' @ em_dash @ '' attribution unavailable''])
      else if \<not> fe_has_rpm env then
        (None, [''provenance: RPM backend skipped (rpm binary not found)''])
      else
        (let answers = map (\<lambda>p. (p, rpm_answer env p)) candidates;
             owned = List.map_filter (\<lambda>(p, a). case a of Owned pkg \<Rightarrow> Some (p, pkg) | _ \<Rightarrow> None) answers;
             not_owned = length (filter (\<lambda>(p, a). a = NotOwned) answers);
             failed = length (filter (\<lambda>(p, a). a = RpmError) answers)
         in (if length owned + not_owned > 0 then Some (map_of owned) else None,
             (if failed > 0 then
                [''provenance: '' @ show_nat failed @ '' of '' @ show_nat (length owned + not_owned + failed)
                 @ '' rpm queries failed or timed out '' @ em_dash @ '' those files will be reported as unpackaged'']
              else [])
             @ (if not_owned > 0 then
                  [''provenance: '' @ show_nat not_owned @ '' file(s) confirmed not owned by any rpm package'']
                else []))))"

definition unavailable :: "string \<Rightarrow> string list \<Rightarrow> provenance_source \<times> owners \<times> string list" where
  "unavailable why notes =
     (ProvUnavailable, Map.empty, notes @ [''provenance: '' @ why @ '' '' @ em_dash @ '' attribution unavailable''])"

definition resolve_batch_uncached ::
  "('a fs_env_scheme) \<Rightarrow> string list \<Rightarrow> provenance_source \<times> owners \<times> string list" where
  "resolve_batch_uncached env candidates =
     (if is_dir env ''/var/lib/dpkg/info'' then
        (case resolve_dpkg env candidates of
           (Some m, notes) \<Rightarrow> (Dpkg, m, notes)
         | (None, notes) \<Rightarrow> unavailable ''dpkg DB present but not a single .list was readable'' notes)
      else if is_file env ''/lib/apk/db/installed'' then
        (case resolve_apk env candidates of
           (Some (m, truncated), notes) \<Rightarrow> (if truncated then PartialApk else Apk, m, notes)
         | (None, notes) \<Rightarrow> unavailable ''apk DB present but unreadable'' notes)
      else
        (case resolve_rpm env candidates of
           (Some m, notes) \<Rightarrow> (Rpm, m, notes)
         | (None, notes) \<Rightarrow> unavailable ''no parseable package DB (rpm/pacman)'' notes))"

section \<open>The memo\<close>

text \<open>\<open>known\<close>: the owner of a path, or that it has none; a path not in it was never resolved.\<close>

record prov_memo =
  pm_source :: "provenance_source option"
  pm_known :: "string \<rightharpoonup> string option"

definition empty_memo :: prov_memo where
  "empty_memo = \<lparr>pm_source = None, pm_known = Map.empty\<rparr>"

record provenance_index =
  px_source :: provenance_source
  px_map :: owners

definition lookup_owner :: "provenance_index \<Rightarrow> string \<Rightarrow> string option" where
  "lookup_owner ix path = px_map ix (canon_path path)"

text \<open>The candidates of a call are the distinct elements of a hash set, in the order it yields them.\<close>

definition resolve_batch ::
  "('a fs_env_scheme) \<Rightarrow> string list \<Rightarrow> prov_memo \<Rightarrow> (provenance_index \<times> string list) \<times> prov_memo" where
  "resolve_batch env candidates m =
     (let served = (\<lambda>c. if c \<in> set candidates then Option.bind (pm_known m c) (\<lambda>x. x) else None);
          missing = filter (\<lambda>c. pm_known m c = None) candidates
      in case (missing, pm_source m) of
           ([], Some source) \<Rightarrow> ((\<lparr>px_source = source, px_map = served\<rparr>, []), m)
         | _ \<Rightarrow>
             (case resolve_batch_uncached env missing of (source, fresh, notes) \<Rightarrow>
                ((\<lparr>px_source = (if source = ProvUnavailable
                              then (case pm_source m of None \<Rightarrow> ProvUnavailable | Some s \<Rightarrow> s) else source),
                  px_map = served ++ fresh\<rparr>, notes),
                 if source = ProvUnavailable then m
                 else \<lparr>pm_source = Some source,
                       pm_known = (\<lambda>c. if c \<in> set missing then Some (fresh c) else pm_known m c)\<rparr>)))"

end
