(* ===== verification/ProvenanceLaws.thy ===== *)
theory ProvenanceLaws
  imports Provenance ScanText
begin

text \<open>
  The memo of the package databases is transparent: a file is attributed as a query of its own would
  attribute it, whatever was asked before, except that a query \<open>rpm\<close> did not answer is kept as an answer.
\<close>

section \<open>Hosts with apk\<close>

lemma split_char_last_append: "last (split_char c (s @ c # t)) = last (split_char c t)"
  by (simp add: split_char_append)

lemma base_name_canon: "base_name (canon_path p) = base_name p"
proof (cases "list_ex (\<lambda>q. starts_with p q) merged_prefixes")
  case True
  then obtain r where "p = CHR ''/'' # r" by (auto simp: merged_prefixes_def starts_with_iff)
  then show ?thesis
    using True split_char_last_append [of "CHR ''/''" "''/usr''" r] split_char_last_append [of "CHR ''/''" "[]" r]
    by (simp add: canon_path_def base_name_def del: split_char.simps)
qed (simp add: canon_path_def)

lemma record_owner_iff:
  "record_owner cs pkg path owned = (if canon_path path \<in> set cs then owned(canon_path path \<mapsto> pkg) else owned)"
  using base_name_canon [of path] by (auto simp: record_owner_def intro: rev_image_eqI)

lemma record_owner_dom: "dom owned \<subseteq> set cs \<Longrightarrow> dom (record_owner cs pkg path owned) \<subseteq> set cs"
  by (simp add: record_owner_iff)

definition apk_owner :: "('a fs_env_scheme) \<Rightarrow> owners" where
  "apk_owner env =
     (case read_file_capped_regular (fe_open env ''/lib/apk/db/installed'') MAX_LIST_BYTES of
        Inl _ \<Rightarrow> Map.empty
      | Inr (content, _) \<Rightarrow>
          (\<lambda>c. snd (snd (fold (apk_step [c]) (lines content) ([], [], Map.empty))) c))"

lemma apk_fold_pointwise:
  assumes "c \<in> set cs" "owned c = owned' c"
  shows "snd (snd (fold (apk_step cs) ls (p, d, owned))) c = snd (snd (fold (apk_step [c]) ls (p, d, owned'))) c"
  using assms(2)
proof (induction ls arbitrary: p d owned owned')
  case (Cons l ls)
  obtain p1 d1 o1 where s1: "apk_step cs l (p, d, owned) = (p1, d1, o1)" by (cases "apk_step cs l (p, d, owned)") auto
  obtain p2 d2 o2 where s2: "apk_step [c] l (p, d, owned') = (p2, d2, o2)" by (cases "apk_step [c] l (p, d, owned')") auto
  have "p1 = p2 \<and> d1 = d2 \<and> o1 c = o2 c"
    using s1 s2 Cons.prems assms(1)
    by (auto simp: apk_step_def record_owner_iff split: option.splits prod.splits if_splits)
  then show ?case using s1 s2 Cons.IH by simp
qed simp

lemma apk_fold_dom:
  "dom owned \<subseteq> set cs \<Longrightarrow> dom (snd (snd (fold (apk_step cs) ls (p, d, owned)))) \<subseteq> set cs"
proof (induction ls arbitrary: p d owned)
  case (Cons l ls)
  obtain p1 d1 o1 where s1: "apk_step cs l (p, d, owned) = (p1, d1, o1)" by (cases "apk_step cs l (p, d, owned)") auto
  then have "o1 = owned \<or> (\<exists>pkg path. o1 = record_owner cs pkg path owned)"
    by (auto simp: apk_step_def split: option.splits prod.splits if_splits)
  then have "dom o1 \<subseteq> set cs" using Cons.prems record_owner_dom [OF Cons.prems] by metis
  then show ?case using s1 Cons.IH by simp
qed simp

text \<open>A resolver is pointwise if, unless it is unavailable, it attributes each candidate on its own.\<close>

definition pointwise :: "('a fs_env_scheme) \<Rightarrow> owners \<Rightarrow> bool" where
  "pointwise env own =
     (\<forall>cs. case resolve_batch_uncached env cs of (source, m, _) \<Rightarrow>
        source \<noteq> ProvUnavailable \<longrightarrow> m = (\<lambda>c. if c \<in> set cs then own c else None))"

definition apk_host :: "('a fs_env_scheme) \<Rightarrow> bool" where
  "apk_host env = (\<not> is_dir env ''/var/lib/dpkg/info'' \<and> is_file env ''/lib/apk/db/installed'')"

lemma apk_pointwise:
  assumes "apk_host env"
  shows "pointwise env (apk_owner env)"
proof -
  have "m = (\<lambda>c. if c \<in> set cs then apk_owner env c else None)"
    if r: "resolve_batch_uncached env cs = (source, m, ns)" and s: "source \<noteq> ProvUnavailable" for cs source m ns
  proof (cases "cs = []")
    case True
    then show ?thesis using r assms by (auto simp: resolve_batch_uncached_def apk_host_def resolve_apk_def)
  next
    case False
    then obtain content t where c:
      "read_file_capped_regular (fe_open env ''/lib/apk/db/installed'') MAX_LIST_BYTES = Inr (content, t)"
      "m = snd (snd (fold (apk_step cs) (lines content) ([], [], Map.empty)))"
      using r s assms
      by (auto simp: resolve_batch_uncached_def apk_host_def resolve_apk_def unavailable_def
          split: sum.splits prod.splits)
    show ?thesis
    proof
      fix c
      show "m c = (if c \<in> set cs then apk_owner env c else None)"
        using c apk_fold_pointwise [of c cs Map.empty Map.empty "lines content" "[]" "[]"]
          apk_fold_dom [of Map.empty cs "lines content" "[]" "[]"]
        by (auto simp: apk_owner_def)
    qed
  qed
  then show ?thesis by (fastforce simp: pointwise_def split: prod.split)
qed

section \<open>Hosts with rpm\<close>

definition rpm_host :: "('a fs_env_scheme) \<Rightarrow> bool" where
  "rpm_host env = (\<not> is_dir env ''/var/lib/dpkg/info'' \<and> \<not> is_file env ''/lib/apk/db/installed'')"

definition rpm_owner :: "('a fs_env_scheme) \<Rightarrow> owners" where
  "rpm_owner env c = (case rpm_answer env c of Owned pkg \<Rightarrow> Some pkg | _ \<Rightarrow> None)"

lemma rpm_map:
  "map_of (List.map_filter (\<lambda>(p, a). case a of Owned pkg \<Rightarrow> Some (p, pkg) | _ \<Rightarrow> None)
      (map (\<lambda>p. (p, rpm_answer env p)) cs))
    = (\<lambda>c. if c \<in> set cs then rpm_owner env c else None)"
  by (induction cs) (auto simp: rpm_owner_def fun_eq_iff split: rpm_query_result.splits)

lemma rpm_pointwise: "rpm_host env \<Longrightarrow> pointwise env (rpm_owner env)"
  by (auto simp: pointwise_def resolve_batch_uncached_def rpm_host_def resolve_rpm_def unavailable_def
      rpm_map Let_def split: prod.splits if_splits)

section \<open>The memo\<close>

text \<open>The memo after a sequence of calls.\<close>

definition memo_after :: "('a fs_env_scheme) \<Rightarrow> string list list \<Rightarrow> prov_memo" where
  "memo_after env css = fold (\<lambda>cs m. snd (resolve_batch env cs m)) css empty_memo"

definition memo_ok :: "owners \<Rightarrow> prov_memo \<Rightarrow> bool" where
  "memo_ok own m =
     ((\<forall>c x. pm_known m c = Some x \<longrightarrow> x = own c)
      \<and> (pm_source m = None \<longrightarrow> pm_known m = Map.empty) \<and> pm_source m \<noteq> Some ProvUnavailable)"

lemma resolve_batch_ok:
  assumes "pointwise env own" "memo_ok own m" "resolve_batch env cs m = ((ix, out), m')"
  shows "memo_ok own m'"
    and "(\<forall>c \<in> set cs. px_map ix c = own c)
       \<or> fst (resolve_batch_uncached env (filter (\<lambda>c. pm_known m c = None) cs)) = ProvUnavailable"
proof -
  define missing where "missing = filter (\<lambda>c. pm_known m c = None) cs"
  obtain source fresh ns where f: "resolve_batch_uncached env missing = (source, fresh, ns)"
    by (cases "resolve_batch_uncached env missing") auto
  have served: "c \<in> set cs \<Longrightarrow> pm_known m c \<noteq> None \<Longrightarrow> Option.bind (pm_known m c) (\<lambda>x. x) = own c" for c
    using assms(2) by (auto simp: memo_ok_def)
  have fresh: "source \<noteq> ProvUnavailable \<Longrightarrow> fresh = (\<lambda>c. if c \<in> set missing then own c else None)"
    using assms(1) f unfolding pointwise_def by (elim allE [of _ missing]) simp
  have m': "m' = m \<or> source \<noteq> ProvUnavailable
      \<and> m' = \<lparr>pm_source = Some source, pm_known = (\<lambda>c. if c \<in> set missing then Some (fresh c) else pm_known m c)\<rparr>"
    using assms(3) f
    by (auto simp: resolve_batch_def missing_def [symmetric] Let_def split: list.splits option.splits if_splits)
  show "memo_ok own m'"
  proof (cases "m' = m")
    case False
    with m' have s: "source \<noteq> ProvUnavailable"
      and e: "m' = \<lparr>pm_source = Some source, pm_known = (\<lambda>c. if c \<in> set missing then Some (fresh c) else pm_known m c)\<rparr>"
      by auto
    show ?thesis using assms(2) s fresh [OF s] unfolding e memo_ok_def by simp
  qed (use assms(2) in simp)
  show "(\<forall>c \<in> set cs. px_map ix c = own c)
       \<or> fst (resolve_batch_uncached env (filter (\<lambda>c. pm_known m c = None) cs)) = ProvUnavailable"
  proof (cases "source = ProvUnavailable")
    case False
    have "px_map ix c = own c" if c: "c \<in> set cs" for c
    proof (cases "c \<in> set missing")
      case True
      then have "missing \<noteq> []" by auto
      moreover have "pm_known m c = None" using True by (simp add: missing_def)
      ultimately show ?thesis
        using assms(3) f fresh [OF False] True
        by (auto simp: resolve_batch_def missing_def [symmetric] Let_def map_add_def
            split: list.splits option.splits)
    next
      case miss: False
      then have "pm_known m c \<noteq> None" using c by (auto simp: missing_def)
      then show ?thesis
        using assms(3) f fresh [OF False] miss c served [OF c]
        by (auto simp: resolve_batch_def missing_def [symmetric] Let_def map_add_def
            split: list.splits option.splits)
    qed
    then show ?thesis by blast
  qed (use f in \<open>simp add: missing_def\<close>)
qed

lemma memo_after_ok: "pointwise env own \<Longrightarrow> memo_ok own (memo_after env css)"
proof (induction css rule: rev_induct)
  case (snoc cs css)
  obtain ix out m' where r: "resolve_batch env cs (memo_after env css) = ((ix, out), m')"
    by (cases "resolve_batch env cs (memo_after env css)") auto
  then have "memo_ok own m'" using resolve_batch_ok(1) [OF snoc.prems snoc.IH [OF snoc.prems] r] by simp
  then show ?case using r by (simp add: memo_after_def)
qed (simp add: memo_after_def memo_ok_def empty_memo_def)

text \<open>
  C27: the memo of package owners is transparent. On a host with \<open>apk\<close>, or with \<open>rpm\<close>, and whatever sets of
  files earlier scanners asked for, each file of a call gets the owner that the database gives it when it is
  asked for alone, cached or not, unless the database cannot answer the files that are left; the memo never
  mixes up the answers of different calls.
\<close>

theorem memo_transparent:
  assumes "apk_host env \<or> rpm_host env" "c \<in> set cs"
    "fst (resolve_batch_uncached env (filter (\<lambda>c. pm_known (memo_after env css) c = None) cs)) \<noteq> ProvUnavailable"
  shows "px_map (fst (fst (resolve_batch env cs (memo_after env css)))) c
     = (if apk_host env then apk_owner env c else rpm_owner env c)"
proof -
  define own where "own = (if apk_host env then apk_owner env else rpm_owner env)"
  have own: "pointwise env own"
    using assms(1) apk_pointwise rpm_pointwise by (auto simp: own_def)
  obtain ix out m' where r: "resolve_batch env cs (memo_after env css) = ((ix, out), m')"
    by (cases "resolve_batch env cs (memo_after env css)") auto
  from resolve_batch_ok(2) [OF own memo_after_ok [OF own] r] assms(2,3) have "px_map ix c = own c" by auto
  then show ?thesis using r by (simp add: own_def)
qed

text \<open>
  A query that \<open>rpm\<close> failed to answer is remembered as an answer. When another file of the same call is
  answered, a file whose query timed out is kept as one that no package owns, and no later scanner asks
  again, although the code says that an error is no answer and that failures are never cached.
\<close>

theorem failed_query_is_remembered:
  assumes "rpm_host env" "is_dir env ''/var/lib/rpm''" "fe_has_rpm env" "fe_rpm env p = None"
    "rpm_answer env q \<noteq> RpmError"
  shows "pm_known (memo_after env [[p, q]]) p = Some None
    \<and> px_map (fst (fst (resolve_batch env [p] (memo_after env [[p, q]])))) p = None"
proof -
  have pq: "p \<noteq> q" using assms(4,5) by (auto simp: rpm_answer_def)
  have p: "rpm_answer env p = RpmError" using assms(4) by (simp add: rpm_answer_def)
  have "\<exists>m ns. resolve_batch_uncached env [p, q] = (Rpm, m, ns) \<and> m p = None"
    using assms pq p
    by (cases "rpm_answer env q")
      (auto simp: resolve_batch_uncached_def rpm_host_def resolve_rpm_def Let_def)
  then obtain m ns where "resolve_batch_uncached env [p, q] = (Rpm, m, ns)" "m p = None" by blast
  then show ?thesis
    by (simp add: memo_after_def resolve_batch_def empty_memo_def Let_def)
qed

definition rpm_env :: fs_env where
  "rpm_env =
     \<lparr>fe_meta = (\<lambda>p. if p = ''/var/lib/rpm'' then Inr \<lparr>fs_mode = 0x1ED, fs_uid = 0, fs_gid = 0, fs_is_dir = True,
         fs_is_file = False\<rparr> else Inl NotFound),
      fe_open = (\<lambda>p. Inl NotFound), fe_dir = (\<lambda>p. Inl NotFound), fe_canon = (\<lambda>p. None),
      fe_link = (\<lambda>p. Inl NotFound), fe_proc = (\<lambda>p. Inl NotFound), fe_has_rpm = True,
      fe_rpm = (\<lambda>p. if p = ''/usr/bin/a'' then None else Some (''tool'' @ [CHR 0x0A], 0)), fe_is_root = True, fe_error_text = (\<lambda>e. [])\<rparr>"

lemma rpm_env_facts:
  "rpm_host rpm_env" "is_dir rpm_env ''/var/lib/rpm''" "fe_has_rpm rpm_env" "fe_rpm rpm_env ''/usr/bin/a'' = None"
  "rpm_answer rpm_env ''/usr/bin/b'' = Owned ''tool''" "\<not> apk_host rpm_env"
proof -
  show "rpm_host rpm_env" "is_dir rpm_env ''/var/lib/rpm''" "fe_has_rpm rpm_env" "\<not> apk_host rpm_env"
    "fe_rpm rpm_env ''/usr/bin/a'' = None"
    by (simp_all add: rpm_host_def apk_host_def is_dir_def is_file_def rpm_env_def)
  have "lines (''tool'' @ [CHR 0x0A]) = [''tool'']"
    using lines_file [of "[''tool'']"] by (simp add: line_text_def file_of_def)
  moreover have "trim ''tool'' = ''tool''" by (simp add: trim_visible visible_def)
  ultimately show "rpm_answer rpm_env ''/usr/bin/b'' = Owned ''tool''"
    by (simp add: rpm_answer_def rpm_env_def parse_rpm_qf_output_def)
qed

theorem failed_query_is_remembered_witness:
  "pm_known (memo_after rpm_env [[''/usr/bin/a'', ''/usr/bin/b'']]) ''/usr/bin/a'' = Some None"
  using failed_query_is_remembered [of rpm_env "''/usr/bin/a''" "''/usr/bin/b''"] rpm_env_facts by simp

theorem memo_transparent_witness:
  "px_map (fst (fst (resolve_batch rpm_env [''/usr/bin/b''] (memo_after rpm_env [[''/usr/bin/b'']])))) ''/usr/bin/b''
     = Some ''tool''"
proof -
  have q: "resolve_batch_uncached rpm_env [] = (Rpm, Map.empty, [])"
    using rpm_env_facts by (simp add: resolve_batch_uncached_def rpm_host_def resolve_rpm_def)
  have "\<exists>m n. resolve_batch_uncached rpm_env [''/usr/bin/b''] = (Rpm, m, n)"
    using rpm_env_facts
    by (auto simp: resolve_batch_uncached_def rpm_host_def resolve_rpm_def Let_def)
  then have "filter (\<lambda>c. pm_known (memo_after rpm_env [[''/usr/bin/b'']]) c = None) [''/usr/bin/b''] = []"
    by (auto simp: memo_after_def resolve_batch_def empty_memo_def Let_def)
  then show ?thesis
    using memo_transparent [of rpm_env "''/usr/bin/b''" "[''/usr/bin/b'']" "[[''/usr/bin/b'']]"] rpm_env_facts q
    by (simp add: rpm_owner_def)
qed

end
