(* ===== verification/ExecStart.thy ===== *)
theory ExecStart
  imports Provenance
begin

text \<open>
  \<open>scanners/exec_provenance.rs\<close> (SEC-043, SEC-045 to SEC-048): what systemd units and cron lines execute,
  who may replace it, and which package it belongs to.
\<close>

section \<open>Units\<close>

definition unit_path_is_vendor_dir :: "string \<Rightarrow> bool" where
  "unit_path_is_vendor_dir path =
     (starts_with (canon_path path) ''/usr/lib/systemd/system/''
      \<or> starts_with (canon_path path) ''/usr/lib/systemd/user/'')"

datatype unit_scope = SystemScope | UserManager bool

definition SYSTEM_UNIT_DIRS :: "string list" where
  "SYSTEM_UNIT_DIRS =
     [''/etc/systemd/system'', ''/run/systemd/system'', ''/usr/lib/systemd/system'',
      ''/usr/local/lib/systemd/system'']"

definition USER_UNIT_DIRS :: "string list" where
  "USER_UNIT_DIRS = [''/etc/systemd/user'', ''/run/systemd/user'', ''/usr/lib/systemd/user'']"

definition EXEC_DIRECTIVES :: "string list" where
  "EXEC_DIRECTIVES =
     [''ExecStart'', ''ExecStartPre'', ''ExecStartPost'', ''ExecReload'', ''ExecStop'', ''ExecStopPost'',
      ''ExecCondition'']"

text \<open>Absolute paths are equal if their components are.\<close>

definition is_masked_symlink :: "('a fs_env_scheme) \<Rightarrow> string \<Rightarrow> bool" where
  "is_masked_symlink env path =
     (case fe_link env path of Inl _ \<Rightarrow> False
      | Inr target \<Rightarrow>
          starts_with target ''/'' \<and> filter (\<lambda>c. c \<noteq> ''.'') (components_of target) = [''dev'', ''null''])"

definition split_directive :: "string \<Rightarrow> (string \<times> string) option" where
  "split_directive line =
     (case split_once (CHR ''='') line of None \<Rightarrow> None | Some (k, v) \<Rightarrow> Some (trim_end k, trim_start v))"

text \<open>\<open>trim_matches\<close> with a set of one-byte characters.\<close>

definition trim_matches :: "char set \<Rightarrow> string \<Rightarrow> string" where
  "trim_matches cs s = rev (dropWhile (\<lambda>c. c \<in> cs) (rev (dropWhile (\<lambda>c. c \<in> cs) s)))"

definition user_value :: "string \<Rightarrow> string option" where
  "user_value l =
     (case split_directive (trim l) of Some (k, v) \<Rightarrow> if k = ''User'' then Some v else None | None \<Rightarrow> None)"

definition is_root_name :: "string \<Rightarrow> bool" where
  "is_root_name v = (let u = trim_matches {CHR 0x22} (trim v) in u = [] \<or> u = ''root'' \<or> u = ''0'')"

definition unit_runs_as_root :: "string \<Rightarrow> bool" where
  "unit_runs_as_root content =
     (let us = List.map_filter user_value (lines content) in us = [] \<or> is_root_name (last us))"

text \<open>The executable named by one line of a unit, if it is an absolute path.\<close>

definition exec_target_of_line :: "string \<Rightarrow> string option" where
  "exec_target_of_line line =
     (let trimmed = trim line in
      if trimmed = [] \<or> starts_with trimmed ''#'' \<or> starts_with trimmed ''['' then None
      else (case split_directive trimmed of
        None \<Rightarrow> None
      | Some (key, rest) \<Rightarrow>
          if key \<notin> set EXEC_DIRECTIVES then None
          else (case split_whitespace (trim_start (dropWhile (\<lambda>c. c \<in> set ''-@+!:'') rest)) of
            [] \<Rightarrow> None
          | raw # _ \<Rightarrow>
              (let first_token = trim_matches {CHR 0x22, CHR 0x27} raw in
               if first_token = [] \<or> \<not> starts_with first_token ''/'' then None else Some first_token))))"

definition resolved_volatile :: "('a fs_env_scheme) \<Rightarrow> string \<Rightarrow> bool" where
  "resolved_volatile env path =
     is_volatile_exec_path (case fe_canon env path of None \<Rightarrow> path | Some p \<Rightarrow> p)"

definition exec_finding ::
  "('a fs_env_scheme) \<Rightarrow> string \<Rightarrow> string \<Rightarrow> string \<Rightarrow> string \<Rightarrow> bool \<Rightarrow> exec_start_finding" where
  "exec_finding env source unit_name unit_path target as_root =
     \<lparr>esf_source = source, esf_unit_name = unit_name, esf_unit_path = unit_path, esf_unit_package = None,
      esf_exec_path = target, esf_volatile = resolved_volatile env target,
      esf_writability = assess_writability env target, esf_package = None, esf_runs_as_root = as_root\<rparr>"

definition scope_runs_as_root :: "unit_scope \<Rightarrow> string \<Rightarrow> bool" where
  "scope_runs_as_root scope content =
     (case scope of SystemScope \<Rightarrow> unit_runs_as_root content | UserManager owner_is_root \<Rightarrow> owner_is_root)"

text \<open>\<open>scan_service_file\<close>: the entries of one unit or drop-in and the notes.\<close>

definition scan_service_file ::
  "('a fs_env_scheme) \<Rightarrow> unit_scope \<Rightarrow> string \<Rightarrow> string \<Rightarrow> exec_start_finding list \<times> string list" where
  "scan_service_file env scope path name =
     (if is_masked_symlink env path then ([], [])
      else (case read_file_capped_regular (fe_open env path) (64 * 1024) of
        Inl e \<Rightarrow> ([], [path @ '' unreadable ('' @ fe_error_text env e @ ''); ExecStart NOT parsed''])
      | Inr (content, truncated) \<Rightarrow>
          (map (\<lambda>t. exec_finding env (''systemd:'' @ name) name path t (scope_runs_as_root scope content))
             (List.map_filter exec_target_of_line (lines content)),
           if truncated then [path @ '' truncated''] else [])))"

definition has_extension :: "string list \<Rightarrow> string \<Rightarrow> bool" where
  "has_extension exts name =
     (case split_extension name of None \<Rightarrow> False | Some (_, e) \<Rightarrow> e \<in> set exts)"

definition dir_names :: "('a fs_env_scheme) \<Rightarrow> string \<Rightarrow> string option list" where
  "dir_names env dir = (case fe_dir env dir of Inl _ \<Rightarrow> [] | Inr names \<Rightarrow> names)"

definition append_results :: "('b list \<times> string list) list \<Rightarrow> 'b list \<times> string list" where
  "append_results rs = (concat (map fst rs), concat (map snd rs))"

text \<open>Entries whose name is not UTF-8 are left out; the code notes those that are units.\<close>

definition scan_unit_entry ::
  "('a fs_env_scheme) \<Rightarrow> unit_scope \<Rightarrow> string \<Rightarrow> string option \<Rightarrow> exec_start_finding list \<times> string list" where
  "scan_unit_entry env scope dir entry =
     (case entry of None \<Rightarrow> ([], [])
      | Some name \<Rightarrow>
          (let path = dir @ ''/'' @ name in
           if has_extension [''service'', ''socket''] name then scan_service_file env scope path name
           else if has_extension [''d''] name then
             append_results (map (\<lambda>d. case d of None \<Rightarrow> ([], [])
                | Some n \<Rightarrow> if has_extension [''conf''] n
                            then scan_service_file env scope (path @ ''/'' @ n) n else ([], []))
               (dir_names env path))
           else ([], [])))"

definition scan_unit_dir ::
  "('a fs_env_scheme) \<Rightarrow> unit_scope \<Rightarrow> string \<Rightarrow> exec_start_finding list \<times> string list" where
  "scan_unit_dir env scope dir = append_results (map (scan_unit_entry env scope dir) (dir_names env dir))"

section \<open>Cron\<close>

definition CRON_SHORTHANDS :: "string list" where
  "CRON_SHORTHANDS =
     [''reboot'', ''yearly'', ''annually'', ''monthly'', ''weekly'', ''daily'', ''midnight'', ''hourly'']"

definition cron_d_is_active :: "string \<Rightarrow> bool" where
  "cron_d_is_active name =
     (name \<noteq> [] \<and> list_all (\<lambda>b. is_ascii_alphanumeric b \<or> b = CHR ''_'' \<or> b = CHR ''-'') name)"

definition nth_word :: "string list \<Rightarrow> nat \<Rightarrow> string option" where
  "nth_word ws i = (if i < length ws then Some (ws ! i) else None)"

text \<open>The command of a cron line and whether root runs it.\<close>

definition cron_command :: "string \<Rightarrow> (string \<times> bool) option" where
  "cron_command line =
     (let trimmed = trim line in
      if trimmed = [] \<or> starts_with trimmed ''#'' then None
      else
        (let parts = split_whitespace trimmed in
         case parts of
           [] \<Rightarrow> None
         | first # _ \<Rightarrow>
             if CHR ''='' \<in> set first then None
             else
               (case (case strip_prefix ''@'' first of
                        Some tag \<Rightarrow> if tag \<notin> set CRON_SHORTHANDS then None else Some (2, 1)
                      | None \<Rightarrow> Some (6, 5)) of
                  None \<Rightarrow> None
                | Some (cmd_idx, user_idx) \<Rightarrow>
                    (case nth_word parts cmd_idx of
                       None \<Rightarrow> None
                     | Some tok \<Rightarrow>
                         if \<not> starts_with tok ''/'' then None
                         else Some (tok, (case nth_word parts user_idx of None \<Rightarrow> True
                                          | Some u \<Rightarrow> u = ''root'' \<or> u = ''0''))))))"

definition check_cron_line ::
  "('a fs_env_scheme) \<Rightarrow> string \<Rightarrow> string \<Rightarrow> string \<Rightarrow> exec_start_finding list" where
  "check_cron_line env source unit_path line =
     (case cron_command line of
        None \<Rightarrow> []
      | Some (target, as_root) \<Rightarrow> [exec_finding env source source unit_path target as_root])"

definition scan_cron_file ::
  "('a fs_env_scheme) \<Rightarrow> string \<Rightarrow> string \<Rightarrow> exec_start_finding list" where
  "scan_cron_file env source path =
     (case read_file_capped_regular (fe_open env path) (64 * 1024) of
        Inl _ \<Rightarrow> []
      | Inr (content, _) \<Rightarrow> concat (map (check_cron_line env source path) (lines content)))"

definition scan_cron_entry :: "('a fs_env_scheme) \<Rightarrow> string option \<Rightarrow> exec_start_finding list \<times> string list" where
  "scan_cron_entry env entry =
     (case entry of None \<Rightarrow> ([], [])
      | Some name \<Rightarrow>
          (let path = ''/etc/cron.d/'' @ name in
           if is_masked_symlink env path then ([], [])
           else if \<not> cron_d_is_active name then
             ([], [path @ '' skipped: name outside [A-Za-z0-9_-] '' @ em_dash
                   @ '' cron does not execute it (backup/save file)''])
           else (scan_cron_file env (''cron.d:'' @ name) path, [])))"

definition scan_cron_files :: "('a fs_env_scheme) \<Rightarrow> exec_start_finding list \<times> string list" where
  "scan_cron_files env =
     append_results
       ((if is_masked_symlink env ''/etc/crontab'' then ([], [])
         else (scan_cron_file env ''cron:/etc/crontab'' ''/etc/crontab'', []))
        # map (scan_cron_entry env) (dir_names env ''/etc/cron.d''))"

section \<open>The whole scan\<close>

definition MAX_EXEC_FINDINGS :: nat where "MAX_EXEC_FINDINGS = 2048"

definition home_unit_dirs :: "('a fs_env_scheme) \<Rightarrow> string list" where
  "home_unit_dirs env =
     filter (is_dir env)
       (concat (map (\<lambda>h. map (\<lambda>u. h @ ''/'' @ u @ ''/.config/systemd/user'')
          (List.map_filter (\<lambda>n. n) (dir_names env h))) [''/home'', ''/var/home'']))"

text \<open>All entries in the order they are pushed, and the notes.\<close>

definition exec_entries :: "('a fs_env_scheme) \<Rightarrow> exec_start_finding list \<times> string list" where
  "exec_entries env =
     append_results
       (map (scan_unit_dir env SystemScope) SYSTEM_UNIT_DIRS
        @ map (scan_unit_dir env (UserManager False)) (USER_UNIT_DIRS @ home_unit_dirs env)
        @ (if is_dir env ''/root/.config/systemd/user''
           then [scan_unit_dir env (UserManager True) ''/root/.config/systemd/user''] else [])
        @ [scan_cron_files env])"

definition with_packages :: "bool \<Rightarrow> provenance_index \<Rightarrow> exec_start_finding \<Rightarrow> exec_start_finding" where
  "with_packages deep ix f =
     f\<lparr>esf_package := (if deep then lookup_owner ix (canon_path (esf_exec_path f)) else esf_package f),
       esf_unit_package := (if esf_unit_path f \<noteq> [] then lookup_owner ix (canon_path (esf_unit_path f))
                            else esf_unit_package f)\<rparr>"

definition exec_candidates :: "bool \<Rightarrow> exec_start_finding list \<Rightarrow> string list" where
  "exec_candidates deep fs =
     remdups ((if deep then map (\<lambda>f. canon_path (esf_exec_path f)) fs else [])
       @ map (\<lambda>f. canon_path (esf_unit_path f))
           (filter (\<lambda>f. esf_unit_path f \<noteq> [] \<and> \<not> unit_path_is_vendor_dir (esf_unit_path f)) fs))"

definition scan_exec_provenance ::
  "('a fs_env_scheme) \<Rightarrow> bool \<Rightarrow> prov_memo \<Rightarrow> (exec_start_finding list \<times> string list) \<times> prov_memo" where
  "scan_exec_provenance env deep memo =
     (case exec_entries env of (all, notes) \<Rightarrow>
        (let kept = take MAX_EXEC_FINDINGS all; cs = exec_candidates deep kept;
             cap = (if MAX_EXEC_FINDINGS < length all then
                      [''exec_provenance: finding cap ('' @ show_nat MAX_EXEC_FINDINGS @ '') reached; ''
                       @ show_nat (length all - MAX_EXEC_FINDINGS) @ '' more Exec* entr(ies) NOT inspected''] else [])
         in if cs = [] then ((kept, notes @ cap), memo)
            else (case resolve_batch env cs memo of ((ix, ns), memo') \<Rightarrow>
                    ((map (with_packages deep ix) kept, notes @ ns @ cap), memo'))))"

end
