(* ===== verification/ExecStartLaws.thy ===== *)
theory ExecStartLaws
  imports ExecStart ScanText
begin

text \<open>
  Units written directive by directive are read back: every executable is found and the identity is that of
  the last \<open>User=\<close>. What systemd would also execute and the scan does not see.
\<close>

section \<open>Units written line by line\<close>

text \<open>
  The lines of a unit file: headers of sections, comments, blank lines, \<open>User=\<close>, the \<open>Exec\<close> directives with
  their prefixes, executable and arguments (with gaps of any width), and any other directive.
\<close>

datatype unit_line =
    SectionLine string
  | CommentLine char string
  | BlankLine string
  | UserLine string
  | ExecLine string string string "string list" "string list"
  | OtherLine string string

fun unit_text :: "unit_line \<Rightarrow> string" where
  "unit_text (SectionLine name) = CHR ''['' # name @ '']''"
| "unit_text (CommentLine c t) = c # t"
| "unit_text (BlankLine b) = b"
| "unit_text (UserLine u) = ''User='' @ u"
| "unit_text (ExecLine key pre path gaps args) = key @ CHR ''='' # pre @ table_row ([] # gaps) (path # args) []"
| "unit_text (OtherLine key v) = key @ CHR ''='' # v"

definition word_ok :: "string \<Rightarrow> bool" where
  "word_ok w = (w \<noteq> [] \<and> list_all visible w)"

text \<open>
  The executable is an absolute path that is not quoted, no line is continued on the next, and no argument
  is the semicolon that begins a second command.
\<close>

fun unit_line_ok :: "unit_line \<Rightarrow> bool" where
  "unit_line_ok (SectionLine name) = (CHR 0x0A \<notin> set name)"
| "unit_line_ok (CommentLine c t) = (c \<in> {CHR ''#'', CHR '';''} \<and> line_text t)"
| "unit_line_ok (BlankLine b) = list_all blank_char b"
| "unit_line_ok (UserLine u) = (word_ok u \<and> CHR 0x22 \<notin> set u \<and> last u \<noteq> CHR 0x5C)"
| "unit_line_ok (ExecLine key pre path gaps args) =
     (key \<in> set EXEC_DIRECTIVES \<and> set pre \<subseteq> set ''-@+!:'' \<and> word_ok path \<and> hd path = CHR ''/''
      \<and> last path \<notin> {CHR 0x22, CHR 0x27} \<and> list_all word_ok args \<and> gaps_ok ([] # gaps) [] (path # args)
      \<and> '';'' \<notin> set args \<and> last (last (path # args)) \<noteq> CHR 0x5C)"
| "unit_line_ok (OtherLine key v) =
     (word_ok key \<and> CHR ''='' \<notin> set key \<and> hd key \<notin> set ''#;['' \<and> key \<noteq> ''User'' \<and> key \<notin> set EXEC_DIRECTIVES
      \<and> line_text v \<and> (v \<noteq> [] \<longrightarrow> last v \<noteq> CHR 0x5C))"

fun unit_exec :: "unit_line \<Rightarrow> string option" where
  "unit_exec (ExecLine key pre path gaps args) = Some path"
| "unit_exec _ = None"

fun unit_user :: "unit_line \<Rightarrow> string option" where
  "unit_user (UserLine u) = Some u"
| "unit_user _ = None"

lemma exec_keys:
  "key \<in> set EXEC_DIRECTIVES \<Longrightarrow> word_ok key \<and> CHR ''='' \<notin> set key \<and> hd key \<notin> set ''#['' \<and> key \<noteq> ''User''"
  by (auto simp: EXEC_DIRECTIVES_def word_ok_def visible_def)

lemma word_ok_plain: "list_all word_ok ws \<Longrightarrow> list_all plain_word ws"
  by (simp add: word_ok_def plain_word_def list_all_iff)

lemma row_last:
  "gaps_ok gaps [] ws \<Longrightarrow> ws \<noteq> [] \<Longrightarrow> last ws \<noteq> [] \<Longrightarrow>
     table_row gaps ws [] \<noteq> [] \<and> last (table_row gaps ws []) = last (last ws)"
proof (induction ws arbitrary: gaps)
  case (Cons w ws)
  then obtain g gs where gaps: "gaps = g # gs" by (cases gaps) (auto simp: gaps_ok_def)
  show ?case
  proof (cases ws)
    case (Cons v vs)
    have "gaps_ok gs [] ws" using Cons.prems(1) by (cases gs) (auto simp: gaps gaps_ok_def Cons)
    then have "table_row gs ws [] \<noteq> [] \<and> last (table_row gs ws []) = last (last ws)"
      using Cons.IH Cons.prems(3) Cons by simp
    then show ?thesis using gaps Cons by simp
  qed (use Cons.prems gaps in simp)
qed simp

lemma exec_line_shape:
  assumes "unit_line_ok (ExecLine key pre path gaps args)"
  defines "t \<equiv> unit_text (ExecLine key pre path gaps args)"
  shows "t \<noteq> []" "visible (hd t)" "visible (last t)" "hd t \<notin> set ''#[''" "line_text t"
proof -
  have k: "word_ok key" "hd key \<notin> set ''#[''" using assms(1) exec_keys by auto
  have ws: "list_all word_ok (path # args)" and g: "gaps_ok ([] # gaps) [] (path # args)" using assms(1) by simp_all
  show "t \<noteq> []" by (simp add: t_def)
  show "visible (hd t)" "hd t \<notin> set ''#[''" using k by (auto simp: t_def word_ok_def list_all_iff hd_append)
  have w: "word_ok (last (path # args))" using ws by (simp add: list_all_iff)
  then have j: "table_row ([] # gaps) (path # args) [] \<noteq> []"
    "last (table_row ([] # gaps) (path # args) []) = last (last (path # args))"
    using row_last [OF g] by (auto simp: word_ok_def)
  then have "last t = last (last (path # args))" by (simp add: t_def del: table_row.simps)
  then show v: "visible (last t)"
    using w by (simp add: word_ok_def list_all_iff)
  have nv: "\<not> visible (CHR 0x0A)" "\<not> visible (CHR 0x0D)" by (simp_all add: visible_def)
  have "CHR 0x0A \<notin> set (table_row ([] # gaps) (path # args) [])"
    using row_line [OF word_ok_plain [OF ws] g] by (simp add: line_text_def)
  then have "CHR 0x0A \<notin> set t"
    using k(1) assms(1) nv by (auto simp: t_def word_ok_def list_all_iff simp del: table_row.simps)
  then show "line_text t" using v nv unfolding line_text_def by metis
qed

lemma trim_matches_id: "s \<noteq> [] \<Longrightarrow> hd s \<notin> cs \<Longrightarrow> last s \<notin> cs \<Longrightarrow> trim_matches cs s = s"
proof -
  assume "s \<noteq> []" "hd s \<notin> cs" "last s \<notin> cs"
  then have "dropWhile (\<lambda>c. c \<in> cs) s = s" "dropWhile (\<lambda>c. c \<in> cs) (rev s) = rev s"
    by (cases s, auto) (cases s rule: rev_cases, auto)
  then show ?thesis by (simp add: trim_matches_def)
qed

lemma trim_start_word: "word_ok w \<Longrightarrow> trim_start (w @ s) = w @ s"
  by (cases w) (auto simp: word_ok_def intro!: trim_start_visible)

lemma trim_end_word_ok: "word_ok w \<Longrightarrow> trim_end w = w"
proof -
  assume w: "word_ok w"
  then have "visible (hd (rev w))" "rev w \<noteq> []" by (auto simp: word_ok_def list_all_iff hd_rev)
  then have "trim_by (map rev white_space) (rev w) = rev w"
    using trim_by_visible [OF visible_no_space(2)] by blast
  then show ?thesis by (simp add: trim_end_def)
qed

lemma exec_line_split:
  assumes "unit_line_ok (ExecLine key pre path gaps args)"
  shows "split_directive (unit_text (ExecLine key pre path gaps args))
    = Some (key, pre @ table_row ([] # gaps) (path # args) [])"
proof -
  have k: "word_ok key" "CHR ''='' \<notin> set key" using assms exec_keys by auto
  have p: "list_all visible pre" using assms by (auto simp: list_all_iff visible_def)
  have slash: "visible (CHR ''/'')" by (simp add: visible_def)
  have "trim_start (pre @ table_row ([] # gaps) (path # args) []) = pre @ table_row ([] # gaps) (path # args) []"
    using assms p slash by (cases pre) (auto simp: word_ok_def hd_append intro!: trim_start_visible)
  then show ?thesis using k by (simp add: split_directive_def split_once_append trim_end_word_ok del: table_row.simps)
qed

text \<open>Trimming stops at a visible character.\<close>

lemma space_invisible: "w \<in> set white_space \<Longrightarrow> c \<in> set w \<Longrightarrow> \<not> visible c"
proof -
  have "list_all (list_all (\<lambda>c. \<not> visible c)) white_space"
    by (simp add: white_space_literals visible_def)
  then show "w \<in> set white_space \<Longrightarrow> c \<in> set w \<Longrightarrow> \<not> visible c" by (auto simp: list_all_iff)
qed

lemma strip_one_keeps:
  assumes "strip_one ws (x @ c # y) = Some r" "\<And>w. w \<in> set ws \<Longrightarrow> c \<notin> set w"
  shows "\<exists>x'. r = x' @ c # y"
proof -
  obtain w where w: "w \<in> set ws" "x @ c # y = w @ r"
    using assms by (induction ws "x @ c # y" rule: strip_one.induct)
      (auto simp: strip_prefix_Some_iff split: option.splits)
  then obtain u where "x = w @ u \<and> r = u @ c # y \<or> w = x @ c # u"
    by (auto simp: append_eq_append_conv2 append_eq_Cons_conv Cons_eq_append_conv)
  then show ?thesis using assms(2) [OF w(1)] by auto
qed

lemma trim_by_keeps:
  "(\<And>w. w \<in> set ws \<Longrightarrow> c \<notin> set w) \<Longrightarrow> \<exists>x'. trim_by ws (x @ c # y) = x' @ c # y"
proof (induction "length x" arbitrary: x rule: less_induct)
  case less
  show ?case
  proof (cases "strip_one (filter (\<lambda>w. w \<noteq> []) ws) (x @ c # y)")
    case None
    then show ?thesis by (simp add: trim_by.simps [of ws "x @ c # y"])
  next
    case (Some r)
    then obtain x' where r: "r = x' @ c # y" using strip_one_keeps less.prems by fastforce
    have "length r < length (x @ c # y)" using Some by (rule strip_one_shorter) auto
    then have "\<exists>x''. trim_by ws (x' @ c # y) = x'' @ c # y" using less r by simp
    then show ?thesis using Some r by (simp add: trim_by.simps [of ws "x @ c # y"])
  qed
qed

lemma trim_keeps:
  assumes "visible c" "a = [] \<or> visible (hd a)"
  shows "\<exists>b'. trim (a @ c # b) = a @ c # b'"
proof -
  have start: "trim_by white_space (a @ c # b) = a @ c # b"
    using assms by (intro trim_by_visible [OF visible_no_space(1)]) (auto simp: hd_append)
  have "c \<notin> set w" if "w \<in> set (map rev white_space)" for w
    using that space_invisible assms(1) by auto
  from trim_by_keeps [OF this, of "map rev white_space" "rev b" "rev a"]
  obtain x' where "trim_by (map rev white_space) (rev b @ c # rev a) = x' @ c # rev a" by auto
  then have "trim (a @ c # b) = a @ c # rev x'" by (simp add: trim_def start)
  then show ?thesis by blast
qed

lemma strip_one_suffix: "strip_one ws s = Some r \<Longrightarrow> \<exists>w. s = w @ r"
  by (induction ws s rule: strip_one.induct) (auto simp: strip_prefix_Some_iff split: option.splits)

lemma trim_by_suffix: "\<exists>p. s = p @ trim_by ws s"
proof (induction ws s rule: trim_by.induct)
  case (1 ws s)
  show ?case
  proof (cases "strip_one (filter (\<lambda>w. w \<noteq> []) ws) s")
    case (Some r)
    then obtain w where "s = w @ r" using strip_one_suffix by blast
    moreover obtain p where "r = p @ trim_by ws r" using 1 Some by blast
    moreover have "trim_by ws s = trim_by ws r" using Some by (simp add: trim_by.simps [of ws s])
    ultimately show ?thesis by (metis append_assoc)
  qed (simp add: trim_by.simps [of ws s])
qed

lemma trim_end_prefix: "\<exists>q. s = trim_end s @ q"
  using trim_by_suffix [of "rev s" "map rev white_space"] by (metis rev_append rev_rev_ident trim_end_def)

lemma directive_head:
  assumes "split_directive (c # s) = Some (k, v)"
  shows "k = [] \<or> hd k = c"
proof -
  obtain a b where ab: "split_once (CHR ''='') (c # s) = Some (a, b)" "k = trim_end a"
    using assms by (auto simp: split_directive_def split: option.splits prod.splits)
  then have "c # s = a @ CHR ''='' # b" using split_once_Some by blast
  then consider "a = []" | x where "a = c # x" by (cases a) auto
  then show ?thesis
  proof cases
    case 1
    then show ?thesis using ab by (simp add: trim_end_def)
  next
    case 2
    obtain q where "a = k @ q" using trim_end_prefix ab(2) by blast
    with 2 show ?thesis by (cases k) auto
  qed
qed

text \<open>Lines that are no directive of interest: what they begin with, or their key, says so.\<close>

lemma other_key:
  assumes "unit_line_ok (OtherLine key v)"
  shows "\<exists>v'. split_directive (trim (unit_text (OtherLine key v))) = Some (key, v')"
proof -
  have k: "word_ok key" "CHR ''='' \<notin> set key" using assms by simp_all
  have "visible (CHR ''='')" by (simp add: visible_def)
  moreover have "key = [] \<or> visible (hd key)" using k(1) by (auto simp: word_ok_def list_all_iff)
  ultimately obtain v' where "trim (key @ CHR ''='' # v) = key @ CHR ''='' # v'" using trim_keeps by blast
  then show ?thesis using k by (simp add: split_directive_def split_once_append trim_end_word_ok)
qed

lemma trim_head: "visible c \<Longrightarrow> \<exists>t'. trim (c # t) = c # t'"
  using trim_keeps [of c "[]" t] by simp

lemma blank_trim: "list_all blank_char b \<Longrightarrow> trim b = []"
  by (induction b) (simp_all add: trim_blank blank_char_def)

lemma exec_target_of_exec_line:
  assumes ok: "unit_line_ok (ExecLine key pre path gaps args)"
  shows "exec_target_of_line (unit_text (ExecLine key pre path gaps args)) = Some path"
proof -
  let ?l = "ExecLine key pre path gaps args"
  note shape = exec_line_shape [OF ok]
  let ?rest = "table_row ([] # gaps) (path # args) []"
  have t: "trim (unit_text ?l) = unit_text ?l" using shape by (simp add: trim_visible)
  have words: "list_all plain_word (path # args)" using ok by (intro word_ok_plain) simp
  have slash: "\<exists>r. path = CHR ''/'' # r" using ok by (cases path) (auto simp: word_ok_def)
  then have rest: "hd ?rest = CHR ''/''" "?rest \<noteq> []" by auto
  then have "dropWhile (\<lambda>c. c \<in> set ''-@+!:'') (pre @ ?rest) = ?rest"
    using ok by (subst dropWhile_append2) (auto simp: dropWhile_eq_self_iff simp del: table_row.simps)
  moreover have "trim_start ?rest = ?rest"
    using rest(1) by (intro trim_start_visible) (simp add: visible_def del: table_row.simps)
  moreover have "split_whitespace ?rest = path # args" using ok by (intro split_row [OF words]) simp
  moreover have "trim_matches {CHR 0x22, CHR 0x27} path = path"
    using ok by (intro trim_matches_id) (auto simp: word_ok_def)
  moreover have "\<not> starts_with (unit_text ?l) ''#''" "\<not> starts_with (unit_text ?l) ''[''"
    using shape(1,4) by (auto simp: starts_with_iff)
  ultimately show ?thesis
    using t shape(1) exec_line_split [OF ok] ok slash
    by (auto simp: exec_target_of_line_def Let_def simp del: table_row.simps unit_text.simps)
qed

lemma user_line:
  assumes "unit_line_ok (UserLine u)"
  shows "trim (unit_text (UserLine u)) = unit_text (UserLine u)"
    "split_directive (unit_text (UserLine u)) = Some (''User'', u)"
proof -
  have "visible (hd (unit_text (UserLine u)))" "visible (last (unit_text (UserLine u)))" "unit_text (UserLine u) \<noteq> []"
    using assms by (auto simp: word_ok_def list_all_iff visible_def)
  then show "trim (unit_text (UserLine u)) = unit_text (UserLine u)" by (simp add: trim_visible)
  show "split_directive (unit_text (UserLine u)) = Some (''User'', u)"
    using assms trim_start_word [of u "[]"] trim_end_word_ok [of "''User''"] split_once_append [of "CHR ''=''" "''User''" u]
    by (simp add: split_directive_def word_ok_def visible_def)
qed

lemma exec_target_of_unit_line: "unit_line_ok l \<Longrightarrow> exec_target_of_line (unit_text l) = unit_exec l"
proof (cases l)
  case (ExecLine key pre path gaps args)
  assume "unit_line_ok l"
  then show ?thesis using exec_target_of_exec_line ExecLine by simp
next
  case (UserLine u)
  assume "unit_line_ok l"
  then show ?thesis using user_line [of u] UserLine by (simp add: exec_target_of_line_def EXEC_DIRECTIVES_def)
next
  case (CommentLine c t)
  assume ok: "unit_line_ok l"
  have keys: "key \<in> set EXEC_DIRECTIVES \<Longrightarrow> hd key \<noteq> CHR '';'' \<and> key \<noteq> []" for key
    by (auto simp: EXEC_DIRECTIVES_def)
  have c: "c = CHR ''#'' \<or> c = CHR '';''" "visible c" using ok CommentLine by (auto simp: visible_def)
  obtain t' where t': "trim (unit_text l) = c # t'" using trim_head [OF c(2)] CommentLine by auto
  have "k \<notin> set EXEC_DIRECTIVES" if "split_directive (CHR '';'' # t') = Some (k, v)" for k v
    using directive_head [OF that] keys [of k] by auto
  then show ?thesis using t' c(1) CommentLine by (auto simp: exec_target_of_line_def split: option.splits)
next
  case (OtherLine key v)
  assume ok: "unit_line_ok l"
  obtain v' where "split_directive (trim (unit_text l)) = Some (key, v')" using other_key ok OtherLine by blast
  then show ?thesis using ok OtherLine by (simp add: exec_target_of_line_def Let_def)
next
  case (SectionLine name)
  have "visible (CHR ''['')" by (simp add: visible_def)
  then obtain t' where "trim (unit_text l) = CHR ''['' # t'" using trim_head SectionLine by auto
  then show ?thesis using SectionLine by (simp add: exec_target_of_line_def)
next
  case (BlankLine b)
  assume "unit_line_ok l"
  then have "trim (unit_text l) = []" using blank_trim BlankLine by simp
  then show ?thesis using BlankLine by (simp add: exec_target_of_line_def)
qed

lemma user_value_unit_line: "unit_line_ok l \<Longrightarrow> user_value (unit_text l) = unit_user l"
proof -
  have head: "k \<noteq> ''User''" if d: "split_directive (trim (c # t)) = Some (k, v)" and c: "visible c" "c \<noteq> CHR ''U''" for c t k v
  proof -
    obtain t' where "trim (c # t) = c # t'" using trim_head [OF c(1)] by blast
    with d have "k = [] \<or> hd k = c" using directive_head by simp
    then show ?thesis using c(2) by auto
  qed
  assume ok: "unit_line_ok l"
  show ?thesis
  proof (cases l)
    case (ExecLine key pre path gaps args)
    have "trim (unit_text l) = unit_text l" using exec_line_shape [OF ok [unfolded ExecLine]] ExecLine by (simp add: trim_visible)
    then show ?thesis
      using exec_line_split [OF ok [unfolded ExecLine]] exec_keys [of key] ok ExecLine
      by (simp add: user_value_def del: table_row.simps unit_text.simps)
  next
    case (UserLine u)
    then show ?thesis using user_line [of u] ok by (simp add: user_value_def)
  next
    case (CommentLine c t)
    then have "visible c" "c \<noteq> CHR ''U''" using ok by (auto simp: visible_def)
    then show ?thesis using head [of c t] CommentLine by (auto simp: user_value_def split: option.splits)
  next
    case (OtherLine key v)
    obtain v' where "split_directive (trim (unit_text l)) = Some (key, v')" using other_key ok OtherLine by blast
    then show ?thesis using ok OtherLine by (simp add: user_value_def)
  next
    case (SectionLine name)
    have "visible (CHR ''['')" by (simp add: visible_def)
    then show ?thesis using head [of "CHR ''[''" "name @ '']''"] SectionLine by (auto simp: user_value_def split: option.splits)
  next
    case (BlankLine b)
    then have "trim (unit_text l) = []" using blank_trim ok by simp
    then show ?thesis using BlankLine by (simp add: user_value_def split_directive_def)
  qed
qed

lemma unit_lines_text: "unit_line_ok l \<Longrightarrow> line_text (unit_text l)"
proof -
  assume ok: "unit_line_ok l"
  have nv: "\<not> visible (CHR 0x0A)" "\<not> visible (CHR 0x0D)" "\<not> blank_char (CHR 0x0A)" "\<not> blank_char (CHR 0x0D)"
    by (simp_all add: visible_def blank_char_def)
  show ?thesis
  proof (cases l)
    case (ExecLine key pre path gaps args)
    then show ?thesis using exec_line_shape(5) [OF ok [unfolded ExecLine]] by simp
  next
    case (UserLine u)
    then show ?thesis using ok nv by (auto simp: line_text_def word_ok_def list_all_iff dest: last_in_set)
  next
    case (BlankLine b)
    then show ?thesis using ok nv by (auto simp: line_text_def list_all_iff dest: last_in_set)
  next
    case (OtherLine key v)
    then show ?thesis using ok nv by (auto simp: line_text_def word_ok_def list_all_iff)
  qed (use ok in \<open>auto simp: line_text_def\<close>)
qed

text \<open>
  C31: No executable of a unit's directives is overlooked. For a unit file of sections, comments, blank
  lines, \<open>User=\<close>, any other directives and \<open>Exec\<close> directives of the seven kinds, each with any of the prefixes,
  an absolute path and arguments, the scan records exactly the executables, in order, each as run by root
  unless the last \<open>User=\<close> names another account. Two ways of writing a command are outside it, and are missed:
  a line that is continued on the next (\<open>continued_command_is_missed\<close>) and a second command after a
  semicolon (\<open>second_command_is_missed\<close>).
\<close>

theorem unit_executables_found:
  assumes "list_all unit_line_ok ls" "list_all (\<lambda>c. byte c < 128) (file_of (map unit_text ls))"
    "length (file_of (map unit_text ls)) \<le> 64 * 1024"
    "fe_open env path = Inr (RegularFile, file_of (map unit_text ls))" "\<not> is_masked_symlink env path"
  shows "scan_service_file env SystemScope path name =
    (map (\<lambda>t. exec_finding env (''systemd:'' @ name) name path t
            (case rev (List.map_filter unit_user ls) of [] \<Rightarrow> True | u # _ \<Rightarrow> u \<in> {''root'', ''0''}))
       (List.map_filter unit_exec ls), [])"
proof -
  let ?text = "file_of (map unit_text ls)"
  have l: "lines ?text = map unit_text ls"
    using assms(1) unit_lines_text by (intro lines_file) (auto simp: list_all_iff)
  have e: "List.map_filter exec_target_of_line (map unit_text ls) = List.map_filter unit_exec ls"
    using assms(1) by (induction ls) (auto simp: exec_target_of_unit_line split: option.split)
  have u: "List.map_filter user_value (map unit_text ls) = List.map_filter unit_user ls"
    using assms(1) by (induction ls) (auto simp: user_value_unit_line split: option.split)
  have name: "is_root_name v \<longleftrightarrow> v \<in> {''root'', ''0''}" if "word_ok v" "CHR 0x22 \<notin> set v" for v
  proof -
    have "trim v = v" using that(1) by (intro trim_visible) (auto simp: word_ok_def list_all_iff)
    moreover have "trim_matches {CHR 0x22} v = v"
      using that by (intro trim_matches_id) (auto simp: word_ok_def dest: hd_in_set last_in_set)
    ultimately show ?thesis using that(1) by (simp add: is_root_name_def word_ok_def)
  qed
  have users: "word_ok v \<and> CHR 0x22 \<notin> set v" if "v \<in> set (List.map_filter unit_user ls)" for v
  proof -
    from that obtain l where "l \<in> set ls" "unit_user l = Some v" by (auto simp: map_filter_def)
    then have "unit_line_ok l" using assms(1) by (simp add: list_all_iff)
    then show ?thesis using \<open>unit_user l = Some v\<close> by (cases l rule: unit_line.exhaust) auto
  qed
  have r: "unit_runs_as_root ?text
      = (case rev (List.map_filter unit_user ls) of [] \<Rightarrow> True | u # _ \<Rightarrow> u \<in> {''root'', ''0''})"
  proof (cases "List.map_filter unit_user ls" rule: rev_cases)
    case (snoc us v)
    then show ?thesis using name [of v] users [of v] by (simp add: unit_runs_as_root_def l u Let_def)
  qed (simp add: unit_runs_as_root_def l u Let_def)
  have "read_file_capped_regular (fe_open env path) (64 * 1024) = Inr (?text, False)"
    using assms(2-4) by (simp add: read_file_capped_regular_def read_regular_capped_def capped_def ascii_lossy)
  then show ?thesis
    using assms(5) e r l by (simp add: scan_service_file_def scope_runs_as_root_def)
qed

definition sample_unit :: "unit_line list" where
  "sample_unit =
     [SectionLine ''Unit'', OtherLine ''Description'' ''The app, as a service'', BlankLine [],
      SectionLine ''Service'', CommentLine (CHR ''#'') '' User=root is not needed'', UserLine ''app'',
      ExecLine ''ExecStart'' ''-'' ''/opt/a'' ['' ''] [''x'']]"

definition unit_env :: fs_env where
  "unit_env =
     \<lparr>fe_meta = (\<lambda>p. Inl NotFound), fe_open = (\<lambda>p. Inr (RegularFile, file_of (map unit_text sample_unit))),
      fe_dir = (\<lambda>p. Inl NotFound), fe_canon = (\<lambda>p. None), fe_link = (\<lambda>p. Inl NotFound),
      fe_proc = (\<lambda>p. Inl NotFound), fe_has_rpm = False, fe_rpm = (\<lambda>p. None), fe_is_root = True,
      fe_error_text = (\<lambda>e. [])\<rparr>"

theorem unit_executables_found_witness:
  "map (\<lambda>f. (esf_exec_path f, esf_runs_as_root f)) (fst (scan_service_file unit_env SystemScope ''/u'' ''u''))
     = [(''/opt/a'', False)]"
proof -
  have ok: "list_all unit_line_ok sample_unit"
    by (simp add: sample_unit_def word_ok_def visible_def EXEC_DIRECTIVES_def line_text_def gaps_ok_def blank_char_def)
  have ascii: "list_all (\<lambda>c. byte c < 128) (file_of (map unit_text sample_unit))"
    "length (file_of (map unit_text sample_unit)) \<le> 64 * 1024"
    by (simp_all add: sample_unit_def file_of_def byte_def)
  have env: "fe_open unit_env ''/u'' = Inr (RegularFile, file_of (map unit_text sample_unit))"
    "\<not> is_masked_symlink unit_env ''/u''"
    by (simp_all add: unit_env_def is_masked_symlink_def)
  show ?thesis
    unfolding unit_executables_found [OF ok ascii env]
    by (simp add: sample_unit_def exec_finding_def)
qed

section \<open>What the scan does not see\<close>

text \<open>
  A semicolon between blanks ends a command and begins the next (\<open>systemd.service(5)\<close>: "Multiple command lines
  may be concatenated in a single directive by separating them with semicolons"). The scan takes it and all
  that follows for arguments, so of the executables only the first is recorded.
\<close>

theorem second_command_is_missed:
  assumes "unit_line_ok (ExecLine ''ExecStart'' [] first [] [])" "word_ok second" "hd second = CHR ''/''"
  shows "exec_target_of_line (''ExecStart='' @ first @ '' ; '' @ second) = Some first"
proof -
  have w: "list_all plain_word [first, '';'', second]"
    using assms(1,2) by (simp add: word_ok_def plain_word_def visible_def)
  have g: "gaps_ok [[], '' '', '' ''] [] [first, '';'', second]" by (simp add: gaps_ok_def blank_char_def)
  have row: "table_row [[], '' '', '' ''] [first, '';'', second] [] = first @ '' ; '' @ second" by simp
  have f: "word_ok first" "\<exists>r. first = CHR ''/'' # r" "last first \<notin> {CHR 0x22, CHR 0x27}"
    using assms(1) by (cases first; auto simp: word_ok_def)+
  have s: "visible (last second)" "second \<noteq> []" using assms(2) by (auto simp: word_ok_def list_all_iff)
  have slash: "visible (CHR ''/'')" "visible (CHR ''E'')" by (simp_all add: visible_def)
  have "trim (''ExecStart='' @ first @ '' ; '' @ second) = ''ExecStart='' @ first @ '' ; '' @ second"
    using s slash by (intro trim_visible) auto
  moreover have "trim_start (first @ '' ; '' @ second) = first @ '' ; '' @ second"
    using f(2) slash by (intro trim_start_visible) auto
  then have "split_directive (''ExecStart='' @ first @ '' ; '' @ second) = Some (''ExecStart'', first @ '' ; '' @ second)"
    using trim_end_word_ok [of "''ExecStart''"] split_once_append [of "CHR ''=''" "''ExecStart''" "first @ '' ; '' @ second"]
    by (simp add: split_directive_def word_ok_def visible_def)
  moreover have "dropWhile (\<lambda>c. c \<in> set ''-@+!:'') (first @ '' ; '' @ second) = first @ '' ; '' @ second"
    using f(2) by auto
  moreover have "split_whitespace (first @ '' ; '' @ second) = [first, '';'', second]"
    using split_row [OF w g] unfolding row .
  moreover have "trim_matches {CHR 0x22, CHR 0x27} first = first"
    using f by (intro trim_matches_id) auto
  ultimately show ?thesis
    using f(2) \<open>trim_start (first @ '' ; '' @ second) = first @ '' ; '' @ second\<close>
    by (auto simp: exec_target_of_line_def EXEC_DIRECTIVES_def Let_def)
qed

theorem second_command_is_missed_witness:
  "exec_target_of_line (''ExecStart='' @ ''/bin/true'' @ '' ; '' @ ''/dev/shm/implant'') = Some ''/bin/true''"
  by (rule second_command_is_missed) (simp_all add: word_ok_def visible_def EXEC_DIRECTIVES_def gaps_ok_def)

text \<open>
  A command on a continued line is executed by systemd and missed by the scan, whatever it is: the line
  that ends in a backslash names no executable, and the next line is no directive.
\<close>

theorem continued_command_is_missed:
  assumes "word_ok path" "hd path = CHR ''/''" "CHR ''='' \<notin> set path"
  shows "List.map_filter exec_target_of_line (lines (file_of [''ExecStart='' @ [CHR 0x5C], path])) = []"
proof -
  have v: "visible (CHR 0x5C)" by (simp add: visible_def)
  have nl: "\<not> visible (CHR 0x0A)" "\<not> visible (CHR 0x0D)" by (simp_all add: visible_def)
  have "line_text path" using assms(1) nl by (auto simp: line_text_def word_ok_def list_all_iff dest: last_in_set)
  then have "lines (file_of [''ExecStart='' @ [CHR 0x5C], path]) = [''ExecStart='' @ [CHR 0x5C], path]"
    by (intro lines_file) (simp add: line_text_def)
  moreover have "split_directive (''ExecStart='' @ [CHR 0x5C]) = Some (''ExecStart'', [CHR 0x5C])"
    using trim_end_word_ok [of "''ExecStart''"] v by (simp add: split_directive_def word_ok_def visible_def trim_start_visible)
  moreover have "trim (''ExecStart='' @ [CHR 0x5C]) = ''ExecStart='' @ [CHR 0x5C]"
    by (simp add: trim_visible visible_def)
  moreover have "split_whitespace [CHR 0x5C] = [[CHR 0x5C]]" using v by (simp add: split_word)
  moreover have "trim_start [CHR 0x5C] = [CHR 0x5C]" using v by (simp add: trim_start_visible)
  moreover have "trim_matches {CHR 0x22, CHR 0x27} [CHR 0x5C] = [CHR 0x5C]" by (simp add: trim_matches_def)
  ultimately have "exec_target_of_line (''ExecStart='' @ [CHR 0x5C]) = None"
    "lines (file_of [''ExecStart='' @ [CHR 0x5C], path]) = [''ExecStart='' @ [CHR 0x5C], path]"
    by (simp_all add: exec_target_of_line_def EXEC_DIRECTIVES_def)
  moreover have "exec_target_of_line path = None"
  proof -
    have "trim path = path" using assms(1) by (intro trim_visible) (auto simp: word_ok_def list_all_iff)
    moreover have "split_directive path = None" using assms(3) by (simp add: split_directive_def split_once_None)
    ultimately show ?thesis by (simp add: exec_target_of_line_def)
  qed
  ultimately show ?thesis by simp
qed

theorem continued_command_is_missed_witness:
  "List.map_filter exec_target_of_line (lines (file_of [''ExecStart='' @ [CHR 0x5C], ''/dev/shm/implant''])) = []"
  by (rule continued_command_is_missed) (simp_all add: word_ok_def visible_def)

text \<open>
  An executable with the prefix for full privileges is run by root whatever \<open>User=\<close> says, but the scan
  takes the prefix away and records the entry as not run by root, so a target that anyone may replace is not
  reported as one that root executes.
\<close>

theorem full_privilege_prefix_is_lost:
  "List.map_filter exec_target_of_line (map unit_text [UserLine ''app'', ExecLine ''ExecStart'' ''+'' ''/opt/a'' [] []])
     = [''/opt/a'']
   \<and> \<not> unit_runs_as_root (file_of (map unit_text [UserLine ''app'', ExecLine ''ExecStart'' ''+'' ''/opt/a'' [] []]))"
proof -
  have ok: "list_all unit_line_ok [UserLine ''app'', ExecLine ''ExecStart'' ''+'' ''/opt/a'' [] []]"
    by (simp add: word_ok_def visible_def EXEC_DIRECTIVES_def gaps_ok_def)
  have l: "lines (file_of (map unit_text [UserLine ''app'', ExecLine ''ExecStart'' ''+'' ''/opt/a'' [] []]))
      = map unit_text [UserLine ''app'', ExecLine ''ExecStart'' ''+'' ''/opt/a'' [] []]"
    using ok unit_lines_text by (intro lines_file) (auto simp: list_all_iff simp del: unit_text.simps)
  have "trim ''app'' = ''app''" by (simp add: trim_visible visible_def)
  then have "\<not> is_root_name ''app''" by (simp add: is_root_name_def trim_matches_def)
  moreover have "List.map_filter user_value (map unit_text [UserLine ''app'', ExecLine ''ExecStart'' ''+'' ''/opt/a'' [] []])
      = [''app'']"
    using ok user_value_unit_line by (simp del: unit_text.simps)
  ultimately have "\<not> unit_runs_as_root (file_of (map unit_text [UserLine ''app'', ExecLine ''ExecStart'' ''+'' ''/opt/a'' [] []]))"
    unfolding unit_runs_as_root_def l by simp
  moreover have "List.map_filter exec_target_of_line (map unit_text [UserLine ''app'', ExecLine ''ExecStart'' ''+'' ''/opt/a'' [] []])
      = [''/opt/a'']"
    using ok exec_target_of_unit_line by (simp del: unit_text.simps)
  ultimately show ?thesis by blast
qed

end
