(* ===== verification/Injection.thy ===== *)
theory Injection
  imports Provenance "HOL-Library.List_Lexorder" "HOL-Library.Char_ord"
begin

text \<open>
  Libraries and modules that are loaded into other programs: \<open>scanners/ld_so_conf.rs\<close> (SEC-051),
  \<open>scanners/preload.rs\<close> (SEC-042, SEC-049, SEC-050) and \<open>scanners/pam.rs\<close> (SEC-055 to SEC-057).
\<close>

section \<open>Library search paths\<close>

definition MAX_CONF_BYTES :: nat where "MAX_CONF_BYTES = 64 * 1024"
definition MAX_CONF_FILES :: nat where "MAX_CONF_FILES = 256"
definition MAX_QUEUE_LEN :: nat where "MAX_QUEUE_LEN = MAX_CONF_FILES * 4"

definition before_hash :: "string \<Rightarrow> string" where
  "before_hash l = (case split_once (CHR ''#'') l of None \<Rightarrow> l | Some (h, _) \<Rightarrow> h)"

datatype conf_entry = LibDir string | IncludeOf string

definition conf_line :: "string \<Rightarrow> conf_entry option" where
  "conf_line raw =
     (let line = trim (before_hash raw);
          as_dir = (if starts_with line ''/'' then Some (LibDir line) else None)
      in if line = [] then None
         else (case strip_prefix ''include'' line of
           None \<Rightarrow> as_dir
         | Some rest \<Rightarrow>
             if starts_with rest '' '' \<or> starts_with rest [CHR 0x09]
             then (if trim rest = [] then None else Some (IncludeOf (trim rest)))
             else as_dir))"

definition parse_ld_so_conf :: "string \<Rightarrow> string list \<times> string list" where
  "parse_ld_so_conf content =
     (let es = List.map_filter conf_line (lines content) in
      (List.map_filter (\<lambda>e. case e of LibDir d \<Rightarrow> Some d | _ \<Rightarrow> None) es,
       List.map_filter (\<lambda>e. case e of IncludeOf p \<Rightarrow> Some p | _ \<Rightarrow> None) es))"

definition glob_matches :: "string \<Rightarrow> string \<Rightarrow> bool" where
  "glob_matches pattern name =
     (case split_once (CHR ''*'') pattern of
        None \<Rightarrow> pattern = name
      | Some (pre, suf) \<Rightarrow>
          length pre + length suf \<le> length name \<and> starts_with name pre \<and> ends_with name suf)"

definition should_report :: "bool \<Rightarrow> bool \<Rightarrow> bool" where
  "should_report volatile writable_by_non_root = (volatile \<or> writable_by_non_root)"

definition dir_include_pattern :: "string \<Rightarrow> string" where
  "dir_include_pattern p = p @ ''/*''"

definition classify_missing :: "bool \<Rightarrow> u32 \<Rightarrow> u32 \<Rightarrow> u32 \<Rightarrow> bool option" where
  "classify_missing volatile pmode puid pgid =
     (let writable = unsafe_mode pmode puid pgid in
      if should_report volatile writable then Some writable else None)"

text \<open>The queue is a stack, its top first.\<close>

fun push_matches :: "string \<Rightarrow> string \<Rightarrow> string option list \<Rightarrow> string list \<Rightarrow> string list \<times> string list" where
  "push_matches dir pat [] queue = (queue, [])"
| "push_matches dir pat (n # ns) queue =
     (if MAX_QUEUE_LEN \<le> length queue then
        (queue, [''ld.so.conf: include queue cap reached during glob; SEC-051 partial''])
      else (case n of
        None \<Rightarrow> push_matches dir pat ns queue
      | Some name \<Rightarrow>
          push_matches dir pat ns (if glob_matches pat name then path_join dir name # queue else queue)))"

definition expand_glob ::
  "('a fs_env_scheme) \<Rightarrow> string \<Rightarrow> string \<Rightarrow> string \<Rightarrow> string list \<Rightarrow> string list \<times> string list" where
  "expand_glob env pattern dir pat queue =
     (case fe_dir env dir of
        Inr names \<Rightarrow> push_matches dir pat names queue
      | Inl e \<Rightarrow>
          (queue, [''ld.so.conf include '' @ pattern @ '' unreadable ('' @ fe_error_text env (OpenFailed e)
                   @ ''); SEC-051 partial'']))"

text \<open>A directory is expanded as the pattern of everything in it, whose file name is a star.\<close>

definition expand_include ::
  "('a fs_env_scheme) \<Rightarrow> string \<Rightarrow> string list \<Rightarrow> string list \<times> string list" where
  "expand_include env pattern queue =
     (if MAX_QUEUE_LEN \<le> length queue then
        (queue, [''ld.so.conf: include queue cap reached; SEC-051 partial''])
      else (case (path_parent pattern, path_file_name pattern) of
        (Some dir, Some file_name) \<Rightarrow>
          if CHR ''*'' \<in> set file_name then expand_glob env pattern dir file_name queue
          else if is_dir env pattern then
            (case path_parent (dir_include_pattern pattern) of
               None \<Rightarrow> (queue, [])
             | Some d \<Rightarrow> expand_glob env (dir_include_pattern pattern) d ''*'' queue)
          else (pattern # queue, [])
      | _ \<Rightarrow> (queue, [])))"

fun expand_includes ::
  "('a fs_env_scheme) \<Rightarrow> string list \<Rightarrow> string list \<Rightarrow> string list \<times> string list" where
  "expand_includes env [] queue = (queue, [])"
| "expand_includes env (p # ps) queue =
     (case expand_include env p queue of (q1, n1) \<Rightarrow>
        (case expand_includes env ps q1 of (q2, n2) \<Rightarrow> (q2, n1 @ n2)))"

text \<open>\<open>trim_end_matches('/')\<close> is \<open>trim_end_slashes\<close>.\<close>

definition conf_file ::
  "('a fs_env_scheme) \<Rightarrow> string \<Rightarrow> string list \<times> string list \<times> string list" where
  "conf_file env path =
     (case read_file_capped_regular (fe_open env path) MAX_CONF_BYTES of
        Inr (content, truncated) \<Rightarrow>
          (case parse_ld_so_conf content of
             (ds, incs) \<Rightarrow>
               (map trim_end_slashes ds, incs,
                if truncated then [path @ '' exceeded cap '' @ em_dash @ '' SEC-051 scan truncated''] else []))
      | Inl e \<Rightarrow>
          ([], [], if failure_kind e = NotFound then []
                   else [path @ '' unreadable ('' @ fe_error_text env e @ ''); SEC-051 NOT verified'']))"

text \<open>
  Two \<open>PathBuf\<close>s are equal if their components are: repeated slashes and inner \<open>.\<close> components do not
  count. A path of the model is its bytes, and this is what is compared.
\<close>

definition path_key :: "string \<Rightarrow> bool \<times> string list" where
  "path_key p =
     (let ps = split_char (CHR ''/'') p; kept = filter (\<lambda>c. c \<noteq> [] \<and> c \<noteq> ''.'') in
      (starts_with p ''/'', if hd ps = ''.'' then ''.'' # kept (tl ps) else kept ps))"

text \<open>The loop over the queue: the directories named and the notes.\<close>

function conf_walk ::
  "('a fs_env_scheme) \<Rightarrow> string list \<Rightarrow> (bool \<times> string list) list \<Rightarrow> string list \<times> string list" where
  "conf_walk env [] seen = ([], [])"
| "conf_walk env (path # queue) seen =
     (if MAX_CONF_FILES \<le> length seen then
        ([], [''ld.so.conf: include fan-out cap reached; SEC-051 partial''])
      else if path_key path \<in> set seen then conf_walk env queue seen
      else
        (case conf_file env path of
           (ds, incs, n1) \<Rightarrow>
             (case expand_includes env incs queue of
                (queue', n2) \<Rightarrow>
                  (case conf_walk env queue' (path_key path # seen) of
                     (ds', n3) \<Rightarrow> (ds @ ds', n1 @ n2 @ n3)))))"
  by pat_completeness auto
termination
  by (relation "measures [\<lambda>(env, queue, seen). MAX_CONF_FILES - length seen,
        \<lambda>(env, queue, seen). length queue]") auto

definition is_volatile_mount :: "string \<Rightarrow> bool" where
  "is_volatile_mount path = is_volatile_exec_path path"

definition classify_dir :: "('a fs_env_scheme) \<Rightarrow> string \<Rightarrow> ld_so_conf_injection option" where
  "classify_dir env raw =
     (case fe_meta env raw of
        Inl e \<Rightarrow>
          if e \<noteq> NotFound then None
          else (case path_parent raw of
            None \<Rightarrow> None
          | Some parent \<Rightarrow>
              (case fe_meta env parent of
                 Inl _ \<Rightarrow> None
               | Inr m \<Rightarrow>
                   (case classify_missing (is_volatile_mount parent) (fs_mode m) (fs_uid m) (fs_gid m) of
                      None \<Rightarrow> None
                    | Some w \<Rightarrow>
                        Some \<lparr>lsc_path = raw, lsc_volatile = is_volatile_mount parent,
                          lsc_writable_by_non_root = w, lsc_mode = None, lsc_uid = fs_uid m, lsc_gid = fs_gid m\<rparr>)))
      | Inr m \<Rightarrow>
          if \<not> fs_is_dir m then None
          else (let volatile = is_volatile_mount raw; w = unsafe_meta m in
            if should_report volatile w
            then Some \<lparr>lsc_path = raw, lsc_volatile = volatile, lsc_writable_by_non_root = w,
                   lsc_mode = Some (fs_mode m), lsc_uid = fs_uid m, lsc_gid = fs_gid m\<rparr>
            else None))"

definition scan_ld_so_conf :: "('a fs_env_scheme) \<Rightarrow> ld_so_conf_injection list \<times> string list" where
  "scan_ld_so_conf env =
     (case expand_include env ''/etc/ld.so.conf.d/*.conf'' [] of (queue, n1) \<Rightarrow>
        (case conf_walk env (''/etc/ld.so.conf'' # queue) [] of (ds, n2) \<Rightarrow>
           (sort_key lsc_path (List.map_filter (classify_dir env) (remdups ds)), n1 @ n2)))"

section \<open>The preload file\<close>

definition CAP_PROC_MAPS :: nat where "CAP_PROC_MAPS = 8 * 1024 * 1024"

definition parse_preload_entries :: "string \<Rightarrow> string list" where
  "parse_preload_entries content =
     filter (\<lambda>e. e \<noteq> [])
       (map trim (concat (map (\<lambda>l. split_where (\<lambda>c. c \<in> {CHR '' '', CHR 0x09, CHR '':''}) (before_hash l))
          (lines content))))"

definition mapped_paths :: "string \<Rightarrow> string list" where
  "mapped_paths maps =
     List.map_filter (\<lambda>l. let ws = split_whitespace l in if 5 < length ws then Some (ws ! 5) else None) (lines maps)"

record map_count =
  mc_counts :: "string \<Rightarrow> nat"
  mc_read_ok :: nat
  mc_denied :: nat
  mc_partial :: nat
  mc_notes :: "string list"

definition count_paths :: "(string \<times> string) list \<Rightarrow> string list \<Rightarrow> (string \<Rightarrow> nat) \<Rightarrow> (string \<Rightarrow> nat)" where
  "count_paths canon mapped counts =
     fold (\<lambda>(c, orig) k. if c \<in> set mapped then k(orig := k orig + 1) else k) canon counts"

definition count_process ::
  "('a fs_env_scheme) \<Rightarrow> (string \<times> string) list \<Rightarrow> string option \<Rightarrow> map_count \<Rightarrow> map_count" where
  "count_process env canon name w =
     (case Option.bind name parse_u32 of
        None \<Rightarrow> w
      | Some pid \<Rightarrow>
          (let path = ''/proc/'' @ show_word pid @ ''/maps'' in
           case read_procfs_capped (fe_proc env path) CAP_PROC_MAPS of
             Inl e \<Rightarrow> if e = PermissionDenied then w\<lparr>mc_denied := mc_denied w + 1\<rparr> else w
           | Inr (maps, truncated) \<Rightarrow>
               w\<lparr>mc_read_ok := mc_read_ok w + 1,
                 mc_partial := mc_partial w + (if truncated then 1 else 0),
                 mc_counts := count_paths canon (mapped_paths maps) (mc_counts w),
                 mc_notes := mc_notes w @
                   (if truncated then
                      [''ld.so.preload corroboration: '' @ path @ '' truncated at '' @ show_nat CAP_PROC_MAPS
                       @ '' bytes '' @ em_dash @ '' mapped library list for this process may be partial'']
                    else [])\<rparr>))"

text \<open>The count for each path, or that it is unknown; no result at all if nothing could be observed.\<close>

definition count_mapped ::
  "('a fs_env_scheme) \<Rightarrow> string list \<Rightarrow> (string \<Rightarrow> nat option) option \<times> string list" where
  "count_mapped env paths =
     (if paths = [] then (Some (\<lambda>_. None), [])
      else
        (let canon = map (\<lambda>p. (case fe_canon env p of None \<Rightarrow> canon_path p | Some c \<Rightarrow> c, p)) paths in
         case fe_dir env ''/proc'' of
           Inl _ \<Rightarrow> (None, [''/proc unreadable; ld.so.preload map corroboration UNKNOWN (not zero)''])
         | Inr names \<Rightarrow>
             (let w = fold (count_process env canon) names
                        \<lparr>mc_counts = (\<lambda>_. 0), mc_read_ok = 0, mc_denied = 0, mc_partial = 0, mc_notes = []\<rparr>;
                  blind = mc_denied w > 0 \<or> mc_partial w > 0;
                  counts = (\<lambda>p. if p \<in> set paths \<and> \<not> (blind \<and> mc_counts w p = 0) then Some (mc_counts w p) else None)
              in (if mc_read_ok w = 0 then None else Some counts,
                  mc_notes w @
                  (if blind then
                     [''ld.so.preload corroboration: '' @ show_nat (mc_denied w) @ '' /proc/<pid>/maps unreadable, ''
                      @ show_nat (mc_partial w) @ '' truncated''
                      @ (if fe_is_root env then [] else '' '' @ em_dash @ '' run as root for full coverage'')]
                   else [])))))"

definition scan_ld_preload ::
  "('a fs_env_scheme) \<Rightarrow> prov_memo \<Rightarrow> (preload_finding list \<times> string list) \<times> prov_memo" where
  "scan_ld_preload env memo =
     (case read_file_capped_regular (fe_open env ''/etc/ld.so.preload'') (64 * 1024) of
        Inl e \<Rightarrow>
          (([], if failure_kind e = NotFound then []
                else [''/etc/ld.so.preload unreadable ('' @ fe_error_text env e @ ''); SEC-042 NOT verified'']), memo)
      | Inr (content, truncated) \<Rightarrow>
          (let entries = parse_preload_entries content;
               n1 = (if truncated then [''/etc/ld.so.preload exceeded cap '' @ em_dash @ '' SEC-042 scan truncated'']
                     else [])
           in if entries = [] then (([], n1), memo)
              else
                (case resolve_batch env (remdups (map canon_path entries)) memo of
                   ((ix, n2), memo') \<Rightarrow>
                     (case count_mapped env entries of
                        (counts, n3) \<Rightarrow>
                          ((map (\<lambda>e. \<lparr>plf_path = e, plf_volatile = is_volatile_exec_path e,
                                 plf_package = lookup_owner ix (canon_path e),
                                 plf_mapped_by_pids = (case counts of None \<Rightarrow> None | Some k \<Rightarrow> k e)\<rparr>) entries,
                            n1 @ n2 @ n3), memo')))))"

section \<open>PAM\<close>

definition MAX_PAM_FINDINGS :: nat where "MAX_PAM_FINDINGS = 2048"

definition TRUSTED_PAM_DIRS :: "string list" where
  "TRUSTED_PAM_DIRS =
     [''/lib/security/'', ''/lib64/security/'', ''/usr/lib/security/'', ''/usr/lib64/security/'',
      ''/usr/lib/x86_64-linux-gnu/security/'']"

definition is_trusted_module_path :: "string \<Rightarrow> bool" where
  "is_trusted_module_path path =
     (\<not> contains path ''/../'' \<and> \<not> ends_with path ''/..'' \<and> list_ex (\<lambda>d. starts_with path d) TRUSTED_PAM_DIRS)"

definition module_candidates :: "string \<Rightarrow> string list" where
  "module_candidates modl =
     (if starts_with modl ''/'' then [modl] else map (\<lambda>d. d @ modl) TRUSTED_PAM_DIRS)"

definition path_exists :: "('a fs_env_scheme) \<Rightarrow> string \<Rightarrow> bool" where
  "path_exists env p = (case fe_meta env p of Inl _ \<Rightarrow> False | Inr _ \<Rightarrow> True)"

definition resolve_module :: "('a fs_env_scheme) \<Rightarrow> string \<Rightarrow> string option" where
  "resolve_module env modl =
     map_option (\<lambda>c. case fe_canon env c of None \<Rightarrow> c | Some p \<Rightarrow> p)
       (if starts_with modl ''/'' then Some modl else find (path_exists env) (module_candidates modl))"

definition take_token :: "string \<Rightarrow> (string \<times> string) option" where
  "take_token text =
     (let s = trim_start text in
      if s = [] then None
      else (case strip_prefix ''['' s of
        Some after \<Rightarrow>
          (case split_once (CHR '']'') after of
             Some (inner, rest) \<Rightarrow> Some (CHR ''['' # inner @ '']'', rest)
           | None \<Rightarrow> Some (s, []))
      | None \<Rightarrow> Some (until_ws s, drop (length (until_ws s)) s)))"

definition parse_pam_line :: "string \<Rightarrow> (string \<times> string \<times> string \<times> string) option" where
  "parse_pam_line line =
     (let s = trim line in
      if s = [] \<or> starts_with s ''#'' then None
      else (case take_token s of None \<Rightarrow> None | Some (type_, r1) \<Rightarrow>
        (case take_token r1 of None \<Rightarrow> None | Some (control, r2) \<Rightarrow>
          (case take_token r2 of None \<Rightarrow> None | Some (modl, r3) \<Rightarrow>
            Some (type_, control, modl, trim_start r3)))))"

definition strip_quotes :: "string \<Rightarrow> string" where
  "strip_quotes s =
     (let q = (\<lambda>c. c = CHR 0x22 \<or> c = CHR 0x27) in rev (dropWhile q (rev (dropWhile q s))))"

definition extract_pam_exec_targets :: "string \<Rightarrow> string list" where
  "extract_pam_exec_targets args =
     filter (\<lambda>t. starts_with t ''/'') (map strip_quotes (split_whitespace args))"

definition is_exec_target :: "('a fs_env_scheme) \<Rightarrow> string \<Rightarrow> bool" where
  "is_exec_target env path =
     (case fe_meta env path of Inl _ \<Rightarrow> True | Inr m \<Rightarrow> fs_mode m AND 0x49 \<noteq> 0)"

text \<open>A finding of a path: \<open>parent_takeable\<close> matters for a path that is missing only.\<close>

definition pam_entry ::
  "('a fs_env_scheme) \<Rightarrow> string \<Rightarrow> pam_target_kind \<Rightarrow> string option \<Rightarrow> pam_finding" where
  "pam_entry env path kind declared =
     (let w = assess_writability env path in
      \<lparr>paf_services = [], paf_module = \<lparr>pm_module_path = path\<rparr>, paf_writability = w,
       paf_volatile = is_volatile_exec_path path, paf_package = None,
       paf_uid = (case fe_meta env path of Inl _ \<Rightarrow> None | Inr m \<Rightarrow> Some (fs_uid m)),
       paf_gid = (case fe_meta env path of Inl _ \<Rightarrow> None | Inr m \<Rightarrow> Some (fs_gid m)),
       paf_parent_takeable = (w = Missing \<and> parent_unsafe env path = Some True),
       paf_target_kind = kind, paf_declared_as = declared\<rparr>)"

text \<open>The findings by path, in the order of the first one; \<open>entry(...).or_insert_with\<close> and a push.\<close>

fun add_service :: "pam_finding \<Rightarrow> string \<Rightarrow> pam_finding list \<Rightarrow> pam_finding list" where
  "add_service new service [] = [new\<lparr>paf_services := paf_services new @ [service]\<rparr>]"
| "add_service new service (f # fs) =
     (if pm_module_path (paf_module f) = pm_module_path (paf_module new)
      then f\<lparr>paf_services := paf_services f @ [service]\<rparr> # fs
      else f # add_service new service fs)"

definition suspicious_module :: "pam_finding \<Rightarrow> bool" where
  "suspicious_module f =
     (\<not> is_trusted_module_path (pm_module_path (paf_module f)) \<or> paf_writability f = NonRootWritable
      \<or> paf_volatile f \<or> (paf_writability f = Missing \<and> paf_parent_takeable f))"

definition pam_scripts :: "('a fs_env_scheme) \<Rightarrow> string \<Rightarrow> string list" where
  "pam_scripts env args =
     (case extract_pam_exec_targets args of [] \<Rightarrow> [] | cmd # rest \<Rightarrow> cmd # filter (is_exec_target env) rest)"

definition pam_line :: "('a fs_env_scheme) \<Rightarrow> string \<Rightarrow> string \<Rightarrow> pam_finding list \<Rightarrow> pam_finding list" where
  "pam_line env fname line fs =
     (case parse_pam_line line of
        None \<Rightarrow> fs
      | Some (type_, control, modl, args) \<Rightarrow>
          (let service = fname @ '' ('' @ type_ @ '' '' @ control @ '')'';
               fs1 = (if base_name modl = ''pam_exec.so''
                      then fold (\<lambda>p. add_service (pam_entry env p ExecScript None) service) (pam_scripts env args) fs
                      else fs)
           in case resolve_module env modl of
                None \<Rightarrow> fs1
              | Some resolved \<Rightarrow>
                  (let f = pam_entry env resolved PamModuleKind
                             (if modl \<noteq> resolved then Some modl else None) in
                   if suspicious_module f then add_service f service fs1 else fs1)))"

definition config_finding :: "('a fs_env_scheme) \<Rightarrow> string \<Rightarrow> string \<Rightarrow> pam_finding" where
  "config_finding env fname path =
     (pam_entry env path Config None)\<lparr>paf_services := [fname @ '' (config slot)''], paf_parent_takeable := False\<rparr>"

definition pam_file ::
  "('a fs_env_scheme) \<Rightarrow> string \<Rightarrow> string option \<Rightarrow> pam_finding list \<times> string list \<Rightarrow> pam_finding list \<times> string list" where
  "pam_file env dir name acc =
     (case (name, acc) of
        (None, _) \<Rightarrow> acc
      | (Some fname, (fs, notes)) \<Rightarrow>
          (let path = path_join dir fname in
           if ends_with fname ''~'' \<or> ends_with fname ''.bak'' \<or> starts_with fname ''.'' \<or> \<not> is_file env path then acc
           else
             (let fs1 = (if assess_writability env path \<noteq> RootOnly
                            \<and> path \<notin> set (map (\<lambda>f. pm_module_path (paf_module f)) fs)
                         then fs @ [config_finding env fname path] else fs)
              in case read_file_capped_regular (fe_open env path) (64 * 1024) of
                   Inl _ \<Rightarrow> (fs1, notes)
                 | Inr (content, truncated) \<Rightarrow>
                     (fold (pam_line env fname) (lines content) fs1,
                      notes @ (if truncated then [path @ '' truncated''] else [])))))"

definition scan_pam_dir ::
  "('a fs_env_scheme) \<Rightarrow> string \<Rightarrow> prov_memo \<Rightarrow> (pam_finding list \<times> string list) \<times> prov_memo" where
  "scan_pam_dir env dir memo =
     (case fe_dir env dir of
        Inl e \<Rightarrow>
          (([], [dir @ '' unreadable ('' @ fe_error_text env (OpenFailed e) @ ''); SEC-055 PAM scan NOT verified'']), memo)
      | Inr names \<Rightarrow>
          (case fold (pam_file env dir) names ([], []) of
             (all, n1) \<Rightarrow>
               (let sorted_fs = sort_key (\<lambda>f. pm_module_path (paf_module f)) all;
                    kept = take MAX_PAM_FINDINGS sorted_fs;
                    n2 = (if MAX_PAM_FINDINGS < length all then
                            [''pam: finding cap ('' @ show_nat MAX_PAM_FINDINGS @ '') reached; ''
                             @ show_nat (length all - MAX_PAM_FINDINGS) @ '' module(s) NOT reported''] else []);
                    cs = remdups (map (\<lambda>f. canon_path (pm_module_path (paf_module f)))
                           (filter (\<lambda>f. starts_with (pm_module_path (paf_module f)) ''/'') kept))
                in if cs = [] then ((kept, n1 @ n2), memo)
                   else (case resolve_batch env cs memo of
                     ((ix, n3), memo') \<Rightarrow>
                       ((map (\<lambda>f. f\<lparr>paf_package := lookup_owner ix (canon_path (pm_module_path (paf_module f)))\<rparr>) kept,
                         n1 @ n2 @ n3), memo')))))"

definition scan_pam :: "('a fs_env_scheme) \<Rightarrow> prov_memo \<Rightarrow> (pam_finding list \<times> string list) \<times> prov_memo" where
  "scan_pam env = scan_pam_dir env ''/etc/pam.d''"

end
