(* ===== verification/InjectionLaws.thy ===== *)
theory InjectionLaws
  imports Injection ScanText
begin

text \<open>
  What the scans for injected libraries and modules promise: the walk over the library search paths misses
  no directory without saying so, the PAM scan reports exactly the paths its files load, and a count of
  the processes that map a preloaded library is never a guess.
\<close>

section \<open>Library search paths\<close>


































text \<open>A second star is read as a star of the file's name, and the files it names are left out.\<close>

theorem second_star_is_missed:
  "glob_match ''*cuda*.conf'' ''x-cuda-12.conf'' \<and> \<not> glob_matches ''*cuda*.conf'' ''x-cuda-12.conf''
   \<and> glob_match ''lib?.conf'' ''lib1.conf'' \<and> CHR ''*'' \<notin> set ''lib?.conf''"
  by (simp add: glob_matches_def starts_with_def ends_with_def)


text \<open>A host whose one configuration file names a directory under \<open>/dev/shm\<close>.\<close>

definition library_env :: "unit fs_env_scheme" where
  "library_env =
     \<lparr>fe_meta = (\<lambda>p. if p = ''/dev/shm/x'' then Inr \<lparr>fs_mode = 0x1ED, fs_uid = 0, fs_gid = 0, fs_is_dir = True, fs_is_file = False\<rparr>
                    else Inl NotFound),
      fe_open = (\<lambda>p. if path_key p = path_key ''/etc/ld.so.conf'' then Inr (RegularFile, file_of [''/dev/shm/x'']) else Inl NotFound),
      fe_dir = (\<lambda>p. Inr []), fe_canon = (\<lambda>p. None), fe_link = (\<lambda>p. Inl NotFound), fe_proc = (\<lambda>p. Inl NotFound),
      fe_has_rpm = False, fe_rpm = (\<lambda>p. None), fe_is_root = True, fe_error_text = (\<lambda>e. [])\<rparr>"




section \<open>PAM\<close>

text \<open>A field of a PAM line is a word, or a list in brackets, which may hold blanks.\<close>

definition pam_field :: "string \<Rightarrow> bool" where
  "pam_field t =
     (list_all visible t \<and> t \<noteq> [] \<and> hd t \<noteq> CHR ''[''
      \<or> (\<exists>inner. t = CHR ''['' # inner @ '']'' \<and> CHR '']'' \<notin> set inner))"

definition blanks :: "string \<Rightarrow> bool" where
  "blanks s = (s \<noteq> [] \<and> list_all (\<lambda>c. c = CHR '' '' \<or> c = CHR 0x09) s)"

lemma trim_start_blanks: "list_all (\<lambda>c. c = CHR '' '' \<or> c = CHR 0x09) b \<Longrightarrow> trim_start (b @ s) = trim_start s"
  by (induction b) (auto simp: trim_start_def trim_by_blank)

lemma until_ws_field: "list_all visible t \<Longrightarrow> s = [] \<or> ws_width s \<noteq> 0 \<Longrightarrow> until_ws (t @ s) = t"
  by (induction t) (auto simp: ws_width_visible split: list.splits, (cases s; simp)+)

lemma blanks_ws: "blanks b \<Longrightarrow> ws_width (b @ s) \<noteq> 0"
proof -
  assume b: "blanks b"
  then obtain c r where c: "b = c # r" "c = CHR '' '' \<or> c = CHR 0x09" by (cases b) (auto simp: blanks_def)
  then show ?thesis by (auto simp: ws_width_def white_space_literals)
qed

lemma take_token_field:
  assumes "pam_field t" "list_all (\<lambda>c. c = CHR '' '' \<or> c = CHR 0x09) b" "s = [] \<or> ws_width s \<noteq> 0"
  shows "take_token (b @ t @ s) = Some (t, s)"
proof (cases "hd t = CHR ''[''")
  case False
  then have t: "list_all visible t" "t \<noteq> []" using assms(1) by (auto simp: pam_field_def)
  then obtain c r where c: "t = c # r" "visible c" by (cases t) auto
  have "trim_start (b @ t @ s) = t @ s"
    using c trim_start_blanks [OF assms(2)] trim_start_visible [of "t @ s"] by simp
  moreover have "strip_prefix ''['' (t @ s) = None" using False c by simp
  ultimately show ?thesis
    using t until_ws_field [OF t(1) assms(3)] by (simp add: take_token_def)
next
  case True
  then obtain inner where t: "t = CHR ''['' # inner @ '']''" "CHR '']'' \<notin> set inner"
    using assms(1) by (auto simp: pam_field_def)
  have "visible (CHR ''['')" by (simp add: visible_def)
  then have "trim_start (b @ t @ s) = t @ s"
    using t trim_start_blanks [OF assms(2)] trim_start_visible [of "t @ s"] by simp
  then show ?thesis using t by (simp add: take_token_def split_once_append)
qed

lemma pam_line_fields:
  assumes "pam_field t" "pam_field c" "pam_field m" "blanks b1" "blanks b2" "b3 = [] \<and> args = [] \<or> blanks b3"
    and "visible (hd t)" "hd t \<noteq> CHR ''#''" "args = [] \<or> visible (hd args) \<and> visible (last args)"
    and "args = [] \<longrightarrow> visible (last m) \<and> b3 = []"
  shows "parse_pam_line (t @ b1 @ c @ b2 @ m @ b3 @ args) = Some (t, c, m, args)"
proof -
  let ?line = "t @ b1 @ c @ b2 @ m @ b3 @ args"
  have ne: "t \<noteq> []" "m \<noteq> []" using assms(1,3) by (auto simp: pam_field_def)
  have "hd ?line = hd t" "last ?line = last (m @ b3 @ args)" using ne by simp_all
  then have tr: "trim ?line = ?line" "\<not> starts_with ?line ''#''"
    using ne assms(7-10) by (cases t; cases "args = []"; auto simp: trim_visible)+
  have rest: "m' = [] \<or> ws_width m' \<noteq> 0" if "m' = b3 @ args" for m'
    using assms(6) blanks_ws [of b3 args] that by auto
  have start: "trim_start (b3 @ args) = args"
  proof -
    have "list_all (\<lambda>c. c = CHR '' '' \<or> c = CHR 0x09) b3" using assms(6) by (auto simp: blanks_def)
    from trim_start_blanks [OF this] show ?thesis using assms(9) trim_start_visible [of args] by auto
  qed
  have b: "list_all (\<lambda>c. c = CHR '' '' \<or> c = CHR 0x09) b1" "list_all (\<lambda>c. c = CHR '' '' \<or> c = CHR 0x09) b2"
    using assms(4,5) by (auto simp: blanks_def)
  have 1: "take_token ?line = Some (t, b1 @ c @ b2 @ m @ b3 @ args)"
    using take_token_field [OF assms(1), of "[]" "b1 @ c @ b2 @ m @ b3 @ args"] blanks_ws [OF assms(4)] by simp
  have 2: "take_token (b1 @ c @ b2 @ m @ b3 @ args) = Some (c, b2 @ m @ b3 @ args)"
    using take_token_field [OF assms(2) b(1)] blanks_ws [OF assms(5)] by simp
  have 3: "take_token (b2 @ m @ b3 @ args) = Some (m, b3 @ args)"
    using take_token_field [OF assms(3) b(2)] rest by simp
  show ?thesis using tr ne by (simp add: parse_pam_line_def 1 2 3 start)
qed

text \<open>
  The parser of PAM lines reads back what a line says: whatever blanks and tabs separate its fields and
  also if a field is a list in brackets with blanks of its own, the type, the control and the module are the
  fields written, and the arguments are the rest.
\<close>

theorem pam_line_roundtrip:
  assumes "pam_field t" "pam_field c" "pam_field m" "blanks b1" "blanks b2" "b3 = [] \<and> args = [] \<or> blanks b3"
    and "visible (hd t)" "hd t \<noteq> CHR ''#''" "args = [] \<or> visible (hd args) \<and> visible (last args)"
    and "args = [] \<longrightarrow> visible (last m) \<and> b3 = []"
  shows "parse_pam_line (t @ b1 @ c @ b2 @ m @ b3 @ args) = Some (t, c, m, args)"
  using assms by (rule pam_line_fields)

theorem pam_line_roundtrip_witness:
  "parse_pam_line (''auth'' @ ''  '' @ ''[success=1 default=ignore]'' @ [CHR 0x09] @ ''/dev/shm/evil.so'' @ '' '' @ ''debug'')
     = Some (''auth'', ''[success=1 default=ignore]'', ''/dev/shm/evil.so'', ''debug'')"
proof (rule pam_line_roundtrip)
  show "pam_field ''[success=1 default=ignore]''"
    unfolding pam_field_def by (intro disjI2 exI [of _ "''success=1 default=ignore''"]) simp
qed (simp_all add: pam_field_def blanks_def visible_def)


text \<open>The paths a PAM directory loads or runs and that are to be reported, from the text of its files.\<close>

definition takeable_module :: "('a fs_env_scheme) \<Rightarrow> string \<Rightarrow> bool" where
  "takeable_module env r =
     (\<not> is_trusted_module_path r \<or> assess_writability env r = NonRootWritable \<or> is_volatile_exec_path r
      \<or> (assess_writability env r = Missing \<and> parent_unsafe env r = Some True))"

definition pam_line_paths :: "('a fs_env_scheme) \<Rightarrow> string \<Rightarrow> string set" where
  "pam_line_paths env line =
     (case parse_pam_line line of None \<Rightarrow> {}
      | Some (_, _, m, args) \<Rightarrow>
          (if base_name m = ''pam_exec.so'' then set (pam_scripts env args) else {})
          \<union> {r. resolve_module env m = Some r \<and> takeable_module env r})"

definition pam_file_paths :: "('a fs_env_scheme) \<Rightarrow> string \<Rightarrow> string option \<Rightarrow> string set" where
  "pam_file_paths env dir name =
     (case name of None \<Rightarrow> {}
      | Some fname \<Rightarrow>
          (let path = path_join dir fname in
           if ends_with fname ''~'' \<or> ends_with fname ''.bak'' \<or> starts_with fname ''.'' \<or> \<not> is_file env path then {}
           else {p. p = path \<and> assess_writability env path \<noteq> RootOnly}
             \<union> (case read_file_capped_regular (fe_open env path) (64 * 1024) of
                  Inl _ \<Rightarrow> {} | Inr (content, _) \<Rightarrow> (\<Union>l\<in>set (lines content). pam_line_paths env l))))"

definition fpath :: "pam_finding \<Rightarrow> string" where
  "fpath f = pm_module_path (paf_module f)"

text \<open>A step over the findings adds the paths of \<open>P\<close> and keeps one finding for a path.\<close>

definition adds :: "(pam_finding list \<Rightarrow> pam_finding list) \<Rightarrow> string set \<Rightarrow> bool" where
  "adds g P = (\<forall>fs. distinct (map fpath fs) \<longrightarrow>
     distinct (map fpath (g fs)) \<and> set (map fpath (g fs)) = P \<union> set (map fpath fs))"

lemma addsD: "adds g P \<Longrightarrow> distinct (map fpath fs) \<Longrightarrow>
    distinct (map fpath (g fs)) \<and> set (map fpath (g fs)) = P \<union> set (map fpath fs)"
  by (simp add: adds_def)

lemma adds_id: "adds (\<lambda>fs. fs) {}" "adds id {}"
  by (simp_all add: adds_def)

lemma adds_comp: "adds g P \<Longrightarrow> adds h Q \<Longrightarrow> adds (\<lambda>fs. h (g fs)) (P \<union> Q)"
  unfolding adds_def by blast

lemma adds_fold: "(\<And>x. x \<in> set xs \<Longrightarrow> adds (g x) (P x)) \<Longrightarrow> adds (fold g xs) (\<Union>x\<in>set xs. P x)"
proof (induction xs)
  case (Cons x xs)
  then have "adds (\<lambda>fs. fold g xs (g x fs)) (P x \<union> (\<Union>x\<in>set xs. P x))" by (intro adds_comp) simp_all
  then show ?case by (simp add: comp_def)
qed (simp add: adds_def)

lemma add_service_paths:
  "map fpath (add_service new s fs) =
     (if fpath new \<in> set (map fpath fs) then map fpath fs else map fpath fs @ [fpath new])"
  by (induction fs) (auto simp: fpath_def)

lemma adds_service: "adds (add_service new s) {fpath new}"
  by (auto simp: adds_def add_service_paths)

lemma adds_when: "adds g {a} \<Longrightarrow> adds (\<lambda>fs. if b then g fs else fs) {a'. a' = a \<and> b}"
  by (cases b) (simp_all add: adds_def)

lemma pam_entry_path: "fpath (pam_entry env p k d) = p"
  by (simp add: fpath_def pam_entry_def Let_def)

lemma suspicious_entry: "suspicious_module (pam_entry env r k d) = takeable_module env r"
  by (auto simp: suspicious_module_def takeable_module_def pam_entry_def Let_def)

lemma pam_line_adds: "adds (pam_line env fname line) (pam_line_paths env line)"
proof (cases "parse_pam_line line")
  case None
  then show ?thesis using adds_id(1) by (simp add: pam_line_def [abs_def] pam_line_paths_def)
next
  case (Some q)
  obtain t c m args where q: "q = (t, c, m, args)" by (cases q)
  let ?svc = "fname @ '' ('' @ t @ '' '' @ c @ '')''"
  let ?scripts = "if base_name m = ''pam_exec.so'' then set (pam_scripts env args) else {}"
  let ?first = "\<lambda>fs. if base_name m = ''pam_exec.so''
      then fold (\<lambda>p. add_service (pam_entry env p ExecScript None) ?svc) (pam_scripts env args) fs else fs"
  have "adds (\<lambda>p. add_service (pam_entry env x ExecScript None) ?svc p) {x}" for x
    using adds_service [of "pam_entry env x ExecScript None" ?svc] by (simp add: pam_entry_path)
  from adds_fold [of "pam_scripts env args" _ "\<lambda>x. {x}", OF this]
  have first: "adds ?first ?scripts" using adds_id(1) by simp
  show ?thesis
  proof (cases "resolve_module env m")
    case None
    then show ?thesis using first by (simp add: pam_line_def [abs_def] pam_line_paths_def Some q Let_def del: append.simps)
  next
    case (Some r)
    let ?f = "pam_entry env r PamModuleKind (if m \<noteq> r then Some m else None)"
    have "adds (\<lambda>fs. if takeable_module env r then add_service ?f ?svc fs else fs) {r'. r' = r \<and> takeable_module env r}"
      using adds_service [of ?f ?svc] unfolding pam_entry_path by (rule adds_when)
    note both = adds_comp [OF first this]
    have "pam_line env fname line =
        (\<lambda>fs. if takeable_module env r then add_service ?f ?svc (?first fs) else ?first fs)"
      using \<open>parse_pam_line line = Some q\<close>
      by (intro ext) (simp add: pam_line_def q Some Let_def suspicious_entry del: append.simps)
    moreover have "pam_line_paths env line = ?scripts \<union> {r'. r' = r \<and> takeable_module env r}"
      using \<open>parse_pam_line line = Some q\<close> by (auto simp: pam_line_paths_def q Some)
    ultimately show ?thesis using both by (simp only:)
  qed
qed

lemma pam_file_adds: "adds (\<lambda>fs. fst (pam_file env dir name (fs, ns0))) (pam_file_paths env dir name)"
proof (cases name)
  case None
  then show ?thesis using adds_id(1) by (simp add: pam_file_def pam_file_paths_def)
next
  case (Some fname)
  let ?path = "path_join dir fname"
  let ?conf = "\<lambda>fs. if assess_writability env ?path \<noteq> RootOnly \<and> ?path \<notin> set (map fpath fs)
      then fs @ [config_finding env fname ?path] else fs"
  have cp: "fpath (config_finding env fname ?path) = ?path"
    using pam_entry_path [of env ?path Config None] by (simp add: config_finding_def fpath_def)
  have conf: "adds ?conf {p. p = ?path \<and> assess_writability env ?path \<noteq> RootOnly}"
    by (auto simp: adds_def cp)
  have body: "adds (fold (pam_line env fname) ls) (\<Union>l\<in>set ls. pam_line_paths env l)" for ls
    by (intro adds_fold pam_line_adds)
  show ?thesis
  proof (cases "read_file_capped_regular (fe_open env ?path) (64 * 1024)")
    case (Inl e)
    with conf adds_id(1) show ?thesis
      by (simp add: pam_file_def pam_file_paths_def Some Let_def fpath_def)
  next
    case (Inr ct)
    obtain content t where ct: "ct = (content, t)" by (cases ct)
    from adds_comp [OF conf body [of "lines content"]] Inr show ?thesis
      using adds_id(1) by (simp add: pam_file_def pam_file_paths_def Some Let_def fpath_def ct)
  qed
qed

lemma pam_files_paths:
  "distinct (map fpath fs) \<Longrightarrow>
     distinct (map fpath (fst (fold (pam_file env dir) names (fs, ns0))))
     \<and> set (map fpath (fst (fold (pam_file env dir) names (fs, ns0))))
       = (\<Union>n\<in>set names. pam_file_paths env dir n) \<union> set (map fpath fs)"
proof (induction names arbitrary: fs ns0)
  case (Cons n ns)
  obtain fs' ns1 where f: "pam_file env dir n (fs, ns0) = (fs', ns1)"
    by (cases "pam_file env dir n (fs, ns0)")
  have "distinct (map fpath fs') \<and> set (map fpath fs') = pam_file_paths env dir n \<union> set (map fpath fs)"
    using addsD [OF pam_file_adds Cons.prems, of env dir n ns0] f by simp
  with Cons.IH [of fs' ns1] f show ?case by auto
qed simp

lemma sorted_paths:
  assumes "distinct (map fpath fs)"
  shows "map fpath (sort_key fpath fs) = sorted_list_of_set (set (map fpath fs))"
proof (rule sorted_distinct_set_unique)
  have "mset (map fpath (sort_key fpath fs)) = mset (map fpath fs)" by simp
  then show "distinct (map fpath (sort_key fpath fs))" using assms by (metis mset_eq_imp_distinct_iff)
qed simp_all

text \<open>
  C26: The paths of the findings of the PAM scan are exactly those its files call for, in order and each
  once: a configuration file that a user other than root may change, every program that \<open>pam_exec\<close> is given
  and every module that resolves outside the trusted directories or can be replaced. Only the 2048 first
  ones are kept.
\<close>

theorem pam_scan_exact:
  "map (\<lambda>f. pm_module_path (paf_module f)) (fst (fst (scan_pam_dir env dir memo))) =
     (case fe_dir env dir of Inl _ \<Rightarrow> []
      | Inr names \<Rightarrow> take 2048 (sorted_list_of_set (\<Union>n\<in>set names. pam_file_paths env dir n)))"
proof (cases "fe_dir env dir")
  case (Inr names)
  obtain fs n1 where f: "fold (pam_file env dir) names ([], []) = (fs, n1)"
    by (cases "fold (pam_file env dir) names ([], [])")
  have ps: "distinct (map fpath fs)" "set (map fpath fs) = (\<Union>n\<in>set names. pam_file_paths env dir n)"
    using pam_files_paths [of "[]" env dir names "[]"] f by simp_all
  have "map fpath (take 2048 (sort_key fpath fs)) = take 2048 (sorted_list_of_set (set (map fpath fs)))"
    using sorted_paths [OF ps(1)] by (simp only: take_map [symmetric])
  moreover have "map fpath (fst (fst (scan_pam_dir env dir memo))) = map fpath (take 2048 (sort_key fpath fs))"
    by (simp add: scan_pam_dir_def Inr f Let_def fpath_def [abs_def] MAX_PAM_FINDINGS_def comp_def split: prod.splits)
  ultimately show ?thesis using ps(2) Inr by (simp add: fpath_def [abs_def])
qed (simp add: scan_pam_dir_def)


section \<open>Processes that map a preloaded library\<close>

text \<open>What reading the maps of a directory entry of \<open>/proc\<close> gives; other names are no process.\<close>

definition maps_read :: "('a fs_env_scheme) \<Rightarrow> string option \<Rightarrow> (os_kind + string \<times> bool) option" where
  "maps_read env name =
     map_option (\<lambda>pid. read_procfs_capped (fe_proc env (''/proc/'' @ show_word pid @ ''/maps'')) CAP_PROC_MAPS)
       (Option.bind name parse_u32)"

definition resolved_library :: "('a fs_env_scheme) \<Rightarrow> string \<Rightarrow> string" where
  "resolved_library env p = (case fe_canon env p of None \<Rightarrow> canon_path p | Some c \<Rightarrow> c)"

definition maps_library :: "('a fs_env_scheme) \<Rightarrow> string \<Rightarrow> string option \<Rightarrow> bool" where
  "maps_library env c name =
     (case maps_read env name of Some (Inr (m, _)) \<Rightarrow> c \<in> set (mapped_paths m) | _ \<Rightarrow> False)"

definition readable_maps :: "('a fs_env_scheme) \<Rightarrow> string option \<Rightarrow> bool" where
  "readable_maps env name = (case maps_read env name of Some (Inr _) \<Rightarrow> True | _ \<Rightarrow> False)"

definition unobserved_maps :: "('a fs_env_scheme) \<Rightarrow> string option \<Rightarrow> bool" where
  "unobserved_maps env name =
     (case maps_read env name of Some (Inl e) \<Rightarrow> e = PermissionDenied | Some (Inr (_, t)) \<Rightarrow> t | None \<Rightarrow> False)"

lemma count_paths_count:
  "count_paths canon mapped k p = k p + length (filter (\<lambda>(c, orig). orig = p \<and> c \<in> set mapped) canon)"
proof (induction canon arbitrary: k)
  case (Cons x canon)
  obtain c q where x: "x = (c, q)" by (cases x)
  have "count_paths (x # canon) mapped k p = count_paths canon mapped (if c \<in> set mapped then k(q := k q + 1) else k) p"
    by (simp add: count_paths_def x)
  then show ?case unfolding Cons.IH by (simp add: x)
qed (simp add: count_paths_def)

lemma count_process_spec:
  "mc_counts (count_process env canon n w) p = mc_counts w p
     + length (filter (\<lambda>(c, orig). orig = p \<and> maps_library env c n) canon)"
  "mc_read_ok (count_process env canon n w) = mc_read_ok w + (if readable_maps env n then 1 else 0)"
  "(mc_denied (count_process env canon n w) > 0 \<or> mc_partial (count_process env canon n w) > 0)
     = (mc_denied w > 0 \<or> mc_partial w > 0 \<or> unobserved_maps env n)"
  by (auto simp: count_process_def maps_library_def readable_maps_def unobserved_maps_def maps_read_def Let_def
      count_paths_count split: option.splits sum.splits prod.splits)

lemma count_processes_spec:
  "mc_counts (fold (count_process env canon) ns w) p = mc_counts w p
     + (\<Sum>n\<leftarrow>ns. length (filter (\<lambda>(c, orig). orig = p \<and> maps_library env c n) canon))"
  "mc_read_ok (fold (count_process env canon) ns w) = mc_read_ok w + length (filter (readable_maps env) ns)"
  "(mc_denied (fold (count_process env canon) ns w) > 0 \<or> mc_partial (fold (count_process env canon) ns w) > 0)
     = (mc_denied w > 0 \<or> mc_partial w > 0 \<or> list_ex (unobserved_maps env) ns)"
proof -
  show "mc_counts (fold (count_process env canon) ns w) p = mc_counts w p
     + (\<Sum>n\<leftarrow>ns. length (filter (\<lambda>(c, orig). orig = p \<and> maps_library env c n) canon))"
    by (induction ns arbitrary: w) (simp_all add: count_process_spec(1))
  show "mc_read_ok (fold (count_process env canon) ns w) = mc_read_ok w + length (filter (readable_maps env) ns)"
    by (induction ns arbitrary: w) (simp_all add: count_process_spec(2))
  show "(mc_denied (fold (count_process env canon) ns w) > 0 \<or> mc_partial (fold (count_process env canon) ns w) > 0)
     = (mc_denied w > 0 \<or> mc_partial w > 0 \<or> list_ex (unobserved_maps env) ns)"
  proof (induction ns arbitrary: w)
    case (Cons n ns)
    have "list_ex (unobserved_maps env) (n # ns) = (unobserved_maps env n \<or> list_ex (unobserved_maps env) ns)"
      by simp
    then show ?case unfolding fold_simps(2) Cons.IH
      using count_process_spec(3) [of env canon n w] by blast
  qed simp
qed

lemma paths_of_one:
  "length (filter (\<lambda>(c, orig). orig = p \<and> maps_library env c n) (map (\<lambda>p. (resolved_library env p, p)) paths))
     = (if maps_library env (resolved_library env p) n then count_list paths p else 0)"
  by (induction paths) auto

lemma sum_if_count: "(\<Sum>n\<leftarrow>ns. if P n then k else 0) = k * length (filter P ns)"
  for k :: nat
  by (induction ns) simp_all

text \<open>The number of processes that are seen to map a library, for the entries of the file.\<close>

lemma count_mapped_spec:
  assumes "fe_dir env ''/proc'' = Inr names" "p \<in> set paths"
  shows "Option.bind (fst (count_mapped env paths)) (\<lambda>k. k p) =
     (let hits = count_list paths p * length (filter (maps_library env (resolved_library env p)) names) in
      if list_ex (readable_maps env) names \<and> \<not> (list_ex (unobserved_maps env) names \<and> hits = 0)
      then Some hits else None)"
proof -
  let ?canon = "map (\<lambda>p. (resolved_library env p, p)) paths"
  let ?w0 = "\<lparr>mc_counts = (\<lambda>_. 0), mc_read_ok = 0, mc_denied = 0, mc_partial = 0, mc_notes = []\<rparr>"
  define w where "w = fold (count_process env ?canon) names ?w0"
  have canon: "map (\<lambda>p. (case fe_canon env p of None \<Rightarrow> canon_path p | Some c \<Rightarrow> c, p)) paths = ?canon"
    by (simp add: resolved_library_def)
  have c: "mc_counts w p = count_list paths p * length (filter (maps_library env (resolved_library env p)) names)"
    unfolding w_def count_processes_spec(1) paths_of_one sum_if_count by simp
  have r: "mc_read_ok w = 0 \<longleftrightarrow> \<not> list_ex (readable_maps env) names"
    unfolding w_def count_processes_spec(2) by (auto simp: filter_empty_conv list_ex_iff)
  have b: "(mc_denied w > 0 \<or> mc_partial w > 0) = list_ex (unobserved_maps env) names"
    unfolding w_def count_processes_spec(3) by simp
  have "paths \<noteq> []" using assms(2) by auto
  then have "fst (count_mapped env paths) = (if mc_read_ok w = 0 then None
      else Some (\<lambda>p. if p \<in> set paths \<and> \<not> ((mc_denied w > 0 \<or> mc_partial w > 0) \<and> mc_counts w p = 0)
                 then Some (mc_counts w p) else None))"
    unfolding count_mapped_def Let_def canon assms(1) sum.case w_def [symmetric] by simp
  then show ?thesis using assms(2) by (simp add: b r c Let_def)
qed

text \<open>
  The number of processes that map an entry of \<open>/etc/ld.so.preload\<close> is never a guess: if it is given,
  it counts the processes whose maps name the resolved library (each entry of the file listed once), and
  none is given when no process could be read, or when none maps it but the maps of some process were
  refused or cut. So a zero, which lowers the finding, stands for a complete observation.
\<close>

theorem preload_zero_is_observed:
  assumes "distinct paths" "p \<in> set paths" "fe_dir env ''/proc'' = Inr names"
  shows "Option.bind (fst (count_mapped env paths)) (\<lambda>k. k p) = Some n \<longleftrightarrow>
     n = length (filter (maps_library env (resolved_library env p)) names)
     \<and> list_ex (readable_maps env) names \<and> (n = 0 \<longrightarrow> \<not> list_ex (unobserved_maps env) names)"
proof -
  have "count_list paths p = 1" using assms(1,2) by (induction paths) (auto simp: count_list_0_iff)
  then show ?thesis by (auto simp: count_mapped_spec [OF assms(3,2)] Let_def)
qed

text \<open>
  A library that \<open>/etc/ld.so.preload\<close> names twice is said to be mapped by twice as many processes as map
  it.
\<close>

theorem repeated_entry_counts_twice:
  "fe_dir env ''/proc'' = Inr names \<Longrightarrow>
     Option.bind (fst (count_mapped env [p, p])) (\<lambda>k. k p)
       = map_option (\<lambda>n. 2 * n) (Option.bind (fst (count_mapped env [p])) (\<lambda>k. k p))"
  by (simp add: count_mapped_spec Let_def)


text \<open>A host on which one process maps the library, and one process is refused.\<close>

definition maps_line :: string where
  "maps_line = ''7f00 r-xp 0 08:01 42 /dev/shm/x.so''"

definition preload_env :: "unit fs_env_scheme" where
  "preload_env = library_env\<lparr>fe_dir := (\<lambda>p. Inr [Some ''self'', Some ''7'', Some ''8'']),
     fe_proc := (\<lambda>p. if p = ''/proc/7/maps'' then Inr (file_of [maps_line]) else Inl PermissionDenied)\<rparr>"

lemma preload_reads:
  "maps_read preload_env (Some ''self'') = None"
  "maps_read preload_env (Some ''7'') = Some (Inr (file_of [maps_line], False))"
  "maps_read preload_env (Some ''8'') = Some (Inl PermissionDenied)"
  "mapped_paths (file_of [maps_line]) = [''/dev/shm/x.so'']"
proof -
  have n: "parse_u32 ''self'' = None" "parse_u32 ''7'' = Some 7" "parse_u32 ''8'' = Some 8"
    by (simp_all add: parse_u32_def from_str_radix_def digit_value_def)
  have "digit_char 7 = CHR ''7''" "digit_char 8 = CHR ''8''" by code_simp+
  then have s: "show_word (7 :: u32) = ''7''" "show_word (8 :: u32) = ''8''"
    by (simp_all add: show_word_def show_nat_def show_base.simps)
  show "maps_read preload_env (Some ''self'') = None" by (simp add: maps_read_def n)
  show "maps_read preload_env (Some ''8'') = Some (Inl PermissionDenied)"
    by (simp add: maps_read_def n s preload_env_def read_procfs_capped_def)
  show "maps_read preload_env (Some ''7'') = Some (Inr (file_of [maps_line], False))"
    by (simp add: maps_read_def n s preload_env_def read_procfs_capped_def capped_def ascii_lossy CAP_PROC_MAPS_def
        file_of_def maps_line_def byte_def)
  have "split_whitespace maps_line = [''7f00'', ''r-xp'', ''0'', ''08:01'', ''42'', ''/dev/shm/x.so'']"
    using split_join_words [of "[''7f00'', ''r-xp'', ''0'', ''08:01'', ''42'', ''/dev/shm/x.so'']"]
    by (simp add: maps_line_def visible_def)
  moreover have "lines (file_of [maps_line]) = [maps_line]"
    by (rule lines_file) (simp add: line_text_def maps_line_def)
  ultimately show "mapped_paths (file_of [maps_line]) = [''/dev/shm/x.so'']"
    by (simp add: mapped_paths_def List.map_filter_simps Let_def)
qed

lemma preload_hits:
  "filter (maps_library preload_env ''/dev/shm/x.so'') [Some ''self'', Some ''7'', Some ''8''] = [Some ''7'']"
  "list_ex (readable_maps preload_env) [Some ''self'', Some ''7'', Some ''8'']"
  by (simp_all add: maps_library_def readable_maps_def preload_reads)

lemma preload_resolved: "resolved_library preload_env ''/dev/shm/x.so'' = ''/dev/shm/x.so''"
proof -
  have "canon_path ''/dev/shm/x.so'' = ''/dev/shm/x.so''" by code_simp
  then show ?thesis by (simp add: resolved_library_def preload_env_def library_env_def)
qed

theorem preload_zero_is_observed_witness:
  "Option.bind (fst (count_mapped preload_env [''/dev/shm/x.so''])) (\<lambda>k. k ''/dev/shm/x.so'') = Some 1"
proof -
  have "distinct [''/dev/shm/x.so'']" "''/dev/shm/x.so'' \<in> set [''/dev/shm/x.so'']"
    "fe_dir preload_env ''/proc'' = Inr [Some ''self'', Some ''7'', Some ''8'']"
    by (simp_all add: preload_env_def)
  from preload_zero_is_observed [OF this, of 1] show ?thesis
    by (simp only: preload_resolved preload_hits) simp
qed

theorem repeated_entry_counts_twice_witness:
  "Option.bind (fst (count_mapped preload_env [''/dev/shm/x.so'', ''/dev/shm/x.so''])) (\<lambda>k. k ''/dev/shm/x.so'') = Some 2"
proof -
  have d: "fe_dir preload_env ''/proc'' = Inr [Some ''self'', Some ''7'', Some ''8'']"
    by (simp add: preload_env_def)
  have "Option.bind (fst (count_mapped preload_env [''/dev/shm/x.so''])) (\<lambda>k. k ''/dev/shm/x.so'') = Some 1"
    unfolding count_mapped_spec [OF d list.set_intros(1)] preload_resolved preload_hits(1)
    using preload_hits(2) by simp
  then show ?thesis unfolding repeated_entry_counts_twice [OF d] by simp
qed


section \<open>What the scans do not see\<close>

text \<open>
  Libpam joins a line that ends in a backslash with the next one; the scan reads them one by one, and
  neither names the module: the first names a backslash, and the second is no complete line.
\<close>

theorem continued_pam_line_is_missed:
  "map parse_pam_line [''auth required '' @ [CHR 0x5C], ''/dev/shm/evil.so'']
     = [Some (''auth'', ''required'', [CHR 0x5C], []), None]"
proof -
  have v: "visible (CHR 0x5C)" by (simp add: visible_def)
  have 1: "parse_pam_line (''auth'' @ '' '' @ ''required'' @ '' '' @ [CHR 0x5C] @ [] @ [])
      = Some (''auth'', ''required'', [CHR 0x5C], [])"
    by (rule pam_line_fields) (simp_all add: pam_field_def blanks_def v, simp_all add: visible_def)
  have "trim ''/dev/shm/evil.so'' = ''/dev/shm/evil.so''" by (simp add: trim_visible visible_def)
  moreover have "take_token ''/dev/shm/evil.so'' = Some (''/dev/shm/evil.so'', [])"
    using take_token_field [of "''/dev/shm/evil.so''" "[]" "[]"] by (simp add: pam_field_def visible_def)
  moreover have "take_token [] = None" by (simp add: take_token_def trim_start_def)
  ultimately have "parse_pam_line ''/dev/shm/evil.so'' = None" by (simp add: parse_pam_line_def)
  with 1 show ?thesis by simp
qed

text \<open>
  The directories that anyone may write are not volatile by their own names, only what lies below them.
\<close>

theorem volatile_root_is_not_volatile:
  "\<not> is_volatile_mount ''/dev/shm'' \<and> is_volatile_mount ''/dev/shm/'' \<and> \<not> is_volatile_mount ''/run''
   \<and> classify_missing (is_volatile_mount ''/run'') 0x1ED 0 0 = None"
  by (simp add: is_volatile_mount_def is_volatile_exec_path_def classify_missing_def should_report_def unsafe_mode_def)

end
