(* ===== verification/Hardening.thy ===== *)
theory Hardening
  imports ScanText
begin

text \<open>
  \<open>scanners/systemd_hardening.rs\<close> (SEC-081): the hardening of running services as \<open>systemctl show\<close>
  reports it. The tool is a parameter: what a call with these arguments gives, if it ends in time.
\<close>

definition DIRECTIVES :: "(string \<times> u8) list" where
  "DIRECTIVES =
     [(''NoNewPrivileges'', 10), (''ProtectSystem'', 8), (''ProtectKernelTunables'', 8),
      (''ProtectKernelModules'', 8), (''ProtectHome'', 5), (''PrivateTmp'', 5), (''PrivateDevices'', 5),
      (''ProtectControlGroups'', 5), (''RestrictAddressFamilies'', 5)]"

definition ROOT_IRRELEVANT :: "string list" where
  "ROOT_IRRELEVANT = [''NoNewPrivileges'', ''ProtectHome'']"

definition SYSTEMCTL_TIMEOUT_SECS :: nat where "SYSTEMCTL_TIMEOUT_SECS = 30"
definition SHOW_BATCH :: nat where "SHOW_BATCH = 256"

definition VENDOR_UNIT_DIRS :: "string list" where
  "VENDOR_UNIT_DIRS = [''/usr/lib/systemd/system/'', ''/lib/systemd/system/'']"

definition is_vendor_unit :: "string \<Rightarrow> bool" where
  "is_vendor_unit fragment = list_ex (\<lambda>d. starts_with fragment d) VENDOR_UNIT_DIRS"

definition is_systemd_internal :: "string \<Rightarrow> string \<Rightarrow> bool" where
  "is_systemd_internal unit fragment = (starts_with unit ''systemd-'' \<and> is_vendor_unit fragment)"

definition is_runtime_artifact :: "string \<Rightarrow> string \<Rightarrow> bool" where
  "is_runtime_artifact unit fragment =
     (starts_with fragment ''/run/systemd/transient/''
      \<or> (starts_with unit ''user@'' \<and> is_vendor_unit fragment \<and> ends_with fragment ''/user@.service''))"

definition is_unhardened :: "string \<Rightarrow> string \<Rightarrow> bool" where
  "is_unhardened directive val =
     (if directive \<in> {''NoNewPrivileges'', ''PrivateTmp'', ''PrivateDevices'', ''ProtectKernelTunables'',
                       ''ProtectKernelModules'', ''ProtectControlGroups''} then val \<noteq> ''yes''
      else if directive = ''ProtectSystem'' then val \<notin> {''yes'', ''full'', ''strict''}
      else if directive = ''ProtectHome'' then val \<notin> {''yes'', ''read-only'', ''tmpfs''}
      else if directive = ''RestrictAddressFamilies'' then trim val = []
      else False)"

text \<open>A record of properties: of two lines with one key the later counts.\<close>

type_synonym unit_props = "string \<rightharpoonup> string"

definition parse_show :: "string \<Rightarrow> unit_props" where
  "parse_show out =
     map_of (rev (map (\<lambda>(k, v). (trim k, v)) (List.map_filter (split_once (CHR ''='')) (lines out))))"

definition parse_show_records :: "string \<Rightarrow> unit_props list" where
  "parse_show_records out =
     filter (\<lambda>r. r ''Id'' \<noteq> None) (map parse_show (split_str [CHR 0x0A, CHR 0x0A] out))"

definition out_of_scope :: "unit_props \<Rightarrow> string \<Rightarrow> string \<Rightarrow> bool" where
  "out_of_scope props unit fragment =
     (props ''LoadState'' = Some ''not-found''
      \<or> props ''ActiveState'' \<in> {Some ''inactive'', Some ''failed''}
      \<or> is_systemd_internal unit fragment \<or> is_runtime_artifact unit fragment)"

definition prop_or_empty :: "unit_props \<Rightarrow> string \<Rightarrow> string" where
  "prop_or_empty props k = (case props k of None \<Rightarrow> [] | Some v \<Rightarrow> v)"

definition unit_is_root :: "unit_props \<Rightarrow> bool" where
  "unit_is_root props =
     (props ''DynamicUser'' \<noteq> Some ''yes'' \<and> prop_or_empty props ''User'' \<in> {[], ''root'', ''0''})"

definition missing_directives :: "unit_props \<Rightarrow> (string \<times> u8) list" where
  "missing_directives props =
     filter (\<lambda>(n, w). \<not> (unit_is_root props \<and> n \<in> set ROOT_IRRELEVANT)
               \<and> (case props n of None \<Rightarrow> True | Some v \<Rightarrow> is_unhardened n v)) DIRECTIVES"

definition evaluate_unit :: "unit_props \<Rightarrow> hardening_finding option" where
  "evaluate_unit props =
     (case props ''Id'' of
        None \<Rightarrow> None
      | Some unit \<Rightarrow>
          (let fragment = prop_or_empty props ''FragmentPath'';
               missing = missing_directives props;
               raw = fold (\<lambda>(n, w) acc. acc + ucast w) missing (0 :: u16);
               dynamic = (props ''DynamicUser'' = Some ''yes'');
               user = prop_or_empty props ''User''
           in if out_of_scope props unit fragment then None
              else if missing = [] then None
              else Some \<lparr>hf_unit = unit, hf_missing = map fst missing, hf_raw_weight = ucast (min raw 255),
                     hf_user = (if unit_is_root props then ''root''
                                else if dynamic \<and> user = [] then ''dynamic'' else user),
                     hf_fragment_path = fragment\<rparr>))"

section \<open>The scan\<close>

record systemctl_env =
  sy_resolved :: bool
  sy_run :: "string list \<Rightarrow> child_output option"

definition LIST_UNITS :: "string list" where
  "LIST_UNITS =
     [''list-units'', ''--type=service'', ''--state=running'', ''--no-legend'', ''--plain'', ''--no-pager'']"

definition running_services :: "string \<Rightarrow> string list" where
  "running_services out =
     filter (\<lambda>u. ends_with u ''.service'')
       (List.map_filter (\<lambda>l. case split_whitespace l of [] \<Rightarrow> None | w # _ \<Rightarrow> Some w) (lines out))"

definition SHOW_PROPS :: string where
  "SHOW_PROPS =
     join '','' (''Id,LoadState,ActiveState,FragmentPath,User,DynamicUser'' # map fst DIRECTIVES)"

definition show_args :: "string list \<Rightarrow> string list" where
  "show_args batch = [''show'', ''--no-pager'', ''-p'', SHOW_PROPS] @ batch"

text \<open>The records a batch is answered with, if it is answered.\<close>

definition batch_records :: "systemctl_env \<Rightarrow> string list \<Rightarrow> unit_props list option" where
  "batch_records env batch =
     (case sy_run env (show_args batch) of
        Some o' \<Rightarrow> if co_success o' then Some (parse_show_records (from_utf8_lossy (co_stdout o'))) else None
      | None \<Rightarrow> None)"

definition show_batch ::
  "systemctl_env \<Rightarrow> string list \<Rightarrow> hardening_finding list \<times> nat \<Rightarrow> hardening_finding list \<times> nat" where
  "show_batch env batch acc =
     (case batch_records env batch of
        None \<Rightarrow> (fst acc, snd acc + length batch)
      | Some rs \<Rightarrow>
          (fst acc @ List.map_filter evaluate_unit rs,
           snd acc + length (filter (\<lambda>u. u \<notin> set (List.map_filter (\<lambda>r. r ''Id'') rs)) batch)))"

definition hardening_key :: "hardening_finding \<Rightarrow> nat \<times> string" where
  "hardening_key f = (255 - unat (hf_raw_weight f), hf_unit f)"

definition scan_systemd_hardening :: "systemctl_env \<Rightarrow> hardening_finding list \<times> string list" where
  "scan_systemd_hardening env =
     (if \<not> sy_resolved env then
        ([], [''systemd hardening scan skipped: `systemctl` not resolvable (missing, or on a path writable by a non-root principal)''])
      else (case sy_run env LIST_UNITS of
        None \<Rightarrow>
          ([], [''systemd hardening scan: `systemctl list-units` did not finish within '' @ show_nat SYSTEMCTL_TIMEOUT_SECS
                @ ''s or could not be spawned '' @ em_dash @ '' SEC-081 NOT evaluated''])
      | Some o' \<Rightarrow>
          if \<not> co_success o' then
            ([], [''systemd hardening scan: list-units failed (status '' @ co_status o' @ ''): ''
                  @ trim (from_utf8_lossy (co_stderr o'))])
          else
            (let units = running_services (from_utf8_lossy (co_stdout o')) in
             if units = [] then ([], [])
             else (case fold (show_batch env) (chunks SHOW_BATCH units) ([], 0) of
               (found, unanswered) \<Rightarrow>
                 (sort_key hardening_key found,
                  if unanswered > 0 then
                    [''systemd hardening scan: '' @ show_nat unanswered
                     @ '' running service(s) returned no properties (systemctl failed or exceeded ''
                     @ show_nat SYSTEMCTL_TIMEOUT_SECS @ ''s) '' @ em_dash @ '' SEC-081 list is a LOWER BOUND'']
                  else [])))))"

end
