(* ===== verification/HardeningLaws.thy ===== *)
theory HardeningLaws
  imports Hardening
begin

text \<open>
  What the hardening scan promises: a finding says exactly what is missing and weighs its sum, the output of
  \<open>systemctl show\<close> is read back as the properties printed, and a scan without a note has judged every service.
\<close>

section \<open>One unit\<close>

lemma fold_weights:
  "sum_list (map (unat \<circ> snd) ds) < 256 \<Longrightarrow>
     unat (fold (\<lambda>(n, w) acc. acc + ucast w) ds (0 :: u16)) = sum_list (map (unat \<circ> snd) ds)"
  for ds :: "(string \<times> u8) list"
proof -
  have "unat acc + sum_list (map (unat \<circ> snd) ds) < 65536 \<Longrightarrow>
      unat (fold (\<lambda>(n, w) acc. acc + ucast w) ds acc) = unat acc + sum_list (map (unat \<circ> snd) ds)"
    for acc :: u16
  proof (induction ds arbitrary: acc)
    case (Cons d ds)
    obtain n w where d: "d = (n, w)" by (cases d)
    have "unat w < 2 ^ 8" using unsigned_less [of w] by simp
    then have "unat (ucast w :: u16) = unat w" by (simp add: unsigned_ucast_eq take_bit_nat_eq_self)
    then have "unat (acc + ucast w) = unat acc + unat w"
      using Cons.prems by (simp add: d unat_word_ariths)
    then show ?case using Cons.IH [of "acc + ucast w"] Cons.prems by (simp add: d)
  qed simp
  from this [of 0] show "sum_list (map (unat \<circ> snd) ds) < 256 \<Longrightarrow> ?thesis" by simp
qed

lemma sum_filter_le: "sum_list (map g (filter P xs)) \<le> sum_list (map g xs)"
  for g :: "'a \<Rightarrow> nat"
  by (induction xs) auto

lemma missing_weight: "sum_list (map (unat \<circ> snd) (missing_directives props)) \<le> 59"
proof -
  have "sum_list (map (unat \<circ> snd) DIRECTIVES) = 59" by (simp add: DIRECTIVES_def)
  then show ?thesis
    unfolding missing_directives_def using sum_filter_le [of "unat \<circ> snd" _ DIRECTIVES] by simp
qed

lemma weight_of_missing:
  "sum_list (map (unat \<circ> snd) (missing_directives props))
     = (\<Sum>d\<leftarrow>map fst (missing_directives props). unat (the (map_of DIRECTIVES d)))"
proof -
  have "unat (the (map_of DIRECTIVES (fst d))) = unat (snd d)" if "d \<in> set DIRECTIVES" for d
    using that by (auto simp: DIRECTIVES_def)
  then have "map (unat \<circ> snd) (missing_directives props)
      = map ((\<lambda>d. unat (the (map_of DIRECTIVES d))) \<circ> fst) (missing_directives props)"
    by (intro map_cong refl) (simp add: missing_directives_def)
  then show ?thesis unfolding map_map by (rule arg_cong)
qed

lemma missing_names:
  "set (map fst (missing_directives props)) = {d. d \<in> fst ` set DIRECTIVES
     \<and> \<not> (unit_is_root props \<and> d \<in> set ROOT_IRRELEVANT) \<and> (\<forall>v. props d = Some v \<longrightarrow> is_unhardened d v)}"
proof -
  have "fst ` set (filter (\<lambda>(n, w). P n) ds) = {d. d \<in> fst ` set ds \<and> P d}" for P and ds :: "(string \<times> u8) list"
    by (induction ds) auto
  moreover have "(case o' of None \<Rightarrow> True | Some v \<Rightarrow> q v) = (\<forall>v. o' = Some v \<longrightarrow> q v)" for o' :: "string option" and q
    by (cases o') auto
  ultimately show ?thesis unfolding missing_directives_def set_map by simp
qed

text \<open>
  A finding about a service weighs the sum of the weights of the directives it lists as missing, without
  wrapping or saturating: at least one is missing, the weight is at most 59, and at most 44 for a unit that
  runs as root, where two of the directives do not count. A directive is listed exactly when it counts and
  its effective value does not harden the unit.
\<close>

theorem hardening_weight_exact:
  assumes "evaluate_unit props = Some f"
  shows "unat (hf_raw_weight f) = (\<Sum>d\<leftarrow>hf_missing f. unat (the (map_of DIRECTIVES d)))
     \<and> 0 < unat (hf_raw_weight f) \<and> unat (hf_raw_weight f) \<le> (if unit_is_root props then 44 else 59)
     \<and> set (hf_missing f) = {d. d \<in> fst ` set DIRECTIVES \<and> \<not> (unit_is_root props \<and> d \<in> set ROOT_IRRELEVANT)
         \<and> (\<forall>v. props d = Some v \<longrightarrow> is_unhardened d v)}"
proof -
  let ?m = "missing_directives props" and ?raw = "fold (\<lambda>(n, w) acc. acc + ucast w) (missing_directives props) (0 :: u16)"
  have f: "hf_missing f = map fst ?m" "hf_raw_weight f = ucast (min ?raw 255)" "?m \<noteq> []"
    using assms by (auto simp: evaluate_unit_def Let_def split: option.splits if_splits)
  have lt: "sum_list (map (unat \<circ> snd) ?m) < 256" using missing_weight [of props] by linarith
  have raw: "unat ?raw = sum_list (map (unat \<circ> snd) ?m)" by (rule fold_weights [OF lt])
  have "?raw \<le> 255" unfolding word_le_nat_alt raw using lt by simp
  then have "hf_raw_weight f = ucast ?raw" by (simp add: f(2) min_def)
  then have w: "unat (hf_raw_weight f) = sum_list (map (unat \<circ> snd) ?m)"
    using raw missing_weight [of props] by (simp add: unsigned_ucast_eq take_bit_nat_eq_self)
  have pos: "0 < sum_list (map (unat \<circ> snd) ?m)"
  proof -
    obtain d ds where m: "?m = d # ds" using f(3) by (cases ?m) auto
    have "set ?m \<subseteq> set DIRECTIVES" by (auto simp: missing_directives_def)
    moreover have "list_all (\<lambda>d. 0 < unat (snd d)) DIRECTIVES" by (simp add: DIRECTIVES_def)
    ultimately have "0 < unat (snd d)" unfolding m list_all_iff by simp
    then show ?thesis using m by simp
  qed
  have root: "sum_list (map (unat \<circ> snd) ?m) \<le> 44" if "unit_is_root props"
  proof -
    have "?m = filter (\<lambda>(n, w). case props n of None \<Rightarrow> True | Some v \<Rightarrow> is_unhardened n v)
        (filter (\<lambda>d. fst d \<notin> set ROOT_IRRELEVANT) DIRECTIVES)"
      using that unfolding missing_directives_def filter_filter case_prod_beta by (intro filter_cong) auto
    moreover have "sum_list (map (unat \<circ> snd) (filter (\<lambda>d. fst d \<notin> set ROOT_IRRELEVANT) DIRECTIVES)) = 44"
      by (simp add: DIRECTIVES_def ROOT_IRRELEVANT_def)
    ultimately show ?thesis
      using sum_filter_le [of "unat \<circ> snd" _ "filter (\<lambda>d. fst d \<notin> set ROOT_IRRELEVANT) DIRECTIVES"] by simp
  qed
  have "set (map fst ?m) = {d. d \<in> fst ` set DIRECTIVES \<and> \<not> (unit_is_root props \<and> d \<in> set ROOT_IRRELEVANT)
         \<and> (\<forall>v. props d = Some v \<longrightarrow> is_unhardened d v)}"
    using missing_names [of props] by simp
  then show ?thesis using w pos root missing_weight [of props] weight_of_missing [of props] by (auto simp: f(1))
qed

theorem hardening_weight_exact_witness:
  "\<exists>f. evaluate_unit [''Id'' \<mapsto> ''app.service'', ''User'' \<mapsto> ''root''] = Some f \<and> unat (hf_raw_weight f) \<le> 44"
proof -
  let ?p = "[''Id'' \<mapsto> ''app.service'', ''User'' \<mapsto> ''root''] :: unit_props"
  have r: "unit_is_root ?p" by (simp add: unit_is_root_def prop_or_empty_def)
  have "''PrivateTmp'' \<in> set (map fst (missing_directives ?p))"
    unfolding missing_names by (simp add: DIRECTIVES_def ROOT_IRRELEVANT_def)
  then have m: "missing_directives ?p \<noteq> []" by auto
  have "\<not> out_of_scope ?p ''app.service'' []"
    by (simp add: out_of_scope_def is_systemd_internal_def is_runtime_artifact_def)
  then have "evaluate_unit ?p \<noteq> None" using m by (simp add: evaluate_unit_def prop_or_empty_def Let_def)
  then obtain f where f: "evaluate_unit ?p = Some f" by blast
  from hardening_weight_exact [OF this] r f show ?thesis by auto
qed

section \<open>The output of the tool\<close>

text \<open>A text without two line feeds in a row that does not end in one.\<close>

fun single_spaced :: "string \<Rightarrow> bool" where
  "single_spaced [] = True"
| "single_spaced [c] = (c \<noteq> CHR 0x0A)"
| "single_spaced (c # d # s) = (\<not> (c = CHR 0x0A \<and> d = CHR 0x0A) \<and> single_spaced (d # s))"

lemma split_single_spaced:
  "single_spaced a \<Longrightarrow> split_once_str [CHR 0x0A, CHR 0x0A] (a @ [CHR 0x0A, CHR 0x0A] @ b) = Some (a, b)"
  by (induction a rule: single_spaced.induct) auto

lemma single_spaced_no_split:
  "single_spaced a \<Longrightarrow> split_once_str [CHR 0x0A, CHR 0x0A] (a @ [CHR 0x0A]) = None"
  by (induction a rule: single_spaced.induct) auto

lemma single_spaced_line: "CHR 0x0A \<notin> set l \<Longrightarrow> single_spaced l"
  by (induction l rule: single_spaced.induct) auto

lemma single_spaced_append:
  "CHR 0x0A \<notin> set l \<Longrightarrow> s \<noteq> [] \<Longrightarrow> hd s \<noteq> CHR 0x0A \<Longrightarrow> l \<noteq> [] \<Longrightarrow> single_spaced s
    \<Longrightarrow> single_spaced (l @ CHR 0x0A # s)"
  by (induction l rule: single_spaced.induct; cases s) auto

text \<open>A property as it is printed: the key is a word, the value any text on one line.\<close>

definition prop_ok :: "string \<times> string \<Rightarrow> bool" where
  "prop_ok kv = (fst kv \<noteq> [] \<and> list_all visible (fst kv) \<and> CHR ''='' \<notin> set (fst kv) \<and> line_text (snd kv))"

definition prop_text :: "string \<times> string \<Rightarrow> string" where
  "prop_text kv = fst kv @ CHR ''='' # snd kv"

definition unit_block :: "(string \<times> string) list \<Rightarrow> string" where
  "unit_block kvs = join [CHR 0x0A] (map prop_text kvs)"

lemma prop_text_line:
  assumes "prop_ok kv"
  shows "line_text (prop_text kv)" "prop_text kv \<noteq> []" "hd (prop_text kv) \<noteq> CHR 0x0A"
    "split_once (CHR ''='') (prop_text kv) = Some kv" "trim (fst kv) = fst kv"
proof -
  obtain k v where kv: "kv = (k, v)" by (cases kv)
  have k: "k \<noteq> []" "list_all visible k" "CHR ''='' \<notin> set k" "line_text v" using assms by (auto simp: prop_ok_def kv)
  have nl: "\<not> visible (CHR 0x0A)" by (simp add: visible_def)
  then have "CHR 0x0A \<notin> set k" using k(2) by (auto simp: list_all_iff)
  then show "line_text (prop_text kv)" using k(4) by (auto simp: line_text_def prop_text_def kv)
  show "prop_text kv \<noteq> []" by (simp add: prop_text_def)
  show "hd (prop_text kv) \<noteq> CHR 0x0A" using k nl by (cases k) (auto simp: prop_text_def kv)
  show "split_once (CHR ''='') (prop_text kv) = Some kv" using k(3) by (simp add: prop_text_def kv split_once_append)
  show "trim (fst kv) = fst kv" using k(1,2) by (simp add: kv trim_visible list_all_iff)
qed

lemma lines_join: "list_all (\<lambda>l. line_text l \<and> l \<noteq> []) ls \<Longrightarrow> lines (join [CHR 0x0A] ls) = ls"
proof (induction "[CHR 0x0A]" ls rule: join.induct)
  case (2 l)
  then have "CHR 0x0A \<notin> set l" "l \<noteq> []" "strip_cr l = l" by (auto simp: line_text_def strip_cr_line)
  then show ?case by (simp add: lines.simps [of l] split_once_None)
next
  case (3 l m ls)
  then have "CHR 0x0A \<notin> set l" "strip_cr l = l" by (auto simp: line_text_def strip_cr_line)
  then show ?case using 3 lines_line [of l "join [CHR 0x0A] (m # ls)"] by simp
qed simp

lemma lines_join_end:
  "list_all (\<lambda>l. line_text l \<and> l \<noteq> []) ls \<Longrightarrow> ls \<noteq> [] \<Longrightarrow> lines (join [CHR 0x0A] ls @ [CHR 0x0A]) = ls"
proof (induction "[CHR 0x0A]" ls rule: join.induct)
  case (2 l)
  then have "CHR 0x0A \<notin> set l" "strip_cr l = l" by (auto simp: line_text_def strip_cr_line)
  then show ?case using lines_line [of l "[]"] by simp
next
  case (3 l m ls)
  then have "CHR 0x0A \<notin> set l" "strip_cr l = l" by (auto simp: line_text_def strip_cr_line)
  then show ?case using 3 lines_line [of l "join [CHR 0x0A] (m # ls) @ [CHR 0x0A]"] by simp
qed simp

lemma parse_show_lines:
  assumes "list_all prop_ok kvs" "distinct (map fst kvs)" "lines out = map prop_text kvs"
  shows "parse_show out = map_of kvs"
proof -
  have "List.map_filter (split_once (CHR ''='')) (map prop_text kvs) = kvs"
    using assms(1) by (induction kvs) (simp_all add: List.map_filter_simps prop_text_line(4))
  moreover have "map (\<lambda>(k, v). (trim k, v)) kvs = kvs"
    using assms(1) prop_text_line(5) by (induction kvs) auto
  ultimately have "parse_show out = map_of (rev kvs)" by (simp add: parse_show_def assms(3))
  moreover have "map_of (rev kvs) = map_of kvs"
    using assms(2) by (intro map_of_inject_set [THEN iffD2]) (simp_all add: rev_map [symmetric])
  ultimately show ?thesis by simp
qed

lemma unit_block_spaced:
  "list_all prop_ok kvs \<Longrightarrow> kvs \<noteq> [] \<Longrightarrow>
     single_spaced (unit_block kvs) \<and> unit_block kvs \<noteq> [] \<and> hd (unit_block kvs) \<noteq> CHR 0x0A"
proof (induction kvs)
  case (Cons kv kvs)
  have kv: "line_text (prop_text kv)" "prop_text kv \<noteq> []" "hd (prop_text kv) \<noteq> CHR 0x0A"
    using Cons.prems(1) prop_text_line by auto
  then have nl: "CHR 0x0A \<notin> set (prop_text kv)" by (simp add: line_text_def)
  show ?case
  proof (cases "kvs = []")
    case True
    then show ?thesis using kv nl single_spaced_line by (simp add: unit_block_def)
  next
    case False
    have rest: "single_spaced (unit_block kvs)" "unit_block kvs \<noteq> []" "hd (unit_block kvs) \<noteq> CHR 0x0A"
      using Cons.IH Cons.prems(1) False by simp_all
    have "unit_block (kv # kvs) = prop_text kv @ CHR 0x0A # unit_block kvs"
      using False by (cases kvs) (simp_all add: unit_block_def)
    then show ?thesis using single_spaced_append [OF nl rest(2,3) kv(2) rest(1)] kv by simp
  qed
qed simp

definition unit_block_ok :: "(string \<times> string) list \<Rightarrow> bool" where
  "unit_block_ok kvs = (list_all prop_ok kvs \<and> distinct (map fst kvs) \<and> ''Id'' \<in> fst ` set kvs)"

definition show_output :: "(string \<times> string) list list \<Rightarrow> string" where
  "show_output bs = join [CHR 0x0A, CHR 0x0A] (map unit_block bs) @ [CHR 0x0A]"

lemma show_output_parsed:
  "list_all unit_block_ok bs \<Longrightarrow> bs \<noteq> [] \<Longrightarrow>
     map parse_show (split_str [CHR 0x0A, CHR 0x0A] (show_output bs)) = map map_of bs"
proof (induction bs)
  case (Cons b bs)
  have b: "list_all prop_ok b" "distinct (map fst b)" "b \<noteq> []" using Cons.prems by (auto simp: unit_block_ok_def)
  have ls: "list_all (\<lambda>l. line_text l \<and> l \<noteq> []) (map prop_text b)" "map prop_text b \<noteq> []"
    using b(1,3) prop_text_line(1,2) by (auto simp: list_all_iff)
  note sp = unit_block_spaced [OF b(1,3), THEN conjunct1]
  show ?case
  proof (cases "bs = []")
    case True
    have "parse_show (unit_block b @ [CHR 0x0A]) = map_of b"
      using parse_show_lines [OF b(1,2)] lines_join_end [OF ls] by (simp add: unit_block_def)
    then show ?thesis using single_spaced_no_split [OF sp] True by (simp add: split_str.simps show_output_def)
  next
    case False
    have "parse_show (unit_block b) = map_of b"
      using parse_show_lines [OF b(1,2)] lines_join [OF ls(1)] by (simp add: unit_block_def)
    moreover have "show_output (b # bs) = unit_block b @ [CHR 0x0A, CHR 0x0A] @ show_output bs"
      using False by (cases bs) (simp_all add: show_output_def)
    ultimately show ?thesis
      using Cons.IH Cons.prems(1) False split_single_spaced [OF sp]
      by (subst split_str.simps) simp
  qed
qed simp

text \<open>
  The output of \<open>systemctl show\<close> for several units, blocks of properties with a blank line between them,
  is read back as exactly the properties printed, unit by unit and in order, whatever the values are and
  also if they are empty or contain an equals sign.
\<close>

theorem show_output_roundtrip:
  assumes "list_all unit_block_ok bs" "bs \<noteq> []"
  shows "parse_show_records (show_output bs) = map map_of bs"
proof -
  have "filter (\<lambda>r. r ''Id'' \<noteq> None) (map map_of bs) = map map_of bs"
    using assms(1) by (induction bs) (auto simp: unit_block_ok_def map_of_eq_None_iff)
  then show ?thesis by (simp add: parse_show_records_def show_output_parsed [OF assms])
qed

definition sample_units :: "(string \<times> string) list list" where
  "sample_units = [[(''Id'', ''a.service''), (''User'', [])], [(''Id'', ''b.service''), (''ProtectHome'', ''x=y'')]]"

theorem show_output_roundtrip_witness:
  "parse_show_records (show_output sample_units) = map map_of sample_units"
  by (rule show_output_roundtrip) (simp_all add: sample_units_def unit_block_ok_def prop_ok_def visible_def line_text_def)

section \<open>The whole scan\<close>

definition batch_answered :: "systemctl_env \<Rightarrow> string list \<Rightarrow> bool" where
  "batch_answered env b =
     (b = [] \<or> (case batch_records env b of None \<Rightarrow> False
       | Some rs \<Rightarrow> set b \<subseteq> set (List.map_filter (\<lambda>r. r ''Id'') rs)))"

definition batch_found :: "systemctl_env \<Rightarrow> string list \<Rightarrow> hardening_finding list" where
  "batch_found env b = (case batch_records env b of None \<Rightarrow> [] | Some rs \<Rightarrow> List.map_filter evaluate_unit rs)"

lemma batch_found_set:
  "f \<in> set (batch_found env b) \<longleftrightarrow> (\<exists>rs. batch_records env b = Some rs \<and> (\<exists>r\<in>set rs. evaluate_unit r = Some f))"
  by (cases "batch_records env b") (simp_all add: batch_found_def map_filter_set)

lemma show_batch_spec:
  "fst (show_batch env b acc) = fst acc @ batch_found env b"
  "snd (show_batch env b acc) = 0 \<longleftrightarrow> snd acc = 0 \<and> batch_answered env b"
  by (auto simp: show_batch_def batch_found_def batch_answered_def filter_empty_conv split: option.splits)

lemma show_batches_spec:
  "fst (fold (show_batch env) bs acc) = fst acc @ concat (map (batch_found env) bs)"
  "snd (fold (show_batch env) bs acc) = 0 \<longleftrightarrow> snd acc = 0 \<and> list_all (batch_answered env) bs"
  by (induction bs arbitrary: acc) (simp_all add: show_batch_spec)

text \<open>
  C35: A hardening scan that leaves no note has judged every running service: the list was obtained, each
  service it names was answered with a record of that name whose finding, if it has one, is reported, and
  no other finding is. However many services there are, no batch loses one.
\<close>

theorem hardening_scan_complete:
  assumes "scan_systemd_hardening env = (found, [])"
  shows "\<exists>out. sy_run env LIST_UNITS = Some out \<and> co_success out
     \<and> (\<forall>u\<in>set (running_services (from_utf8_lossy (co_stdout out))).
          \<exists>b rs r. batch_records env b = Some rs \<and> r \<in> set rs \<and> r ''Id'' = Some u
            \<and> set_option (evaluate_unit r) \<subseteq> set found)
     \<and> (\<forall>f\<in>set found. \<exists>b rs r. batch_records env b = Some rs \<and> r \<in> set rs \<and> evaluate_unit r = Some f)"
proof -
  obtain out where out: "sy_run env LIST_UNITS = Some out" "co_success out"
    using assms by (auto simp: scan_systemd_hardening_def split: if_splits option.splits)
  let ?units = "running_services (from_utf8_lossy (co_stdout out))"
  let ?bs = "chunks SHOW_BATCH ?units"
  have pos: "0 < SHOW_BATCH" by (simp add: SHOW_BATCH_def)
  have units: "set ?units = (\<Union>b\<in>set ?bs. set b)" using concat_chunks [OF pos, of ?units] by (metis set_concat)
  have scan: "set found = set (concat (map (batch_found env) ?bs))" "list_all (batch_answered env) ?bs"
  proof -
    obtain fs n where f: "fold (show_batch env) ?bs ([], 0) = (fs, n)" by (cases "fold (show_batch env) ?bs ([], 0)")
    then have s: "fs = concat (map (batch_found env) ?bs)" "n = 0 \<longleftrightarrow> list_all (batch_answered env) ?bs"
      using show_batches_spec [of env ?bs "([], 0)"] by simp_all
    have "set found = set fs \<and> n = 0"
    proof (cases "?units = []")
      case True
      then have "fs = []" "n = 0" using f by (simp_all add: chunks_Nil)
      moreover have "found = []" using assms out True by (simp add: scan_systemd_hardening_def split: if_splits)
      ultimately show ?thesis by simp
    next
      case False
      then have "(sort_key hardening_key fs, n = 0) = (found, True)"
        using assms out f by (simp add: scan_systemd_hardening_def split: if_splits)
      then show ?thesis by auto
    qed
    then show "set found = set (concat (map (batch_found env) ?bs))" "list_all (batch_answered env) ?bs"
      using s by simp_all
  qed
  have judged: "\<exists>b rs r. batch_records env b = Some rs \<and> r \<in> set rs \<and> r ''Id'' = Some u
      \<and> set_option (evaluate_unit r) \<subseteq> set found" if u: "u \<in> set ?units" for u
  proof -
    obtain b where b: "b \<in> set ?bs" "u \<in> set b" using u unfolding units by blast
    have "batch_answered env b" "b \<noteq> []" using scan(2) b by (auto simp: list_all_iff)
    then obtain rs where rs: "batch_records env b = Some rs"
      by (cases "batch_records env b") (simp_all add: batch_answered_def)
    then have "set b \<subseteq> set (List.map_filter (\<lambda>r. r ''Id'') rs)"
      using \<open>batch_answered env b\<close> \<open>b \<noteq> []\<close> by (simp add: batch_answered_def)
    then have "u \<in> set (List.map_filter (\<lambda>r. r ''Id'') rs)" using b(2) by (rule subsetD)
    then obtain r where r: "r \<in> set rs" "r ''Id'' = Some u" unfolding map_filter_set by blast
    have "set_option (evaluate_unit r) \<subseteq> set (batch_found env b)"
      using r(1) rs by (auto simp: batch_found_set)
    also have "\<dots> \<subseteq> set found" using b(1) unfolding scan(1) by auto
    finally show ?thesis using rs(1) r by blast
  qed
  have "\<exists>b rs r. batch_records env b = Some rs \<and> r \<in> set rs \<and> evaluate_unit r = Some f" if "f \<in> set found" for f
    using that batch_found_set unfolding scan(1) set_concat set_map by blast
  with out judged show ?thesis by blast
qed

text \<open>A host on which one service runs, with nothing set.\<close>

definition one_service :: systemctl_env where
  "one_service =
     \<lparr>sy_resolved = True,
      sy_run = (\<lambda>args. Some \<lparr>co_success = True,
        co_stdout = (if args = LIST_UNITS then file_of [''a.service''] else show_output [[(''Id'', ''a.service'')]]),
        co_stderr = [], co_status = []\<rparr>)\<rparr>"

theorem hardening_scan_complete_witness:
  "\<exists>b rs r. batch_records one_service b = Some rs \<and> r \<in> set rs \<and> r ''Id'' = Some ''a.service''"
proof -
  have l: "lines (file_of [''a.service'']) = [''a.service'']" by (rule lines_file) (simp add: line_text_def)
  have a: "from_utf8_lossy (file_of [''a.service'']) = file_of [''a.service'']"
    by (rule ascii_lossy) (simp add: file_of_def byte_def)
  have w: "split_whitespace ''a.service'' = [''a.service'']" by (rule split_word) (simp_all add: visible_def)
  have u: "running_services (from_utf8_lossy (file_of [''a.service''])) = [''a.service'']"
    by (simp add: running_services_def a l w List.map_filter_simps ends_with_def)
  have ok: "list_all unit_block_ok [[(''Id'', ''a.service'')]]"
    by (simp add: unit_block_ok_def prop_ok_def visible_def line_text_def)
  have b: "from_utf8_lossy (show_output [[(''Id'', ''a.service'')]]) = show_output [[(''Id'', ''a.service'')]]"
    by (rule ascii_lossy) (simp add: show_output_def unit_block_def prop_text_def byte_def)
  have rs: "parse_show_records (show_output [[(''Id'', ''a.service'')]]) = [map_of [(''Id'', ''a.service'')]]"
    using show_output_parsed [OF ok] by (simp add: parse_show_records_def)
  have args: "show_args b \<noteq> LIST_UNITS" for b by (simp add: show_args_def LIST_UNITS_def)
  have c: "chunks SHOW_BATCH [''a.service''] = [[''a.service'']]"
    by (rule chunks_single) (simp add: SHOW_BATCH_def)
  have r: "batch_records one_service batch = Some [map_of [(''Id'', ''a.service'')]]" for batch
    using args by (simp add: batch_records_def one_service_def b rs)
  have "snd (fold (show_batch one_service) (chunks SHOW_BATCH [''a.service'']) ([], 0)) = 0"
    unfolding show_batches_spec(2) c by (simp add: batch_answered_def r List.map_filter_simps)
  moreover have "sy_resolved one_service" "sy_run one_service LIST_UNITS = Some \<lparr>co_success = True,
      co_stdout = file_of [''a.service''], co_stderr = [], co_status = []\<rparr>"
    by (simp_all add: one_service_def)
  ultimately have "snd (scan_systemd_hardening one_service) = []"
    by (auto simp: scan_systemd_hardening_def u split: prod.splits)
  then obtain found where "scan_systemd_hardening one_service = (found, [])"
    by (cases "scan_systemd_hardening one_service") simp
  from hardening_scan_complete [OF this] show ?thesis
    by (auto simp: one_service_def u)
qed

end
