(* ===== verification/KernelScan.thy ===== *)
theory KernelScan
  imports ScanText
begin

text \<open>
  The scanners of the kernel's own state: \<open>scanners/kernel_modules.rs\<close> (SEC-040), \<open>kernel_taint.rs\<close>
  (SEC-038), \<open>ftrace.rs\<close> (SEC-041) and \<open>kernel_facts.rs\<close>. What \<open>/proc\<close> and \<open>/sys\<close> give is a parameter; what
  \<open>coverage::record\<close> is told is a list of notes.
\<close>

text \<open>
  \<open>ke_read_again\<close> is what a second reading gives after the slow ones: the tables change in between.
  \<open>ke_error\<close> is the text of an error with its number, \<open>ke_debug\<close> the \<open>Debug\<close> form of a text.
\<close>

record kernel_env =
  ke_read :: "string \<Rightarrow> os_kind + string"
  ke_read_again :: "string \<Rightarrow> os_kind + string"
  ke_dir :: "string \<Rightarrow> os_kind + string list"
  ke_exists :: "string \<Rightarrow> bool"
  ke_error :: "os_kind \<Rightarrow> string"
  ke_debug :: "string \<Rightarrow> string"

definition capped_read :: "kernel_env \<Rightarrow> string \<Rightarrow> nat \<Rightarrow> os_kind + string \<times> bool" where
  "capped_read env path n = read_procfs_capped (ke_read env path) n"

section \<open>Modules\<close>

definition CAP_PROC_MODULES :: nat where "CAP_PROC_MODULES = 4 * 1024 * 1024"
definition CAP_KALLSYMS :: nat where "CAP_KALLSYMS = 32 * 1024 * 1024"

definition PSEUDO_MODULES :: "string list" where
  "PSEUDO_MODULES =
     [''bpf'', ''ftrace'', ''kernel'', ''vdso'', ''vsyscall'', ''vvar'', ''__builtin__ftrace'']"

definition parse_proc_modules :: "string \<Rightarrow> string list" where
  "parse_proc_modules content =
     btree (filter (\<lambda>s. s \<noteq> [])
       (List.map_filter (\<lambda>l. case split_ascii_whitespace l of [] \<Rightarrow> None | w # _ \<Rightarrow> Some w) (lines content)))"

text \<open>What stands in the last bracket of a text: from the last \<open>[\<close> to the next \<open>]\<close>.\<close>

definition bracketed :: "string \<Rightarrow> string option" where
  "bracketed line =
     (case rsplit_once (CHR ''['') line of
        None \<Rightarrow> None
      | Some (_, rest) \<Rightarrow> map_option (\<lambda>p. trim (fst p)) (split_once (CHR '']'') rest))"

definition parse_kallsyms_modules :: "string \<Rightarrow> string list" where
  "parse_kallsyms_modules content =
     btree (filter (\<lambda>n. n \<noteq> [] \<and> n \<notin> set PSEUDO_MODULES) (List.map_filter bracketed (lines content)))"

text \<open>A module seen in one more source: noted with it, or found for the first time.\<close>

fun see_in :: "string \<Rightarrow> string \<Rightarrow> hidden_module list \<Rightarrow> hidden_module list" where
  "see_in name source [] = [\<lparr>hm_name = name, hm_seen_in = [source]\<rparr>]"
| "see_in name source (h # hs) =
     (if hm_name h = name then
        (if source \<in> set (hm_seen_in h) then h else h\<lparr>hm_seen_in := hm_seen_in h @ [source]\<rparr>) # hs
      else h # see_in name source hs)"

definition push_hidden ::
  "string list \<Rightarrow> string \<Rightarrow> string \<Rightarrow> hidden_module list \<Rightarrow> hidden_module list" where
  "push_hidden proc_modules source name out =
     (if name \<in> set proc_modules then out else see_in name source out)"

definition reconcile :: "string list \<Rightarrow> string list \<Rightarrow> string list \<Rightarrow> hidden_module list" where
  "reconcile proc_modules sysfs_live kallsyms =
     fold (push_hidden proc_modules ''kallsyms'') kallsyms
       (fold (push_hidden proc_modules ''sysfs'') sysfs_live [])"

definition module_live :: "kernel_env \<Rightarrow> string \<Rightarrow> bool" where
  "module_live env name =
     (case capped_read env (''/sys/module/'' @ name @ ''/initstate'') 64 of
        Inl _ \<Rightarrow> False | Inr (state, _) \<Rightarrow> trim state = ''live'')"

definition scan_sysfs_live :: "kernel_env \<Rightarrow> string list \<times> string list" where
  "scan_sysfs_live env =
     (case ke_dir env ''/sys/module'' of
        Inl _ \<Rightarrow> ([], [''kernel_modules: /sys/module unreadable '' @ em_dash @ '' sysfs cross-check skipped''])
      | Inr entries \<Rightarrow> (btree (filter (module_live env) (map from_utf8_lossy entries)), []))"

text \<open>The names kallsyms gives, whether it was checked, and what is noted.\<close>

definition kallsyms_view :: "kernel_env \<Rightarrow> string list \<times> bool \<times> string list" where
  "kallsyms_view env =
     (case capped_read env ''/proc/kallsyms'' CAP_KALLSYMS of
        Inl _ \<Rightarrow>
          ([], False, [''kernel_modules: /proc/kallsyms unreadable '' @ em_dash @ '' kallsyms cross-check skipped''])
      | Inr (content, truncated) \<Rightarrow>
          (let checked = (lines content \<noteq> []) in
           (parse_kallsyms_modules content, checked,
            (if truncated then
               [''kernel_modules: /proc/kallsyms truncated '' @ em_dash @ '' symbols beyond cap not ''
                @ ''cross-checked (a hidden module could be missed)''] else [])
            @ (if checked then [] else
               [''kernel_modules: /proc/kallsyms empty '' @ em_dash @ '' kallsyms cross-check unavailable ''
                @ ''(kptr_restrict/CONFIG_KALLSYMS); relying on sysfs only'']))))"

text \<open>The second snapshot of the modules, which closes the window of the slow reading.\<close>

definition second_snapshot :: "kernel_env \<Rightarrow> string list \<times> string list" where
  "second_snapshot env =
     (case read_procfs_capped (ke_read_again env ''/proc/modules'') CAP_PROC_MODULES of
        Inl _ \<Rightarrow>
          ([], [''kernel_modules: second /proc/modules read failed '' @ em_dash @ '' relying on first snapshot only''])
      | Inr (content, truncated) \<Rightarrow>
          (parse_proc_modules content,
           if truncated then
             [''kernel_modules: second /proc/modules snapshot truncated '' @ em_dash
              @ '' race window partially closed''] else []))"

definition gather_kernel_modules :: "kernel_env \<Rightarrow> kernel_module_inventory \<times> string list" where
  "gather_kernel_modules env =
     (case capped_read env ''/proc/modules'' CAP_PROC_MODULES of
        Inl e \<Rightarrow>
          (default_kernel_module_inventory,
           [''kernel_modules: /proc/modules unreadable ('' @ os_kind_text e @ '') '' @ em_dash
            @ '' hidden-module check UNAVAILABLE''])
      | Inr (content, truncated) \<Rightarrow>
          (let first = parse_proc_modules content;
               n1 = (if truncated then
                       [''kernel_modules: /proc/modules truncated '' @ em_dash @ '' hidden-module check partial'']
                     else []);
               (sysfs_live, n2) = scan_sysfs_live env;
               (kallsyms, checked, n3) = kallsyms_view env;
               (second, n4) = second_snapshot env;
               proc_modules = btree (first @ second);
               notes = n1 @ n2 @ n3 @ n4
           in if proc_modules = [] \<and> (sysfs_live \<noteq> [] \<or> kallsyms \<noteq> []) then
                (\<lparr>kmi_proc_modules = [], kmi_sysfs_modules = sysfs_live, kmi_hidden_candidates = [],
                  kmi_kallsyms_checked = checked\<rparr>,
                 notes @ [''kernel_modules: /proc/modules empty despite live modules '' @ em_dash
                          @ '' suppressing hidden check''])
              else
                (\<lparr>kmi_proc_modules = proc_modules, kmi_sysfs_modules = sysfs_live,
                  kmi_hidden_candidates = reconcile proc_modules sysfs_live kallsyms,
                  kmi_kallsyms_checked = checked\<rparr>, notes)))"

section \<open>Taint\<close>

text \<open>The bit, its letter, what it says, and whether it counts for security.\<close>

definition TAINT_TABLE :: "(nat \<times> uchar \<times> string \<times> bool) list" where
  "TAINT_TABLE =
     [(0, 80, ''proprietary module loaded'', False),
      (1, 70, ''module force-loaded (insmod -f)'', True),
      (2, 83, ''SMP kernel on non-SMP-safe CPU'', False),
      (3, 82, ''module force-unloaded (rmmod -f)'', True),
      (4, 77, ''machine check exception'', False),
      (5, 66, ''bad page referenced'', False),
      (6, 85, ''user-requested taint'', False),
      (7, 68, ''kernel died (oops/BUG)'', False),
      (8, 65, ''ACPI table overridden'', False),
      (9, 87, ''warning issued (WARN_ON)'', False),
      (10, 67, ''staging driver loaded'', False),
      (11, 73, ''firmware workaround applied'', False),
      (12, 79, ''out-of-tree module loaded'', False),
      (13, 69, ''unsigned module loaded'', True),
      (14, 76, ''soft lockup occurred'', False),
      (15, 75, ''kernel live-patched'', False),
      (16, 88, ''auxiliary taint (distro-defined)'', False),
      (17, 84, ''struct-layout randomization override'', False),
      (18, 78, ''in-tree test module loaded'', True)]"

definition parse_tainted :: "string \<Rightarrow> u64 option" where
  "parse_tainted content =
     (let t = trim content in
      if t = [] \<or> \<not> list_all is_ascii_digit t then None
      else map_option of_nat (from_str_radix 64 10 t))"

definition taint_flag_of :: "nat \<Rightarrow> taint_flag" where
  "taint_flag_of b =
     (case List.find (\<lambda>t. fst t = b) TAINT_TABLE of
        Some (n, code, name, relevant) \<Rightarrow>
          \<lparr>tf_bit = of_nat n, tf_code = code, tf_name = name, tf_security_relevant = relevant\<rparr>
      | None \<Rightarrow>
          \<lparr>tf_bit = of_nat b, tf_code = 63, tf_name = ''unknown taint bit '' @ show_nat b,
           tf_security_relevant = False\<rparr>)"

definition decode_taint :: "u64 \<Rightarrow> taint_flag list" where
  "decode_taint raw =
     map taint_flag_of (filter (\<lambda>b. and raw (push_bit b 1) \<noteq> 0) [0..<64])"

definition taint_unknown :: kernel_taint where
  "taint_unknown = default_kernel_taint\<lparr>kt_unavailable := True\<rparr>"

definition gather_kernel_taint :: "kernel_env \<Rightarrow> kernel_taint \<times> string list" where
  "gather_kernel_taint env =
     (case capped_read env ''/proc/sys/kernel/tainted'' 64 of
        Inl e \<Rightarrow>
          (taint_unknown, [''kernel_taint: /proc/sys/kernel/tainted unreadable ('' @ os_kind_text e @ '') ''
                           @ em_dash @ '' taint state UNKNOWN''])
      | Inr (content, _) \<Rightarrow>
          (case parse_tainted content of
             None \<Rightarrow>
               (taint_unknown,
                [''kernel_taint: unparseable value ''
                 @ ke_debug env (string_of_chars (take 32 (chars_of (trim content)))) @ '' '' @ em_dash
                 @ '' taint state UNKNOWN''])
           | Some raw \<Rightarrow> (\<lparr>kt_raw = raw, kt_flags = decode_taint raw, kt_unavailable = False\<rparr>, [])))"

section \<open>Hooks of system calls\<close>

definition CAP_ENABLED_FUNCTIONS :: nat where "CAP_ENABLED_FUNCTIONS = 4 * 1024 * 1024"
definition CAP_KPROBE_EVENTS :: nat where "CAP_KPROBE_EVENTS = 256 * 1024"

definition SYSCALL_PREFIXES :: "string list" where
  "SYSCALL_PREFIXES = [''__x64_sys_'', ''__ia32_sys_'', ''__arm64_sys_'', ''__se_sys_'', ''__do_sys_'']"

definition is_syscall_fn :: "string \<Rightarrow> bool" where
  "is_syscall_fn name = list_ex (\<lambda>p. starts_with name p) SYSCALL_PREFIXES"

datatype hook_source = HookBpf | HookKprobe | HookLivepatch | KernelBuiltin | HookModule string | Unresolved

text \<open>\<open>rfind\<close> of a text that is not empty: what precedes and what follows its last occurrence.\<close>

fun rsplit_once_str :: "string \<Rightarrow> string \<Rightarrow> (string \<times> string) option" where
  "rsplit_once_str p [] = None"
| "rsplit_once_str p (c # s) =
     (case rsplit_once_str p s of
        Some (a, b) \<Rightarrow> Some (c # a, b)
      | None \<Rightarrow> map_option (\<lambda>r. ([], r)) (strip_prefix p (c # s)))"

text \<open>The symbol of a callback ends at white space or at the bracket of its module.\<close>

fun callback_symbol :: "string \<Rightarrow> string" where
  "callback_symbol [] = []"
| "callback_symbol (c # s) =
     (if ws_width (c # s) > 0 \<or> c = CHR ''['' then [] else c # callback_symbol s)"

definition split_attribution :: "string \<Rightarrow> string option \<times> string option" where
  "split_attribution a =
     (map_option (\<lambda>p. trim (callback_symbol (snd p))) (rsplit_once_str ''->'' a), bracketed a)"

definition classify_hook :: "string \<Rightarrow> hook_source" where
  "classify_hook attribution =
     (case split_attribution attribution of (callback, modul) \<Rightarrow>
        (case callback of
           None \<Rightarrow> Unresolved
         | Some cb \<Rightarrow>
             if cb = [] \<or> starts_with cb ''0x00000000'' then Unresolved
             else (case modul of
               Some m \<Rightarrow> HookModule m
             | None \<Rightarrow>
                 if starts_with cb ''bpf_trampoline'' \<or> starts_with cb ''bpf_ftrace'' then HookBpf
                 else if starts_with cb ''klp_'' then HookLivepatch
                 else if starts_with cb ''kprobe_ftrace'' \<or> starts_with cb ''kretprobe_'' then HookKprobe
                 else KernelBuiltin)))"

definition ops_count :: "string \<Rightarrow> u32 option" where
  "ops_count t =
     Option.bind (strip_prefix ''('' t) (\<lambda>u. Option.bind (strip_suffix '')'' u) parse_u32)"

definition enabled_function :: "string \<Rightarrow> (string \<times> u32 \<times> string) option" where
  "enabled_function line =
     (case split_whitespace line of
        [] \<Rightarrow> None
      | [func] \<Rightarrow> Some (func, 0, [])
      | func # t # rest \<Rightarrow>
          Some (func, (case ops_count t of None \<Rightarrow> 0 | Some n \<Rightarrow> n), join '' '' rest))"

definition parse_enabled_functions :: "string \<Rightarrow> (string \<times> u32 \<times> string) list" where
  "parse_enabled_functions content = List.map_filter enabled_function (lines content)"

definition kprobe_event :: "string \<Rightarrow> kprobe_entry option" where
  "kprobe_event line =
     (case split_whitespace line of
        head # target # _ \<Rightarrow>
          (let kind = hd (chars_of head) in
           if kind \<noteq> 112 \<and> kind \<noteq> 114 then None
           else Some \<lparr>kpe_kind = kind,
             kpe_group_name = (case split_once (CHR '':'') head of None \<Rightarrow> [] | Some (_, g) \<Rightarrow> g),
             kpe_symbol = takeWhile (\<lambda>c. c \<noteq> CHR ''+'' \<and> c \<noteq> CHR '':'') target\<rparr>)
      | _ \<Rightarrow> None)"

definition parse_kprobe_events :: "string \<Rightarrow> kprobe_entry list" where
  "parse_kprobe_events content = List.map_filter kprobe_event (lines content)"

definition tracefs_root :: "kernel_env \<Rightarrow> string option" where
  "tracefs_root env =
     List.find (\<lambda>r. ke_exists env (r @ ''/enabled_functions''))
       [''/sys/kernel/tracing'', ''/sys/kernel/debug/tracing'']"

definition tracer_set :: "kernel_env \<Rightarrow> string \<Rightarrow> bool" where
  "tracer_set env path =
     (case capped_read env path 256 of
        Inl _ \<Rightarrow> False | Inr (s, _) \<Rightarrow> trim s \<noteq> [] \<and> trim s \<noteq> ''nop'')"

definition function_tracer_active :: "kernel_env \<Rightarrow> string \<Rightarrow> bool" where
  "function_tracer_active env tracefs =
     (tracer_set env (tracefs @ ''/current_tracer'')
      \<or> (case ke_dir env (tracefs @ ''/instances'') of
           Inl _ \<Rightarrow> False
         | Inr names \<Rightarrow>
             list_ex (\<lambda>n. tracer_set env (from_utf8_lossy (tracefs @ ''/instances/'' @ n) @ ''/current_tracer'')) names))"

definition hook_step :: "string \<times> u32 \<times> string \<Rightarrow> ftrace_hook_inventory \<Rightarrow> ftrace_hook_inventory" where
  "hook_step f st =
     (case f of (func, ops, attribution) \<Rightarrow>
        if \<not> is_syscall_fn func then st
        else if fhi_live_tracer_active st then
          st\<lparr>fhi_attributed_hook_count := fhi_attributed_hook_count st + 1\<rparr>
        else (case classify_hook attribution of
          HookModule m \<Rightarrow>
            st\<lparr>fhi_unattributed_syscall_hooks := fhi_unattributed_syscall_hooks st
                 @ [\<lparr>fh_function = func, fh_ops_count = ops, fh_callback = ''module:'' @ m\<rparr>]\<rparr>
        | Unresolved \<Rightarrow>
            st\<lparr>fhi_attribution_degraded := True,
                fhi_unattributed_syscall_hooks := fhi_unattributed_syscall_hooks st
                 @ [\<lparr>fh_function = func, fh_ops_count = ops, fh_callback = ''unresolved''\<rparr>]\<rparr>
        | _ \<Rightarrow> st\<lparr>fhi_attributed_hook_count := fhi_attributed_hook_count st + 1\<rparr>))"

definition with_kprobes ::
  "kernel_env \<Rightarrow> string \<Rightarrow> ftrace_hook_inventory \<Rightarrow> ftrace_hook_inventory \<times> string list" where
  "with_kprobes env tracefs st =
     (case capped_read env (tracefs @ ''/kprobe_events'') CAP_KPROBE_EVENTS of
        Inl _ \<Rightarrow> (st, [])
      | Inr (kp, truncated) \<Rightarrow>
          (st\<lparr>fhi_syscall_kprobes := filter (\<lambda>k. is_syscall_fn (kpe_symbol k)) (parse_kprobe_events kp)\<rparr>,
           if truncated then
             [''ftrace: '' @ tracefs @ ''/kprobe_events truncated at '' @ show_nat CAP_KPROBE_EVENTS @ '' bytes ''
              @ em_dash @ '' kprobe hook list may be partial''] else []))"

definition gather_ftrace_hooks :: "kernel_env \<Rightarrow> ftrace_hook_inventory \<times> string list" where
  "gather_ftrace_hooks env =
     (case tracefs_root env of
        None \<Rightarrow>
          (default_ftrace_hook_inventory,
           [''ftrace: tracefs not mounted/readable '' @ em_dash @ '' syscall-hook check unavailable''])
      | Some tracefs \<Rightarrow>
          (case with_kprobes env tracefs (default_ftrace_hook_inventory
                  \<lparr>fhi_tracefs_available := True, fhi_live_tracer_active := function_tracer_active env tracefs\<rparr>) of
             (st, n1) \<Rightarrow>
          (case capped_read env (tracefs @ ''/enabled_functions'') CAP_ENABLED_FUNCTIONS of
             Inl e \<Rightarrow>
               (st, n1 @ [''ftrace: '' @ tracefs @ ''/enabled_functions unreadable ('' @ os_kind_text e @ '') ''
                           @ em_dash @ '' syscall-hook check unavailable''])
           | Inr (content, truncated) \<Rightarrow>
               (let out = fold hook_step (parse_enabled_functions content) st in
                (out, n1
                 @ (if truncated then
                      [''ftrace: enabled_functions truncated '' @ em_dash @ '' hook set may be partial''] else [])
                 @ (if fhi_live_tracer_active out \<and> fhi_attributed_hook_count out > 0 then
                      [''ftrace: live function tracer active '' @ em_dash @ '' syscall-hook attribution suppressed ''
                       @ ''(cannot distinguish a rootkit from active tracing)''] else []))))))"

section \<open>Hardening facts\<close>

definition ONE_WAY_SWITCHES :: "(string \<times> string) list" where
  "ONE_WAY_SWITCHES =
     [(''/proc/sys/kernel/modules_disabled'', ''modules_disabled''),
      (''/proc/sys/kernel/kexec_load_disabled'', ''kexec_load_disabled''),
      (''/proc/sys/kernel/unprivileged_bpf_disabled'', ''unprivileged_bpf_disabled'')]"

text \<open>A switch: absent (\<open>None\<close>), or present with its value if that is known; and what is noted.\<close>

definition read_switch :: "kernel_env \<Rightarrow> string \<times> string \<Rightarrow> u8 option option \<times> string list" where
  "read_switch env sw =
     (case sw of (path, label) \<Rightarrow>
        (case capped_read env path 4096 of
           Inr (content, truncated) \<Rightarrow>
             (let v = from_str_radix 8 10 (trim content) in
              (Some (map_option of_nat v),
               (if truncated then [path @ '' truncated''] else [])
               @ (if v = None then
                    [path @ '' contains a non-numeric value '' @ em_dash @ '' switch state UNKNOWN ''
                     @ ''(possible /proc tampering)''] else [])))
         | Inl e \<Rightarrow>
             if e = NotFound then
               (None, [path @ '' absent '' @ em_dash @ '' one-way switch '' @ [CHR 0x27] @ label @ [CHR 0x27]
                       @ '' not tracked on this kernel''])
             else (Some None, [path @ '' unreadable ('' @ ke_error env e @ '')''])))"

definition gather_one_way_switches ::
  "kernel_env \<Rightarrow> (string \<rightharpoonup> u8 option) \<times> string list" where
  "gather_one_way_switches env =
     (map_of (List.map_filter (\<lambda>sw. map_option (Pair (snd sw)) (fst (read_switch env sw))) ONE_WAY_SWITCHES),
      concat (map (\<lambda>sw. snd (read_switch env sw)) ONE_WAY_SWITCHES))"

text \<open>The state in brackets: from the first \<open>[\<close> to the next \<open>]\<close>.\<close>

definition lockdown_state :: "string \<Rightarrow> string" where
  "lockdown_state content =
     (let s = trim content in
      case split_once (CHR ''['') s of
        None \<Rightarrow> s
      | Some (_, rest) \<Rightarrow> (case split_once (CHR '']'') rest of None \<Rightarrow> s | Some (m, _) \<Rightarrow> m))"

definition gather_kernel_facts ::
  "kernel_env \<Rightarrow> (string option \<times> bool option \<times> string option) \<times> string list" where
  "gather_kernel_facts env =
     (let (core_pattern, n1) =
            (case capped_read env ''/proc/sys/kernel/core_pattern'' 4096 of
               Inr (s, _) \<Rightarrow> (Some (trim s), [])
             | Inl e \<Rightarrow> (None, [''core_pattern unreadable ('' @ ke_error env e
                                @ ''); core-dump handler hijack NOT verified'']));
          modules_disabled =
            (case capped_read env ''/proc/sys/kernel/modules_disabled'' 4096 of
               Inl _ \<Rightarrow> None
             | Inr (s, _) \<Rightarrow> map_option (\<lambda>v. v = 1) (from_str_radix 8 10 (trim s)));
          lockdown =
            (case capped_read env ''/sys/kernel/security/lockdown'' 4096 of
               Inl _ \<Rightarrow> None | Inr (s, _) \<Rightarrow> Some (lockdown_state s))
      in ((core_pattern, modules_disabled, lockdown),
          n1
          @ (if modules_disabled = None then
               [''modules_disabled unreadable (no /proc/sys/kernel/modules_disabled?)''] else [])
          @ (if lockdown = None then
               [''lockdown state not available (kernel too old or /sys/kernel/security/lockdown missing)'']
             else [])))"

definition CPU_VULN_DIR :: string where "CPU_VULN_DIR = ''/sys/devices/system/cpu/vulnerabilities''"

definition cpu_vulnerability_of :: "kernel_env \<Rightarrow> string \<Rightarrow> string \<Rightarrow> cpu_vulnerability option" where
  "cpu_vulnerability_of env dir name =
     (if \<not> valid_utf8 name then None
      else (case capped_read env (from_utf8_lossy (path_join dir name)) 512 of
        Inl _ \<Rightarrow> None
      | Inr (s, _) \<Rightarrow>
          Some \<lparr>cv_name = name, cv_status = trim s, cv_vulnerable = starts_with (trim s) ''Vulnerable''\<rparr>))"

definition gather_cpu_vulnerabilities_from :: "kernel_env \<Rightarrow> string \<Rightarrow> cpu_vulnerability list \<times> string list" where
  "gather_cpu_vulnerabilities_from env dir =
     (case ke_dir env dir of
        Inl e \<Rightarrow>
          ([], if e = NotFound then []
               else [''cpu vulnerabilities: '' @ dir @ '' unreadable ('' @ os_kind_text e @ '') '' @ em_dash
                     @ '' mitigation state UNKNOWN''])
      | Inr names \<Rightarrow> (sort_key cv_name (List.map_filter (cpu_vulnerability_of env dir) names), []))"

definition gather_cpu_vulnerabilities :: "kernel_env \<Rightarrow> cpu_vulnerability list \<times> string list" where
  "gather_cpu_vulnerabilities env = gather_cpu_vulnerabilities_from env CPU_VULN_DIR"

end
