(* ===== verification/KernelScanLaws.thy ===== *)
theory KernelScanLaws
  imports KernelScan
begin

text \<open>
  What the scanners of the kernel find: the modules that are loaded and not listed, the bits of the taint
  mask, and the system calls whose hook comes from a module, by whatever words an attacker names it.
\<close>

section \<open>Modules\<close>

lemma see_in_names: "set (map hm_name (see_in n src hs)) = insert n (set (map hm_name hs))"
  by (induction hs) auto

lemma see_in_distinct: "distinct (map hm_name hs) \<Longrightarrow> distinct (map hm_name (see_in n src hs))"
proof (induction hs)
  case (Cons h hs)
  then show ?case using see_in_names [of n src hs] by auto
qed simp

definition sources_of :: "hidden_module list \<Rightarrow> string \<Rightarrow> string list" where
  "sources_of hs n = (case List.find (\<lambda>h. hm_name h = n) hs of None \<Rightarrow> [] | Some h \<Rightarrow> hm_seen_in h)"

lemma sources_of_Cons [simp]:
  "sources_of [] n = []"
  "sources_of (h # hs) n = (if hm_name h = n then hm_seen_in h else sources_of hs n)"
  by (simp_all add: sources_of_def)

lemma sources_of_mem: "distinct (map hm_name hs) \<Longrightarrow> h \<in> set hs \<Longrightarrow> sources_of hs (hm_name h) = hm_seen_in h"
  by (induction hs) (auto dest: image_eqI [of "hm_name h" hm_name])

lemma see_in_sources:
  "sources_of (see_in n src hs) m =
     (if m = n \<and> src \<notin> set (sources_of hs n) then sources_of hs n @ [src] else sources_of hs m)"
proof (induction hs)
  case (Cons h hs)
  then show ?case by (cases "hm_name h = n"; cases "m = n") auto
qed auto

lemma push_hidden_names:
  "set (map hm_name (fold (push_hidden p src) ns hs)) = set (map hm_name hs) \<union> (set ns - set p)"
proof (induction ns arbitrary: hs)
  case (Cons n ns)
  then show ?case using see_in_names [of n src hs] by (auto simp: push_hidden_def)
qed simp

lemma push_hidden_distinct:
  "distinct (map hm_name hs) \<Longrightarrow> distinct (map hm_name (fold (push_hidden p src) ns hs))"
  by (induction ns arbitrary: hs) (simp_all add: push_hidden_def see_in_distinct)

lemma push_hidden_sources:
  "m \<notin> set p \<Longrightarrow> sources_of (fold (push_hidden p src) ns hs) m =
     (if m \<in> set ns \<and> src \<notin> set (sources_of hs m) then sources_of hs m @ [src] else sources_of hs m)"
proof (induction ns arbitrary: hs)
  case (Cons n ns)
  then show ?case using see_in_sources [of n src hs m] by (auto simp: push_hidden_def)
qed simp

lemma reconcile_exact:
  "set (map hm_name (reconcile p s k)) = (set s \<union> set k) - set p"
  "distinct (map hm_name (reconcile p s k))"
  "h \<in> set (reconcile p s k) \<Longrightarrow> hm_seen_in h =
     (if hm_name h \<in> set s then [''sysfs''] else []) @ (if hm_name h \<in> set k then [''kallsyms''] else [])"
proof -
  show n: "set (map hm_name (reconcile p s k)) = (set s \<union> set k) - set p"
    unfolding reconcile_def push_hidden_names by auto
  show d: "distinct (map hm_name (reconcile p s k))"
    unfolding reconcile_def by (simp add: push_hidden_distinct)
  show "hm_seen_in h =
     (if hm_name h \<in> set s then [''sysfs''] else []) @ (if hm_name h \<in> set k then [''kallsyms''] else [])"
    if h: "h \<in> set (reconcile p s k)"
  proof -
    have "hm_name h \<in> (set s \<union> set k) - set p" using n h by auto
    then have "hm_name h \<notin> set p" by simp
    then have "sources_of (reconcile p s k) (hm_name h) =
        (if hm_name h \<in> set s then [''sysfs''] else []) @ (if hm_name h \<in> set k then [''kallsyms''] else [])"
      by (simp add: reconcile_def push_hidden_sources)
    then show ?thesis using sources_of_mem [OF d h] by simp
  qed
qed

subsection \<open>The tables as the kernel prints them\<close>

text \<open>A line of \<open>/proc/modules\<close>: the name, and any further fields.\<close>

definition module_row :: "string list \<Rightarrow> string" where
  "module_row fs = join '' '' fs"

definition module_row_ok :: "string list \<Rightarrow> bool" where
  "module_row_ok fs = (fs \<noteq> [] \<and> list_all plain_word fs)"

text \<open>A line of \<open>/proc/kallsyms\<close>: the symbol, and its module if it is not built in.\<close>

definition symbol_row :: "string \<times> string option \<Rightarrow> string" where
  "symbol_row r =
     fst r @ (case snd r of None \<Rightarrow> [] | Some m \<Rightarrow> CHR 0x09 # CHR ''['' # m @ '']'')"

definition symbol_row_ok :: "string \<times> string option \<Rightarrow> bool" where
  "symbol_row_ok r =
     (line_text (fst r)
      \<and> (case snd r of None \<Rightarrow> CHR ''['' \<notin> set (fst r)
         | Some m \<Rightarrow> plain_word m \<and> CHR ''['' \<notin> set m \<and> CHR '']'' \<notin> set m))"

lemma modules_roundtrip:
  assumes "list_all module_row_ok rows"
  shows "parse_proc_modules (file_of (map module_row rows)) = btree (map hd rows)"
proof -
  have "list_all line_text (map module_row rows)"
    using assms join_line by (auto simp: list_all_iff module_row_def module_row_ok_def)
  then have l: "lines (file_of (map module_row rows)) = map module_row rows" by (rule lines_file)
  have "List.map_filter (\<lambda>l. case split_ascii_whitespace l of [] \<Rightarrow> None | w # _ \<Rightarrow> Some w) (map module_row rows)
      = map hd rows"
    using assms
  proof (induction rows)
    case (Cons r rows)
    then have r: "split_ascii_whitespace (module_row r) = r" "r \<noteq> []"
      using ascii_split_join [OF visible_words] by (auto simp: module_row_def module_row_ok_def)
    then show ?case using Cons by (cases r) (simp_all add: List.map_filter_simps)
  qed simp
  moreover have "filter (\<lambda>s. s \<noteq> []) (map hd rows) = map hd rows"
    using assms by (auto simp: list_all_iff module_row_ok_def plain_word_def neq_Nil_conv intro!: filter_True)
  ultimately show ?thesis by (simp add: parse_proc_modules_def l)
qed

lemma rsplit_once_append: "c \<notin> set b \<Longrightarrow> rsplit_once c (a @ c # b) = Some (a, b)"
  by (simp add: rsplit_once_def split_once_append)

lemma rsplit_once_none: "c \<notin> set a \<Longrightarrow> rsplit_once c a = None"
  by (simp add: rsplit_once_def split_once_None)

lemma bracketed_symbol: "symbol_row_ok r \<Longrightarrow> bracketed (symbol_row r) = snd r"
proof (cases "snd r")
  case (Some m)
  assume ok: "symbol_row_ok r"
  have "rsplit_once (CHR ''['') ((fst r @ [CHR 0x09]) @ CHR ''['' # m @ '']'') = Some (fst r @ [CHR 0x09], m @ '']'')"
    using ok Some by (intro rsplit_once_append) (auto simp: symbol_row_ok_def)
  moreover have "split_once (CHR '']'') (m @ CHR '']'' # []) = Some (m, [])"
    using ok Some by (intro split_once_append) (simp add: symbol_row_ok_def)
  ultimately show ?thesis
    using ok Some trim_plain_word [of m] by (simp add: bracketed_def symbol_row_def symbol_row_ok_def)
qed (simp add: bracketed_def symbol_row_def symbol_row_ok_def rsplit_once_none)

lemma symbol_row_line: "symbol_row_ok r \<Longrightarrow> line_text (symbol_row r)"
  using visible_line [of "the (snd r)"]
  by (cases "snd r") (auto simp: symbol_row_ok_def symbol_row_def line_text_def plain_word_def)

definition owners_of :: "(string \<times> string option) list \<Rightarrow> string set" where
  "owners_of syms = set (List.map_filter snd syms) - set PSEUDO_MODULES"

lemma kallsyms_roundtrip:
  assumes "list_all symbol_row_ok rows"
  shows "set (parse_kallsyms_modules (file_of (map symbol_row rows))) = owners_of rows"
proof -
  have "list_all line_text (map symbol_row rows)"
    using assms symbol_row_line by (auto simp: list_all_iff)
  then have l: "lines (file_of (map symbol_row rows)) = map symbol_row rows" by (rule lines_file)
  have m: "List.map_filter bracketed (map symbol_row rows) = List.map_filter snd rows"
    using assms by (induction rows) (simp_all add: bracketed_symbol List.map_filter_simps split: option.splits)
  have "[] \<notin> set (List.map_filter snd rows)"
    using assms by (induction rows) (auto simp: List.map_filter_simps symbol_row_ok_def plain_word_def split: option.splits)
  then show ?thesis by (auto simp: parse_kallsyms_modules_def owners_of_def l m)
qed

text \<open>
  C33: The modules reported as hidden are exactly those that are live in \<open>/sys/module\<close> or own a symbol in
  \<open>/proc/kallsyms\<close>, are no pseudo-module there, and stand in neither of the two snapshots of \<open>/proc/modules\<close>;
  each once, with the sources that gave it away. A module that is loaded while the scan runs is in the
  second snapshot and never reported.
\<close>

theorem hidden_modules_exact:
  assumes "capped_read env ''/proc/modules'' CAP_PROC_MODULES = Inr (file_of (map module_row before), t1)"
    and "read_procfs_capped (ke_read_again env ''/proc/modules'') CAP_PROC_MODULES
      = Inr (file_of (map module_row after), t2)"
    and "capped_read env ''/proc/kallsyms'' CAP_KALLSYMS = Inr (file_of (map symbol_row syms), t3)"
    and "list_all module_row_ok (before @ after)" "list_all symbol_row_ok syms" "before @ after \<noteq> []"
    and "scan_sysfs_live env = (running, notes)"
  shows "\<exists>hidden. hidden = kmi_hidden_candidates (fst (gather_kernel_modules env))
    \<and> set (map hm_name hidden) = (set running \<union> owners_of syms) - hd ` set (before @ after)
    \<and> distinct (map hm_name hidden)
    \<and> (\<forall>h\<in>set hidden. hm_seen_in h =
        (if hm_name h \<in> set running then [''sysfs''] else [])
        @ (if hm_name h \<in> owners_of syms then [''kallsyms''] else []))"
proof -
  let ?listed = "btree (btree (map hd before) @ btree (map hd after))"
  let ?ks = "parse_kallsyms_modules (file_of (map symbol_row syms))"
  have p: "parse_proc_modules (file_of (map module_row before)) = btree (map hd before)"
      "parse_proc_modules (file_of (map module_row after)) = btree (map hd after)"
    using assms(4) by (simp_all add: modules_roundtrip)
  have ne: "?listed \<noteq> []"
  proof
    assume "?listed = []"
    then have "set ?listed = {}" by simp
    then show False using assms(6) by simp
  qed
  have ks: "set ?ks = owners_of syms" by (rule kallsyms_roundtrip [OF assms(5)])
  have h: "kmi_hidden_candidates (fst (gather_kernel_modules env)) = reconcile ?listed running ?ks"
    using ne by (simp add: gather_kernel_modules_def assms(1,2,3,7) kallsyms_view_def second_snapshot_def p Let_def)
  show ?thesis unfolding h using reconcile_exact(1,2) [of ?listed running ?ks] reconcile_exact(3) [of _ ?listed running ?ks]
    by (simp add: ks image_Un)
qed

text \<open>A host on which a module was unlinked from the list and left its symbols.\<close>

definition rooted_host :: kernel_env where
  "rooted_host =
     \<lparr>ke_read = (\<lambda>p. if p = ''/proc/modules'' then Inr (file_of [''ext4 1 0''])
        else if p = ''/proc/kallsyms'' then Inr (file_of (map symbol_row [(''f0 t hook'', Some ''dia'')]))
        else Inl NotFound),
      ke_read_again = (\<lambda>p. Inr (file_of [''ext4 1 0''])), ke_dir = (\<lambda>p. Inl NotFound),
      ke_exists = (\<lambda>p. False), ke_error = os_kind_text, ke_debug = (\<lambda>s. s)\<rparr>"

theorem hidden_modules_exact_witness:
  "hm_name ` set (kmi_hidden_candidates (fst (gather_kernel_modules rooted_host))) = {''dia''}"
proof -
  have m: "file_of [''ext4 1 0''] = file_of (map module_row [[''ext4'', ''1'', ''0'']])"
    by (simp add: module_row_def)
  have r: "capped_read rooted_host ''/proc/modules'' CAP_PROC_MODULES = Inr (file_of [''ext4 1 0''], False)"
    "read_procfs_capped (ke_read_again rooted_host ''/proc/modules'') CAP_PROC_MODULES = Inr (file_of [''ext4 1 0''], False)"
    "capped_read rooted_host ''/proc/kallsyms'' CAP_KALLSYMS
       = Inr (file_of (map symbol_row [(''f0 t hook'', Some ''dia'')]), False)"
    by (simp_all add: capped_read_def rooted_host_def read_short file_of_def byte_def symbol_row_def
        CAP_PROC_MODULES_def CAP_KALLSYMS_def)
  have live: "scan_sysfs_live rooted_host = ([], [''kernel_modules: /sys/module unreadable '' @ em_dash
      @ '' sysfs cross-check skipped''])"
    by (simp add: scan_sysfs_live_def rooted_host_def)
  show ?thesis
    using hidden_modules_exact [OF r(1,2) [unfolded m] r(3) _ _ _ live]
    by (simp add: module_row_ok_def symbol_row_ok_def plain_word_def visible_def line_text_def owners_of_def
        PSEUDO_MODULES_def image_iff)
qed
section \<open>Taint\<close>

lemma taint_flag_bit: "b < 64 \<Longrightarrow> unat (tf_bit (taint_flag_of b)) = b"
proof -
  assume b: "b < 64"
  have "n = b" if "List.find (\<lambda>t. fst t = b) TAINT_TABLE = Some (n, x)" for n x
    using find_SomeD [OF that] by simp
  then have "tf_bit (taint_flag_of b) = of_nat b" by (auto simp: taint_flag_of_def split: option.splits)
  moreover have "b < 2 ^ 8" using b by simp
  ultimately show ?thesis by (simp add: unat_of_nat)
qed

lemma taint_flag_relevant: "b < 64 \<Longrightarrow> tf_security_relevant (taint_flag_of b) \<longleftrightarrow> b \<in> {1, 3, 13, 18}"
proof -
  assume b: "b < 64"
  have "list_all (\<lambda>b. tf_security_relevant (taint_flag_of b) = (b \<in> {1, 3, 13, 18})) [0..<64]"
    by (simp add: taint_flag_of_def TAINT_TABLE_def upt_rec [of _ 64])
  then show ?thesis using b by (simp add: list_all_iff)
qed

lemma decode_taint_bits:
  "map (unat \<circ> tf_bit) (decode_taint raw) = filter (bit raw) [0..<64]"
proof -
  have "map (unat \<circ> tf_bit) (decode_taint raw) = filter (\<lambda>b. and raw (push_bit b 1) \<noteq> 0) [0..<64]"
    unfolding decode_taint_def map_map by (rule map_idI) (auto simp: taint_flag_bit)
  moreover have "(\<lambda>b. and raw (push_bit b 1) \<noteq> 0) = bit raw"
    by (rule ext) (rule bit_iff_and_push_bit_not_eq_0 [symmetric])
  ultimately show ?thesis by simp
qed

text \<open>
  The taint mask the kernel prints is read back as it is, for all 64 bits: one flag for each bit that is
  set, in order, also for bits no kernel defines yet; and a flag counts for security exactly if it says that
  a module was forced in or out, is unsigned, or is a test module.
\<close>

theorem taint_is_exact:
  assumes "capped_read env ''/proc/sys/kernel/tainted'' 64 = Inr (show_word raw @ [CHR 0x0A], t)"
  shows "gather_kernel_taint env = (\<lparr>kt_raw = raw, kt_flags = decode_taint raw, kt_unavailable = False\<rparr>, [])
    \<and> map (unat \<circ> tf_bit) (decode_taint raw) = filter (bit raw) [0..<64]
    \<and> (\<forall>f\<in>set (decode_taint raw). tf_security_relevant f \<longleftrightarrow> unat (tf_bit f) \<in> {1, 3, 13, 18})"
proof -
  note n = show_nat_visible [of "unat raw"] show_nat_digits [of "unat raw"]
  have tr: "trim (show_nat (unat raw)) = show_nat (unat raw)"
    using n(1,2) by (simp add: trim_visible list_all_iff)
  have "list_all is_ascii_digit (show_word raw)"
    using n(4) by (simp add: show_word_def list_all_iff is_ascii_digit_def byte_def)
  then have "parse_tainted (show_word raw @ [CHR 0x0A]) = Some raw"
    using n(1) parse_show_nat [of "unat raw" 64] unsigned_less [of raw, where 'a = nat]
    by (simp add: parse_tainted_def show_word_def tr)
  then have g: "gather_kernel_taint env = (\<lparr>kt_raw = raw, kt_flags = decode_taint raw, kt_unavailable = False\<rparr>, [])"
    by (simp add: gather_kernel_taint_def assms)
  have "\<forall>f\<in>set (decode_taint raw). tf_security_relevant f \<longleftrightarrow> unat (tf_bit f) \<in> {1, 3, 13, 18}"
    unfolding decode_taint_def using taint_flag_bit taint_flag_relevant by auto
  then show ?thesis using g decode_taint_bits by blast
qed

theorem taint_is_exact_witness:
  "map (unat \<circ> tf_bit) (kt_flags (fst (gather_kernel_taint
     (rooted_host\<lparr>ke_read := \<lambda>p. Inr (show_word (0x2001 :: u64) @ [CHR 0x0A])\<rparr>)))) = filter (bit (0x2001 :: u64)) [0..<64]"
proof -
  let ?env = "rooted_host\<lparr>ke_read := \<lambda>p. Inr (show_word (0x2001 :: u64) @ [CHR 0x0A])\<rparr>"
  have "show_word (0x2001 :: u64) = ''8193''"
    by (simp add: show_word_def show_nat_def show_base.simps digit_char_def) code_simp
  then have "capped_read ?env ''/proc/sys/kernel/tainted'' 64 = Inr (show_word (0x2001 :: u64) @ [CHR 0x0A], False)"
    by (simp add: capped_read_def read_short byte_def)
  from taint_is_exact [OF this] show ?thesis by simp
qed

section \<open>Hooks\<close>

definition unattributed :: "string \<times> u32 \<times> string \<Rightarrow> ftrace_hook option" where
  "unattributed f =
     (case classify_hook (snd (snd f)) of
        HookModule m \<Rightarrow> Some \<lparr>fh_function = fst f, fh_ops_count = fst (snd f), fh_callback = ''module:'' @ m\<rparr>
      | Unresolved \<Rightarrow> Some \<lparr>fh_function = fst f, fh_ops_count = fst (snd f), fh_callback = ''unresolved''\<rparr>
      | _ \<Rightarrow> None)"

lemma hook_fold:
  "\<not> fhi_live_tracer_active st \<Longrightarrow>
     fhi_unattributed_syscall_hooks (fold hook_step fs st) =
       fhi_unattributed_syscall_hooks st @ List.map_filter unattributed (filter (\<lambda>f. is_syscall_fn (fst f)) fs)
     \<and> fhi_attributed_hook_count (fold hook_step fs st)
        + length (List.map_filter unattributed (filter (\<lambda>f. is_syscall_fn (fst f)) fs))
       = fhi_attributed_hook_count st + length (filter (\<lambda>f. is_syscall_fn (fst f)) fs)
     \<and> \<not> fhi_live_tracer_active (fold hook_step fs st)"
proof (induction fs arbitrary: st)
  case (Cons f fs)
  have s: "\<not> fhi_live_tracer_active (hook_step f st)"
    using Cons.prems by (simp add: hook_step_def split: prod.splits hook_source.splits)
  show ?case
    using Cons.IH [OF s] Cons.prems
    by (cases f; cases "classify_hook (snd (snd f))")
      (auto simp: hook_step_def unattributed_def List.map_filter_simps split: if_splits)
qed (simp add: List.map_filter_simps)

text \<open>
  A line of \<open>enabled_functions\<close>: the function, the number of callbacks, then flags and trampolines (words,
  some of which name a module in brackets, such as \<open>[nf_tables])\<close>), the callback behind an arrow, which the
  kernel may glue to a word (\<open>direct-->\<close>), and, if it lives in a module, the module. The columns are padded
  with blanks and tabs. All but the function's name may be chosen by an attacker.
\<close>

datatype hook_word = Flag string | ModuleTag string string

record hook_row =
  hr_func :: string
  hr_ops :: u32
  hr_flags :: "hook_word list"
  hr_glued :: string
  hr_callback :: string
  hr_module :: "string option"
  hr_gaps :: "string list"
  hr_trail :: string

fun word_text :: "hook_word \<Rightarrow> string" where
  "word_text (Flag w) = w"
| "word_text (ModuleTag m after) = CHR ''['' # m @ CHR '']'' # after"

definition attribution_of :: "hook_row \<Rightarrow> string list" where
  "attribution_of r =
     map word_text (hr_flags r) @ [hr_glued r @ ''->'' @ hr_callback r]
     @ (case hr_module r of None \<Rightarrow> [] | Some m \<Rightarrow> [CHR ''['' # m @ '']''])"

definition hook_words :: "hook_row \<Rightarrow> string list" where
  "hook_words r = [hr_func r, ''('' @ show_word (hr_ops r) @ '')''] @ attribution_of r"

definition hook_line :: "hook_row \<Rightarrow> string" where
  "hook_line r = table_row (hr_gaps r) (hook_words r) (hr_trail r)"

text \<open>
  The names are words without brackets and without an arrow; what stands before the callback may hold
  arrows.
\<close>

definition tag_name :: "string \<Rightarrow> bool" where
  "tag_name m =
     (plain_word m \<and> CHR ''['' \<notin> set m \<and> CHR '']'' \<notin> set m \<and> \<not> contains m ''->'')"

definition callback_name :: "string \<Rightarrow> bool" where
  "callback_name c = (plain_word c \<and> CHR ''['' \<notin> set c \<and> \<not> contains c ''->'')"

fun hook_word_ok :: "hook_word \<Rightarrow> bool" where
  "hook_word_ok (Flag w) = (plain_word w \<and> CHR ''['' \<notin> set w)"
| "hook_word_ok (ModuleTag m after) = (tag_name m \<and> list_all visible after \<and> CHR ''['' \<notin> set after)"

definition hook_row_ok :: "hook_row \<Rightarrow> bool" where
  "hook_row_ok r =
     (plain_word (hr_func r) \<and> callback_name (hr_callback r)
      \<and> list_all visible (hr_glued r) \<and> CHR ''['' \<notin> set (hr_glued r)
      \<and> list_all hook_word_ok (hr_flags r) \<and> (case hr_module r of None \<Rightarrow> True | Some m \<Rightarrow> tag_name m)
      \<and> gaps_ok (hr_gaps r) (hr_trail r) (hook_words r))"

text \<open>The module a line names last.\<close>

fun last_tag :: "hook_word list \<Rightarrow> string option" where
  "last_tag [] = None"
| "last_tag (w # ws) =
     (case last_tag ws of Some m \<Rightarrow> Some m
      | None \<Rightarrow> (case w of ModuleTag m _ \<Rightarrow> Some m | Flag _ \<Rightarrow> None))"

definition named_module :: "hook_row \<Rightarrow> string option" where
  "named_module r = (case hr_module r of Some m \<Rightarrow> Some m | None \<Rightarrow> last_tag (hr_flags r))"

lemma word_text_plain: "hook_word_ok w \<Longrightarrow> plain_word (word_text w)"
  by (cases w) (simp_all add: tag_name_def plain_word_def visible_def)

lemma hook_line_words:
  assumes "hook_row_ok r"
  shows "list_all plain_word (hook_words r)"
proof -
  have v: "visible (CHR ''-'')" "visible (CHR ''>'')" "visible (CHR ''['')" "visible (CHR '']'')"
    "visible (CHR ''('')" "visible (CHR '')'')"
    by (simp_all add: visible_def)
  have "list_all plain_word (map word_text (hr_flags r))"
    using assms word_text_plain by (auto simp: hook_row_ok_def list_all_iff)
  moreover have "plain_word (''('' @ show_word (hr_ops r) @ '')'')"
    using show_nat_visible(2) [of "unat (hr_ops r)"] v by (simp add: plain_word_def show_word_def)
  ultimately show ?thesis
    using assms v
    by (simp add: hook_words_def attribution_of_def hook_row_ok_def callback_name_def tag_name_def plain_word_def
        split: option.splits)
qed

lemma ops_count_show: "ops_count (''('' @ show_word n @ '')'') = Some n"
proof -
  have p: "strip_prefix ''('' (''('' @ show_word n @ '')'') = Some (show_word n @ '')'')" by simp
  have q: "strip_suffix '')'' (show_word n @ '')'') = Some (show_word n)" by (simp add: strip_suffix_def)
  show ?thesis unfolding ops_count_def p using q parse_u32_show [of n] by simp
qed

lemma enabled_function_line:
  assumes "hook_row_ok r"
  shows "enabled_function (hook_line r) = Some (hr_func r, hr_ops r, join '' '' (attribution_of r))"
proof -
  have "split_whitespace (hook_line r) = [hr_func r, ''('' @ show_word (hr_ops r) @ '')''] @ attribution_of r"
    unfolding hook_line_def using assms
    by (subst split_row [OF hook_line_words [OF assms]]) (simp_all add: hook_row_ok_def hook_words_def)
  then show ?thesis by (simp add: enabled_function_def ops_count_show [simplified])
qed

lemma join_prefix: "ys \<noteq> [] \<Longrightarrow> join '' '' (ws @ ys) = concat (map (\<lambda>w. w @ '' '') ws) @ join '' '' ys"
proof (induction ws)
  case (Cons w ws)
  then show ?case by (cases "ws @ ys") auto
qed simp

lemma rsplit_arrow_none: "\<not> contains s ''->'' \<Longrightarrow> rsplit_once_str ''->'' s = None"
proof (induction s)
  case (Cons c s)
  have "\<not> contains s ''->''"
    using Cons.prems unfolding contains_iff by (metis append_Cons)
  moreover have "strip_prefix ''->'' (c # s) = None"
    using Cons.prems unfolding contains_iff
    by (metis append_Nil strip_prefix_Some_iff not_None_eq)
  ultimately show ?case using Cons.IH by (simp del: strip_prefix.simps)
qed simp

lemma rsplit_arrow: "\<not> contains b ''->'' \<Longrightarrow> rsplit_once_str ''->'' (a @ ''->'' @ b) = Some (a, b)"
  by (induction a) (simp_all add: rsplit_arrow_none)

lemma callback_symbol_end:
  "list_all visible cb \<Longrightarrow> CHR ''['' \<notin> set cb \<Longrightarrow> s = [] \<or> hd s = CHR '' '' \<Longrightarrow> callback_symbol (cb @ s) = cb"
proof (induction cb)
  case Nil
  then show ?case by (cases s) (simp_all add: ws_width_space)
next
  case (Cons c cb)
  then show ?case by (auto simp: ws_width_visible)
qed

text \<open>What stands before the callback of a line, and its module, as they stand in it.\<close>

definition flag_text :: "hook_row \<Rightarrow> string" where
  "flag_text r = concat (map (\<lambda>w. word_text w @ '' '') (hr_flags r)) @ hr_glued r"

definition module_text :: "hook_row \<Rightarrow> string" where
  "module_text r = (case hr_module r of None \<Rightarrow> [] | Some m \<Rightarrow> CHR '' '' # CHR ''['' # m @ '']'')"

lemma attribution_text: "join '' '' (attribution_of r) = flag_text r @ ''->'' @ hr_callback r @ module_text r"
  unfolding attribution_of_def
  by (subst join_prefix) (simp_all add: flag_text_def module_text_def o_def split: option.splits)

lemma no_arrow_after:
  assumes "callback_name cb" "case m of None \<Rightarrow> True | Some n \<Rightarrow> tag_name n"
  shows "\<not> contains (cb @ (case m of None \<Rightarrow> [] | Some n \<Rightarrow> CHR '' '' # CHR ''['' # n @ '']'')) ''->''"
proof (cases m)
  case None
  then show ?thesis using assms(1) by (simp add: callback_name_def)
next
  case (Some n)
  have two: "\<not> contains (u @ c # v) ''->''"
    if "\<not> contains u ''->''" "\<not> contains v ''->''" "c \<notin> {CHR ''-'', CHR ''>''}" for u v c
  proof
    assume "contains (u @ c # v) ''->''"
    then obtain x y where "u @ c # v = x @ CHR ''-'' # CHR ''>'' # y" unfolding contains_iff by auto
    then consider z where "x = u @ c # z" "v = z @ CHR ''-'' # CHR ''>'' # y"
      | z where "u = x @ CHR ''-'' # CHR ''>'' # z" | "u = x" "c = CHR ''-''" | "u = x @ ''-''" "c = CHR ''>''"
      by (auto simp: append_eq_append_conv2 append_eq_Cons_conv Cons_eq_append_conv)
    then show False using that unfolding contains_iff by cases auto
  qed
  have nil: "\<not> contains [] ''->''" unfolding contains_iff by simp
  have "\<not> contains (n @ '']'') ''->''"
    using two [of n "[]" "CHR '']''"] nil assms(2) Some by (simp add: tag_name_def)
  then have "\<not> contains (CHR ''['' # n @ '']'') ''->''"
    using two [of "[]" "n @ '']''" "CHR ''[''"] nil by simp
  then have "\<not> contains (cb @ CHR '' '' # CHR ''['' # n @ '']'') ''->''"
    using two [of cb "CHR ''['' # n @ '']''" "CHR '' ''"] assms(1) by (simp add: callback_name_def)
  then show ?thesis using Some by simp
qed

lemma bracketed_last:
  assumes "tag_name m" "CHR ''['' \<notin> set z"
  shows "bracketed (u @ CHR ''['' # m @ CHR '']'' # z) = Some m"
proof -
  have "rsplit_once (CHR ''['') (u @ CHR ''['' # m @ CHR '']'' # z) = Some (u, m @ CHR '']'' # z)"
    using assms by (intro rsplit_once_append) (simp add: tag_name_def)
  moreover have "split_once (CHR '']'') (m @ CHR '']'' # z) = Some (m, z)"
    using assms by (intro split_once_append) (simp add: tag_name_def)
  ultimately show ?thesis using assms trim_plain_word [of m] by (simp add: bracketed_def tag_name_def)
qed

lemma bracketed_none: "CHR ''['' \<notin> set u \<Longrightarrow> bracketed u = None"
  by (simp add: bracketed_def rsplit_once_none)

lemma bracketed_flags:
  "list_all hook_word_ok ws \<Longrightarrow> CHR ''['' \<notin> set z \<Longrightarrow>
     bracketed (u @ concat (map (\<lambda>w. word_text w @ '' '') ws) @ z) =
       (case last_tag ws of Some m \<Rightarrow> Some m | None \<Rightarrow> bracketed (u @ concat (map (\<lambda>w. word_text w @ '' '') ws) @ z))"
proof (induction ws arbitrary: u)
  case (Cons w ws)
  have ok: "list_all hook_word_ok ws" "hook_word_ok w" using Cons.prems(1) by simp_all
  note IH = Cons.IH [OF ok(1) Cons.prems(2), of "u @ word_text w @ '' ''"]
  have quiet: "CHR ''['' \<notin> set (concat (map (\<lambda>w. word_text w @ '' '') ws))" if "last_tag ws = None"
    using ok(1) that by (induction ws) (auto split: option.splits hook_word.splits)
  show ?case
  proof (cases "last_tag ws")
    case None
    show ?thesis
    proof (cases w)
      case (ModuleTag m after)
      then show ?thesis
        using None ok(2) quiet [OF None] Cons.prems(2)
          bracketed_last [of m "after @ '' '' @ concat (map (\<lambda>w. word_text w @ '' '') ws) @ z" u]
        by simp
    qed (simp add: None)
  next
    case (Some m)
    then show ?thesis using IH by simp
  qed
qed simp

lemma flags_quiet: "list_all hook_word_ok ws \<Longrightarrow> last_tag ws = None \<Longrightarrow>
    CHR ''['' \<notin> set (concat (map (\<lambda>w. word_text w @ '' '') ws))"
  by (induction ws) (auto split: option.splits hook_word.splits)

lemma bracketed_attribution:
  assumes "hook_row_ok r"
  shows "bracketed (join '' '' (attribution_of r)) = named_module r"
proof (cases "hr_module r")
  case None
  have ok: "list_all hook_word_ok (hr_flags r)" "CHR ''['' \<notin> set (hr_glued r @ ''->'' @ hr_callback r)"
    using assms by (simp_all add: hook_row_ok_def callback_name_def)
  have "bracketed (concat (map (\<lambda>w. word_text w @ '' '') (hr_flags r)) @ hr_glued r @ ''->'' @ hr_callback r)
      = last_tag (hr_flags r)"
    using bracketed_flags [OF ok, of "[]"] flags_quiet [OF ok(1)] ok(2)
      bracketed_none [of "concat (map (\<lambda>w. word_text w @ '' '') (hr_flags r)) @ hr_glued r @ ''->'' @ hr_callback r"]
    by (cases "last_tag (hr_flags r)") simp_all
  then show ?thesis using None by (simp add: attribution_text module_text_def flag_text_def named_module_def)
next
  case (Some m)
  then have "tag_name m" using assms by (simp add: hook_row_ok_def)
  then show ?thesis
    using bracketed_last [of m "[]" "flag_text r @ ''->'' @ hr_callback r @ '' ''"] Some
    by (simp add: attribution_text module_text_def named_module_def)
qed

lemma classify_row:
  assumes "hook_row_ok r"
  shows "classify_hook (join '' '' (attribution_of r)) =
    (if starts_with (hr_callback r) ''0x00000000'' then Unresolved
     else case named_module r of Some m \<Rightarrow> HookModule m | None \<Rightarrow> classify_hook (''->'' @ hr_callback r))"
    and "split_attribution (''->'' @ hr_callback r) = (Some (hr_callback r), None)"
    and "hr_callback r \<noteq> []"
proof -
  have cb: "list_all visible (hr_callback r)" "hr_callback r \<noteq> []" "CHR ''['' \<notin> set (hr_callback r)"
    using assms by (simp_all add: hook_row_ok_def callback_name_def plain_word_def)
  show "hr_callback r \<noteq> []" by (rule cb(2))
  have t: "trim (hr_callback r) = hr_callback r"
    using trim_visible [OF cb(2)] cb by (simp add: list_all_iff)
  have s: "callback_symbol (hr_callback r @ module_text r) = hr_callback r" "callback_symbol (hr_callback r) = hr_callback r"
    using callback_symbol_end [OF cb(1,3), of "module_text r"] callback_symbol_end [OF cb(1,3), of "[]"]
    by (auto simp: module_text_def split: option.splits)
  have arrow: "\<not> contains (hr_callback r @ module_text r) ''->''" "\<not> contains (hr_callback r) ''->''"
    using assms no_arrow_after [of "hr_callback r" "hr_module r"]
    by (auto simp: hook_row_ok_def module_text_def callback_name_def)
  have a: "fst (split_attribution (join '' '' (attribution_of r))) = Some (hr_callback r)"
    using rsplit_arrow [OF arrow(1), of "flag_text r"] by (simp add: split_attribution_def attribution_text s t)
  show b: "split_attribution (''->'' @ hr_callback r) = (Some (hr_callback r), None)"
    using rsplit_arrow [OF arrow(2), of "[]"] cb(3)
    by (simp add: split_attribution_def s t bracketed_none)
  have "split_attribution (join '' '' (attribution_of r)) = (Some (hr_callback r), named_module r)"
    using a bracketed_attribution [OF assms] by (simp add: split_attribution_def)
  then show "classify_hook (join '' '' (attribution_of r)) =
    (if starts_with (hr_callback r) ''0x00000000'' then Unresolved
     else case named_module r of Some m \<Rightarrow> HookModule m | None \<Rightarrow> classify_hook (''->'' @ hr_callback r))"
    using cb(2) by (simp add: classify_hook_def b [simplified] split: option.splits)
qed

definition hidden_callback :: "hook_row \<Rightarrow> bool" where
  "hidden_callback r = starts_with (hr_callback r) ''0x00000000''"

definition suspicious :: "hook_row \<Rightarrow> bool" where
  "suspicious r = (is_syscall_fn (hr_func r) \<and> (hidden_callback r \<or> named_module r \<noteq> None))"

definition hook_report :: "hook_row \<Rightarrow> ftrace_hook" where
  "hook_report r =
     \<lparr>fh_function = hr_func r, fh_ops_count = hr_ops r,
      fh_callback = (if hidden_callback r then ''unresolved'' else ''module:'' @ the (named_module r))\<rparr>"

lemma unattributed_row:
  assumes "hook_row_ok r"
  shows "unattributed (hr_func r, hr_ops r, join '' '' (attribution_of r)) =
    (if hidden_callback r \<or> named_module r \<noteq> None then Some (hook_report r) else None)"
proof (cases "hidden_callback r \<or> named_module r \<noteq> None")
  case True
  then show ?thesis
    using classify_row(1) [OF assms] by (auto simp: unattributed_def hidden_callback_def hook_report_def)
next
  case False
  then have "classify_hook (''->'' @ hr_callback r) \<in> {HookBpf, HookLivepatch, HookKprobe, KernelBuiltin}"
    using classify_row(3) [OF assms] unfolding classify_hook_def classify_row(2) [OF assms]
    by (simp add: hidden_callback_def)
  then show ?thesis
    using False classify_row(1) [OF assms] by (auto simp: unattributed_def hidden_callback_def)
qed

text \<open>
  C34: With no tracer running, the hooks reported are exactly those of system calls whose callback is hidden
  or whose line names a module, behind the callback or with a trampoline, each with its count; every other
  hook of a system call is counted as attributed. The lines are the kernel's, with any padding and any flags.
  A module cannot pass for eBPF, a probe or a live patch by the name of its symbol or by its own: both may be
  any words, but without brackets or an arrow in them, and without white space. (A line feed in a name does
  defeat the parser: \<open>line_feed_hides_the_module\<close>.)
\<close>

theorem hooks_reported_exactly:
  assumes "tracefs_root env = Some dir" "\<not> function_tracer_active env dir"
    and "capped_read env (dir @ ''/enabled_functions'') CAP_ENABLED_FUNCTIONS = Inr (file_of (map hook_line rows), t)"
    and "list_all hook_row_ok rows"
  shows "fhi_unattributed_syscall_hooks (fst (gather_ftrace_hooks env)) = map hook_report (filter suspicious rows)
    \<and> fhi_attributed_hook_count (fst (gather_ftrace_hooks env)) =
        length (filter (\<lambda>r. is_syscall_fn (hr_func r) \<and> \<not> suspicious r) rows)"
proof -
  define parsed where "parsed = map (\<lambda>r. (hr_func r, hr_ops r, join '' '' (attribution_of r))) rows"
  define sys where "sys = filter (\<lambda>r. is_syscall_fn (hr_func r)) rows"
  have "list_all line_text (map hook_line rows)"
    using assms(4) row_line [OF hook_line_words] by (auto simp: list_all_iff hook_line_def hook_row_ok_def)
  then have "parse_enabled_functions (file_of (map hook_line rows)) = List.map_filter enabled_function (map hook_line rows)"
    by (simp add: parse_enabled_functions_def lines_file)
  also have "\<dots> = parsed"
    using assms(4) unfolding parsed_def
    by (induction rows) (simp_all add: List.map_filter_simps enabled_function_line)
  finally have p: "parse_enabled_functions (file_of (map hook_line rows)) = parsed" .
  define st where "st = fst (with_kprobes env dir (default_ftrace_hook_inventory
      \<lparr>fhi_tracefs_available := True, fhi_live_tracer_active := function_tracer_active env dir\<rparr>))"
  have st: "\<not> fhi_live_tracer_active st" "fhi_unattributed_syscall_hooks st = []" "fhi_attributed_hook_count st = 0"
    using assms(2) by (auto simp: st_def with_kprobes_def default_ftrace_hook_inventory_def split: sum.splits prod.splits)
  have g: "fst (gather_ftrace_hooks env) = fold hook_step parsed st"
    by (simp add: gather_ftrace_hooks_def assms(1,3) p st_def Let_def split_beta)
  have f: "filter (\<lambda>f. is_syscall_fn (fst f)) parsed = map (\<lambda>r. (hr_func r, hr_ops r, join '' '' (attribution_of r))) sys"
    by (simp add: parsed_def sys_def filter_map o_def)
  have u: "List.map_filter unattributed (filter (\<lambda>f. is_syscall_fn (fst f)) parsed) = map hook_report (filter suspicious rows)"
    using assms(4) unfolding f sys_def
    by (induction rows) (auto simp: List.map_filter_simps unattributed_row suspicious_def)
  have n: "length (filter suspicious rows) + length (filter (\<lambda>r. is_syscall_fn (hr_func r) \<and> \<not> suspicious r) rows) = length sys"
    unfolding sys_def by (induction rows) (auto simp: suspicious_def)
  have "length (filter (\<lambda>f. is_syscall_fn (fst f)) parsed) = length sys" by (simp add: f)
  then show ?thesis using hook_fold [OF st(1), of parsed] n unfolding g u st(2,3) by simp
qed

text \<open>A module that calls itself after eBPF, and its symbol after a trampoline.\<close>

definition disguised :: hook_row where
  "disguised = \<lparr>hr_func = ''__x64_sys_kill'', hr_ops = 1, hr_flags = [Flag ''R'', Flag ''I''], hr_glued = [],
     hr_callback = ''bpf_trampoline_1'', hr_module = Some ''bpf'',
     hr_gaps = [[], '' '', '' '', '' '', ''     '' @ [CHR 0x09], '' ''], hr_trail = []\<rparr>"

definition hooked_host :: kernel_env where
  "hooked_host = rooted_host\<lparr>ke_exists := \<lambda>p. True,
     ke_read := \<lambda>p. if p = ''/sys/kernel/tracing/enabled_functions'' then Inr (file_of (map hook_line [disguised]))
       else Inl NotFound\<rparr>"

theorem hooks_reported_exactly_witness:
  "fhi_unattributed_syscall_hooks (fst (gather_ftrace_hooks hooked_host)) = [hook_report disguised]"
proof -
  have r: "tracefs_root hooked_host = Some ''/sys/kernel/tracing''" by (simp add: tracefs_root_def hooked_host_def)
  have a: "\<not> function_tracer_active hooked_host ''/sys/kernel/tracing''"
    by (simp add: function_tracer_active_def tracer_set_def capped_read_def read_procfs_capped_def hooked_host_def
        rooted_host_def)
  have "show_word (1 :: u32) = ''1''"
    by (simp add: show_word_def show_nat_def show_base.simps digit_char_def) code_simp
  then have line: "hook_words disguised = [''__x64_sys_kill'', ''(1)'', ''R'', ''I'', ''->bpf_trampoline_1'', ''[bpf]'']"
    by (simp add: hook_words_def disguised_def attribution_of_def)
  have h: "capped_read hooked_host (''/sys/kernel/tracing'' @ ''/enabled_functions'') CAP_ENABLED_FUNCTIONS
      = Inr (file_of (map hook_line [disguised]), False)"
    unfolding hooked_host_def hook_line_def list.map line
    by (simp add: capped_read_def read_short disguised_def file_of_def byte_def CAP_ENABLED_FUNCTIONS_def)
  have ok: "list_all hook_row_ok [disguised]"
    unfolding hook_row_ok_def list.pred_inject line
    by (simp add: disguised_def plain_word_def callback_name_def tag_name_def gaps_ok_def blank_char_def visible_def)
  have "suspicious disguised"
    by (simp add: suspicious_def named_module_def disguised_def is_syscall_fn_def SYSCALL_PREFIXES_def)
  then show ?thesis using hooks_reported_exactly [OF r a h ok] by simp
qed

text \<open>
  A line feed in the name of a module splits its line: no bracket is closed on the first half, so the
  module goes unseen, and its symbol, named after a trampoline of eBPF, is taken for one.
\<close>

theorem line_feed_hides_the_module:
  "map (\<lambda>f. classify_hook (snd (snd f)))
     (parse_enabled_functions (''__x64_sys_kill (1) R I ->bpf_trampoline_1 [evil'' @ [CHR 0x0A] @ ''x]'' @ [CHR 0x0A]))
   = [HookBpf, Unresolved]"
proof -
  have l: "lines (''__x64_sys_kill (1) R I ->bpf_trampoline_1 [evil'' @ CHR 0x0A # ''x]'' @ [CHR 0x0A])
      = [''__x64_sys_kill (1) R I ->bpf_trampoline_1 [evil'', ''x]'']"
    by (subst lines_line; simp add: strip_cr_def lines_line [of "''x]''" "[]", simplified] lines.simps [of "[]"])
  have w: "split_whitespace ''__x64_sys_kill (1) R I ->bpf_trampoline_1 [evil''
      = [''__x64_sys_kill'', ''(1)'', ''R'', ''I'', ''->bpf_trampoline_1'', ''[evil'']"
    "split_whitespace ''x]'' = [''x]'']"
    using split_join_words [of "[''__x64_sys_kill'', ''(1)'', ''R'', ''I'', ''->bpf_trampoline_1'', ''[evil'']"]
      split_join_words [of "[''x]'']"] by (simp_all add: visible_def)
  have "rsplit_once_str ''->'' (''R I '' @ ''->'' @ ''bpf_trampoline_1 [evil'') = Some (''R I '', ''bpf_trampoline_1 [evil'')"
    by (rule rsplit_arrow) simp
  moreover have "callback_symbol (''bpf_trampoline_1'' @ '' [evil'') = ''bpf_trampoline_1''"
    by (rule callback_symbol_end) (simp_all add: visible_def)
  moreover have "trim ''bpf_trampoline_1'' = ''bpf_trampoline_1''" by (rule trim_visible) (simp_all add: visible_def)
  moreover have "bracketed ''R I ->bpf_trampoline_1 [evil'' = None"
    using rsplit_once_append [of "CHR ''[''" "''evil''" "''R I ->bpf_trampoline_1 ''"] by (simp add: bracketed_def)
  ultimately have "classify_hook ''R I ->bpf_trampoline_1 [evil'' = HookBpf"
    by (simp add: classify_hook_def split_attribution_def del: callback_symbol.simps)
  moreover have "classify_hook [] = Unresolved" by (simp add: classify_hook_def split_attribution_def)
  ultimately show ?thesis
    by (simp add: parse_enabled_functions_def enabled_function_def l [simplified] w List.map_filter_simps)
qed

end
