(* ===== verification/HostScan.thy ===== *)
theory HostScan
  imports ScanText ProcNet
begin

text \<open>
  Five smaller scanners: \<open>scanners/docker_firewall_bypass.rs\<close> (SEC-065, SEC-066), \<open>mounts.rs\<close> (SEC-021),
  \<open>mount_namespace.rs\<close>, \<open>confinement.rs\<close> (SEC-039), \<open>immutable.rs\<close> and \<open>ebpf.rs\<close>. \<open>/proc\<close>, the directories,
  the paths symbolic links resolve to and the inode attributes are parameters.
\<close>

section \<open>Published ports and the firewall\<close>

definition SENSITIVE_PORTS :: "u16 list" where
  "SENSITIVE_PORTS =
     [22, 23, 25, 143, 465, 587, 993, 995, 3306, 3389, 5432, 5900, 6379, 9200, 9300, 11211, 2375, 2376,
      27017, 27018, 6443, 10250]"

record parsed_binding =
  pb_bind_address :: string
  pb_host_port :: u16
  pb_container_port :: u16
  pb_protocol :: string

definition parse_u16 :: "string \<Rightarrow> u16 option" where
  "parse_u16 s = map_option of_nat (from_str_radix 16 10 s)"

text \<open>The address and the port of the host side; an IPv6 address keeps its brackets.\<close>

definition host_side_of :: "string \<Rightarrow> (string \<times> string) option" where
  "host_side_of h =
     (if starts_with h ''['' then
        (case split_once (CHR '']'') h of
           None \<Rightarrow> None
         | Some (addr, rest) \<Rightarrow> map_option (Pair (addr @ '']'')) (strip_prefix '':'' rest))
      else rsplit_once (CHR '':'') h)"

definition parse_binding :: "string \<Rightarrow> parsed_binding option" where
  "parse_binding s =
     (case split_once_str ''->'' (trim s) of
        None \<Rightarrow> None
      | Some (host_side, container_side) \<Rightarrow>
          (case split_once (CHR ''/'') container_side of
             None \<Rightarrow> None
           | Some (port, protocol) \<Rightarrow>
               (case parse_u16 port of
                  None \<Rightarrow> None
                | Some container_port \<Rightarrow>
                    (case host_side_of host_side of
                       None \<Rightarrow> None
                     | Some (addr, host_port_s) \<Rightarrow>
                         map_option (\<lambda>hp. \<lparr>pb_bind_address = addr, pb_host_port = hp,
                           pb_container_port = container_port, pb_protocol = protocol\<rparr>)
                           (parse_u16 host_port_s)))))"

definition is_network_reachable_bind :: "string \<Rightarrow> bool" where
  "is_network_reachable_bind addr =
     (let bare = (case Option.bind (strip_prefix ''['' addr) (strip_suffix '']'') of None \<Rightarrow> addr | Some a \<Rightarrow> a)
      in \<not> is_loopback_bind bare)"

definition binding_finding :: "container_info \<Rightarrow> bool \<Rightarrow> string \<Rightarrow> firewall_bypass_finding option" where
  "binding_finding c fw_active binding =
     (case parse_binding binding of
        None \<Rightarrow> None
      | Some p \<Rightarrow>
          if \<not> is_network_reachable_bind (pb_bind_address p) then None
          else Some \<lparr>fbf_container = ci_name c, fbf_published = binding, fbf_host_port = pb_host_port p,
                 fbf_container_port = pb_container_port p, fbf_protocol = pb_protocol p,
                 fbf_sensitive = (pb_host_port p \<in> set SENSITIVE_PORTS),
                 fbf_firewall_was_active = fw_active\<rparr>)"

definition container_bypasses :: "bool \<Rightarrow> container_info \<Rightarrow> firewall_bypass_finding list" where
  "container_bypasses fw_active c =
     (if ci_state c \<noteq> ''running'' then []
      else concat (map (\<lambda>ports. List.map_filter (binding_finding c fw_active)
                          (map trim (split_char (CHR '','') ports))) (ci_ports c)))"

definition detect_firewall_bypass :: "container_info list \<Rightarrow> bool \<Rightarrow> firewall_bypass_finding list" where
  "detect_firewall_bypass containers fw_active =
     concat (map (container_bypasses fw_active) containers)"

section \<open>Mounts that hide\<close>

definition MASKABLE_LOG_ROOTS :: "string list" where
  "MASKABLE_LOG_ROOTS = [''/var/log'', ''/var/lib/docker/containers'']"

definition CAP_MOUNTINFO :: nat where "CAP_MOUNTINFO = 1024 * 1024"
definition MAX_FINDINGS :: nat where "MAX_FINDINGS = 64"

definition is_at_or_under :: "string \<Rightarrow> string \<Rightarrow> bool" where
  "is_at_or_under path dir =
     (path = dir \<or> (case strip_prefix dir path of None \<Rightarrow> False | Some rest \<Rightarrow> starts_with rest ''/''))"

definition hides_a_pid :: "string \<Rightarrow> bool" where
  "hides_a_pid mount_point =
     (case strip_prefix ''/proc/'' mount_point of
        None \<Rightarrow> False | Some rest \<Rightarrow> rest \<noteq> [] \<and> list_all is_ascii_digit rest)"

text \<open>What is judged of a mount: its root in the file system, its mount point, its type and its source.\<close>

definition classify_mount :: "string \<Rightarrow> string \<Rightarrow> string \<Rightarrow> string \<Rightarrow> mount_masking_finding option" where
  "classify_mount root_in_fs mount_point fstype source =
     (if hides_a_pid mount_point then
        Some \<lparr>mmf_target_path = mount_point, mmf_mount_source = source, mmf_fstype = fstype,
          mmf_reason = ''overlay hides a PID from /proc (process masking)''\<rparr>
      else (case List.find (is_at_or_under mount_point) MASKABLE_LOG_ROOTS of
        None \<Rightarrow> None
      | Some dir \<Rightarrow>
          if fstype = ''tmpfs'' \<or> root_in_fs \<noteq> ''/'' then
            Some \<lparr>mmf_target_path = mount_point, mmf_mount_source = source, mmf_fstype = fstype,
              mmf_reason = (if fstype = ''tmpfs'' then ''tmpfs'' else ''bind'') @ '' overlay on '' @ dir
                @ '' (evidence hiding)''\<rparr>
          else None))"

definition classify_line :: "string \<Rightarrow> mount_masking_finding option" where
  "classify_line line =
     (case split_once_str '' - '' line of
        None \<Rightarrow> None
      | Some (left, right) \<Rightarrow>
          (case split_whitespace left of
             _ # _ # _ # root_in_fs # mount_point # _ \<Rightarrow>
               (case split_whitespace right of
                  [] \<Rightarrow> None
                | fstype # rf \<Rightarrow>
                    classify_mount root_in_fs mount_point fstype (case rf of [] \<Rightarrow> ''-'' | s # _ \<Rightarrow> s))
           | _ \<Rightarrow> None))"

definition detect_from_path :: "net_env \<Rightarrow> string \<Rightarrow> mount_masking_finding list \<times> string list" where
  "detect_from_path env path =
     (case read_procfs_capped (ne_read env path) CAP_MOUNTINFO of
        Inl _ \<Rightarrow> ([], [''mount masking scan skipped: '' @ path @ '' unreadable''])
      | Inr (content, truncated) \<Rightarrow>
          (let found = List.map_filter classify_line (lines content);
               over_cap = length (drop MAX_FINDINGS found)
           in (take MAX_FINDINGS found,
               (if truncated then [path @ '' truncated '' @ em_dash @ '' mount masking scan may be incomplete'']
                else [])
               @ (if over_cap > 0 then
                    [''mount masking: finding cap ('' @ show_nat MAX_FINDINGS @ '') reached; '' @ show_nat over_cap
                     @ '' further masking mount(s) matched but were NOT recorded '' @ em_dash
                     @ '' SEC-021 evidence is a LOWER BOUND''] else []))))"

definition scan_mount_masking :: "net_env \<Rightarrow> mount_masking_finding list \<times> string list" where
  "scan_mount_masking env = detect_from_path env ''/proc/self/mountinfo''"

section \<open>Foreign mount namespaces\<close>

text \<open>\<open>show_error\<close> is the text of an error with its number.\<close>

definition MAX_PIDS :: nat where "MAX_PIDS = 4096"

definition mnt_ns_inode :: "net_env \<Rightarrow> string \<Rightarrow> nat \<Rightarrow> os_kind + string" where
  "mnt_ns_inode env proc_root pid =
     (case ne_link env (pid_dir proc_root pid @ ''/ns/mnt'') of Inl e \<Rightarrow> Inl e | Inr t \<Rightarrow> Inr (from_utf8_lossy t))"

definition find_unit :: "string \<Rightarrow> string option" where
  "find_unit path =
     List.find (\<lambda>c. ends_with c ''.service'' \<or> ends_with c ''.scope'') (rev (split_char (CHR ''/'') path))"

fun unit_of_lines :: "string option \<Rightarrow> string list \<Rightarrow> string option" where
  "unit_of_lines fallback [] = fallback"
| "unit_of_lines fallback (line # ls) =
     (case Option.bind (split_once (CHR '':'') line) (\<lambda>(_, rest). split_once (CHR '':'') rest) of
        None \<Rightarrow> unit_of_lines fallback ls
      | Some (controllers, path) \<Rightarrow>
          (let unit = find_unit (trim path) in
           if (controllers = [] \<or> controllers = ''name=systemd'') \<and> unit \<noteq> None then unit
           else unit_of_lines (if fallback = None then unit else fallback) ls))"

definition systemd_unit :: "net_env \<Rightarrow> string \<Rightarrow> nat \<Rightarrow> string option" where
  "systemd_unit env proc_root pid =
     (case read_procfs_capped (ne_read env (pid_dir proc_root pid @ ''/cgroup'')) 8192 of
        Inl _ \<Rightarrow> None | Inr (cgroup, _) \<Rightarrow> unit_of_lines None (lines cgroup))"

definition mnt_ns_step ::
  "net_env \<Rightarrow> string \<Rightarrow> string \<Rightarrow> nat \<Rightarrow> mount_namespace_anomaly list \<times> nat \<Rightarrow> mount_namespace_anomaly list \<times> nat" where
  "mnt_ns_step env proc_root host_ns pid acc =
     (case mnt_ns_inode env proc_root pid of
        Inl e \<Rightarrow> if e = NotFound then acc else (fst acc, snd acc + 1)
      | Inr ns \<Rightarrow>
          if ns = host_ns then acc
          else (case ne_link env (pid_dir proc_root pid @ ''/exe'') of
            Inl _ \<Rightarrow> acc
          | Inr exe \<Rightarrow>
              (fst acc @ [\<lparr>mna_pid = of_nat pid, mna_comm = comm_of env proc_root pid,
                 mna_exe_path = Some (from_utf8_lossy exe), mna_mnt_ns = ns,
                 mna_systemd_unit = systemd_unit env proc_root pid,
                 mna_system_path = is_system_managed_path (from_utf8_lossy exe), mna_container = None\<rparr>],
               snd acc)))"

definition scan_mount_namespace_anomalies_from ::
  "(os_kind \<Rightarrow> string) \<Rightarrow> net_env \<Rightarrow> string \<Rightarrow> mount_namespace_anomaly list \<times> string list" where
  "scan_mount_namespace_anomalies_from show_error env proc_root =
     (case mnt_ns_inode env proc_root 1 of
        Inl e \<Rightarrow>
          ([], [''mount namespace scan: '' @ proc_root @ ''/1/ns/mnt unreadable ('' @ os_kind_text e @ '')''])
      | Inr host_ns \<Rightarrow>
          (case ne_dir env proc_root of
             Inl e \<Rightarrow> ([], [''mount namespace scan: '' @ proc_root @ '' unreadable ('' @ show_error e @ '')''])
           | Inr entries \<Rightarrow>
               (let pids = pids_of entries;
                    (found, denied) = fold (mnt_ns_step env proc_root host_ns) (take MAX_PIDS pids) ([], 0)
                in (sort_key mna_pid found,
                    (if denied > 0 then
                       [''mount namespace scan: /proc/<pid>/ns/mnt unreadable for '' @ show_nat denied
                        @ '' process(es)''] else [])
                    @ (if length pids > MAX_PIDS then
                       [''mount namespace scan: '' @ show_nat (length pids) @ '' processes, cap is ''
                        @ show_nat MAX_PIDS @ '' '' @ em_dash @ '' the '' @ show_nat (length pids - MAX_PIDS)
                        @ '' newest were NOT examined; this list is a LOWER BOUND''] else [])))))"

definition scan_mount_namespace_anomalies ::
  "(os_kind \<Rightarrow> string) \<Rightarrow> net_env \<Rightarrow> mount_namespace_anomaly list \<times> string list" where
  "scan_mount_namespace_anomalies show_error env =
     scan_mount_namespace_anomalies_from show_error env ''/proc''"

section \<open>Confinement\<close>

definition parse_lsm_list :: "string \<Rightarrow> string list" where
  "parse_lsm_list content = filter (\<lambda>s. s \<noteq> []) (map trim (split_char (CHR '','') (trim content)))"

definition complain_profile :: "string \<Rightarrow> string option" where
  "complain_profile attr_current = map_option trim (strip_suffix ''(complain)'' (trim attr_current))"

definition complain_step ::
  "net_env \<Rightarrow> string option \<Rightarrow> complain_proc list \<times> nat \<Rightarrow> complain_proc list \<times> nat" where
  "complain_step env name acc =
     (case Option.bind name (from_str_radix 32 10) of
        None \<Rightarrow> acc
      | Some pid \<Rightarrow>
          (case read_procfs_capped (ne_read env (pid_dir ''/proc'' pid @ ''/attr/current'')) 4096 of
             Inr (attr, _) \<Rightarrow>
               (case complain_profile attr of
                  None \<Rightarrow> acc
                | Some profile \<Rightarrow>
                    (fst acc @ [\<lparr>cp_pid = of_nat pid,
                       cp_comm = (case read_procfs_capped (ne_read env (pid_dir ''/proc'' pid @ ''/comm'')) 256 of
                                    Inl _ \<Rightarrow> [] | Inr (s, _) \<Rightarrow> trim s),
                       cp_profile = profile\<rparr>], snd acc))
           | Inl e \<Rightarrow> if e = PermissionDenied then (fst acc, snd acc + 1) else acc))"

definition gather_confinement :: "net_env \<Rightarrow> confinement_report \<times> string list" where
  "gather_confinement env =
     (let lsms = (case read_procfs_capped (ne_read env ''/sys/kernel/security/lsm'') 4096 of
                    Inl _ \<Rightarrow> [] | Inr (content, _) \<Rightarrow> parse_lsm_list content);
          permissive = (''selinux'' \<in> set lsms
            \<and> (case read_procfs_capped (ne_read env ''/sys/fs/selinux/enforce'') 16 of
                 Inl _ \<Rightarrow> False | Inr (v, _) \<Rightarrow> trim v = ''0''));
          (profiles, denied) =
            (if ''apparmor'' \<in> set lsms then
               (case ne_dir env ''/proc'' of Inl _ \<Rightarrow> ([], 0) | Inr entries \<Rightarrow> fold (complain_step env) entries ([], 0))
             else ([], 0))
      in (\<lparr>cr_lsms = lsms, cr_selinux_permissive = permissive, cr_complain_profiles = profiles,
           cr_attr_read_incomplete = (denied > 0)\<rparr>,
          if denied > 0 then
            [''confinement: '' @ show_nat denied @ '' process(es) with unreadable /proc/<pid>/attr/current''
             @ (if ne_is_root env then [] else '' '' @ em_dash @ '' run as root for full coverage'')
             @ ''; complain-mode audit INCOMPLETE''] else []))"

section \<open>Inode attributes\<close>

definition TRUST_ANCHORS :: "string list" where
  "TRUST_ANCHORS =
     [''/etc/passwd'', ''/etc/shadow'', ''/etc/group'', ''/etc/sudoers'', ''/etc/ld.so.preload'',
      ''/etc/ld.so.conf'', ''/etc/pam.d/common-auth'', ''/etc/pam.d/sshd'', ''/etc/pam.d/sudo'',
      ''/etc/ssh/sshd_config'', ''/etc/crontab'', ''/root/.ssh/authorized_keys'', ''/etc/hosts'',
      ''/etc/resolv.conf'', ''/etc/profile'', ''/etc/bash.bashrc'']"

definition FS_IMMUTABLE_FL :: u32 where "FS_IMMUTABLE_FL = 0x10"
definition FS_APPEND_FL :: u32 where "FS_APPEND_FL = 0x20"

definition locked_bits :: "u32 \<Rightarrow> bool \<times> bool" where
  "locked_bits flags = (and flags FS_IMMUTABLE_FL \<noteq> 0, and flags FS_APPEND_FL \<noteq> 0)"

text \<open>
  \<open>ae_ioctl\<close>: the file could not be opened, or the call failed with an error number, or it gave flags.
  \<open>ae_kind\<close> is the kind of an error number.
\<close>

record attr_env =
  ae_canonical :: "string \<Rightarrow> os_kind + string"
  ae_ioctl :: "string \<Rightarrow> os_kind + nat + u32"
  ae_kind :: "nat \<Rightarrow> os_kind"

definition ENOTTY :: nat where "ENOTTY = 25"
definition EINVAL :: nat where "EINVAL = 22"
definition EOPNOTSUPP :: nat where "EOPNOTSUPP = 95"

definition inode_flags :: "attr_env \<Rightarrow> string \<Rightarrow> os_kind + u32 option" where
  "inode_flags env path =
     (case ae_ioctl env path of
        Inl e \<Rightarrow> Inl e
      | Inr (Inl no) \<Rightarrow> if no \<in> {ENOTTY, EOPNOTSUPP, EINVAL} then Inr None else Inl (ae_kind env no)
      | Inr (Inr flags) \<Rightarrow> Inr (Some flags))"

definition anchor_flags :: "attr_env \<Rightarrow> string \<Rightarrow> immutable_flag option \<times> string list" where
  "anchor_flags env anchor =
     (case ae_canonical env anchor of
        Inl e \<Rightarrow>
          (None, if e = NotFound then []
                 else [''immutable: '' @ anchor @ '' unresolvable ('' @ os_kind_text e @ '') '' @ em_dash
                       @ '' attributes NOT read''])
      | Inr resolved \<Rightarrow>
          (case inode_flags env resolved of
             Inl e \<Rightarrow>
               (None, [''immutable: '' @ anchor @ '' ('' @ os_kind_text e @ '') '' @ em_dash
                       @ '' attributes NOT read; +i/+a state UNKNOWN''])
           | Inr None \<Rightarrow> (None, [])
           | Inr (Some flags) \<Rightarrow>
               (case locked_bits flags of (immutable, append_only) \<Rightarrow>
                  (if immutable \<or> append_only then
                     Some \<lparr>imf_path = anchor, imf_resolved = from_utf8_lossy resolved,
                       imf_immutable = immutable, imf_append_only = append_only\<rparr>
                   else None, []))))"

definition scan_immutable_from :: "attr_env \<Rightarrow> string list \<Rightarrow> immutable_flag list \<times> string list" where
  "scan_immutable_from env anchors =
     (List.map_filter (fst \<circ> anchor_flags env) anchors, concat (map (snd \<circ> anchor_flags env) anchors))"

definition scan_immutable_anchors :: "attr_env \<Rightarrow> immutable_flag list \<times> string list" where
  "scan_immutable_anchors env = scan_immutable_from env TRUST_ANCHORS"

section \<open>eBPF objects\<close>

definition MAX_BPF_OBJECTS :: nat where "MAX_BPF_OBJECTS = 256"
definition MAX_PIN_DEPTH :: nat where "MAX_PIN_DEPTH = 8"

definition parse_u32_field :: "string \<Rightarrow> string \<Rightarrow> u32 option" where
  "parse_u32_field line prefix = Option.bind (strip_prefix prefix line) (\<lambda>s. parse_u32 (trim s))"

definition is_bpf_fd :: "string \<Rightarrow> bool" where
  "is_bpf_fd link_target =
     (case strip_prefix ''anon_inode:'' link_target of
        None \<Rightarrow> False
      | Some r \<Rightarrow>
          (let rest = (case strip_prefix ''['' r of None \<Rightarrow> r | Some t \<Rightarrow> t) in
           starts_with rest ''bpf-'' \<or> starts_with rest ''bpf_''))"

datatype bpf_kind = BpfProg | BpfMap | BpfLink

record bpf_fd_info =
  bi_type :: bpf_kind
  bi_id :: u32
  bi_type_or_name :: "string option"
  bi_prog_tag :: string
  bi_prog_id :: u32

text \<open>The fields of an \<open>fdinfo\<close> as they are collected; a later line overrides an earlier one.\<close>

record bpf_fields =
  bf_prog_id :: "u32 option"
  bf_map_id :: "u32 option"
  bf_link_id :: "u32 option"
  bf_prog_type :: "string option"
  bf_map_type :: "string option"
  bf_link_type :: "string option"
  bf_prog_name :: "string option"
  bf_prog_tag :: string

definition no_bpf_fields :: bpf_fields where
  "no_bpf_fields =
     \<lparr>bf_prog_id = None, bf_map_id = None, bf_link_id = None, bf_prog_type = None, bf_map_type = None,
      bf_link_type = None, bf_prog_name = None, bf_prog_tag = []\<rparr>"

definition bpf_line :: "string \<Rightarrow> bpf_fields \<Rightarrow> bpf_fields" where
  "bpf_line line f =
     (case parse_u32_field line ''prog_id:'' of Some v \<Rightarrow> f\<lparr>bf_prog_id := Some v\<rparr> | None \<Rightarrow>
     (case parse_u32_field line ''map_id:'' of Some v \<Rightarrow> f\<lparr>bf_map_id := Some v\<rparr> | None \<Rightarrow>
     (case parse_u32_field line ''link_id:'' of Some v \<Rightarrow> f\<lparr>bf_link_id := Some v\<rparr> | None \<Rightarrow>
     (case strip_prefix ''prog_type:'' line of Some v \<Rightarrow> f\<lparr>bf_prog_type := Some (trim v)\<rparr> | None \<Rightarrow>
     (case strip_prefix ''map_type:'' line of Some v \<Rightarrow> f\<lparr>bf_map_type := Some (trim v)\<rparr> | None \<Rightarrow>
     (case strip_prefix ''link_type:'' line of Some v \<Rightarrow> f\<lparr>bf_link_type := Some (trim v)\<rparr> | None \<Rightarrow>
     (case strip_prefix ''prog_name:'' line of Some v \<Rightarrow> f\<lparr>bf_prog_name := Some (trim v)\<rparr> | None \<Rightarrow>
     (case strip_prefix ''prog_tag:'' line of Some v \<Rightarrow> f\<lparr>bf_prog_tag := trim v\<rparr> | None \<Rightarrow> f))))))))"

definition bpf_info_of :: "bpf_fields \<Rightarrow> bpf_fd_info option" where
  "bpf_info_of f =
     (case bf_link_id f of
        Some n \<Rightarrow>
          Some \<lparr>bi_type = BpfLink, bi_id = n, bi_type_or_name = bf_link_type f, bi_prog_tag = bf_prog_tag f,
            bi_prog_id = (case bf_prog_id f of None \<Rightarrow> 0 | Some p \<Rightarrow> p)\<rparr>
      | None \<Rightarrow>
     (case bf_map_id f of
        Some n \<Rightarrow>
          Some \<lparr>bi_type = BpfMap, bi_id = n, bi_type_or_name = bf_map_type f, bi_prog_tag = bf_prog_tag f,
            bi_prog_id = 0\<rparr>
      | None \<Rightarrow>
          map_option (\<lambda>n. \<lparr>bi_type = BpfProg, bi_id = n,
            bi_type_or_name = (if bf_prog_name f = None then bf_prog_type f else bf_prog_name f),
            bi_prog_tag = bf_prog_tag f, bi_prog_id = n\<rparr>) (bf_prog_id f)))"

definition parse_bpf_fdinfo :: "string \<Rightarrow> bpf_fd_info option" where
  "parse_bpf_fdinfo fdinfo = bpf_info_of (fold bpf_line (lines fdinfo) no_bpf_fields)"

record bpf_walk =
  bw_programs :: "bpf_prog_info list"
  bw_maps :: "bpf_map_info list"
  bw_links :: "bpf_link_info list"
  bw_dropped :: nat
  bw_denied :: nat
  bw_notes :: "string list"

definition empty_walk :: bpf_walk where
  "empty_walk =
     \<lparr>bw_programs = [], bw_maps = [], bw_links = [], bw_dropped = 0, bw_denied = 0, bw_notes = []\<rparr>"

definition walk_full :: "bpf_walk \<Rightarrow> bool" where
  "walk_full w =
     (MAX_BPF_OBJECTS \<le> length (bw_programs w) \<and> MAX_BPF_OBJECTS \<le> length (bw_maps w)
      \<and> MAX_BPF_OBJECTS \<le> length (bw_links w))"

text \<open>\<open>push_capped\<close>: the list with the item if there is room, else one more is dropped.\<close>

definition push_capped :: "'a list \<Rightarrow> 'a \<Rightarrow> nat \<Rightarrow> 'a list \<times> nat" where
  "push_capped xs x dropped =
     (if length xs < MAX_BPF_OBJECTS then (xs @ [x], dropped) else (xs, dropped + 1))"

definition or_empty :: "string option \<Rightarrow> string" where
  "or_empty x = (case x of None \<Rightarrow> [] | Some s \<Rightarrow> s)"

definition add_object :: "nat \<Rightarrow> string \<Rightarrow> bpf_fd_info \<Rightarrow> bpf_walk \<Rightarrow> bpf_walk" where
  "add_object pid comm i w =
     (case bi_type i of
        BpfProg \<Rightarrow>
          (case push_capped (bw_programs w) \<lparr>bpi_prog_id = bi_id i, bpi_prog_type = or_empty (bi_type_or_name i),
              bpi_prog_name = None, bpi_prog_tag = bi_prog_tag i, bpi_pid = of_nat pid, bpi_comm = comm\<rparr>
              (bw_dropped w) of (xs, d) \<Rightarrow> w\<lparr>bw_programs := xs, bw_dropped := d\<rparr>)
      | BpfMap \<Rightarrow>
          (case push_capped (bw_maps w) \<lparr>bmi_map_id = bi_id i, bmi_map_type = or_empty (bi_type_or_name i),
              bmi_pid = of_nat pid, bmi_comm = comm\<rparr> (bw_dropped w) of
             (xs, d) \<Rightarrow> w\<lparr>bw_maps := xs, bw_dropped := d\<rparr>)
      | BpfLink \<Rightarrow>
          (case push_capped (bw_links w) \<lparr>bli_link_id = bi_id i, bli_prog_id = bi_prog_id i,
              bli_attach_type = or_empty (bi_type_or_name i), bli_pid = of_nat pid, bli_comm = comm\<rparr>
              (bw_dropped w) of (xs, d) \<Rightarrow> w\<lparr>bw_links := xs, bw_dropped := d\<rparr>))"

text \<open>The object a descriptor is, if it is one and can be read.\<close>

definition bpf_object :: "net_env \<Rightarrow> nat \<Rightarrow> string option \<Rightarrow> bpf_fd_info option" where
  "bpf_object env pid name =
     (case Option.bind name (from_str_radix 32 10) of
        None \<Rightarrow> None
      | Some fdnum \<Rightarrow>
          (case ne_link env (pid_dir ''/proc'' pid @ ''/fd/'' @ show_nat fdnum) of
             Inl _ \<Rightarrow> None
           | Inr target \<Rightarrow>
               if \<not> is_bpf_fd (from_utf8_lossy target) then None
               else (case read_procfs_capped
                        (ne_read env (pid_dir ''/proc'' pid @ ''/fdinfo/'' @ show_nat fdnum)) 8192 of
                  Inl _ \<Rightarrow> None
                | Inr (fdinfo, _) \<Rightarrow> parse_bpf_fdinfo fdinfo)))"

fun scan_fds :: "net_env \<Rightarrow> nat \<Rightarrow> string \<Rightarrow> nat \<Rightarrow> string option list \<Rightarrow> bpf_walk \<Rightarrow> bpf_walk" where
  "scan_fds env pid comm scanned [] w = w"
| "scan_fds env pid comm scanned (fd # fds) w =
     (if MAX_FD_PER_PID < scanned + 1 then
        w\<lparr>bw_notes := bw_notes w @ [''ebpf: pid '' @ show_nat pid @ '' fd budget exhausted at ''
            @ show_nat MAX_FD_PER_PID @ '' '' @ em_dash @ '' inventory INCOMPLETE for this PID'']\<rparr>
      else if walk_full w then w\<lparr>bw_dropped := bw_dropped w + 1\<rparr>
      else scan_fds env pid comm (scanned + 1) fds
        (case bpf_object env pid fd of None \<Rightarrow> w | Some i \<Rightarrow> add_object pid comm i w))"

definition bpf_comm :: "net_env \<Rightarrow> nat \<Rightarrow> string" where
  "bpf_comm env pid =
     (case read_procfs_capped (ne_read env (pid_dir ''/proc'' pid @ ''/comm'')) 4096 of
        Inl _ \<Rightarrow> [] | Inr (s, _) \<Rightarrow> trim s)"

definition scan_pid :: "net_env \<Rightarrow> nat \<Rightarrow> bpf_walk \<Rightarrow> bpf_walk" where
  "scan_pid env pid w =
     (case ne_dir env (pid_dir ''/proc'' pid @ ''/fd'') of
        Inl e \<Rightarrow> if e = NotFound then w else w\<lparr>bw_denied := bw_denied w + 1\<rparr>
      | Inr fds \<Rightarrow> scan_fds env pid (bpf_comm env pid) 0 fds w)"

fun scan_entries :: "net_env \<Rightarrow> string option list \<Rightarrow> bpf_walk \<Rightarrow> bpf_walk" where
  "scan_entries env [] w = w"
| "scan_entries env (e # es) w =
     (if walk_full w then w\<lparr>bw_dropped := bw_dropped w + 1\<rparr>
      else scan_entries env es
        (case Option.bind e (from_str_radix 32 10) of None \<Rightarrow> w | Some pid \<Rightarrow> scan_pid env pid w))"

definition scan_proc_bpf :: "net_env \<Rightarrow> bpf_walk" where
  "scan_proc_bpf env =
     (case ne_dir env ''/proc'' of
        Inl e \<Rightarrow>
          empty_walk\<lparr>bw_notes := [''ebpf: /proc unreadable ('' @ os_kind_text e @ '') '' @ em_dash
            @ '' BPF program/map/link inventory NOT enumerated'']\<rparr>
      | Inr entries \<Rightarrow>
          (let w = scan_entries env entries empty_walk in
           if bw_denied w > 0 then
             w\<lparr>bw_notes := bw_notes w @ [''ebpf: /proc/<pid>/fd unreadable for '' @ show_nat (bw_denied w)
                 @ '' process(es)'' @ (if ne_is_root env then [] else '' '' @ em_dash @ '' run as root for full coverage'')
                 @ ''; BPF program/map/link inventory is a LOWER BOUND'']\<rparr>
           else w))"

text \<open>The pinned objects: what a directory of \<open>/sys/fs/bpf\<close> lists, with the type of each entry if it is known.\<close>

datatype entry_kind = SymlinkEntry | DirEntry | OtherEntry

type_synonym pin_dirs = "string \<Rightarrow> os_kind + (string \<times> entry_kind option) list"

type_synonym pin_walk = "bpf_pin_info list \<times> nat \<times> string list"

primrec scan_bpf_dir :: "nat \<Rightarrow> pin_dirs \<Rightarrow> string \<Rightarrow> pin_walk \<Rightarrow> pin_walk" where
  "scan_bpf_dir 0 dirs dir w =
     (case w of (pins, dropped, notes) \<Rightarrow> (pins, dropped, notes @ [''ebpf: pin scan depth limit at '' @ from_utf8_lossy dir]))"
| "scan_bpf_dir (Suc depth) dirs dir w =
     (case dirs dir of
        Inl e \<Rightarrow>
          if e = NotFound then w
          else (case w of (pins, dropped, notes) \<Rightarrow>
            (pins, dropped, notes @ [''ebpf: '' @ from_utf8_lossy dir @ '' unreadable ('' @ os_kind_text e @ '') ''
               @ em_dash @ '' pinned objects below it NOT enumerated; a pin outlives its creator (persistence surface)'']))
      | Inr entries \<Rightarrow>
          fold (\<lambda>(name, kind) (pins, dropped, notes).
            case kind of
              Some DirEntry \<Rightarrow> scan_bpf_dir depth dirs (path_join dir name) (pins, dropped, notes)
            | Some OtherEntry \<Rightarrow>
                if MAX_BPF_OBJECTS \<le> length pins then (pins, dropped + 1, notes)
                else (pins @ [\<lparr>bni_path = from_utf8_lossy (path_join dir name), bni_obj_type = ''unknown'',
                        bni_obj_id = 0\<rparr>], dropped, notes)
            | _ \<Rightarrow> (pins, dropped, notes)) entries w)"

definition scan_bpf_pins :: "pin_dirs \<Rightarrow> bpf_pin_info list \<times> string list" where
  "scan_bpf_pins dirs =
     (case scan_bpf_dir MAX_PIN_DEPTH dirs ''/sys/fs/bpf'' ([], 0, []) of
        (pins, dropped, notes) \<Rightarrow>
          (pins, notes @ (if dropped > 0 then
             [''ebpf: '' @ show_nat dropped @ '' pinned object(s) dropped at MAX_BPF_OBJECTS (''
              @ show_nat MAX_BPF_OBJECTS @ '') '' @ em_dash @ '' pin inventory INCOMPLETE. A pinned program ''
              @ ''outlives its creating process, so this is a persistence surface.''] else [])))"

definition gather_ebpf_inventory :: "net_env \<Rightarrow> pin_dirs \<Rightarrow> ebpf_inventory \<times> string list" where
  "gather_ebpf_inventory env dirs =
     (let w = scan_proc_bpf env; (pins, pin_notes) = scan_bpf_pins dirs in
      (\<lparr>ebi_programs = bw_programs w, ebi_maps = bw_maps w, ebi_pins = pins, ebi_links = bw_links w,
         ebi_prog_tags = btree (filter (\<lambda>t. t \<noteq> []) (map bpi_prog_tag (bw_programs w)))\<rparr>,
       bw_notes w @ pin_notes
       @ (if bw_dropped w > 0 then
            [''ebpf: '' @ show_nat (bw_dropped w) @ '' object(s) dropped at MAX_BPF_OBJECTS '' @ em_dash
             @ '' inventory INCOMPLETE''] else [])
       @ (if pins \<noteq> [] then
            [''ebpf: type/id of '' @ show_nat (length pins) @ '' pin(s) in /sys/fs/bpf unknown '' @ em_dash
             @ '' requires BPF_OBJ_GET outside pure-VFS mode; pin path recorded (Raw Truth)''] else [])))"

end
