(* ===== verification/HostScanLaws.thy ===== *)
theory HostScanLaws
  imports HostScan
begin

text \<open>
  What the smaller scanners find: the ports Docker publishes past the firewall, the mounts that hide a
  process or logs, the processes in foreign mount namespaces, the locked files and the eBPF objects.
\<close>

section \<open>Published ports\<close>

definition binding_text :: "parsed_binding \<Rightarrow> string" where
  "binding_text b =
     pb_bind_address b @ '':'' @ show_word (pb_host_port b) @ ''->'' @ show_word (pb_container_port b)
     @ ''/'' @ pb_protocol b"

definition address_char :: "char \<Rightarrow> bool" where
  "address_char c = (visible c \<and> c \<noteq> CHR ''-'' \<and> c \<noteq> CHR '','' \<and> c \<noteq> CHR ''['' \<and> c \<noteq> CHR '']'')"

text \<open>An address is in brackets or has none; the protocol is a word.\<close>

definition binding_ok :: "parsed_binding \<Rightarrow> bool" where
  "binding_ok b =
     ((list_all address_char (pb_bind_address b) \<and> pb_bind_address b \<noteq> []
       \<or> (\<exists>a. list_all address_char a \<and> pb_bind_address b = ''['' @ a @ '']''))
      \<and> list_all (\<lambda>c. visible c \<and> c \<noteq> CHR '','') (pb_protocol b) \<and> pb_protocol b \<noteq> [])"

lemma parse_u16_show: "parse_u16 (show_word w) = Some w"
  using parse_show_nat [of "unat w" 16] unsigned_less [of w, where 'a = nat] by (simp add: parse_u16_def show_word_def)

lemma show_word_chars_no:
  "byte c < 48 \<or> 57 < byte c \<Longrightarrow> c \<notin> set (show_word w)"
  using show_nat_digits [of "unat w"] by (auto simp: show_word_def list_all_iff)

lemma host_side_roundtrip:
  assumes "binding_ok b"
  shows "host_side_of (pb_bind_address b @ '':'' @ show_word (pb_host_port b)) =
    Some (pb_bind_address b, show_word (pb_host_port b))"
proof -
  have colon: "CHR '':'' \<notin> set (show_word (pb_host_port b))" by (rule show_word_chars_no) (simp add: byte_def)
  from assms consider
      "list_all address_char (pb_bind_address b)" "pb_bind_address b \<noteq> []"
    | a where "list_all address_char a" "pb_bind_address b = ''['' @ a @ '']''"
    by (auto simp: binding_ok_def)
  then show ?thesis
  proof cases
    case 1
    then have "\<not> starts_with (pb_bind_address b @ s) ''[''" for s
      by (cases "pb_bind_address b") (auto simp: address_char_def)
    then show ?thesis using colon by (simp add: host_side_of_def rsplit_once_def split_once_append)
  next
    case 2
    then have "CHR '']'' \<notin> set (CHR ''['' # a)" by (auto simp: list_all_iff address_char_def)
    from split_once_append [OF this, of "'':'' @ show_word (pb_host_port b)"] show ?thesis
      by (simp add: host_side_of_def 2(2))
  qed
qed

lemma binding_chars:
  assumes "binding_ok b"
  shows "CHR ''-'' \<notin> set (pb_bind_address b @ '':'' @ show_word (pb_host_port b))"
    "list_all visible (binding_text b)" "CHR '','' \<notin> set (binding_text b)" "binding_text b \<noteq> []"
proof -
  have ac: "list_all (\<lambda>c. visible c \<and> c \<noteq> CHR ''-'' \<and> c \<noteq> CHR '','') x" if "list_all address_char x" for x
    using that by (rule list.pred_mono_strong) (simp add: address_char_def)
  have "visible (CHR ''['')" "visible (CHR '']'')" by (simp_all add: visible_def)
  then have a: "list_all (\<lambda>c. visible c \<and> c \<noteq> CHR ''-'' \<and> c \<noteq> CHR '','') (pb_bind_address b)"
    using assms ac unfolding binding_ok_def by (elim conjE disjE exE) simp_all
  have d: "list_all (\<lambda>c. visible c \<and> c \<noteq> CHR ''-'' \<and> c \<noteq> CHR '','') (show_word w)" for w :: u16
    using show_nat_visible(2) [of "unat w"] show_nat_digits [of "unat w"]
    by (auto simp: show_word_def list_all_iff byte_def)
  show "CHR ''-'' \<notin> set (pb_bind_address b @ '':'' @ show_word (pb_host_port b))"
    using a d [of "pb_host_port b"] by (auto simp: list_all_iff)
  have p: "list_all (\<lambda>c. visible c \<and> c \<noteq> CHR '','') (pb_protocol b)" using assms by (simp add: binding_ok_def)
  have q: "list_all (\<lambda>c. visible c \<and> c \<noteq> CHR '','') x" if "list_all (\<lambda>c. visible c \<and> c \<noteq> CHR ''-'' \<and> c \<noteq> CHR '','') x" for x
    using that by (rule list.pred_mono_strong) simp
  have v: "visible (CHR '':'')" "visible (CHR ''-'')" "visible (CHR ''>'')" "visible (CHR ''/'')" by (simp_all add: visible_def)
  have all: "list_all (\<lambda>c. visible c \<and> c \<noteq> CHR '','') (binding_text b)"
    using p q [OF a] q [OF d [of "pb_host_port b"]] q [OF d [of "pb_container_port b"]] v by (simp add: binding_text_def)
  then show "list_all visible (binding_text b)" by (rule list.pred_mono_strong) simp
  show "CHR '','' \<notin> set (binding_text b)" using all by (auto simp: list_all_iff)
  show "binding_text b \<noteq> []" by (simp add: binding_text_def)
qed

lemma trim_binding: "binding_ok b \<Longrightarrow> trim (binding_text b) = binding_text b"
  using binding_chars(2,4) [of b] by (simp add: trim_visible list_all_iff)

lemma binding_roundtrip:
  assumes "binding_ok b"
  shows "parse_binding (binding_text b) = Some b"
proof -
  have "split_once_str ''->'' ((pb_bind_address b @ '':'' @ show_word (pb_host_port b)) @ ''->''
      @ (show_word (pb_container_port b) @ ''/'' @ pb_protocol b)) =
    Some (pb_bind_address b @ '':'' @ show_word (pb_host_port b), show_word (pb_container_port b) @ ''/'' @ pb_protocol b)"
    by (rule split_once_str_append [OF binding_chars(1) [OF assms]])
  then have s: "split_once_str ''->'' (binding_text b) =
      Some (pb_bind_address b @ '':'' @ show_word (pb_host_port b), show_word (pb_container_port b) @ ''/'' @ pb_protocol b)"
    by (simp add: binding_text_def)
  have "CHR ''/'' \<notin> set (show_word (pb_container_port b))" by (rule show_word_chars_no) (simp add: byte_def)
  then have "split_once (CHR ''/'') (show_word (pb_container_port b) @ ''/'' @ pb_protocol b) =
      Some (show_word (pb_container_port b), pb_protocol b)"
    by (simp add: split_once_append)
  then show ?thesis
    using s host_side_roundtrip [OF assms] by (simp add: parse_binding_def trim_binding [OF assms] parse_u16_show)
qed

lemma split_joined_bindings:
  "list_all (\<lambda>x. list_all visible x \<and> CHR '','' \<notin> set x \<and> x \<noteq> []) xs \<Longrightarrow> xs \<noteq> [] \<Longrightarrow>
     map trim (split_char (CHR '','') (join '', '' xs)) = xs"
proof (induction xs)
  case (Cons x xs)
  have x: "split_char (CHR '','') x = [x]" "trim x = x"
    using Cons.prems by (simp_all add: split_char_none trim_visible list_all_iff)
  show ?case
  proof (cases xs)
    case Nil
    then show ?thesis using x by simp
  next
    case (Cons y ys)
    obtain w ws where w: "split_char (CHR '','') (join '', '' xs) = w # ws" by (cases "split_char (CHR '','') (join '', '' xs)") auto
    then have "map trim (w # ws) = xs" using Cons.IH Cons.prems Cons by simp
    then show ?thesis
      using x w Cons split_char_append [of "CHR '',''" x "CHR '' '' # join '', '' xs"] by (simp add: trim_blank)
  qed
qed simp

definition published :: "container_info \<Rightarrow> bool \<Rightarrow> parsed_binding \<Rightarrow> firewall_bypass_finding" where
  "published c fw b =
     \<lparr>fbf_container = ci_name c, fbf_published = binding_text b, fbf_host_port = pb_host_port b,
      fbf_container_port = pb_container_port b, fbf_protocol = pb_protocol b,
      fbf_sensitive = (pb_host_port b \<in> set SENSITIVE_PORTS), fbf_firewall_was_active = fw\<rparr>"

text \<open>
  What the entries of a container say, several of which may stand in one text: a published binding, or a
  port that the image exposes and nobody has published, which \<open>runtime.rs\<close> writes as port and protocol.
\<close>

datatype port_entry = Published parsed_binding | Exposed u16 string

fun entry_text :: "port_entry \<Rightarrow> string" where
  "entry_text (Published b) = binding_text b"
| "entry_text (Exposed port protocol) = show_word port @ ''/'' @ protocol"

fun entry_ok :: "port_entry \<Rightarrow> bool" where
  "entry_ok (Published b) = binding_ok b"
| "entry_ok (Exposed port protocol) =
     (protocol \<noteq> [] \<and> list_all (\<lambda>c. visible c \<and> c \<noteq> CHR '','' \<and> c \<noteq> CHR ''-'') protocol)"

definition published_bindings :: "port_entry list \<Rightarrow> parsed_binding list" where
  "published_bindings es = List.map_filter (\<lambda>e. case e of Published b \<Rightarrow> Some b | Exposed _ _ \<Rightarrow> None) es"

definition publishes :: "container_info \<times> port_entry list list \<Rightarrow> bool" where
  "publishes p =
     (ci_ports (fst p) = map (\<lambda>es. join '', '' (map entry_text es)) (snd p)
      \<and> list_all (\<lambda>es. es \<noteq> [] \<and> list_all entry_ok es) (snd p))"

lemma exposed_text:
  assumes "entry_ok (Exposed port protocol)"
  shows "list_all visible (entry_text (Exposed port protocol))" "CHR '','' \<notin> set (entry_text (Exposed port protocol))"
    "parse_binding (entry_text (Exposed port protocol)) = None"
proof -
  have d: "list_all (\<lambda>c. visible c \<and> c \<noteq> CHR ''-'' \<and> c \<noteq> CHR '','') (show_word port)"
    using show_nat_visible(2) [of "unat port"] show_nat_digits [of "unat port"]
    by (auto simp: show_word_def list_all_iff byte_def)
  have "visible (CHR ''/'')" by (simp add: visible_def)
  then have all: "list_all (\<lambda>c. visible c \<and> c \<noteq> CHR ''-'' \<and> c \<noteq> CHR '','') (entry_text (Exposed port protocol))"
    using d assms by (auto simp: list_all_iff)
  then show v: "list_all visible (entry_text (Exposed port protocol))" by (rule list.pred_mono_strong) simp
  show "CHR '','' \<notin> set (entry_text (Exposed port protocol))" using all by (auto simp: list_all_iff)
  have "CHR ''-'' \<notin> set (entry_text (Exposed port protocol))" using all by (auto simp: list_all_iff)
  moreover have "entry_text (Exposed port protocol) \<noteq> []" by simp
  then have "trim (entry_text (Exposed port protocol)) = entry_text (Exposed port protocol)"
    using v hd_in_set last_in_set by (intro trim_visible) (auto simp: list_all_iff simp del: entry_text.simps)
  ultimately show "parse_binding (entry_text (Exposed port protocol)) = None"
    by (simp add: parse_binding_def split_once_str_none del: entry_text.simps)
qed

lemma entry_chars:
  "entry_ok e \<Longrightarrow> list_all visible (entry_text e) \<and> CHR '','' \<notin> set (entry_text e) \<and> entry_text e \<noteq> []"
  using binding_chars exposed_text by (cases e) (simp_all del: entry_text.simps(2), simp)

lemma entry_bypasses:
  assumes "es \<noteq> []" "list_all entry_ok es"
  shows "List.map_filter (binding_finding c fw) (map trim (split_char (CHR '','') (join '', '' (map entry_text es))))
    = map (published c fw) (filter (\<lambda>b. is_network_reachable_bind (pb_bind_address b)) (published_bindings es))"
proof -
  have t: "map trim (split_char (CHR '','') (join '', '' (map entry_text es))) = map entry_text es"
    using assms entry_chars by (intro split_joined_bindings) (auto simp: list_all_iff)
  have "binding_finding c fw (binding_text b) =
      (if is_network_reachable_bind (pb_bind_address b) then Some (published c fw b) else None)" if "binding_ok b" for b
    by (simp add: binding_finding_def binding_roundtrip [OF that] published_def)
  moreover have "binding_finding c fw (entry_text (Exposed port protocol)) = None"
    if "entry_ok (Exposed port protocol)" for port protocol
    using exposed_text(3) [OF that] by (simp add: binding_finding_def)
  ultimately show ?thesis using assms(2) unfolding t published_bindings_def
  proof (induction es)
    case (Cons e es)
    then show ?case by (cases e) (simp_all add: List.map_filter_simps del: entry_text.simps(2))
  qed (simp add: List.map_filter_simps)
qed

text \<open>
  C39: The ports reported as published past the firewall are exactly those that a running container binds
  to an address other than loopback, IPv4 or IPv6, bracketed or not, one or several to an entry; with the
  port, the protocol and the address as published, and as sensitive exactly if the host port is on the list.
  Ports that are only exposed may stand anywhere among them: they are not reported, and hide nothing that
  comes after them.
\<close>

theorem firewall_bypass_exact:
  assumes "list_all publishes cs"
  shows "detect_firewall_bypass (map fst cs) fw =
    concat (map (\<lambda>(c, groups). if ci_state c = ''running''
      then map (published c fw) (filter (\<lambda>b. is_network_reachable_bind (pb_bind_address b))
             (concat (map published_bindings groups)))
      else []) cs)"
proof -
  have "container_bypasses fw c = (if ci_state c = ''running''
      then map (published c fw) (filter (\<lambda>b. is_network_reachable_bind (pb_bind_address b))
             (concat (map published_bindings groups)))
      else [])" if "publishes (c, groups)" for c groups
  proof -
    have "list_all (\<lambda>es. es \<noteq> [] \<and> list_all entry_ok es) groups" using that by (simp add: publishes_def)
    then have "concat (map (\<lambda>es. List.map_filter (binding_finding c fw)
          (map trim (split_char (CHR '','') (join '', '' (map entry_text es))))) groups)
        = map (published c fw) (filter (\<lambda>b. is_network_reachable_bind (pb_bind_address b))
             (concat (map published_bindings groups)))"
      by (induction groups) (simp_all add: entry_bypasses)
    then show ?thesis using that by (simp add: container_bypasses_def publishes_def o_def)
  qed
  then show ?thesis using assms by (induction cs) (auto simp: detect_firewall_bypass_def)
qed

definition exposed_redis :: "container_info \<times> port_entry list list" where
  "exposed_redis =
     (let groups = [[Exposed 9000 ''tcp''],
            [Published \<lparr>pb_bind_address = ''[::1]'', pb_host_port = 80, pb_container_port = 80, pb_protocol = ''tcp''\<rparr>,
             Published \<lparr>pb_bind_address = ''203.0.113.5'', pb_host_port = 6379, pb_container_port = 6379,
               pb_protocol = ''tcp''\<rparr>]]
      in (default_container_info\<lparr>ci_state := ''running'',
            ci_ports := map (\<lambda>es. join '', '' (map entry_text es)) groups\<rparr>, groups))"

theorem firewall_bypass_exact_witness:
  "map (\<lambda>f. (fbf_host_port f, fbf_sensitive f)) (detect_firewall_bypass [fst exposed_redis] True) = [(6379, True)]"
proof -
  have ok: "binding_ok \<lparr>pb_bind_address = ''[::1]'', pb_host_port = 80, pb_container_port = 80, pb_protocol = ''tcp''\<rparr>"
    unfolding binding_ok_def by (rule conjI, rule disjI2, rule exI [of _ "''::1''"])
      (simp_all add: address_char_def visible_def)
  have "publishes exposed_redis"
    using ok by (simp add: publishes_def exposed_redis_def binding_ok_def [of "\<lparr>pb_bind_address = ''203.0.113.5'',
        pb_host_port = 6379, pb_container_port = 6379, pb_protocol = ''tcp''\<rparr>"] address_char_def visible_def)
  then have "list_all publishes [exposed_redis]" by simp
  from firewall_bypass_exact [OF this, of True] show ?thesis
    by (simp add: exposed_redis_def published_def published_bindings_def List.map_filter_simps SENSITIVE_PORTS_def
        is_network_reachable_bind_def is_loopback_bind_def v4_loopback_def strip_suffix_def)
qed

section \<open>Mounts\<close>

text \<open>A line of \<open>mountinfo\<close>, with any number of optional tags before the separator.\<close>

record mount_row =
  mr_ids :: "string \<times> string \<times> string"
  mr_root :: string
  mr_point :: string
  mr_options :: "string list"
  mr_fstype :: string
  mr_source :: string
  mr_super :: "string list"

definition mount_left :: "mount_row \<Rightarrow> string list" where
  "mount_left m =
     [fst (mr_ids m), fst (snd (mr_ids m)), snd (snd (mr_ids m)), mr_root m, mr_point m] @ mr_options m"

definition mount_line :: "mount_row \<Rightarrow> string" where
  "mount_line m = join '' '' (mount_left m) @ '' - '' @ join '' '' ([mr_fstype m, mr_source m] @ mr_super m)"

definition mount_ok :: "mount_row \<Rightarrow> bool" where
  "mount_ok m =
     (list_all (\<lambda>w. w \<noteq> [] \<and> list_all visible w \<and> w \<noteq> ''-'') (mount_left m)
      \<and> list_all (\<lambda>w. w \<noteq> [] \<and> list_all visible w) ([mr_fstype m, mr_source m] @ mr_super m))"

lemma split_dash_word:
  "list_all visible w \<Longrightarrow> split_once_str '' - '' (w @ s) = map_option (\<lambda>(a, b). (w @ a, b)) (split_once_str '' - '' s)"
proof (induction w)
  case (Cons c w)
  have "c \<noteq> CHR '' ''" using Cons.prems by (auto simp: visible_def)
  then show ?case using Cons by (auto split: option.splits)
qed (cases "split_once_str '' - '' s"; simp)

lemma no_dash_here:
  assumes "w \<noteq> []" "list_all visible w" "w \<noteq> ''-''"
  shows "strip_prefix ''- '' (w @ s) = None"
proof (cases w)
  case (Cons c v)
  then show ?thesis
  proof (cases v)
    case (Cons d u)
    then have "d \<noteq> CHR '' ''" using assms(2) \<open>w = c # v\<close> by (auto simp: visible_def)
    then show ?thesis using Cons \<open>w = c # v\<close> by simp
  qed (use assms(3) Cons in simp)
qed (use assms(1) in simp)

lemma split_dash:
  "list_all (\<lambda>w. w \<noteq> [] \<and> list_all visible w \<and> w \<noteq> ''-'') ws \<Longrightarrow> ws \<noteq> [] \<Longrightarrow>
     split_once_str '' - '' (join '' '' ws @ '' - '' @ s) = Some (join '' '' ws, s)"
proof (induction ws)
  case (Cons w ws)
  show ?case
  proof (cases ws)
    case Nil
    then show ?thesis using Cons.prems split_dash_word [of w "'' - '' @ s"] by simp
  next
    case (Cons v vs)
    let ?t = "join '' '' ws @ '' - '' @ s"
    have "strip_prefix ''- '' (v @ x) = None" for x using Cons.prems Cons by (intro no_dash_here) simp_all
    then have "strip_prefix ''- '' ?t = None" using Cons by (cases vs) simp_all
    then have "split_once_str '' - '' (CHR '' '' # ?t) = Some (CHR '' '' # join '' '' ws, s)"
      using Cons.IH Cons.prems Cons by simp
    then show ?thesis using Cons.prems Cons split_dash_word [of w "CHR '' '' # ?t"] by simp
  qed
qed simp

lemma classify_mount_line:
  assumes "mount_ok m"
  shows "classify_line (mount_line m) = classify_mount (mr_root m) (mr_point m) (mr_fstype m) (mr_source m)"
proof -
  have "split_once_str '' - '' (mount_line m) =
      Some (join '' '' (mount_left m), join '' '' ([mr_fstype m, mr_source m] @ mr_super m))"
    unfolding mount_line_def using assms by (intro split_dash) (simp_all add: mount_ok_def mount_left_def)
  moreover have "split_whitespace (join '' '' (mount_left m)) = mount_left m"
    using assms by (intro split_join_words) (auto simp: mount_ok_def list_all_iff)
  moreover have "split_whitespace (join '' '' ([mr_fstype m, mr_source m] @ mr_super m)) = [mr_fstype m, mr_source m] @ mr_super m"
    using assms by (intro split_join_words) (auto simp: mount_ok_def list_all_iff)
  ultimately show ?thesis by (simp add: classify_line_def mount_left_def)
qed

text \<open>
  Of the mounts the kernel lists, those are reported that lie over a process directory or put a tmpfs or
  a part of another file system over the logs, whatever options and optional tags stand in the line; the
  first 64 of them, and a note that says how many more there are.
\<close>

theorem masking_mounts_exact:
  assumes "read_procfs_capped (ne_read env path) CAP_MOUNTINFO = Inr (file_of (map mount_line ms), False)"
    and "list_all mount_ok ms"
  defines "masking \<equiv> List.map_filter (\<lambda>m. classify_mount (mr_root m) (mr_point m) (mr_fstype m) (mr_source m)) ms"
  shows "fst (detect_from_path env path) = take 64 masking
    \<and> (snd (detect_from_path env path) = [] \<longleftrightarrow> length masking \<le> 64)"
proof -
  have "line_text (mount_line m)" if "mount_ok m" for m
  proof -
    have ne: "mount_left m \<noteq> []" by (simp add: mount_left_def)
    have v: "list_all plain_word (mount_left m @ [''-''] @ [mr_fstype m, mr_source m] @ mr_super m)"
      using that by (auto simp: mount_ok_def plain_word_def list_all_iff visible_def)
    have "mount_line m = join '' '' (mount_left m @ [''-''] @ [mr_fstype m, mr_source m] @ mr_super m)"
      using join_words [of "mount_left m" "[''-''] @ [mr_fstype m, mr_source m] @ mr_super m"]
      by (simp add: mount_line_def ne)
    then show ?thesis using join_line [OF v] by simp
  qed
  then have "lines (file_of (map mount_line ms)) = map mount_line ms"
    using assms(2) by (intro lines_file) (auto simp: list_all_iff)
  moreover have "List.map_filter classify_line (map mount_line ms) = masking"
    using assms(2) unfolding masking_def
    by (induction ms) (simp_all add: List.map_filter_simps classify_mount_line split: option.splits)
  ultimately show ?thesis
    using assms(1) by (simp add: detect_from_path_def MAX_FINDINGS_def Let_def)
qed

section \<open>Mount namespaces\<close>

text \<open>What is known of a process: its namespace and its program, where both can be read.\<close>

definition namespace_of :: "net_env \<Rightarrow> string \<Rightarrow> nat \<Rightarrow> (string \<times> string) option" where
  "namespace_of env dir pid =
     (case (mnt_ns_inode env dir pid, ne_link env (pid_dir dir pid @ ''/exe'')) of
        (Inr ns, Inr exe) \<Rightarrow> Some (ns, from_utf8_lossy exe) | _ \<Rightarrow> None)"

definition anomaly_key :: "mount_namespace_anomaly \<Rightarrow> u32 \<times> string \<times> string option" where
  "anomaly_key a = (mna_pid a, mna_mnt_ns a, mna_exe_path a)"

definition anomaly_here :: "net_env \<Rightarrow> string \<Rightarrow> string \<Rightarrow> nat \<Rightarrow> (u32 \<times> string \<times> string option) option" where
  "anomaly_here env dir host pid =
     (case namespace_of env dir pid of
        Some (ns, exe) \<Rightarrow> if ns = host then None else Some (of_nat pid, ns, Some exe) | None \<Rightarrow> None)"

lemma anomaly_here_iff:
  "anomaly_here env dir host pid = Some k \<longleftrightarrow>
     (\<exists>ns exe. namespace_of env dir pid = Some (ns, exe) \<and> ns \<noteq> host \<and> k = (of_nat pid, ns, Some exe))"
  by (cases "namespace_of env dir pid") (auto simp: anomaly_here_def split: if_splits)

definition namespace_refused :: "net_env \<Rightarrow> string \<Rightarrow> nat \<Rightarrow> bool" where
  "namespace_refused env dir pid =
     (case mnt_ns_inode env dir pid of Inl e \<Rightarrow> e \<noteq> NotFound | Inr _ \<Rightarrow> False)"

lemma mnt_ns_step_spec:
  "map anomaly_key (fst (mnt_ns_step env dir h pid acc)) =
     map anomaly_key (fst acc) @ (case anomaly_here env dir h pid of None \<Rightarrow> [] | Some k \<Rightarrow> [k])"
  "snd (mnt_ns_step env dir h pid acc) = snd acc + (if namespace_refused env dir pid then 1 else 0)"
  by (cases "mnt_ns_inode env dir pid"; cases "ne_link env (pid_dir dir pid @ ''/exe'')";
      simp add: mnt_ns_step_def anomaly_here_def namespace_of_def namespace_refused_def anomaly_key_def)+

lemma mnt_ns_fold:
  "map anomaly_key (fst (fold (mnt_ns_step env dir h) pids acc)) =
     map anomaly_key (fst acc) @ List.map_filter (anomaly_here env dir h) pids"
  "snd (fold (mnt_ns_step env dir h) pids acc) = snd acc + length (filter (namespace_refused env dir) pids)"
  by (induction pids arbitrary: acc) (simp_all add: mnt_ns_step_spec List.map_filter_simps split: option.splits)

text \<open>
  C36: A scan of mount namespaces that leaves no note lists exactly the processes whose namespace is not
  that of process 1 and whose program can be read, every one of them with its namespace and its program,
  containers and their first process included; no process was refused and none left out by the cap.
  (\<open>docs/FIELDS.md\<close> and the comment on the type say that the list holds only what is not attributable to a
  known container; the code labels such a process with its container and keeps it.)
\<close>

theorem mount_namespaces_complete:
  assumes "scan_mount_namespace_anomalies_from show_error env dir = (found, [])"
  shows "\<exists>host entries. mnt_ns_inode env dir 1 = Inr host \<and> ne_dir env dir = Inr entries
    \<and> anomaly_key ` set found = {(of_nat pid, ns, Some exe) | pid ns exe.
        pid \<in> set (pids_of entries) \<and> namespace_of env dir pid = Some (ns, exe) \<and> ns \<noteq> host}
    \<and> \<not> list_ex (namespace_refused env dir) (pids_of entries)"
proof -
  obtain host entries where h: "mnt_ns_inode env dir 1 = Inr host" "ne_dir env dir = Inr entries"
    using assms by (auto simp: scan_mount_namespace_anomalies_from_def split: sum.splits)
  let ?pids = "take MAX_PIDS (pids_of entries)"
  obtain fs denied where f: "fold (mnt_ns_step env dir host) ?pids ([], 0) = (fs, denied)"
    by (cases "fold (mnt_ns_step env dir host) ?pids ([], 0)")
  then have r: "sort_key mna_pid fs = found \<and> denied = 0 \<and> \<not> length (pids_of entries) > MAX_PIDS"
    using assms by (simp add: scan_mount_namespace_anomalies_from_def h [simplified] Let_def split: if_splits)
  then have all: "?pids = pids_of entries" "set found = set fs" by auto
  have "anomaly_key ` set found = set (map anomaly_key (fst (fold (mnt_ns_step env dir host) (pids_of entries) ([], 0))))"
    using f unfolding all by simp
  also have "\<dots> = {k. \<exists>pid\<in>set (pids_of entries). anomaly_here env dir host pid = Some k}"
    unfolding mnt_ns_fold by (simp add: map_filter_set set_eq_iff)
  also have "\<dots> = {(of_nat pid, ns, Some exe) | pid ns exe.
      pid \<in> set (pids_of entries) \<and> namespace_of env dir pid = Some (ns, exe) \<and> ns \<noteq> host}"
    by (auto simp: anomaly_here_iff)
  finally have k: "anomaly_key ` set found = \<dots>" .
  have "filter (namespace_refused env dir) (pids_of entries) = []"
    using mnt_ns_fold(2) [of env dir host "pids_of entries" "([], 0)"] f r unfolding all(1) by simp
  then have "\<not> list_ex (namespace_refused env dir) (pids_of entries)"
    by (simp add: filter_empty_conv list_ex_iff)
  then show ?thesis using h k by blast
qed

text \<open>A host where process 7 runs in a namespace of its own.\<close>

definition unshared_host :: net_env where
  "unshared_host =
     \<lparr>ne_read = (\<lambda>p. if p = ''m'' then Inr (file_of [mount_line \<lparr>mr_ids = (''36'', ''35'', ''0:1''), mr_root = ''/'',
          mr_point = ''/proc/7'', mr_options = [''rw'', ''shared:1'', ''master:2''], mr_fstype = ''tmpfs'',
          mr_source = ''none'', mr_super = [''rw'']\<rparr>]) else Inl NotFound),
      ne_link = (\<lambda>p. if p = ''/proc/1/ns/mnt'' then Inr ''mnt:[1]'' else if p = ''/proc/7/ns/mnt'' then Inr ''mnt:[2]''
        else if p = ''/proc/7/exe'' then Inr ''/tmp/x'' else Inl NotFound),
      ne_dir = (\<lambda>p. Inr [Some ''7'']), ne_is_root = True, ne_sockets = (\<lambda>xs. xs), ne_spaces = (\<lambda>xs. xs)\<rparr>"

lemma unshared_pids: "pid_dir ''/proc'' 7 = ''/proc/7''" "pid_dir ''/proc'' 1 = ''/proc/1''"
    "pids_of [Some ''7''] = [7]"
proof -
  have "show_nat 7 = ''7''" "show_nat 1 = ''1''" "from_str_radix 32 10 ''7'' = Some 7"
    by (simp_all add: show_nat_def show_base.simps digit_char_def from_str_radix_def digit_value_def) code_simp+
  then show "pid_dir ''/proc'' 7 = ''/proc/7''" "pid_dir ''/proc'' 1 = ''/proc/1''" "pids_of [Some ''7''] = [7]"
    by (simp_all add: pid_dir_def pids_of_def List.map_filter_simps)
qed

theorem masking_mounts_exact_witness:
  "map mmf_target_path (fst (detect_from_path unshared_host ''m'')) = [''/proc/7'']"
proof -
  let ?m = "\<lparr>mr_ids = (''36'', ''35'', ''0:1''), mr_root = ''/'', mr_point = ''/proc/7'',
    mr_options = [''rw'', ''shared:1'', ''master:2''], mr_fstype = ''tmpfs'', mr_source = ''none'', mr_super = [''rw'']\<rparr>"
  have t: "mount_line ?m = ''36 35 0:1 / /proc/7 rw shared:1 master:2 - tmpfs none rw''"
    by (simp add: mount_line_def mount_left_def)
  have "list_all (\<lambda>c. byte c < 128) (file_of [mount_line ?m])" "length (file_of [mount_line ?m]) \<le> CAP_MOUNTINFO"
    unfolding t by (simp_all add: file_of_def byte_def CAP_MOUNTINFO_def)
  then have r: "read_procfs_capped (ne_read unshared_host ''m'') CAP_MOUNTINFO = Inr (file_of (map mount_line [?m]), False)"
    by (simp add: unshared_host_def read_short)
  have ok: "list_all mount_ok [?m]" by (simp add: mount_ok_def mount_left_def visible_def)
  have "hides_a_pid ''/proc/7''" by (simp add: hides_a_pid_def is_ascii_digit_def)
  with masking_mounts_exact [OF r ok] show ?thesis by (simp add: List.map_filter_simps classify_mount_def)
qed

theorem mount_namespaces_complete_witness:
  "anomaly_key ` set (fst (scan_mount_namespace_anomalies_from os_kind_text unshared_host ''/proc'')) =
     {(7, ''mnt:[2]'', Some ''/tmp/x'')}"
proof -
  let ?scan = "scan_mount_namespace_anomalies_from os_kind_text unshared_host ''/proc''"
  have lossy: "from_utf8_lossy s = s" if "list_all (\<lambda>c. byte c < 128) s" for s using that by (rule ascii_lossy)
  have i: "mnt_ns_inode unshared_host ''/proc'' 1 = Inr ''mnt:[1]''" "mnt_ns_inode unshared_host ''/proc'' 7 = Inr ''mnt:[2]''"
    by (simp_all add: mnt_ns_inode_def unshared_pids unshared_pids [simplified] unshared_host_def lossy byte_def)
  have d: "ne_dir unshared_host ''/proc'' = Inr [Some ''7'']" by (simp add: unshared_host_def)
  have x: "ne_link unshared_host (pid_dir ''/proc'' 7 @ ''/exe'') = Inr ''/tmp/x''"
    by (simp add: unshared_pids unshared_host_def)
  have "snd ?scan = []"
    by (simp add: scan_mount_namespace_anomalies_from_def i [simplified] d unshared_pids MAX_PIDS_def mnt_ns_step_def
        x [unfolded unshared_pids, simplified])
  then obtain found where f: "?scan = (found, [])" by (cases ?scan) simp
  obtain h es where e: "mnt_ns_inode unshared_host ''/proc'' 1 = Inr h" "ne_dir unshared_host ''/proc'' = Inr es"
    "anomaly_key ` set found = {(of_nat pid, ns, Some exe) | pid ns exe.
        pid \<in> set (pids_of es) \<and> namespace_of unshared_host ''/proc'' pid = Some (ns, exe) \<and> ns \<noteq> h}"
    using mount_namespaces_complete [OF f] by blast
  have "namespace_of unshared_host ''/proc'' 7 = Some (''mnt:[2]'', ''/tmp/x'')"
    by (simp add: namespace_of_def i x lossy byte_def)
  then have "anomaly_key ` set found = {(7, ''mnt:[2]'', Some ''/tmp/x'')}"
    using e i d by (auto simp: unshared_pids)
  then show ?thesis unfolding f by simp
qed

section \<open>Locked files\<close>

definition locked :: "u32 option \<Rightarrow> bool" where
  "locked fl = (case fl of None \<Rightarrow> False | Some v \<Rightarrow> bit v 4 \<or> bit v 5)"

lemma locked_bits_bits: "locked_bits v = (bit v 4, bit v 5)"
proof -
  have "FS_IMMUTABLE_FL = push_bit 4 1" "FS_APPEND_FL = push_bit 5 1"
    by (simp_all add: FS_IMMUTABLE_FL_def FS_APPEND_FL_def)
  then show ?thesis unfolding locked_bits_def by (simp only: bit_iff_and_push_bit_not_eq_0)
qed

lemma anchor_flags_spec:
  "fst (anchor_flags env a) = Some f \<Longrightarrow> imf_path f = a"
  "snd (anchor_flags env a) = [] \<Longrightarrow>
     (case ae_canonical env a of Inl e \<Rightarrow> e = NotFound \<and> fst (anchor_flags env a) = None
      | Inr r \<Rightarrow> \<exists>fl. inode_flags env r = Inr fl \<and> ((fst (anchor_flags env a) \<noteq> None) = locked fl))"
  by (auto simp: anchor_flags_def locked_bits_bits locked_def split: sum.splits option.splits if_splits)

text \<open>
  If the scan of the trust anchors leaves no note, then every one of them is absent, or its attributes
  were read, unless its file system has none, and it is reported exactly if it is immutable or append-only.
\<close>

theorem locked_anchors_exact:
  assumes "scan_immutable_anchors env = (found, [])" "a \<in> set TRUST_ANCHORS"
  shows "case ae_canonical env a of Inl e \<Rightarrow> e = NotFound \<and> a \<notin> imf_path ` set found
    | Inr r \<Rightarrow> \<exists>fl. inode_flags env r = Inr fl \<and> (a \<in> imf_path ` set found \<longleftrightarrow> locked fl)"
proof -
  have n: "snd (anchor_flags env a) = []"
    using assms by (auto simp: scan_immutable_anchors_def scan_immutable_from_def)
  have m: "a \<in> imf_path ` set found \<longleftrightarrow> fst (anchor_flags env a) \<noteq> None"
  proof
    assume "a \<in> imf_path ` set found"
    then obtain f b where "fst (anchor_flags env b) = Some f" "imf_path f = a"
      using assms(1) by (auto simp: scan_immutable_anchors_def scan_immutable_from_def map_filter_set)
    then show "fst (anchor_flags env a) \<noteq> None" using anchor_flags_spec(1) by fastforce
  next
    assume "fst (anchor_flags env a) \<noteq> None"
    then obtain f where f: "fst (anchor_flags env a) = Some f" by blast
    then have "f \<in> set found"
      using assms by (auto simp: scan_immutable_anchors_def scan_immutable_from_def map_filter_set)
    then show "a \<in> imf_path ` set found" using anchor_flags_spec(1) [OF f] by blast
  qed
  show ?thesis using anchor_flags_spec(2) [OF n] unfolding m by (simp split: sum.splits)
qed

definition locked_host :: attr_env where
  "locked_host =
     \<lparr>ae_canonical = (\<lambda>p. if p = ''/etc/passwd'' then Inr p else Inl NotFound), ae_ioctl = (\<lambda>p. Inr (Inr 0x10)),
      ae_kind = (\<lambda>no. PermissionDenied)\<rparr>"

theorem locked_anchors_exact_witness:
  "''/etc/passwd'' \<in> imf_path ` set (fst (scan_immutable_anchors locked_host))"
proof -
  have "snd (scan_immutable_anchors locked_host) = []"
    by (simp add: scan_immutable_anchors_def scan_immutable_from_def anchor_flags_def locked_host_def inode_flags_def
        split: prod.splits)
  then have "scan_immutable_anchors locked_host = (fst (scan_immutable_anchors locked_host), [])"
    by (metis prod.collapse)
  from locked_anchors_exact [OF this, of "''/etc/passwd''"] show ?thesis
    by (simp add: TRUST_ANCHORS_def locked_host_def inode_flags_def locked_def bit_iff_odd)
qed

section \<open>eBPF objects\<close>

definition objects :: "bpf_walk \<Rightarrow> (u32 \<times> bpf_kind \<times> u32) set" where
  "objects w =
     (\<lambda>p. (bpi_pid p, BpfProg, bpi_prog_id p)) ` set (bw_programs w)
     \<union> (\<lambda>m. (bmi_pid m, BpfMap, bmi_map_id m)) ` set (bw_maps w)
     \<union> (\<lambda>l. (bli_pid l, BpfLink, bli_link_id l)) ` set (bw_links w)"

text \<open>Nothing was left out so far.\<close>

definition untouched :: "bpf_walk \<Rightarrow> bool" where
  "untouched w = (bw_dropped w = 0 \<and> bw_notes w = [] \<and> bw_denied w = 0)"

text \<open>What \<open>bpf_object\<close> makes of the descriptors listed, and, below, what a descriptor holds by its \<open>fdinfo\<close>.\<close>

definition held_by :: "net_env \<Rightarrow> nat \<Rightarrow> string option list \<Rightarrow> (u32 \<times> bpf_kind \<times> u32) set" where
  "held_by env pid fds = {(of_nat pid, bi_type i, bi_id i) | fd i. fd \<in> set fds \<and> bpf_object env pid fd = Some i}"

lemma add_object_exact:
  "untouched (add_object pid comm i w) \<Longrightarrow>
     untouched w \<and> objects (add_object pid comm i w) = insert (of_nat pid, bi_type i, bi_id i) (objects w)"
  by (cases "bi_type i")
    (auto simp: add_object_def push_capped_def untouched_def objects_def split: if_splits)

lemma held_by_Cons:
  "held_by env pid (fd # fds) =
     (case bpf_object env pid fd of None \<Rightarrow> {} | Some i \<Rightarrow> {(of_nat pid, bi_type i, bi_id i)}) \<union> held_by env pid fds"
  by (auto simp: held_by_def split: option.splits)

lemma scan_fds_exact:
  "untouched (scan_fds env pid comm n fds w) \<Longrightarrow>
     untouched w \<and> objects (scan_fds env pid comm n fds w) = objects w \<union> held_by env pid fds"
proof (induction env pid comm n fds w rule: scan_fds.induct)
  case (2 env pid comm n fd fds w)
  have ok: "\<not> MAX_FD_PER_PID < n + 1" "\<not> walk_full w"
    using 2(2) by (auto simp: untouched_def split: if_splits)
  then show ?case
    using 2 add_object_exact by (cases "bpf_object env pid fd") (auto simp: held_by_Cons)
qed (simp add: held_by_def)

lemma scan_pid_exact:
  "untouched (scan_pid env pid w) \<Longrightarrow> untouched w
     \<and> objects (scan_pid env pid w) = objects w \<union>
        (case ne_dir env (pid_dir ''/proc'' pid @ ''/fd'') of Inl _ \<Rightarrow> {} | Inr fds \<Rightarrow> held_by env pid fds)
     \<and> (\<forall>e. ne_dir env (pid_dir ''/proc'' pid @ ''/fd'') = Inl e \<longrightarrow> e = NotFound)"
proof (cases "ne_dir env (pid_dir ''/proc'' pid @ ''/fd'')")
  case (Inl e)
  assume "untouched (scan_pid env pid w)"
  then have "e = NotFound" by (cases "e = NotFound") (simp_all add: scan_pid_def Inl untouched_def)
  with \<open>untouched (scan_pid env pid w)\<close> Inl show ?thesis by (simp add: scan_pid_def)
next
  case (Inr fds)
  assume "untouched (scan_pid env pid w)"
  with Inr show ?thesis using scan_fds_exact [of env pid "bpf_comm env pid" 0 fds w] by (simp add: scan_pid_def)
qed

text \<open>A process is seen if its descriptors could be listed, or it is gone.\<close>

definition process_seen :: "net_env \<Rightarrow> string option \<Rightarrow> bool" where
  "process_seen env e =
     (case Option.bind e (from_str_radix 32 10) of
        None \<Rightarrow> True
      | Some pid \<Rightarrow>
          (case ne_dir env (pid_dir ''/proc'' pid @ ''/fd'') of Inl err \<Rightarrow> err = NotFound | Inr _ \<Rightarrow> True))"

definition process_objects :: "net_env \<Rightarrow> string option \<Rightarrow> (u32 \<times> bpf_kind \<times> u32) set" where
  "process_objects env e =
     (case Option.bind e (from_str_radix 32 10) of
        None \<Rightarrow> {}
      | Some pid \<Rightarrow>
          (case ne_dir env (pid_dir ''/proc'' pid @ ''/fd'') of Inl _ \<Rightarrow> {} | Inr fds \<Rightarrow> held_by env pid fds))"

lemma scan_entries_exact:
  "untouched (scan_entries env es w) \<Longrightarrow>
     untouched w \<and> objects (scan_entries env es w) = objects w \<union> \<Union> (process_objects env ` set es)
     \<and> (\<forall>e \<in> set es. process_seen env e)"
proof (induction env es w rule: scan_entries.induct)
  case (2 env e es w)
  have ok: "\<not> walk_full w" using 2(2) by (auto simp: untouched_def split: if_splits)
  then show ?case
    using 2 scan_pid_exact
    by (cases "Option.bind e (from_str_radix 32 10)")
      (auto simp: process_objects_def process_seen_def split: sum.splits)
qed simp

text \<open>
  The identity of an object, from the lines of its \<open>fdinfo\<close>: a link has a \<open>link_id\<close>, and tells of its program
  as well; a map has a \<open>map_id\<close>; what has neither and a \<open>prog_id\<close> is a program. Of several lines the last counts.
\<close>

definition fdinfo_id :: "string \<Rightarrow> string list \<Rightarrow> u32 option" where
  "fdinfo_id field ls = (case rev (List.map_filter (\<lambda>l. parse_u32_field l field) ls) of [] \<Rightarrow> None | n # _ \<Rightarrow> Some n)"

definition fdinfo_names :: "string list \<Rightarrow> bpf_kind \<Rightarrow> u32 \<Rightarrow> bool" where
  "fdinfo_names ls k n =
     (case fdinfo_id ''link_id:'' ls of
        Some l \<Rightarrow> k = BpfLink \<and> n = l
      | None \<Rightarrow>
          (case fdinfo_id ''map_id:'' ls of
             Some m \<Rightarrow> k = BpfMap \<and> n = m
           | None \<Rightarrow> k = BpfProg \<and> fdinfo_id ''prog_id:'' ls = Some n))"

lemma field_prefix: "parse_u32_field l field = Some v \<Longrightarrow> starts_with l field"
  by (auto simp: parse_u32_field_def strip_prefix_Some_iff starts_with_iff bind_eq_Some_conv)

lemma one_field:
  "parse_u32_field l ''prog_id:'' = Some v \<Longrightarrow> parse_u32_field l ''map_id:'' = None \<and> parse_u32_field l ''link_id:'' = None"
  "parse_u32_field l ''map_id:'' = Some v \<Longrightarrow> parse_u32_field l ''link_id:'' = None"
proof -
  have "\<not> (starts_with l ''prog_id:'' \<and> starts_with l ''map_id:'')" "\<not> (starts_with l ''prog_id:'' \<and> starts_with l ''link_id:'')"
    "\<not> (starts_with l ''map_id:'' \<and> starts_with l ''link_id:'')"
    by (cases l; simp)+
  then show "parse_u32_field l ''prog_id:'' = Some v \<Longrightarrow> parse_u32_field l ''map_id:'' = None \<and> parse_u32_field l ''link_id:'' = None"
    "parse_u32_field l ''map_id:'' = Some v \<Longrightarrow> parse_u32_field l ''link_id:'' = None"
    using field_prefix by (metis not_None_eq)+
qed

lemma bpf_line_ids:
  "bf_prog_id (bpf_line l f) = (case parse_u32_field l ''prog_id:'' of None \<Rightarrow> bf_prog_id f | Some v \<Rightarrow> Some v)"
  "bf_map_id (bpf_line l f) = (case parse_u32_field l ''map_id:'' of None \<Rightarrow> bf_map_id f | Some v \<Rightarrow> Some v)"
  "bf_link_id (bpf_line l f) = (case parse_u32_field l ''link_id:'' of None \<Rightarrow> bf_link_id f | Some v \<Rightarrow> Some v)"
  using one_field [of l] by (auto simp: bpf_line_def split: option.splits)

lemma fdinfo_id_snoc:
  "fdinfo_id field (ls @ [l]) = (case parse_u32_field l field of None \<Rightarrow> fdinfo_id field ls | Some v \<Rightarrow> Some v)"
  by (auto simp: fdinfo_id_def List.map_filter_def split: option.splits)

lemma bpf_fold_ids:
  "bf_prog_id (fold bpf_line ls no_bpf_fields) = fdinfo_id ''prog_id:'' ls"
  "bf_map_id (fold bpf_line ls no_bpf_fields) = fdinfo_id ''map_id:'' ls"
  "bf_link_id (fold bpf_line ls no_bpf_fields) = fdinfo_id ''link_id:'' ls"
proof (induction ls rule: rev_induct)
  case Nil
  {
    case 1
    show ?case by (simp add: no_bpf_fields_def fdinfo_id_def List.map_filter_simps)
  next
    case 2
    show ?case by (simp add: no_bpf_fields_def fdinfo_id_def List.map_filter_simps)
  next
    case 3
    show ?case by (simp add: no_bpf_fields_def fdinfo_id_def List.map_filter_simps)
  }
next
  case (snoc l ls)
  {
    case 1
    show ?case using snoc(1) by (simp add: bpf_line_ids fdinfo_id_snoc split: option.split)
  next
    case 2
    show ?case using snoc(2) by (simp add: bpf_line_ids fdinfo_id_snoc split: option.split)
  next
    case 3
    show ?case using snoc(3) by (simp add: bpf_line_ids fdinfo_id_snoc split: option.split)
  }
qed

lemma fdinfo_object:
  "(\<exists>i. parse_bpf_fdinfo text = Some i \<and> bi_type i = k \<and> bi_id i = n) \<longleftrightarrow> fdinfo_names (lines text) k n"
  by (auto simp: parse_bpf_fdinfo_def bpf_info_of_def fdinfo_names_def bpf_fold_ids split: option.splits)

text \<open>The object behind a descriptor, if its link and its \<open>fdinfo\<close> can be read.\<close>

definition descriptor_holds :: "net_env \<Rightarrow> nat \<Rightarrow> string option \<Rightarrow> bpf_kind \<Rightarrow> u32 \<Rightarrow> bool" where
  "descriptor_holds env pid fd k n \<longleftrightarrow>
     (\<exists>name num target text cut. fd = Some name \<and> from_str_radix 32 10 name = Some num
        \<and> ne_link env (pid_dir ''/proc'' pid @ ''/fd/'' @ show_nat num) = Inr target
        \<and> is_bpf_fd (from_utf8_lossy target)
        \<and> read_procfs_capped (ne_read env (pid_dir ''/proc'' pid @ ''/fdinfo/'' @ show_nat num)) 8192 = Inr (text, cut)
        \<and> fdinfo_names (lines text) k n)"

definition held_objects :: "net_env \<Rightarrow> string option list \<Rightarrow> (u32 \<times> bpf_kind \<times> u32) set" where
  "held_objects env entries =
     {(of_nat pid, k, n) | pid k n. \<exists>name fds fd. Some name \<in> set entries \<and> from_str_radix 32 10 name = Some pid
        \<and> ne_dir env (pid_dir ''/proc'' pid @ ''/fd'') = Inr fds \<and> fd \<in> set fds \<and> descriptor_holds env pid fd k n}"

lemma object_held:
  "(\<exists>i. bpf_object env pid fd = Some i \<and> bi_type i = k \<and> bi_id i = n) \<longleftrightarrow> descriptor_holds env pid fd k n"
  unfolding descriptor_holds_def fdinfo_object [symmetric]
  by (auto simp: bpf_object_def bind_eq_Some_conv split: option.splits sum.splits if_splits)

lemma held_by_holds: "(p, k, n) \<in> held_by env pid fds \<longleftrightarrow> p = of_nat pid \<and> (\<exists>fd \<in> set fds. descriptor_holds env pid fd k n)"
  unfolding held_by_def object_held [symmetric] by auto

lemma no_objects: "objects empty_walk = {}"
  by (simp add: objects_def empty_walk_def)

lemma process_objects_holds:
  "(p, k, n) \<in> process_objects env e \<longleftrightarrow> (\<exists>name pid fds fd. e = Some name \<and> from_str_radix 32 10 name = Some pid
     \<and> ne_dir env (pid_dir ''/proc'' pid @ ''/fd'') = Inr fds \<and> p = of_nat pid
     \<and> fd \<in> set fds \<and> descriptor_holds env pid fd k n)"
  by (auto simp: process_objects_def held_by_holds bind_eq_Some_conv split: option.splits sum.splits)

lemma process_objects_held: "\<Union> (process_objects env ` set entries) = held_objects env entries"
proof (rule set_eqI)
  fix x :: "u32 \<times> bpf_kind \<times> u32"
  obtain p k n where x: "x = (p, k, n)" by (cases x)
  show "x \<in> \<Union> (process_objects env ` set entries) \<longleftrightarrow> x \<in> held_objects env entries"
  proof
    assume "x \<in> \<Union> (process_objects env ` set entries)"
    then obtain e where "e \<in> set entries" "(p, k, n) \<in> process_objects env e" unfolding x by (elim UN_E)
    then show "x \<in> held_objects env entries"
      unfolding process_objects_holds held_objects_def x mem_Collect_eq by blast
  next
    assume "x \<in> held_objects env entries"
    then obtain name pid fds fd where "Some name \<in> set entries" "from_str_radix 32 10 name = Some pid" "p = of_nat pid"
        "ne_dir env (pid_dir ''/proc'' pid @ ''/fd'') = Inr fds" "fd \<in> set fds" "descriptor_holds env pid fd k n"
      unfolding held_objects_def x mem_Collect_eq prod.inject by (elim exE conjE) (simp only:)
    then show "x \<in> \<Union> (process_objects env ` set entries)"
      unfolding x by (intro UN_I [of "Some name"]) (simp_all only: process_objects_holds, blast)
  qed
qed

text \<open>
  C37: If the eBPF scan drops nothing and leaves no note, then no process was refused, since the descriptors
  of each could be listed unless it was gone, and no limit cut the list short: the programs, maps and links
  reported are exactly the objects behind the descriptors of all processes, each under its process and named
  by the lines of its \<open>fdinfo\<close>. (A single descriptor whose link or \<open>fdinfo\<close> cannot be read is passed over
  without a note: \<open>unreadable_descriptor_is_silent\<close>.)
\<close>

theorem ebpf_objects_exact:
  assumes "bw_notes (scan_proc_bpf env) = []" "bw_dropped (scan_proc_bpf env) = 0"
  shows "\<exists>entries. ne_dir env ''/proc'' = Inr entries \<and> (\<forall>e \<in> set entries. process_seen env e)
    \<and> objects (scan_proc_bpf env) = held_objects env entries"
proof -
  obtain entries where e: "ne_dir env ''/proc'' = Inr entries"
    using assms(1) by (cases "ne_dir env ''/proc''") (auto simp: scan_proc_bpf_def)
  let ?w = "scan_entries env entries empty_walk"
  have s: "scan_proc_bpf env = ?w" "bw_denied ?w = 0"
    using assms(1) by (auto simp: scan_proc_bpf_def e Let_def split: if_splits)
  then have "untouched ?w" using assms by (simp add: untouched_def)
  from scan_entries_exact [OF this] show ?thesis
    using e by (simp add: s(1) process_objects_held no_objects)
qed

text \<open>
  A descriptor of an eBPF object whose \<open>fdinfo\<close> cannot be read changes nothing: no note, no count of what
  was left out, no object.
\<close>

lemma unreadable_descriptor_is_silent:
  assumes "from_str_radix 32 10 name = Some num"
    and "ne_link env (pid_dir ''/proc'' pid @ ''/fd/'' @ show_nat num) = Inr target"
    and "ne_read env (pid_dir ''/proc'' pid @ ''/fdinfo/'' @ show_nat num) = Inl e"
    and "\<not> walk_full w" "n < MAX_FD_PER_PID"
  shows "scan_fds env pid comm n (Some name # fds) w = scan_fds env pid comm (n + 1) fds w"
  using assms by (simp add: bpf_object_def read_procfs_capped_def)

definition bpf_host :: net_env where
  "bpf_host = unshared_host\<lparr>ne_dir := \<lambda>p. if p = ''/proc'' then Inr [Some ''7''] else Inr [Some ''7''],
     ne_link := \<lambda>p. Inr ''anon_inode:[bpf_link]'', ne_read := \<lambda>p. Inr (file_of [''link_id:7'', ''prog_id:7''])\<rparr>"

theorem ebpf_objects_exact_witness:
  "objects (scan_proc_bpf bpf_host) = {(7, BpfLink, 7)}"
proof -
  have l: "lines (file_of [''link_id:7'', ''prog_id:7'']) = [''link_id:7'', ''prog_id:7'']"
    by (rule lines_file) (simp add: line_text_def)
  have "trim ''7'' = ''7''" by (simp add: trim_visible visible_def)
  then have p: "parse_u32 (trim ''7'') = Some 7" by (simp add: parse_u32_def from_str_radix_def digit_value_def)
  have f: "parse_bpf_fdinfo (file_of [''link_id:7'', ''prog_id:7'']) = Some \<lparr>bi_type = BpfLink, bi_id = 7,
      bi_type_or_name = None, bi_prog_tag = [], bi_prog_id = 7\<rparr>"
    by (simp add: parse_bpf_fdinfo_def l bpf_line_def parse_u32_field_def p no_bpf_fields_def bpf_info_of_def)
  have r: "read_procfs_capped (Inr (file_of [''link_id:7'', ''prog_id:7''])) 8192 = Inr (file_of [''link_id:7'', ''prog_id:7''], False)"
    by (rule read_short) (simp_all add: file_of_def byte_def)
  have n: "from_str_radix 32 10 ''7'' = Some 7" by (simp add: from_str_radix_def digit_value_def)
  have "from_utf8_lossy ''anon_inode:[bpf_link]'' = ''anon_inode:[bpf_link]''" by (rule ascii_lossy) (simp add: byte_def)
  then have o: "bpf_object bpf_host 7 (Some ''7'') = Some \<lparr>bi_type = BpfLink, bi_id = 7,
      bi_type_or_name = None, bi_prog_tag = [], bi_prog_id = 7\<rparr>"
    by (simp add: bpf_object_def n bpf_host_def is_bpf_fd_def r f)
  have d: "ne_dir bpf_host p = Inr [Some ''7'']" for p by (simp add: bpf_host_def)
  have w: "bw_notes (scan_proc_bpf bpf_host) = []" "bw_dropped (scan_proc_bpf bpf_host) = 0"
    by (simp_all add: scan_proc_bpf_def d n scan_pid_def o walk_full_def empty_walk_def MAX_BPF_OBJECTS_def
        MAX_FD_PER_PID_def add_object_def push_capped_def Let_def)
  have "descriptor_holds bpf_host 7 (Some ''7'') k m \<longleftrightarrow> k = BpfLink \<and> m = 7" for k m
    by (auto simp flip: object_held simp: o)
  then have "held_objects bpf_host [Some ''7''] = {(7, BpfLink, 7)}"
    by (auto simp: held_objects_def n d)
  with ebpf_objects_exact [OF w] show ?thesis by (auto simp: d)
qed

section \<open>Confinement\<close>

text \<open>
  An unreadable \<open>/proc\<close> is the one failure the confinement audit does not note: it reports no process in
  complain mode and calls the reading complete.
\<close>

lemma unreadable_proc_is_silent:
  assumes "ne_dir env ''/proc'' = Inl e"
  shows "cr_complain_profiles (fst (gather_confinement env)) = [] \<and> snd (gather_confinement env) = []
    \<and> \<not> cr_attr_read_incomplete (fst (gather_confinement env))"
  using assms by (simp add: gather_confinement_def Let_def)

end
