(* ===== verification/SelfCheck.thy ===== *)
theory SelfCheck
  imports ScanText Provenance
begin

text \<open>
  What the program knows of itself: \<open>scanners/self_integrity.rs\<close>, \<open>self_identity.rs\<close>, the ages of
  \<open>proc_time.rs\<close>, the sink of \<open>coverage.rs\<close> and the cache of \<open>verdict_cache.rs\<close>. What \<open>/proc\<close> gives, the clock,
  the metadata of files and serde are parameters.
\<close>

section \<open>The coverage sink\<close>

definition MAX_ENTRIES :: nat where "MAX_ENTRIES = 1024"

definition suppressed_note :: string where
  "suppressed_note = ''coverage cap reached '' @ em_dash @ '' further warnings suppressed''"

text \<open>\<open>record\<close> outside the tests.\<close>

definition record_note :: "string \<Rightarrow> string list \<Rightarrow> string list" where
  "record_note msg v =
     (if length v < MAX_ENTRIES then v @ [msg]
      else if length v = MAX_ENTRIES then v @ [suppressed_note]
      else v)"

text \<open>What is drained, and what the sink holds afterwards.\<close>

definition drain_scoped :: "string \<Rightarrow> string list \<Rightarrow> string list \<times> string list" where
  "drain_scoped scope v = (map (\<lambda>msg. ''['' @ scope @ ''] '' @ msg) v, [])"

section \<open>Verdicts of executables\<close>

definition CACHE_VERSION :: u32 where "CACHE_VERSION = 1"
definition TTL_SECS :: u64 where "TTL_SECS = 14 * 24 * 3600"

datatype verdict = Benign | Malicious

record cache_entry =
  ve_inode :: u64
  ve_mtime :: int
  ve_size :: u64
  ve_verdict :: verdict
  ve_scanned_at :: u64
  ve_version :: u32
  ve_sha256 :: string

record verdict_cache =
  vc_path :: string
  vc_entries :: "string \<rightharpoonup> cache_entry"
  vc_dirty :: bool

record exe_file =
  xf_inode :: u64
  xf_mtime :: int
  xf_size :: u64

text \<open>\<open>now\<close> is the clock if it is usable, \<open>meta\<close> the metadata of the file if it can be had.\<close>

definition is_stale :: "cache_entry \<Rightarrow> u64 option \<Rightarrow> bool" where
  "is_stale e now =
     (ve_version e \<noteq> CACHE_VERSION
      \<or> (case now of
           None \<Rightarrow> True
         | Some n \<Rightarrow> if ve_scanned_at e \<le> n then n - ve_scanned_at e > TTL_SECS else True))"

text \<open>\<open>parsed\<close> is what serde makes of the file, if it was read and is a cache.\<close>

definition load_cache :: "string \<Rightarrow> (string \<rightharpoonup> cache_entry) option \<Rightarrow> verdict_cache" where
  "load_cache path parsed =
     \<lparr>vc_path = path, vc_entries = (case parsed of None \<Rightarrow> Map.empty | Some m \<Rightarrow> m), vc_dirty = False\<rparr>"

definition lookup_verdict ::
  "verdict_cache \<Rightarrow> string \<Rightarrow> exe_file option \<Rightarrow> u64 option \<Rightarrow> verdict option" where
  "lookup_verdict cache exe meta now =
     (case vc_entries cache exe of
        None \<Rightarrow> None
      | Some e \<Rightarrow>
          if is_stale e now then None
          else (case meta of
            None \<Rightarrow> None
          | Some m \<Rightarrow>
              if xf_inode m \<noteq> ve_inode e \<or> xf_mtime m \<noteq> ve_mtime e \<or> xf_size m \<noteq> ve_size e then None
              else Some (ve_verdict e)))"

definition record_verdict ::
  "verdict_cache \<Rightarrow> string \<Rightarrow> verdict \<Rightarrow> exe_file option \<Rightarrow> u64 option \<Rightarrow> verdict_cache \<times> string list" where
  "record_verdict cache exe verdict meta now =
     (case meta of
        None \<Rightarrow> (cache, [])
      | Some m \<Rightarrow>
          (case now of
             None \<Rightarrow>
               (cache, [''verdict cache: wall clock unusable '' @ em_dash
                        @ '' verdict for this binary not cached; the next scan will re-verify''])
           | Some scanned_at \<Rightarrow>
               (cache\<lparr>vc_entries := (vc_entries cache)(exe \<mapsto>
                  \<lparr>ve_inode = xf_inode m, ve_mtime = xf_mtime m, ve_size = xf_size m, ve_verdict = verdict,
                   ve_scanned_at = scanned_at, ve_version = CACHE_VERSION, ve_sha256 = []\<rparr>),
                  vc_dirty := True\<rparr>, [])))"

text \<open>What \<open>persist\<close> asks of the file system, in order; \<open>json\<close> is the text of the entries, \<open>written\<close> whether
  the temporary file could be written.\<close>

datatype fs_op = CreateDirAll string | SetMode string u32 | WriteFile string string | RenameFile string string

definition with_tmp_extension :: "string \<Rightarrow> string" where
  "with_tmp_extension path =
     (case path_file_name path of
        None \<Rightarrow> path
      | Some name \<Rightarrow>
          (let stem = (case split_extension name of None \<Rightarrow> name | Some (s, _) \<Rightarrow> s) in
           case path_parent path of
             None \<Rightarrow> stem @ ''.tmp''
           | Some dir \<Rightarrow> path_join dir (stem @ ''.tmp'')))"

definition persist_ops ::
  "verdict_cache \<Rightarrow> string option \<Rightarrow> bool \<Rightarrow> fs_op list" where
  "persist_ops cache json written =
     (if \<not> vc_dirty cache then []
      else (case path_parent (vc_path cache) of
              None \<Rightarrow> [] | Some dir \<Rightarrow> [CreateDirAll dir, SetMode dir 0x1C0])
        @ (case json of
             None \<Rightarrow> []
           | Some t \<Rightarrow>
               (let tmp = with_tmp_extension (vc_path cache) in
                WriteFile tmp t
                # (if written then [SetMode tmp 0x180, RenameFile tmp (vc_path cache)] else []))))"

section \<open>Ages of processes\<close>

definition age_from_parts :: "u64 \<Rightarrow> u64 \<Rightarrow> u64 \<Rightarrow> u64 option" where
  "age_from_parts start_ticks clk_tck uptime_secs =
     (if clk_tck = 0 then None
      else let start_secs = start_ticks div clk_tck in
        if start_secs \<le> uptime_secs then Some (uptime_secs - start_secs) else None)"

definition parse_u64 :: "string \<Rightarrow> u64 option" where
  "parse_u64 s = map_option of_nat (from_str_radix 64 10 s)"

definition starttime_ticks :: "string \<Rightarrow> u64 option" where
  "starttime_ticks stat =
     (case rsplit_once (CHR '')'') stat of
        None \<Rightarrow> None
      | Some (_, after) \<Rightarrow>
          (let fs = split_ascii_whitespace after in
           if 19 < length fs then parse_u64 (fs ! 19) else None))"

definition CAP_PROC_STAT :: nat where "CAP_PROC_STAT = 1024 * 1024"

definition parse_btime :: "string \<Rightarrow> u64 option" where
  "parse_btime stat =
     (case List.map_filter (strip_prefix ''btime '') (lines stat) of
        [] \<Rightarrow> None | v # _ \<Rightarrow> parse_u64 (trim v))"

definition boot_epoch :: "os_kind + string \<Rightarrow> u64 option \<times> string list" where
  "boot_epoch stat_file =
     (case read_procfs_capped stat_file CAP_PROC_STAT of
        Inl e \<Rightarrow>
          (None, [''proc_time: /proc/stat unreadable ('' @ os_kind_text e @ '') '' @ em_dash
                  @ '' boot epoch unknown; deep ghost analysis loses its metadata sharpening''])
      | Inr (stat, truncated) \<Rightarrow>
          (let btime = parse_btime stat in
           (btime, if btime = None then
              [''proc_time: btime absent from /proc/stat (truncated='' @ show_bool truncated @ '') '' @ em_dash
               @ '' boot epoch unknown; deep ghost analysis loses its metadata sharpening''] else [])))"

section \<open>Identity\<close>

definition SELF_REASON :: string where
  "SELF_REASON =
     ''scanner self-image: ephemeral privileged exec is the expected ''
     @ ''footprint of unlink-on-exec deployment (identity anchored on PID, not process name)''"

record self_identity =
  id_pid :: u32
  id_exe_id :: "(u64 \<times> u64) option"
  id_exe_path :: "string option"
  id_unlinked :: bool

definition strip_deleted_marker :: "string \<Rightarrow> bool \<Rightarrow> string" where
  "strip_deleted_marker raw unlinked =
     (case strip_suffix '' (deleted)'' raw of
        Some stripped \<Rightarrow> if unlinked then stripped else raw
      | None \<Rightarrow> raw)"

text \<open>\<open>meta\<close> is device, inode and number of links of \<open>/proc/self/exe\<close>, \<open>link\<close> what the link reads as.\<close>

definition establish :: "u32 \<Rightarrow> (u64 \<times> u64 \<times> u64) option \<Rightarrow> string option \<Rightarrow> self_identity" where
  "establish pid meta link =
     (let unlinked = (case meta of None \<Rightarrow> False | Some (_, _, nlink) \<Rightarrow> nlink = 0) in
      \<lparr>id_pid = pid, id_exe_id = map_option (\<lambda>(dev, ino, _). (dev, ino)) meta,
       id_exe_path = map_option (\<lambda>p. strip_deleted_marker (from_utf8_lossy p) unlinked) link,
       id_unlinked = unlinked\<rparr>)"

definition is_self :: "self_identity \<Rightarrow> u32 \<Rightarrow> bool" where
  "is_self i pid = (pid = id_pid i)"

definition is_own_image :: "self_identity \<Rightarrow> u64 \<Rightarrow> u64 \<Rightarrow> bool" where
  "is_own_image i dev ino = (id_exe_id i = Some (dev, ino))"

definition attribute_self :: "self_identity \<Rightarrow> suspicious_process list \<Rightarrow> suspicious_process list" where
  "attribute_self i procs =
     map (\<lambda>p. if is_self i (sp_pid p) then p\<lparr>sp_self_attributed := Some SELF_REASON\<rparr> else p) procs"

text \<open>\<open>dir_mode\<close> is the mode of a directory, if its metadata can be had.\<close>

definition dir_is_world_writable :: "(string \<Rightarrow> u32 option) \<Rightarrow> string \<Rightarrow> bool" where
  "dir_is_world_writable dir_mode dir =
     (case dir_mode dir of None \<Rightarrow> False | Some m \<Rightarrow> and m 2 \<noteq> 0)"

definition identity_report :: "(string \<Rightarrow> u32 option) \<Rightarrow> self_identity \<Rightarrow> self_integrity_report" where
  "identity_report dir_mode i =
     \<lparr>sir_compromised = False,
      sir_warnings =
        (case id_exe_path i of
           None \<Rightarrow> [''/proc/self/exe unreadable '' @ em_dash @ '' self-attribution degrades to PID-only'']
         | Some path \<Rightarrow>
             (if id_unlinked i then
                [''exec image '' @ path @ '' is unlinked (nlink=0); SEC-017/SEC-019 self-attribution ''
                 @ ''active for pid '' @ show_word (id_pid i)] else [])
             @ (case path_parent path of
                  None \<Rightarrow> []
                | Some dir \<Rightarrow>
                    if dir_is_world_writable dir_mode dir then
                      [''exec image loaded from world-writable directory '' @ dir @ '' '' @ em_dash
                       @ '' image provenance is NOT verifiable from inside this process, and any NOPASSWD ''
                       @ ''sudo rule naming '' @ path @ '' grants an unrestricted root shell (see SEC-005)'']
                    else []))\<rparr>"

section \<open>Integrity\<close>

record integrity_report =
  ir_compromised :: bool
  ir_warnings :: "string list"

text \<open>
  \<open>se_maps\<close>: the file could not be opened, or how many bytes of it were read, if reading succeeded;
  \<open>se_table\<close> the opened socket tables; \<open>se_over_ssh\<close> whether \<open>SSH_CONNECTION\<close> is set.
\<close>

record self_env =
  se_read :: "string \<Rightarrow> os_kind + string"
  se_maps :: "os_kind + nat option"
  se_table :: "string \<Rightarrow> os_kind opened"
  se_pid :: nat
  se_over_ssh :: bool
  se_error :: "os_kind \<Rightarrow> string"

definition read_to_string :: "self_env \<Rightarrow> string \<Rightarrow> os_kind + string" where
  "read_to_string env path =
     (case se_read env path of
        Inl e \<Rightarrow> Inl e | Inr s \<Rightarrow> if valid_utf8 s then Inr s else Inl InvalidData)"

definition warn :: "bool \<Rightarrow> string \<Rightarrow> integrity_report \<Rightarrow> integrity_report" where
  "warn bad msg r = r\<lparr>ir_compromised := (bad \<or> ir_compromised r), ir_warnings := ir_warnings r @ [msg]\<rparr>"

definition self_status_line :: "string \<Rightarrow> integrity_report \<times> bool \<Rightarrow> integrity_report \<times> bool" where
  "self_status_line line acc =
     (let (r, seen) = acc;
          (r1, seen1) = (case strip_prefix ''Seccomp:'' line of
             None \<Rightarrow> (r, seen)
           | Some rest \<Rightarrow>
               (if trim rest = ''2'' then
                  warn False (''self-integrity NOTE: Seccomp filter is active on the mapper process. ''
                    @ ''Expected under container/hardened unit; tamper only if unexpected on bare metal.'') r
                else r, True));
          r2 = (case strip_prefix ''NoNewPrivs:'' line of
             None \<Rightarrow> r1
           | Some rest \<Rightarrow>
               if trim rest = ''1'' then
                 warn False (''self-integrity NOTE: NoNewPrivs is set on the mapper process. ''
                   @ ''Expected in containers/hardened units.'') r1
               else r1);
          r3 = (case strip_prefix ''TracerPid:'' line of
             None \<Rightarrow> r2
           | Some rest \<Rightarrow>
               if trim rest \<noteq> ''0'' then
                 warn True (''self-integrity WARNING: mapper is being traced by unknown process (PID ''
                   @ trim rest @ '')'') r2
               else r2)
      in (r3, seen1))"

definition check_proc_self_status :: "self_env \<Rightarrow> integrity_report \<Rightarrow> integrity_report" where
  "check_proc_self_status env r =
     (case read_to_string env ''/proc/self/status'' of
        Inl e \<Rightarrow>
          warn True (''self-integrity CRITICAL: cannot read /proc/self/status ('' @ se_error env e @ '') ''
            @ en_dash @ '' kernel is blocking self-introspection'') r
      | Inr content \<Rightarrow>
          (case fold self_status_line (lines content) (r, False) of (r', seen) \<Rightarrow>
             if seen then r'
             else warn False ''self-integrity NOTE: Seccomp line missing from /proc/self/status'' r'))"

definition check_proc_self_maps :: "self_env \<Rightarrow> integrity_report \<Rightarrow> integrity_report" where
  "check_proc_self_maps env r =
     (case se_maps env of
        Inl e \<Rightarrow> warn True (''self-integrity CRITICAL: cannot open /proc/self/maps ('' @ se_error env e @ '')'') r
      | Inr n \<Rightarrow>
          if n = Some 0 then
            warn True (''self-integrity CRITICAL: /proc/self/maps is empty '' @ en_dash
              @ '' kernel/rootkit is hiding memory mappings'') r
          else r)"

definition stat_pid :: "string \<Rightarrow> string option" where
  "stat_pid content =
     (case rsplit_once (CHR '')'') content of
        None \<Rightarrow> None
      | Some (before, _) \<Rightarrow> map_option (\<lambda>p. trim (fst p)) (split_once (CHR ''('') before))"

definition check_proc_self_stat_pid :: "self_env \<Rightarrow> integrity_report \<Rightarrow> integrity_report" where
  "check_proc_self_stat_pid env r =
     (case read_to_string env ''/proc/self/stat'' of
        Inl _ \<Rightarrow> r
      | Inr content \<Rightarrow>
          (case stat_pid content of
             None \<Rightarrow> r
           | Some pid \<Rightarrow>
               if pid \<noteq> show_nat (se_pid env) then
                 warn True (''self-integrity CRITICAL: PID spoofing detected '' @ en_dash @ '' stat reports '' @ pid
                   @ '', real pid is '' @ show_nat (se_pid env)) r
               else r))"

definition check_os_type :: "self_env \<Rightarrow> integrity_report \<Rightarrow> integrity_report" where
  "check_os_type env r =
     (case read_to_string env ''/proc/sys/kernel/ostype'' of
        Inl _ \<Rightarrow> r
      | Inr content \<Rightarrow>
          if trim content \<noteq> ''Linux'' then
            warn True (''self-integrity CRITICAL: unexpected ostype '' @ [CHR 0x27] @ trim content @ [CHR 0x27]
              @ '' '' @ en_dash @ '' possible kernel hooking'') r
          else r)"

definition family_has_established :: "self_env \<Rightarrow> string \<Rightarrow> bool option" where
  "family_has_established env path =
     (case open_regular_streaming (se_table env path) of
        Inl _ \<Rightarrow> None
      | Inr content \<Rightarrow>
          Some (list_ex (\<lambda>l. let fs = split_ascii_whitespace l in 3 < length fs \<and> fs ! 3 = ''01'')
            (takeWhile valid_utf8 (drop 1 (lines content)))))"

definition combine_established :: "bool option \<Rightarrow> bool option \<Rightarrow> bool option" where
  "combine_established v4 v6 =
     (if v4 = None \<and> v6 = None then None else Some (v4 = Some True \<or> v6 = Some True))"

definition check_ssh_transport_invariant :: "self_env \<Rightarrow> integrity_report \<Rightarrow> integrity_report" where
  "check_ssh_transport_invariant env r =
     (if \<not> se_over_ssh env then r
      else (case combine_established (family_has_established env ''/proc/net/tcp'')
                   (family_has_established env ''/proc/net/tcp6'') of
        None \<Rightarrow> r
      | Some True \<Rightarrow> r
      | Some False \<Rightarrow>
          warn True (''self-integrity CRITICAL: launched over SSH, but neither /proc/net/tcp ''
            @ ''nor /proc/net/tcp6 shows an ESTABLISHED connection '' @ en_dash @ '' network stack is ''
            @ ''being filtered by a rootkit'') r))"

definition run_self_integrity_check :: "self_env \<Rightarrow> integrity_report" where
  "run_self_integrity_check env =
     check_ssh_transport_invariant env (check_os_type env (check_proc_self_stat_pid env
       (check_proc_self_maps env (check_proc_self_status env \<lparr>ir_compromised = False, ir_warnings = []\<rparr>))))"

end
