(* ===== verification/SelfCheckLaws.thy ===== *)
theory SelfCheckLaws
  imports SelfCheck
begin

text \<open>
  The sink of notes is bounded and says when it is full; a cached verdict is one that was given not
  long ago to a file of this path, inode, size and modification time; the fields of \<open>/proc/<pid>/stat\<close> are found whatever a process is called; an ordinary
  container does not look compromised.
\<close>

section \<open>The coverage sink\<close>

definition sink_of :: "string list \<Rightarrow> string list" where
  "sink_of msgs = fold record_note msgs []"

lemma record_notes:
  "length v \<le> MAX_ENTRIES \<Longrightarrow> fold record_note msgs v =
     (if length v + length msgs \<le> MAX_ENTRIES then v @ msgs
      else v @ take (MAX_ENTRIES - length v) msgs @ [suppressed_note])"
proof (induction msgs arbitrary: v)
  case (Cons m msgs)
  show ?case
  proof (cases "length v < MAX_ENTRIES")
    case True
    then have "take (MAX_ENTRIES - length v) (m # msgs) = m # take (MAX_ENTRIES - Suc (length v)) msgs"
      by (simp add: take_Cons')
    then show ?thesis using True Cons.IH [of "v @ [m]"] by (simp add: record_note_def)
  next
    case False
    then have full: "length v = MAX_ENTRIES" using Cons.prems by simp
    have "fold record_note ms (v @ [suppressed_note]) = v @ [suppressed_note]" for ms
      by (induction ms) (simp_all add: record_note_def full)
    moreover have "record_note m v = v @ [suppressed_note]" by (simp add: record_note_def full)
    ultimately show ?thesis using full by simp
  qed
qed simp

text \<open>
  Of the notes recorded since the last drain the first 1024 are kept in order and tagged with the scope;
  if there were more, one further note says so; the sink never holds more than 1025 and is empty afterwards.
\<close>

theorem coverage_sink_exact:
  "drain_scoped scope (sink_of msgs) =
     (map (\<lambda>m. ''['' @ scope @ ''] '' @ m)
        (if length msgs \<le> 1024 then msgs else take 1024 msgs @ [suppressed_note]), [])"
  by (simp add: drain_scoped_def sink_of_def record_notes MAX_ENTRIES_def)

section \<open>Verdicts\<close>

text \<open>A deep scan: what it judged, what the file's metadata and the clock were.\<close>

record deep_scan =
  ds_exe :: string
  ds_verdict :: verdict
  ds_meta :: "exe_file option"
  ds_now :: "u64 option"

definition scan_recorded :: "deep_scan \<Rightarrow> bool" where
  "scan_recorded d = (ds_meta d \<noteq> None \<and> ds_now d \<noteq> None)"

definition cache_after :: "deep_scan list \<Rightarrow> verdict_cache \<Rightarrow> verdict_cache" where
  "cache_after ds c = fold (\<lambda>d c. fst (record_verdict c (ds_exe d) (ds_verdict d) (ds_meta d) (ds_now d))) ds c"

definition last_scan :: "string \<Rightarrow> deep_scan list \<Rightarrow> deep_scan option" where
  "last_scan exe ds = List.find (\<lambda>d. ds_exe d = exe \<and> scan_recorded d) (rev ds)"

definition entry_of :: "deep_scan \<Rightarrow> cache_entry" where
  "entry_of d =
     \<lparr>ve_inode = xf_inode (the (ds_meta d)), ve_mtime = xf_mtime (the (ds_meta d)), ve_size = xf_size (the (ds_meta d)),
      ve_verdict = ds_verdict d, ve_scanned_at = the (ds_now d), ve_version = CACHE_VERSION, ve_sha256 = []\<rparr>"

lemma find_append: "List.find P (xs @ ys) = (case List.find P xs of None \<Rightarrow> List.find P ys | Some x \<Rightarrow> Some x)"
  by (induction xs) auto

lemma record_entries:
  "vc_entries (fst (record_verdict c (ds_exe d) (ds_verdict d) (ds_meta d) (ds_now d))) =
     (if scan_recorded d then (vc_entries c)(ds_exe d \<mapsto> entry_of d) else vc_entries c)"
  by (auto simp: record_verdict_def scan_recorded_def entry_of_def split: option.splits)

lemma cache_entries:
  "vc_entries (cache_after ds c) exe =
     (case last_scan exe ds of None \<Rightarrow> vc_entries c exe | Some d \<Rightarrow> Some (entry_of d))"
proof (induction ds rule: rev_induct)
  case (snoc d ds)
  then show ?case
    by (simp add: cache_after_def record_entries last_scan_def)
qed (simp add: cache_after_def last_scan_def)

lemma last_scan_exe: "last_scan exe ds = Some d \<Longrightarrow> ds_exe d = exe \<and> scan_recorded d \<and> d \<in> set ds"
  by (auto simp: last_scan_def dest!: find_SomeD)

text \<open>
  C38: Starting from an empty cache, a verdict is handed out exactly if it is the one of the last recorded
  deep scan of that path, the file has the inode, the modification time and the size it had then, and that
  was at most 14 days ago by a clock that has not gone back; a replaced file, an unusable clock or an old
  scan mean that the file is judged anew. The contents of the file do not enter: an edit that keeps inode and
  size and restores the modification time, which is compared in whole seconds, keeps the old verdict, although
  the README calls the cache content-bound and the head of \<open>verdict_cache.rs\<close> says that any modification
  revokes the verdict.
\<close>

theorem cached_verdict_exact:
  "lookup_verdict (cache_after ds (load_cache path None)) exe meta now = Some v \<longleftrightarrow>
     (\<exists>d m t n. last_scan exe ds = Some d \<and> ds_verdict d = v \<and> ds_meta d = Some m \<and> ds_now d = Some t
        \<and> meta = Some m \<and> now = Some n \<and> t \<le> n \<and> unat n - unat t \<le> 14 * 24 * 3600)"
proof (cases "last_scan exe ds")
  case None
  then show ?thesis by (simp add: lookup_verdict_def cache_entries load_cache_def)
next
  case (Some d)
  then obtain m t where d: "ds_meta d = Some m" "ds_now d = Some t"
    using last_scan_exe [OF Some] by (auto simp: scan_recorded_def)
  have e: "vc_entries (cache_after ds (load_cache path None)) exe = Some (entry_of d)"
    by (simp add: cache_entries Some)
  have ttl: "t \<le> n \<Longrightarrow> (n - t > TTL_SECS) = (unat n - unat t > 14 * 24 * 3600)" for n
    by (simp add: TTL_SECS_def word_less_nat_alt unat_sub)
  have same: "(xf_inode x = xf_inode m \<and> xf_mtime x = xf_mtime m \<and> xf_size x = xf_size m) = (x = m)" for x :: exe_file
    by (cases x; cases m) auto
  show ?thesis
    using ttl same by (cases now; cases meta)
      (auto simp: lookup_verdict_def e Some d entry_of_def is_stale_def not_less)
qed

section \<open>Fields of a stat line\<close>

text \<open>
  A line of \<open>/proc/<pid>/stat\<close>: the name in parentheses may be any text, also one that looks like fields or
  has parentheses of its own.
\<close>

definition stat_text :: "nat \<Rightarrow> string \<Rightarrow> string list \<Rightarrow> string" where
  "stat_text pid comm fs = show_nat pid @ '' ('' @ comm @ '') '' @ join '' '' fs"

definition stat_fields_ok :: "string list \<Rightarrow> bool" where
  "stat_fields_ok fs = (list_all (\<lambda>w. plain_word w \<and> CHR '')'' \<notin> set w) fs)"

lemma stat_split:
  assumes "stat_fields_ok fs"
  shows "rsplit_once (CHR '')'') (stat_text pid comm fs) = Some (show_nat pid @ '' ('' @ comm, CHR '' '' # join '' '' fs)"
proof -
  have "CHR '')'' \<notin> set (join '' '' fs)"
    using assms unfolding stat_fields_ok_def by (induction "'' ''" fs rule: join.induct) auto
  then have "split_once (CHR '')'') (rev (join '' '' fs) @ CHR '' '' # CHR '')'' # rev comm @ rev (show_nat pid @ '' (''))
      = Some (rev (join '' '' fs) @ '' '', rev comm @ rev (show_nat pid @ '' (''))"
    using split_once_append [of "CHR '')''" "rev (join '' '' fs) @ '' ''"] by simp
  then show ?thesis by (simp add: rsplit_once_def stat_text_def)
qed

lemma ascii_words_indent: "split_ascii_whitespace (CHR '' '' # s) = split_ascii_whitespace s"
  by (simp add: split_ascii_whitespace_def is_ascii_ws_def)

text \<open>
  C40: The start time of a process is the twentieth field after its name, and the number before its name is
  its identifier, whatever the process calls itself; it cannot push the fields by a name with parentheses,
  blanks or numbers.
\<close>

theorem stat_fields_unforgeable:
  assumes "stat_fields_ok fs" "fs ! 19 = show_word (t :: u64)" "19 < length fs"
  shows "starttime_ticks (stat_text pid comm fs) = Some t \<and> stat_pid (stat_text pid comm fs) = Some (show_nat pid)"
proof
  have "list_all plain_word fs" using assms(1) by (simp add: stat_fields_ok_def list_all_iff)
  then have w: "split_ascii_whitespace (CHR '' '' # join '' '' fs) = fs"
    using ascii_split_join [OF visible_words] by (simp add: ascii_words_indent)
  have "parse_u64 (show_word t) = Some t"
    using parse_show_nat [of "unat t" 64] unsigned_less [of t, where 'a = nat] by (simp add: parse_u64_def show_word_def)
  then show "starttime_ticks (stat_text pid comm fs) = Some t"
    using assms(2,3) by (simp add: starttime_ticks_def stat_split [OF assms(1)] w Let_def)
  have "CHR ''('' \<notin> set (show_nat pid @ '' '')"
    using show_nat_digits [of pid] by (auto simp: list_all_iff byte_def)
  from split_once_append [OF this, of comm]
  have "split_once (CHR ''('') (show_nat pid @ '' ('' @ comm) = Some (show_nat pid @ '' '', comm)" by simp
  moreover have "trim (show_nat pid @ '' '') = show_nat pid" using show_nat_visible [of pid] by (intro trim_trailing_blank) (simp_all add: list_all_iff)
  ultimately show "stat_pid (stat_text pid comm fs) = Some (show_nat pid)"
    by (simp add: stat_pid_def stat_split [OF assms(1)])
qed

theorem stat_fields_unforgeable_witness:
  "starttime_ticks (stat_text 7 '') S 1 (x'' (replicate 19 ''0'' @ [show_word (5 :: u64)])) = Some 5"
proof -
  have p: "plain_word (show_word w)" "CHR '')'' \<notin> set (show_word w)" for w :: u64
    using show_nat_visible [of "unat w"] show_nat_digits [of "unat w"]
    by (auto simp: plain_word_def show_word_def list_all_iff byte_def)
  have "stat_fields_ok (replicate 19 ''0'' @ [show_word (5 :: u64)])"
    using p [of 5] by (simp add: stat_fields_ok_def list_all_iff plain_word_def visible_def)
  moreover have "(replicate 19 ''0'' @ [show_word (5 :: u64)]) ! 19 = show_word (5 :: u64)"
    by (simp add: nth_append)
  ultimately show ?thesis using stat_fields_unforgeable by simp
qed

section \<open>Integrity\<close>

definition traced_line :: "string \<Rightarrow> bool" where
  "traced_line l = (case strip_prefix ''TracerPid:'' l of None \<Rightarrow> False | Some rest \<Rightarrow> trim rest \<noteq> ''0'')"

text \<open>What counts as tampering: each of the five checks, as a condition on what the kernel says.\<close>

definition status_tampered :: "self_env \<Rightarrow> bool" where
  "status_tampered env =
     (case read_to_string env ''/proc/self/status'' of
        Inl _ \<Rightarrow> True | Inr content \<Rightarrow> list_ex traced_line (lines content))"

definition maps_tampered :: "self_env \<Rightarrow> bool" where
  "maps_tampered env = (case se_maps env of Inl _ \<Rightarrow> True | Inr n \<Rightarrow> n = Some 0)"

definition pid_tampered :: "self_env \<Rightarrow> bool" where
  "pid_tampered env =
     (case read_to_string env ''/proc/self/stat'' of
        Inl _ \<Rightarrow> False
      | Inr content \<Rightarrow> stat_pid content \<noteq> None \<and> stat_pid content \<noteq> Some (show_nat (se_pid env)))"

definition ostype_tampered :: "self_env \<Rightarrow> bool" where
  "ostype_tampered env =
     (case read_to_string env ''/proc/sys/kernel/ostype'' of Inl _ \<Rightarrow> False | Inr content \<Rightarrow> trim content \<noteq> ''Linux'')"

definition transport_hidden :: "self_env \<Rightarrow> bool" where
  "transport_hidden env =
     (se_over_ssh env
      \<and> (family_has_established env ''/proc/net/tcp'' \<noteq> None \<or> family_has_established env ''/proc/net/tcp6'' \<noteq> None)
      \<and> family_has_established env ''/proc/net/tcp'' \<noteq> Some True
      \<and> family_has_established env ''/proc/net/tcp6'' \<noteq> Some True)"

lemma warn_compromised [simp]: "ir_compromised (warn bad msg r) = (bad \<or> ir_compromised r)"
  by (simp add: warn_def)

lemma self_status_line_compromised:
  "ir_compromised (fst (self_status_line l acc)) = (ir_compromised (fst acc) \<or> traced_line l)"
  by (simp add: self_status_line_def traced_line_def Let_def split: option.splits prod.splits)

lemma status_lines_compromised:
  "ir_compromised (fst (fold self_status_line ls acc)) = (ir_compromised (fst acc) \<or> list_ex traced_line ls)"
  by (induction ls arbitrary: acc) (simp_all add: self_status_line_compromised)

lemma checks_compromised:
  "ir_compromised (check_proc_self_status env r) = (ir_compromised r \<or> status_tampered env)"
  "ir_compromised (check_proc_self_maps env r) = (ir_compromised r \<or> maps_tampered env)"
  "ir_compromised (check_proc_self_stat_pid env r) = (ir_compromised r \<or> pid_tampered env)"
  "ir_compromised (check_os_type env r) = (ir_compromised r \<or> ostype_tampered env)"
  "ir_compromised (check_ssh_transport_invariant env r) = (ir_compromised r \<or> transport_hidden env)"
proof -
  show "ir_compromised (check_proc_self_status env r) = (ir_compromised r \<or> status_tampered env)"
  proof (cases "read_to_string env ''/proc/self/status''")
    case (Inr content)
    obtain r' seen where f: "fold self_status_line (lines content) (r, False) = (r', seen)"
      by (cases "fold self_status_line (lines content) (r, False)")
    then have "ir_compromised r' = (ir_compromised r \<or> list_ex traced_line (lines content))"
      using status_lines_compromised [of "lines content" "(r, False)"] by simp
    then show ?thesis by (simp add: check_proc_self_status_def status_tampered_def Inr f)
  qed (simp add: check_proc_self_status_def status_tampered_def)
  show "ir_compromised (check_proc_self_maps env r) = (ir_compromised r \<or> maps_tampered env)"
    by (auto simp: check_proc_self_maps_def maps_tampered_def split: sum.splits)
  show "ir_compromised (check_proc_self_stat_pid env r) = (ir_compromised r \<or> pid_tampered env)"
    by (auto simp: check_proc_self_stat_pid_def pid_tampered_def split: sum.splits option.splits)
  show "ir_compromised (check_os_type env r) = (ir_compromised r \<or> ostype_tampered env)"
    by (auto simp: check_os_type_def ostype_tampered_def split: sum.splits)
  show "ir_compromised (check_ssh_transport_invariant env r) = (ir_compromised r \<or> transport_hidden env)"
    by (auto simp: check_ssh_transport_invariant_def transport_hidden_def combine_established_def split: option.splits bool.splits)
qed

text \<open>
  The program calls itself compromised exactly if the kernel refuses its status, a tracer is attached,
  its memory map is missing or empty, another identifier or another system is reported, or it runs over SSH
  and no readable socket table has the connection. A seccomp filter, \<open>NoNewPrivs\<close>, an unreadable \<open>stat\<close> or
  missing socket tables, as in containers, never make it so.
\<close>

theorem compromised_exactly:
  "ir_compromised (run_self_integrity_check env) =
     (status_tampered env \<or> maps_tampered env \<or> pid_tampered env \<or> ostype_tampered env \<or> transport_hidden env)"
  by (simp add: run_self_integrity_check_def checks_compromised)

section \<open>Identity\<close>

lemma attribute_self_spec:
  "length (attribute_self i procs) = length procs"
  "map (\<lambda>p. p\<lparr>sp_self_attributed := None\<rparr>) (attribute_self i procs) = map (\<lambda>p. p\<lparr>sp_self_attributed := None\<rparr>) procs"
  "p \<in> set procs \<Longrightarrow> sp_pid p \<noteq> id_pid i \<Longrightarrow> p \<in> set (attribute_self i procs)"
  by (auto simp: attribute_self_def is_self_def image_iff intro!: bexI [of _ p])

text \<open>An age is never a saturated zero: it is the uptime less the start, or it is not known.\<close>

lemma age_never_saturates:
  "age_from_parts start hz up = Some a \<Longrightarrow> unat a + unat start div unat hz = unat up"
  by (auto simp: age_from_parts_def Let_def word_le_nat_alt unat_sub unat_div split: if_splits)

end
