(* ===== verification/Spec2Isabelle.thy ===== *)
theory Spec2Isabelle
  imports Remote Verdict Classifiers DriftLaws SudoersLaws KnownHostsLaws SshConfig FleetLaws AccountsLaws ProcNetLaws
    ProvenanceLaws ExecStartLaws InjectionLaws HardeningLaws KernelScanLaws HostScanLaws SelfCheckLaws
begin

text \<open>
  A model of the owlzops mapper, a command line tool that audits Linux hosts and fleets of them, and
  the theorems that make its decisions correct. Paths are relative to \<open>src/\<close> of the crate.

  \<^bold>\<open>The program.\<close> Scanners (\<open>scanners/\<close>) read \<open>/proc\<close>, \<open>/sys\<close>, \<open>/etc\<close> and the answers of a few tools and fill
  an \<open>AgentReport\<close> (\<open>models.rs\<close>); what they could not read they note in the coverage sink
  (\<open>coverage.rs\<close>). \<open>evaluate\<close> (\<open>scoring.rs\<close>) turns a report into findings, a score and a verdict; a policy
  of accepted risks (\<open>acceptance.rs\<close>) may lower the weight of some. A run over a fleet (\<open>main.rs\<close>) scans
  hosts through SSH (\<open>runner.rs\<close>, \<open>ssh_engine.rs\<close>, \<open>known_hosts.rs\<close>, \<open>ssh_config.rs\<close>), appends each report to
  a JSONL file from which a later run resumes, and ends with an exit code. \<open>compare.rs\<close> compares the
  reports of two runs.

  \<^bold>\<open>Ground.\<close>
  \<^item> \<open>Prelude\<close>: machine integers (\<open>u8\<close> to \<open>u64\<close> are words), saturating arithmetic, lemmas on lists.
  \<^item> \<open>RustStr\<close>, \<open>RustPath\<close>, \<open>ScanText\<close>: the parts of \<open>str\<close>, \<open>fmt\<close> and \<open>std::path\<close> the sources use. A Rust
    string is the list of its bytes; \<open>ScanText\<close> also has the rows of a table with blanks between its columns, from
    which the specifications of kernel tables are written.
  \<^item> \<open>SafeText\<close>: UTF-8 and its replacement, the capped readers of \<open>safe_io.rs\<close>, the sanitizers of \<open>utils.rs\<close>.
  \<^item> \<open>ScanBase\<close>: the error kinds the scanners tell apart, splitting and number formats; the file system they see is
    the record \<open>fs_env\<close> of \<open>Provenance\<close>.

  \<^bold>\<open>Judging a report.\<close>
  \<^item> \<open>Models\<close>: the records and enums of \<open>models.rs\<close>, with the field names prefixed and the derived defaults.
  \<^item> \<open>Utils\<close>, \<open>Capabilities\<close>, \<open>Generators\<close>: the classifiers of \<open>utils.rs\<close>, \<open>scanners/capabilities.rs\<close>
    and \<open>scanners/generators.rs\<close>; their laws are in \<open>Classifiers\<close>.
  \<^item> \<open>Findings\<close>, \<open>RulesAccess\<close>, \<open>RulesProcess\<close>, \<open>RulesMemory\<close>, \<open>RulesKernel\<close>, \<open>RulesPersistence\<close>, \<open>RulesRuntime\<close>,
    \<open>RulesHygiene\<close>: one definition \<open>rule_sec_...\<close> per block of \<open>evaluate\<close>, with its guards, weights and texts.
  \<^item> \<open>Scoring\<close>: \<open>evaluate\<close> as a whole, \<open>score\<close>, the verdict. The locale \<open>rule_engine\<close> is what the
    consumers of findings rely on.
  \<^item> \<open>Overlay\<close>, \<open>Acceptance\<close>: what hiding findings can do to score and verdict (locale \<open>overlay\<close>), and the policy
    as an interpretation of it.
  \<^item> \<open>Verdict\<close>: which facts compromise a report, what a failed scanner withholds, the score against
    unbounded sums, the weights.
  \<^item> \<open>Outcome\<close>: coverage, the builder that aggregates reports (locale \<open>commuting_steps\<close>: in any order), the exit code.

  \<^bold>\<open>Runs over a fleet.\<close>
  \<^item> \<open>Resume\<close>: \<open>resume_scan\<close>, the append path of the writer and \<open>parse_jsonl_strict_path\<close> of \<open>main.rs\<close>.
  \<^item> \<open>Fleet\<close>, \<open>FleetLaws\<close>: the host list, the local scan, and the scheduler as an \<open>inductive\<close> relation
    \<open>fleet_step\<close>, whose results and interrupts are arbitrary: safety in every reachable state, termination,
    and service of every host that waits.
  \<^item> \<open>Remote\<close>: \<open>scan_remote_host\<close> with its retries, argument validation, staging and time budgets of \<open>ssh_engine.rs\<close>.
  \<^item> \<open>KnownHosts\<close>, \<open>KnownHostsLaws\<close>, \<open>SshConfig\<close>: both trust stores, the decision about a server key and the pin
    it writes, the parser of client configurations.
  \<^item> \<open>Drift\<close>, \<open>DriftLaws\<close>: \<open>compare.rs\<close>; the order of a hash set or map is the parameter \<open>compare_env\<close>, and the
    results are shown not to depend on it (locale \<open>set_valued\<close> for the blocks that compare sets).

  \<^bold>\<open>Scanners.\<close> Each theory models the files named at its beginning, and its laws are in the theory of the same name
  with \<open>Laws\<close>. \<open>Sudoers\<close>; \<open>Accounts\<close> (the two account scans; locale \<open>counting_check\<close> for the checks that count
  what they could not read); \<open>ProcNet\<close> (sockets, their processes, foreign network namespaces, the network
  inventory); \<open>Provenance\<close> (package databases and the memo over them); \<open>ExecStart\<close> (units and cron);
  \<open>Injection\<close> (library search paths, preloads, PAM); \<open>Hardening\<close>; \<open>KernelScan\<close> (modules, taint, ftrace,
  kernel facts); \<open>HostScan\<close> (mount namespaces, mounts, published ports, confinement, locked files, eBPF);
  \<open>SelfCheck\<close> (coverage sink, verdict cache, the program's own identity and integrity, process times).
  The laws have one of two forms. A completeness law says that a scan without a note has missed
  nothing, against a specification of what there is to find that does not use the scanner. A round trip writes a
  file or a table from its parts, with the blanks and the letter case that the kernel or the user may choose,
  and says that the parts are read back.

  \<^bold>\<open>Parameters.\<close> Code that is not in the repository is an argument: the JSON parser (serde),
  \<open>chrono\<close>, base64 and HMAC, public keys, child processes and an SSH session by their results, the file system and
  \<open>/proc\<close> as functions from paths to contents or errors, clocks, and the order of hash containers. Hypotheses
  about them are in the statements.

  \<^bold>\<open>Errors, bounds, termination.\<close> Errors are values of a sum or an option; a panic is \<open>None\<close>. There is no fuel:
  every function is total. Loops that are not structural have a measure; the walks over includes
  (\<open>sudoers_walk\<close>, \<open>conf_walk\<close>) end because the code itself bounds the depth, the files and the queue, and
  the bounds are the source's constants under their names (\<open>MAX_INCLUDE_DEPTH\<close>, \<open>MAX_SUDOERS_FILES\<close>,
  \<open>MAX_CONF_FILES\<close>, \<open>MAX_ENTRIES\<close> and so on).

  \<^bold>\<open>Where the code falls short.\<close> Some lemmas show what a component does not do, next to the law whose scope they
  limit: \<open>argument_read_as_command\<close> and \<open>glued_runas_is_missed\<close> (sudoers), \<open>second_star_is_missed\<close> (library search
  paths), \<open>continued_command_is_missed\<close> and \<open>second_command_is_missed\<close> (units), \<open>continued_pam_line_is_missed\<close>,
  \<open>line_feed_hides_the_module\<close> (ftrace), \<open>unreadable_descriptor_is_silent\<close> (eBPF), \<open>unreadable_proc_is_silent\<close>
  (confinement), \<open>torn_pin_loses_the_next\<close> (known hosts), \<open>failed_query_is_remembered\<close> (packages). Four laws state what the code does where a document says otherwise, and
  say so: the compromise identifiers, removed hosts in a comparison, containers among the mount namespaces, and
  the verdict cache, which does not look at contents.

  \<^bold>\<open>Not modelled.\<close> The collectors that probe running processes or walk the file system (\<open>ghost_pid\<close>,
  \<open>reverse_shell\<close>, \<open>runtime\<close>, \<open>library_injection\<close>, \<open>deep\<close>, \<open>setuid\<close>, \<open>fs_inventory\<close>, \<open>packages\<close>, \<open>storage\<close>, \<open>dlp\<close>,
  \<open>host\<close>, \<open>security\<close>, \<open>systemd_state\<close>), the SSH session itself, output and presentation, secrets and
  signatures, and the join of the scanners: they are I/O, or races that a file system as a function does not have.
  The model of a scan reads one state of the host; the second snapshot of the kernel modules is the exception.
\<close>

end
